(* ===== verification/Prelude.thy ===== *)
theory Prelude
  imports Main "HOL-Library.Sublist" "HOL-Library.Code_Target_Nat"
begin

text \<open>
  Shared ground of the development: Python strings as lists of code points, the string and
  list operations of the Python standard library that the bot calls, and the facts about
  them that the component theories share.

  A Python \<open>str\<close> is a sequence of Unicode code points, so it is modelled as \<open>nat list\<close>;
  \<open>U\<close> writes a literal: every ASCII character stands for its code, and a decimal number in
  braces stands for that code point (\<open>U ''n{227}o''\<close> is the Portuguese word with a tilde,
  \<open>{10}\<close> a newline, \<open>{123}\<close> a brace).  White space and decimal digits are the exact
  Unicode sets.  Case mapping covers ASCII and the Latin-1 block, the letters of the bot's
  texts; other code points map to themselves.
\<close>

named_theorems str_simps \<open>evaluation of string operations\<close>
named_theorems inv_intros \<open>preservation of the component invariants\<close>

type_synonym pystr = "nat list"

subsection \<open>Literals\<close>

fun lit_go :: "nat option \<Rightarrow> string \<Rightarrow> pystr" where
  "lit_go _ [] = []"
| "lit_go None (c # cs) =
     (if c = CHR ''{'' then lit_go (Some 0) cs else of_char c # lit_go None cs)"
| "lit_go (Some n) (c # cs) =
     (if c = CHR ''}'' then n # lit_go None cs
      else lit_go (Some (10 * n + (of_char c - 48))) cs)"

definition U :: "string \<Rightarrow> pystr" where
  "U s = lit_go None s"

lemma U_Nil [simp]: "U [] = []"
  by (simp add: U_def)

lemmas U_eval [str_simps] = U_def lit_go.simps

subsection \<open>Character classes\<close>

definition space_cps :: "nat list" where
  "space_cps = [9, 10, 11, 12, 13, 28, 29, 30, 31, 32, 133, 160, 5760, 8192, 8193, 8194, 8195,
     8196, 8197, 8198, 8199, 8200, 8201, 8202, 8232, 8233, 8239, 8287, 12288]"

definition is_space :: "nat \<Rightarrow> bool" where
  "is_space c \<longleftrightarrow> c \<in> set space_cps"

text \<open>The zeros of the blocks of decimal digits (category Nd): each block has ten digits.\<close>

definition nd_zeros :: "nat list" where
  "nd_zeros = [48, 1632, 1776, 1984, 2406, 2534, 2662, 2790, 2918, 3046, 3174, 3302, 3430, 3558,
     3664, 3792, 3872, 4160, 4240, 6112, 6160, 6470, 6608, 6784, 6800, 6992, 7088, 7232, 7248,
     42528, 43216, 43264, 43472, 43504, 43600, 44016, 65296, 66720, 68912, 69734, 69872, 69942,
     70096, 70384, 70736, 70864, 71248, 71360, 71472, 71904, 72016, 72784, 73040, 73120, 92768,
     92864, 93008, 120782, 120792, 120802, 120812, 120822, 123200, 123632, 125264, 130032]"

fun digit_in :: "nat list \<Rightarrow> nat \<Rightarrow> nat option" where
  "digit_in [] c = None"
| "digit_in (z # zs) c = (if z \<le> c \<and> c < z + 10 then Some (c - z) else digit_in zs c)"

definition decimal_value :: "nat \<Rightarrow> nat option" where
  "decimal_value c = digit_in nd_zeros c"

definition is_decimal :: "nat \<Rightarrow> bool" where
  "is_decimal c \<longleftrightarrow> decimal_value c \<noteq> None"

text \<open>
  \<open>str.isdigit\<close> also accepts digits that are not decimal: superscripts, circled digits and
  the like, for which \<open>int()\<close> raises \<open>ValueError\<close>.
\<close>

definition other_digit_ranges :: "(nat \<times> nat) list" where
  "other_digit_ranges = [(178, 179), (185, 185), (4969, 4977), (6618, 6618), (8304, 8304),
     (8308, 8313), (8320, 8329), (9312, 9320), (9332, 9340), (9352, 9360), (9450, 9450),
     (9461, 9469), (9471, 9471), (10102, 10110), (10112, 10120), (10122, 10130),
     (68160, 68163), (69216, 69224), (69714, 69722), (127232, 127242)]"

definition is_digit :: "nat \<Rightarrow> bool" where
  "is_digit c \<longleftrightarrow> is_decimal c \<or> (\<exists>r \<in> set other_digit_ranges. fst r \<le> c \<and> c \<le> snd r)"

definition str_isdigit :: "pystr \<Rightarrow> bool" where
  "str_isdigit s \<longleftrightarrow> s \<noteq> [] \<and> list_all is_digit s"

text \<open>
  \<open>int(s)\<close> on a string with no sign and no underscore; \<open>None\<close> is \<open>ValueError\<close>, which
  Python also raises beyond its limit of 4300 digits.
\<close>

fun int_go :: "nat \<Rightarrow> pystr \<Rightarrow> nat option" where
  "int_go acc [] = Some acc"
| "int_go acc (c # cs) =
     (case decimal_value c of None \<Rightarrow> None | Some d \<Rightarrow> int_go (10 * acc + d) cs)"

definition max_str_digits :: nat where
  "max_str_digits = 4300"

definition py_int :: "pystr \<Rightarrow> nat option" where
  "py_int s = (if s = [] \<or> max_str_digits < length s then None else int_go 0 s)"

subsection \<open>Case\<close>

definition lower_cp :: "nat \<Rightarrow> nat" where
  "lower_cp c = (if 65 \<le> c \<and> c \<le> 90 \<or> (192 \<le> c \<and> c \<le> 222 \<and> c \<noteq> 215) then c + 32 else c)"

definition lower :: "pystr \<Rightarrow> pystr" where
  "lower s = map lower_cp s"

definition upper_cp :: "nat \<Rightarrow> pystr" where
  "upper_cp c =
     (if 97 \<le> c \<and> c \<le> 122 \<or> (224 \<le> c \<and> c \<le> 254 \<and> c \<noteq> 247) then [c - 32]
      else if c = 223 then [83, 83] else if c = 181 then [924] else if c = 255 then [376]
      else [c])"

definition upper :: "pystr \<Rightarrow> pystr" where
  "upper s = concat (map upper_cp s)"

lemma lower_cp_idem [simp]: "lower_cp (lower_cp c) = lower_cp c"
  by (auto simp: lower_cp_def)

lemma lower_idem [simp]: "lower (lower s) = lower s"
  by (simp add: lower_def)

lemma lower_Nil [simp]: "lower [] = []" and lower_Cons [simp]: "lower (c # s) = lower_cp c # lower s"
  and lower_append [simp]: "lower (s @ t) = lower s @ lower t"
  and length_lower [simp]: "length (lower s) = length s"
  by (simp_all add: lower_def)

lemma lower_eq_Nil [simp]: "lower s = [] \<longleftrightarrow> s = []"
  by (simp add: lower_def)


subsection \<open>Trimming, splitting, joining\<close>

definition lstrip_by :: "(nat \<Rightarrow> bool) \<Rightarrow> pystr \<Rightarrow> pystr" where
  "lstrip_by P s = dropWhile P s"

definition rstrip_by :: "(nat \<Rightarrow> bool) \<Rightarrow> pystr \<Rightarrow> pystr" where
  "rstrip_by P s = rev (dropWhile P (rev s))"

definition strip_by :: "(nat \<Rightarrow> bool) \<Rightarrow> pystr \<Rightarrow> pystr" where
  "strip_by P s = rstrip_by P (lstrip_by P s)"

abbreviation strip :: "pystr \<Rightarrow> pystr" where
  "strip s \<equiv> strip_by is_space s"

abbreviation strip_chars :: "pystr \<Rightarrow> pystr \<Rightarrow> pystr" where
  "strip_chars cs s \<equiv> strip_by (\<lambda>c. c \<in> set cs) s"

abbreviation lstrip_chars :: "pystr \<Rightarrow> pystr \<Rightarrow> pystr" where
  "lstrip_chars cs s \<equiv> lstrip_by (\<lambda>c. c \<in> set cs) s"

text \<open>\<open>str.split()\<close>: the maximal runs of characters that are not white space.\<close>

fun split_go :: "pystr \<Rightarrow> pystr \<Rightarrow> pystr list" where
  "split_go acc [] = (if acc = [] then [] else [acc])"
| "split_go acc (c # cs) =
     (if is_space c then (if acc = [] then split_go [] cs else acc # split_go [] cs)
      else split_go (acc @ [c]) cs)"

definition split_ws :: "pystr \<Rightarrow> pystr list" where
  "split_ws s = split_go [] s"

text \<open>\<open>str.split(maxsplit=1)\<close>: the first run, and what follows with leading space removed.\<close>

definition split_ws1 :: "pystr \<Rightarrow> pystr list" where
  "split_ws1 s =
     (let t = lstrip_by is_space s; h = takeWhile (\<lambda>c. \<not> is_space c) t;
          r = lstrip_by is_space (dropWhile (\<lambda>c. \<not> is_space c) t)
      in if t = [] then [] else if r = [] then [h] else [h, r])"

text \<open>\<open>str.split(c)\<close> and \<open>str.partition(c)\<close> on one character.\<close>

fun split_on :: "nat \<Rightarrow> pystr \<Rightarrow> pystr list" where
  "split_on d [] = [[]]"
| "split_on d (c # cs) =
     (if c = d then [] # split_on d cs
      else case split_on d cs of [] \<Rightarrow> [[c]] | w # ws \<Rightarrow> (c # w) # ws)"

definition before :: "nat \<Rightarrow> pystr \<Rightarrow> pystr" where
  "before d s = takeWhile (\<lambda>c. c \<noteq> d) s"

definition after :: "nat \<Rightarrow> pystr \<Rightarrow> pystr" where
  "after d s = drop 1 (dropWhile (\<lambda>c. c \<noteq> d) s)"

fun join :: "pystr \<Rightarrow> pystr list \<Rightarrow> pystr" where
  "join sep [] = []"
| "join sep [w] = w"
| "join sep (w # v # ws) = w @ sep @ join sep (v # ws)"

definition startswith :: "pystr \<Rightarrow> pystr \<Rightarrow> bool" where
  "startswith s p \<longleftrightarrow> take (length p) s = p"

definition removeprefix :: "pystr \<Rightarrow> pystr \<Rightarrow> pystr" where
  "removeprefix p s = (if startswith s p then drop (length p) s else s)"

text \<open>\<open>sub in s\<close> and \<open>s.replace(sub, by)\<close> for a non-empty \<open>sub\<close>.\<close>

fun contains :: "pystr \<Rightarrow> pystr \<Rightarrow> bool" where
  "contains sub [] = (sub = [])"
| "contains sub (c # cs) = (startswith (c # cs) sub \<or> contains sub cs)"

fun replace_go :: "pystr \<Rightarrow> pystr \<Rightarrow> nat \<Rightarrow> pystr \<Rightarrow> pystr" where
  "replace_go sub by _ [] = []"
| "replace_go sub by (Suc k) (c # cs) = replace_go sub by k cs"
| "replace_go sub by 0 (c # cs) =
     (if startswith (c # cs) sub then by @ replace_go sub by (length sub - 1) cs
      else c # replace_go sub by 0 cs)"

definition replace_str :: "pystr \<Rightarrow> pystr \<Rightarrow> pystr \<Rightarrow> pystr" where
  "replace_str sub by s = replace_go sub by 0 s"

text \<open>Decimal representation, \<open>str(n)\<close>.\<close>

fun show_nat :: "nat \<Rightarrow> pystr" where
  "show_nat n = (if n < 10 then [48 + n] else show_nat (n div 10) @ [48 + n mod 10])"

declare show_nat.simps [simp del]

definition show_int :: "int \<Rightarrow> pystr" where
  "show_int i = (if i < 0 then 45 # show_nat (nat (- i)) else show_nat (nat i))"

subsection \<open>Facts about strings\<close>

text \<open>A word is what \<open>split\<close> returns: not empty, and with no white space.\<close>

definition is_word :: "pystr \<Rightarrow> bool" where
  "is_word w \<longleftrightarrow> w \<noteq> [] \<and> list_all (\<lambda>c. \<not> is_space c) w"

lemma is_space_32 [simp]: "is_space 32"
  by (simp add: is_space_def space_cps_def)

lemma split_go_words: "list_all (\<lambda>c. \<not> is_space c) acc \<Longrightarrow> list_all is_word (split_go acc s)"
  by (induction acc s rule: split_go.induct) (auto simp: is_word_def)

lemma split_ws_words: "list_all is_word (split_ws s)"
  by (simp add: split_ws_def split_go_words)

lemma split_go_append:
  "list_all (\<lambda>c. \<not> is_space c) w \<Longrightarrow> split_go acc (w @ s) = split_go (acc @ w) s"
  by (induction w arbitrary: acc) auto

lemma split_join:
  "list_all is_word ws \<Longrightarrow> split_ws (join [32] ws) = ws"
proof (induction "[32] :: pystr" ws rule: join.induct)
  case (2 w)
  then show ?case
    using split_go_append [of w "[]" "[]"] by (simp add: split_ws_def is_word_def)
next
  case (3 w v ws)
  then show ?case
    using split_go_append [of w "[]" "32 # join [32] (v # ws)"]
    by (simp add: split_ws_def is_word_def)
qed (simp add: split_ws_def)

lemma split_go_lstrip: "split_go [] (dropWhile is_space s) = split_go [] s"
  by (induction s) auto

lemma split_go_trail: "list_all is_space t \<Longrightarrow> split_go acc (s @ t) = split_go acc s"
proof (induction acc s rule: split_go.induct)
  case (1 acc)
  have "split_go [] t = []" using 1 by (induction t) auto
  with 1 show ?case by (cases t) auto
qed auto

lemma rstrip_split: "s = rstrip_by P s @ rev (takeWhile P (rev s))"
  unfolding rstrip_by_def by (metis rev_append rev_rev_ident takeWhile_dropWhile_id)

lemma split_ws_strip: "split_ws (strip s) = split_ws s"
proof -
  let ?l = "lstrip_by is_space s"
  have "list_all is_space (rev (takeWhile is_space (rev ?l)))"
    by (auto simp: list_all_iff dest: set_takeWhileD)
  then have "split_ws (rstrip_by is_space ?l) = split_ws ?l"
    using split_go_trail [of "rev (takeWhile is_space (rev ?l))" "[]" "rstrip_by is_space ?l"]
      rstrip_split [of ?l is_space] by (simp add: split_ws_def)
  then show ?thesis
    by (simp add: strip_by_def lstrip_by_def split_ws_def split_go_lstrip)
qed

lemma startswith_append [simp]: "startswith (p @ s) p"
  by (simp add: startswith_def)

lemma startswith_conv: "startswith s p \<longleftrightarrow> (\<exists>t. s = p @ t)"
  unfolding startswith_def by (metis append_eq_conv_conj append_take_drop_id)

lemma startswith_Nil [simp]: "startswith s []"
  by (simp add: startswith_def)

lemma startswith_Cons [simp]: "startswith (c # s) (d # p) \<longleftrightarrow> c = d \<and> startswith s p"
  by (auto simp: startswith_def)

lemma startswith_empty [simp]: "startswith [] p \<longleftrightarrow> p = []"
  by (auto simp: startswith_def)

lemma length_strip_by: "length (strip_by P s) \<le> length s"
  unfolding strip_by_def rstrip_by_def lstrip_by_def
  by (metis length_dropWhile_le length_rev order_trans)

lemma strip_by_no_edges:
  "strip_by P s = [] \<or> \<not> P (hd (strip_by P s)) \<and> \<not> P (last (strip_by P s))"
proof (cases "lstrip_by P s")
  case Nil
  then show ?thesis by (simp add: strip_by_def rstrip_by_def)
next
  case (Cons c cs)
  then have c: "\<not> P c" unfolding lstrip_by_def by (metis dropWhile_eq_Cons_conv)
  have "\<exists>t. dropWhile P (rev cs @ [c]) = t @ [c]"
    using c by (simp add: dropWhile_append)
  then obtain t where t: "dropWhile P (rev cs @ [c]) = t @ [c]" by blast
  then have ne: "\<not> P (hd (t @ [c]))" by (metis dropWhile_eq_Cons_conv hd_Cons_tl snoc_eq_iff_butlast)
  show ?thesis
    using t ne c Cons
    by (cases t) (simp_all add: strip_by_def rstrip_by_def last_rev)
qed

lemma lstrip_word: "is_word w \<Longrightarrow> lstrip_by is_space w = w"
  by (cases w) (auto simp: is_word_def lstrip_by_def)

lemma dropWhile_none: "list_all (\<lambda>c. \<not> P c) s \<Longrightarrow> dropWhile P s = s"
  by (cases s) auto

lemma strip_none: "list_all (\<lambda>c. \<not> P c) s \<Longrightarrow> strip_by P s = s"
  by (simp add: strip_by_def rstrip_by_def lstrip_by_def dropWhile_none list_all_rev)

lemma strip_edges: "s \<noteq> [] \<Longrightarrow> \<not> P (hd s) \<Longrightarrow> \<not> P (last s) \<Longrightarrow> strip_by P s = s"
  using dropWhile_eq_self_iff [of P s] dropWhile_eq_self_iff [of P "rev s"]
  by (simp add: strip_by_def lstrip_by_def rstrip_by_def hd_rev)

lemma join_Cons: "join sep (w # ws) = (if ws = [] then w else w @ sep @ join sep ws)"
  by (cases ws) simp_all

lemma join_ne: "ws \<noteq> [] \<Longrightarrow> list_all is_word ws \<Longrightarrow> join [32] ws \<noteq> []"
  by (cases ws) (auto simp: join_Cons is_word_def)

lemma int_go_show: "int_go acc (show_nat n) = Some (acc * 10 ^ length (show_nat n) + n)"
proof (induction n arbitrary: acc rule: show_nat.induct)
  case (1 n)
  have app: "int_go a (xs @ ys) = (case int_go a xs of None \<Rightarrow> None | Some b \<Rightarrow> int_go b ys)"
    for a xs ys by (induction xs arbitrary: a) (auto split: option.splits)
  have dv: "decimal_value (48 + d) = Some d" if "d < 10" for d
    using that by (simp add: decimal_value_def nd_zeros_def)
  show ?case
  proof (cases "n < 10")
    case True
    then show ?thesis by (simp add: show_nat.simps [of n] dv)
  next
    case False
    have "n mod 10 < 10" by simp
    note dv [OF this]
    with False 1 show ?thesis
      by (simp add: show_nat.simps [of n] app algebra_simps)
  qed
qed

lemma show_nat_ne [simp]: "show_nat n \<noteq> []"
  by (subst show_nat.simps) simp

lemma py_int_show: "length (show_nat n) \<le> max_str_digits \<Longrightarrow> py_int (show_nat n) = Some n"
  by (simp add: py_int_def int_go_show)

lemma int_go_decimals: "list_all is_decimal s \<Longrightarrow> \<exists>n. int_go acc s = Some n"
  by (induction s arbitrary: acc) (auto simp: is_decimal_def)

subsection \<open>Effects\<close>

text \<open>
  A coroutine of the bot is a function of the outside world: it returns a value or raises, and
  leaves a new world.  \<open>'e\<close> is the type of exceptions.
\<close>

type_synonym ('e, 'w, 'a) act = "'w \<Rightarrow> ('e + 'a) \<times> 'w"

definition ret :: "'a \<Rightarrow> ('e, 'w, 'a) act" where
  "ret a = (\<lambda>w. (Inr a, w))"

definition raise :: "'e \<Rightarrow> ('e, 'w, 'a) act" where
  "raise e = (\<lambda>w. (Inl e, w))"

definition bindA :: "('e, 'w, 'a) act \<Rightarrow> ('a \<Rightarrow> ('e, 'w, 'b) act) \<Rightarrow> ('e, 'w, 'b) act" where
  "bindA m f = (\<lambda>w. case m w of (Inl e, w') \<Rightarrow> (Inl e, w') | (Inr a, w') \<Rightarrow> f a w')"

definition handleA ::
  "('e, 'w, 'a) act \<Rightarrow> ('e \<Rightarrow> ('e, 'w, 'a) act) \<Rightarrow> ('e, 'w, 'a) act" where
  "handleA m h = (\<lambda>w. case m w of (Inl e, w') \<Rightarrow> h e w' | (Inr a, w') \<Rightarrow> (Inr a, w'))"

fun mapA :: "('a \<Rightarrow> ('e, 'w, 'b) act) \<Rightarrow> 'a list \<Rightarrow> ('e, 'w, 'b list) act" where
  "mapA f [] = ret []"
| "mapA f (x # xs) = bindA (f x) (\<lambda>y. bindA (mapA f xs) (\<lambda>ys. ret (y # ys)))"

lemma ret_apply [simp]: "ret a w = (Inr a, w)" and raise_apply [simp]: "raise e w = (Inl e, w)"
  by (simp_all add: ret_def raise_def)

lemma bindA_Inr [simp]: "m w = (Inr a, w') \<Longrightarrow> bindA m f w = f a w'"
  and bindA_Inl [simp]: "m w = (Inl e, w') \<Longrightarrow> bindA m f w = (Inl e, w')"
  by (simp_all add: bindA_def)

lemma handleA_Inr [simp]: "m w = (Inr a, w') \<Longrightarrow> handleA m h w = (Inr a, w')"
  and handleA_Inl [simp]: "m w = (Inl e, w') \<Longrightarrow> handleA m h w = h e w'"
  by (simp_all add: handleA_def)

lemma bindA_ret [simp]: "bindA (ret a) f = f a"
  by (rule ext) simp

lemma bindA_cases:
  obtains e w' where "m w = (Inl e, w')" "bindA m f w = (Inl e, w')"
  | a w' where "m w = (Inr a, w')" "bindA m f w = f a w'"
  by (metis bindA_Inl bindA_Inr old.prod.exhaust sumE)

lemma bindA_InrE:
  assumes "bindA m f w = (Inr b, w')"
  obtains a w1 where "m w = (Inr a, w1)" "f a w1 = (Inr b, w')"
  using assms by (cases "m w"; cases "fst (m w)") (auto simp: bindA_def)

text \<open>An action whose world change always stays in a transitive and reflexive relation.\<close>

definition stays :: "('w \<Rightarrow> 'w \<Rightarrow> bool) \<Rightarrow> ('e, 'w, 'a) act \<Rightarrow> bool" where
  "stays R m \<longleftrightarrow> (\<forall>w. R w (snd (m w)))"

lemma stays_ret: "reflp R \<Longrightarrow> stays R (ret a)" and stays_raise: "reflp R \<Longrightarrow> stays R (raise e)"
  by (auto simp: stays_def reflp_def)

lemma stays_bindA:
  assumes "transp R" and "stays R m" and "\<And>a. stays R (f a)"
  shows "stays R (bindA m f)"
  unfolding stays_def
proof
  fix w
  from assms(2) have "R w (snd (m w))" by (simp add: stays_def)
  then show "R w (snd (bindA m f w))"
    using assms(1,3)
    by (cases rule: bindA_cases [of m w f]) (auto simp: stays_def dest: transpD)
qed

subsection \<open>Facts about lists and options\<close>

lemma sort_key_set [simp]: "set (sort_key f xs) = set xs"
  by simp

lemma find_append: "find P (xs @ ys) = (case find P xs of None \<Rightarrow> find P ys | Some x \<Rightarrow> Some x)"
  by (induction xs) auto

lemma find_SomeD: "find P xs = Some x \<Longrightarrow> P x \<and> x \<in> set xs"
  by (auto simp: find_Some_iff)

text \<open>\<open>d.setdefault(k, []).append(v)\<close> on a dict kept in insertion order.\<close>

fun append_under :: "'k \<Rightarrow> 'v \<Rightarrow> ('k \<times> 'v list) list \<Rightarrow> ('k \<times> 'v list) list" where
  "append_under k v [] = [(k, [v])]"
| "append_under k v ((k', vs) # d) = (if k' = k then (k', vs @ [v]) # d else (k', vs) # append_under k v d)"

lemma append_under_keys: "fst ` set (append_under k v d) = insert k (fst ` set d)"
  by (induction k v d rule: append_under.induct) auto

lemma append_under_distinct: "distinct (map fst d) \<Longrightarrow> distinct (map fst (append_under k v d))"
  by (induction k v d rule: append_under.induct) (auto simp: append_under_keys)

lemma map_of_append_under:
  "map_of (append_under k v d) = (map_of d)(k \<mapsto> (case map_of d k of None \<Rightarrow> [v] | Some vs \<Rightarrow> vs @ [v]))"
  by (induction k v d rule: append_under.induct) (auto simp: fun_eq_iff)

lemma fold_append_under_distinct:
  "distinct (map fst d) \<Longrightarrow> distinct (map fst (fold (\<lambda>x. append_under (f x) (g x)) xs d))"
  by (induction xs arbitrary: d) (simp_all add: append_under_distinct)

end
