(* ===== verification/Regex.thy ===== *)
theory Regex
  imports Prelude
begin

text \<open>
  The part of Python's \<open>re\<close> that the bot uses: a pattern is a value of \<open>rx\<close>, and
  \<open>rx_m\<close> is the backtracking matcher, which returns the list of the states a match can end
  in, in the order the engine tries them; the head of the list is the match Python reports.
  A state is the character before the current position (\<open>None\<close> at the start of the text)
  and the rest of the text.

  \<open>\w\<close> is exact on ASCII, Latin-1 and the decimal digits; letters beyond Latin-1 are not
  word characters here.
\<close>

datatype cclass =
    CSpace
  | CDigit
  | CWord
  | CRange nat nat
  | CNeg cclass
  | COr cclass cclass

definition is_word_cp :: "nat \<Rightarrow> bool" where
  "is_word_cp c \<longleftrightarrow> is_decimal c \<or> 65 \<le> c \<and> c \<le> 90 \<or> 97 \<le> c \<and> c \<le> 122 \<or> c = 95 \<or>
     c \<in> {170, 178, 179, 181, 185, 186, 188, 189, 190} \<or> 192 \<le> c \<and> c \<le> 255 \<and> c \<noteq> 215 \<and> c \<noteq> 247"

fun in_class :: "cclass \<Rightarrow> nat \<Rightarrow> bool" where
  "in_class CSpace c = is_space c"
| "in_class CDigit c = is_decimal c"
| "in_class CWord c = is_word_cp c"
| "in_class (CRange a b) c = (a \<le> c \<and> c \<le> b)"
| "in_class (CNeg k) c = (\<not> in_class k c)"
| "in_class (COr k l) c = (in_class k c \<or> in_class l c)"

text \<open>
  The code points that match one another under \<open>re.IGNORECASE\<close>: the two cases of a letter,
  and the four non-ASCII letters that Python folds into i, s and k.
\<close>

definition ci_variants :: "nat \<Rightarrow> nat list" where
  "ci_variants c =
     (if 65 \<le> c \<and> c \<le> 90 \<or> 192 \<le> c \<and> c \<le> 222 \<and> c \<noteq> 215 then [c, c + 32]
      else if 97 \<le> c \<and> c \<le> 122 \<or> 224 \<le> c \<and> c \<le> 254 \<and> c \<noteq> 247 then [c, c - 32]
      else if c = 304 \<or> c = 305 then [c, 105, 73]
      else if c = 383 then [c, 115, 83]
      else if c = 8490 then [c, 107, 75]
      else [c])"

definition chr_eq :: "bool \<Rightarrow> nat \<Rightarrow> nat \<Rightarrow> bool" where
  "chr_eq ic p c \<longleftrightarrow> (if ic then p \<in> set (ci_variants c) else p = c)"

definition cls_eq :: "bool \<Rightarrow> cclass \<Rightarrow> nat \<Rightarrow> bool" where
  "cls_eq ic k c \<longleftrightarrow> (if ic then (\<exists>d \<in> set (ci_variants c). in_class k d) else in_class k c)"

datatype rx =
    Eps
  | Chr nat
  | Cls cclass
  | Seq rx rx
  | Alt rx rx
  | Star bool rx       \<comment> \<open>greedy or not\<close>
  | Bol                \<comment> \<open>\<open>^\<close>\<close>
  | Eol                \<comment> \<open>\<open>$\<close>: the end, or before a final newline\<close>
  | WordB              \<comment> \<open>\<open>\b\<close>\<close>
  | Ahead rx           \<comment> \<open>\<open>(?=r)\<close>\<close>
  | NotAhead cclass    \<comment> \<open>\<open>(?!c)\<close> for one character class\<close>
  | NotBehind cclass   \<comment> \<open>\<open>(?<!c)\<close> for one character class\<close>

type_synonym rstate = "nat option \<times> pystr"

fun star_m :: "bool \<Rightarrow> (rstate \<Rightarrow> rstate list) \<Rightarrow> nat \<Rightarrow> rstate \<Rightarrow> rstate list" where
  "star_m g f 0 s = [s]"
| "star_m g f (Suc n) s =
     (let more = concat (map (star_m g f n)
                   (filter (\<lambda>t. length (snd t) < length (snd s)) (f s)))
      in if g then more @ [s] else s # more)"

definition step_if :: "(nat \<Rightarrow> bool) \<Rightarrow> rstate \<Rightarrow> rstate list" where
  "step_if P s = (case snd s of [] \<Rightarrow> [] | c # cs \<Rightarrow> if P c then [(Some c, cs)] else [])"

definition wordish :: "nat option \<Rightarrow> bool" where
  "wordish p = (case p of None \<Rightarrow> False | Some c \<Rightarrow> is_word_cp c)"

definition next_cp :: "pystr \<Rightarrow> nat option" where
  "next_cp s = (case s of [] \<Rightarrow> None | c # _ \<Rightarrow> Some c)"

fun rx_m :: "bool \<Rightarrow> rx \<Rightarrow> rstate \<Rightarrow> rstate list" where
  "rx_m ic Eps s = [s]"
| "rx_m ic (Chr p) s = step_if (chr_eq ic p) s"
| "rx_m ic (Cls k) s = step_if (cls_eq ic k) s"
| "rx_m ic (Seq r q) s = concat (map (rx_m ic q) (rx_m ic r s))"
| "rx_m ic (Alt r q) s = rx_m ic r s @ rx_m ic q s"
| "rx_m ic (Star g r) s = star_m g (rx_m ic r) (length (snd s)) s"
| "rx_m ic Bol s = (if fst s = None then [s] else [])"
| "rx_m ic Eol s = (if snd s = [] \<or> snd s = [10] then [s] else [])"
| "rx_m ic WordB s = (if wordish (fst s) \<noteq> wordish (next_cp (snd s)) then [s] else [])"
| "rx_m ic (Ahead r) s = (if rx_m ic r s \<noteq> [] then [s] else [])"
| "rx_m ic (NotAhead k) s =
     (case snd s of [] \<Rightarrow> [s] | c # _ \<Rightarrow> if cls_eq ic k c then [] else [s])"
| "rx_m ic (NotBehind k) s =
     (case fst s of None \<Rightarrow> [s] | Some c \<Rightarrow> if cls_eq ic k c then [] else [s])"

subsection \<open>Derived patterns\<close>

abbreviation Dot :: rx where "Dot \<equiv> Cls (CNeg (CRange 10 10))"
abbreviation Spaces :: rx where "Spaces \<equiv> Star True (Cls CSpace)"
abbreviation Plus :: "rx \<Rightarrow> rx" where "Plus r \<equiv> Seq r (Star True r)"
abbreviation Opt :: "rx \<Rightarrow> rx" where "Opt r \<equiv> Alt r Eps"

fun rseq :: "rx list \<Rightarrow> rx" where
  "rseq [] = Eps"
| "rseq (r # rs) = Seq r (rseq rs)"

fun ralt :: "rx list \<Rightarrow> rx" where
  "ralt [] = Eps"
| "ralt [r] = r"
| "ralt (r # rs) = Alt r (ralt rs)"

definition lit :: "pystr \<Rightarrow> rx" where
  "lit s = rseq (map Chr s)"

subsection \<open>The functions of the module\<close>

text \<open>\<open>re.prefixmatch\<close> (the rest after the match), \<open>re.fullmatch\<close> and \<open>re.search\<close>.\<close>

definition prefixmatch :: "bool \<Rightarrow> rx \<Rightarrow> pystr \<Rightarrow> pystr option" where
  "prefixmatch ic r s = (case rx_m ic r (None, s) of [] \<Rightarrow> None | t # _ \<Rightarrow> Some (snd t))"

definition fullmatch :: "bool \<Rightarrow> rx \<Rightarrow> pystr \<Rightarrow> bool" where
  "fullmatch ic r s \<longleftrightarrow> (\<exists>t \<in> set (rx_m ic r (None, s)). snd t = [])"

text \<open>
  The leftmost match from a position on: the text before it, the matched text and the rest.
\<close>

fun search_from :: "bool \<Rightarrow> rx \<Rightarrow> nat option \<Rightarrow> pystr \<Rightarrow> (pystr \<times> pystr \<times> pystr) option" where
  "search_from ic r p s =
     (case rx_m ic r (p, s) of
        t # _ \<Rightarrow> Some ([], take (length s - length (snd t)) s, snd t)
      | [] \<Rightarrow>
          (case s of
             [] \<Rightarrow> None
           | c # cs \<Rightarrow>
               (case search_from ic r (Some c) cs of
                  None \<Rightarrow> None
                | Some (b, m, e) \<Rightarrow> Some (c # b, m, e))))"

declare search_from.simps [simp del]

definition search :: "bool \<Rightarrow> rx \<Rightarrow> pystr \<Rightarrow> (pystr \<times> pystr \<times> pystr) option" where
  "search ic r s = search_from ic r None s"

text \<open>
  \<open>re.sub\<close> for a pattern that matches no empty string, with a replacement computed from the
  matched text; the fuel is the length of the text, which every step shortens.
\<close>

fun sub_go :: "nat \<Rightarrow> bool \<Rightarrow> rx \<Rightarrow> (pystr \<Rightarrow> pystr) \<Rightarrow> nat option \<Rightarrow> pystr \<Rightarrow> pystr" where
  "sub_go 0 ic r f p s = s"
| "sub_go (Suc n) ic r f p s =
     (case s of
        [] \<Rightarrow> []
      | c # cs \<Rightarrow>
          (case rx_m ic r (p, s) of
             t # _ \<Rightarrow>
               if length (snd t) < length s
               then f (take (length s - length (snd t)) s) @ sub_go n ic r f (fst t) (snd t)
               else c # sub_go n ic r f (Some c) cs
           | [] \<Rightarrow> c # sub_go n ic r f (Some c) cs))"

definition rx_sub :: "bool \<Rightarrow> rx \<Rightarrow> (pystr \<Rightarrow> pystr) \<Rightarrow> pystr \<Rightarrow> pystr" where
  "rx_sub ic r f s = sub_go (length s) ic r f None s"

subsection \<open>Facts\<close>

text \<open>A match consumes a prefix of the text, and the state after it remembers its last character.\<close>

definition advances :: "rstate \<Rightarrow> rstate \<Rightarrow> bool" where
  "advances s t \<longleftrightarrow> (\<exists>w. snd s = w @ snd t \<and> fst t = (if w = [] then fst s else Some (last w)))"

lemma advances_refl [simp]: "advances s s"
  by (simp add: advances_def)

lemma advances_trans:
  assumes "advances s t" and "advances t u"
  shows "advances s u"
proof -
  from assms obtain v w where v: "snd s = v @ snd t" "fst t = (if v = [] then fst s else Some (last v))"
    and w: "snd t = w @ snd u" "fst u = (if w = [] then fst t else Some (last w))"
    unfolding advances_def by blast
  have "snd s = (v @ w) @ snd u \<and> fst u = (if v @ w = [] then fst s else Some (last (v @ w)))"
    using v w by simp
  then show ?thesis unfolding advances_def by blast
qed

lemma step_if_iff: "t \<in> set (step_if P s) \<longleftrightarrow> (\<exists>c. snd s = c # snd t \<and> fst t = Some c \<and> P c)"
  by (cases s; cases t) (auto simp: step_if_def split: list.splits)

lemma advances_step: "t \<in> set (step_if P s) \<Longrightarrow> advances s t"
  unfolding step_if_iff advances_def by (metis append_Cons append_Nil last.simps list.distinct(1))

lemma advances_star:
  assumes f: "\<And>s t. t \<in> set (f s) \<Longrightarrow> advances s t"
  shows "t \<in> set (star_m g f n s) \<Longrightarrow> advances s t"
proof (induction n arbitrary: s)
  case (Suc n)
  then have "t = s \<or> (\<exists>u \<in> set (f s). t \<in> set (star_m g f n u))"
    by (auto simp: Let_def split: if_splits)
  then show ?case using Suc.IH f advances_trans by (metis advances_refl)
qed simp

lemma rx_m_advances: "t \<in> set (rx_m ic r s) \<Longrightarrow> advances s t"
proof (induction r arbitrary: s t)
  case (Seq r q)
  then obtain u where "u \<in> set (rx_m ic r s)" "t \<in> set (rx_m ic q u)" by auto
  with Seq.IH show ?case by (blast intro: advances_trans)
next
  case (Star g r)
  show ?case
    by (rule advances_star [where f = "rx_m ic r"]) (use Star in \<open>simp_all\<close>)
qed (auto simp: advances_step split: if_splits list.splits option.splits)

lemma rx_m_suffix: "t \<in> set (rx_m ic r s) \<Longrightarrow> \<exists>w. snd s = w @ snd t"
  using rx_m_advances unfolding advances_def by blast

lemma prefixmatch_suffix:
  assumes "prefixmatch ic r s = Some t"
  shows "\<exists>w. s = w @ t"
proof -
  from assms obtain u us where "rx_m ic r (None, s) = u # us" and t: "t = snd u"
    by (auto simp: prefixmatch_def split: list.splits)
  then have "u \<in> set (rx_m ic r (None, s))" by simp
  from rx_m_suffix [OF this] t show ?thesis by simp
qed

end
