(* ===== verification/Messages.thy ===== *)
theory Messages
  imports Complex_Main Regex
begin

text \<open>
  The values that cross the whole bot: exceptions (bot/domain/exceptions.py), JIDs
  (bot/domain/jid.py), the platform-independent command data, the message contents and the
  reply builder (bot/domain/models, bot/domain/builders/reply.py).
\<close>

subsection \<open>JSON values, the Python dicts that carry payloads\<close>

datatype json =
    JNull
  | JBool bool
  | JNum rat
  | JStr pystr
  | JArr "json list"
  | JObj "(pystr \<times> json) list"

text \<open>\<open>dict.get(key)\<close> on a dict kept in insertion order; a missing key gives \<open>None\<close>.\<close>

definition dict_get :: "(pystr \<times> 'v) list \<Rightarrow> pystr \<Rightarrow> 'v option" where
  "dict_get d k = map_of d k"

text \<open>Truth value of a Python object.\<close>

fun truthy :: "json \<Rightarrow> bool" where
  "truthy JNull = False"
| "truthy (JBool b) = b"
| "truthy (JNum n) = (n \<noteq> 0)"
| "truthy (JStr s) = (s \<noteq> [])"
| "truthy (JArr xs) = (xs \<noteq> [])"
| "truthy (JObj kvs) = (kvs \<noteq> [])"

subsection \<open>Exceptions\<close>

datatype exn_class =
    BotError | CommandError | MediaNotFoundError | MediaUnavailableError | ValidationError
  | ExternalServiceError | DownloadError | StickerTooLargeError

fun base_class :: "exn_class \<Rightarrow> exn_class option" where
  "base_class BotError = None"
| "base_class CommandError = Some BotError"
| "base_class MediaNotFoundError = Some CommandError"
| "base_class MediaUnavailableError = Some CommandError"
| "base_class ValidationError = Some CommandError"
| "base_class ExternalServiceError = Some CommandError"
| "base_class DownloadError = Some ExternalServiceError"
| "base_class StickerTooLargeError = Some CommandError"

text \<open>The class hierarchy has no chain longer than four classes.\<close>

fun subclass_go :: "nat \<Rightarrow> exn_class \<Rightarrow> exn_class \<Rightarrow> bool" where
  "subclass_go 0 c d = False"
| "subclass_go (Suc n) c d =
     (c = d \<or> (case base_class c of None \<Rightarrow> False | Some b \<Rightarrow> subclass_go n b d))"

definition is_subclass :: "exn_class \<Rightarrow> exn_class \<Rightarrow> bool" where
  "is_subclass = subclass_go 4"

text \<open>
  A raised exception: one of the bot's own classes with its message for the user, or any
  other Python exception, with the name of its type.
\<close>

datatype exn = Raised exn_class pystr | OtherExn pystr

fun isinstance :: "exn \<Rightarrow> exn_class \<Rightarrow> bool" where
  "isinstance (Raised c _) d = is_subclass c d"
| "isinstance (OtherExn _) d = False"

fun user_message :: "exn \<Rightarrow> pystr" where
  "user_message (Raised _ m) = m"
| "user_message (OtherExn _) = []"

definition sticker_too_large :: exn where
  "sticker_too_large = Raised StickerTooLargeError
     (U ''Esse sticker passou do limite de 500 KB do WhatsApp. Tente uma m{237}dia mais curta ou com menos qualidade, tipo ,stic quality 50! {128565}'')"

lemmas subclass_eval = is_subclass_def subclass_go.simps numeral_eq_Suc

lemma subclass_refl [simp]: "is_subclass c c"
  by (simp add: is_subclass_def numeral_eq_Suc)

lemma subclass_BotError [simp]: "is_subclass c BotError"
  by (cases c) (simp_all add: is_subclass_def numeral_eq_Suc)

lemma subclass_External: "is_subclass c ExternalServiceError \<longleftrightarrow> c \<in> {ExternalServiceError, DownloadError}"
  by (cases c) (simp_all add: is_subclass_def numeral_eq_Suc)

lemma subclass_Download: "is_subclass c DownloadError \<longleftrightarrow> c = DownloadError"
  by (cases c) (simp_all add: is_subclass_def numeral_eq_Suc)

lemma subclass_trans: "is_subclass a b \<Longrightarrow> is_subclass b c \<Longrightarrow> is_subclass a c"
  by (cases a; cases b; cases c) (simp_all add: is_subclass_def numeral_eq_Suc)

subsection \<open>JIDs\<close>

definition jid_suffix_re :: rx where
  "jid_suffix_re = Alt (lit (U ''@lid'')) (lit (U ''@s.whatsapp.net''))"

definition device_suffix_re :: rx where
  "device_suffix_re = Seq (Chr 58) (Seq (Plus (Cls CDigit)) (Ahead (Chr 64)))"

definition strip_jid :: "pystr \<Rightarrow> pystr" where
  "strip_jid jid = rx_sub True jid_suffix_re (\<lambda>_. []) jid"

definition normalize_jid :: "pystr \<Rightarrow> pystr" where
  "normalize_jid jid = rx_sub False device_suffix_re (\<lambda>_. []) jid"

text \<open>The empty entries, \<open>None\<close> and the empty string, are dropped.\<close>

fun normalize_jids :: "pystr option list \<Rightarrow> pystr list" where
  "normalize_jids [] = []"
| "normalize_jids (None # js) = normalize_jids js"
| "normalize_jids (Some j # js) =
     (if j = [] then normalize_jids js else normalize_jid j # normalize_jids js)"

record removal_targets =
  rt_indices :: "int list"
  rt_mentioned :: "pystr list"

definition is_self_exit :: "removal_targets \<Rightarrow> bool" where
  "is_self_exit t \<longleftrightarrow> rt_indices t = [] \<and> rt_mentioned t = []"

definition resolve_targets :: "removal_targets \<Rightarrow> pystr list \<Rightarrow> pystr list" where
  "resolve_targets t participants =
     (let by_index = map (\<lambda>i. participants ! nat (i - 1))
                       (filter (\<lambda>i. 0 < i \<and> i \<le> int (length participants)) (rt_indices t));
          wanted = map normalize_jid (rt_mentioned t);
          by_mention = filter (\<lambda>p. normalize_jid p \<in> set wanted) participants
      in by_index @ by_mention)"

lemma resolve_targets_subset: "set (resolve_targets t ps) \<subseteq> set ps"
  by (auto simp: resolve_targets_def Let_def intro!: nth_mem)

subsection \<open>Command data\<close>

datatype platform = WHATSAPP | DISCORD | TELEGRAM | ALL_PLATFORMS

fun platform_value :: "platform \<Rightarrow> pystr" where
  "platform_value WHATSAPP = U ''whatsapp''"
| "platform_value DISCORD = U ''discord''"
| "platform_value TELEGRAM = U ''telegram''"
| "platform_value ALL_PLATFORMS = U ''all''"

definition supports :: "platform list \<Rightarrow> platform \<Rightarrow> bool" where
  "supports declared target \<longleftrightarrow> ALL_PLATFORMS \<in> set declared \<or> target \<in> set declared"

type_synonym bytes = "nat list"

record command_data =
  cd_text :: pystr
  cd_jid :: pystr
  cd_sender_jid :: pystr
  cd_participant :: "pystr option"
  cd_is_group :: bool
  cd_expiration :: "int option"
  cd_mentioned_jids :: "pystr list"
  cd_quoted_message_id :: "pystr option"
  cd_quoted_text :: "pystr option"
  cd_media_type :: "pystr option"
  cd_media_source :: "pystr option"
  cd_media_is_animated :: bool
  cd_media_caption :: "pystr option"
  cd_media_buffer :: "bytes option"
  cd_message_id :: "pystr option"
  cd_push_name :: "pystr option"
  cd_platform :: "platform option"
  cd_is_admin :: "bool option"

definition has_media :: "command_data \<Rightarrow> bool" where
  "has_media d \<longleftrightarrow> cd_media_type d \<noteq> None"

text \<open>The dataclass constructor with its defaults: only the first three fields are required.\<close>

definition CommandData :: "pystr \<Rightarrow> pystr \<Rightarrow> pystr \<Rightarrow> command_data" where
  "CommandData text jid sender_jid =
     \<lparr>cd_text = text, cd_jid = jid, cd_sender_jid = sender_jid, cd_participant = None,
      cd_is_group = False, cd_expiration = None, cd_mentioned_jids = [],
      cd_quoted_message_id = None, cd_quoted_text = None, cd_media_type = None,
      cd_media_source = None, cd_media_is_animated = False, cd_media_caption = None,
      cd_media_buffer = None, cd_message_id = None, cd_push_name = None, cd_platform = None,
      cd_is_admin = None\<rparr>"

lemmas CommandData_sel [simp] = CommandData_def

subsection \<open>Message contents\<close>

text \<open>
  One constructor per content class.  The \<open>type\<close> attribute is the class's own tag, except
  for an audio buffer, where callers set it, so it is an argument there only.
\<close>

datatype message_content =
    TextContent pystr "pystr list"                       \<comment> \<open>text, mentions\<close>
  | ImageContent pystr "pystr option" bool               \<comment> \<open>url, caption, view once\<close>
  | ImageBufferContent bytes "pystr option" bool
  | VideoContent pystr "pystr option" bool
  | VideoBufferContent bytes "pystr option" bool bool    \<comment> \<open>and GIF playback\<close>
  | AudioContent pystr bool pystr                        \<comment> \<open>url, view once, mimetype\<close>
  | AudioBufferContent bytes pystr pystr                 \<comment> \<open>data, mimetype, type\<close>
  | StickerContent bytes pystr pystr                     \<comment> \<open>data, pack, author\<close>
  | RawContent "(pystr \<times> json) list"

fun content_type :: "message_content \<Rightarrow> pystr" where
  "content_type (TextContent _ _) = U ''text''"
| "content_type (ImageContent _ _ _) = U ''image''"
| "content_type (ImageBufferContent _ _ _) = U ''image_buffer''"
| "content_type (VideoContent _ _ _) = U ''video''"
| "content_type (VideoBufferContent _ _ _ _) = U ''video_buffer''"
| "content_type (AudioContent _ _ _) = U ''audio''"
| "content_type (AudioBufferContent _ _ ty) = ty"
| "content_type (StickerContent _ _ _) = U ''sticker''"
| "content_type (RawContent _) = U ''raw''"

fun has_buffer :: "message_content \<Rightarrow> bool" where
  "has_buffer (ImageBufferContent _ _ _) = True"
| "has_buffer (VideoBufferContent _ _ _ _) = True"
| "has_buffer (AudioBufferContent _ _ _) = True"
| "has_buffer (StickerContent _ _ _) = True"
| "has_buffer _ = False"

text \<open>The attribute \<open>buffer\<close>; \<open>None\<close> is the \<open>AttributeError\<close> of the other classes.\<close>

fun content_buffer :: "message_content \<Rightarrow> bytes option" where
  "content_buffer (ImageBufferContent b _ _) = Some b"
| "content_buffer (VideoBufferContent b _ _ _) = Some b"
| "content_buffer (AudioBufferContent b _ _) = Some b"
| "content_buffer (StickerContent b _ _) = Some b"
| "content_buffer _ = None"

text \<open>Optional keys of the serialized dicts: present only when the value is truthy.\<close>

definition opt_str :: "string \<Rightarrow> pystr option \<Rightarrow> (pystr \<times> json) list" where
  "opt_str k v = (case v of None \<Rightarrow> [] | Some s \<Rightarrow> if s = [] then [] else [(U k, JStr s)])"

fun text_to_dict :: "message_content \<Rightarrow> (pystr \<times> json) list" where
  "text_to_dict (TextContent s ms) =
     [(U ''type'', JStr (U ''text'')), (U ''text'', JStr s)] @
     (if ms = [] then [] else [(U ''mentions'', JArr (map JStr ms))])"
| "text_to_dict _ = []"

fun image_to_dict :: "message_content \<Rightarrow> (pystr \<times> json) list" where
  "image_to_dict (ImageContent url c v) =
     [(U ''type'', JStr (U ''image'')), (U ''url'', JStr url), (U ''view_once'', JBool v)] @
     opt_str ''caption'' c"
| "image_to_dict (ImageBufferContent _ c v) =
     [(U ''type'', JStr (U ''image_buffer'')), (U ''view_once'', JBool v)] @ opt_str ''caption'' c"
| "image_to_dict _ = []"

fun video_to_dict :: "message_content \<Rightarrow> (pystr \<times> json) list" where
  "video_to_dict (VideoContent url c v) =
     [(U ''type'', JStr (U ''video'')), (U ''url'', JStr url), (U ''view_once'', JBool v)] @
     opt_str ''caption'' c"
| "video_to_dict (VideoBufferContent _ c v g) =
     [(U ''type'', JStr (U ''video_buffer'')), (U ''view_once'', JBool v)] @
     (if g then [(U ''gif_playback'', JBool True)] else []) @ opt_str ''caption'' c"
| "video_to_dict _ = []"

fun audio_to_dict :: "message_content \<Rightarrow> (pystr \<times> json) list" where
  "audio_to_dict (AudioContent url v m) =
     [(U ''type'', JStr (U ''audio'')), (U ''url'', JStr url), (U ''view_once'', JBool v),
      (U ''mimetype'', JStr m)]"
| "audio_to_dict (AudioBufferContent _ m ty) =
     [(U ''type'', JStr ty), (U ''mimetype'', JStr m)]"
| "audio_to_dict _ = []"

fun sticker_to_dict :: "message_content \<Rightarrow> (pystr \<times> json) list" where
  "sticker_to_dict (StickerContent _ p a) =
     [(U ''type'', JStr (U ''sticker''))] @ opt_str ''pack'' (Some p) @ opt_str ''author'' (Some a)"
| "sticker_to_dict _ = []"

fun raw_to_dict :: "message_content \<Rightarrow> (pystr \<times> json) list" where
  "raw_to_dict (RawContent d) = [(U ''type'', JStr (U ''raw'')), (U ''content'', JObj d)]"
| "raw_to_dict _ = []"

text \<open>Dynamic dispatch of \<open>content.to_dict()\<close>.\<close>

definition content_to_dict :: "message_content \<Rightarrow> (pystr \<times> json) list" where
  "content_to_dict c =
     text_to_dict c @ image_to_dict c @ video_to_dict c @ audio_to_dict c @ sticker_to_dict c @
     raw_to_dict c"

record bot_message =
  bm_jid :: pystr
  bm_content :: message_content
  bm_quoted_message_id :: "pystr option"
  bm_expiration :: "int option"

definition message_to_dict :: "bot_message \<Rightarrow> (pystr \<times> json) list" where
  "message_to_dict m =
     [(U ''jid'', JStr (bm_jid m)), (U ''content'', JObj (content_to_dict (bm_content m)))] @
     opt_str ''quoted_message_id'' (bm_quoted_message_id m) @
     (case bm_expiration m of None \<Rightarrow> []
      | Some e \<Rightarrow> if e = 0 then [] else [(U ''expiration'', JNum (of_int e))])"

subsection \<open>The reply builder\<close>

definition reply_build :: "command_data \<Rightarrow> message_content \<Rightarrow> bot_message" where
  "reply_build d c = \<lparr>bm_jid = cd_jid d, bm_content = c,
     bm_quoted_message_id = cd_message_id d, bm_expiration = cd_expiration d\<rparr>"

definition reply_text :: "command_data \<Rightarrow> pystr \<Rightarrow> bot_message" where
  "reply_text d t = reply_build d (TextContent t [])"

definition reply_text_with :: "command_data \<Rightarrow> pystr \<Rightarrow> pystr list \<Rightarrow> bot_message" where
  "reply_text_with d t ms = reply_build d (TextContent t ms)"

definition reply_image :: "command_data \<Rightarrow> pystr \<Rightarrow> pystr option \<Rightarrow> bot_message" where
  "reply_image d url c = reply_build d (ImageContent url c True)"

definition reply_image_buffer :: "command_data \<Rightarrow> bytes \<Rightarrow> pystr option \<Rightarrow> bot_message" where
  "reply_image_buffer d b c = reply_build d (ImageBufferContent b c True)"

definition reply_video :: "command_data \<Rightarrow> pystr \<Rightarrow> pystr option \<Rightarrow> bot_message" where
  "reply_video d url c = reply_build d (VideoContent url c True)"

definition reply_video_buffer ::
  "command_data \<Rightarrow> bytes \<Rightarrow> pystr option \<Rightarrow> bool \<Rightarrow> bot_message" where
  "reply_video_buffer d b c g = reply_build d (VideoBufferContent b c True g)"

definition reply_audio :: "command_data \<Rightarrow> pystr \<Rightarrow> pystr \<Rightarrow> bot_message" where
  "reply_audio d url m = reply_build d (AudioContent url True m)"

definition reply_audio_buffer :: "command_data \<Rightarrow> bytes \<Rightarrow> pystr \<Rightarrow> bot_message" where
  "reply_audio_buffer d b m = reply_build d (AudioBufferContent b m (U ''audio_buffer''))"

definition reply_sticker :: "command_data \<Rightarrow> bytes \<Rightarrow> pystr \<Rightarrow> pystr \<Rightarrow> bot_message" where
  "reply_sticker d b p a = reply_build d (StickerContent b p a)"

definition reply_raw :: "command_data \<Rightarrow> (pystr \<times> json) list \<Rightarrow> bot_message" where
  "reply_raw d c = reply_build d (RawContent c)"

lemmas reply_defs = reply_build_def reply_text_def reply_text_with_def reply_image_def
  reply_image_buffer_def reply_video_def reply_video_buffer_def reply_audio_def
  reply_audio_buffer_def reply_sticker_def reply_raw_def

lemma has_buffer_iff: "has_buffer c \<longleftrightarrow> content_buffer c \<noteq> None"
  by (cases c) simp_all

end
