(* ===== verification/Parser.thy ===== *)
theory Parser
  imports Messages "HOL-Library.AList"
begin

text \<open>
  Command configurations (bot/domain/commands/base.py) and the command parser
  (bot/domain/parsers): the regular expression compiled from a configuration, which decides
  whether a text is the command, and the tokenizer, which fills flags, options and the rest.
\<close>

datatype arg_type = ARG_NONE | ARG_REQUIRED | ARG_OPTIONAL

datatype command_flag = DM | SHOW

fun flag_value :: "command_flag \<Rightarrow> pystr" where
  "flag_value DM = U ''dm''"
| "flag_value SHOW = U ''show''"

datatype category = RANDOM | DOWNLOAD | GROUP | INFORMATION | OTHER

fun category_value :: "category \<Rightarrow> pystr" where
  "category_value RANDOM = U ''random''"
| "category_value DOWNLOAD = U ''download''"
| "category_value GROUP = U ''group''"
| "category_value INFORMATION = U ''info''"
| "category_value OTHER = U ''other''"

datatype command_scope = PUBLIC | INTERNAL | DISABLED | ADMIN | NSFW | DEV

text \<open>
  The patterns are regular expressions already parsed; \<open>args_pattern\<close> is the list of the
  concatenated items of its source, so that its anchors are items (no pattern of the code has
  an alternation at its top level).  The description of an option, a text for menus, is left
  out.
\<close>

record option_def =
  od_name :: pystr
  od_values :: "pystr list"
  od_pattern :: "rx option"

record command_config =
  cc_name :: pystr
  cc_aliases :: "pystr list"
  cc_flags :: "pystr list"
  cc_options :: "option_def list"
  cc_args :: arg_type
  cc_args_pattern :: "rx list option"
  cc_args_label :: "pystr option"
  cc_scope :: command_scope
  cc_group_only :: bool
  cc_category :: "category option"
  cc_platforms :: "platform list"
  cc_exclusive :: bool

definition CommandConfig :: "pystr \<Rightarrow> command_config" where
  "CommandConfig name =
     \<lparr>cc_name = name, cc_aliases = [], cc_flags = [], cc_options = [], cc_args = ARG_NONE,
      cc_args_pattern = None, cc_args_label = None, cc_scope = PUBLIC, cc_group_only = False, cc_category = None,
      cc_platforms = [WHATSAPP], cc_exclusive = False\<rparr>"

lemmas CommandConfig_sel [simp] = CommandConfig_def

type_synonym str_dict = "(pystr \<times> pystr) list"

record parsed_command =
  pc_command_name :: pystr
  pc_flags :: "pystr set"
  pc_options :: str_dict
  pc_rest :: pystr

text \<open>\<open>ParsedCommand.number\<close>: \<open>int\<close> raises on a digit that is not decimal.\<close>

definition parsed_number :: "parsed_command \<Rightarrow> pystr \<Rightarrow> exn + nat" where
  "parsed_number p option =
     (let value = (case dict_get (pc_options p) option of None \<Rightarrow> [] | Some v \<Rightarrow> v);
          digits = filter is_digit value
      in if digits = [] then Inr 0
         else case py_int digits of None \<Rightarrow> Inl (OtherExn (U ''ValueError'')) | Some n \<Rightarrow> Inr n)"

subsection \<open>The compiled pattern\<close>

definition escape_cp :: "nat \<Rightarrow> rx" where
  "escape_cp c = (if c < 128 then Chr c else Dot)"

definition escape :: "pystr \<Rightarrow> rx" where
  "escape s = rseq (map escape_cp s)"

text \<open>
  A run of white space in a name becomes \<open>\s*\<close>; only ASCII white space is left when the
  substitution runs, because \<open>escape\<close> has replaced every other character by a dot.
\<close>

fun name_items :: "pystr \<Rightarrow> rx list" where
  "name_items [] = []"
| "name_items (c # cs) =
     (if is_space c \<and> c < 128
      then (case name_items cs of
              [] \<Rightarrow> [Spaces]
            | r # rs \<Rightarrow> if r = Spaces then r # rs else Spaces # r # rs)
      else escape_cp c # name_items cs)"

definition name_pattern :: "pystr \<Rightarrow> rx" where
  "name_pattern name = rseq (name_items name)"

definition sorted_names :: "command_config \<Rightarrow> pystr list" where
  "sorted_names cfg = sort_key (\<lambda>n. - int (length n)) (cc_name cfg # cc_aliases cfg)"

definition name_alternation :: "command_config \<Rightarrow> rx" where
  "name_alternation cfg = ralt (map name_pattern (sorted_names cfg))"

fun option_alternatives :: "option_def list \<Rightarrow> rx list" where
  "option_alternatives [] = []"
| "option_alternatives (opt # opts) =
     (if od_values opt \<noteq> []
      then ralt (map escape (sort_key (\<lambda>v. - int (length v)) (od_values opt)))
             # option_alternatives opts
      else case od_pattern opt of
             Some p \<Rightarrow> p # option_alternatives opts
           | None \<Rightarrow> option_alternatives opts)"

definition token_alternatives :: "command_config \<Rightarrow> rx list" where
  "token_alternatives cfg = option_alternatives (cc_options cfg) @ map escape (cc_flags cfg)"

definition strip_anchors :: "rx list \<Rightarrow> rx list" where
  "strip_anchors items =
     (let xs = (case items of Bol # rs \<Rightarrow> rs | _ \<Rightarrow> items)
      in if xs \<noteq> [] \<and> last xs = Eol then butlast xs else xs)"

definition args_segment :: "command_config \<Rightarrow> rx" where
  "args_segment cfg =
     (if cc_args cfg = ARG_NONE then Seq Spaces Eol
      else case cc_args_pattern cfg of
             Some (p # ps) \<Rightarrow> rseq (Spaces # strip_anchors (p # ps) @ [Spaces, Eol])
           | _ \<Rightarrow>
               if cc_args cfg = ARG_REQUIRED then Seq (Plus (Cls CSpace)) (Plus Dot)
               else Seq (Opt (Seq (Plus (Cls CSpace)) (Star True Dot))) Eol)"

definition build :: "command_config \<Rightarrow> rx" where
  "build cfg =
     rseq ([Bol, Spaces, Chr 44, Spaces, name_alternation cfg]
           @ (if token_alternatives cfg = [] then []
              else [Star True (Seq (Plus (Cls CSpace)) (ralt (token_alternatives cfg)))])
           @ [args_segment cfg])"

definition matches :: "command_config \<Rightarrow> pystr \<Rightarrow> bool" where
  "matches cfg text \<longleftrightarrow> search True (build cfg) text \<noteq> None"

subsection \<open>The tokenizer\<close>

definition leading_comma :: rx where
  "leading_comma = rseq [Bol, Spaces, Chr 44, Spaces]"

fun consume_name :: "pystr list \<Rightarrow> pystr \<Rightarrow> pystr \<times> pystr" where
  "consume_name [] text = ([], text)"
| "consume_name (name # names) text =
     (case prefixmatch True (name_pattern name) text of
        None \<Rightarrow> consume_name names text
      | Some rest \<Rightarrow> (name, strip rest))"

definition consume_command_name :: "command_config \<Rightarrow> pystr \<Rightarrow> pystr \<times> pystr" where
  "consume_command_name cfg text = consume_name (sorted_names cfg) text"

definition token_is :: "pystr \<Rightarrow> pystr \<Rightarrow> bool" where
  "token_is v token \<longleftrightarrow> fullmatch True (escape v) token"

definition match_option_value :: "option_def \<Rightarrow> pystr \<Rightarrow> pystr option" where
  "match_option_value opt token =
     (case find (\<lambda>v. token_is v token) (od_values opt) of
        Some v \<Rightarrow> Some v
      | None \<Rightarrow>
          (case od_pattern opt of
             None \<Rightarrow> None
           | Some p \<Rightarrow> if fullmatch True p token then Some token else None))"

fun try_match_option :: "option_def list \<Rightarrow> pystr \<Rightarrow> str_dict \<Rightarrow> (pystr \<times> pystr) option" where
  "try_match_option [] token matched = None"
| "try_match_option (opt # opts) token matched =
     (if od_name opt \<in> fst ` set matched then try_match_option opts token matched
      else case match_option_value opt token of
             Some v \<Rightarrow> Some (od_name opt, v)
           | None \<Rightarrow> try_match_option opts token matched)"

fun match_option_as_value :: "option_def list \<Rightarrow> pystr \<Rightarrow> pystr option" where
  "match_option_as_value [] token = None"
| "match_option_as_value (opt # opts) token =
     (case find (\<lambda>v. token_is v token) (od_values opt) of
        Some v \<Rightarrow> Some v
      | None \<Rightarrow> match_option_as_value opts token)"

text \<open>The test \<open>value in options\<close> of the source looks the value up among the keys.\<close>

definition try_positional_option ::
  "command_config \<Rightarrow> pystr list \<Rightarrow> str_dict \<Rightarrow> pystr option" where
  "try_positional_option cfg tokens options =
     (case tokens of
        _ # nxt # _ \<Rightarrow>
          (case match_option_as_value (cc_options cfg) nxt of
             None \<Rightarrow> None
           | Some v \<Rightarrow> if v \<in> fst ` set options then None else Some v)
      | _ \<Rightarrow> None)"

definition try_match_flag :: "command_config \<Rightarrow> pystr \<Rightarrow> pystr set \<Rightarrow> pystr option" where
  "try_match_flag cfg token matched =
     find (\<lambda>f. f \<notin> matched \<and> token_is f token) (cc_flags cfg)"

record parse_state =
  ps_options :: str_dict
  ps_flags :: "pystr set"
  ps_rest :: "pystr list"

text \<open>
  One step on the tokens from the current index on (not empty): how far the index moves, and
  the new state.
\<close>

definition consume_token ::
  "command_config \<Rightarrow> pystr list \<Rightarrow> parse_state \<Rightarrow> nat \<times> parse_state" where
  "consume_token cfg tokens st =
     (let token = hd tokens; options = ps_options st in
      case try_match_option (cc_options cfg) (join [32] (take 2 tokens)) options of
        Some (k, v) \<Rightarrow> (2, st\<lparr>ps_options := AList.update k v options\<rparr>)
      | None \<Rightarrow>
      (case try_match_option (cc_options cfg) token options of
        Some (k, v) \<Rightarrow> (1, st\<lparr>ps_options := AList.update k v options\<rparr>)
      | None \<Rightarrow>
      (case try_positional_option cfg tokens options of
        Some v \<Rightarrow>
          if v \<noteq> [] then (2, st\<lparr>ps_options := AList.update token v options\<rparr>)
          else (case try_match_flag cfg token (ps_flags st) of
                  Some f \<Rightarrow> (1, st\<lparr>ps_flags := insert f (ps_flags st)\<rparr>)
                | None \<Rightarrow> (1, st\<lparr>ps_rest := ps_rest st @ [token]\<rparr>))
      | None \<Rightarrow>
      (case try_match_flag cfg token (ps_flags st) of
        Some f \<Rightarrow> (1, st\<lparr>ps_flags := insert f (ps_flags st)\<rparr>)
      | None \<Rightarrow> (1, st\<lparr>ps_rest := ps_rest st @ [token]\<rparr>)))))"

lemma consume_token_progress: "1 \<le> fst (consume_token cfg tokens st)"
  by (auto simp: consume_token_def Let_def split: option.splits)

function parse_tokens :: "command_config \<Rightarrow> pystr list \<Rightarrow> parse_state \<Rightarrow> parse_state" where
  "parse_tokens cfg tokens st =
     (if tokens = [] then st
      else parse_tokens cfg (drop (fst (consume_token cfg tokens st)) tokens)
             (snd (consume_token cfg tokens st)))"
  by pat_completeness auto
termination
proof (relation "measure (\<lambda>(cfg, tokens, st). length tokens)")
  fix cfg tokens st assume "(tokens :: pystr list) \<noteq> []"
  with consume_token_progress [of cfg tokens st]
  show "((cfg, drop (fst (consume_token cfg tokens st)) tokens, snd (consume_token cfg tokens st)),
         cfg, tokens, st) \<in> measure (\<lambda>(cfg, tokens, st). length tokens)"
    by (cases tokens) auto
qed simp

declare parse_tokens.simps [simp del]

definition parse :: "command_config \<Rightarrow> pystr \<Rightarrow> parsed_command" where
  "parse cfg text =
     (let (name, remaining) = consume_command_name cfg (rx_sub False leading_comma (\<lambda>_. []) text);
          st = parse_tokens cfg (split_ws remaining)
                 \<lparr>ps_options = [], ps_flags = {}, ps_rest = []\<rparr>
      in \<lparr>pc_command_name = name, pc_flags = ps_flags st, pc_options = ps_options st,
          pc_rest = join [32] (ps_rest st)\<rparr>)"

end
