(* ===== verification/Parser_Props.thy ===== *)
theory Parser_Props
  imports Parser_Facts
begin

text \<open>The properties of the command parser.\<close>

subsection \<open>What the tokenizer returns\<close>

definition parse_inv :: "command_config \<Rightarrow> pystr list \<Rightarrow> parse_state \<Rightarrow> bool" where
  "parse_inv cfg seen st \<longleftrightarrow>
     subseq (ps_rest st) seen \<and> ps_flags st \<subseteq> set (cc_flags cfg) \<and> finite (ps_flags st) \<and>
     distinct (map fst (ps_options st)) \<and>
     length (ps_rest st) + card (ps_flags st) + length (ps_options st) \<le> length seen"

definition option_origin :: "command_config \<Rightarrow> pystr list \<Rightarrow> pystr \<times> pystr \<Rightarrow> bool" where
  "option_origin cfg seen kv \<longleftrightarrow>
     (\<exists>opt \<in> set (cc_options cfg). fst kv = od_name opt \<and>
        (snd kv \<in> set (od_values opt) \<or>
         (\<exists>p. od_pattern opt = Some p \<and> fullmatch True p (snd kv)))) \<or>
     (fst kv \<in> set seen \<and> (\<exists>opt \<in> set (cc_options cfg). snd kv \<in> set (od_values opt)))"

lemma match_option_value_cases:
  "match_option_value opt token = Some v \<Longrightarrow>
   v \<in> set (od_values opt) \<or> (\<exists>p. od_pattern opt = Some p \<and> v = token \<and> fullmatch True p token)"
  by (auto simp: match_option_value_def find_Some_iff split: option.splits if_splits)

lemma try_match_option_Some:
  "try_match_option opts token matched = Some (k, v) \<Longrightarrow>
   k \<notin> fst ` set matched \<and>
   (\<exists>opt \<in> set opts. k = od_name opt \<and>
      (v \<in> set (od_values opt) \<or> (\<exists>p. od_pattern opt = Some p \<and> fullmatch True p v)))"
proof (induction opts)
  case (Cons opt opts)
  then show ?case
    by (cases "match_option_value opt token")
       (auto split: if_splits dest!: match_option_value_cases)
qed simp

lemma match_option_as_value_Some:
  "match_option_as_value opts token = Some v \<Longrightarrow> \<exists>opt \<in> set opts. v \<in> set (od_values opt)"
  by (induction opts) (auto simp: find_Some_iff split: option.splits)

lemma try_positional_Some:
  assumes "try_positional_option cfg tokens options = Some v"
  shows "2 \<le> length tokens \<and> (\<exists>opt \<in> set (cc_options cfg). v \<in> set (od_values opt))"
  using assms
  by (auto simp: try_positional_option_def split: list.splits option.splits if_splits
      dest: match_option_as_value_Some)

lemma try_match_flag_Some:
  "try_match_flag cfg token matched = Some f \<Longrightarrow> f \<in> set (cc_flags cfg) \<and> f \<notin> matched"
  by (auto simp: try_match_flag_def find_Some_iff)

text \<open>The four outcomes of one step.\<close>

lemma consume_token_cases:
  assumes "tokens \<noteq> []"
  obtains (opt) n k v where "consume_token cfg tokens st =
      (n, st\<lparr>ps_options := AList.update k v (ps_options st)\<rparr>)" "n = 1 \<or> n = 2"
      "k \<notin> fst ` set (ps_options st)" "option_origin cfg [] (k, v)"
  | (pos) v where "consume_token cfg tokens st =
      (2, st\<lparr>ps_options := AList.update (hd tokens) v (ps_options st)\<rparr>)" "2 \<le> length tokens"
      "\<exists>opt \<in> set (cc_options cfg). v \<in> set (od_values opt)"
  | (flag) f where "consume_token cfg tokens st = (1, st\<lparr>ps_flags := insert f (ps_flags st)\<rparr>)"
      "f \<in> set (cc_flags cfg)" "f \<notin> ps_flags st"
  | (rest) "consume_token cfg tokens st = (1, st\<lparr>ps_rest := ps_rest st @ [hd tokens]\<rparr>)"
proof -
  let ?flag = "try_match_flag cfg (hd tokens) (ps_flags st)"
  note d = consume_token_def Let_def
  show thesis
  proof (cases "try_match_option (cc_options cfg) (join [32] (take 2 tokens)) (ps_options st)")
    case (Some kv)
    then show thesis using try_match_option_Some [of _ _ _ "fst kv" "snd kv"]
      by (intro opt [of 2 "fst kv" "snd kv"]) (auto simp: d option_origin_def split: prod.splits)
  next
    case pair: None
    show thesis
    proof (cases "try_match_option (cc_options cfg) (hd tokens) (ps_options st)")
      case (Some kv)
      then show thesis using pair try_match_option_Some [of _ _ _ "fst kv" "snd kv"]
        by (intro opt [of 1 "fst kv" "snd kv"]) (auto simp: d option_origin_def split: prod.splits)
    next
      case single: None
      have fl: thesis if "consume_token cfg tokens st =
        (case ?flag of Some f \<Rightarrow> (1, st\<lparr>ps_flags := insert f (ps_flags st)\<rparr>)
         | None \<Rightarrow> (1, st\<lparr>ps_rest := ps_rest st @ [hd tokens]\<rparr>))"
        using that flag rest try_match_flag_Some by (cases ?flag) auto
      show thesis
      proof (cases "try_positional_option cfg tokens (ps_options st)")
        case None
        then show thesis by (intro fl) (simp add: d pair single)
      next
        case (Some v)
        from try_positional_Some [OF Some] have v: "2 \<le> length tokens"
          "\<exists>opt \<in> set (cc_options cfg). v \<in> set (od_values opt)" by auto
        show thesis
        proof (cases "v = []")
          case True
          then show thesis by (intro fl) (simp add: d pair single Some)
        next
          case False
          then show thesis by (intro pos [of v] v) (simp_all add: d pair single Some)
        qed
      qed
    qed
  qed
qed

lemma length_update_le: "length (AList.update k v xs) \<le> Suc (length xs)"
  by (induction xs) auto

lemma subseq_snoc_take:
  "subseq r seen \<Longrightarrow> ts \<noteq> [] \<Longrightarrow> 1 \<le> n \<Longrightarrow> subseq (r @ [hd ts]) (seen @ take n ts)"
  by (intro list_emb_append_mono) (cases ts; cases n; simp)+

lemma subseq_grow: "subseq r seen \<Longrightarrow> subseq r (seen @ ts)"
  using list_emb_append_mono [of "(=)" r seen "[]" ts] by simp

lemma consume_token_inv:
  assumes "tokens \<noteq> []" and "parse_inv cfg seen st"
  shows "parse_inv cfg (seen @ take (fst (consume_token cfg tokens st)) tokens)
           (snd (consume_token cfg tokens st))"
  using assms(1)
proof (cases rule: consume_token_cases [of tokens cfg st, case_names opt pos flag rest])
  case (opt n k v)
  then show ?thesis using assms length_update_le [of k v "ps_options st"]
    by (cases tokens) (auto simp: parse_inv_def subseq_grow distinct_update min_def split: if_splits)
next
  case (pos v)
  then show ?thesis using assms length_update_le [of "hd tokens" v "ps_options st"]
    by (auto simp: parse_inv_def subseq_grow distinct_update)
next
  case (flag f)
  then show ?thesis using assms by (cases tokens) (auto simp: parse_inv_def subseq_grow)
next
  case rest
  then show ?thesis using assms subseq_snoc_take [of "ps_rest st" seen tokens 1]
    by (cases tokens) (auto simp: parse_inv_def)
qed

lemma parse_tokens_inv:
  "parse_inv cfg seen st \<Longrightarrow> parse_inv cfg (seen @ tokens) (parse_tokens cfg tokens st)"
proof (induction cfg tokens st arbitrary: seen rule: parse_tokens.induct)
  case (1 cfg tokens st)
  show ?case
  proof (cases "tokens = []")
    case True
    then show ?thesis using 1 by (simp add: parse_tokens.simps)
  next
    case False
    from "1.IH" [OF False consume_token_inv [OF False "1.prems"]] False show ?thesis
      by (simp add: parse_tokens.simps [of cfg tokens st])
  qed
qed


lemma update_subset: "set (AList.update k v xs) \<subseteq> insert (k, v) (set xs)"
  by (induction xs) auto

lemma option_origin_mono:
  "option_origin cfg seen kv \<Longrightarrow> set seen \<subseteq> set seen' \<Longrightarrow> option_origin cfg seen' kv"
  unfolding option_origin_def by blast

lemma consume_token_origin:
  assumes "tokens \<noteq> []" and "list_all (option_origin cfg seen) (ps_options st)"
    and "set tokens \<subseteq> set seen"
  shows "list_all (option_origin cfg seen) (ps_options (snd (consume_token cfg tokens st)))"
  using assms(1)
proof (cases rule: consume_token_cases [of tokens cfg st, case_names opt pos flag rest])
  case (opt n k v)
  then have "option_origin cfg seen (k, v)" by (auto intro: option_origin_mono)
  with opt assms(2) update_subset [of k v "ps_options st"] show ?thesis
    by (auto simp: list_all_iff)
next
  case (pos v)
  then have "option_origin cfg seen (hd tokens, v)"
    using assms(3) hd_in_set [OF assms(1)] by (auto simp: option_origin_def)
  with pos assms(2) update_subset [of "hd tokens" v "ps_options st"] show ?thesis
    by (auto simp: list_all_iff)
qed (use assms(2) in auto)

lemma parse_tokens_origin:
  "list_all (option_origin cfg seen) (ps_options st) \<Longrightarrow> set tokens \<subseteq> set seen \<Longrightarrow>
   list_all (option_origin cfg seen) (ps_options (parse_tokens cfg tokens st))"
proof (induction cfg tokens st rule: parse_tokens.induct)
  case (1 cfg tokens st)
  show ?case
  proof (cases "tokens = []")
    case True
    then show ?thesis using 1 by (simp add: parse_tokens.simps)
  next
    case False
    have "set (drop (fst (consume_token cfg tokens st)) tokens) \<subseteq> set seen"
      using "1.prems"(2) set_drop_subset by fast
    from "1.IH" [OF False consume_token_origin [OF False "1.prems"] this] False show ?thesis
      by (simp add: parse_tokens.simps [of cfg tokens st])
  qed
qed

definition parse_args_of :: "command_config \<Rightarrow> pystr \<Rightarrow> pystr list" where
  "parse_args_of cfg text =
     split_ws (snd (consume_command_name cfg (rx_sub False leading_comma (\<lambda>_. []) text)))"

lemma parse_eq:
  "parse cfg text =
     (let st = parse_tokens cfg (parse_args_of cfg text)
                 \<lparr>ps_options = [], ps_flags = {}, ps_rest = []\<rparr>
      in \<lparr>pc_command_name = fst (consume_command_name cfg (rx_sub False leading_comma (\<lambda>_. []) text)),
          pc_flags = ps_flags st, pc_options = ps_options st, pc_rest = join [32] (ps_rest st)\<rparr>)"
  by (simp add: parse_def parse_args_of_def case_prod_beta Let_def)

lemma subseq_words: "subseq xs ys \<Longrightarrow> list_all P ys \<Longrightarrow> list_all P xs"
  by (auto simp: list_all_iff elim!: list_emb_set)

lemma parse_final_inv:
  "parse_inv cfg (parse_args_of cfg text)
     (parse_tokens cfg (parse_args_of cfg text) \<lparr>ps_options = [], ps_flags = {}, ps_rest = []\<rparr>)"
  using parse_tokens_inv [of cfg "[]"] by (simp add: parse_inv_def)

lemma consume_token_keeps:
  assumes "tokens \<noteq> []" "k \<notin> set tokens" "map_of (ps_options st) k = Some v"
  shows "map_of (ps_options (snd (consume_token cfg tokens st))) k = Some v"
  using assms(1)
proof (cases rule: consume_token_cases [of tokens cfg st, case_names opt pos flag rest])
  case (opt n k' v')
  moreover have "k \<in> fst ` set (ps_options st)"
    using map_of_SomeD [OF assms(3)] by force
  ultimately show ?thesis
    using assms(3) by (auto simp: update_conv)
next
  case (pos v')
  then show ?thesis
    using assms hd_in_set [OF assms(1)] by (auto simp: update_conv)
qed (use assms(3) in auto)

lemma parse_tokens_keeps:
  "k \<notin> set tokens \<Longrightarrow> map_of (ps_options st) k = Some v \<Longrightarrow>
   map_of (ps_options (parse_tokens cfg tokens st)) k = Some v"
proof (induction cfg tokens st rule: parse_tokens.induct)
  case (1 cfg tokens st)
  show ?case
  proof (cases "tokens = []")
    case False
    have "k \<notin> set (drop (fst (consume_token cfg tokens st)) tokens)"
      using "1.prems"(1) set_drop_subset by fast
    from "1.IH" [OF False this consume_token_keeps [OF False "1.prems"]] False show ?thesis
      by (simp add: parse_tokens.simps [of cfg tokens st])
  qed (use "1.prems"(2) in \<open>simp add: parse_tokens.simps\<close>)
qed

text \<open>
  C23: the tokenizer invents nothing, counts no word twice and lets the first value of an option
  stand.  The words of \<open>rest\<close> are words of the argument text, in their order; every flag is
  one the command declares; each option has one value; flags, options and rest together use no
  more than the words there are; and at any point of a text the value an option has by then is
  the one it keeps, unless a later word is the very name of the option (the one way there is
  to replace a value, and one that a person can come upon only by writing that name).
\<close>

theorem parse_conserves_words:
  "subseq (split_ws (pc_rest (parse cfg text))) (parse_args_of cfg text) \<and>
   pc_flags (parse cfg text) \<subseteq> set (cc_flags cfg) \<and>
   distinct (map fst (pc_options (parse cfg text))) \<and>
   length (split_ws (pc_rest (parse cfg text))) + card (pc_flags (parse cfg text))
     + length (pc_options (parse cfg text)) \<le> length (parse_args_of cfg text) \<and>
   (\<forall>st tokens name. name \<in> set tokens \<or> map_of (ps_options st) name = None \<or>
     map_of (ps_options (parse_tokens cfg tokens st)) name = map_of (ps_options st) name)"
proof -
  let ?st = "parse_tokens cfg (parse_args_of cfg text) \<lparr>ps_options = [], ps_flags = {}, ps_rest = []\<rparr>"
  have inv: "parse_inv cfg (parse_args_of cfg text) ?st" by (rule parse_final_inv)
  then have "list_all is_word (ps_rest ?st)"
    using subseq_words split_ws_words by (auto simp: parse_inv_def parse_args_of_def)
  then have "split_ws (pc_rest (parse cfg text)) = ps_rest ?st"
    by (simp add: parse_eq Let_def split_join)
  moreover have "name \<in> set tokens \<or> map_of (ps_options st) name = None \<or>
      map_of (ps_options (parse_tokens cfg tokens st)) name = map_of (ps_options st) name" for st tokens name
    using parse_tokens_keeps [of name tokens st _ cfg] by (cases "map_of (ps_options st) name") auto
  ultimately show ?thesis using inv by (simp add: parse_inv_def parse_eq Let_def)
qed

text \<open>
  Every option the tokenizer returns is explained by the configuration: it is a declared
  option with one of its values (or a text its pattern matches), or it is a pair of words whose
  second word is a value of a declared option.
\<close>

theorem parse_options_explained:
  "list_all (option_origin cfg (parse_args_of cfg text)) (pc_options (parse cfg text))"
  using parse_tokens_origin [of cfg "parse_args_of cfg text"] by (simp add: parse_eq Let_def)

subsection \<open>A text that the pattern accepts has a command name\<close>

definition ascii_start :: "pystr \<Rightarrow> bool" where
  "ascii_start n \<longleftrightarrow> (case n of [] \<Rightarrow> False | c # _ \<Rightarrow> c < 128 \<and> \<not> is_space c)"

lemma name_items_ctx_free: "ctx_free (rseq (name_items n))"
  by (induction n) (auto simp: escape_cp_def split: list.splits)

lemma ascii_start_match:
  assumes "ascii_start n" and "rx_m True (name_pattern n) (p, t) \<noteq> []"
  shows "\<exists>c cs. t = c # cs \<and> \<not> is_space c"
proof -
  from assms(1) obtain a as where n: "n = a # as" "a < 128" "\<not> is_space a"
    by (auto simp: ascii_start_def split: list.splits)
  with assms(2) obtain c cs where t: "t = c # cs" "chr_eq True a c"
    by (auto simp: name_pattern_def escape_cp_def step_if_def split: list.splits if_splits)
  then have "a \<in> set (ci_variants c)" by (simp add: chr_eq_def)
  with n variants_space [of c] have "\<not> is_space c" by auto
  with t show ?thesis by blast
qed

lemma consume_name_found:
  assumes "name \<in> set names" and "prefixmatch True (name_pattern name) t \<noteq> None"
  shows "fst (consume_name names t) \<in> set names"
  using assms by (induction names) (auto split: option.splits)

lemma dropWhile_spaces: "list_all P w \<Longrightarrow> dropWhile P (w @ s) = dropWhile P s"
  by (induction w) auto

text \<open>
  When every name of a command starts with an ASCII character, a text that the compiled
  pattern matches is one the tokenizer finds a command name in: the two readings of the text,
  \<open>matches\<close> to choose the command and \<open>parse\<close> to run it, agree.
\<close>

theorem matches_has_command_name:
  assumes "list_all ascii_start (cc_name cfg # cc_aliases cfg)" and "matches cfg text"
  shows "pc_command_name (parse cfg text) \<in> set (cc_name cfg # cc_aliases cfg)"
proof -
  from assms(2) obtain ws1 ws2 t p name where tx: "text = ws1 @ 44 # ws2 @ t"
    "list_all is_space ws1" "list_all is_space ws2"
    and name: "name \<in> set (sorted_names cfg)" "rx_m True (name_pattern name) (p, t) \<noteq> []"
    by (rule matches_shape)
  from name(1) assms(1) have "ascii_start name"
    by (auto simp: sorted_names_set list_all_iff)
  from ascii_start_match [OF this name(2)] obtain c cs where "t = c # cs" "\<not> is_space c" by blast
  then have "after_comma text = t"
    using tx by (simp add: after_comma_def dropWhile_spaces)
  moreover from name(2) have "rx_m True (name_pattern name) (None, t) \<noteq> []"
    using ctx_free_ne [OF name_items_ctx_free, of True name p t None] by (simp add: name_pattern_def)
  then have "prefixmatch True (name_pattern name) t \<noteq> None"
    by (simp add: prefixmatch_def split: list.splits)
  ultimately have "fst (consume_command_name cfg (after_comma text)) \<in> set (sorted_names cfg)"
    using consume_name_found [OF name(1)] by (simp add: consume_command_name_def)
  then show ?thesis by (simp add: parse_eq Let_def sub_leading_comma sorted_names_set)
qed


subsection \<open>Reading back a command as the bot documents it\<close>

lemma chr_eq_refl: "chr_eq True c c"
  by (simp add: chr_eq_def ci_variants_def)

lemma ascii_word_items:
  "list_all (\<lambda>c. c < 128 \<and> \<not> is_space c) n \<Longrightarrow> name_items n = map Chr n"
  by (induction n) (auto simp: escape_cp_def)

lemma lit_match: "\<exists>q. rx_m True (rseq (map Chr n)) (p, n @ s) = [(q, s)]"
proof (induction n arbitrary: p)
  case (Cons c n)
  then show ?case by (auto simp: step_if_def chr_eq_refl)
qed simp

lemma prefixmatch_name:
  "list_all (\<lambda>c. c < 128 \<and> \<not> is_space c) n \<Longrightarrow> prefixmatch True (name_pattern n) (n @ s) = Some s"
  using lit_match [of n None s] by (auto simp: prefixmatch_def name_pattern_def ascii_word_items)

definition plain_token :: "command_config \<Rightarrow> pystr \<Rightarrow> bool" where
  "plain_token cfg t \<longleftrightarrow> is_word t \<and> list_all (\<lambda>f. \<not> token_is f t) (cc_flags cfg)"

lemma consume_plain:
  assumes "cc_options cfg = []" and "plain_token cfg t"
  shows "consume_token cfg (t # ts) st = (1, st\<lparr>ps_rest := ps_rest st @ [t]\<rparr>)"
proof -
  have "try_match_flag cfg t (ps_flags st) = None"
    using assms(2) by (auto simp: try_match_flag_def plain_token_def find_None_iff list_all_iff)
  moreover have "try_positional_option cfg (t # ts) (ps_options st) = None"
    using assms(1) by (simp add: try_positional_option_def split: list.splits)
  ultimately show ?thesis using assms(1) by (simp add: consume_token_def)
qed

lemma parse_plain_tokens:
  "cc_options cfg = [] \<Longrightarrow> list_all (plain_token cfg) ts \<Longrightarrow>
   parse_tokens cfg ts st = st\<lparr>ps_rest := ps_rest st @ ts\<rparr>"
  by (induction ts arbitrary: st) (simp_all add: parse_tokens.simps [of cfg "_ # _"]
      parse_tokens.simps [of cfg "[]"] consume_plain)

text \<open>A text as the menu spells it: the comma, an ASCII name, and words.\<close>

lemma parse_spoken:
  assumes "is_word (cc_name cfg)" and "list_all (\<lambda>c. c < 128) (cc_name cfg)"
    and "cc_aliases cfg = []" and "list_all is_word ws"
  shows "parse cfg (join [32] ((44 # cc_name cfg) # ws)) =
    (let st = parse_tokens cfg ws \<lparr>ps_options = [], ps_flags = {}, ps_rest = []\<rparr>
     in \<lparr>pc_command_name = cc_name cfg, pc_flags = ps_flags st, pc_options = ps_options st,
         pc_rest = join [32] (ps_rest st)\<rparr>)"
proof -
  let ?n = "cc_name cfg" and ?r = "if ws = [] then [] else 32 # join [32] ws"
  have n: "list_all (\<lambda>c. c < 128 \<and> \<not> is_space c) ?n" "?n \<noteq> []" "\<not> is_space (hd ?n)"
    using assms(1,2) by (auto simp: is_word_def list_all_iff)
  have "after_comma (join [32] ((44 # ?n) # ws)) = ?n @ ?r"
    using n(2,3) by (cases ?n) (auto simp: after_comma_def join_Cons)
  moreover have "sorted_names cfg = [?n]"
    using assms(3) by (simp add: sorted_names_def)
  ultimately have c: "consume_command_name cfg
      (rx_sub False leading_comma (\<lambda>_. []) (join [32] ((44 # ?n) # ws))) = (?n, strip ?r)"
    by (simp only: sub_leading_comma consume_command_name_def consume_name.simps
        prefixmatch_name [OF n(1)] option.case)
  have "split_ws (strip ?r) = ws"
    unfolding split_ws_strip using split_join [OF assms(4)] by (simp add: split_ws_def)
  with c show ?thesis by (simp add: parse_def Let_def)
qed

definition puppy_config :: command_config where
  "puppy_config = (CommandConfig (U ''puppy''))\<lparr>
     cc_flags := [U ''show'', U ''dm''],
     cc_options := [\<lparr>od_name = U ''tipo'', od_values = [U ''dog'', U ''cat''], od_pattern = None\<rparr>],
     cc_category := Some RANDOM, cc_platforms := [ALL_PLATFORMS]\<rparr>"

theorem matches_has_command_name_witness:
  "pc_command_name (parse puppy_config (U '' , Puppy cat dm'')) \<in> {U ''puppy''}"
proof -
  have "list_all ascii_start (cc_name puppy_config # cc_aliases puppy_config)" by code_simp
  moreover have "matches puppy_config (U '' , Puppy cat dm'')" by code_simp
  ultimately show ?thesis
    using matches_has_command_name [of puppy_config "U '' , Puppy cat dm''"]
    by (simp add: puppy_config_def)
qed

text \<open>
  Round trip of a command with free text.  For a command without options and aliases whose
  name is an ASCII word, the text that joins a comma, the name and words that are none of its
  flags with single spaces is parsed to that name, no flags, no options, and the same words.
\<close>

theorem parse_plain_roundtrip:
  assumes "is_word (cc_name cfg)" and "list_all (\<lambda>c. c < 128) (cc_name cfg)"
    and "cc_aliases cfg = []" and "cc_options cfg = []" and "list_all (plain_token cfg) ws"
  shows "parse cfg (join [32] ((44 # cc_name cfg) # ws)) =
    \<lparr>pc_command_name = cc_name cfg, pc_flags = {}, pc_options = [], pc_rest = join [32] ws\<rparr>"
proof -
  have "list_all is_word ws" using assms(5) by (auto simp: list_all_iff plain_token_def)
  from parse_spoken [OF assms(1-3) this] parse_plain_tokens [OF assms(4,5)] show ?thesis
    by (simp add: Let_def)
qed

definition car_config :: command_config where
  "car_config = (CommandConfig (U ''carro''))\<lparr>cc_flags := [U ''show'', U ''dm'']\<rparr>"

theorem parse_plain_roundtrip_witness:
  "parse car_config (U '',carro gol 1998'') =
    \<lparr>pc_command_name = U ''carro'', pc_flags = {}, pc_options = [], pc_rest = U ''gol 1998''\<rparr>"
proof -
  have "list_all (plain_token car_config) [U ''gol'', U ''1998'']" by code_simp
  moreover have "is_word (cc_name car_config)" "list_all (\<lambda>c. c < 128) (cc_name car_config)" by code_simp+
  moreover have "join [32] ((44 # cc_name car_config) # [U ''gol'', U ''1998'']) = U '',carro gol 1998''"
    "join [32] [U ''gol'', U ''1998''] = U ''gol 1998''" by code_simp+
  ultimately show ?thesis
    using parse_plain_roundtrip [of car_config "[U ''gol'', U ''1998'']"]
    by (simp add: car_config_def del: join.simps)
qed

text \<open>
  An option value after another word is filed under that word.  In a command text of two
  words whose second spells a value of an option, where the first word, alone or with the
  second, is no option, the value is stored under the first word itself: the option keeps no
  value, the word is lost from the free text, and a flag in its place would be lost too.
\<close>

theorem positional_option_key_is_the_word:
  assumes "is_word (cc_name cfg)" and "list_all (\<lambda>c. c < 128) (cc_name cfg)"
    and "cc_aliases cfg = []" and "is_word w" and "is_word x"
    and "try_match_option (cc_options cfg) (join [32] [w, x]) [] = None"
    and "try_match_option (cc_options cfg) w [] = None"
    and "match_option_as_value (cc_options cfg) x = Some v" and "v \<noteq> []"
  shows "parse cfg (join [32] [44 # cc_name cfg, w, x]) =
    \<lparr>pc_command_name = cc_name cfg, pc_flags = {}, pc_options = [(w, v)], pc_rest = []\<rparr>"
proof -
  have "consume_token cfg [w, x] \<lparr>ps_options = [], ps_flags = {}, ps_rest = []\<rparr> =
      (2, \<lparr>ps_options = [(w, v)], ps_flags = {}, ps_rest = []\<rparr>)"
    using assms(6-9) by (simp add: consume_token_def try_positional_option_def)
  then have "parse_tokens cfg [w, x] \<lparr>ps_options = [], ps_flags = {}, ps_rest = []\<rparr> =
      \<lparr>ps_options = [(w, v)], ps_flags = {}, ps_rest = []\<rparr>"
    by (simp add: parse_tokens.simps)
  with parse_spoken [OF assms(1-3), of "[w, x]"] assms(4,5) show ?thesis
    by (simp add: Let_def)
qed

theorem positional_option_key_is_the_word_witness:
  "parse puppy_config (U '',puppy show cat'') =
    \<lparr>pc_command_name = U ''puppy'', pc_flags = {}, pc_options = [(U ''show'', U ''cat'')], pc_rest = []\<rparr>"
proof -
  have "is_word (cc_name puppy_config)" "list_all (\<lambda>c. c < 128) (cc_name puppy_config)"
    "is_word (U ''show'')" "is_word (U ''cat'')"
    "try_match_option (cc_options puppy_config) (join [32] [U ''show'', U ''cat'']) [] = None"
    "try_match_option (cc_options puppy_config) (U ''show'') [] = None"
    "match_option_as_value (cc_options puppy_config) (U ''cat'') = Some (U ''cat'')"
    "join [32] [44 # cc_name puppy_config, U ''show'', U ''cat''] = U '',puppy show cat''"
    by code_simp+
  then show ?thesis
    using positional_option_key_is_the_word [of puppy_config "U ''show''" "U ''cat''" "U ''cat''"]
    by (simp add: puppy_config_def str_simps del: join.simps)
qed

end
