(* ===== verification/Registry.thy ===== *)
theory Registry
  imports Parser_Props
begin

text \<open>
  Commands and the registry that selects one for a text (bot/domain/commands/base.py,
  bot/application/command_registry.py).  A command is its configuration, its menu text and
  its \<open>execute\<close> coroutine; the object identity that the registry tests is the position of
  the command in the registration order.
\<close>

type_synonym 'w exec = "command_data \<Rightarrow> parsed_command \<Rightarrow> (exn, 'w, bot_message list) act"

record 'w command =
  cmd_config :: command_config
  cmd_menu :: pystr
  cmd_execute :: "'w exec"

record 'w registry =
  rg_commands :: "'w command list"
  rg_by_name :: "pystr \<rightharpoonup> nat"

definition empty_registry :: "'w registry" where
  "empty_registry = \<lparr>rg_commands = [], rg_by_name = Map.empty\<rparr>"

definition register :: "'w registry \<Rightarrow> 'w command \<Rightarrow> 'w registry" where
  "register r c =
     (let i = length (rg_commands r);
          by_name = (rg_by_name r)(lower (cc_name (cmd_config c)) \<mapsto> i)
      in \<lparr>rg_commands = rg_commands r @ [c],
          rg_by_name = foldl (\<lambda>m alias. m(lower alias \<mapsto> i)) by_name (cc_aliases (cmd_config c))\<rparr>)"

definition get_by_index :: "'w registry \<Rightarrow> pystr \<Rightarrow> nat option" where
  "get_by_index r name = rg_by_name r (lower name)"

definition get_by_name :: "'w registry \<Rightarrow> pystr \<Rightarrow> 'w command option" where
  "get_by_name r name = map_option (\<lambda>i. rg_commands r ! i) (rg_by_name r (lower name))"

definition get_all :: "'w registry \<Rightarrow> 'w command list" where
  "get_all r = rg_commands r"

text \<open>
  \<open>^\s*,\s*([\w-]+)\<close>: white space is no word character, so the group is the longest run of
  word characters and dashes after the comma.
\<close>

definition leading_token :: "pystr \<Rightarrow> pystr option" where
  "leading_token text =
     (case prefixmatch False leading_comma text of
        None \<Rightarrow> None
      | Some rest \<Rightarrow>
          (let token = takeWhile (\<lambda>c. is_word_cp c \<or> c = 45) rest
           in if token = [] then None else Some token))"

definition lookup_by_leading_token :: "'w registry \<Rightarrow> pystr \<Rightarrow> nat option" where
  "lookup_by_leading_token r text =
     (case leading_token text of None \<Rightarrow> None | Some token \<Rightarrow> rg_by_name r (lower token))"

definition scan_matches :: "'w registry \<Rightarrow> nat option \<Rightarrow> pystr \<Rightarrow> nat option" where
  "scan_matches r candidate text =
     find (\<lambda>i. Some i \<noteq> candidate \<and> matches (cmd_config (rg_commands r ! i)) text)
       [0..<length (rg_commands r)]"

definition scan_parses :: "'w registry \<Rightarrow> pystr \<Rightarrow> nat option" where
  "scan_parses r text =
     find (\<lambda>i. pc_command_name (parse (cmd_config (rg_commands r ! i)) text) \<noteq> [])
       [0..<length (rg_commands r)]"

definition strategy_index :: "'w registry \<Rightarrow> pystr \<Rightarrow> nat option" where
  "strategy_index r text =
     (let candidate = lookup_by_leading_token r text in
      if (case candidate of None \<Rightarrow> False
          | Some i \<Rightarrow> matches (cmd_config (rg_commands r ! i)) text)
      then candidate
      else case scan_matches r candidate text of
             Some i \<Rightarrow> Some i
           | None \<Rightarrow> scan_parses r text)"

definition get_strategy :: "'w registry \<Rightarrow> pystr \<Rightarrow> 'w command option" where
  "get_strategy r text = map_option (\<lambda>i. rg_commands r ! i) (strategy_index r text)"

subsection \<open>The registry invariant\<close>

definition command_names :: "'w command \<Rightarrow> pystr list" where
  "command_names c = cc_name (cmd_config c) # cc_aliases (cmd_config c)"

text \<open>
  Every entry of the index points at a registered command that declares the name, and every
  declared name is in the index.
\<close>

definition registry_inv :: "'w registry \<Rightarrow> bool" where
  "registry_inv r \<longleftrightarrow>
     (\<forall>n i. rg_by_name r n = Some i \<longrightarrow>
        i < length (rg_commands r) \<and> n \<in> lower ` set (command_names (rg_commands r ! i))) \<and>
     (\<forall>c \<in> set (rg_commands r). lower ` set (command_names c) \<subseteq> dom (rg_by_name r))"

lemma foldl_alias:
  "foldl (\<lambda>m a. m(lower a \<mapsto> i)) m as n = (if n \<in> lower ` set as then Some i else m n)"
  by (induction as arbitrary: m) auto

lemma register_by_name:
  "rg_by_name (register r c) n =
     (if n \<in> lower ` set (command_names c) then Some (length (rg_commands r)) else rg_by_name r n)"
  by (auto simp: register_def Let_def foldl_alias command_names_def)

lemma register_commands: "rg_commands (register r c) = rg_commands r @ [c]"
  by (simp add: register_def Let_def)

lemma registry_inv_empty [inv_intros]: "registry_inv empty_registry"
  by (simp add: registry_inv_def empty_registry_def)

lemma registry_inv_register [inv_intros]:
  assumes "registry_inv r"
  shows "registry_inv (register r c)"
  unfolding registry_inv_def
proof (intro conjI allI impI ballI subsetI)
  fix n i assume n: "rg_by_name (register r c) n = Some i"
  have "i < Suc (length (rg_commands r)) \<and>
      n \<in> lower ` set (command_names ((rg_commands r @ [c]) ! i))"
  proof (cases "n \<in> lower ` set (command_names c)")
    case True
    with n have "i = length (rg_commands r)" by (simp add: register_by_name)
    with True show ?thesis by (simp add: nth_append)
  next
    case False
    with n have "rg_by_name r n = Some i" by (simp add: register_by_name)
    with assms have "i < length (rg_commands r)"
      "n \<in> lower ` set (command_names (rg_commands r ! i))"
      unfolding registry_inv_def by blast+
    then show ?thesis by (simp add: nth_append)
  qed
  then show "i < length (rg_commands (register r c))"
    "n \<in> lower ` set (command_names (rg_commands (register r c) ! i))"
    by (simp_all add: register_commands)
next
  fix d n assume d: "d \<in> set (rg_commands (register r c))" "n \<in> lower ` set (command_names d)"
  then consider "d = c" | "d \<in> set (rg_commands r)" by (auto simp: register_commands)
  then have "d = c \<or> n \<in> dom (rg_by_name r)"
    using assms d(2) unfolding registry_inv_def by cases blast+
  with d show "n \<in> dom (rg_by_name (register r c))"
    by (cases "n \<in> lower ` set (command_names c)") (auto simp: register_by_name domIff)
qed

definition register_all :: "'w command list \<Rightarrow> 'w registry" where
  "register_all cs = foldl register empty_registry cs"

lemma register_all_inv: "registry_inv (register_all cs)"
proof -
  have "registry_inv r \<Longrightarrow> registry_inv (foldl register r cs)" for r
    by (induction cs arbitrary: r) (auto intro: inv_intros)
  then show ?thesis by (simp add: register_all_def registry_inv_empty)
qed

lemma register_all_commands: "rg_commands (register_all cs) = cs"
proof -
  have "rg_commands (foldl register r cs) = rg_commands r @ cs" for r
    by (induction cs arbitrary: r) (auto simp: register_commands)
  then show ?thesis by (simp add: register_all_def empty_registry_def)
qed

lemma by_name_index: "registry_inv r \<Longrightarrow> rg_by_name r n = Some i \<Longrightarrow> i < length (rg_commands r)"
  by (auto simp: registry_inv_def)

lemma candidate_index:
  "registry_inv r \<Longrightarrow> lookup_by_leading_token r text = Some i \<Longrightarrow> i < length (rg_commands r)"
  by (auto simp: lookup_by_leading_token_def by_name_index split: option.splits)

lemma get_by_name_mem: "registry_inv r \<Longrightarrow> get_by_name r n = Some c \<Longrightarrow> c \<in> set (get_all r)"
  by (auto simp: get_by_name_def get_all_def by_name_index)

subsection \<open>Selection\<close>

definition accepts :: "'w command \<Rightarrow> pystr \<Rightarrow> bool" where
  "accepts c text \<longleftrightarrow> matches (cmd_config c) text \<or> pc_command_name (parse (cmd_config c) text) \<noteq> []"

lemma strategy_index_cases:
  assumes "registry_inv r" and "strategy_index r text = Some i"
  shows "i < length (rg_commands r) \<and>
    (matches (cmd_config (rg_commands r ! i)) text \<or>
     (\<forall>c \<in> set (rg_commands r). \<not> matches (cmd_config c) text) \<and>
     pc_command_name (parse (cmd_config (rg_commands r ! i)) text) \<noteq> [])"
proof (cases "\<exists>j. lookup_by_leading_token r text = Some j \<and> matches (cmd_config (rg_commands r ! j)) text")
  case True
  then show ?thesis using assms candidate_index by (auto simp: strategy_index_def Let_def)
next
  case False
  show ?thesis
  proof (cases "scan_matches r (lookup_by_leading_token r text) text")
    case (Some j)
    with False assms(2) have "j = i"
      by (auto simp: strategy_index_def Let_def split: option.splits)
    with Some show ?thesis by (auto simp: scan_matches_def find_Some_iff)
  next
    case None
    with False assms(2) have "scan_parses r text = Some i"
      by (auto simp: strategy_index_def Let_def split: option.splits)
    moreover have "\<not> matches (cmd_config c) text" if "c \<in> set (rg_commands r)" for c
      using None False that by (auto simp: scan_matches_def find_None_iff in_set_conv_nth)
    ultimately show ?thesis by (auto simp: scan_parses_def find_Some_iff)
  qed
qed

lemma strategy_index_None:
  "strategy_index r text = None \<Longrightarrow>
   i < length (rg_commands r) \<Longrightarrow> \<not> accepts (rg_commands r ! i) text"
  by (cases "lookup_by_leading_token r text")
     (auto simp: strategy_index_def accepts_def Let_def scan_matches_def scan_parses_def find_None_iff
       split: option.splits if_splits)

text \<open>
  \<open>get_strategy\<close> is sound and complete.  In a registry built by \<open>register\<close> it returns a
  registered command that accepts the text (a command whose pattern matches, before any that
  only has the name), and it returns none exactly when no registered command accepts it.
\<close>

theorem get_strategy_spec:
  "(case get_strategy (register_all cs) text of
      None \<Rightarrow> list_all (\<lambda>c. \<not> accepts c text) cs
    | Some c \<Rightarrow> c \<in> set cs \<and>
        (if list_ex (\<lambda>d. matches (cmd_config d) text) cs
         then matches (cmd_config c) text
         else pc_command_name (parse (cmd_config c) text) \<noteq> []))"
proof (cases "strategy_index (register_all cs) text")
  case None
  then show ?thesis
    using strategy_index_None [OF None]
    by (auto simp: get_strategy_def register_all_commands list_all_length)
next
  case (Some i)
  from strategy_index_cases [OF register_all_inv Some] Some show ?thesis
    by (auto simp: get_strategy_def register_all_commands list_ex_iff)
qed

text \<open>
  C22: the index is an optimisation only.  When at most one registered command matches a text,
  looking the leading word up first gives the command that a plain scan of all commands gives.
\<close>

theorem index_agrees_with_scan:
  assumes "\<And>i j. i < length cs \<Longrightarrow> j < length cs \<Longrightarrow> matches (cmd_config (cs ! i)) text \<Longrightarrow>
      matches (cmd_config (cs ! j)) text \<Longrightarrow> i = j"
  shows "get_strategy (register_all cs) text =
    (case find (\<lambda>c. matches (cmd_config c) text) cs of
       Some c \<Rightarrow> Some c
     | None \<Rightarrow> find (\<lambda>c. pc_command_name (parse (cmd_config c) text) \<noteq> []) cs)"
proof -
  let ?r = "register_all cs"
  have find_idx: "map_option (\<lambda>i. cs ! i) (find (\<lambda>i. P (cs ! i)) [0..<length cs]) = find P cs" for P
  proof -
    have "map_option (\<lambda>i. cs ! i) (find (\<lambda>i. P (cs ! i)) xs) = find P (map (\<lambda>i. cs ! i) xs)" for xs
      by (induction xs) auto
    from this [of "[0..<length cs]"] show ?thesis by (simp add: map_nth)
  qed
  show ?thesis
  proof (cases "find (\<lambda>c. matches (cmd_config c) text) cs")
    case None
    then have no: "\<not> matches (cmd_config (cs ! i)) text" if "i < length cs" for i
      using that by (auto simp: find_None_iff)
    have "strategy_index ?r text = scan_parses ?r text"
      using no candidate_index [OF register_all_inv, of cs "text"]
      by (auto simp: strategy_index_def Let_def register_all_commands scan_matches_def find_None_iff
          split: option.splits dest!: find_SomeD)
    with None find_idx [of "\<lambda>c. pc_command_name (parse (cmd_config c) text) \<noteq> []"] show ?thesis
      by (simp add: get_strategy_def scan_parses_def register_all_commands)
  next
    case (Some c)
    then obtain j where j: "j < length cs" "cs ! j = c" "matches (cmd_config c) text"
      by (auto simp: find_Some_iff)
    then have "strategy_index ?r text \<noteq> None"
      using strategy_index_None [of ?r "text" j] by (auto simp: register_all_commands accepts_def)
    then obtain i where i: "strategy_index ?r text = Some i" by blast
    from strategy_index_cases [OF register_all_inv i] j have "i < length cs"
      "matches (cmd_config (cs ! i)) text"
      by (auto simp: register_all_commands)
    with assms j have "i = j" by blast
    with i j Some show ?thesis by (simp add: get_strategy_def register_all_commands)
  qed
qed

definition puppy_and_car :: "unit command list" where
  "puppy_and_car =
     map (\<lambda>cfg. \<lparr>cmd_config = cfg, cmd_menu = [], cmd_execute = (\<lambda>d p. ret [])\<rparr>) [car_config, puppy_config]"

theorem index_agrees_with_scan_witness:
  "map_option cmd_config (get_strategy (register_all puppy_and_car) (U '',Puppy dog'')) = Some puppy_config"
proof -
  have m: "matches puppy_config (U '',Puppy dog'')" "\<not> matches car_config (U '',Puppy dog'')"
    by code_simp+
  have "get_strategy (register_all puppy_and_car) (U '',Puppy dog'') =
    (case find (\<lambda>c. matches (cmd_config c) (U '',Puppy dog'')) puppy_and_car of
       Some c \<Rightarrow> Some c
     | None \<Rightarrow> find (\<lambda>c. pc_command_name (parse (cmd_config c) (U '',Puppy dog'')) \<noteq> []) puppy_and_car)"
    by (rule index_agrees_with_scan)
       (use m in \<open>auto simp: puppy_and_car_def less_Suc_eq nth_Cons split: nat.splits\<close>)
  then show ?thesis using m by (simp add: puppy_and_car_def)
qed

end
