(* ===== verification/Chat_Config.thy ===== *)
theory Chat_Config
  imports Registry
begin

text \<open>
  Which commands are on in a chat: the configuration of a chat, the service that resolves it
  (bot/application/config_service.py), the store port and its SQL implementation
  (bot/infrastructure/config_store.py, config_tables.py).  The store is an interface, the
  locale \<open>config_store\<close>; the SQL statements of the source run on the two tables below, whose
  unique constraints are the invariant.
\<close>

datatype chat_type = GROUP_CHAT | PRIVATE_CHAT

fun chat_type_value :: "chat_type \<Rightarrow> pystr" where
  "chat_type_value GROUP_CHAT = U ''group''"
| "chat_type_value PRIVATE_CHAT = U ''private''"

datatype chat_policy = OPEN | CURATED

fun policy_value :: "chat_policy \<Rightarrow> pystr" where
  "policy_value OPEN = U ''open''"
| "policy_value CURATED = U ''curated''"

text \<open>\<open>ChatPolicy(value)\<close>; \<open>None\<close> is the \<open>ValueError\<close> of an unknown value.\<close>

definition policy_of :: "pystr \<Rightarrow> chat_policy option" where
  "policy_of v = find (\<lambda>p. policy_value p = v) [OPEN, CURATED]"

record chat_key =
  ck_platform :: pystr
  ck_native_id :: pystr
  ck_type :: chat_type

record chat_config =
  ch_policy :: chat_policy
  ch_overrides :: "(pystr \<times> bool) list"

definition ChatConfig :: chat_config where
  "ChatConfig = \<lparr>ch_policy = OPEN, ch_overrides = []\<rparr>"

definition override_for :: "chat_config \<Rightarrow> pystr \<Rightarrow> bool option" where
  "override_for c name = dict_get (ch_overrides c) name"

lemma policy_of_value [simp]: "policy_of (policy_value p) = Some p"
  by (cases p) (simp_all add: policy_of_def str_simps)

subsection \<open>The service\<close>

definition TOGGLABLE_SCOPES :: "command_scope set" where
  "TOGGLABLE_SCOPES = {PUBLIC, NSFW}"

text \<open>\<open>SCOPE_DEFAULT_ENABLED[scope]\<close>; \<open>None\<close> is the \<open>KeyError\<close>.\<close>

fun scope_default_enabled :: "command_scope \<Rightarrow> bool option" where
  "scope_default_enabled PUBLIC = Some True"
| "scope_default_enabled NSFW = Some False"
| "scope_default_enabled _ = None"

definition resolve_enabled :: "chat_config \<Rightarrow> pystr \<Rightarrow> command_scope \<Rightarrow> exn + bool" where
  "resolve_enabled cc name scope =
     (case override_for cc name of
        Some b \<Rightarrow> Inr b
      | None \<Rightarrow>
          if ch_policy cc = CURATED then Inr False
          else case scope_default_enabled scope of
                 Some b \<Rightarrow> Inr b
               | None \<Rightarrow> Inl (OtherExn (U ''KeyError'')))"

text \<open>
  \<open>data.platform or ''\<close> as the store's key, and the coroutine \<open>is_enabled\<close>; the store's
  \<open>load\<close> is an action on the world.
\<close>

definition platform_key :: "command_data \<Rightarrow> pystr" where
  "platform_key d = (case cd_platform d of None \<Rightarrow> [] | Some p \<Rightarrow> platform_value p)"

definition is_enabled ::
  "(pystr \<Rightarrow> pystr \<Rightarrow> (exn, 'w, chat_config) act) \<Rightarrow> command_data \<Rightarrow> command_config \<Rightarrow> (exn, 'w, bool) act"
where
  "is_enabled load d cfg =
     (if cc_scope cfg \<notin> TOGGLABLE_SCOPES then ret True
      else bindA (load (platform_key d) (cd_jid d))
             (\<lambda>cc. case resolve_enabled cc (cc_name cfg) (cc_scope cfg) of
                     Inl e \<Rightarrow> raise e | Inr b \<Rightarrow> ret b))"

lemma resolve_togglable:
  "scope \<in> TOGGLABLE_SCOPES \<Longrightarrow> resolve_enabled cc name scope =
     Inr (case override_for cc name of
            Some b \<Rightarrow> b | None \<Rightarrow> ch_policy cc = OPEN \<and> scope = PUBLIC)"
  by (cases "ch_policy cc") (auto simp: resolve_enabled_def TOGGLABLE_SCOPES_def split: option.splits)

subsection \<open>The interface of a store\<close>

text \<open>
  What a client of the store may rely on, over the view of a chat: its policy and its
  overrides.  A chat that was never written has the default configuration.
\<close>

type_synonym chat_view = "chat_policy \<times> (pystr \<rightharpoonup> bool)"

locale config_store =
  fixes view :: "'s \<Rightarrow> pystr \<Rightarrow> pystr \<Rightarrow> chat_view"
    and set_override :: "chat_key \<Rightarrow> pystr \<Rightarrow> bool \<Rightarrow> 's \<Rightarrow> 's"
    and clear_override :: "chat_key \<Rightarrow> pystr \<Rightarrow> 's \<Rightarrow> 's"
    and set_policy :: "chat_key \<Rightarrow> chat_policy \<Rightarrow> 's \<Rightarrow> 's"
    and inv :: "'s \<Rightarrow> bool"
  assumes view_set_override: "inv s \<Longrightarrow> view (set_override k n b s) p i =
      (if p = ck_platform k \<and> i = ck_native_id k
       then (fst (view s p i), (snd (view s p i))(n \<mapsto> b)) else view s p i)"
    and view_clear_override: "inv s \<Longrightarrow> view (clear_override k n s) p i =
      (if p = ck_platform k \<and> i = ck_native_id k
       then (fst (view s p i), (snd (view s p i))(n := None)) else view s p i)"
    and view_set_policy: "inv s \<Longrightarrow> view (set_policy k pol s) p i =
      (if p = ck_platform k \<and> i = ck_native_id k
       then (pol, snd (view s p i)) else view s p i)"
    and inv_set_override: "inv s \<Longrightarrow> inv (set_override k n b s)"
    and inv_clear_override: "inv s \<Longrightarrow> inv (clear_override k n s)"
    and inv_set_policy: "inv s \<Longrightarrow> inv (set_policy k pol s)"
begin

lemmas store_laws = view_set_override view_clear_override view_set_policy
  inv_set_override inv_clear_override inv_set_policy

text \<open>Writing a list of overrides, one after the other.\<close>

lemma fold_set_override:
  "inv s \<Longrightarrow> inv (fold (\<lambda>n. set_override k n b) ns s) \<and>
   view (fold (\<lambda>n. set_override k n b) ns s) p i =
     (if p = ck_platform k \<and> i = ck_native_id k
      then (fst (view s p i), \<lambda>n. if n \<in> set ns then Some b else snd (view s p i) n)
      else view s p i)"
proof (induction ns arbitrary: s)
  case Nil
  then show ?case by simp
next
  case (Cons n ns)
  from Cons.IH [of "set_override k n b s"] Cons.prems show ?case
    by (auto simp: store_laws fun_eq_iff)
qed

lemma fold_clear_override:
  "inv s \<Longrightarrow> inv (fold (\<lambda>n. clear_override k n) ns s) \<and>
   view (fold (\<lambda>n. clear_override k n) ns s) p i =
     (if p = ck_platform k \<and> i = ck_native_id k
      then (fst (view s p i), \<lambda>n. if n \<in> set ns then None else snd (view s p i) n)
      else view s p i)"
proof (induction ns arbitrary: s)
  case Nil
  then show ?case by simp
next
  case (Cons n ns)
  from Cons.IH [of "clear_override k n s"] Cons.prems show ?case
    by (auto simp: store_laws fun_eq_iff)
qed

end

text \<open>The view of a loaded configuration, and the decision of the service on a view.\<close>

definition view_of :: "chat_config \<Rightarrow> chat_view" where
  "view_of c = (ch_policy c, dict_get (ch_overrides c))"

definition decide :: "chat_view \<Rightarrow> pystr \<Rightarrow> command_scope \<Rightarrow> bool" where
  "decide v name scope =
     (case snd v name of Some b \<Rightarrow> b | None \<Rightarrow> fst v = OPEN \<and> scope = PUBLIC)"

lemma resolve_decides:
  "scope \<in> TOGGLABLE_SCOPES \<Longrightarrow> resolve_enabled c name scope = Inr (decide (view_of c) name scope)"
  by (simp add: resolve_togglable decide_def view_of_def override_for_def split: option.split)

text \<open>
  The store with its \<open>load\<close>: what it loads shows the view, and the views stay as they are.
\<close>

locale config_store_io = config_store view set_override clear_override set_policy inv
  for view :: "'s \<Rightarrow> pystr \<Rightarrow> pystr \<Rightarrow> chat_view"
    and set_override :: "chat_key \<Rightarrow> pystr \<Rightarrow> bool \<Rightarrow> 's \<Rightarrow> 's"
    and clear_override :: "chat_key \<Rightarrow> pystr \<Rightarrow> 's \<Rightarrow> 's"
    and set_policy :: "chat_key \<Rightarrow> chat_policy \<Rightarrow> 's \<Rightarrow> 's"
    and inv :: "'s \<Rightarrow> bool" +
  fixes load :: "pystr \<Rightarrow> pystr \<Rightarrow> (exn, 's, chat_config) act"
  assumes load_view: "inv s \<Longrightarrow> \<exists>c. fst (load p i s) = Inr c \<and> view_of c = view s p i"
    and load_keeps: "inv s \<Longrightarrow> inv (snd (load p i s)) \<and> view (snd (load p i s)) q j = view s q j"
begin

lemma load_obtain:
  assumes "inv s"
  obtains c s' where "load p i s = (Inr c, s')" "view_of c = view s p i" "inv s'"
    "\<And>q j. view s' q j = view s q j"
  using load_view [OF assms, of p i] load_keeps [OF assms, of p i] by (cases "load p i s") auto

lemma is_enabled_run:
  assumes "inv s"
  obtains s' where "is_enabled load d cfg s =
      (Inr (cc_scope cfg \<in> TOGGLABLE_SCOPES \<longrightarrow>
         decide (view s (platform_key d) (cd_jid d)) (cc_name cfg) (cc_scope cfg)), s')"
    "inv s'" "\<And>q j. view s' q j = view s q j"
proof (cases "cc_scope cfg \<in> TOGGLABLE_SCOPES")
  case True
  obtain c s' where "load (platform_key d) (cd_jid d) s = (Inr c, s')"
    "view_of c = view s (platform_key d) (cd_jid d)" "inv s'" "\<And>q j. view s' q j = view s q j"
    by (rule load_obtain [OF assms]) blast
  with True show ?thesis
    by (intro that [of s']) (simp_all add: is_enabled_def resolve_decides)
next
  case False
  with assms show ?thesis by (intro that [of s]) (simp_all add: is_enabled_def)
qed

end

subsection \<open>The SQL store\<close>

text \<open>
  The rows of the tables \<open>chat\<close> and \<open>command_override\<close>; the time stamps, which nothing
  reads, are left out.  A new row takes a fresh identifier.
\<close>

record chat_row =
  cr_id :: nat
  cr_platform :: pystr
  cr_native_id :: pystr
  cr_type :: pystr
  cr_default_policy :: pystr

record override_row =
  or_chat_id :: nat
  or_command_name :: pystr
  or_enabled :: bool

record sql_db =
  db_chats :: "chat_row list"
  db_overrides :: "override_row list"
  db_next_id :: nat

definition empty_db :: sql_db where
  "empty_db = \<lparr>db_chats = [], db_overrides = [], db_next_id = 0\<rparr>"

text \<open>\<open>SELECT \<dots> WHERE platform = :p AND native_id = :i\<close>\<close>

definition find_chat :: "sql_db \<Rightarrow> pystr \<Rightarrow> pystr \<Rightarrow> chat_row option" where
  "find_chat db p i = find (\<lambda>r. cr_platform r = p \<and> cr_native_id r = i) (db_chats db)"

text \<open>
  \<open>INSERT \<dots> ON CONFLICT (platform, native_id) DO UPDATE \<dots> RETURNING id\<close>: the policy is
  written only when the caller passes it, and a new row has the column's default otherwise.
\<close>

definition upsert_chat :: "chat_key \<Rightarrow> chat_policy option \<Rightarrow> sql_db \<Rightarrow> nat \<times> sql_db" where
  "upsert_chat k pol db =
     (case find_chat db (ck_platform k) (ck_native_id k) of
        Some r \<Rightarrow>
          (cr_id r,
           case pol of
             None \<Rightarrow> db
           | Some p \<Rightarrow>
               db\<lparr>db_chats := map (\<lambda>x. if cr_platform x = ck_platform k \<and> cr_native_id x = ck_native_id k
                                    then x\<lparr>cr_default_policy := policy_value p\<rparr> else x)
                                (db_chats db)\<rparr>)
      | None \<Rightarrow>
          (db_next_id db,
           db\<lparr>db_chats := db_chats db @
                [\<lparr>cr_id = db_next_id db, cr_platform = ck_platform k,
                  cr_native_id = ck_native_id k, cr_type = chat_type_value (ck_type k),
                  cr_default_policy = (case pol of None \<Rightarrow> U ''open'' | Some p \<Rightarrow> policy_value p)\<rparr>],
              db_next_id := Suc (db_next_id db)\<rparr>))"

definition same_override :: "nat \<Rightarrow> pystr \<Rightarrow> override_row \<Rightarrow> bool" where
  "same_override cid n x \<longleftrightarrow> or_chat_id x = cid \<and> or_command_name x = n"

definition sql_set_override :: "chat_key \<Rightarrow> pystr \<Rightarrow> bool \<Rightarrow> sql_db \<Rightarrow> sql_db" where
  "sql_set_override k name enabled db =
     (let (cid, db1) = upsert_chat k None db in
      if list_ex (same_override cid name) (db_overrides db1)
      then db1\<lparr>db_overrides := map (\<lambda>x. if same_override cid name x then x\<lparr>or_enabled := enabled\<rparr> else x)
                                 (db_overrides db1)\<rparr>
      else db1\<lparr>db_overrides := db_overrides db1 @
                 [\<lparr>or_chat_id = cid, or_command_name = name, or_enabled = enabled\<rparr>]\<rparr>)"

definition sql_clear_override :: "chat_key \<Rightarrow> pystr \<Rightarrow> sql_db \<Rightarrow> sql_db" where
  "sql_clear_override k name db =
     (case find_chat db (ck_platform k) (ck_native_id k) of
        None \<Rightarrow> db
      | Some r \<Rightarrow> db\<lparr>db_overrides := filter (\<lambda>x. \<not> same_override (cr_id r) name x) (db_overrides db)\<rparr>)"

definition sql_set_policy :: "chat_key \<Rightarrow> chat_policy \<Rightarrow> sql_db \<Rightarrow> sql_db" where
  "sql_set_policy k pol db = snd (upsert_chat k (Some pol) db)"

text \<open>The dict comprehension over \<open>chat.overrides\<close>, and \<open>ChatPolicy(chat.default_policy)\<close>.\<close>

definition chat_overrides :: "sql_db \<Rightarrow> nat \<Rightarrow> (pystr \<times> bool) list" where
  "chat_overrides db cid =
     map (\<lambda>x. (or_command_name x, or_enabled x)) (filter (\<lambda>x. or_chat_id x = cid) (db_overrides db))"

definition sql_load :: "sql_db \<Rightarrow> pystr \<Rightarrow> pystr \<Rightarrow> exn + chat_config" where
  "sql_load db p i =
     (case find_chat db p i of
        None \<Rightarrow> Inr ChatConfig
      | Some r \<Rightarrow>
          (case policy_of (cr_default_policy r) of
             None \<Rightarrow> Inl (OtherExn (U ''ValueError''))
           | Some pol \<Rightarrow> Inr \<lparr>ch_policy = pol, ch_overrides = chat_overrides db (cr_id r)\<rparr>))"


text \<open>
  The invariant: the unique constraints of the two tables, fresh identifiers, and policies
  that are values of the enumeration.
\<close>

definition sql_inv :: "sql_db \<Rightarrow> bool" where
  "sql_inv db \<longleftrightarrow>
     distinct (map (\<lambda>r. (cr_platform r, cr_native_id r)) (db_chats db)) \<and>
     distinct (map cr_id (db_chats db)) \<and>
     (\<forall>r \<in> set (db_chats db). cr_id r < db_next_id db \<and> policy_of (cr_default_policy r) \<noteq> None) \<and>
     distinct (map (\<lambda>x. (or_chat_id x, or_command_name x)) (db_overrides db)) \<and>
     (\<forall>x \<in> set (db_overrides db). or_chat_id x < db_next_id db)"

definition sql_view :: "sql_db \<Rightarrow> pystr \<Rightarrow> pystr \<Rightarrow> chat_view" where
  "sql_view db p i =
     (case sql_load db p i of
        Inl _ \<Rightarrow> (OPEN, Map.empty)
      | Inr c \<Rightarrow> (ch_policy c, dict_get (ch_overrides c)))"

lemma sql_inv_empty [inv_intros]: "sql_inv empty_db"
  by (simp add: sql_inv_def empty_db_def)

lemma find_chat_Some:
  "find_chat db p i = Some r \<Longrightarrow> r \<in> set (db_chats db) \<and> cr_platform r = p \<and> cr_native_id r = i"
  by (auto simp: find_chat_def find_Some_iff)

lemma find_chat_None:
  "find_chat db p i = None \<longleftrightarrow> (\<forall>r \<in> set (db_chats db). \<not> (cr_platform r = p \<and> cr_native_id r = i))"
  by (auto simp: find_chat_def find_None_iff)

lemma find_map: "find P (map f xs) = map_option f (find (\<lambda>x. P (f x)) xs)"
  by (induction xs) auto

text \<open>No operation fails on a database that satisfies the invariant.\<close>

lemma sql_load_total: "sql_inv db \<Longrightarrow> \<exists>c. sql_load db p i = Inr c"
  by (auto simp: sql_load_def sql_inv_def split: option.splits dest!: find_chat_Some)

lemma sql_view_eq:
  "sql_view db p i =
     (case find_chat db p i of
        None \<Rightarrow> (OPEN, Map.empty)
      | Some r \<Rightarrow> (case policy_of (cr_default_policy r) of
                     None \<Rightarrow> (OPEN, Map.empty)
                   | Some pol \<Rightarrow> (pol, map_of (chat_overrides db (cr_id r)))))"
  by (auto simp: sql_view_def sql_load_def ChatConfig_def dict_get_def fun_eq_iff split: option.splits)

lemma find_chat_id_inj:
  "sql_inv db \<Longrightarrow> find_chat db p i = Some r \<Longrightarrow> find_chat db q j = Some t \<Longrightarrow> cr_id r = cr_id t \<Longrightarrow>
   p = q \<and> i = j"
  by (auto simp: sql_inv_def distinct_map inj_on_def dest!: find_chat_Some)

lemma chat_overrides_fresh: "sql_inv db \<Longrightarrow> chat_overrides db (db_next_id db) = []"
  by (auto simp: chat_overrides_def sql_inv_def filter_empty_conv)

lemma chat_overrides_cong: "db_overrides db = db_overrides db' \<Longrightarrow> chat_overrides db = chat_overrides db'"
  by (rule ext) (simp add: chat_overrides_def)

text \<open>
  What the upsert of the chat row leaves: the invariant, the overrides, the other chats, and a
  row for the chat with the returned identifier and the policy that is now in force.
\<close>

definition upsert_post :: "chat_key \<Rightarrow> chat_policy option \<Rightarrow> sql_db \<Rightarrow> nat \<Rightarrow> sql_db \<Rightarrow> bool" where
  "upsert_post k pol db cid db' \<longleftrightarrow>
     sql_inv db' \<and> db_overrides db' = db_overrides db \<and> db_next_id db \<le> db_next_id db' \<and>
     (\<forall>p i. (p, i) \<noteq> (ck_platform k, ck_native_id k) \<longrightarrow> find_chat db' p i = find_chat db p i) \<and>
     (\<exists>r. find_chat db' (ck_platform k) (ck_native_id k) = Some r \<and> cr_id r = cid \<and>
        policy_of (cr_default_policy r) =
          Some (case pol of Some p \<Rightarrow> p | None \<Rightarrow> fst (sql_view db (ck_platform k) (ck_native_id k)))) \<and>
     map_of (chat_overrides db cid) = snd (sql_view db (ck_platform k) (ck_native_id k))"

lemma upsert_new:
  assumes "sql_inv db" and "find_chat db (ck_platform k) (ck_native_id k) = None"
  shows "upsert_post k pol db (fst (upsert_chat k pol db)) (snd (upsert_chat k pol db))"
proof -
  let ?q = "case pol of None \<Rightarrow> OPEN | Some p \<Rightarrow> p"
  have dp: "(case pol of None \<Rightarrow> U ''open'' | Some p \<Rightarrow> policy_value p) = policy_value ?q"
    by (simp split: option.split)
  let ?r = "\<lparr>cr_id = db_next_id db, cr_platform = ck_platform k, cr_native_id = ck_native_id k,
             cr_type = chat_type_value (ck_type k), cr_default_policy = policy_value ?q\<rparr>"
  let ?db = "db\<lparr>db_chats := db_chats db @ [?r], db_next_id := Suc (db_next_id db)\<rparr>"
  have up: "upsert_chat k pol db = (db_next_id db, ?db)"
    by (simp add: upsert_chat_def assms(2) dp)
  have fnd: "find_chat ?db a b = (case find_chat db a b of
      None \<Rightarrow> if (a, b) = (ck_platform k, ck_native_id k) then Some ?r else None | Some x \<Rightarrow> Some x)"
    for a b by (auto simp: find_chat_def find_append split: option.splits)
  have ids: "\<forall>r \<in> set (db_chats db). cr_id r < db_next_id db"
    "\<forall>x \<in> set (db_overrides db). or_chat_id x < db_next_id db"
    using assms(1) by (simp_all add: sql_inv_def)
  have "sql_inv ?db"
    unfolding sql_inv_def
  proof (intro conjI)
    show "distinct (map (\<lambda>r. (cr_platform r, cr_native_id r)) (db_chats ?db))"
      using assms by (auto simp: sql_inv_def find_chat_None)
    show "distinct (map cr_id (db_chats ?db))"
      using assms(1) ids(1) by (auto simp: sql_inv_def)
  qed (use assms(1) in \<open>auto simp: sql_inv_def less_Suc_eq\<close>)
  then show ?thesis
    unfolding upsert_post_def up fst_conv snd_conv
    using assms by (auto simp: fnd sql_view_eq chat_overrides_fresh split: option.splits)
qed

lemma upsert_old:
  assumes inv: "sql_inv db" and f: "find_chat db (ck_platform k) (ck_native_id k) = Some r"
  shows "upsert_post k pol db (fst (upsert_chat k pol db)) (snd (upsert_chat k pol db))"
proof (cases pol)
  case None
  from inv f obtain q where "policy_of (cr_default_policy r) = Some q"
    by (auto simp: sql_inv_def dest!: find_chat_Some)
  with None inv f show ?thesis by (simp add: upsert_post_def upsert_chat_def sql_view_eq)
next
  case (Some p)
  let ?k = "\<lambda>x. cr_platform x = ck_platform k \<and> cr_native_id x = ck_native_id k"
  let ?u = "\<lambda>x. if ?k x then x\<lparr>cr_default_policy := policy_value p\<rparr> else x"
  have proj: "cr_id (?u x) = cr_id x" "cr_platform (?u x) = cr_platform x"
    "cr_native_id (?u x) = cr_native_id x" for x by simp_all
  have up: "upsert_chat k (Some p) db = (cr_id r, db\<lparr>db_chats := map ?u (db_chats db)\<rparr>)"
    by (simp add: upsert_chat_def f)
  have fnd: "find_chat (db\<lparr>db_chats := map ?u (db_chats db)\<rparr>) a b = map_option ?u (find_chat db a b)" for a b
    by (simp add: find_chat_def find_map proj)
  have other: "find_chat (db\<lparr>db_chats := map ?u (db_chats db)\<rparr>) a b = find_chat db a b"
    if "(a, b) \<noteq> (ck_platform k, ck_native_id k)" for a b
    using that find_chat_Some [of db a b] by (cases "find_chat db a b") (auto simp: fnd)
  have "sql_inv (db\<lparr>db_chats := map ?u (db_chats db)\<rparr>)"
    using inv by (auto simp: sql_inv_def proj comp_def)
  moreover from inv f obtain q where "policy_of (cr_default_policy r) = Some q"
    by (auto simp: sql_inv_def dest!: find_chat_Some)
  ultimately show ?thesis
    unfolding Some upsert_post_def up fst_conv snd_conv
    using other f find_chat_Some [OF f] by (auto simp: fnd sql_view_eq)
qed

lemma upsert_chat_post:
  "sql_inv db \<Longrightarrow> upsert_chat k pol db = (cid, db') \<Longrightarrow> upsert_post k pol db cid db'"
  using upsert_new [of db k pol] upsert_old [of db k _ pol]
  by (cases "find_chat db (ck_platform k) (ck_native_id k)") auto


lemma sql_view_upsert:
  assumes "upsert_post k pol db cid db'" and "db_overrides db'' = db_overrides db'" 
    and "db_chats db'' = db_chats db'"
  shows "sql_view db'' p i =
    (if p = ck_platform k \<and> i = ck_native_id k
     then (case pol of Some q \<Rightarrow> q | None \<Rightarrow> fst (sql_view db p i), snd (sql_view db p i))
     else sql_view db p i)"
proof -
  have c: "find_chat db'' a b = find_chat db' a b" for a b
    by (simp add: find_chat_def assms(3))
  have o: "chat_overrides db'' x = chat_overrides db x" for x
    using assms(1,2) by (simp add: chat_overrides_def upsert_post_def)
  show ?thesis
    using assms(1) by (auto simp: sql_view_eq [of db''] c o upsert_post_def sql_view_eq [of db p i]
        split: option.splits)
qed

text \<open>Writing and removing one row of the overrides, as seen by a chat.\<close>

definition rows_view :: "nat \<Rightarrow> override_row list \<Rightarrow> pystr \<rightharpoonup> bool" where
  "rows_view c xs = map_of (map (\<lambda>x. (or_command_name x, or_enabled x)) (filter (\<lambda>x. or_chat_id x = c) xs))"

lemma rows_view_update:
  "rows_view c (map (\<lambda>x. if same_override cid n x then x\<lparr>or_enabled := b\<rparr> else x) xs) =
     (if c = cid \<and> list_ex (same_override cid n) xs then (rows_view c xs)(n \<mapsto> b) else rows_view c xs)"
  by (induction xs) (auto simp: rows_view_def same_override_def fun_eq_iff)

lemma rows_view_append:
  "\<not> list_ex (same_override cid n) xs \<Longrightarrow>
   rows_view c (xs @ [\<lparr>or_chat_id = cid, or_command_name = n, or_enabled = b\<rparr>]) =
     (if c = cid then (rows_view c xs)(n \<mapsto> b) else rows_view c xs)"
  by (induction xs) (auto simp: rows_view_def same_override_def fun_eq_iff)

lemma rows_view_remove:
  "rows_view c (filter (\<lambda>x. \<not> same_override cid n x) xs) =
     (if c = cid then (rows_view c xs)(n := None) else rows_view c xs)"
  by (induction xs) (auto simp: rows_view_def same_override_def fun_eq_iff)

lemma view_rows: "map_of (chat_overrides db c) = rows_view c (db_overrides db)"
  by (simp add: chat_overrides_def rows_view_def)

definition put_row :: "nat \<Rightarrow> pystr \<Rightarrow> bool \<Rightarrow> override_row list \<Rightarrow> override_row list" where
  "put_row cid n b xs =
     (if list_ex (same_override cid n) xs
      then map (\<lambda>x. if same_override cid n x then x\<lparr>or_enabled := b\<rparr> else x) xs
      else xs @ [\<lparr>or_chat_id = cid, or_command_name = n, or_enabled = b\<rparr>])"

lemma rows_view_put:
  "rows_view c (put_row cid n b xs) = (if c = cid then (rows_view c xs)(n \<mapsto> b) else rows_view c xs)"
  by (simp add: put_row_def rows_view_update rows_view_append)

lemma set_override_put:
  "sql_set_override k n b db =
     (let (cid, db1) = upsert_chat k None db in db1\<lparr>db_overrides := put_row cid n b (db_overrides db1)\<rparr>)"
  by (simp add: sql_set_override_def put_row_def Let_def split: prod.split)

lemma put_row_keys:
  assumes "distinct (map (\<lambda>x. (or_chat_id x, or_command_name x)) xs)"
    and "\<forall>x \<in> set xs. or_chat_id x < m" and "cid < m"
  shows "distinct (map (\<lambda>x. (or_chat_id x, or_command_name x)) (put_row cid n b xs)) \<and>
    (\<forall>x \<in> set (put_row cid n b xs). or_chat_id x < m)"
proof (cases "list_ex (same_override cid n) xs")
  case True
  have "map (\<lambda>x. (or_chat_id x, or_command_name x)) (put_row cid n b xs)
      = map (\<lambda>x. (or_chat_id x, or_command_name x)) xs"
    using True by (simp add: put_row_def)
  moreover have "\<forall>x \<in> set (put_row cid n b xs). or_chat_id x < m"
    using True assms(2) by (auto simp: put_row_def)
  ultimately show ?thesis using assms(1) by simp
next
  case False
  then show ?thesis
    using assms by (auto simp: put_row_def list_ex_iff same_override_def)
qed

lemma sql_set_override_laws:
  assumes "sql_inv db"
  shows "sql_inv (sql_set_override k n b db) \<and>
    sql_view (sql_set_override k n b db) p i =
      (if p = ck_platform k \<and> i = ck_native_id k
       then (fst (sql_view db p i), (snd (sql_view db p i))(n \<mapsto> b)) else sql_view db p i)"
proof -
  obtain cid db1 where up: "upsert_chat k None db = (cid, db1)" by (cases "upsert_chat k None db")
  from upsert_chat_post [OF assms up] have post: "upsert_post k None db cid db1" .
  then obtain r where inv1: "sql_inv db1"
    and r: "find_chat db1 (ck_platform k) (ck_native_id k) = Some r" "cr_id r = cid"
    by (auto simp: upsert_post_def)
  let ?db = "db1\<lparr>db_overrides := put_row cid n b (db_overrides db1)\<rparr>"
  have cid: "cid < db_next_id db1"
    using inv1 r find_chat_Some [OF r(1)] by (auto simp: sql_inv_def)
  have "sql_inv ?db"
    using inv1 put_row_keys [of "db_overrides db1" "db_next_id db1" cid n b] cid
    by (simp add: sql_inv_def)
  moreover have c: "find_chat ?db a b = find_chat db1 a b" for a b by (simp add: find_chat_def)
  have "sql_view ?db p i =
      (if p = ck_platform k \<and> i = ck_native_id k
       then (fst (sql_view db1 p i), (snd (sql_view db1 p i))(n \<mapsto> b)) else sql_view db1 p i)"
  proof (cases "p = ck_platform k \<and> i = ck_native_id k")
    case True
    moreover have "policy_of (cr_default_policy r) \<noteq> None"
      using post r by (auto simp: upsert_post_def)
    ultimately show ?thesis
      using r by (auto simp: sql_view_eq c view_rows rows_view_put)
  next
    case False
    then have "cr_id t \<noteq> cid" if "find_chat db1 p i = Some t" for t
      using find_chat_id_inj [OF inv1 that r(1)] r(2) by auto
    then show ?thesis
      using False by (auto simp: sql_view_eq c view_rows rows_view_put split: option.splits)
  qed
  moreover have "sql_view db1 a b = sql_view db a b" for a b
    using sql_view_upsert [OF post, of db1] by auto
  ultimately show ?thesis by (simp add: set_override_put up)
qed

lemma sql_clear_override_laws:
  assumes "sql_inv db"
  shows "sql_inv (sql_clear_override k n db) \<and>
    sql_view (sql_clear_override k n db) p i =
      (if p = ck_platform k \<and> i = ck_native_id k
       then (fst (sql_view db p i), (snd (sql_view db p i))(n := None)) else sql_view db p i)"
proof (cases "find_chat db (ck_platform k) (ck_native_id k)")
  case None
  then show ?thesis using assms by (auto simp: sql_clear_override_def sql_view_eq)
next
  case (Some r)
  let ?db = "db\<lparr>db_overrides := filter (\<lambda>x. \<not> same_override (cr_id r) n x) (db_overrides db)\<rparr>"
  have "sql_inv ?db"
    using assms by (auto simp: sql_inv_def distinct_map_filter)
  moreover have c: "find_chat ?db a b = find_chat db a b" for a b by (simp add: find_chat_def)
  have "sql_view ?db p i =
      (if p = ck_platform k \<and> i = ck_native_id k
       then (fst (sql_view db p i), (snd (sql_view db p i))(n := None)) else sql_view db p i)"
  proof (cases "p = ck_platform k \<and> i = ck_native_id k")
    case True
    then show ?thesis using Some
      by (auto simp: sql_view_eq c view_rows rows_view_remove split: option.splits)
  next
    case False
    then have "cr_id t \<noteq> cr_id r" if "find_chat db p i = Some t" for t
      using find_chat_id_inj [OF assms that Some] by auto
    then show ?thesis
      using False by (auto simp: sql_view_eq c view_rows rows_view_remove split: option.splits)
  qed
  ultimately show ?thesis by (simp add: sql_clear_override_def Some)
qed

lemma sql_set_policy_laws:
  assumes "sql_inv db"
  shows "sql_inv (sql_set_policy k pol db) \<and>
    sql_view (sql_set_policy k pol db) p i =
      (if p = ck_platform k \<and> i = ck_native_id k
       then (pol, snd (sql_view db p i)) else sql_view db p i)"
proof -
  obtain cid db1 where up: "upsert_chat k (Some pol) db = (cid, db1)"
    by (cases "upsert_chat k (Some pol) db")
  from upsert_chat_post [OF assms up] have "upsert_post k (Some pol) db cid db1" .
  with sql_view_upsert [OF this, of db1 p i] show ?thesis
    by (simp add: sql_set_policy_def up upsert_post_def)
qed

text \<open>The SQL store provides the interface.\<close>

interpretation sql: config_store sql_view sql_set_override sql_clear_override sql_set_policy sql_inv
  by unfold_locales
     (simp_all add: sql_set_override_laws sql_clear_override_laws sql_set_policy_laws)

text \<open>\<open>load\<close> as an action: the database does not change.\<close>

definition sql_load_act :: "pystr \<Rightarrow> pystr \<Rightarrow> (exn, sql_db, chat_config) act" where
  "sql_load_act p i db = (sql_load db p i, db)"

lemma sql_load_view: "sql_load db p i = Inr c \<Longrightarrow> sql_view db p i = view_of c"
  by (simp add: sql_view_def view_of_def)

interpretation sql_io: config_store_io sql_view sql_set_override sql_clear_override sql_set_policy
  sql_inv sql_load_act
proof unfold_locales
  fix db p i assume "sql_inv db"
  then show "\<exists>c. fst (sql_load_act p i db) = Inr c \<and> view_of c = sql_view db p i"
    using sql_load_total [of db p i] by (auto simp: sql_load_act_def sql_load_view)
qed (simp add: sql_load_act_def)

end
