(* ===== verification/Config_Cache.thy ===== *)
theory Config_Cache
  imports Chat_Config
begin

text \<open>
  The cached store (bot/infrastructure/cached_config_store.py).  First each operation on its
  own, which gives the store interface of \<open>Chat_Config\<close> again; then its coroutines as
  interleaved steps, since the database is awaited between the look-up and the insertion of a
  \<open>load\<close> and between the statement and the invalidation of a write.
\<close>

subsection \<open>Operations that run alone\<close>

definition TTL_SECONDS :: rat where
  "TTL_SECONDS = 3600"

record cache_store =
  st_db :: sql_db
  st_cache :: "pystr \<times> pystr \<rightharpoonup> rat \<times> chat_config"
  st_now :: rat

definition cached_lookup :: "cache_store \<Rightarrow> pystr \<Rightarrow> pystr \<Rightarrow> chat_config option" where
  "cached_lookup s p i =
     (case st_cache s (p, i) of
        None \<Rightarrow> None
      | Some (t, c) \<Rightarrow> if st_now s - t < TTL_SECONDS then Some c else None)"

definition cache_put :: "pystr \<Rightarrow> pystr \<Rightarrow> rat \<Rightarrow> chat_config \<Rightarrow> cache_store \<Rightarrow> cache_store" where
  "cache_put p i t c s = s\<lparr>st_cache := (st_cache s)((p, i) \<mapsto> (t, c))\<rparr>"

definition cached_load :: "pystr \<Rightarrow> pystr \<Rightarrow> (exn, cache_store, chat_config) act" where
  "cached_load p i s =
     (case cached_lookup s p i of
        Some c \<Rightarrow> (Inr c, s)
      | None \<Rightarrow>
          (case sql_load (st_db s) p i of
             Inl e \<Rightarrow> (Inl e, s)
           | Inr c \<Rightarrow> (Inr c, cache_put p i (st_now s) c s)))"

definition invalidate :: "chat_key \<Rightarrow> cache_store \<Rightarrow> cache_store" where
  "invalidate k s = s\<lparr>st_cache := (st_cache s)((ck_platform k, ck_native_id k) := None)\<rparr>"

definition cached_set_override :: "chat_key \<Rightarrow> pystr \<Rightarrow> bool \<Rightarrow> cache_store \<Rightarrow> cache_store" where
  "cached_set_override k n b s = invalidate k (s\<lparr>st_db := sql_set_override k n b (st_db s)\<rparr>)"

definition cached_clear_override :: "chat_key \<Rightarrow> pystr \<Rightarrow> cache_store \<Rightarrow> cache_store" where
  "cached_clear_override k n s = invalidate k (s\<lparr>st_db := sql_clear_override k n (st_db s)\<rparr>)"

definition cached_set_policy :: "chat_key \<Rightarrow> chat_policy \<Rightarrow> cache_store \<Rightarrow> cache_store" where
  "cached_set_policy k pol s = invalidate k (s\<lparr>st_db := sql_set_policy k pol (st_db s)\<rparr>)"

definition empty_cache_store :: cache_store where
  "empty_cache_store = \<lparr>st_db = empty_db, st_cache = Map.empty, st_now = 0\<rparr>"

text \<open>Every entry of the cache shows what the database holds.\<close>

definition cached_inv :: "cache_store \<Rightarrow> bool" where
  "cached_inv s \<longleftrightarrow> sql_inv (st_db s) \<and>
     (\<forall>p i t c. st_cache s (p, i) = Some (t, c) \<longrightarrow> view_of c = sql_view (st_db s) p i)"

definition cached_view :: "cache_store \<Rightarrow> pystr \<Rightarrow> pystr \<Rightarrow> chat_view" where
  "cached_view s p i =
     (case fst (cached_load p i s) of Inl _ \<Rightarrow> (OPEN, Map.empty) | Inr c \<Rightarrow> view_of c)"

lemma cached_load_cases:
  assumes "cached_inv s"
  obtains c where "fst (cached_load p i s) = Inr c" "view_of c = sql_view (st_db s) p i"
    "cached_inv (snd (cached_load p i s))" "st_db (snd (cached_load p i s)) = st_db s"
proof (cases "cached_lookup s p i")
  case None
  from assms sql_load_total [of "st_db s" p i] obtain c where c: "sql_load (st_db s) p i = Inr c"
    by (auto simp: cached_inv_def)
  with None assms show ?thesis
    by (intro that [of c])
       (auto simp: cached_load_def cache_put_def cached_inv_def sql_load_view)
next
  case (Some c)
  with assms show ?thesis
    by (intro that [of c])
       (auto simp: cached_load_def cached_lookup_def cached_inv_def split: option.splits if_splits)
qed

lemma cached_view_eq: "cached_inv s \<Longrightarrow> cached_view s p i = sql_view (st_db s) p i"
  by (rule cached_load_cases [of s p i]) (simp_all add: cached_view_def)

lemma cached_write:
  assumes "cached_inv s" and "sql_inv db"
    and "\<And>p i. (p, i) \<noteq> (ck_platform k, ck_native_id k) \<Longrightarrow> sql_view db p i = sql_view (st_db s) p i"
  shows "cached_inv (invalidate k (s\<lparr>st_db := db\<rparr>))"
  using assms by (auto simp: cached_inv_def invalidate_def split: if_splits)

lemma cached_inv_set_override: "cached_inv s \<Longrightarrow> cached_inv (cached_set_override k n b s)"
  unfolding cached_set_override_def
  by (rule cached_write) (auto simp: cached_inv_def sql_set_override_laws)

lemma cached_inv_clear_override: "cached_inv s \<Longrightarrow> cached_inv (cached_clear_override k n s)"
  unfolding cached_clear_override_def
  by (rule cached_write) (auto simp: cached_inv_def sql_clear_override_laws)

lemma cached_inv_set_policy: "cached_inv s \<Longrightarrow> cached_inv (cached_set_policy k pol s)"
  unfolding cached_set_policy_def
  by (rule cached_write) (auto simp: cached_inv_def sql_set_policy_laws)

lemmas cached_invs = cached_inv_set_override cached_inv_clear_override cached_inv_set_policy

lemma cached_inv_empty [inv_intros]: "cached_inv empty_cache_store"
  by (simp add: cached_inv_def empty_cache_store_def sql_inv_empty)

lemma st_db_write:
  "st_db (cached_set_override k n b s) = sql_set_override k n b (st_db s)"
  "st_db (cached_clear_override k n s) = sql_clear_override k n (st_db s)"
  "st_db (cached_set_policy k pol s) = sql_set_policy k pol (st_db s)"
  by (simp_all add: cached_set_override_def cached_clear_override_def cached_set_policy_def invalidate_def)

lemma cached_inv_sql: "cached_inv s \<Longrightarrow> sql_inv (st_db s)"
  by (simp add: cached_inv_def)

text \<open>The cached store provides the interface of the store it wraps.\<close>

interpretation cached: config_store_io cached_view cached_set_override cached_clear_override
  cached_set_policy cached_inv cached_load
proof unfold_locales
  fix s p i assume "cached_inv s"
  then show "\<exists>c. fst (cached_load p i s) = Inr c \<and> view_of c = cached_view s p i"
    by (auto intro: cached_load_cases [of s p i] simp: cached_view_eq)
next
  fix s p i q j assume "cached_inv s"
  then show "cached_inv (snd (cached_load p i s)) \<and> cached_view (snd (cached_load p i s)) q j = cached_view s q j"
    by (rule cached_load_cases [of s p i]) (simp_all add: cached_view_eq \<open>cached_inv s\<close>)
qed (simp_all only: cached_view_eq cached_invs st_db_write cached_inv_sql
       sql_set_override_laws sql_clear_override_laws sql_set_policy_laws)

subsection \<open>Interleaved coroutines\<close>

text \<open>
  A \<open>load\<close> that misses runs in three steps: it notes the time and awaits the database, the
  database answers, and it inserts the answer with the time noted at the start.  A write runs
  in two: the database executes it, and later the coroutine invalidates the entry.  \<open>Edit\<close>
  is a write made straight in the database.
\<close>

datatype write_op = SetOverride pystr bool | ClearOverride pystr | SetPolicy chat_policy

fun db_write :: "chat_key \<Rightarrow> write_op \<Rightarrow> sql_db \<Rightarrow> sql_db" where
  "db_write k (SetOverride n b) db = sql_set_override k n b db"
| "db_write k (ClearOverride n) db = sql_clear_override k n db"
| "db_write k (SetPolicy pol) db = sql_set_policy k pol db"

datatype load_phase = Awaiting rat | Answered rat chat_config

datatype cache_event =
    LoadStart nat pystr pystr | LoadRead nat | LoadStore nat
  | WriteDb nat chat_key write_op | Invalidate nat
  | Edit chat_key write_op
  | Tick rat

record conc =
  cn_store :: cache_store
  cn_loads :: "nat \<rightharpoonup> (pystr \<times> pystr) \<times> load_phase"
  cn_writes :: "nat \<rightharpoonup> chat_key"
  cn_written :: "pystr \<times> pystr \<rightharpoonup> rat"   \<comment> \<open>when the chat was last written, for the statements\<close>

definition write_db :: "chat_key \<Rightarrow> write_op \<Rightarrow> conc \<Rightarrow> conc" where
  "write_db k op s =
     s\<lparr>cn_store := (cn_store s)\<lparr>st_db := db_write k op (st_db (cn_store s))\<rparr>,
       cn_written := (cn_written s)((ck_platform k, ck_native_id k) \<mapsto> st_now (cn_store s))\<rparr>"

fun cache_step :: "conc \<Rightarrow> cache_event \<Rightarrow> conc option" where
  "cache_step s (LoadStart pid p i) =
     (if cn_loads s pid = None \<and> cached_lookup (cn_store s) p i = None
      then Some (s\<lparr>cn_loads := (cn_loads s)(pid \<mapsto> ((p, i), Awaiting (st_now (cn_store s))))\<rparr>)
      else None)"
| "cache_step s (LoadRead pid) =
     (case cn_loads s pid of
        Some ((p, i), Awaiting t) \<Rightarrow>
          (case sql_load (st_db (cn_store s)) p i of
             Inr c \<Rightarrow> Some (s\<lparr>cn_loads := (cn_loads s)(pid \<mapsto> ((p, i), Answered t c))\<rparr>)
           | Inl _ \<Rightarrow> Some (s\<lparr>cn_loads := (cn_loads s)(pid := None)\<rparr>))
      | _ \<Rightarrow> None)"
| "cache_step s (LoadStore pid) =
     (case cn_loads s pid of
        Some ((p, i), Answered t c) \<Rightarrow>
          Some (s\<lparr>cn_store := cache_put p i t c (cn_store s), cn_loads := (cn_loads s)(pid := None)\<rparr>)
      | _ \<Rightarrow> None)"
| "cache_step s (WriteDb pid k op) =
     (if cn_writes s pid = None
      then Some ((write_db k op s)\<lparr>cn_writes := (cn_writes s)(pid \<mapsto> k)\<rparr>) else None)"
| "cache_step s (Invalidate pid) =
     (case cn_writes s pid of
        None \<Rightarrow> None
      | Some k \<Rightarrow> Some (s\<lparr>cn_store := invalidate k (cn_store s), cn_writes := (cn_writes s)(pid := None)\<rparr>))"
| "cache_step s (Edit k op) = Some (write_db k op s)"
| "cache_step s (Tick d) =
     (if 0 < d then Some (s\<lparr>cn_store := (cn_store s)\<lparr>st_now := st_now (cn_store s) + d\<rparr>\<rparr>) else None)"

definition conc_init :: conc where
  "conc_init = \<lparr>cn_store = empty_cache_store, cn_loads = Map.empty, cn_writes = Map.empty,
                cn_written = Map.empty\<rparr>"

inductive cache_reach :: "conc \<Rightarrow> bool" where
  init: "cache_reach conc_init"
| step: "cache_reach s \<Longrightarrow> cache_step s e = Some s' \<Longrightarrow> cache_reach s'"

fun cache_run :: "cache_event list \<Rightarrow> conc \<Rightarrow> conc option" where
  "cache_run [] s = Some s"
| "cache_run (e # es) s = (case cache_step s e of None \<Rightarrow> None | Some s' \<Rightarrow> cache_run es s')"

lemma db_write_laws:
  "sql_inv db \<Longrightarrow> sql_inv (db_write k op db)"
  "sql_inv db \<Longrightarrow> (p, i) \<noteq> (ck_platform k, ck_native_id k) \<Longrightarrow> sql_view (db_write k op db) p i = sql_view db p i"
proof -
  assume inv: "sql_inv db"
  show "sql_inv (db_write k op db)"
    using inv by (cases op) (simp_all add: sql_set_override_laws sql_clear_override_laws sql_set_policy_laws)
  assume "(p, i) \<noteq> (ck_platform k, ck_native_id k)"
  then have "\<not> (p = ck_platform k \<and> i = ck_native_id k)" by blast
  then show "sql_view (db_write k op db) p i = sql_view db p i"
    by (cases op) (simp_all only: db_write.simps inv sql_set_override_laws sql_clear_override_laws
        sql_set_policy_laws if_False)
qed

text \<open>
  A value read for a chat at a time after the last write to it shows the database; times
  never lie in the future.
\<close>

definition current :: "conc \<Rightarrow> pystr \<times> pystr \<Rightarrow> rat \<Rightarrow> chat_config \<Rightarrow> bool" where
  "current s key t c \<longleftrightarrow>
     (case cn_written s key of None \<Rightarrow> True | Some w \<Rightarrow> w < t) \<longrightarrow>
     view_of c = sql_view (st_db (cn_store s)) (fst key) (snd key)"

definition conc_inv :: "conc \<Rightarrow> bool" where
  "conc_inv s \<longleftrightarrow> sql_inv (st_db (cn_store s)) \<and>
     (\<forall>key t c. st_cache (cn_store s) key = Some (t, c) \<longrightarrow> t \<le> st_now (cn_store s) \<and> current s key t c) \<and>
     (\<forall>pid key t c. cn_loads s pid = Some (key, Answered t c) \<longrightarrow> t \<le> st_now (cn_store s) \<and> current s key t c) \<and>
     (\<forall>pid key t. cn_loads s pid = Some (key, Awaiting t) \<longrightarrow> t \<le> st_now (cn_store s))"

lemma conc_inv_write_db:
  assumes "conc_inv s"
  shows "conc_inv (write_db k op s)"
proof -
  have *: "current (write_db k op s) key t c"
    if "t \<le> st_now (cn_store s)" "current s key t c" for key t c
    using that assms db_write_laws(2) [of "st_db (cn_store s)" "fst key" "snd key" k op]
    by (cases "key = (ck_platform k, ck_native_id k)")
       (auto simp: current_def write_db_def conc_inv_def prod_eq_iff split: if_splits)
  have "sql_inv (st_db (cn_store (write_db k op s)))"
    using assms by (simp add: write_db_def conc_inv_def db_write_laws)
  moreover have "st_cache (cn_store (write_db k op s)) = st_cache (cn_store s)"
    "cn_loads (write_db k op s) = cn_loads s" "st_now (cn_store (write_db k op s)) = st_now (cn_store s)"
    by (simp_all add: write_db_def)
  ultimately show ?thesis using assms * by (simp add: conc_inv_def)
qed

lemma current_cong:
  "cn_written s' = cn_written s \<Longrightarrow> st_db (cn_store s') = st_db (cn_store s) \<Longrightarrow> current s' = current s"
  by (simp add: current_def fun_eq_iff)

lemma current_updates [simp]:
  "current (s\<lparr>cn_loads := f\<rparr>) = current s"
  "current (s\<lparr>cn_writes := g\<rparr>) = current s"
  "current (s\<lparr>cn_store := (cn_store s)\<lparr>st_cache := h\<rparr>\<rparr>) = current s"
  "current (s\<lparr>cn_store := (cn_store s)\<lparr>st_now := n\<rparr>\<rparr>) = current s"
  by (rule current_cong; simp)+

lemma current_read: "sql_load (st_db (cn_store s)) p i = Inr c \<Longrightarrow> current s (p, i) t c"
  by (simp add: current_def sql_load_view)

lemma conc_inv_step:
  assumes inv: "conc_inv s" and st: "cache_step s e = Some s'"
  shows "conc_inv s'"
proof (cases e)
  case (WriteDb pid k op)
  with conc_inv_write_db [OF inv, of k op] st show ?thesis
    by (auto simp: conc_inv_def split: if_splits)
next
  case (Edit k op)
  with conc_inv_write_db [OF inv, of k op] st show ?thesis by simp
next
  case (LoadStart pid p i)
  with inv st show ?thesis by (auto simp: conc_inv_def split: if_splits)
next
  case (LoadRead pid)
  with st obtain p i t where l: "cn_loads s pid = Some ((p, i), Awaiting t)"
    by (auto split: option.splits prod.splits load_phase.splits)
  with inv LoadRead st show ?thesis
    by (cases "sql_load (st_db (cn_store s)) p i")
       (auto simp: conc_inv_def intro: current_read split: if_splits)
next
  case (LoadStore pid)
  with st obtain p i t c where l: "cn_loads s pid = Some ((p, i), Answered t c)"
    by (auto split: option.splits prod.splits load_phase.splits)
  with inv LoadStore st show ?thesis
    by (auto simp: conc_inv_def cache_put_def cong: if_cong split: if_splits)
next
  case (Invalidate pid)
  with st obtain k where "cn_writes s pid = Some k" by (auto split: option.splits)
  with inv Invalidate st show ?thesis
    by (auto simp: conc_inv_def invalidate_def split: if_splits)
next
  case (Tick d)
  with st have "0 < d" "s' = s\<lparr>cn_store := (cn_store s)\<lparr>st_now := st_now (cn_store s) + d\<rparr>\<rparr>"
    by (auto split: if_splits)
  with inv show ?thesis by (fastforce simp: conc_inv_def)
qed

lemma conc_inv_reach: "cache_reach s \<Longrightarrow> conc_inv s"
proof (induction rule: cache_reach.induct)
  case init
  show ?case by (simp add: conc_inv_def conc_init_def empty_cache_store_def sql_inv_empty)
qed (rule conc_inv_step)

lemma cache_run_reach: "cache_run es s = Some s' \<Longrightarrow> cache_reach s \<Longrightarrow> cache_reach s'"
  by (induction es arbitrary: s) (auto split: option.splits intro: cache_reach.step)

text \<open>
  C19: staleness of the cache is bounded whatever the interleaving.  In every reachable state, a
  hit in the cache for a chat that nothing has written in the last hour (direct edits of the
  database included) shows exactly what the database holds.
\<close>

theorem cache_staleness_bounded:
  assumes "cache_reach s" and "cached_lookup (cn_store s) p i = Some c"
    and "\<And>w. cn_written s (p, i) = Some w \<Longrightarrow> w + TTL_SECONDS \<le> st_now (cn_store s)"
  shows "view_of c = sql_view (st_db (cn_store s)) p i"
proof -
  from assms(2) obtain t where t: "st_cache (cn_store s) (p, i) = Some (t, c)"
    "st_now (cn_store s) - t < TTL_SECONDS"
    by (auto simp: cached_lookup_def split: option.splits if_splits)
  with conc_inv_reach [OF assms(1)] have "current s (p, i) t c" by (auto simp: conc_inv_def)
  moreover have "w < t" if "cn_written s (p, i) = Some w" for w
    using assms(3) [OF that] t(2) by linarith
  ultimately show ?thesis by (auto simp: current_def split: option.splits)
qed

text \<open>The hypotheses hold after a load of a chat, thirty seconds after a write to it.\<close>

definition wa_group :: chat_key where
  "wa_group = \<lparr>ck_platform = U ''whatsapp'', ck_native_id = U ''g'', ck_type = GROUP_CHAT\<rparr>"

definition late_run :: "cache_event list" where
  "late_run = [WriteDb 0 wa_group (SetOverride (U ''hentai'') True), Invalidate 0, Tick 3600,
     LoadStart 1 (U ''whatsapp'') (U ''g''), LoadRead 1, LoadStore 1]"

definition run_state :: "cache_event list \<Rightarrow> conc" where
  "run_state es = (case cache_run es conc_init of Some s \<Rightarrow> s | None \<Rightarrow> conc_init)"

lemma run_state_reach: "cache_reach (run_state es)"
  unfolding run_state_def
  by (auto split: option.split intro: cache_run_reach cache_reach.init)

lemmas run_eval = conc_init_def empty_cache_store_def write_db_def wa_group_def sql_set_override_def
  upsert_chat_def find_chat_def empty_db_def cached_lookup_def cache_put_def invalidate_def
  sql_load_def chat_overrides_def ChatConfig_def policy_of_def same_override_def TTL_SECONDS_def
  view_of_def run_state_def

theorem cache_staleness_bounded_witness:
  "view_of \<lparr>ch_policy = OPEN, ch_overrides = [(U ''hentai'', True)]\<rparr> =
     sql_view (st_db (cn_store (run_state late_run))) (U ''whatsapp'') (U ''g'')"
proof (rule cache_staleness_bounded [of "run_state late_run"])
  show "cache_reach (run_state late_run)" by (rule run_state_reach)
  show "cached_lookup (cn_store (run_state late_run)) (U ''whatsapp'') (U ''g'') =
      Some \<lparr>ch_policy = OPEN, ch_overrides = [(U ''hentai'', True)]\<rparr>"
    by (simp add: late_run_def run_eval str_simps)
  show "w + TTL_SECONDS \<le> st_now (cn_store (run_state late_run))"
    if "cn_written (run_state late_run) (U ''whatsapp'', U ''g'') = Some w" for w
    using that by (simp add: late_run_def run_eval str_simps)
qed

definition stale_run :: "cache_event list" where
  "stale_run = [LoadStart 1 (U ''whatsapp'') (U ''g''), LoadRead 1,
     WriteDb 0 wa_group (SetOverride (U ''hentai'') True), Invalidate 0, LoadStore 1]"

text \<open>
  Invalidation alone does not keep the cache coherent.  There is a run with no direct edit
  of the database in which a write through the store is complete, invalidation included, and
  nothing is in flight, yet the next load of the chat is a hit on the configuration from
  before the write: the load that missed read the database first and inserted last.
\<close>

theorem cache_stale_after_write:
  "\<exists>es s. cache_run es conc_init = Some s \<and>
     list_all (\<lambda>e. case e of Edit _ _ \<Rightarrow> False | _ \<Rightarrow> True) es \<and>
     cn_loads s = Map.empty \<and> cn_writes s = Map.empty \<and>
     fst (sql_view (st_db (cn_store s)) (U ''whatsapp'') (U ''g'')) = OPEN \<and>
     snd (sql_view (st_db (cn_store s)) (U ''whatsapp'') (U ''g'')) (U ''hentai'') = Some True \<and>
     cached_lookup (cn_store s) (U ''whatsapp'') (U ''g'') = Some ChatConfig"
proof (intro exI conjI)
  let ?s = "the (cache_run stale_run conc_init)"
  show "cache_run stale_run conc_init = Some ?s"
    by (simp add: stale_run_def run_eval str_simps)
  show "list_all (\<lambda>e. case e of Edit _ _ \<Rightarrow> False | _ \<Rightarrow> True) stale_run"
    by (simp add: stale_run_def)
  show "cn_loads ?s = Map.empty" "cn_writes ?s = Map.empty"
    by (simp_all add: stale_run_def run_eval str_simps fun_eq_iff)
  show "fst (sql_view (st_db (cn_store ?s)) (U ''whatsapp'') (U ''g'')) = OPEN"
    "snd (sql_view (st_db (cn_store ?s)) (U ''whatsapp'') (U ''g'')) (U ''hentai'') = Some True"
    by (simp_all add: stale_run_def run_eval sql_view_def dict_get_def str_simps)
  show "cached_lookup (cn_store ?s) (U ''whatsapp'') (U ''g'') = Some ChatConfig"
    by (simp add: stale_run_def run_eval str_simps)
qed

end
