(* ===== verification/Config_Editor.thy ===== *)
theory Config_Editor
  imports Config_Cache "HOL-Library.List_Lexorder"
begin

text \<open>
  The command \<open>config\<close>: who may use it (bot/domain/services/group_admin.py), the editor
  that reads its words and writes the store (bot/application/config_editor.py), and the
  command that puts them together (bot/domain/commands/config.py).  The store is reached only
  through its operations, so the lemmas are proved once, in the context of the interface, and
  used for the cached store of \<open>Config_Cache\<close>.
\<close>

subsection \<open>Who is an administrator\<close>

record group_member =
  gm_id :: pystr
  gm_admin :: "pystr option"

definition truthy_str :: "pystr option \<Rightarrow> bool" where
  "truthy_str v \<longleftrightarrow> v \<noteq> None \<and> v \<noteq> Some []"

definition is_sender_admin :: "command_data \<Rightarrow> group_member list \<Rightarrow> bool" where
  "is_sender_admin d participants =
     (case cd_is_admin d of
        Some b \<Rightarrow> b
      | None \<Rightarrow>
          (let sender = (if truthy_str (cd_participant d) then the (cd_participant d) else cd_sender_jid d)
           in case find (\<lambda>m. gm_id m = sender) participants of
                None \<Rightarrow> False
              | Some m \<Rightarrow> truthy_str (gm_admin m)))"

text \<open>The second argument is the port's \<open>group_metadata\<close>, when a port is injected.\<close>

definition is_authorized ::
  "command_data \<Rightarrow> (pystr \<Rightarrow> (exn, 'w, group_member list) act) option \<Rightarrow> (exn, 'w, bool) act" where
  "is_authorized d whatsapp =
     (if \<not> cd_is_group d then ret True
      else case cd_is_admin d of
             Some b \<Rightarrow> ret b
           | None \<Rightarrow>
               (case whatsapp of
                  None \<Rightarrow> ret False
                | Some group_metadata \<Rightarrow>
                    if cd_platform d \<noteq> Some WHATSAPP then ret False
                    else bindA (group_metadata (cd_jid d)) (\<lambda>ps. ret (is_sender_admin d ps))))"

subsection \<open>The editor\<close>

definition NSFW_SUBTYPE :: pystr where
  "NSFW_SUBTYPE = U ''nsfw''"

definition subtype_category :: "pystr \<Rightarrow> category option" where
  "subtype_category token = find (\<lambda>c. category_value c = token) [DOWNLOAD, GROUP, RANDOM, INFORMATION]"

definition togglable :: "'w registry \<Rightarrow> 'w command list" where
  "togglable r = filter (\<lambda>c. cc_scope (cmd_config c) \<in> TOGGLABLE_SCOPES) (get_all r)"

definition command_name :: "'w command \<Rightarrow> pystr" where
  "command_name c = cc_name (cmd_config c)"

definition editor_resolve :: "'w registry \<Rightarrow> pystr \<Rightarrow> pystr list" where
  "editor_resolve r token0 =
     (let token = lower token0 in
      if token = NSFW_SUBTYPE
      then map command_name (filter (\<lambda>c. cc_scope (cmd_config c) = NSFW) (togglable r))
      else case subtype_category token of
             Some cat \<Rightarrow> map command_name (filter (\<lambda>c. cc_category (cmd_config c) = Some cat) (togglable r))
           | None \<Rightarrow>
               (case get_by_name r token of
                  Some c \<Rightarrow> if cc_scope (cmd_config c) \<in> TOGGLABLE_SCOPES then [command_name c] else []
                | None \<Rightarrow> []))"

definition editor_key :: "command_data \<Rightarrow> chat_key" where
  "editor_key d = \<lparr>ck_platform = platform_key d, ck_native_id = cd_jid d,
     ck_type = (if cd_is_group d then GROUP_CHAT else PRIVATE_CHAT)\<rparr>"

definition format_status :: "chat_config \<Rightarrow> pystr" where
  "format_status c =
     (let enabled = sort (map fst (filter snd (ch_overrides c)));
          disabled = sort (map fst (filter (\<lambda>kv. \<not> snd kv) (ch_overrides c)))
      in join [10]
           [U ''*Config deste chat* (pol{237}tica: '' @ policy_value (ch_policy c) @ U '')'',
            if enabled \<noteq> [] then U ''{9989} '' @ join (U '', '') enabled else U ''{9989} {8212}'',
            if disabled \<noteq> [] then U ''{128683} '' @ join (U '', '') disabled else U ''{128683} {8212}''])"

definition editor_help :: pystr where
  "editor_help = U ''Use: *,config on|off|reset <comando|nsfw|download|group|random|info>* ou *,config policy open|curated*.''"

definition editor_invalid :: "pystr \<Rightarrow> pystr" where
  "editor_invalid token =
     U ''{10067} N{227}o reconhe{231}o *'' @ token @ U ''* como comando ou tipo configur{225}vel.''"

definition unknown_policy :: pystr where
  "unknown_policy = U ''{10067} Pol{237}tica inv{225}lida. Use *open* ou *curated*.''"

text \<open>The two loops over the targets: one write per name, in order.\<close>

definition editor_write ::
  "(chat_key \<Rightarrow> pystr \<Rightarrow> bool \<Rightarrow> 's \<Rightarrow> 's) \<Rightarrow> 'w registry \<Rightarrow> command_data \<Rightarrow> pystr \<Rightarrow> bool \<Rightarrow> pystr
     \<Rightarrow> (exn, 's, pystr) act" where
  "editor_write set_ov r d token enabled label =
     (let targets = editor_resolve r token in
      if targets = [] then ret (editor_invalid token)
      else (\<lambda>s. (Inr (label @ U '': '' @ join (U '', '') targets),
                 fold (\<lambda>name. set_ov (editor_key d) name enabled) targets s)))"

definition editor_reset ::
  "(chat_key \<Rightarrow> pystr \<Rightarrow> 's \<Rightarrow> 's) \<Rightarrow> 'w registry \<Rightarrow> command_data \<Rightarrow> pystr \<Rightarrow> (exn, 's, pystr) act" where
  "editor_reset clear_ov r d token =
     (let targets = editor_resolve r token in
      if targets = [] then ret (editor_invalid token)
      else (\<lambda>s. (Inr (U ''{8617}{65039} Resetado ao padr{227}o: '' @ join (U '', '') targets),
                 fold (\<lambda>name. clear_ov (editor_key d) name) targets s)))"

definition editor_policy ::
  "(chat_key \<Rightarrow> chat_policy \<Rightarrow> 's \<Rightarrow> 's) \<Rightarrow> command_data \<Rightarrow> pystr \<Rightarrow> (exn, 's, pystr) act" where
  "editor_policy set_pol d token =
     (case policy_of (lower token) of
        None \<Rightarrow> ret unknown_policy
      | Some p \<Rightarrow> (\<lambda>s. (Inr (U ''{9881}{65039} Pol{237}tica deste chat: *'' @ policy_value p @ U ''*''),
                        set_pol (editor_key d) p s)))"

definition editor_apply ::
  "(chat_key \<Rightarrow> pystr \<Rightarrow> bool \<Rightarrow> 's \<Rightarrow> 's) \<Rightarrow> (chat_key \<Rightarrow> pystr \<Rightarrow> 's \<Rightarrow> 's) \<Rightarrow>
   (chat_key \<Rightarrow> chat_policy \<Rightarrow> 's \<Rightarrow> 's) \<Rightarrow> (pystr \<Rightarrow> pystr \<Rightarrow> (exn, 's, chat_config) act) \<Rightarrow>
   'w registry \<Rightarrow> command_data \<Rightarrow> pystr \<Rightarrow> (exn, 's, pystr) act" where
  "editor_apply set_ov clear_ov set_pol load r d rest =
     (case split_ws rest of
        [] \<Rightarrow> bindA (load (platform_key d) (cd_jid d)) (\<lambda>c. ret (format_status c))
      | first # others \<Rightarrow>
          (let verb = lower first; argument = (case others of [] \<Rightarrow> [] | a # _ \<Rightarrow> a) in
           if verb = U ''on'' then editor_write set_ov r d argument True (U ''{9989} Ativado'')
           else if verb = U ''off'' then editor_write set_ov r d argument False (U ''{128683} Desativado'')
           else if verb = U ''reset'' then editor_reset clear_ov r d argument
           else if verb = U ''policy'' then editor_policy set_pol d argument
           else ret editor_help))"

subsection \<open>The command\<close>

definition config_not_admin :: pystr where
  "config_not_admin = U ''S{243} admin configura os comandos do chat. {128581}''"

definition config_execute ::
  "(command_data \<Rightarrow> (exn, 's, bool) act) \<Rightarrow> (command_data \<Rightarrow> pystr \<Rightarrow> (exn, 's, pystr) act) \<Rightarrow> 's exec" where
  "config_execute authorized apply_editor d parsed =
     bindA (authorized d)
       (\<lambda>ok. if \<not> ok then ret [reply_text d config_not_admin]
             else bindA (apply_editor d (pc_rest parsed)) (\<lambda>response. ret [reply_text d response]))"

subsection \<open>What an edit does to the view of a chat\<close>

definition edited :: "'w registry \<Rightarrow> pystr \<Rightarrow> chat_view \<Rightarrow> chat_view" where
  "edited r rest v =
     (case split_ws rest of
        [] \<Rightarrow> v
      | first # others \<Rightarrow>
          (let verb = lower first; argument = (case others of [] \<Rightarrow> [] | a # _ \<Rightarrow> a);
               put = (\<lambda>b. (fst v, \<lambda>n. if n \<in> set (editor_resolve r argument) then b else snd v n))
           in if verb = U ''on'' then put (Some True)
              else if verb = U ''off'' then put (Some False)
              else if verb = U ''reset'' then put None
              else if verb = U ''policy'' then
                (case policy_of (lower argument) of None \<Rightarrow> v | Some p \<Rightarrow> (p, snd v))
              else v))"

context config_store_io
begin

lemma editor_write_run:
  assumes "inv s"
  shows "\<exists>reply s'. editor_write set_override r d token b label s = (Inr reply, s') \<and> inv s' \<and>
    view s' p i = (if p = platform_key d \<and> i = cd_jid d
      then (fst (view s p i), \<lambda>n. if n \<in> set (editor_resolve r token) then Some b else snd (view s p i) n)
      else view s p i)"
  using fold_set_override [OF assms, of "editor_key d" b "editor_resolve r token" p i] assms
  by (simp add: editor_write_def Let_def editor_key_def)

lemma editor_reset_run:
  assumes "inv s"
  shows "\<exists>reply s'. editor_reset clear_override r d token s = (Inr reply, s') \<and> inv s' \<and>
    view s' p i = (if p = platform_key d \<and> i = cd_jid d
      then (fst (view s p i), \<lambda>n. if n \<in> set (editor_resolve r token) then None else snd (view s p i) n)
      else view s p i)"
  using fold_clear_override [OF assms, of "editor_key d" "editor_resolve r token" p i] assms
  by (simp add: editor_reset_def Let_def editor_key_def)

lemma editor_policy_run:
  assumes "inv s"
  shows "\<exists>reply s'. editor_policy set_policy d token s = (Inr reply, s') \<and> inv s' \<and>
    view s' p i = (if p = platform_key d \<and> i = cd_jid d
      then (case policy_of (lower token) of None \<Rightarrow> view s p i | Some q \<Rightarrow> (q, snd (view s p i)))
      else view s p i)"
  using assms by (cases "policy_of (lower token)") (simp_all add: editor_policy_def editor_key_def store_laws)

lemma editor_apply_run:
  assumes "inv s"
  shows "\<exists>reply s'.
    editor_apply set_override clear_override set_policy load r d rest s = (Inr reply, s') \<and> inv s' \<and>
    view s' p i = (if p = platform_key d \<and> i = cd_jid d then edited r rest (view s p i) else view s p i)"
proof (cases "split_ws rest")
  case Nil
  obtain c s' where "load (platform_key d) (cd_jid d) s = (Inr c, s')" "inv s'"
    "\<And>q j. view s' q j = view s q j" by (rule load_obtain [OF assms]) blast
  with Nil show ?thesis by (simp add: editor_apply_def edited_def)
next
  case (Cons first others)
  let ?a = "case others of [] \<Rightarrow> [] | a # _ \<Rightarrow> a"
  consider "lower first = U ''on''" | "lower first = U ''off''" | "lower first = U ''reset''"
    | "lower first = U ''policy''"
    | "lower first \<notin> {U ''on'', U ''off'', U ''reset'', U ''policy''}" by auto
  then show ?thesis
  proof cases
    case 1
    have "editor_apply set_override clear_override set_policy load r d rest s = editor_write set_override r d ?a True (U ''{9989} Ativado'') s"
      "edited r rest (view s p i) = (fst (view s p i), \<lambda>n. if n \<in> set (editor_resolve r ?a) then Some True else snd (view s p i) n)"
      using 1 Cons by (simp_all add: editor_apply_def edited_def str_simps)
    then show ?thesis using editor_write_run [OF assms, of r d ?a True _ p i] by (simp only:)
  next
    case 2
    have "editor_apply set_override clear_override set_policy load r d rest s = editor_write set_override r d ?a False (U ''{128683} Desativado'') s"
      "edited r rest (view s p i) = (fst (view s p i), \<lambda>n. if n \<in> set (editor_resolve r ?a) then Some False else snd (view s p i) n)"
      using 2 Cons by (simp_all add: editor_apply_def edited_def str_simps)
    then show ?thesis using editor_write_run [OF assms, of r d ?a False _ p i] by (simp only:)
  next
    case 3
    have "editor_apply set_override clear_override set_policy load r d rest s = editor_reset clear_override r d ?a s"
      "edited r rest (view s p i) = (fst (view s p i), \<lambda>n. if n \<in> set (editor_resolve r ?a) then None else snd (view s p i) n)"
      using 3 Cons by (simp_all add: editor_apply_def edited_def str_simps)
    then show ?thesis using editor_reset_run [OF assms, of r d ?a p i] by (simp only:)
  next
    case 4
    have "editor_apply set_override clear_override set_policy load r d rest s = editor_policy set_policy d ?a s"
      "edited r rest (view s p i) = (case policy_of (lower ?a) of None \<Rightarrow> view s p i | Some q \<Rightarrow> (q, snd (view s p i)))"
      using 4 Cons by (simp_all add: editor_apply_def edited_def str_simps)
    then show ?thesis using editor_policy_run [OF assms, of d ?a p i] by (simp only:)
  next
    case 5
    with Cons assms show ?thesis by (simp add: editor_apply_def edited_def)
  qed
qed

end

lemma edited_switch:
  "split_ws rest = [verb, token] \<Longrightarrow> lower verb \<in> {U ''on'', U ''off''} \<Longrightarrow>
   edited r rest v =
     (fst v, \<lambda>n. if n \<in> set (editor_resolve r token) then Some (lower verb = U ''on'') else snd v n)"
  by (auto simp: edited_def Let_def str_simps)

text \<open>The editor on the cached store of the running bot.\<close>

abbreviation cached_apply :: "'w registry \<Rightarrow> command_data \<Rightarrow> pystr \<Rightarrow> (exn, cache_store, pystr) act" where
  "cached_apply \<equiv> editor_apply cached_set_override cached_clear_override cached_set_policy cached_load"

text \<open>
  C7: the command \<open>config\<close> implements its specification on the views of the chats.  On a
  coherent store every text is answered, the store stays coherent, the chat that was edited
  shows exactly the specified change, and no other chat changes.
\<close>

theorem config_edit_refines:
  assumes "cached_inv s"
  shows "\<exists>reply s'. cached_apply r d rest s = (Inr reply, s') \<and> cached_inv s' \<and>
    cached_view s' p i =
      (if p = platform_key d \<and> i = cd_jid d then edited r rest (cached_view s p i)
       else cached_view s p i)"
  by (rule cached.editor_apply_run [OF assms])

definition example_chat :: command_data where
  "example_chat = (CommandData (U '',config'') (U ''g'') (U ''u''))
     \<lparr>cd_is_group := True, cd_platform := Some WHATSAPP, cd_is_admin := Some False\<rparr>"

definition no_commands :: "unit registry" where
  "no_commands = register_all []"

theorem config_edit_refines_witness:
  "\<exists>reply s'. cached_apply no_commands example_chat (U ''policy curated'') empty_cache_store = (Inr reply, s') \<and>
    cached_inv s' \<and>
    cached_view s' (U ''whatsapp'') (U ''g'') = (CURATED, Map.empty)"
proof -
  have "split_ws (U ''policy curated'') = [U ''policy'', U ''curated'']"
    by (simp add: split_ws_def is_space_def space_cps_def str_simps)
  moreover have "policy_of (lower (U ''curated'')) = Some CURATED"
    by (simp add: policy_of_def lower_cp_def str_simps)
  moreover have "lower (U ''policy'') = U ''policy''" by (simp add: lower_cp_def str_simps)
  ultimately have "edited no_commands (U ''policy curated'')
      (cached_view empty_cache_store (U ''whatsapp'') (U ''g'')) = (CURATED, Map.empty)"
    by (simp add: edited_def Let_def cached_view_def cached_load_def cached_lookup_def sql_load_def
        find_chat_def empty_cache_store_def empty_db_def ChatConfig_def view_of_def dict_get_def
        fun_eq_iff del: lower_Cons)
       (simp add: str_simps)
  moreover have "platform_key example_chat = U ''whatsapp''" "cd_jid example_chat = U ''g''"
    by (simp_all add: example_chat_def platform_key_def)
  ultimately show ?thesis
    using config_edit_refines [OF cached_inv_empty, of no_commands example_chat
        "U ''policy curated''" "U ''whatsapp''" "U ''g''"]
    by (simp only: simp_thms if_True)
qed

text \<open>
  An edit takes effect at once.  After \<open>config on \<dots>\<close> or \<open>config off \<dots>\<close> the service
  answers on, respectively off, for every command the word stands for, and for every other
  command of the chat what it answered before.
\<close>

theorem config_takes_effect:
  assumes "cached_inv s" and "split_ws rest = [verb, token]"
    and "lower verb \<in> {U ''on'', U ''off''}" and "cc_scope cfg \<in> TOGGLABLE_SCOPES"
  shows "fst (is_enabled cached_load d cfg (snd (cached_apply r d rest s))) =
    (if cc_name cfg \<in> set (editor_resolve r token) then Inr (lower verb = U ''on'')
     else fst (is_enabled cached_load d cfg s))"
proof -
  obtain reply s' where s': "cached_apply r d rest s = (Inr reply, s')" "cached_inv s'"
    "cached_view s' (platform_key d) (cd_jid d) = edited r rest (cached_view s (platform_key d) (cd_jid d))"
    using cached.editor_apply_run [OF assms(1), of r d rest "platform_key d" "cd_jid d"] by auto
  have run: "fst (is_enabled cached_load d cfg t) =
      Inr (decide (cached_view t (platform_key d) (cd_jid d)) (cc_name cfg) (cc_scope cfg))"
    if "cached_inv t" for t
    using assms(4) by (rule_tac cached.is_enabled_run [OF that, of d cfg]) simp
  show ?thesis
    unfolding s'(1) snd_conv run [OF s'(2)] run [OF assms(1)] s'(3)
    unfolding edited_switch [OF assms(2,3)] by (simp add: decide_def split: option.split)
qed

definition beer_cmd :: "unit command" where
  "beer_cmd = \<lparr>cmd_config = (CommandConfig (U ''cerveja''))\<lparr>cc_aliases := [U ''beer'']\<rparr>,
     cmd_menu = [], cmd_execute = (\<lambda>d parsed. ret [])\<rparr>"

theorem config_takes_effect_witness:
  "fst (is_enabled cached_load example_chat (CommandConfig (U ''cerveja''))
     (snd (cached_apply (register_all [beer_cmd]) example_chat (U ''OFF Beer'') empty_cache_store))) =
   Inr False"
proof -
  have low: "lower (U ''OFF'') = U ''off''" "lower (U ''Beer'') = U ''beer''"
    by (simp_all add: lower_cp_def str_simps)
  have "cc_name (CommandConfig (U ''cerveja'')) \<in> set (editor_resolve (register_all [beer_cmd]) (U ''Beer''))"
    unfolding editor_resolve_def low
    by (simp add: Let_def subtype_category_def NSFW_SUBTYPE_def get_by_name_def register_all_def
        register_def beer_cmd_def empty_registry_def command_name_def TOGGLABLE_SCOPES_def
        lower_cp_def str_simps)
  moreover have "split_ws (U ''OFF Beer'') = [U ''OFF'', U ''Beer'']"
    by (simp add: split_ws_def is_space_def space_cps_def str_simps)
  moreover have "lower (U ''OFF'') \<noteq> U ''on''" by (simp add: low) (simp add: str_simps)
  moreover have "lower (U ''OFF'') \<in> {U ''on'', U ''off''}" by (simp add: low)
  ultimately show ?thesis
    using config_takes_effect [OF cached_inv_empty, of "U ''OFF Beer''" "U ''OFF''" "U ''Beer''"
        "CommandConfig (U ''cerveja'')" example_chat "register_all [beer_cmd]"]
    by (simp add: TOGGLABLE_SCOPES_def del: CommandConfig_sel lower_Cons) (simp add: TOGGLABLE_SCOPES_def)
qed

text \<open>
  The words of \<open>config\<close> stand only for commands that may be switched.  Whatever is
  registered and whatever is typed, the names that an edit writes are names of registered
  commands of a switchable scope, so \<open>config\<close> itself, an administrator's command, cannot be
  switched off.
\<close>

theorem config_targets_switchable:
  "list_all (\<lambda>n. list_ex (\<lambda>c. command_name c = n \<and> cc_scope (cmd_config c) \<in> {PUBLIC, NSFW}) cs)
     (editor_resolve (register_all cs) token)"
proof -
  have "c \<in> set cs" if "get_by_name (register_all cs) t = Some c" for c t
    using get_by_name_mem [OF register_all_inv that] by (simp add: get_all_def register_all_commands)
  then show ?thesis
    by (auto simp: editor_resolve_def Let_def togglable_def get_all_def register_all_commands
        TOGGLABLE_SCOPES_def list_all_iff list_ex_iff split: option.split)
qed

text \<open>
  In a group, a sender whom the gateway does not report as an administrator gets the refusal
  and changes nothing, whatever the words; and so does anyone when the platform gives no way to
  tell.
\<close>

theorem config_needs_admin:
  assumes "cd_is_group d" and "cd_is_admin d \<noteq> Some True"
    and "whatsapp = None \<or> whatsapp = Some group_metadata"
    and "group_metadata (cd_jid d) s = (Inr members, s)"
    and "cd_is_admin d = None \<longrightarrow> \<not> is_sender_admin d members"
  shows "config_execute (\<lambda>d. is_authorized d whatsapp) (cached_apply r) d parsed s =
      (Inr [reply_text d config_not_admin], s)"
proof -
  have "is_authorized d whatsapp s = (Inr False, s)"
    using assms(1,2,3,5)
    by (auto simp: is_authorized_def bindA_def assms(4) split: option.splits)
  then show ?thesis by (simp add: config_execute_def bindA_def)
qed

theorem config_needs_admin_witness:
  "config_execute (\<lambda>d. is_authorized d (Some (\<lambda>_. ret []))) (cached_apply no_commands)
     (example_chat\<lparr>cd_is_admin := None\<rparr>)
     \<lparr>pc_command_name = U ''config'', pc_flags = {}, pc_options = [], pc_rest = U ''policy curated''\<rparr>
     empty_cache_store =
   (Inr [reply_text (example_chat\<lparr>cd_is_admin := None\<rparr>) config_not_admin], empty_cache_store)"
  by (rule config_needs_admin [where group_metadata = "\<lambda>_. ret []" and members = "[]"])
     (simp_all add: example_chat_def is_sender_admin_def)

end
