(* ===== verification/Command_Run.thy ===== *)
theory Command_Run
  imports Config_Editor
begin

text \<open>
  One run of a command (\<open>Command.run\<close> in bot/domain/commands/base.py): the group guard, the
  parse, the command's own \<open>execute\<close>, the flags applied to its messages, and the one event
  that reports how the run ended.  Then the text of a message before any command is looked up
  (bot/application/command_text.py): the batch suffix and the built-in replies.
\<close>

subsection \<open>Flags\<close>

fun set_view_once :: "bool \<Rightarrow> message_content \<Rightarrow> message_content" where
  "set_view_once v (ImageContent u c _) = ImageContent u c v"
| "set_view_once v (ImageBufferContent b c _) = ImageBufferContent b c v"
| "set_view_once v (VideoContent u c _) = VideoContent u c v"
| "set_view_once v (VideoBufferContent b c _ g) = VideoBufferContent b c v g"
| "set_view_once v (AudioContent u _ m) = AudioContent u v m"
| "set_view_once v c = c"

fun view_once :: "message_content \<Rightarrow> bool" where
  "view_once (ImageContent _ _ v) = v"
| "view_once (ImageBufferContent _ _ v) = v"
| "view_once (VideoContent _ _ v) = v"
| "view_once (VideoBufferContent _ _ v _) = v"
| "view_once (AudioContent _ v _) = v"
| "view_once _ = False"

definition apply_flags :: "command_data \<Rightarrow> parsed_command \<Rightarrow> bot_message list \<Rightarrow> bot_message list" where
  "apply_flags d parsed msgs =
     map (\<lambda>msg.
       let msg = (if flag_value DM \<in> pc_flags parsed \<and> truthy_str (cd_participant d)
                  then msg\<lparr>bm_jid := the (cd_participant d)\<rparr> else msg)
       in if flag_value SHOW \<in> pc_flags parsed
          then msg\<lparr>bm_content := set_view_once False (bm_content msg)\<rparr> else msg) msgs"

subsection \<open>The run\<close>

definition group_only_reply :: pystr where
  "group_only_reply = U ''Ah, esse comando s{243} funciona em grupo! {128522}''"

definition run_body :: "'w command \<Rightarrow> command_data \<Rightarrow> (exn, 'w, bot_message list) act" where
  "run_body c d =
     (if cc_group_only (cmd_config c) \<and> \<not> cd_is_group d
      then ret [reply_text d group_only_reply]
      else let parsed = parse (cmd_config c) (cd_text d)
           in bindA (cmd_execute c d parsed) (\<lambda>msgs. ret (apply_flags d parsed msgs)))"

text \<open>
  How the run is reported.  A \<open>BaseException\<close> that is no \<open>Exception\<close>, such as the
  cancellation of the task, passes the three handlers and reaches the \<open>finally\<close> block with
  the outcome still at its first value.
\<close>

datatype outcome = SUCCESS | EXTERNAL_ERROR | BOT_ERROR | UNEXPECTED_ERROR

definition base_exceptions :: "pystr list" where
  "base_exceptions = [U ''CancelledError'', U ''KeyboardInterrupt'', U ''SystemExit'', U ''GeneratorExit'']"

fun exn_name :: "exn \<Rightarrow> pystr" where
  "exn_name (Raised ExternalServiceError _) = U ''ExternalServiceError''"
| "exn_name (Raised DownloadError _) = U ''DownloadError''"
| "exn_name (Raised BotError _) = U ''BotError''"
| "exn_name (Raised CommandError _) = U ''CommandError''"
| "exn_name (Raised MediaNotFoundError _) = U ''MediaNotFoundError''"
| "exn_name (Raised MediaUnavailableError _) = U ''MediaUnavailableError''"
| "exn_name (Raised ValidationError _) = U ''ValidationError''"
| "exn_name (Raised StickerTooLargeError _) = U ''StickerTooLargeError''"
| "exn_name (OtherExn n) = n"

definition is_exception :: "exn \<Rightarrow> bool" where
  "is_exception e = (case e of Raised _ _ \<Rightarrow> True | OtherExn n \<Rightarrow> n \<notin> set base_exceptions)"

definition classify :: "exn + 'a \<Rightarrow> outcome \<times> pystr option" where
  "classify r =
     (case r of
        Inr _ \<Rightarrow> (SUCCESS, None)
      | Inl e \<Rightarrow>
          if isinstance e ExternalServiceError then (EXTERNAL_ERROR, Some (exn_name e))
          else if isinstance e BotError then (BOT_ERROR, None)
          else if is_exception e then (UNEXPECTED_ERROR, Some (exn_name e))
          else (SUCCESS, None))"

record completed =
  ce_command :: pystr
  ce_platform :: platform
  ce_group :: bool
  ce_chat :: pystr
  ce_outcome :: outcome
  ce_error_type :: "pystr option"

text \<open>\<open>emit\<close> is the logger and the span; the duration of the run is not part of the event.\<close>

definition run_command ::
  "(completed \<Rightarrow> 'w \<Rightarrow> 'w) \<Rightarrow> 'w command \<Rightarrow> command_data \<Rightarrow> (exn, 'w, bot_message list) act" where
  "run_command emit c d w =
     (let (r, w') = run_body c d w;
          ev = \<lparr>ce_command = cc_name (cmd_config c),
                ce_platform = (case cd_platform d of None \<Rightarrow> WHATSAPP | Some p \<Rightarrow> p),
                ce_group = cd_is_group d, ce_chat = cd_jid d,
                ce_outcome = fst (classify r), ce_error_type = snd (classify r)\<rparr>
      in (r, emit ev w'))"

text \<open>\<open>_get_media\<close>: the buffer downloaded in advance, or the port.\<close>

definition get_media ::
  "(pystr \<Rightarrow> pystr \<Rightarrow> (exn, 'w, bytes) act) option \<Rightarrow> command_data \<Rightarrow> (exn, 'w, bytes) act" where
  "get_media whatsapp d =
     (case cd_media_buffer d of
        Some b \<Rightarrow> ret b
      | None \<Rightarrow>
          (case (cd_message_id d, cd_media_source d) of
             (Some i, Some src) \<Rightarrow>
               (case whatsapp of
                  None \<Rightarrow> raise (OtherExn (U ''RuntimeError''))
                | Some download_media \<Rightarrow> download_media i src)
           | _ \<Rightarrow> raise (OtherExn (U ''RuntimeError''))))"

lemma apply_flags_length [simp]: "length (apply_flags d p ms) = length ms"
  by (simp add: apply_flags_def)

lemma set_view_once_other: "view_once c = False \<Longrightarrow> set_view_once False c = c"
  by (cases c) simp_all

lemma view_once_set [simp]: "\<not> view_once (set_view_once False c)"
  by (cases c) simp_all

lemma content_buffer_set_view_once [simp]: "content_buffer (set_view_once v c) = content_buffer c"
  by (cases c) simp_all

definition flagged :: "command_data \<Rightarrow> pystr set \<Rightarrow> bot_message \<Rightarrow> bot_message \<Rightarrow> bool" where
  "flagged d flags a b \<longleftrightarrow>
     bm_jid b = (if U ''dm'' \<in> flags \<and> truthy_str (cd_participant d)
                 then the (cd_participant d) else bm_jid a) \<and>
     (if U ''show'' \<in> flags then \<not> view_once (bm_content b) else bm_content b = bm_content a) \<and>
     content_buffer (bm_content b) = content_buffer (bm_content a) \<and>
     bm_quoted_message_id b = bm_quoted_message_id a \<and> bm_expiration b = bm_expiration a"

text \<open>
  Flags touch only what they name.  With \<open>show\<close> no returned message is view-once, without
  it every message keeps its content; with \<open>dm\<close> and a participant every message goes to the
  participant, otherwise each keeps its chat; buffers, quotes and expirations never change, nor
  does the number of messages.
\<close>

theorem run_applies_flags:
  assumes "cc_group_only (cmd_config c) \<longrightarrow> cd_is_group d"
    and "cmd_execute c d (parse (cmd_config c) (cd_text d)) w = (Inr ms, w')"
  shows "\<exists>out. run_body c d w = (Inr out, w') \<and>
    list_all2 (flagged d (pc_flags (parse (cmd_config c) (cd_text d)))) ms out"
proof -
  let ?p = "parse (cmd_config c) (cd_text d)"
  have "run_body c d w = (Inr (apply_flags d ?p ms), w')"
    using assms by (auto simp: run_body_def Let_def bindA_def)
  moreover have "list_all2 (flagged d (pc_flags ?p)) ms (apply_flags d ?p ms)"
    by (auto simp: flagged_def apply_flags_def list_all2_conv_all_nth Let_def)
  ultimately show ?thesis by blast
qed

definition puppy_cmd :: "unit command" where
  "puppy_cmd = \<lparr>cmd_config = puppy_config, cmd_menu = [],
     cmd_execute = (\<lambda>d parsed. ret [reply_image_buffer d [1, 2] None])\<rparr>"

theorem run_applies_flags_witness:
  "\<exists>out. run_body puppy_cmd (CommandData (U '',puppy dog Show quero'') (U ''g'') (U ''u'')) () = (Inr out, ()) \<and>
    list_all2 (flagged (CommandData (U '',puppy dog Show quero'') (U ''g'') (U ''u'')) {U ''show''})
      [reply_image_buffer (CommandData (U '',puppy dog Show quero'') (U ''g'') (U ''u'')) [1, 2] None] out"
proof -
  let ?d = "CommandData (U '',puppy dog Show quero'') (U ''g'') (U ''u'')"
  have "pc_flags (parse (cmd_config puppy_cmd) (cd_text ?d)) = {U ''show''}" by code_simp
  with run_applies_flags [of puppy_cmd ?d "()" "[reply_image_buffer ?d [1, 2] None]" "()"]
  show ?thesis by (simp only: puppy_cmd_def puppy_config_def CommandConfig_def command.simps
      command_config.simps ret_apply simp_thms)
qed

text \<open>
  Every run is reported once and its result passes through unchanged.  The event says
  external error, bot error or unexpected error according to the class of the exception; a run
  that returns is a success; and a cancelled run is reported as a success too.
\<close>

theorem run_reports_once:
  "run_command emit c d w =
    (fst (run_body c d w),
     emit \<lparr>ce_command = cc_name (cmd_config c),
           ce_platform = (case cd_platform d of None \<Rightarrow> WHATSAPP | Some p \<Rightarrow> p),
           ce_group = cd_is_group d, ce_chat = cd_jid d,
           ce_outcome = (case fst (run_body c d w) of
               Inr _ \<Rightarrow> SUCCESS
             | Inl (Raised k _) \<Rightarrow>
                 if k = ExternalServiceError \<or> k = DownloadError then EXTERNAL_ERROR else BOT_ERROR
             | Inl (OtherExn n) \<Rightarrow>
                 if n \<in> {U ''CancelledError'', U ''KeyboardInterrupt'', U ''SystemExit'', U ''GeneratorExit''}
                 then SUCCESS else UNEXPECTED_ERROR),
           ce_error_type = (case fst (run_body c d w) of
               Inr _ \<Rightarrow> None
             | Inl (Raised k m) \<Rightarrow>
                 if k = ExternalServiceError \<or> k = DownloadError then Some (exn_name (Raised k m)) else None
             | Inl (OtherExn n) \<Rightarrow>
                 if n \<in> {U ''CancelledError'', U ''KeyboardInterrupt'', U ''SystemExit'', U ''GeneratorExit''}
                 then None else Some n)\<rparr>
       (snd (run_body c d w)))"
proof (cases "run_body c d w")
  case (Pair r w')
  then show ?thesis
    by (cases r)
       (auto simp: run_command_def classify_def subclass_External is_exception_def base_exceptions_def
         split: exn.splits)
qed

subsection \<open>The text of a message\<close>

definition COMMAND_PREFIX :: pystr where "COMMAND_PREFIX = U '',''"
definition CLARIFY_PREFIX :: pystr where "CLARIFY_PREFIX = U '',clarify:''"
definition SUGGEST_PREFIX :: pystr where "SUGGEST_PREFIX = U '',suggest:''"

definition AGENT_MENU_HINT :: pystr where
  "AGENT_MENU_HINT = U ''Use o comando de menu para ver as op{231}{245}es dispon{237}veis''"

definition batch_re :: rx where
  "batch_re = rseq [Plus (Cls CSpace), Plus (Cls CDigit), Chr 120, Spaces, Eol]"

definition MAX_BATCH :: nat where
  "MAX_BATCH = 5"

text \<open>
  \<open>split_batch\<close>: the group of the pattern is the run of digits after the leading space of
  the matched text; \<open>Inl\<close> is the \<open>ValueError\<close> of \<open>int\<close> on too many digits.
\<close>

definition split_batch :: "command_data \<Rightarrow> exn + nat \<times> command_data" where
  "split_batch d =
     (case search False batch_re (cd_text d) of
        None \<Rightarrow> Inr (1, d)
      | Some (start, matched, _) \<Rightarrow>
          (case py_int (takeWhile is_decimal (lstrip_by is_space matched)) of
             None \<Rightarrow> Inl (OtherExn (U ''ValueError''))
           | Some n \<Rightarrow> Inr (max (min n MAX_BATCH) 1, d\<lparr>cd_text := start\<rparr>)))"

definition builtin_text :: "pystr \<Rightarrow> pystr \<Rightarrow> pystr" where
  "builtin_text text p =
     (let message = strip (drop (length p) text)
      in if message = [] then AGENT_MENU_HINT else message)"

definition builtin_reply :: "command_data \<Rightarrow> bot_message list option" where
  "builtin_reply d =
     (case find (startswith (cd_text d)) [CLARIFY_PREFIX, SUGGEST_PREFIX] of
        None \<Rightarrow> None
      | Some p \<Rightarrow> Some [reply_text d (builtin_text (cd_text d) p)])"

lemma decimal_not_space: "is_decimal c \<Longrightarrow> \<not> is_space c"
  by (auto simp: is_space_def space_cps_def is_decimal_def decimal_value_def nd_zeros_def)

lemma x_plain: "\<not> is_space 120" "\<not> is_decimal 120" "is_space 10"
  by (simp_all add: is_space_def space_cps_def is_decimal_def decimal_value_def nd_zeros_def)

lemma cls_digit: "cls_eq False CDigit = is_decimal"
  by (rule ext) (simp add: cls_eq_def)

lemma plus_class:
  assumes "cls_eq False k = P"
  shows "t \<in> set (rx_m False (Plus (Cls k)) s) \<Longrightarrow> \<exists>w. snd s = w @ snd t \<and> w \<noteq> [] \<and> list_all P w"
    and "P c \<Longrightarrow> \<exists>q. (q, dropWhile P cs) \<in> set (rx_m False (Plus (Cls k)) (p, c # cs))"
proof -
  have cls: "rx_m False (Cls k) = step_if P" by (rule ext) (simp add: assms)
  assume "t \<in> set (rx_m False (Plus (Cls k)) s)"
  then obtain u where u: "u \<in> set (step_if P s)" "t \<in> set (star_m True (step_if P) (length (snd u)) u)"
    by (auto simp: cls simp del: rx_m.simps(3))
  from star_class_split [OF u(2)] obtain w where "snd u = w @ snd t" "list_all P w" by blast
  with u(1) show "\<exists>w. snd s = w @ snd t \<and> w \<noteq> [] \<and> list_all P w"
    unfolding step_if_iff by (metis append_Cons list.distinct(1) list.pred_inject(2))
next
  have cls: "rx_m False (Cls k) = step_if P" by (rule ext) (simp add: assms)
  assume "P c"
  moreover obtain q rest where "star_m True (step_if P) (length cs) (Some c, cs) = (q, dropWhile P cs) # rest"
    using star_class_shape [of P cs "Some c"] by blast
  ultimately show "\<exists>q. (q, dropWhile P cs) \<in> set (rx_m False (Plus (Cls k)) (p, c # cs))"
    by (auto simp: cls step_if_def simp del: rx_m.simps(3))
qed

text \<open>What a match of the batch suffix looks like, and that there is at most one reading.\<close>

lemma rseq_mem:
  "t \<in> set (rx_m ic (rseq (r # rs)) s) \<longleftrightarrow> (\<exists>u \<in> set (rx_m ic r s). t \<in> set (rx_m ic (rseq rs) u))"
  by (auto simp del: rx_m.simps(1-3,5-12))

lemma batch_shape:
  assumes "t \<in> set (rx_m False batch_re (p, s))"
  shows "\<exists>sp ds en. s = sp @ ds @ 120 # en @ snd t \<and> sp \<noteq> [] \<and> list_all is_space sp \<and> ds \<noteq> [] \<and>
    list_all is_decimal ds \<and> list_all is_space (en @ snd t)"
proof -
  from assms obtain a b c d where a: "a \<in> set (rx_m False (Plus (Cls CSpace)) (p, s))"
    and b: "b \<in> set (rx_m False (Plus (Cls CDigit)) a)"
    and c0: "c \<in> set (rx_m False (Chr 120) b)"
    and d: "d \<in> set (rx_m False Spaces c)" "t \<in> set (rx_m False (rseq [Eol]) d)"
    unfolding batch_re_def rseq_mem by blast
  have "rx_m False (Chr 120) b = step_if (\<lambda>c. c = 120) b"
    by (auto simp: chr_eq_def step_if_def split: list.splits)
  with c0 d have c: "c \<in> set (step_if (\<lambda>c. c = 120) b)" "d \<in> set (rx_m False Spaces c)"
    "t \<in> set (rx_m False Eol d)" by (simp_all add: concat_map_single del: rx_m.simps(6))
  from plus_class(1) [OF cls_eq_space' a] obtain sp
    where sp: "s = sp @ snd a" "sp \<noteq> []" "list_all is_space sp" by auto
  from plus_class(1) [OF cls_digit b] obtain ds
    where ds: "snd a = ds @ snd b" "ds \<noteq> []" "list_all is_decimal ds" by auto
  from c(1) have x: "snd b = 120 # snd c" by (auto simp: step_if_iff)
  from c(2) have "d \<in> set (star_m True (step_if is_space) (length (snd c)) c)"
    by (simp only: rx_m_spaces)
  from star_class_split [OF this] obtain en where tl: "snd c = en @ snd d" "list_all is_space en"
    by blast
  from c(3) have "snd t = snd d" "snd d = [] \<or> snd d = [10]" by (auto split: if_splits)
  with sp ds x tl show ?thesis by (intro exI [of _ sp] exI [of _ ds] exI [of _ en]) (auto simp: x_plain)
qed

lemma batch_exists:
  assumes "sp \<noteq> []" "list_all is_space sp" "ds \<noteq> []" "list_all is_decimal ds" "list_all is_space en"
  shows "rx_m False batch_re (p, sp @ ds @ 120 # en) \<noteq> []"
proof -
  from assms(1) obtain s1 sps where sp: "sp = s1 # sps" by (cases sp) auto
  from assms(3) obtain d1 dss where ds: "ds = d1 # dss" by (cases ds) auto
  have "dropWhile is_space (sps @ ds @ 120 # en) = ds @ 120 # en"
    using assms sp ds decimal_not_space by (simp add: dropWhile_append2 list_all_iff)
  then obtain q where q: "(q, ds @ 120 # en) \<in> set (rx_m False (Plus (Cls CSpace)) (p, sp @ ds @ 120 # en))"
    using plus_class(2) [OF cls_eq_space', of s1 "sps @ ds @ 120 # en" p] assms(2) sp by auto
  have "dropWhile is_decimal (dss @ 120 # en) = 120 # en"
    using assms(4) ds by (simp add: dropWhile_append2 list_all_iff x_plain)
  then obtain q' where q': "(q', 120 # en) \<in> set (rx_m False (Plus (Cls CDigit)) (q, ds @ 120 # en))"
    using plus_class(2) [OF cls_digit, of d1 "dss @ 120 # en" q] assms(4) ds by auto
  obtain q2 rest where star: "rx_m False Spaces (Some 120, en) = (q2, dropWhile is_space en) # rest"
    using star_class_shape [of is_space en "Some 120"] by (auto simp: rx_m_spaces simp del: rx_m.simps(6))
  have "dropWhile is_space en = []" using assms(5) by (simp add: list_all_iff)
  with star have "(q2, []) \<in> set (rx_m False (rseq [Chr 120, Spaces, Eol]) (q', 120 # en))"
    by (simp add: chr_eq_def step_if_def del: rx_m.simps(6))
  with q q' have "(q2, []) \<in> set (rx_m False batch_re (p, sp @ ds @ 120 # en))"
    unfolding batch_re_def by (meson rseq_mem)
  then show ?thesis by auto
qed

lemma span_rev:
  "list_all P e \<Longrightarrow> \<not> P c \<Longrightarrow> dropWhile P (rev e @ c # r) = c # r \<and> takeWhile P (rev e @ c # r) = rev e"
  by (induction e rule: rev_induct) simp_all

lemma batch_unique:
  assumes "t @ sp @ ds @ 120 # en = sp' @ ds' @ 120 # en'"
    and "t = [] \<or> \<not> is_space (last t)" and "sp \<noteq> []" and "list_all is_space sp"
    and "list_all is_decimal ds" and "list_all is_space en"
    and "sp' \<noteq> []" and "list_all is_space sp'" and "list_all is_decimal ds'" and "list_all is_space en'"
  shows "t = [] \<and> sp = sp' \<and> ds = ds' \<and> en = en'"
proof -
  have drop_sp: "dropWhile is_space (rev e @ 120 # r) = 120 # r" "takeWhile is_space (rev e @ 120 # r) = rev e"
    if "list_all is_space e" for e r
    using span_rev [OF that x_plain(1)] by simp_all
  have drop_ds: "dropWhile is_decimal (rev x @ rev y @ r) = rev y @ r"
      "takeWhile is_decimal (rev x @ rev y @ r) = rev x"
    if "list_all is_decimal x" "y \<noteq> []" "list_all is_space y" for x y r
  proof -
    from that(2) obtain y1 ys where y: "rev y = y1 # ys" by (cases "rev y") auto
    with that(3) have "is_space y1" by (metis list.pred_inject(2) list_all_rev)
    with decimal_not_space have "\<not> is_decimal y1" by blast
    with that(1) y show "dropWhile is_decimal (rev x @ rev y @ r) = rev y @ r"
      "takeWhile is_decimal (rev x @ rev y @ r) = rev x"
      using span_rev [of is_decimal x y1 "ys @ r"] by simp_all
  qed
  have "rev (t @ sp @ ds @ 120 # en) = rev (sp' @ ds' @ 120 # en')" using assms(1) by simp
  then have r: "rev en @ 120 # (rev ds @ rev sp @ rev t) = rev en' @ 120 # (rev ds' @ rev sp' @ [])"
    by simp
  from r drop_sp assms(6,10) have "rev ds @ rev sp @ rev t = rev ds' @ rev sp' @ []" "rev en = rev en'"
    by (metis list.inject)+
  moreover from this drop_ds assms have "rev sp @ rev t = rev sp' @ []" "rev ds = rev ds'" by metis+
  moreover have "t = []"
  proof (rule ccontr)
    assume "t \<noteq> []"
    with calculation(3) have "last t \<in> set sp'"
      by (metis append_Nil2 append_is_Nil_conv hd_in_set hd_rev in_set_conv_decomp last_in_set rev.simps(1) rev_append set_append set_rev UnCI rev_rev_ident)
    with assms(2,8) \<open>t \<noteq> []\<close> show False by (simp add: list_all_iff)
  qed
  ultimately show ?thesis by simp
qed

lemma batch_search:
  assumes "t = [] \<or> \<not> is_space (last t)" "sp \<noteq> []" "list_all is_space sp" "ds \<noteq> []"
    "list_all is_decimal ds" "list_all is_space en"
  shows "\<exists>e r. search_from False batch_re p (t @ sp @ ds @ 120 # en) = Some (t, sp @ ds @ 120 # e, r)"
  using assms(1)
proof (induction t arbitrary: p)
  case Nil
  from batch_exists [OF assms(2-6), of p] obtain u us where u: "rx_m False batch_re (p, sp @ ds @ 120 # en) = u # us"
    by (cases "rx_m False batch_re (p, sp @ ds @ 120 # en)") auto
  then have "u \<in> set (rx_m False batch_re (p, sp @ ds @ 120 # en))" by simp
  from batch_shape [OF this] obtain sp' ds' en' where sh: "sp @ ds @ 120 # en = sp' @ ds' @ 120 # en' @ snd u"
    "sp' \<noteq> []" "list_all is_space sp'" "ds' \<noteq> []" "list_all is_decimal ds'" "list_all is_space (en' @ snd u)"
    by blast
  with batch_unique [of "[]" sp ds en sp' ds' "en' @ snd u"] assms have "en = en' @ snd u" by simp
  with u show ?case by (simp add: search_from.simps)
next
  case (Cons c t)
  have "rx_m False batch_re (p, (c # t) @ sp @ ds @ 120 # en) = []"
  proof (rule ccontr)
    assume "rx_m False batch_re (p, (c # t) @ sp @ ds @ 120 # en) \<noteq> []"
    then obtain u where "u \<in> set (rx_m False batch_re (p, (c # t) @ sp @ ds @ 120 # en))"
      by (meson list.set_sel(1))
    from batch_shape [OF this] Cons.prems assms(2-6) show False
      using batch_unique [of "c # t" sp ds en] by blast
  qed
  moreover obtain e r where "search_from False batch_re (Some c) (t @ sp @ ds @ 120 # en) = Some (t, sp @ ds @ 120 # e, r)"
    using Cons.IH [of "Some c"] Cons.prems by (auto split: if_splits)
  ultimately show ?case by (simp add: search_from.simps)
qed

text \<open>
  The batch suffix.  A text that ends in white space, digits and an x (with any white space
  after it) is split there: the command text is what comes before, and the number of
  repetitions is the number clamped to the range from one to five.
\<close>

theorem split_batch_spec:
  assumes "cd_text d = t @ sp @ ds @ U ''x'' @ en"
    and "t = [] \<or> \<not> is_space (last t)" and "sp \<noteq> []" and "list_all is_space sp"
    and "ds \<noteq> []" and "list_all is_decimal ds" and "length ds \<le> 4300" and "list_all is_space en"
  shows "\<exists>n. py_int ds = Some n \<and> split_batch d = Inr (max 1 (min 5 n), d\<lparr>cd_text := t\<rparr>)"
proof -
  obtain e r where s: "search False batch_re (cd_text d) = Some (t, sp @ ds @ 120 # e, r)"
    using batch_search [OF assms(2-6,8), of None] assms(1) by (auto simp: search_def str_simps)
  from int_go_decimals [OF assms(6)] assms(5,7) obtain n where n: "py_int ds = Some n"
    by (auto simp: py_int_def max_str_digits_def)
  have "lstrip_by is_space (sp @ ds @ 120 # e) = ds @ 120 # e"
    using assms(4-6) decimal_not_space by (cases ds) (simp_all add: lstrip_by_def dropWhile_append2 list_all_iff)
  moreover have "takeWhile is_decimal (ds @ 120 # e) = ds"
    using assms(6) by (simp add: takeWhile_append2 list_all_iff x_plain)
  ultimately show ?thesis using s n by (simp add: split_batch_def MAX_BATCH_def max.commute min.commute)
qed

theorem split_batch_spec_witness:
  "\<exists>n. py_int (U ''12'') = Some n \<and>
     split_batch (CommandData (U '',oi  12x '') [] []) = Inr (max 1 (min 5 n), CommandData (U '',oi'') [] [])"
  using split_batch_spec [of "CommandData (U '',oi  12x '') [] []" "U '',oi''" "U ''  ''" "U ''12''" "U '' ''"]
  by (simp add: is_space_def space_cps_def is_decimal_def decimal_value_def nd_zeros_def str_simps)

end
