(* ===== verification/Handler.thy ===== *)
theory Handler
  imports Command_Run
begin

text \<open>
  From a message to its replies: who may run what (bot/domain/services/dev_list.py,
  bot/application/command_gate.py), when the language model is asked
  (bot/application/agent_routing.py), and the handler that puts routing, batch, look-up, gate
  and runs together (bot/application/command_handler.py).  The services behind them are the
  fields of \<open>env\<close>: the Mongo query of the developers, the \<open>load\<close> of the configuration
  store, the agent and the logger.
\<close>

record 'w env =
  ev_find_any :: "pystr list \<Rightarrow> (exn, 'w, bool) act"   \<comment> \<open>is one of the keys in the collection?\<close>
  ev_load :: "pystr \<Rightarrow> pystr \<Rightarrow> (exn, 'w, chat_config) act"
  ev_agent :: "command_data \<Rightarrow> (exn, 'w, command_data option) act"
  ev_emit :: "completed \<Rightarrow> 'w \<Rightarrow> 'w"
  ev_bot_jids :: "pystr list"

subsection \<open>Developers\<close>

definition JID_SUFFIXES :: "pystr list" where
  "JID_SUFFIXES = [U ''@lid'', U ''@s.whatsapp.net'']"

definition NAMESPACED_PREFIXES :: "pystr list" where
  "NAMESPACED_PREFIXES = [U ''discord:'', U ''telegram:'']"

definition dev_candidates :: "pystr \<Rightarrow> pystr list" where
  "dev_candidates jid =
     (if list_ex (startswith jid) NAMESPACED_PREFIXES then [jid]
      else map (\<lambda>s. strip_jid jid @ s) JID_SUFFIXES)"

definition is_dev :: "'w env \<Rightarrow> pystr \<Rightarrow> (exn, 'w, bool) act" where
  "is_dev ev jid = ev_find_any ev (dev_candidates jid)"

subsection \<open>The gate\<close>

datatype rejection = REJECT_DISABLED | DEV_ONLY | OFF_HERE

fun gate_message :: "rejection \<Rightarrow> pystr" where
  "gate_message REJECT_DISABLED = U ''Esse comando est{225} desativado. {128683}''"
| "gate_message DEV_ONLY = U ''Esse comando {233} apenas para desenvolvedores. {128736}{65039}''"
| "gate_message OFF_HERE = U ''Esse comando est{225} desativado neste chat. {128683}''"

definition dev_key :: "command_data \<Rightarrow> pystr" where
  "dev_key d =
     (case cd_platform d of
        Some DISCORD \<Rightarrow> U ''discord:'' @ cd_sender_jid d
      | Some TELEGRAM \<Rightarrow> U ''telegram:'' @ cd_sender_jid d
      | _ \<Rightarrow> cd_sender_jid d)"

definition gate_is_dev :: "'w env \<Rightarrow> 'w command \<Rightarrow> command_data \<Rightarrow> nat \<Rightarrow> (exn, 'w, bool) act" where
  "gate_is_dev ev c d n =
     (if cc_scope (cmd_config c) \<noteq> DEV \<and> n = 1 then ret False else is_dev ev (dev_key d))"

definition gate_reason ::
  "'w env \<Rightarrow> 'w command \<Rightarrow> command_data \<Rightarrow> bool \<Rightarrow> (exn, 'w, rejection option) act" where
  "gate_reason ev c d dev =
     (if cc_scope (cmd_config c) = DISABLED then ret (Some REJECT_DISABLED)
      else if cc_scope (cmd_config c) = DEV \<and> \<not> dev then ret (Some DEV_ONLY)
      else bindA (is_enabled (ev_load ev) d (cmd_config c))
             (\<lambda>on. ret (if on then None else Some OFF_HERE)))"

definition admit ::
  "'w env \<Rightarrow> 'w command \<Rightarrow> command_data \<Rightarrow> nat \<Rightarrow> (exn, 'w, bot_message list option \<times> nat) act" where
  "admit ev c d n =
     bindA (gate_is_dev ev c d n)
       (\<lambda>dev. bindA (gate_reason ev c d dev)
         (\<lambda>reason. ret (case reason of
            Some r \<Rightarrow> (Some [reply_text d (gate_message r)], n)
          | None \<Rightarrow> (None, if 1 < n \<and> \<not> dev then 1 else n))))"

definition rejection_text ::
  "'w env \<Rightarrow> 'w command \<Rightarrow> command_data \<Rightarrow> (exn, 'w, pystr option) act" where
  "rejection_text ev c d =
     bindA (gate_is_dev ev c d 1)
       (\<lambda>dev. bindA (gate_reason ev c d dev) (\<lambda>reason. ret (map_option gate_message reason)))"

subsection \<open>Routing to the agent\<close>

definition BOT_MENTION_TAG :: pystr where
  "BOT_MENTION_TAG = U ''@resenhazord''"

definition send_me_re :: rx where
  "send_me_re =
     rseq [WordB,
           ralt [lit (U ''mande''),
                 rseq [lit (U ''me''), Plus (Cls CSpace), lit (U ''manda'')],
                 rseq [lit (U ''me''), Plus (Cls CSpace), lit (U ''envie'')],
                 lit (U ''envie'')],
           Plus (Cls CSpace),
           ralt [Seq (Chr 117) (Opt (Chr 109)), lit (U ''uma'')],
           WordB]"

definition bot_numeric :: "pystr list \<Rightarrow> pystr list" where
  "bot_numeric jids = map (before 64) (filter (\<lambda>j. j \<noteq> []) jids)"

definition is_explicit_mention :: "'w env \<Rightarrow> command_data \<Rightarrow> bool" where
  "is_explicit_mention ev d \<longleftrightarrow>
     list_ex (\<lambda>m. before 64 m \<in> set (bot_numeric (ev_bot_jids ev))) (cd_mentioned_jids d) \<or>
     contains BOT_MENTION_TAG (lower (cd_text d)) \<or>
     search True send_me_re (lower (cd_text d)) \<noteq> None"

definition should_route :: "'w env \<Rightarrow> 'w registry \<Rightarrow> command_data \<Rightarrow> bool" where
  "should_route ev r d =
     (if is_explicit_mention ev d then True
      else if cd_is_group d \<and> \<not> startswith (lstrip_by is_space (cd_text d)) COMMAND_PREFIX then False
      else get_strategy r (cd_text d) = None)"

text \<open>The subclasses of \<open>ValueError\<close> in the standard library.\<close>

definition value_errors :: "pystr list" where
  "value_errors = [U ''ValueError'', U ''JSONDecodeError'', U ''UnicodeError'',
     U ''UnicodeDecodeError'', U ''UnicodeEncodeError'']"

definition is_value_error :: "exn \<Rightarrow> bool" where
  "is_value_error e = (case e of OtherExn n \<Rightarrow> n \<in> set value_errors | Raised _ _ \<Rightarrow> False)"

definition agent_map :: "'w env \<Rightarrow> command_data \<Rightarrow> (exn, 'w, command_data option) act" where
  "agent_map ev d =
     handleA (ev_agent ev d)
       (\<lambda>e. if is_value_error e
            then ret (Some (d\<lparr>cd_text := CLARIFY_PREFIX @ U ''Erro inesperado. '' @ AGENT_MENU_HINT\<rparr>))
            else raise e)"

subsection \<open>The handler\<close>

fun run_repeat ::
  "'w env \<Rightarrow> 'w command \<Rightarrow> command_data \<Rightarrow> nat \<Rightarrow> bot_message list \<Rightarrow> (exn, 'w, bot_message list) act" where
  "run_repeat ev c d 0 msgs = ret msgs"
| "run_repeat ev c d (Suc n) msgs =
     bindA (run_command (ev_emit ev) c d) (\<lambda>ms. run_repeat ev c d n (msgs @ ms))"

type_synonym 'w on_match = "('w command \<Rightarrow> (exn, 'w, unit) act) option"

definition dispatch ::
  "'w env \<Rightarrow> 'w on_match \<Rightarrow> 'w command \<Rightarrow> command_data \<Rightarrow> nat \<Rightarrow> (exn, 'w, bot_message list) act" where
  "dispatch ev on_match c d n =
     bindA (admit ev c d n)
       (\<lambda>(rejection, n). case rejection of
          Some ms \<Rightarrow> ret ms
        | None \<Rightarrow>
            bindA (case on_match of None \<Rightarrow> ret () | Some f \<Rightarrow> f c)
              (\<lambda>_. run_repeat ev c d n []))"

definition handle_mapped ::
  "'w env \<Rightarrow> 'w registry \<Rightarrow> 'w on_match \<Rightarrow> command_data \<Rightarrow> (exn, 'w, bot_message list option) act" where
  "handle_mapped ev r on_match d =
     (case split_batch d of
        Inl e \<Rightarrow> raise e
      | Inr (n, d) \<Rightarrow>
          (case builtin_reply d of
             Some ms \<Rightarrow> ret (Some ms)
           | None \<Rightarrow>
               (case get_strategy r (cd_text d) of
                  None \<Rightarrow> ret None
                | Some c \<Rightarrow> bindA (dispatch ev on_match c d n) (\<lambda>ms. ret (Some ms)))))"

definition handle ::
  "'w env \<Rightarrow> 'w registry \<Rightarrow> 'w on_match \<Rightarrow> command_data \<Rightarrow> (exn, 'w, bot_message list option) act" where
  "handle ev r on_match d =
     (if should_route ev r d
      then bindA (agent_map ev d)
             (\<lambda>mapped. case mapped of None \<Rightarrow> ret None | Some d' \<Rightarrow> handle_mapped ev r on_match d')
      else handle_mapped ev r on_match d)"

subsection \<open>How often a command runs\<close>

text \<open>
  A count of the runs of a world: only the report of a run adds to it, one each.  The
  services, the hook and the bodies of the commands leave it as it is.
\<close>

definition counts_runs ::
  "('w \<Rightarrow> nat) \<Rightarrow> 'w env \<Rightarrow> 'w registry \<Rightarrow> 'w on_match \<Rightarrow> bool" where
  "counts_runs runs ev r on_match \<longleftrightarrow>
     (\<forall>ks w. runs (snd (ev_find_any ev ks w)) = runs w) \<and>
     (\<forall>p i w. runs (snd (ev_load ev p i w)) = runs w) \<and>
     (\<forall>d w. runs (snd (ev_agent ev d w)) = runs w) \<and>
     (\<forall>x w. runs (ev_emit ev x w) = Suc (runs w)) \<and>
     (\<forall>f c w. on_match = Some f \<longrightarrow> runs (snd (f c w)) = runs w) \<and>
     (\<forall>c \<in> set (get_all r). \<forall>d p w. runs (snd (cmd_execute c d p w)) = runs w)"

definition adds :: "('w \<Rightarrow> nat) \<Rightarrow> nat \<Rightarrow> ('e, 'w, 'a) act \<Rightarrow> bool" where
  "adds runs n m \<longleftrightarrow> (\<forall>w. runs w \<le> runs (snd (m w)) \<and> runs (snd (m w)) \<le> runs w + n)"

lemma adds_ret [simp]: "adds runs n (ret a)" and adds_raise [simp]: "adds runs n (raise e)"
  by (simp_all add: adds_def)

lemma adds_Pair [simp]: "adds runs n (Pair x)"
  by (simp add: adds_def)

lemma adds_mono: "adds runs n m \<Longrightarrow> n \<le> k \<Longrightarrow> adds runs k m"
  unfolding adds_def by (meson add_left_mono le_trans)

lemma adds_bindA:
  assumes "adds runs n m" and "\<And>w a w'. m w = (Inr a, w') \<Longrightarrow> adds runs k (f a)"
  shows "adds runs (n + k) (bindA m f)"
  unfolding adds_def
proof
  fix w
  from assms(1) have m: "runs w \<le> runs (snd (m w))" "runs (snd (m w)) \<le> runs w + n"
    by (auto simp: adds_def)
  show "runs w \<le> runs (snd (bindA m f w)) \<and> runs (snd (bindA m f w)) \<le> runs w + (n + k)"
  proof (rule bindA_cases [of m w f])
    fix e w' assume "m w = (Inl e, w')" "bindA m f w = (Inl e, w')"
    with m show ?thesis by simp
  next
    fix a w' assume r: "m w = (Inr a, w')" "bindA m f w = f a w'"
    with assms(2) have "runs w' \<le> runs (snd (f a w'))" "runs (snd (f a w')) \<le> runs w' + k"
      by (auto simp: adds_def)
    with m r show ?thesis by simp
  qed
qed

lemma adds_bindA0:
  "adds runs 0 m \<Longrightarrow> (\<And>w a w'. m w = (Inr a, w') \<Longrightarrow> adds runs k (f a)) \<Longrightarrow> adds runs k (bindA m f)"
  using adds_bindA [of runs 0 m k f] by simp

lemma adds_handleA:
  "adds runs 0 m \<Longrightarrow> (\<And>e. adds runs 0 (h e)) \<Longrightarrow> adds runs 0 (handleA m h)"
  unfolding adds_def handleA_def by (auto split: prod.splits sum.splits) (metis snd_conv le_antisym)+

lemma adds_services:
  assumes "counts_runs runs ev r on_match"
  shows "adds runs 0 (is_dev ev j)" "adds runs 0 (is_enabled (ev_load ev) d cfg)"
    "adds runs 0 (ev_agent ev d)" "adds runs 0 (case on_match of None \<Rightarrow> ret () | Some f \<Rightarrow> f c)"
    "c \<in> set (get_all r) \<Longrightarrow> adds runs 0 (cmd_execute c d p)"
  using assms
  by (auto simp: counts_runs_def is_dev_def adds_def is_enabled_def bindA_def
      split: prod.splits sum.splits option.splits)
     (metis snd_conv le_refl)+

lemma adds_gate:
  assumes "counts_runs runs ev r on_match"
  shows "adds runs 0 (gate_is_dev ev c d n)" "adds runs 0 (gate_reason ev c d dev)"
    "adds runs 0 (admit ev c d n)"
  unfolding gate_is_dev_def gate_reason_def admit_def
  by (auto intro!: adds_bindA0 adds_services [OF assms])

lemma adds_run_body:
  assumes "counts_runs runs ev r on_match" and "c \<in> set (get_all r)"
  shows "adds runs 0 (run_body c d)"
  unfolding run_body_def Let_def using assms
  by (auto intro!: adds_bindA0 adds_services [OF assms(1)])

lemma adds_run_command:
  assumes "counts_runs runs ev r on_match" and "c \<in> set (get_all r)"
  shows "adds runs 1 (run_command (ev_emit ev) c d)"
proof -
  have emit: "runs (ev_emit ev x w) = Suc (runs w)" for x w
    using assms(1) by (simp add: counts_runs_def)
  have body: "runs (snd (run_body c d w)) = runs w" for w
    using adds_run_body [OF assms, of d] by (auto simp: adds_def intro: le_antisym)
  show ?thesis
    unfolding adds_def
  proof
    fix w
    obtain x w1 where x: "run_body c d w = (x, w1)" by (cases "run_body c d w")
    with body [of w] have "runs w1 = runs w" by simp
    with x show "runs w \<le> runs (snd (run_command (ev_emit ev) c d w)) \<and>
        runs (snd (run_command (ev_emit ev) c d w)) \<le> runs w + 1"
      by (simp add: run_command_def emit)
  qed
qed

lemma adds_run_repeat:
  assumes "counts_runs runs ev r on_match" and "c \<in> set (get_all r)"
  shows "adds runs n (run_repeat ev c d n msgs)"
proof (induction n arbitrary: msgs)
  case (Suc n)
  have "adds runs (1 + n) (run_repeat ev c d (Suc n) msgs)"
    unfolding run_repeat.simps by (rule adds_bindA [OF adds_run_command [OF assms] Suc.IH])
  then show ?case by simp
qed simp

lemma admit_count:
  "admit ev c d n w = (Inr (None, k), w') \<Longrightarrow> k = n \<or> k = 1 \<and> 1 < n"
  unfolding admit_def
  by (rule bindA_cases [of "gate_is_dev ev c d n" w])
     (auto simp: bindA_def split: prod.splits sum.splits option.splits if_splits)

lemma admit_not_dev:
  assumes "\<And>ks w. fst (ev_find_any ev ks w) \<noteq> Inr True" and "1 \<le> n"
    and "admit ev c d n w = (Inr (None, k), w')"
  shows "k = 1"
proof -
  have "fst (gate_is_dev ev c d n w) \<noteq> Inr True"
    using assms(1) by (simp add: gate_is_dev_def is_dev_def)
  then show ?thesis using assms(2,3)
    by (auto simp: admit_def bindA_def split: prod.splits sum.splits option.splits if_splits)
qed

lemma adds_dispatch:
  assumes "counts_runs runs ev r on_match" and "c \<in> set (get_all r)"
    and "\<And>w k w'. admit ev c d n w = (Inr (None, k), w') \<Longrightarrow> k \<le> m"
  shows "adds runs m (dispatch ev on_match c d n)"
  unfolding dispatch_def
proof (rule adds_bindA0 [OF adds_gate(3) [OF assms(1)]])
  fix w a w' assume a: "admit ev c d n w = (Inr a, w')"
  obtain rej k where k: "a = (rej, k)" by (cases a)
  have "adds runs m (run_repeat ev c d k [])" if "rej = None"
    using adds_run_repeat [OF assms(1,2), of k d "[]"] assms(3) a k that adds_mono by metis
  then show "adds runs m ((\<lambda>(rejection, n). case rejection of Some ms \<Rightarrow> ret ms
      | None \<Rightarrow> bindA (case on_match of None \<Rightarrow> ret () | Some f \<Rightarrow> f c) (\<lambda>_. run_repeat ev c d n [])) a)"
    using adds_services(4) [OF assms(1), of c] k by (auto intro: adds_bindA0 split: option.split)
qed

lemma split_batch_range: "split_batch d = Inr (n, d') \<Longrightarrow> 1 \<le> n \<and> n \<le> 5"
  by (auto simp: split_batch_def MAX_BATCH_def split: option.splits)

lemma strategy_mem: "registry_inv r \<Longrightarrow> get_strategy r t = Some c \<Longrightarrow> c \<in> set (get_all r)"
  using strategy_index_cases [of r t] by (auto simp: get_strategy_def get_all_def)

lemma adds_handle:
  assumes "counts_runs runs ev r on_match" and "registry_inv r"
    and "\<And>c d n w k w'. 1 \<le> n \<Longrightarrow> n \<le> 5 \<Longrightarrow> admit ev c d n w = (Inr (None, k), w') \<Longrightarrow> k \<le> m"
  shows "adds runs m (handle ev r on_match d)"
proof -
  have mapped: "adds runs m (handle_mapped ev r on_match d)" for d
    unfolding handle_mapped_def
    using split_batch_range [of d] assms strategy_mem [OF assms(2)]
    by (auto intro!: adds_bindA [where k = 0 and n = m, simplified] adds_dispatch
        split: sum.split option.split)
  have "adds runs 0 (agent_map ev d)"
    unfolding agent_map_def
    by (rule adds_handleA [OF adds_services(3) [OF assms(1)]]) simp
  then have "adds runs m (bindA (agent_map ev d)
      (\<lambda>mapped. case mapped of None \<Rightarrow> ret None | Some d' \<Rightarrow> handle_mapped ev r on_match d'))"
    by (rule adds_bindA0) (simp add: mapped split: option.split)
  with mapped show ?thesis by (simp add: handle_def)
qed

text \<open>
  C1: one message runs commands at most five times, and at most once when its sender is no
  developer, whatever number the batch suffix asks for and whatever the agent answered.
\<close>

theorem batch_is_bounded:
  assumes "counts_runs runs ev (register_all cs) on_match"
  shows "runs (snd (handle ev (register_all cs) on_match d w)) \<le> runs w + 5 \<and>
    ((\<forall>ks w. fst (ev_find_any ev ks w) \<noteq> Inr True) \<longrightarrow>
     runs (snd (handle ev (register_all cs) on_match d w)) \<le> runs w + 1)"
proof -
  have "adds runs 5 (handle ev (register_all cs) on_match d)"
    by (rule adds_handle [OF assms register_all_inv]) (auto dest: admit_count)
  moreover have "adds runs 1 (handle ev (register_all cs) on_match d)"
    if "\<forall>ks w. fst (ev_find_any ev ks w) \<noteq> Inr True"
    by (rule adds_handle [OF assms register_all_inv]) (use that admit_not_dev in fastforce)
  ultimately show ?thesis by (simp add: adds_def)
qed

definition counting_env :: "nat env" where
  "counting_env = \<lparr>ev_find_any = (\<lambda>ks. ret False), ev_load = (\<lambda>p i. ret ChatConfig),
     ev_agent = (\<lambda>d. ret None), ev_emit = (\<lambda>x w. Suc w), ev_bot_jids = []\<rparr>"

definition counting_cmd :: "nat command" where
  "counting_cmd = \<lparr>cmd_config = puppy_config, cmd_menu = [], cmd_execute = (\<lambda>d p. ret [])\<rparr>"

theorem batch_is_bounded_witness:
  "snd (handle counting_env (register_all [counting_cmd]) None (CommandData (U '',puppy 3x'') [] []) 0) \<le> 1"
proof -
  have "counts_runs id counting_env (register_all [counting_cmd]) None"
    by (simp add: counts_runs_def counting_env_def get_all_def register_all_commands counting_cmd_def)
  from batch_is_bounded [OF this, of "CommandData (U '',puppy 3x'') [] []" 0]
  show ?thesis by (simp add: counting_env_def)
qed

subsection \<open>What the gate decides\<close>

text \<open>The lookup of the developers, answered by a database that the store does not hold.\<close>

definition gate_env :: "cache_store env \<Rightarrow> bool \<Rightarrow> cache_store \<Rightarrow> bool" where
  "gate_env ev dev s \<longleftrightarrow> ev_load ev = cached_load \<and> (\<forall>ks. ev_find_any ev ks s = (Inr dev, s))"

definition gate_verdict :: "command_config \<Rightarrow> bool \<Rightarrow> chat_view \<Rightarrow> rejection option" where
  "gate_verdict cfg dev v =
     (if cc_scope cfg = DISABLED then Some REJECT_DISABLED
      else if cc_scope cfg = DEV \<and> \<not> dev then Some DEV_ONLY
      else if cc_scope cfg \<in> {PUBLIC, NSFW} \<and> \<not> decide v (cc_name cfg) (cc_scope cfg) then Some OFF_HERE
      else None)"

lemma admit_run:
  assumes "cached_inv s" and "gate_env ev dev s"
  obtains s' where "admit ev c d n s =
      (Inr (case gate_verdict (cmd_config c) dev (cached_view s (platform_key d) (cd_jid d)) of
         Some why \<Rightarrow> (Some [reply_text d (gate_message why)], n)
       | None \<Rightarrow> (None, if 1 < n \<and> \<not> dev then 1 else n)), s')"
    "cached_inv s'" "\<And>p i. cached_view s' p i = cached_view s p i"
proof -
  let ?cfg = "cmd_config c"
  let ?dv = "if cc_scope ?cfg \<noteq> DEV \<and> n = 1 then False else dev"
  have dev: "gate_is_dev ev c d n s = (Inr ?dv, s)"
    using assms(2) by (simp add: gate_is_dev_def is_dev_def gate_env_def)
  obtain s' where en: "is_enabled cached_load d ?cfg s =
      (Inr (cc_scope ?cfg \<in> TOGGLABLE_SCOPES \<longrightarrow>
         decide (cached_view s (platform_key d) (cd_jid d)) (cc_name ?cfg) (cc_scope ?cfg)), s')"
    "cached_inv s'" "\<And>p i. cached_view s' p i = cached_view s p i"
    by (rule cached.is_enabled_run [OF assms(1), of d ?cfg]) blast
  let ?s = "if cc_scope ?cfg = DISABLED \<or> cc_scope ?cfg = DEV \<and> \<not> ?dv then s else s'"
  have reason: "gate_reason ev c d ?dv s =
      (Inr (gate_verdict ?cfg dev (cached_view s (platform_key d) (cd_jid d))), ?s)"
    using assms(2) en(1)
    by (auto simp: gate_reason_def gate_verdict_def gate_env_def bindA_def TOGGLABLE_SCOPES_def)
  have "admit ev c d n s =
      (Inr (case gate_verdict ?cfg dev (cached_view s (platform_key d) (cd_jid d)) of
         Some why \<Rightarrow> (Some [reply_text d (gate_message why)], n)
       | None \<Rightarrow> (None, if 1 < n \<and> \<not> ?dv then 1 else n)), ?s)"
    unfolding admit_def bindA_Inr [where m = "gate_is_dev ev c d n", OF dev]
      bindA_Inr [where m = "gate_reason ev c d ?dv", OF reason]
    by (simp only: ret_apply)
  moreover have "(if 1 < n \<and> \<not> ?dv then 1 else n) = (if 1 < n \<and> \<not> dev then 1 else n)" by auto
  ultimately have "admit ev c d n s =
      (Inr (case gate_verdict ?cfg dev (cached_view s (platform_key d) (cd_jid d)) of
         Some why \<Rightarrow> (Some [reply_text d (gate_message why)], n)
       | None \<Rightarrow> (None, if 1 < n \<and> \<not> dev then 1 else n)), ?s)" by (simp only:)
  then show ?thesis
    by (rule that) (use en(2,3) assms(1) in simp_all)
qed

text \<open>
  The decision of the gate, and the order of its reasons.  A disabled command is refused to
  everyone, a developers' command to everyone else, and a switchable command where the chat's
  configuration has it off; nothing else is refused, and only a developer keeps a batch.
\<close>

theorem gate_decides:
  assumes "cached_inv s" and "gate_env ev dev s"
  shows "fst (admit ev c d n s) =
    Inr (case gate_verdict (cmd_config c) dev (cached_view s (platform_key d) (cd_jid d)) of
           Some why \<Rightarrow> (Some [reply_text d (gate_message why)], n)
         | None \<Rightarrow> (None, if 1 < n \<and> \<not> dev then 1 else n))"
  by (rule admit_run [OF assms, of c d n]) simp

text \<open>
  C2: a refused command has no effect.  Whatever the body of the command and the hook would do,
  the reply is the gate's message alone and every chat keeps its configuration.
\<close>

theorem rejected_never_runs:
  assumes "cached_inv s" and "gate_env ev dev s"
    and "gate_verdict (cmd_config c) dev (cached_view s (platform_key d) (cd_jid d)) = Some why"
  shows "\<exists>s'. dispatch ev on_match c d n s = (Inr [reply_text d (gate_message why)], s') \<and>
    (\<forall>p i. cached_view s' p i = cached_view s p i)"
  by (rule admit_run [OF assms(1,2), of c d n])
     (auto simp: dispatch_def bindA_def assms(3))

definition store_env :: "cache_store env" where
  "store_env = \<lparr>ev_find_any = (\<lambda>ks. ret False), ev_load = cached_load, ev_agent = (\<lambda>d. ret None),
     ev_emit = (\<lambda>x w. w), ev_bot_jids = []\<rparr>"

definition eraser_cmd :: "cache_store command" where
  "eraser_cmd = \<lparr>cmd_config = (CommandConfig (U ''hentai''))\<lparr>cc_scope := NSFW\<rparr>, cmd_menu = [],
     cmd_execute = (\<lambda>d p s. (Inr [], cached_set_policy (editor_key d) CURATED s))\<rparr>"

lemma store_env_gate: "gate_env store_env False s"
  by (simp add: gate_env_def store_env_def)

lemma eraser_verdict:
  "gate_verdict (cmd_config eraser_cmd) False (cached_view empty_cache_store p i) = Some OFF_HERE"
  by (simp add: eraser_cmd_def gate_verdict_def cached_view_def cached_load_def cached_lookup_def
      sql_load_def find_chat_def empty_cache_store_def empty_db_def ChatConfig_def view_of_def
      dict_get_def decide_def)

theorem gate_decides_witness:
  "fst (admit store_env eraser_cmd example_chat 2 empty_cache_store) =
     Inr (Some [reply_text example_chat (gate_message OFF_HERE)], 2)"
  by (simp add: gate_decides [OF cached_inv_empty store_env_gate] eraser_verdict
      del: gate_message.simps)

theorem rejected_never_runs_witness:
  "\<exists>s'. dispatch store_env None eraser_cmd example_chat 1 empty_cache_store =
      (Inr [reply_text example_chat (gate_message OFF_HERE)], s') \<and>
    (\<forall>p i. cached_view s' p i = cached_view empty_cache_store p i)"
  by (rule rejected_never_runs [OF cached_inv_empty store_env_gate eraser_verdict])

end
