(* ===== verification/Delivery.thy ===== *)
theory Delivery
  imports Handler
begin

text \<open>
  A command from the broker to its reply (bot/adapters/broker, scripts/replay_dlq.py): the
  claim and the inbox that keep a message from being answered twice, the retries, the lane of
  the exclusive commands, and the reply envelope.  First the handling of one delivery, as an
  action on the world; then the consumer as interleaved steps of many deliveries, since every
  \<open>await\<close> lets the others run.
\<close>

subsection \<open>Envelopes\<close>

text \<open>
  The payload is the command data that \<open>CommandEnvelope.to_command_data\<close> builds, with the
  chat and the message identifier that the keys below read.
\<close>

record envelope =
  en_id :: pystr
  en_data :: command_data
  en_attempts :: nat
  en_replayed :: bool

text \<open>\<open>_key\<close>: message identifiers are unique only within a chat; an empty one is none.\<close>

definition envelope_key :: "envelope \<Rightarrow> pystr option" where
  "envelope_key env =
     (if truthy_str (cd_message_id (en_data env))
      then Some (cd_jid (en_data env) @ U '':'' @ the (cd_message_id (en_data env))) else None)"

definition claim_key :: "envelope \<Rightarrow> pystr option" where
  "claim_key env = (if en_replayed env then None else envelope_key env)"

text \<open>\<open>DlqReplayer.replay\<close> sends every dead letter back like this.\<close>

definition replay_envelope :: "envelope \<Rightarrow> envelope" where
  "replay_envelope env = env\<lparr>en_attempts := 0, en_replayed := True\<rparr>"

subsection \<open>The reply envelope\<close>

definition b64_alphabet :: pystr where
  "b64_alphabet = [65..<91] @ [97..<123] @ [48..<58] @ [43, 47]"

fun b64encode :: "bytes \<Rightarrow> pystr" where
  "b64encode [] = []"
| "b64encode [a] = map (\<lambda>i. b64_alphabet ! i) [a div 4, a mod 4 * 16] @ [61, 61]"
| "b64encode [a, b] =
     map (\<lambda>i. b64_alphabet ! i) [a div 4, a mod 4 * 16 + b div 16, b mod 16 * 4] @ [61]"
| "b64encode (a # b # c # bs) =
     map (\<lambda>i. b64_alphabet ! i)
       [a div 4, a mod 4 * 16 + b div 16, b mod 16 * 4 + c div 64, c mod 64] @ b64encode bs"

definition serialize :: "bot_message \<Rightarrow> (pystr \<times> json) list" where
  "serialize m =
     (case content_buffer (bm_content m) of
        None \<Rightarrow> message_to_dict m
      | Some b \<Rightarrow>
          AList.update (U ''content'')
            (JObj (AList.update (U ''buffer_b64'') (JStr (b64encode b)) (content_to_dict (bm_content m))))
            (message_to_dict m))"

definition reply_envelope :: "pystr \<Rightarrow> bot_message list \<Rightarrow> json" where
  "reply_envelope i ms =
     JObj [(U ''id'', JStr i), (U ''messages'', JArr (map (\<lambda>m. JObj (serialize m)) ms))]"

subsection \<open>Retries\<close>

definition MAX_ATTEMPTS :: nat where "MAX_ATTEMPTS = 3"
definition DOWNLOAD_MAX_ATTEMPTS :: nat where "DOWNLOAD_MAX_ATTEMPTS = 1"

definition max_attempts :: "exn \<Rightarrow> nat" where
  "max_attempts e = (if isinstance e DownloadError then DOWNLOAD_MAX_ATTEMPTS else MAX_ATTEMPTS)"

text \<open>\<open>Some\<close> is the envelope parked for a retry, \<open>None\<close> the dead letter.\<close>

definition route_retry :: "envelope \<Rightarrow> exn \<Rightarrow> envelope option" where
  "route_retry env e =
     (let attempts = en_attempts env + 1
      in if attempts < max_attempts e then Some (env\<lparr>en_attempts := attempts\<rparr>) else None)"

definition unexpected_error_message :: pystr where
  "unexpected_error_message = U ''Ocorreu um erro ao executar o comando.''"

text \<open>What follows the handler, by its result: the \<open>except\<close> clauses of \<open>_answer\<close>.\<close>

datatype verdict =
    REPLY "bot_message list"                  \<comment> \<open>publish the reply\<close>
  | RETRY envelope                            \<comment> \<open>park the envelope\<close>
  | DEAD_LETTER "bot_message list"            \<comment> \<open>dead-letter it, then publish the reply\<close>
  | ESCAPES                                   \<comment> \<open>no clause catches it\<close>

definition verdict_of :: "envelope \<Rightarrow> exn + bot_message list option \<Rightarrow> verdict" where
  "verdict_of env r =
     (case r of
        Inr ms \<Rightarrow> REPLY (case ms of None \<Rightarrow> [] | Some ms \<Rightarrow> ms)
      | Inl e \<Rightarrow>
          if isinstance e ExternalServiceError then
            (case route_retry env e of
               Some env' \<Rightarrow> RETRY env'
             | None \<Rightarrow> DEAD_LETTER [reply_text (en_data env) (user_message e)])
          else if isinstance e BotError then REPLY [reply_text (en_data env) (user_message e)]
          else if is_exception e then REPLY [reply_text (en_data env) unexpected_error_message]
          else ESCAPES)"

subsection \<open>One delivery\<close>

text \<open>
  The ports of the consumer: the three queues, and the inbox when one is configured.  The
  methods of the inbox catch the errors of Redis, so they answer in every case: \<open>is_done\<close>
  answers no when Redis is away.
\<close>

record 'w ports =
  po_publish_reply :: "json \<Rightarrow> (exn, 'w, unit) act"
  po_publish_retry :: "envelope \<Rightarrow> (exn, 'w, unit) act"
  po_publish_dlq :: "envelope \<Rightarrow> (exn, 'w, unit) act"
  po_inbox :: "((pystr \<Rightarrow> (exn, 'w, bool) act) \<times> (pystr \<Rightarrow> (exn, 'w, unit) act)) option"

definition already_answered :: "'w ports \<Rightarrow> envelope \<Rightarrow> (exn, 'w, bool) act" where
  "already_answered po env =
     (case (po_inbox po, envelope_key env) of
        (Some (is_done, _), Some key) \<Rightarrow> if en_replayed env then ret False else is_done key
      | _ \<Rightarrow> ret False)"

definition mark_answered :: "'w ports \<Rightarrow> envelope \<Rightarrow> (exn, 'w, unit) act" where
  "mark_answered po env =
     (case (po_inbox po, envelope_key env) of
        (Some (_, mark_done), Some key) \<Rightarrow> mark_done key
      | _ \<Rightarrow> ret ())"

definition publish_reply :: "'w ports \<Rightarrow> envelope \<Rightarrow> bot_message list \<Rightarrow> (exn, 'w, unit) act" where
  "publish_reply po env ms =
     bindA (po_publish_reply po (reply_envelope (en_id env) ms)) (\<lambda>_. mark_answered po env)"

definition answer ::
  "'w ports \<Rightarrow> (command_data \<Rightarrow> (exn, 'w, bot_message list option) act) \<Rightarrow> envelope \<Rightarrow> (exn, 'w, unit) act"
where
  "answer po handler env =
     bindA (already_answered po env)
       (\<lambda>done. if done then ret ()
         else (\<lambda>w. let (r, w') = handler (en_data env) w in
           (case verdict_of env r of
              REPLY ms \<Rightarrow> publish_reply po env ms w'
            | RETRY env' \<Rightarrow> po_publish_retry po env' w'
            | DEAD_LETTER ms \<Rightarrow> bindA (po_publish_dlq po env) (\<lambda>_. publish_reply po env ms) w'
            | ESCAPES \<Rightarrow> (map_sum id (\<lambda>_. ()) r, w'))))"

text \<open>
  \<open>_process\<close>: the claim around it.  \<open>running\<close> is the set of the claims of the process; a
  duplicate of a running command is dropped.
\<close>

definition process ::
  "'w ports \<Rightarrow> (command_data \<Rightarrow> (exn, 'w, bot_message list option) act) \<Rightarrow> pystr set \<Rightarrow> envelope \<Rightarrow>
   (exn, 'w, bool) act" where
  "process po handler running env =
     (if (\<exists>k \<in> running. claim_key env = Some k) then ret False
      else bindA (answer po handler env) (\<lambda>_. ret True))"

subsection \<open>The ladder of one message\<close>

lemma verdict_RETRY:
  "verdict_of env r = RETRY env' \<Longrightarrow>
   env' = env\<lparr>en_attempts := Suc (en_attempts env)\<rparr> \<and> Suc (en_attempts env) < 3 \<and>
   (\<exists>m. r = Inl (Raised ExternalServiceError m))"
  by (auto simp: verdict_of_def route_retry_def Let_def max_attempts_def MAX_ATTEMPTS_def
      DOWNLOAD_MAX_ATTEMPTS_def subclass_External subclass_Download
      split: sum.splits if_splits option.splits) (cases "projl r"; auto simp: subclass_External)+

text \<open>
  A broker whose publishes arrive and an inbox that works: the replies, the retry queue, the dead
  letters, the marks of the inbox, and the world of the handler, which touches none of them.
\<close>

record 'h broker_world =
  bw_replies :: "json list"
  bw_retry :: "envelope list"
  bw_dlq :: "envelope list"
  bw_done :: "pystr set"
  bw_host :: 'h

definition broker_ports :: "'h broker_world ports" where
  "broker_ports = \<lparr>
     po_publish_reply = (\<lambda>j w. (Inr (), w\<lparr>bw_replies := bw_replies w @ [j]\<rparr>)),
     po_publish_retry = (\<lambda>env w. (Inr (), w\<lparr>bw_retry := bw_retry w @ [env]\<rparr>)),
     po_publish_dlq = (\<lambda>env w. (Inr (), w\<lparr>bw_dlq := bw_dlq w @ [env]\<rparr>)),
     po_inbox = Some (\<lambda>k w. (Inr (k \<in> bw_done w), w), \<lambda>k w. (Inr (), w\<lparr>bw_done := insert k (bw_done w)\<rparr>))\<rparr>"

definition on_host :: "(exn, 'h, 'a) act \<Rightarrow> (exn, 'h broker_world, 'a) act" where
  "on_host m w = (let (r, h) = m (bw_host w) in (r, w\<lparr>bw_host := h\<rparr>))"

text \<open>
  The consumer takes a message, and takes what the retry queue gives back when its delay is over,
  until nothing is left or the fuel is.
\<close>

definition consume_one ::
  "(command_data \<Rightarrow> (exn, 'h, bot_message list option) act) \<Rightarrow> envelope \<Rightarrow> 'h broker_world \<Rightarrow> 'h broker_world" where
  "consume_one handler env w = snd (process broker_ports (\<lambda>d. on_host (handler d)) {} env w)"

fun consume_retries ::
  "nat \<Rightarrow> (command_data \<Rightarrow> (exn, 'h, bot_message list option) act) \<Rightarrow> 'h broker_world \<Rightarrow> 'h broker_world" where
  "consume_retries 0 handler w = w"
| "consume_retries (Suc n) handler w =
     (case bw_retry w of
        [] \<Rightarrow> w
      | env # rest \<Rightarrow> consume_retries n handler (consume_one handler env (w\<lparr>bw_retry := rest\<rparr>)))"

text \<open>The results of running the handler \<open>n\<close> times on the same data, and its world after them.\<close>

fun handler_runs :: "('d \<Rightarrow> (exn, 'h, 'a) act) \<Rightarrow> 'd \<Rightarrow> nat \<Rightarrow> 'h \<Rightarrow> (exn + 'a) list \<times> 'h" where
  "handler_runs handler d 0 h = ([], h)"
| "handler_runs handler d (Suc n) h =
     (let (r, h1) = handler d h; (rs, h2) = handler_runs handler d n h1 in (r # rs, h2))"

definition external :: "exn + 'a \<Rightarrow> bool" where
  "external r \<longleftrightarrow> (case r of Inl e \<Rightarrow> isinstance e ExternalServiceError | Inr _ \<Rightarrow> False)"

definition failed_download :: "exn + 'a \<Rightarrow> bool" where
  "failed_download r \<longleftrightarrow> (case r of Inl e \<Rightarrow> isinstance e DownloadError | Inr _ \<Rightarrow> False)"

text \<open>What the user is told: the messages of the command, the message of the error, or the general one.\<close>

definition final_messages :: "command_data \<Rightarrow> exn + bot_message list option \<Rightarrow> bot_message list" where
  "final_messages d r =
     (case r of
        Inr ms \<Rightarrow> (case ms of None \<Rightarrow> [] | Some l \<Rightarrow> l)
      | Inl e \<Rightarrow> [reply_text d (if isinstance e BotError then user_message e else unexpected_error_message)])"

definition after_reply :: "envelope \<Rightarrow> exn + bot_message list option \<Rightarrow> 'h broker_world \<Rightarrow> 'h broker_world" where
  "after_reply env r w =
     w\<lparr>bw_replies := bw_replies w @ [reply_envelope (en_id env) (final_messages (en_data env) r)],
       bw_dlq := bw_dlq w @ (if external r then [env] else []),
       bw_done := bw_done w \<union> set_option (envelope_key env)\<rparr>"

lemma broker_ports_simps [simp]:
  "po_publish_reply broker_ports j w = (Inr (), w\<lparr>bw_replies := bw_replies w @ [j]\<rparr>)"
  "po_publish_retry broker_ports env w = (Inr (), w\<lparr>bw_retry := bw_retry w @ [env]\<rparr>)"
  "po_publish_dlq broker_ports env w = (Inr (), w\<lparr>bw_dlq := bw_dlq w @ [env]\<rparr>)"
  "po_inbox broker_ports = Some (\<lambda>k w. (Inr (k \<in> bw_done w), w), \<lambda>k w. (Inr (), w\<lparr>bw_done := insert k (bw_done w)\<rparr>))"
  by (simp_all add: broker_ports_def)

lemma mark_answered_broker:
  "mark_answered broker_ports env w = (Inr (), w\<lparr>bw_done := bw_done w \<union> set_option (envelope_key env)\<rparr>)"
  by (cases "envelope_key env") (simp_all add: mark_answered_def)

lemma publish_reply_broker:
  "publish_reply broker_ports env ms w =
     (Inr (), w\<lparr>bw_replies := bw_replies w @ [reply_envelope (en_id env) ms],
        bw_done := bw_done w \<union> set_option (envelope_key env)\<rparr>)"
  by (simp add: publish_reply_def bindA_def mark_answered_broker)

lemma answer_broker:
  assumes "envelope_key env = None \<or> the (envelope_key env) \<notin> bw_done w" and "handler (en_data env) (bw_host w) = (r, h)"
  shows "answer broker_ports (\<lambda>d. on_host (handler d)) env w =
    (case verdict_of env r of
       REPLY ms \<Rightarrow> publish_reply broker_ports env ms (w\<lparr>bw_host := h\<rparr>)
     | RETRY env' \<Rightarrow> po_publish_retry broker_ports env' (w\<lparr>bw_host := h\<rparr>)
     | DEAD_LETTER ms \<Rightarrow> bindA (po_publish_dlq broker_ports env) (\<lambda>_. publish_reply broker_ports env ms) (w\<lparr>bw_host := h\<rparr>)
     | ESCAPES \<Rightarrow> (map_sum id (\<lambda>_. ()) r, w\<lparr>bw_host := h\<rparr>))"
proof -
  have "already_answered broker_ports env w = (Inr False, w)"
    using assms(1) by (cases "envelope_key env") (simp_all add: already_answered_def)
  with assms(2) show ?thesis by (simp add: answer_def bindA_def on_host_def)
qed

text \<open>One delivery: the envelope waits for a retry, or the message has its reply.\<close>

lemma consume_one_step:
  assumes "envelope_key env = None \<or> the (envelope_key env) \<notin> bw_done w" and "handler (en_data env) (bw_host w) = (r, h)"
    and "\<And>e. r = Inl e \<Longrightarrow> is_exception e"
  shows "consume_one handler env w =
    (if external r \<and> \<not> failed_download r \<and> Suc (en_attempts env) < 3
     then w\<lparr>bw_host := h, bw_retry := bw_retry w @ [env\<lparr>en_attempts := Suc (en_attempts env)\<rparr>]\<rparr>
     else after_reply env r (w\<lparr>bw_host := h\<rparr>))"
proof -
  have "consume_one handler env w = snd (answer broker_ports (\<lambda>d. on_host (handler d)) env w)"
    by (simp add: consume_one_def process_def bindA_def split: prod.splits sum.splits)
  note this [unfolded answer_broker [of env w handler r h, OF assms(1,2)]]
  moreover have "verdict_of env r =
      (if external r then
         (if \<not> failed_download r \<and> Suc (en_attempts env) < 3 then RETRY (env\<lparr>en_attempts := Suc (en_attempts env)\<rparr>)
          else DEAD_LETTER (final_messages (en_data env) r))
       else REPLY (final_messages (en_data env) r))"
  proof (cases r)
    case (Inr ms)
    then show ?thesis by (simp add: verdict_of_def external_def final_messages_def)
  next
    case (Inl e)
    with assms(3) have "is_exception e" by blast
    with Inl show ?thesis
      by (cases e) (auto simp: verdict_of_def external_def failed_download_def final_messages_def route_retry_def Let_def
          max_attempts_def MAX_ATTEMPTS_def DOWNLOAD_MAX_ATTEMPTS_def subclass_External subclass_Download)
  qed
  ultimately show ?thesis
    by (simp add: after_reply_def bindA_def publish_reply_broker)
qed

lemma consume_retries_run:
  fixes env :: envelope and w :: "'h broker_world"
  assumes "bw_retry w = [env]" and "en_attempts env < 3" and "3 - en_attempts env \<le> fuel"
    and "envelope_key env = None \<or> the (envelope_key env) \<notin> bw_done w"
    and "\<And>d h e h'. handler d h = (Inl e, h') \<Longrightarrow> is_exception e"
  shows "\<exists>n rs h. 1 \<le> n \<and> en_attempts env + n \<le> 3 \<and> handler_runs handler (en_data env) n (bw_host w) = (rs, h) \<and>
    consume_retries fuel handler w =
      after_reply (env\<lparr>en_attempts := en_attempts env + n - 1\<rparr>) (last rs) (w\<lparr>bw_host := h, bw_retry := []\<rparr>) \<and>
    (\<forall>r \<in> set (butlast rs). external r \<and> \<not> failed_download r) \<and>
    (en_attempts env + n < 3 \<longrightarrow> \<not> external (last rs) \<or> failed_download (last rs))"
  using assms(1-4)
proof (induction fuel arbitrary: env w)
  case (Suc fuel)
  obtain r h where r: "handler (en_data env) (bw_host w) = (r, h)" by fastforce
  let ?w = "w\<lparr>bw_retry := []\<rparr>"
  have r': "handler (en_data env) (bw_host ?w) = (r, h)" "\<And>e. r = Inl e \<Longrightarrow> is_exception e"
    using r assms(5) by auto
  have fresh: "envelope_key env = None \<or> the (envelope_key env) \<notin> bw_done ?w" using Suc.prems(4) by simp
  note one = consume_one_step [of env ?w handler, OF fresh r'(1) r'(2)]
  have go: "consume_retries (Suc fuel) handler w = consume_retries fuel handler (consume_one handler env ?w)"
    using Suc.prems(1) by simp
  show ?case
  proof (cases "external r \<and> \<not> failed_download r \<and> Suc (en_attempts env) < 3")
    case True
    let ?e = "env\<lparr>en_attempts := Suc (en_attempts env)\<rparr>"
    let ?v = "w\<lparr>bw_host := h, bw_retry := [?e]\<rparr>"
    from one True have c: "consume_one handler env ?w = ?v" by simp
    have key: "envelope_key ?e = envelope_key env" by (simp add: envelope_key_def)
    have "bw_retry ?v = [?e]" "en_attempts ?e < 3" "3 - en_attempts ?e \<le> fuel"
      "envelope_key ?e = None \<or> the (envelope_key ?e) \<notin> bw_done ?v"
      using Suc.prems True unfolding key by auto
    from Suc.IH [OF this] obtain n rs k where n: "1 \<le> n" "Suc (en_attempts env) + n \<le> 3"
        "handler_runs handler (en_data env) n h = (rs, k)"
        "consume_retries fuel handler ?v =
          after_reply (env\<lparr>en_attempts := en_attempts env + n\<rparr>) (last rs) (w\<lparr>bw_host := k, bw_retry := []\<rparr>)"
        "\<forall>r \<in> set (butlast rs). external r \<and> \<not> failed_download r"
        "Suc (en_attempts env) + n < 3 \<longrightarrow> \<not> external (last rs) \<or> failed_download (last rs)"
      by auto
    from n(1,3) have rs: "rs \<noteq> []" by (cases n) (auto simp: Let_def split: prod.splits)
    show ?thesis
      using n rs r True go c by (intro exI [of _ "Suc n"] exI [of _ "r # rs"] exI [of _ k]) auto
  next
    case False
    have "?w\<lparr>bw_host := h\<rparr> = w\<lparr>bw_host := h, bw_retry := []\<rparr>" by simp
    with one False have c: "consume_one handler env ?w = after_reply env r (w\<lparr>bw_host := h, bw_retry := []\<rparr>)"
      by (simp only: if_False)
    moreover have "consume_retries fuel handler v = v" if "bw_retry v = []" for v :: "'h broker_world"
      using that by (cases fuel) auto
    ultimately have "consume_retries (Suc fuel) handler w = after_reply env r (w\<lparr>bw_host := h, bw_retry := []\<rparr>)"
      using go by (simp add: after_reply_def)
    with r False Suc.prems(2) show ?thesis
      by (intro exI [of _ 1] exI [of _ "[r]"] exI [of _ h]) auto
  qed
qed simp

text \<open>
  C8: every message is answered, and after three runs at most.  A fresh message is taken by the
  consumer, and again from the retry queue as long as it is put there.  When the handler raises
  only exceptions that a clause catches and the publishes arrive, then after one to three runs the
  queue for replies holds exactly one reply, with the identifier of the message and what the last
  run gave (the messages, the message of its error, or the general one); the message is marked in
  the inbox and nothing waits.  Every run but the last failed in an external service and not in a
  download; the last did so too only when it was the third; and there is a dead letter exactly
  when the last run failed in an external service or a download.
\<close>

theorem ladder_answers:
  fixes handler :: "command_data \<Rightarrow> (exn, 'h, bot_message list option) act"
  assumes "\<And>d h e h'. handler d h = (Inl e, h') \<Longrightarrow> is_exception e" and "en_attempts env = 0"
  shows "\<exists>n rs h'. 1 \<le> n \<and> n \<le> 3 \<and> handler_runs handler (en_data env) n h = (rs, h') \<and>
    consume_retries 3 handler \<lparr>bw_replies = [], bw_retry = [env], bw_dlq = [], bw_done = {}, bw_host = h\<rparr> =
      \<lparr>bw_replies = [reply_envelope (en_id env) (final_messages (en_data env) (last rs))], bw_retry = [],
       bw_dlq = (if external (last rs) then [env\<lparr>en_attempts := n - 1\<rparr>] else []),
       bw_done = set_option (envelope_key env), bw_host = h'\<rparr> \<and>
    (\<forall>r \<in> set (butlast rs). external r \<and> \<not> failed_download r) \<and>
    (n < 3 \<longrightarrow> \<not> external (last rs) \<or> failed_download (last rs))"
proof -
  let ?w = "\<lparr>bw_replies = [], bw_retry = [env], bw_dlq = [], bw_done = {}, bw_host = h\<rparr>"
  obtain n rs h' where *: "1 \<le> n" "n \<le> 3" "handler_runs handler (en_data env) n h = (rs, h')"
      "consume_retries 3 handler ?w = after_reply (env\<lparr>en_attempts := n - 1\<rparr>) (last rs) (?w\<lparr>bw_host := h', bw_retry := []\<rparr>)"
      "\<forall>r \<in> set (butlast rs). external r \<and> \<not> failed_download r"
      "n < 3 \<longrightarrow> \<not> external (last rs) \<or> failed_download (last rs)"
    using consume_retries_run [of ?w env 3 handler] assms by auto
  moreover have "envelope_key (env\<lparr>en_attempts := n - 1\<rparr>) = envelope_key env" by (simp add: envelope_key_def)
  ultimately show ?thesis
    by (intro exI [of _ n] exI [of _ rs] exI [of _ h']) (simp add: after_reply_def)
qed

definition example_envelope :: envelope where
  "example_envelope = \<lparr>en_id = U ''c1'',
     en_data = (CommandData (U '',moon'') (U ''g'') (U ''u''))\<lparr>cd_message_id := Some (U ''m1'')\<rparr>,
     en_attempts = 0, en_replayed = False\<rparr>"

text \<open>A handler that fails twice in a service and answers the third time.\<close>

definition third_time :: "command_data \<Rightarrow> (exn, nat, bot_message list option) act" where
  "third_time d n = (if n < 2 then (Inl (Raised ExternalServiceError []), Suc n) else (Inr None, n))"

theorem ladder_answers_witness:
  "\<exists>n rs h'. 1 \<le> n \<and> n \<le> 3 \<and> handler_runs third_time (en_data example_envelope) n 0 = (rs, h') \<and>
    consume_retries 3 third_time
      \<lparr>bw_replies = [], bw_retry = [example_envelope], bw_dlq = [], bw_done = {}, bw_host = 0\<rparr> =
      \<lparr>bw_replies = [reply_envelope (en_id example_envelope) (final_messages (en_data example_envelope) (last rs))],
       bw_retry = [], bw_dlq = (if external (last rs) then [example_envelope\<lparr>en_attempts := n - 1\<rparr>] else []),
       bw_done = set_option (envelope_key example_envelope), bw_host = h'\<rparr>"
proof -
  have raised: "is_exception e" if "third_time d h = (Inl e, h')" for d h e h'
    using that by (auto simp: third_time_def is_exception_def split: if_splits)
  have "en_attempts example_envelope = 0" by (simp add: example_envelope_def)
  with raised ladder_answers [of third_time example_envelope 0] show ?thesis by blast
qed

subsection \<open>Deliveries that interleave\<close>

text \<open>
  The phase of the task of one delivery, at its next \<open>await\<close>: the inbox's answer, the
  handler (which may already hold the lane), the lock of the lane, the three kinds of publish,
  and the mark in the inbox.
\<close>

datatype phase =
    Checking | Handling | Queued | Retrying envelope | Burying "bot_message list"
  | Publishing "bot_message list" | Marking

record hub =
  hb_tasks :: "nat \<rightharpoonup> envelope \<times> phase"
  hb_running :: "pystr set"
  hb_lane :: "nat option"
  hb_done :: "pystr set"
  hb_retry :: "envelope list"
  hb_dlq :: "envelope list"
  hb_replies :: "(envelope \<times> bot_message list) list"
  hb_exclusive :: "nat set"      \<comment> \<open>the tasks that matched an exclusive command, for the statements\<close>

datatype hub_event =
    Deliver nat envelope
  | Checked nat bool                            \<comment> \<open>whether Redis answered\<close>
  | Matched nat bool                            \<comment> \<open>the hook, with the command's \<open>exclusive\<close>\<close>
  | Acquired nat
  | Handled nat "exn + bot_message list option"
  | Parked nat
  | Buried nat
  | Published nat
  | PublishFailed nat bool                      \<comment> \<open>a publish raises; whether the broker took it all the same\<close>
  | Marked nat bool                             \<comment> \<open>whether Redis took the mark\<close>
  | Expired pystr                               \<comment> \<open>the retention of a mark is over\<close>
  | Crashed                                     \<comment> \<open>the process restarts\<close>

definition end_task :: "nat \<Rightarrow> envelope \<Rightarrow> hub \<Rightarrow> hub" where
  "end_task pid env s =
     s\<lparr>hb_tasks := (hb_tasks s)(pid := None),
       hb_running := hb_running s - set_option (claim_key env),
       hb_lane := (if hb_lane s = Some pid then None else hb_lane s),
       hb_exclusive := hb_exclusive s - {pid}\<rparr>"

definition set_phase :: "nat \<Rightarrow> envelope \<Rightarrow> phase \<Rightarrow> hub \<Rightarrow> hub" where
  "set_phase pid env ph s = s\<lparr>hb_tasks := (hb_tasks s)(pid \<mapsto> (env, ph))\<rparr>"

fun hub_step :: "hub \<Rightarrow> hub_event \<Rightarrow> hub option" where
  "hub_step s (Deliver pid env) =
     (if hb_tasks s pid \<noteq> None then None
      else if set_option (claim_key env) \<inter> hb_running s \<noteq> {} then Some s
      else Some ((set_phase pid env Checking s)\<lparr>hb_running := hb_running s \<union> set_option (claim_key env)\<rparr>))"
| "hub_step s (Checked pid known) =
     (case hb_tasks s pid of
        Some (env, Checking) \<Rightarrow>
          if known \<and> \<not> en_replayed env \<and> (\<exists>k. envelope_key env = Some k \<and> k \<in> hb_done s)
          then Some (end_task pid env s) else Some (set_phase pid env Handling s)
      | _ \<Rightarrow> None)"
| "hub_step s (Matched pid exclusive) =
     (case hb_tasks s pid of
        Some (env, Handling) \<Rightarrow>
          if hb_lane s = Some pid then None
          else if exclusive
          then Some ((set_phase pid env Queued s)\<lparr>hb_exclusive := insert pid (hb_exclusive s)\<rparr>)
          else Some s
      | _ \<Rightarrow> None)"
| "hub_step s (Acquired pid) =
     (case hb_tasks s pid of
        Some (env, Queued) \<Rightarrow>
          if hb_lane s = None then Some ((set_phase pid env Handling s)\<lparr>hb_lane := Some pid\<rparr>) else None
      | _ \<Rightarrow> None)"
| "hub_step s (Handled pid r) =
     (case hb_tasks s pid of
        Some (env, Handling) \<Rightarrow>
          (case verdict_of env r of
             REPLY ms \<Rightarrow> Some (set_phase pid env (Publishing ms) s)
           | RETRY env' \<Rightarrow> Some (set_phase pid env (Retrying env') s)
           | DEAD_LETTER ms \<Rightarrow> Some (set_phase pid env (Burying ms) s)
           | ESCAPES \<Rightarrow> Some (end_task pid env s))
      | _ \<Rightarrow> None)"
| "hub_step s (Parked pid) =
     (case hb_tasks s pid of
        Some (env, Retrying env') \<Rightarrow> Some ((end_task pid env s)\<lparr>hb_retry := hb_retry s @ [env']\<rparr>)
      | _ \<Rightarrow> None)"
| "hub_step s (Buried pid) =
     (case hb_tasks s pid of
        Some (env, Burying ms) \<Rightarrow> Some ((set_phase pid env (Publishing ms) s)\<lparr>hb_dlq := hb_dlq s @ [env]\<rparr>)
      | _ \<Rightarrow> None)"
| "hub_step s (Published pid) =
     (case hb_tasks s pid of
        Some (env, Publishing ms) \<Rightarrow>
          Some ((set_phase pid env Marking s)\<lparr>hb_replies := hb_replies s @ [(env, ms)]\<rparr>)
      | _ \<Rightarrow> None)"
| "hub_step s (PublishFailed pid taken) =
     (case hb_tasks s pid of
        Some (env, Retrying env') \<Rightarrow>
          Some ((end_task pid env s)\<lparr>hb_retry := hb_retry s @ (if taken then [env'] else [])\<rparr>)
      | Some (env, Burying ms) \<Rightarrow>
          Some ((end_task pid env s)\<lparr>hb_dlq := hb_dlq s @ (if taken then [env] else [])\<rparr>)
      | Some (env, Publishing ms) \<Rightarrow>
          Some ((end_task pid env s)\<lparr>hb_replies := hb_replies s @ (if taken then [(env, ms)] else [])\<rparr>)
      | _ \<Rightarrow> None)"
| "hub_step s (Marked pid ok) =
     (case hb_tasks s pid of
        Some (env, Marking) \<Rightarrow>
          Some ((end_task pid env s)\<lparr>hb_done := hb_done s \<union> (if ok then set_option (envelope_key env) else {})\<rparr>)
      | _ \<Rightarrow> None)"
| "hub_step s (Expired k) = Some (s\<lparr>hb_done := hb_done s - {k}\<rparr>)"
| "hub_step s Crashed = Some (s\<lparr>hb_tasks := Map.empty, hb_running := {}, hb_lane := None, hb_exclusive := {}\<rparr>)"

definition hub_init :: hub where
  "hub_init = \<lparr>hb_tasks = Map.empty, hb_running = {}, hb_lane = None, hb_done = {},
     hb_retry = [], hb_dlq = [], hb_replies = [], hb_exclusive = {}\<rparr>"

text \<open>
  The reachable states, with the number of mishaps on the way: a check of the inbox that Redis does
  not answer (the code then goes on, \<open>is_done\<close> in command_inbox.py), a reply that the broker takes
  although its publish raises, a mark that is lost or expires, and a crash.
\<close>

fun mishap :: "hub_event \<Rightarrow> bool" where
  "mishap (Checked pid known) = (\<not> known)"
| "mishap (PublishFailed pid taken) = taken"
| "mishap (Marked pid ok) = (\<not> ok)"
| "mishap (Expired k) = True"
| "mishap Crashed = True"
| "mishap e = False"

inductive hub_reach :: "nat \<Rightarrow> hub \<Rightarrow> bool" where
  init: "hub_reach 0 hub_init"
| step: "hub_reach n s \<Longrightarrow> hub_step s e = Some s' \<Longrightarrow> hub_reach (n + of_bool (mishap e)) s'"

text \<open>
  The claims are the keys of the live tasks, and no key is claimed twice; a task that matched
  an exclusive command waits in the queue or holds the lane.
\<close>

definition claims_inv :: "hub \<Rightarrow> bool" where
  "claims_inv s \<longleftrightarrow>
     (\<forall>pid env ph k. hb_tasks s pid = Some (env, ph) \<longrightarrow> claim_key env = Some k \<longrightarrow> k \<in> hb_running s) \<and>
     (\<forall>p q e f a b k. hb_tasks s p = Some (e, a) \<longrightarrow> hb_tasks s q = Some (f, b) \<longrightarrow>
        claim_key e = Some k \<longrightarrow> claim_key f = Some k \<longrightarrow> p = q)"

definition lane_inv :: "hub \<Rightarrow> bool" where
  "lane_inv s \<longleftrightarrow>
     (\<forall>p \<in> hb_exclusive s. \<exists>e a. hb_tasks s p = Some (e, a) \<and> a \<noteq> Checking \<and> (a = Queued \<or> hb_lane s = Some p))"

lemma claims_end_task:
  "claims_inv s \<Longrightarrow> hb_tasks s pid = Some (env, ph) \<Longrightarrow> claims_inv (end_task pid env s)"
  unfolding claims_inv_def end_task_def by (auto split: if_splits)

lemma claims_set_phase:
  "claims_inv s \<Longrightarrow> hb_tasks s pid = Some (env, ph) \<Longrightarrow> claims_inv (set_phase pid env ph' s)"
  unfolding claims_inv_def set_phase_def by (auto split: if_splits)

lemma claims_updates [simp]:
  "claims_inv (s\<lparr>hb_lane := l\<rparr>) = claims_inv s"
  "claims_inv (s\<lparr>hb_retry := r\<rparr>) = claims_inv s"
  "claims_inv (s\<lparr>hb_dlq := r\<rparr>) = claims_inv s"
  "claims_inv (s\<lparr>hb_done := d\<rparr>) = claims_inv s"
  "claims_inv (s\<lparr>hb_replies := x\<rparr>) = claims_inv s"
  "claims_inv (s\<lparr>hb_exclusive := y\<rparr>) = claims_inv s"
  by (simp_all add: claims_inv_def)

lemma claims_step: "claims_inv s \<Longrightarrow> hub_step s e = Some s' \<Longrightarrow> claims_inv s'"
proof (cases e)
  case (Deliver pid env)
  assume inv: "claims_inv s" and st: "hub_step s e = Some s'"
  have fresh: "claim_key f \<noteq> Some k" if "hb_tasks s q = Some (f, b)" "claim_key env = Some k"
    "set_option (claim_key env) \<inter> hb_running s = {}" for q f b k
    using inv that by (auto simp: claims_inv_def)
  show ?thesis
  proof (cases "s' = s")
    case False
    with st Deliver have no: "set_option (claim_key env) \<inter> hb_running s = {}"
      and s': "hb_tasks s' = (hb_tasks s)(pid \<mapsto> (env, Checking))"
        "hb_running s' = hb_running s \<union> set_option (claim_key env)"
      by (auto simp: set_phase_def split: if_splits)
    show ?thesis
      unfolding claims_inv_def s'
    proof (intro conjI allI impI)
      fix q f b k assume "((hb_tasks s)(pid \<mapsto> (env, Checking))) q = Some (f, b)" "claim_key f = Some k"
      then show "k \<in> hb_running s \<union> set_option (claim_key env)"
        using inv by (auto simp: claims_inv_def split: if_splits)
    next
      fix p q e f a b k
      assume "((hb_tasks s)(pid \<mapsto> (env, Checking))) p = Some (e, a)"
        "((hb_tasks s)(pid \<mapsto> (env, Checking))) q = Some (f, b)" "claim_key e = Some k" "claim_key f = Some k"
      then show "p = q"
        using inv fresh [OF _ _ no] by (auto simp: claims_inv_def split: if_splits)
    qed
  qed (use inv in simp)
next
  case Crashed
  assume "claims_inv s" "hub_step s e = Some s'"
  with Crashed show ?thesis by (auto simp: claims_inv_def)
qed (auto intro: claims_end_task claims_set_phase
      split: option.splits prod.splits phase.splits verdict.splits if_splits)

lemma lane_end_task: "lane_inv s \<Longrightarrow> lane_inv (end_task pid env s)"
  by (auto simp: lane_inv_def end_task_def)

lemma lane_set_phase:
  "lane_inv s \<Longrightarrow> hb_tasks s pid = Some (env, ph) \<Longrightarrow> ph \<noteq> Queued \<Longrightarrow> ph' \<noteq> Checking \<Longrightarrow>
   lane_inv (set_phase pid env ph' s)"
  by (fastforce simp: lane_inv_def set_phase_def)

lemma lane_updates [simp]:
  "lane_inv (s\<lparr>hb_retry := r\<rparr>) = lane_inv s"
  "lane_inv (s\<lparr>hb_dlq := r\<rparr>) = lane_inv s"
  "lane_inv (s\<lparr>hb_done := d\<rparr>) = lane_inv s"
  "lane_inv (s\<lparr>hb_replies := x\<rparr>) = lane_inv s"
  "lane_inv (s\<lparr>hb_running := y\<rparr>) = lane_inv s"
  by (simp_all add: lane_inv_def)

lemma lane_step: "lane_inv s \<Longrightarrow> hub_step s e = Some s' \<Longrightarrow> lane_inv s'"
proof (cases e)
  case (Deliver pid env)
  assume "lane_inv s" "hub_step s e = Some s'"
  with Deliver show ?thesis
    by (fastforce simp: lane_inv_def set_phase_def split: if_splits)
next
  case (Matched pid ex)
  assume "lane_inv s" "hub_step s e = Some s'"
  with Matched show ?thesis
    by (auto simp: lane_inv_def set_phase_def split: if_splits option.splits prod.splits phase.splits)
next
  case (Acquired pid)
  assume "lane_inv s" "hub_step s e = Some s'"
  with Acquired show ?thesis
    by (fastforce simp: lane_inv_def set_phase_def split: if_splits option.splits prod.splits phase.splits)
next
  case Crashed
  assume "lane_inv s" "hub_step s e = Some s'"
  with Crashed show ?thesis by (auto simp: lane_inv_def)
qed (auto intro: lane_end_task lane_set_phase
      split: option.splits prod.splits phase.splits verdict.splits if_splits)

lemma hub_invs: "hub_reach n s \<Longrightarrow> claims_inv s \<and> lane_inv s"
proof (induction rule: hub_reach.induct)
  case init
  show ?case by (simp add: claims_inv_def lane_inv_def hub_init_def)
next
  case (step n s e s')
  then show ?case using claims_step lane_step by blast
qed

definition in_lane :: "hub \<Rightarrow> nat set" where
  "in_lane s = {p \<in> hb_exclusive s. \<exists>e a. hb_tasks s p = Some (e, a) \<and> a \<noteq> Queued}"

text \<open>
  C9: exclusive commands run one at a time, up to the end of their reply.  In every reachable
  state, crashes included, at most one task that matched an exclusive command is past the
  queue of the lane: running, publishing its reply or marking it.
\<close>

theorem exclusive_one_at_a_time:
  assumes "hub_reach n s"
  shows "finite (in_lane s) \<and> card (in_lane s) \<le> 1"
proof -
  have "lane_inv s" using hub_invs [OF assms] by simp
  then have "in_lane s \<subseteq> set_option (hb_lane s)" by (auto simp: lane_inv_def in_lane_def)
  moreover have "finite (set_option (hb_lane s))" "card (set_option (hb_lane s)) \<le> 1"
    by (cases "hb_lane s"; simp)+
  ultimately show ?thesis by (meson card_mono finite_subset order_trans)
qed

definition hub_run :: "hub_event list \<Rightarrow> hub" where
  "hub_run es = foldl (\<lambda>s e. case hub_step s e of None \<Rightarrow> s | Some s' \<Rightarrow> s') hub_init es"

lemma hub_run_reach: "\<exists>n \<le> length (filter mishap es). hub_reach n (hub_run es)"
proof -
  have "hub_reach m s \<Longrightarrow> \<exists>n \<le> m + length (filter mishap es).
      hub_reach n (foldl (\<lambda>s e. case hub_step s e of None \<Rightarrow> s | Some s' \<Rightarrow> s') s es)" for m s
  proof (induction es arbitrary: m s)
    case (Cons e es)
    show ?case
    proof (cases "hub_step s e")
      case None
      with Cons.IH [OF Cons.prems] show ?thesis by (auto intro: le_SucI)
    next
      case (Some s')
      from Cons.IH [OF hub_reach.step [OF Cons.prems Some]] Some show ?thesis by (auto split: if_splits)
    qed
  qed auto
  from this [OF hub_reach.init] show ?thesis by (simp add: hub_run_def)
qed

text \<open>Two downloads at once: the second waits for the lane.\<close>

definition other_envelope :: envelope where
  "other_envelope = example_envelope\<lparr>en_data := (en_data example_envelope)\<lparr>cd_message_id := Some (U ''m2'')\<rparr>\<rparr>"

definition two_downloads :: "hub_event list" where
  "two_downloads = [Deliver 1 example_envelope, Deliver 2 other_envelope, Checked 1 True, Checked 2 True,
     Matched 1 True, Matched 2 True, Acquired 1, Acquired 2]"

theorem exclusive_one_at_a_time_witness:
  "finite (in_lane (hub_run two_downloads)) \<and> card (in_lane (hub_run two_downloads)) \<le> 1"
proof -
  obtain n where "hub_reach n (hub_run two_downloads)" using hub_run_reach by blast
  then show ?thesis by (rule exclusive_one_at_a_time)
qed

subsection \<open>One reply for a message\<close>

text \<open>
  A reply to a key can still come when a task with the key is past the check and has not published,
  or when the key has no mark and no task is about to make it.
\<close>

abbreviation replies_to :: "pystr \<Rightarrow> hub \<Rightarrow> nat" where
  "replies_to k s \<equiv> length (filter (\<lambda>r. claim_key (fst r) = Some k) (hb_replies s))"

definition answering :: "pystr \<Rightarrow> hub \<Rightarrow> bool" where
  "answering k s \<longleftrightarrow> (\<exists>p e a. hb_tasks s p = Some (e, a) \<and> claim_key e = Some k \<and> a \<notin> {Checking, Marking})"

definition marking :: "pystr \<Rightarrow> hub \<Rightarrow> bool" where
  "marking k s \<longleftrightarrow> (\<exists>p e. hb_tasks s p = Some (e, Marking) \<and> claim_key e = Some k)"

definition reply_open :: "pystr \<Rightarrow> hub \<Rightarrow> bool" where
  "reply_open k s \<longleftrightarrow> answering k s \<or> k \<notin> hb_done s \<and> \<not> marking k s"

lemma claim_envelope_key: "claim_key e = Some k \<Longrightarrow> envelope_key e = Some k \<and> \<not> en_replayed e"
  by (simp add: claim_key_def split: if_splits)

lemma end_task_simps [simp]:
  "hb_tasks (end_task pid env s) = (hb_tasks s)(pid := None)"
  "hb_replies (end_task pid env s) = hb_replies s" "hb_done (end_task pid env s) = hb_done s"
  by (simp_all add: end_task_def)

lemma set_phase_simps [simp]:
  "hb_tasks (set_phase pid env ph s) = (hb_tasks s)(pid \<mapsto> (env, ph))"
  "hb_replies (set_phase pid env ph s) = hb_replies s" "hb_done (set_phase pid env ph s) = hb_done s"
  by (simp_all add: set_phase_def)

text \<open>No key is claimed twice, so the task with a key is in one phase.\<close>

lemma claims_unique:
  "claims_inv s \<Longrightarrow> hb_tasks s p = Some (e, a) \<Longrightarrow> hb_tasks s q = Some (f, b) \<Longrightarrow>
   claim_key e = Some k \<Longrightarrow> claim_key f = Some k \<Longrightarrow> p = q \<and> e = f \<and> a = b"
proof -
  assume inv: "claims_inv s" and p: "hb_tasks s p = Some (e, a)" and q: "hb_tasks s q = Some (f, b)"
    and k: "claim_key e = Some k" "claim_key f = Some k"
  have "p = q" using inv p q k unfolding claims_inv_def by blast
  with p q show ?thesis by simp
qed

text \<open>What a step does to a key: a task with the key that is past the check ends, or goes on.\<close>

lemma answering_upd:
  "hb_tasks s' = (hb_tasks s)(pid := x) \<Longrightarrow> answering k s' \<Longrightarrow>
   answering k s \<or> (\<exists>e a. x = Some (e, a) \<and> claim_key e = Some k \<and> a \<notin> {Checking, Marking})"
  unfolding answering_def by (metis fun_upd_apply)

lemma marking_upd:
  "hb_tasks s' = (hb_tasks s)(pid := x) \<Longrightarrow> marking k s \<Longrightarrow>
   marking k s' \<or> (\<exists>e. hb_tasks s pid = Some (e, Marking) \<and> claim_key e = Some k)"
  unfolding marking_def by (metis fun_upd_apply)

text \<open>A step of one task keeps what cannot come any more, if the task itself does.\<close>

lemma reply_open_upd:
  assumes "hb_tasks s' = (hb_tasks s)(pid := x)" and "hb_done s \<subseteq> hb_done s'"
    and "\<And>e. hb_tasks s pid = Some (e, Marking) \<Longrightarrow> claim_key e = Some k \<Longrightarrow> k \<in> hb_done s'"
    and "\<And>e a. x = Some (e, a) \<Longrightarrow> claim_key e = Some k \<Longrightarrow> a \<notin> {Checking, Marking} \<Longrightarrow> reply_open k s"
    and "reply_open k s'"
  shows "reply_open k s"
proof (cases "answering k s'")
  case True
  with answering_upd [OF assms(1)] assms(4) show ?thesis by (auto simp: reply_open_def)
next
  case False
  with assms(5) have "k \<notin> hb_done s'" "\<not> marking k s'" by (simp_all add: reply_open_def)
  with assms(2,3) marking_upd [OF assms(1), of k] show ?thesis unfolding reply_open_def by blast
qed

lemma reply_open_end:
  assumes "hb_tasks s pid = Some (env, ph)" and "ph \<noteq> Marking"
    and "hb_tasks s' = (hb_tasks s)(pid := None)" and "hb_done s' = hb_done s"
  shows "reply_open k s' \<Longrightarrow> reply_open k s"
  by (rule reply_open_upd [OF assms(3)]) (use assms in simp_all)

lemma reply_open_phase:
  assumes "hb_tasks s pid = Some (env, ph)" and "ph \<notin> {Checking, Marking}"
    and "hb_tasks s' = (hb_tasks s)(pid \<mapsto> (env, ph'))" and "hb_done s' = hb_done s"
  shows "reply_open k s' \<Longrightarrow> reply_open k s"
proof (rule reply_open_upd [OF assms(3)])
  fix e a assume "Some (env, ph') = Some (e, a)" "claim_key e = Some k"
  then show "reply_open k s" using assms(1,2) by (auto simp: reply_open_def answering_def)
qed (use assms in simp_all)

definition reply_bound :: "pystr \<Rightarrow> nat \<Rightarrow> hub \<Rightarrow> bool" where
  "reply_bound k n s \<longleftrightarrow> replies_to k s + of_bool (reply_open k s) \<le> Suc n"

lemma reply_bound_mono:
  assumes "reply_bound k n s" and "hb_replies s' = hb_replies s" and "reply_open k s' \<Longrightarrow> reply_open k s"
  shows "reply_bound k (n + m) s'"
  using assms by (auto simp: reply_bound_def of_bool_def split: if_splits)

lemma reply_bound_mishap:
  assumes "reply_bound k n s" and "replies_to k s' \<le> replies_to k s"
  shows "reply_bound k (Suc n) s'"
  using assms by (auto simp: reply_bound_def of_bool_def split: if_splits)

text \<open>A reply that is published was open, and is not any more: its task goes on to mark it.\<close>

lemma reply_bound_published:
  assumes "claims_inv s" and "reply_bound k n s" and t: "hb_tasks s pid = Some (env, Publishing ms)"
  shows "reply_bound k n ((set_phase pid env Marking s)\<lparr>hb_replies := hb_replies s @ [(env, ms)]\<rparr>)"
    (is "reply_bound k n ?s")
proof (cases "claim_key env = Some k")
  case True
  with t have "answering k s" unfolding answering_def by blast
  then have "reply_open k s" by (simp add: reply_open_def)
  moreover have "marking k ?s" using True by (auto simp: marking_def)
  moreover have "\<not> answering k ?s"
    using claims_unique [OF assms(1) t] True by (auto simp: answering_def split: if_splits)
  ultimately show ?thesis using assms(2) by (auto simp: reply_bound_def reply_open_def)
next
  case False
  have "reply_open k s" if "reply_open k ?s"
    by (rule reply_open_upd [of ?s s pid "Some (env, Marking)"]) (use that False t in simp_all)
  with False assms(2) show ?thesis by (auto simp: reply_bound_def of_bool_def split: if_splits)
qed

lemma reply_bound_failed:
  assumes "claims_inv s" and "reply_bound k n s" and t: "hb_tasks s pid = Some (env, Publishing ms)"
  shows "reply_bound k (n + of_bool taken)
    ((end_task pid env s)\<lparr>hb_replies := hb_replies s @ (if taken then [(env, ms)] else [])\<rparr>)" (is "reply_bound k _ ?s")
proof -
  have o: "reply_open k ?s \<Longrightarrow> reply_open k s" by (rule reply_open_end [OF t]) simp_all
  show ?thesis
  proof (cases "taken \<and> claim_key env = Some k")
    case True
    with t have "reply_open k s" unfolding reply_open_def answering_def by blast
    with True assms(2) show ?thesis by (auto simp: reply_bound_def of_bool_def split: if_splits)
  next
    case False
    with o assms(2) show ?thesis by (auto simp: reply_bound_def of_bool_def split: if_splits)
  qed
qed

lemma reply_bound_checked:
  assumes "claims_inv s" and "reply_bound k n s" and t: "hb_tasks s pid = Some (env, Checking)"
    and "\<not> (known \<and> \<not> en_replayed env \<and> (\<exists>k. envelope_key env = Some k \<and> k \<in> hb_done s))"
  shows "reply_bound k (n + of_bool (\<not> known)) (set_phase pid env Handling s)"
proof (cases "known \<and> claim_key env = Some k")
  case True
  then have "k \<notin> hb_done s" using assms(4) claim_envelope_key by blast
  moreover have "\<not> marking k s"
    unfolding marking_def using claims_unique [OF assms(1) t, of _ _ Marking k] True by blast
  ultimately have "reply_open k s" by (simp add: reply_open_def)
  with assms(2) show ?thesis by (auto simp: reply_bound_def of_bool_def split: if_splits)
next
  case False
  show ?thesis
  proof (cases known)
    case True
    with False have other: "claim_key env \<noteq> Some k" by simp
    have "reply_open k s" if "reply_open k (set_phase pid env Handling s)"
      by (rule reply_open_upd [of "set_phase pid env Handling s" s pid "Some (env, Handling)"]) (use that t other in simp_all)
    then show ?thesis by (intro reply_bound_mono [OF assms(2)]) simp_all
  next
    case False
    with reply_bound_mishap [OF assms(2), of "set_phase pid env Handling s"] show ?thesis by simp
  qed
qed

lemma reply_bound_marked:
  assumes "claims_inv s" and "reply_bound k n s" and t: "hb_tasks s pid = Some (env, Marking)"
  shows "reply_bound k (n + of_bool (\<not> ok))
    ((end_task pid env s)\<lparr>hb_done := hb_done s \<union> (if ok then set_option (envelope_key env) else {})\<rparr>)"
    (is "reply_bound k _ ?s")
proof (cases ok)
  case True
  have "reply_open k s" if "reply_open k ?s"
    by (rule reply_open_upd [of ?s s pid None]) (use that True t claim_envelope_key [of env k] in auto)
  with True show ?thesis by (intro reply_bound_mono [OF assms(2)]) simp_all
next
  case False
  with reply_bound_mishap [OF assms(2), of ?s] show ?thesis by simp
qed

lemma reply_bound_step:
  assumes "reply_bound k n s" and "claims_inv s" and "hub_step s e = Some s'"
  shows "reply_bound k (n + of_bool (mishap e)) s'"
proof (cases e)
  case (Deliver pid env)
  show ?thesis
  proof (cases "s' = s")
    case True
    with assms(1) show ?thesis by (simp add: reply_bound_def)
  next
    case False
    with assms(3) Deliver have s': "hb_tasks s pid = None" "hb_tasks s' = (hb_tasks s)(pid \<mapsto> (env, Checking))"
        "hb_replies s' = hb_replies s" "hb_done s' = hb_done s"
      by (auto split: if_splits)
    have "reply_open k s" if "reply_open k s'"
      by (rule reply_open_upd [OF s'(2)]) (use that s' in auto)
    with s' show ?thesis by (intro reply_bound_mono [OF assms(1)]) simp_all
  qed
next
  case (Checked pid known)
  with assms(3) obtain env where t: "hb_tasks s pid = Some (env, Checking)"
    by (auto split: option.splits prod.splits phase.splits)
  show ?thesis
  proof (cases "known \<and> \<not> en_replayed env \<and> (\<exists>k. envelope_key env = Some k \<and> k \<in> hb_done s)")
    case True
    with t Checked assms(3) have "s' = end_task pid env s" by auto
    then show ?thesis
      using reply_open_end [OF t, of s'] by (intro reply_bound_mono [OF assms(1)]) simp_all
  next
    case False
    with t Checked assms(3) have "s' = set_phase pid env Handling s" by (auto split: if_splits)
    with Checked reply_bound_checked [OF assms(2,1) t False] show ?thesis by simp
  qed
next
  case (Matched pid ex)
  show ?thesis
  proof (cases "s' = s")
    case True
    with assms(1) show ?thesis by (simp add: reply_bound_def)
  next
    case False
    with assms(3) Matched obtain env where t: "hb_tasks s pid = Some (env, Handling)"
        and "hb_tasks s' = (hb_tasks s)(pid \<mapsto> (env, Queued))" "hb_replies s' = hb_replies s" "hb_done s' = hb_done s"
      by (auto split: option.splits prod.splits phase.splits if_splits)
    then show ?thesis
      using reply_open_phase [OF t, of s'] by (intro reply_bound_mono [OF assms(1)]) simp_all
  qed
next
  case (Acquired pid)
  with assms(3) obtain env where t: "hb_tasks s pid = Some (env, Queued)"
      and "hb_tasks s' = (hb_tasks s)(pid \<mapsto> (env, Handling))" "hb_replies s' = hb_replies s" "hb_done s' = hb_done s"
    by (auto split: option.splits prod.splits phase.splits if_splits)
  then show ?thesis
    using reply_open_phase [OF t, of s'] by (intro reply_bound_mono [OF assms(1)]) simp_all
next
  case (Handled pid r)
  with assms(3) obtain env where t: "hb_tasks s pid = Some (env, Handling)"
    by (auto split: option.splits prod.splits phase.splits)
  show ?thesis
  proof (cases "verdict_of env r = ESCAPES")
    case True
    with t Handled assms(3) have "s' = end_task pid env s" by auto
    then show ?thesis
      using reply_open_end [OF t, of s'] by (intro reply_bound_mono [OF assms(1)]) simp_all
  next
    case False
    with t Handled assms(3) obtain ph where "s' = set_phase pid env ph s" by (auto split: verdict.splits)
    then show ?thesis
      using reply_open_phase [OF t, of s'] by (intro reply_bound_mono [OF assms(1)]) simp_all
  qed
next
  case (Parked pid)
  with assms(3) obtain env env' where t: "hb_tasks s pid = Some (env, Retrying env')"
      and "hb_tasks s' = (hb_tasks s)(pid := None)" "hb_replies s' = hb_replies s" "hb_done s' = hb_done s"
    by (auto split: option.splits prod.splits phase.splits)
  then show ?thesis
    using reply_open_end [OF t, of s'] by (intro reply_bound_mono [OF assms(1)]) simp_all
next
  case (Buried pid)
  with assms(3) obtain env ms where t: "hb_tasks s pid = Some (env, Burying ms)"
      and "hb_tasks s' = (hb_tasks s)(pid \<mapsto> (env, Publishing ms))" "hb_replies s' = hb_replies s" "hb_done s' = hb_done s"
    by (auto split: option.splits prod.splits phase.splits)
  then show ?thesis
    using reply_open_phase [OF t, of s'] by (intro reply_bound_mono [OF assms(1)]) simp_all
next
  case (Published pid)
  then show ?thesis
    using assms(3) reply_bound_published [OF assms(2,1)]
    by (auto split: option.splits prod.splits phase.splits)
next
  case (PublishFailed pid taken)
  with assms(3) obtain env ph where t: "hb_tasks s pid = Some (env, ph)"
    by (auto split: option.splits)
  show ?thesis
  proof (cases "\<exists>ms. ph = Publishing ms")
    case True
    then obtain ms where "ph = Publishing ms" by blast
    with t have t: "hb_tasks s pid = Some (env, Publishing ms)" by simp
    with PublishFailed assms(3) reply_bound_failed [OF assms(2,1) t, of taken] show ?thesis by simp
  next
    case False
    with PublishFailed assms(3) t have "ph \<noteq> Marking" and s': "hb_tasks s' = (hb_tasks s)(pid := None)"
        "hb_replies s' = hb_replies s" "hb_done s' = hb_done s"
      by (auto split: phase.splits)
    then show ?thesis
      using reply_open_end [OF t, of s'] by (intro reply_bound_mono [OF assms(1)]) simp_all
  qed
next
  case (Marked pid ok)
  with assms(3) obtain env where t: "hb_tasks s pid = Some (env, Marking)"
    by (auto split: option.splits prod.splits phase.splits)
  with Marked assms(3) reply_bound_marked [OF assms(2,1) t, of ok] show ?thesis by simp
next
  case (Expired k')
  with assms(3) have "hb_replies s' = hb_replies s" by auto
  with Expired reply_bound_mishap [OF assms(1), of s'] show ?thesis by simp
next
  case Crashed
  with assms(3) have "hb_replies s' = hb_replies s" by auto
  with Crashed reply_bound_mishap [OF assms(1), of s'] show ?thesis by simp
qed

lemma reply_bound_reach: "hub_reach n s \<Longrightarrow> reply_bound k n s"
proof (induction rule: hub_reach.induct)
  case init
  show ?case by (simp add: reply_bound_def hub_init_def of_bool_def)
next
  case (step n s e s')
  then show ?case using reply_bound_step hub_invs by blast
qed

text \<open>
  C3: at most one final reply for a message, and one more for each mishap.  Deliveries, redeliveries,
  duplicates and retries interleave in any way, publishes fail, and a message with an identifier
  gets no second reply unless Redis did not answer the check of the inbox, the broker took a reply
  whose publish raised, a mark was lost or expired, or the process crashed; each of these costs at
  most one reply more.  Replays of dead letters, which an operator asks for, do not count.
\<close>

theorem one_reply_per_message:
  assumes "hub_reach mishaps s"
  shows "length (filter (\<lambda>r. claim_key (fst r) = Some k) (hb_replies s)) \<le> 1 + mishaps"
  using reply_bound_reach [OF assms, of k] by (simp add: reply_bound_def)

text \<open>A duplicate while the first delivery runs, and a redelivery after its reply.\<close>

definition redelivered :: "hub_event list" where
  "redelivered = [Deliver 1 example_envelope, Deliver 2 example_envelope, Checked 1 True, Handled 1 (Inr None),
     Published 1, Marked 1 True, Deliver 3 example_envelope, Checked 3 True]"

theorem one_reply_per_message_witness:
  "length (filter (\<lambda>r. claim_key (fst r) = Some (U ''g:m1'')) (hb_replies (hub_run redelivered))) \<le> 1"
proof -
  obtain n where "n \<le> length (filter mishap redelivered)" "hub_reach n (hub_run redelivered)"
    using hub_run_reach by blast
  moreover have "length (filter mishap redelivered) = 0" by (simp add: redelivered_def)
  ultimately have "hub_reach 0 (hub_run redelivered)" by simp
  from one_reply_per_message [OF this, of "U ''g:m1''"] show ?thesis by simp
qed

end
