(* ===== verification/Guards.thy ===== *)
theory Guards
  imports Delivery
begin

text \<open>
  The guards around the bot's scarce resources: the token budget of the language model
  (bot/infrastructure/token_budget.py), the turns of a conversation
  (bot/infrastructure/agent_rate_limiter.py, bot/application/throttled_agent.py), the inbox of
  answered commands (bot/infrastructure/command_inbox.py), and the supervisor that connects
  the platforms (bot/infrastructure/platform_supervisor.py).  Times, balances and rates are
  exact rationals; Redis is a parameter where a component only calls it, and the budget's own
  script, which is source text, is a function on the bucket it stores.
\<close>

subsection \<open>The token budget\<close>

record budget_policy =
  bp_user_per_day :: nat
  bp_group_per_day :: nat
  bp_enforce :: bool
  bp_owners :: "pystr set"

record bucket =
  bk_scope :: pystr
  bk_key :: pystr
  bk_per_day :: nat

definition SECONDS_PER_DAY :: rat where
  "SECONDS_PER_DAY = 86400"

definition per_second :: "bucket \<Rightarrow> rat" where
  "per_second b = of_nat (bk_per_day b) / SECONDS_PER_DAY"

text \<open>
  The stored bucket: the balance, its time, and the time the key expires.  \<open>settle_script\<close> is
  the script: a missing bucket is full, the refill stops at the capacity, the cost is debited,
  and the key expires when the bucket would be full again.
\<close>

record stored =
  sd_balance :: rat
  sd_at :: rat
  sd_expires :: rat

definition settle_script :: "rat \<Rightarrow> rat \<Rightarrow> rat \<Rightarrow> rat \<Rightarrow> stored option \<Rightarrow> rat \<times> stored" where
  "settle_script capacity rate now cost bucket =
     (let balance = (case bucket of None \<Rightarrow> capacity | Some s \<Rightarrow> sd_balance s);
          since = (case bucket of None \<Rightarrow> now | Some s \<Rightarrow> sd_at s);
          balance = min capacity (balance + (now - since) * rate) - cost
      in (balance, \<lparr>sd_balance = balance, sd_at = now,
                    sd_expires = now + of_int \<lceil>(capacity - balance) / rate\<rceil>\<rparr>))"

text \<open>The buckets of Redis; a key past its expiry is missing.\<close>

type_synonym budget_store = "pystr \<rightharpoonup> stored"

definition live_bucket :: "rat \<Rightarrow> stored option \<Rightarrow> stored option" where
  "live_bucket now b = (case b of None \<Rightarrow> None | Some s \<Rightarrow> if now < sd_expires s then Some s else None)"

definition settle_one :: "bucket \<Rightarrow> rat \<Rightarrow> rat \<Rightarrow> budget_store \<Rightarrow> rat \<times> budget_store" where
  "settle_one b cost now st =
     (let (balance, s) = settle_script (of_nat (bk_per_day b)) (per_second b) now cost
                           (live_bucket now (st (bk_key b)))
      in (balance, st(bk_key b \<mapsto> s)))"

definition budget_buckets :: "budget_policy \<Rightarrow> command_data \<Rightarrow> bucket list" where
  "budget_buckets pol d =
     (if cd_sender_jid d \<in> bp_owners pol then []
      else \<lparr>bk_scope = U ''user'', bk_key = U ''agent_budget:user:'' @ cd_sender_jid d,
            bk_per_day = bp_user_per_day pol\<rparr> #
        (if cd_is_group d
         then [\<lparr>bk_scope = U ''group'', bk_key = U ''agent_budget:group:'' @ cd_jid d,
                bk_per_day = bp_group_per_day pol\<rparr>]
         else []))"

text \<open>A \<open>RedisError\<close> at any bucket gives the empty list, so the first argument is the outage.\<close>

fun settle_buckets :: "bucket list \<Rightarrow> rat \<Rightarrow> rat \<Rightarrow> budget_store \<Rightarrow> (bucket \<times> rat) list \<times> budget_store" where
  "settle_buckets [] cost now st = ([], st)"
| "settle_buckets (b # bs) cost now st =
     (let (balance, st1) = settle_one b cost now st; (rest, st2) = settle_buckets bs cost now st1
      in ((b, balance) # rest, st2))"

definition settle_all ::
  "bool \<Rightarrow> budget_policy \<Rightarrow> command_data \<Rightarrow> rat \<Rightarrow> rat \<Rightarrow> budget_store \<Rightarrow> (bucket \<times> rat) list \<times> budget_store" where
  "settle_all outage pol d cost now st =
     (if outage then ([], st) else settle_buckets (budget_buckets pol d) cost now st)"

fun budget_wait :: "(bucket \<times> rat) list \<Rightarrow> rat \<Rightarrow> rat" where
  "budget_wait [] wait = wait"
| "budget_wait ((b, balance) # bs) wait =
     budget_wait bs (if balance > 0 then wait else max wait ((1 - balance) / per_second b))"

definition refill_at ::
  "bool \<Rightarrow> budget_policy \<Rightarrow> command_data \<Rightarrow> rat \<Rightarrow> budget_store \<Rightarrow> rat option \<times> budget_store" where
  "refill_at outage pol d now st =
     (let (balances, st') = settle_all outage pol d 0 now st; wait = budget_wait balances 0
      in (if wait = 0 \<or> \<not> bp_enforce pol then None else Some (now + wait), st'))"

definition spend ::
  "bool \<Rightarrow> budget_policy \<Rightarrow> command_data \<Rightarrow> nat \<Rightarrow> rat \<Rightarrow> budget_store \<Rightarrow> budget_store" where
  "spend outage pol d tokens now st = snd (settle_all outage pol d (of_nat tokens) now st)"

text \<open>What a bucket holds at a time, expired or not.\<close>

definition level :: "bucket \<Rightarrow> rat \<Rightarrow> budget_store \<Rightarrow> rat" where
  "level b now st =
     (case live_bucket now (st (bk_key b)) of
        None \<Rightarrow> of_nat (bk_per_day b)
      | Some s \<Rightarrow> min (of_nat (bk_per_day b)) (sd_balance s + (now - sd_at s) * per_second b))"

lemma settle_one_level:
  "fst (settle_one b cost now st) = level b now st - cost"
  by (simp add: settle_one_def settle_script_def level_def Let_def split: option.split prod.split)

lemma settle_one_stored:
  "snd (settle_one b cost now st) (bk_key b) =
    Some \<lparr>sd_balance = level b now st - cost, sd_at = now,
      sd_expires = now + of_int \<lceil>(of_nat (bk_per_day b) - (level b now st - cost)) / per_second b\<rceil>\<rparr>"
  by (simp add: settle_one_def settle_script_def level_def Let_def split: option.split prod.split)

lemma level_le: "level b now st \<le> of_nat (bk_per_day b)"
  by (simp add: level_def split: option.split)

text \<open>
  The expiry of a bucket is invisible.  Whatever the bucket was charged, at any later time
  it holds what an unexpiring one would hold, the refill up to the capacity: the key is gone
  only once the refill has filled the bucket.
\<close>

theorem expiry_is_invisible:
  assumes "0 < bk_per_day b" and "now \<le> later"
  shows "level b later (snd (settle_one b cost now st)) =
    min (of_nat (bk_per_day b)) (level b now st - cost + (later - now) * per_second b)"
proof -
  let ?c = "of_nat (bk_per_day b) :: rat" and ?r = "per_second b" and ?b = "level b now st - cost"
  have r: "0 < ?r" using assms(1) by (simp add: per_second_def SECONDS_PER_DAY_def)
  show ?thesis
  proof (cases "later < now + of_int \<lceil>(?c - ?b) / ?r\<rceil>")
    case True
    then show ?thesis by (simp add: level_def live_bucket_def settle_one_stored)
  next
    case False
    have "(?c - ?b) / ?r \<le> of_int \<lceil>(?c - ?b) / ?r\<rceil>" by (rule le_of_int_ceiling)
    with False have "(?c - ?b) / ?r \<le> later - now" by linarith
    then have "?c - ?b \<le> (later - now) * ?r" using r by (simp add: pos_divide_le_eq)
    with False show ?thesis by (simp add: level_def [of b later] live_bucket_def settle_one_stored)
  qed
qed

text \<open>
  A stored bucket expires no sooner than it is full, so its level only grows by the refill.
\<close>

definition bucket_ok :: "bucket \<Rightarrow> budget_store \<Rightarrow> bool" where
  "bucket_ok b st \<longleftrightarrow>
     (case st (bk_key b) of
        None \<Rightarrow> True
      | Some s \<Rightarrow> of_nat (bk_per_day b) - sd_balance s \<le> (sd_expires s - sd_at s) * per_second b)"

lemma per_second_pos: "0 < bk_per_day b \<Longrightarrow> 0 < per_second b"
  by (simp add: per_second_def SECONDS_PER_DAY_def)

lemma bucket_ok_settle:
  assumes "0 < bk_per_day b"
  shows "bucket_ok b (snd (settle_one b cost now st))"
proof -
  let ?x = "of_nat (bk_per_day b) - (level b now st - cost)"
  have "?x / per_second b \<le> of_int \<lceil>?x / per_second b\<rceil>" by (rule le_of_int_ceiling)
  with per_second_pos [OF assms] have "?x \<le> of_int \<lceil>?x / per_second b\<rceil> * per_second b"
    by (simp only: pos_divide_le_eq)
  then show ?thesis by (simp add: bucket_ok_def settle_one_stored)
qed

lemma level_later:
  assumes "0 < bk_per_day b" and "bucket_ok b st" and "now \<le> later"
  shows "level b later st \<le> level b now st + (later - now) * per_second b"
proof (cases "st (bk_key b)")
  case None
  then show ?thesis using per_second_pos [OF assms(1)] assms(3) by (simp add: level_def live_bucket_def)
next
  case (Some s)
  let ?r = "per_second b"
  have r: "0 \<le> (later - now) * ?r" using per_second_pos [OF assms(1)] assms(3) by simp
  have split: "(later - sd_at s) * ?r = (now - sd_at s) * ?r + (later - now) * ?r" by (simp add: algebra_simps)
  consider "later < sd_expires s" | "now < sd_expires s" "sd_expires s \<le> later" | "sd_expires s \<le> now"
    by linarith
  then show ?thesis
  proof cases
    case 2
    have "of_nat (bk_per_day b) - sd_balance s \<le> (sd_expires s - sd_at s) * ?r"
      using assms(2) Some by (simp add: bucket_ok_def)
    also have "\<dots> \<le> (later - sd_at s) * ?r"
      using 2 per_second_pos [OF assms(1)] by (intro mult_right_mono) simp_all
    finally show ?thesis using Some 2 split r by (simp add: level_def live_bucket_def min_def)
  qed (use Some assms(3) split r in \<open>simp_all add: level_def live_bucket_def min_def\<close>)
qed

text \<open>The buckets of a message have keys of their own, and each is settled as if it were alone.\<close>

lemma settle_one_other: "k \<noteq> bk_key b \<Longrightarrow> snd (settle_one b cost now st) k = st k"
  by (simp add: settle_one_def split: prod.split)

lemma level_cong: "st (bk_key b) = st' (bk_key b) \<Longrightarrow> level b now st = level b now st'"
  by (simp add: level_def)

lemma settle_buckets_other:
  "k \<notin> bk_key ` set bs \<Longrightarrow> snd (settle_buckets bs cost now st) k = st k"
  by (induction bs arbitrary: st) (auto simp: Let_def split_beta settle_one_other)

lemma settle_buckets_one:
  assumes "distinct (map bk_key bs)" and "b \<in> set bs"
  shows "snd (settle_buckets bs cost now st) (bk_key b) = snd (settle_one b cost now st) (bk_key b)"
    and "(b, level b now st - cost) \<in> set (fst (settle_buckets bs cost now st))"
proof -
  have "snd (settle_buckets bs cost now st) (bk_key b) = snd (settle_one b cost now st) (bk_key b) \<and>
      (b, level b now st - cost) \<in> set (fst (settle_buckets bs cost now st))"
    using assms
  proof (induction bs arbitrary: st)
    case (Cons c bs)
    let ?st = "snd (settle_one c cost now st)"
    show ?case
    proof (cases "b = c")
      case True
      with Cons.prems have "bk_key b \<notin> bk_key ` set bs" by auto
      then show ?thesis
        using True by (simp add: Let_def split_beta settle_buckets_other settle_one_level)
    next
      case False
      with Cons.prems have mem: "b \<in> set bs" "bk_key c \<notin> bk_key ` set bs" by auto
      then have b: "b \<in> set bs" "bk_key b \<noteq> bk_key c" by (metis imageI)+
      have "st (bk_key b) = ?st (bk_key b)" using b(2) by (simp add: settle_one_other)
      with level_cong have "level b now ?st = level b now st" by metis
      with Cons.IH [of ?st] Cons.prems(1) b(1) show ?thesis
        by (simp add: Let_def split_beta settle_one_stored)
    qed
  qed simp
  then show "snd (settle_buckets bs cost now st) (bk_key b) = snd (settle_one b cost now st) (bk_key b)"
    and "(b, level b now st - cost) \<in> set (fst (settle_buckets bs cost now st))" by blast+
qed

lemma scopes_differ: "U ''agent_budget:user:'' @ x \<noteq> U ''agent_budget:group:'' @ y"
  by (simp add: str_simps)

lemma bucket_of_key:
  "b \<in> set (budget_buckets pol d) \<Longrightarrow> b' \<in> set (budget_buckets pol d') \<Longrightarrow> bk_key b = bk_key b' \<Longrightarrow> b = b'"
  using scopes_differ scopes_differ [symmetric] by (auto simp: budget_buckets_def split: if_splits)

lemma distinct_buckets: "distinct (map bk_key (budget_buckets pol d))"
  using scopes_differ by (simp add: budget_buckets_def)

text \<open>
  What runs on the store: the check before a call and the debit after it, of any senders, in any
  order, each at its time; and the tokens that the debits take from one bucket.
\<close>

datatype budget_op = Check command_data rat | Debit command_data nat rat

fun op_time :: "budget_op \<Rightarrow> rat" where
  "op_time (Check d now) = now"
| "op_time (Debit d tokens now) = now"

fun budget_step :: "budget_policy \<Rightarrow> budget_op \<Rightarrow> budget_store \<Rightarrow> budget_store" where
  "budget_step pol (Check d now) st = snd (refill_at False pol d now st)"
| "budget_step pol (Debit d tokens now) st = spend False pol d tokens now st"

definition budget_run :: "budget_policy \<Rightarrow> budget_op list \<Rightarrow> budget_store \<Rightarrow> budget_store" where
  "budget_run pol ops st = fold (budget_step pol) ops st"

fun taken_from :: "budget_policy \<Rightarrow> bucket \<Rightarrow> budget_op \<Rightarrow> nat" where
  "taken_from pol b (Check d now) = 0"
| "taken_from pol b (Debit d tokens now) = (if b \<in> set (budget_buckets pol d) then tokens else 0)"

lemma budget_step_store:
  assumes "b \<in> set (budget_buckets pol d)"
  shows "budget_step pol op st (bk_key b) = st (bk_key b) \<and> taken_from pol b op = 0 \<or>
    budget_step pol op st (bk_key b) = snd (settle_one b (of_nat (taken_from pol b op)) (op_time op) st) (bk_key b)"
proof -
  have "\<exists>d' cost. budget_step pol op st = snd (settle_buckets (budget_buckets pol d') cost (op_time op) st) \<and>
      (b \<in> set (budget_buckets pol d') \<longrightarrow> cost = of_nat (taken_from pol b op)) \<and>
      (b \<notin> set (budget_buckets pol d') \<longrightarrow> taken_from pol b op = 0)"
    by (cases op) (auto simp: refill_at_def spend_def settle_all_def Let_def split_beta)
  then obtain d' cost where *: "budget_step pol op st = snd (settle_buckets (budget_buckets pol d') cost (op_time op) st)"
      "b \<in> set (budget_buckets pol d') \<longrightarrow> cost = of_nat (taken_from pol b op)"
      "b \<notin> set (budget_buckets pol d') \<longrightarrow> taken_from pol b op = 0" by blast
  show ?thesis
  proof (cases "b \<in> set (budget_buckets pol d')")
    case True
    with * settle_buckets_one(1) [OF distinct_buckets True] show ?thesis by simp
  next
    case False
    then have "bk_key b \<notin> bk_key ` set (budget_buckets pol d')" using bucket_of_key [OF assms] by blast
    with * False show ?thesis by (simp add: settle_buckets_other)
  qed
qed

lemma bucket_ok_run:
  assumes "0 < bk_per_day b" and "b \<in> set (budget_buckets pol d)"
  shows "bucket_ok b st \<Longrightarrow> bucket_ok b (budget_run pol ops st)"
proof (induction ops arbitrary: st)
  case (Cons op ops)
  have "bucket_ok b (budget_step pol op st)"
    using budget_step_store [OF assms(2), of op st] Cons.prems
      bucket_ok_settle [OF assms(1), of "of_nat (taken_from pol b op)" "op_time op" st]
    by (auto simp: bucket_ok_def)
  with Cons.IH show ?case by (simp add: budget_run_def)
qed (simp add: budget_run_def)

lemma level_run:
  assumes "0 < bk_per_day b" and "b \<in> set (budget_buckets pol d)"
  shows "bucket_ok b st \<Longrightarrow> sorted (start # map op_time ops @ [now]) \<Longrightarrow>
    level b now (budget_run pol ops st) + of_nat (sum_list (map (taken_from pol b) ops)) \<le>
      level b start st + (now - start) * per_second b"
proof (induction ops arbitrary: st start)
  case Nil
  with level_later [OF assms(1)] show ?case by (simp add: budget_run_def)
next
  case (Cons op ops)
  let ?t = "op_time op" and ?st = "budget_step pol op st" and ?c = "of_nat (taken_from pol b op) :: rat"
  have times: "start \<le> ?t" "sorted (?t # map op_time ops @ [now])" using Cons.prems(2) by auto
  have ok: "bucket_ok b ?st"
    using bucket_ok_run [OF assms, of st "[op]"] Cons.prems(1) by (simp add: budget_run_def)
  have "level b ?t ?st \<le> level b ?t st - ?c"
    using budget_step_store [OF assms(2), of op st]
  proof
    assume "?st (bk_key b) = st (bk_key b) \<and> taken_from pol b op = 0"
    with level_cong [of ?st b st ?t] show ?thesis by simp
  next
    assume "?st (bk_key b) = snd (settle_one b ?c ?t st) (bk_key b)"
    then have "level b ?t ?st = level b ?t (snd (settle_one b ?c ?t st))" by (rule level_cong)
    with expiry_is_invisible [OF assms(1) order_refl [of ?t], of ?c st] show ?thesis by simp
  qed
  moreover have "level b ?t st \<le> level b start st + (?t - start) * per_second b"
    by (rule level_later [OF assms(1) Cons.prems(1) times(1)])
  ultimately show ?case
    using Cons.IH [OF ok times(2)] by (simp add: budget_run_def algebra_simps)
qed

text \<open>A check that lets a call pass found every bucket above zero.\<close>

lemma budget_wait_mono: "wait \<le> budget_wait bs wait"
  by (induction bs wait rule: budget_wait.induct) (auto simp: max_def split: if_splits)

lemma budget_wait_zero:
  "budget_wait bs wait = 0 \<Longrightarrow> 0 \<le> wait \<Longrightarrow> (b, x) \<in> set bs \<Longrightarrow> 0 < bk_per_day b \<Longrightarrow> 0 < x"
proof (induction bs wait rule: budget_wait.induct)
  case (2 c balance bs wait)
  show ?case
  proof (cases "(b, x) = (c, balance)")
    case True
    show ?thesis
    proof (rule ccontr)
      assume "\<not> 0 < x"
      with True 2(5) have "0 < (1 - balance) / per_second c" using per_second_pos by simp
      with True \<open>\<not> 0 < x\<close> 2(2) budget_wait_mono [of "max wait ((1 - balance) / per_second c)" bs]
      show False by (simp add: max_def split: if_splits)
    qed
  next
    case False
    with 2 show ?thesis by (auto simp: max_def split: if_splits)
  qed
qed simp

lemma refill_none:
  assumes "refill_at False pol d now st = (None, st')" and "bp_enforce pol" and "b \<in> set (budget_buckets pol d)"
    and "0 < bk_per_day b"
  shows "0 < level b now st"
proof -
  have "budget_wait (fst (settle_buckets (budget_buckets pol d) 0 now st)) 0 = 0"
    using assms(1,2) by (simp add: refill_at_def settle_all_def Let_def split_beta split: if_splits)
  from budget_wait_zero [OF this order_refl settle_buckets_one(2) [OF distinct_buckets assms(3)] assms(4)]
  show ?thesis by simp
qed

text \<open>
  C10: the budget bounds what is spent.  The checks before the calls of the model and the debits
  after them run on the store in any order, of any senders, overlapping as they like.  Whenever a
  check lets a call pass, the debits made so far took from each bucket of that sender, and of that
  group, less than its budget of a day plus the refill, in whatever stretch of time before the check
  they are counted.  So only calls that passed their check and are not debited yet can overdraw a
  bucket.  Redis answers; the policy is enforced; an owner has no bucket.
\<close>

theorem budget_bounds_spending:
  assumes "bp_enforce pol" and "b \<in> set (budget_buckets pol d)" and "0 < bk_per_day b"
    and "sorted (start # map op_time ops @ [now])"
    and "refill_at False pol d now (budget_run pol (history @ ops) Map.empty) = (None, st')"
  shows "of_nat (sum_list (map (taken_from pol b) ops)) < of_nat (bk_per_day b) + (now - start) * per_second b"
proof -
  let ?st = "budget_run pol history Map.empty"
  have "bucket_ok b ?st" by (rule bucket_ok_run [OF assms(3,2)]) (simp add: bucket_ok_def)
  from level_run [OF assms(3,2) this assms(4)]
  have "level b now (budget_run pol ops ?st) + of_nat (sum_list (map (taken_from pol b) ops)) \<le>
      level b start ?st + (now - start) * per_second b" .
  moreover have "0 < level b now (budget_run pol ops ?st)"
    using refill_none [OF assms(5,1,2,3)] by (simp add: budget_run_def)
  ultimately show ?thesis using level_le [of b start ?st] by linarith
qed

definition example_bucket :: bucket where
  "example_bucket = \<lparr>bk_scope = U ''user'', bk_key = U ''k'', bk_per_day = 1000\<rparr>"

theorem expiry_is_invisible_witness:
  "level example_bucket 86400 (snd (settle_one example_bucket 1500 0 Map.empty)) =
    min 1000 (level example_bucket 0 Map.empty - 1500 + 86400 * per_second example_bucket)"
  using expiry_is_invisible [of example_bucket 0 86400 1500 Map.empty] by (simp add: example_bucket_def)

definition example_policy :: budget_policy where
  "example_policy = \<lparr>bp_user_per_day = 1000, bp_group_per_day = 5000, bp_enforce = True, bp_owners = {}\<rparr>"

definition example_asker :: command_data where
  "example_asker = CommandData [] [] []"

definition user_bucket :: bucket where
  "user_bucket = \<lparr>bk_scope = U ''user'', bk_key = U ''agent_budget:user:'', bk_per_day = 1000\<rparr>"

text \<open>Two calls at once, one of them debited.\<close>

definition example_ops :: "budget_op list" where
  "example_ops = [Check example_asker 0, Check example_asker 1, Debit example_asker 900 10]"

theorem budget_bounds_spending_witness:
  "of_nat (sum_list (map (taken_from example_policy user_bucket) example_ops)) <
     of_nat (bk_per_day user_bucket) + (20 - 0) * per_second user_bucket"
proof -
  let ?st = "budget_run example_policy ([] @ example_ops) Map.empty"
  have b: "budget_buckets example_policy example_asker = [user_bucket]"
    by (simp add: budget_buckets_def example_policy_def example_asker_def user_bucket_def)
  have enforce: "bp_enforce example_policy" by (simp add: example_policy_def)
  have "fst (refill_at False example_policy example_asker 20 ?st) = None"
    by (simp add: refill_at_def settle_all_def b settle_one_def settle_script_def live_bucket_def user_bucket_def
      budget_run_def spend_def example_ops_def per_second_def SECONDS_PER_DAY_def Let_def)
  then have passes: "refill_at False example_policy example_asker 20 ?st =
      (None, snd (refill_at False example_policy example_asker 20 ?st))" by (simp add: prod_eq_iff)
  show ?thesis
    by (rule budget_bounds_spending [OF enforce _ _ _ passes])
       (simp_all add: b example_ops_def user_bucket_def)
qed

subsection \<open>Turns of a conversation\<close>

text \<open>
  \<open>turns key\<close> is the pipeline of the two Redis commands, which answers the counter of the
  window or raises; a \<open>RedisError\<close> lets the turn pass.
\<close>

definition MAX_TURNS :: nat where
  "MAX_TURNS = 8"

definition redis_error :: "exn \<Rightarrow> bool" where
  "redis_error e \<longleftrightarrow> e = OtherExn (U ''RedisError'')"

definition limiter_allow :: "(pystr \<Rightarrow> (exn, 'w, nat) act) \<Rightarrow> pystr \<Rightarrow> (exn, 'w, bool) act" where
  "limiter_allow turns conversation =
     handleA (bindA (turns (U ''agent_turns:'' @ conversation)) (\<lambda>n. ret (n \<le> MAX_TURNS)))
       (\<lambda>e. if redis_error e then ret True else raise e)"

definition throttled_run ::
  "(pystr \<Rightarrow> (exn, 'w, bool) act) option \<Rightarrow> (command_data \<Rightarrow> (exn, 'w, command_data option) act) \<Rightarrow>
   command_data \<Rightarrow> (exn, 'w, command_data option) act" where
  "throttled_run limiter agent d =
     (let who = (if truthy_str (cd_participant d) then the (cd_participant d) else cd_sender_jid d)
      in case limiter of
           None \<Rightarrow> agent d
         | Some allow \<Rightarrow>
             bindA (allow (cd_jid d @ U '':'' @ who)) (\<lambda>ok. if ok then agent d else ret None))"

subsection \<open>The inbox\<close>

definition inbox_is_done :: "(pystr \<Rightarrow> (exn, 'w, bool) act) \<Rightarrow> pystr \<Rightarrow> (exn, 'w, bool) act" where
  "inbox_is_done redis_exists key =
     handleA (redis_exists (U ''command_done:'' @ key)) (\<lambda>e. if redis_error e then ret False else raise e)"

definition inbox_mark_done :: "(pystr \<Rightarrow> (exn, 'w, unit) act) \<Rightarrow> pystr \<Rightarrow> (exn, 'w, unit) act" where
  "inbox_mark_done redis_set key =
     handleA (redis_set (U ''command_done:'' @ key)) (\<lambda>e. if redis_error e then ret () else raise e)"

text \<open>
  An outage of Redis never loses a command.  When Redis is away the inbox answers that the
  command is new, marks it without an error, and the limiter lets the turn pass, so a delivery
  is handled exactly as with no inbox and no limiter.
\<close>

theorem redis_outage_fails_open:
  assumes "\<And>k w. redis_exists k w = (Inl (OtherExn (U ''RedisError'')), w)"
    and "\<And>k w. redis_set k w = (Inl (OtherExn (U ''RedisError'')), w)"
    and "\<And>k w. turns k w = (Inl (OtherExn (U ''RedisError'')), w)"
    and "po_inbox po = Some (inbox_is_done redis_exists, inbox_mark_done redis_set)"
  shows "answer po handler env w = answer (po\<lparr>po_inbox := None\<rparr>) handler env w \<and>
    throttled_run (Some (limiter_allow turns)) agent d w = throttled_run None agent d w"
proof -
  have quiet: "inbox_is_done redis_exists k = ret False" "inbox_mark_done redis_set k = ret ()" for k
    by (rule ext; simp add: inbox_is_done_def inbox_mark_done_def handleA_def assms(1,2) redis_error_def)+
  have mark: "mark_answered (po\<lparr>po_inbox := None\<rparr>) = mark_answered po"
    by (simp add: fun_eq_iff mark_answered_def assms(4) quiet split: option.split)
  have eqs: "already_answered (po\<lparr>po_inbox := None\<rparr>) = already_answered po"
    "publish_reply (po\<lparr>po_inbox := None\<rparr>) = publish_reply po"
    "po_publish_retry (po\<lparr>po_inbox := None\<rparr>) = po_publish_retry po"
    "po_publish_dlq (po\<lparr>po_inbox := None\<rparr>) = po_publish_dlq po"
    by (simp_all add: fun_eq_iff already_answered_def publish_reply_def mark
        assms(4) quiet split: option.split)
  have "answer (po\<lparr>po_inbox := None\<rparr>) handler env = answer po handler env"
    unfolding answer_def eqs ..
  moreover have "limiter_allow turns c w = (Inr True, w)" for c w
    by (simp add: limiter_allow_def handleA_def bindA_def assms(3) redis_error_def)
  ultimately show ?thesis by (simp add: throttled_run_def bindA_def Let_def)
qed

subsection \<open>The platform supervisor\<close>

datatype platform_status = STARTING | RETRYING | UP | FAILED

datatype connect_result = CONNECTED | AUTH_REJECTED | CONNECT_FAILED

text \<open>\<open>sv_sleeps\<close> is the trace of the sleeps, in seconds; \<open>sv_shutdowns\<close> counts the hooks.\<close>

record supervisor =
  sv_statuses :: "platform \<rightharpoonup> platform_status"
  sv_shutdowns :: nat
  sv_sleeps :: "nat list"

definition INITIAL_BACKOFF :: nat where "INITIAL_BACKOFF = 5"
definition MAX_BACKOFF :: nat where "MAX_BACKOFF = 300"

definition start_platform :: "platform \<Rightarrow> supervisor \<Rightarrow> supervisor" where
  "start_platform name s = s\<lparr>sv_statuses := (sv_statuses s)(name \<mapsto> STARTING)\<rparr>"

definition attempt :: "platform \<Rightarrow> connect_result \<Rightarrow> nat \<Rightarrow> supervisor \<Rightarrow> supervisor" where
  "attempt name r backoff s =
     (case r of
        AUTH_REJECTED \<Rightarrow> s\<lparr>sv_statuses := (sv_statuses s)(name \<mapsto> FAILED)\<rparr>
      | CONNECT_FAILED \<Rightarrow>
          s\<lparr>sv_statuses := (sv_statuses s)(name \<mapsto> RETRYING), sv_sleeps := sv_sleeps s @ [backoff]\<rparr>
      | CONNECTED \<Rightarrow>
          s\<lparr>sv_statuses := (sv_statuses s)(name \<mapsto> UP), sv_shutdowns := Suc (sv_shutdowns s)\<rparr>)"

text \<open>The loop of \<open>_supervise\<close>; \<open>connect i\<close> is the result of the i-th attempt.\<close>

partial_function (option) supervise ::
  "(nat \<Rightarrow> connect_result) \<Rightarrow> platform \<Rightarrow> nat \<Rightarrow> nat \<Rightarrow> supervisor \<Rightarrow> supervisor option" where
  "supervise connect name i backoff s =
     (if sv_statuses s name \<in> {Some UP, Some FAILED} then Some s
      else supervise connect name (Suc i) (min (backoff * 2) MAX_BACKOFF)
             (attempt name (connect i) backoff s))"

definition supervise_platform ::
  "(nat \<Rightarrow> connect_result) \<Rightarrow> platform \<Rightarrow> supervisor \<Rightarrow> supervisor option" where
  "supervise_platform connect name s = supervise connect name 0 INITIAL_BACKOFF (start_platform name s)"

definition backoff_at :: "nat \<Rightarrow> nat" where
  "backoff_at i = min (INITIAL_BACKOFF * 2 ^ i) MAX_BACKOFF"

lemma backoff_Suc: "min (backoff_at i * 2) MAX_BACKOFF = backoff_at (Suc i)"
  by (simp add: backoff_at_def min_def MAX_BACKOFF_def INITIAL_BACKOFF_def)

lemma supervise_run:
  assumes "\<And>j. i \<le> j \<Longrightarrow> j < k \<Longrightarrow> connect j = CONNECT_FAILED" and "i \<le> k" and "connect k \<noteq> CONNECT_FAILED"
    and "sv_statuses s name \<in> {Some STARTING, Some RETRYING}"
  shows "supervise connect name i (backoff_at i) s =
    Some (s\<lparr>sv_statuses := (sv_statuses s)(name \<mapsto> if connect k = CONNECTED then UP else FAILED),
            sv_shutdowns := sv_shutdowns s + (if connect k = CONNECTED then 1 else 0),
            sv_sleeps := sv_sleeps s @ map backoff_at [i..<k]\<rparr>)"
  using assms
proof (induction "k - i" arbitrary: i s)
  case 0
  then have "i = k" by simp
  have "supervise connect name i (backoff_at i) s =
      supervise connect name (Suc i) (min (backoff_at i * 2) MAX_BACKOFF) (attempt name (connect i) (backoff_at i) s)"
    using 0(5) by (subst supervise.simps) auto
  also have "\<dots> = Some (attempt name (connect i) (backoff_at i) s)"
    using 0(4) \<open>i = k\<close> by (subst supervise.simps) (auto simp: attempt_def split: connect_result.split)
  finally show ?case
    using 0(4) \<open>i = k\<close> by (auto simp: attempt_def fun_upd_def split: connect_result.splits)
next
  case (Suc n)
  let ?s = "attempt name (connect i) (backoff_at i) s"
  from Suc have i: "i < k" "connect i = CONNECT_FAILED" "n = k - Suc i" by auto
  have "supervise connect name i (backoff_at i) s =
      supervise connect name (Suc i) (backoff_at (Suc i)) ?s"
    using Suc.prems(4) by (subst supervise.simps) (auto simp: backoff_Suc)
  also have "\<dots> = Some (?s\<lparr>sv_statuses := (sv_statuses ?s)(name \<mapsto> if connect k = CONNECTED then UP else FAILED),
            sv_shutdowns := sv_shutdowns ?s + (if connect k = CONNECTED then 1 else 0),
            sv_sleeps := sv_sleeps ?s @ map backoff_at [Suc i..<k]\<rparr>)"
    using Suc.hyps(1) [OF i(3), of ?s] Suc.prems i by (simp add: attempt_def)
  finally show ?case using i by (simp add: attempt_def upt_conv_Cons)
qed

text \<open>
  Supervision of a platform.  If some attempt connects or is rejected, the loop returns
  after the first such attempt, with the status up or failed accordingly, having slept five
  seconds, then twice as long each time, but never more than five minutes, and without touching
  the other platforms.
\<close>

theorem supervision_returns:
  assumes "\<And>j. j < k \<Longrightarrow> connect j = CONNECT_FAILED" and "connect k \<noteq> CONNECT_FAILED"
  shows "\<exists>s'. supervise_platform connect name s = Some s' \<and>
    sv_statuses s' = (sv_statuses s)(name \<mapsto> if connect k = CONNECTED then UP else FAILED) \<and>
    sv_shutdowns s' = sv_shutdowns s + (if connect k = CONNECTED then 1 else 0) \<and>
    sv_sleeps s' = sv_sleeps s @ map (\<lambda>j. min (5 * 2 ^ j) 300) [0..<k]"
proof -
  have "backoff_at 0 = INITIAL_BACKOFF" by (simp add: backoff_at_def INITIAL_BACKOFF_def MAX_BACKOFF_def)
  moreover have "map backoff_at [0..<k] = map (\<lambda>j. min (5 * 2 ^ j) 300) [0..<k]"
    by (simp add: backoff_at_def INITIAL_BACKOFF_def MAX_BACKOFF_def)
  ultimately show ?thesis
    using supervise_run [of 0 k connect "start_platform name s" name] assms
    by (simp add: supervise_platform_def start_platform_def)
qed

theorem supervision_returns_witness:
  "\<exists>s'. supervise_platform (\<lambda>i. if i < 3 then CONNECT_FAILED else AUTH_REJECTED) TELEGRAM
      \<lparr>sv_statuses = [DISCORD \<mapsto> UP], sv_shutdowns = 1, sv_sleeps = []\<rparr> = Some s' \<and>
    sv_statuses s' = [DISCORD \<mapsto> UP, TELEGRAM \<mapsto> FAILED] \<and> sv_shutdowns s' = 1 \<and> sv_sleeps s' = [5, 10, 20]"
  using supervision_returns [of 3 "\<lambda>i. if i < 3 then CONNECT_FAILED else AUTH_REJECTED" TELEGRAM
      "\<lparr>sv_statuses = [DISCORD \<mapsto> UP], sv_shutdowns = 1, sv_sleeps = []\<rparr>"]
  by (simp add: upt_rec)

theorem redis_outage_fails_open_witness:
  "answer \<lparr>po_publish_reply = (\<lambda>j. ret ()), po_publish_retry = (\<lambda>e. ret ()), po_publish_dlq = (\<lambda>e. ret ()),
      po_inbox = Some (inbox_is_done (\<lambda>k w. (Inl (OtherExn (U ''RedisError'')), w)),
                       inbox_mark_done (\<lambda>k w. (Inl (OtherExn (U ''RedisError'')), w)))\<rparr>
      (\<lambda>d. ret None) example_envelope () =
   answer \<lparr>po_publish_reply = (\<lambda>j. ret ()), po_publish_retry = (\<lambda>e. ret ()), po_publish_dlq = (\<lambda>e. ret ()),
      po_inbox = None\<rparr> (\<lambda>d. ret None) example_envelope ()"
  using redis_outage_fails_open [where redis_exists = "\<lambda>k w. (Inl (OtherExn (U ''RedisError'')), w)"
      and redis_set = "\<lambda>k w. (Inl (OtherExn (U ''RedisError'')), w)"
      and turns = "\<lambda>k w. (Inl (OtherExn (U ''RedisError'')), w)"
      and po = "\<lparr>po_publish_reply = (\<lambda>j. ret ()), po_publish_retry = (\<lambda>e. ret ()), po_publish_dlq = (\<lambda>e. ret ()),
        po_inbox = Some (inbox_is_done (\<lambda>k w. (Inl (OtherExn (U ''RedisError'')), w)),
                         inbox_mark_done (\<lambda>k w. (Inl (OtherExn (U ''RedisError'')), w)))\<rparr>"
      and handler = "\<lambda>d. ret None" and env = example_envelope and w = "()"
      and agent = "\<lambda>d. ret None" and d = "en_data example_envelope"]
  by simp

end
