(* ===== verification/Mentions.thy ===== *)
theory Mentions
  imports Command_Run
begin

text \<open>
  The mention lists of a chat (bot/domain/services/mentions/, behind the facade
  bot/domain/services/group_mentions.py): named lists of participants in one MongoDB document
  per chat.  Every call of the collection is an operation of the record \<open>mention_col\<close>; what the
  filters and updates written in the source do to a document is the store \<open>doc_col\<close>.  The
  services are proved once, over the laws of a collection, and used for the documents.
\<close>

subsection \<open>The collection\<close>

record mention_group =
  mg_name :: pystr
  mg_participants :: "pystr list"

text \<open>
  The calls, each one atomic: the groups of the document of a chat, the first group of a name,
  and the updates, which return their \<open>matched_count\<close> (\<open>mc_add\<close>) or \<open>modified_count\<close>.
\<close>

record 'w mention_col =
  mc_find :: "pystr \<Rightarrow> (exn, 'w, mention_group list option) act"
  mc_find_group :: "pystr \<Rightarrow> pystr \<Rightarrow> (exn, 'w, mention_group option) act"
  mc_push :: "bool \<Rightarrow> pystr \<Rightarrow> mention_group \<Rightarrow> (exn, 'w, nat) act"
  mc_rename :: "pystr \<Rightarrow> pystr \<Rightarrow> pystr \<Rightarrow> (exn, 'w, nat) act"
  mc_pull_group :: "pystr \<Rightarrow> pystr \<Rightarrow> (exn, 'w, nat) act"
  mc_add :: "pystr \<Rightarrow> pystr \<Rightarrow> pystr list \<Rightarrow> (exn, 'w, nat) act"
  mc_pull_members :: "pystr \<Rightarrow> pystr \<Rightarrow> pystr list \<Rightarrow> (exn, 'w, nat) act"

definition duplicate_key :: exn where
  "duplicate_key = OtherExn (U ''DuplicateKeyError'')"

subsection \<open>The services\<close>

text \<open>
  A service returns \<open>Inl\<close> a message to the user (\<open>ok\<close> is false) or \<open>Inr\<close> its result, and turns
  any \<open>Exception\<close> into its own message.
\<close>

type_synonym 'a answer = "pystr + 'a"

definition answering ::
  "pystr \<Rightarrow> (exn, 'w, 'a answer) act \<Rightarrow> (exn, 'w, 'a answer) act" where
  "answering failure m = handleA m (\<lambda>e. if is_exception e then ret (Inl failure) else raise e)"

definition missing_group :: "pystr \<Rightarrow> pystr" where
  "missing_group n = U ''N{227}o existe um grupo com o nome *'' @ n @ U ''* {128532}''"

definition taken_group :: "pystr \<Rightarrow> pystr" where
  "taken_group n = U ''J{225} existe um grupo com o nome *'' @ n @ U ''* {128532}''"

definition no_groups :: pystr where
  "no_groups = U ''Voc{234} n{227}o tem grupos {128532}''"

text \<open>\<open>list(dict.fromkeys(xs))\<close>.\<close>

definition first_of_each :: "'a list \<Rightarrow> 'a list" where
  "first_of_each xs = rev (remdups (rev xs))"

definition push_unless_taken :: "'w mention_col \<Rightarrow> pystr \<Rightarrow> mention_group \<Rightarrow> (exn, 'w, bool) act" where
  "push_unless_taken col chat g =
     handleA (bindA (mc_push col True chat g) (\<lambda>_. ret True))
       (\<lambda>e. if e = duplicate_key then bindA (mc_push col False chat g) (\<lambda>n. ret (n = 1)) else raise e)"

definition create_list ::
  "'w mention_col \<Rightarrow> pystr \<Rightarrow> pystr \<Rightarrow> pystr \<Rightarrow> pystr list \<Rightarrow> (exn, 'w, pystr answer) act" where
  "create_list col chat sender n mentioned =
     answering (U ''N{227}o consegui criar o grupo *'' @ n @ U ''* {128532}'')
       (bindA (push_unless_taken col chat
                \<lparr>mg_name = n,
                 mg_participants = first_of_each (normalize_jid sender # normalize_jids (map Some mentioned))\<rparr>)
          (\<lambda>ok. ret (if ok then Inr n else Inl (taken_group n))))"

definition rename_refusal ::
  "'w mention_col \<Rightarrow> pystr \<Rightarrow> pystr \<Rightarrow> pystr \<Rightarrow> (exn, 'w, (pystr \<times> pystr) answer) act" where
  "rename_refusal col chat old new =
     bindA (mc_find_group col chat old)
       (\<lambda>g. ret (Inl (if g \<noteq> None then taken_group new else missing_group old)))"

definition rename_list ::
  "'w mention_col \<Rightarrow> pystr \<Rightarrow> pystr \<Rightarrow> pystr \<Rightarrow> (exn, 'w, (pystr \<times> pystr) answer) act" where
  "rename_list col chat old new =
     answering (U ''N{227}o consegui renomear o grupo *'' @ old @ U ''* {128532}'')
       (bindA (mc_rename col chat old new)
          (\<lambda>modified. if modified = 0 then rename_refusal col chat old new else ret (Inr (old, new))))"

definition delete_list :: "'w mention_col \<Rightarrow> pystr \<Rightarrow> pystr \<Rightarrow> (exn, 'w, pystr answer) act" where
  "delete_list col chat n =
     answering (U ''N{227}o consegui deletar o grupo *'' @ n @ U ''* {128532}'')
       (bindA (mc_pull_group col chat n)
          (\<lambda>modified. ret (if modified = 0 then Inl (missing_group n) else Inr n)))"

definition list_all_lists :: "'w mention_col \<Rightarrow> pystr \<Rightarrow> (exn, 'w, mention_group list answer) act" where
  "list_all_lists col chat =
     answering (U ''N{227}o consegui listar os grupos {128532}'')
       (bindA (mc_find col chat)
          (\<lambda>doc. ret (case doc of
             None \<Rightarrow> Inl no_groups
           | Some gs \<Rightarrow> if gs = [] then Inl no_groups else Inr gs)))"

text \<open>\<open>GetMentionList\<close> and \<open>MentionGroup\<close> differ in their message for a failure.\<close>

definition read_list ::
  "pystr \<Rightarrow> 'w mention_col \<Rightarrow> pystr \<Rightarrow> pystr \<Rightarrow> (exn, 'w, pystr list answer) act" where
  "read_list failure col chat n =
     answering failure
       (bindA (mc_find col chat)
          (\<lambda>doc. ret (case doc of
             None \<Rightarrow> Inl no_groups
           | Some gs \<Rightarrow>
               if gs = [] then Inl no_groups
               else case find (\<lambda>g. mg_name g = n) gs of
                      None \<Rightarrow> Inl (missing_group n)
                    | Some g \<Rightarrow> Inr (mg_participants g))))"

definition get_list :: "'w mention_col \<Rightarrow> pystr \<Rightarrow> pystr \<Rightarrow> (exn, 'w, pystr list answer) act" where
  "get_list = read_list (U ''N{227}o consegui listar os grupos {128532}'')"

definition mention_list :: "'w mention_col \<Rightarrow> pystr \<Rightarrow> pystr \<Rightarrow> (exn, 'w, pystr list answer) act" where
  "mention_list = read_list (U ''N{227}o consegui marcar os participantes {128532}'')"

text \<open>The result of \<open>add_to_list\<close> and \<open>exit_list\<close> is \<open>self_only\<close>.\<close>

definition add_to_list ::
  "'w mention_col \<Rightarrow> pystr \<Rightarrow> pystr \<Rightarrow> pystr \<Rightarrow> pystr list \<Rightarrow> (exn, 'w, bool answer) act" where
  "add_to_list col chat n sender participants =
     answering (U ''N{227}o consegui adicionar os participantes {128532}'')
       (bindA (mc_add col chat n
                (if participants \<noteq> [] then normalize_jids (map Some participants) else [normalize_jid sender]))
          (\<lambda>matched. ret (if matched = 0 then Inl (missing_group n) else Inr (participants = []))))"

definition matching_participants :: "pystr \<Rightarrow> pystr list \<Rightarrow> pystr list" where
  "matching_participants sender ps = filter (\<lambda>p. normalize_jid p = normalize_jid sender) ps"

definition to_remove :: "removal_targets \<Rightarrow> pystr \<Rightarrow> pystr list \<Rightarrow> pystr list" where
  "to_remove t sender ps =
     (if is_self_exit t then matching_participants sender ps else resolve_targets t ps)"

definition pull_listed :: "'w mention_col \<Rightarrow> pystr \<Rightarrow> pystr \<Rightarrow> pystr list \<Rightarrow> (exn, 'w, bool) act" where
  "pull_listed col chat n ps =
     (if ps = [] then ret False
      else bindA (mc_pull_members col chat n ps) (\<lambda>modified. ret (0 < modified)))"

definition exit_list ::
  "'w mention_col \<Rightarrow> pystr \<Rightarrow> pystr \<Rightarrow> pystr \<Rightarrow> removal_targets \<Rightarrow> (exn, 'w, bool answer) act" where
  "exit_list col chat n sender t =
     answering (U ''N{227}o consegui remover os participantes {128532}'')
       (bindA (mc_find_group col chat n)
          (\<lambda>g. case g of
             None \<Rightarrow> ret (Inl (missing_group n))
           | Some g \<Rightarrow>
               bindA (pull_listed col chat n (to_remove t sender (mg_participants g)))
                 (\<lambda>ok. ret (if ok then Inr (is_self_exit t)
                   else if is_self_exit t
                   then Inl (U ''Voc{234} n{227}o est{225} no grupo *'' @ n @ U ''* {128532}'')
                   else Inl (U ''Nenhum participante encontrado para remover {128532}'')))))"

subsection \<open>The documents\<close>

text \<open>
  The groups of a chat, in the order in which they were pushed.  A filter on \<open>groups.name\<close>
  matches when some group has the name, \<open>$\<close> is the first one, and \<open>$pull\<close> and the filtered
  \<open>$[target]\<close> reach every one.
\<close>

type_synonym mention_docs = "pystr \<rightharpoonup> mention_group list"

definition has_group :: "mention_docs \<Rightarrow> pystr \<Rightarrow> pystr \<Rightarrow> bool" where
  "has_group db chat n \<longleftrightarrow> (case db chat of None \<Rightarrow> False | Some gs \<Rightarrow> n \<in> set (map mg_name gs))"

text \<open>
  Without a match, an upsert inserts a document of the chat, which fails when the chat has one.
\<close>

definition doc_push :: "bool \<Rightarrow> pystr \<Rightarrow> mention_group \<Rightarrow> (exn, mention_docs, nat) act" where
  "doc_push upsert chat g db =
     (case db chat of
        None \<Rightarrow> (Inr 0, if upsert then db(chat \<mapsto> [g]) else db)
      | Some gs \<Rightarrow>
          if mg_name g \<notin> set (map mg_name gs) then (Inr 1, db(chat \<mapsto> gs @ [g]))
          else if upsert then (Inl duplicate_key, db) else (Inr 0, db))"

fun update_first :: "pystr \<Rightarrow> (pystr list \<Rightarrow> pystr list) \<Rightarrow> mention_group list \<Rightarrow> mention_group list" where
  "update_first n f [] = []"
| "update_first n f (g # gs) =
     (if mg_name g = n then g\<lparr>mg_participants := f (mg_participants g)\<rparr> # gs else g # update_first n f gs)"

definition add_each :: "'a list \<Rightarrow> 'a list \<Rightarrow> 'a list" where
  "add_each xs ps = fold (\<lambda>x ps. if x \<in> set ps then ps else ps @ [x]) xs ps"

definition doc_col :: "mention_docs mention_col" where
  "doc_col = \<lparr>
     mc_find = (\<lambda>chat db. (Inr (db chat), db)),
     mc_find_group = (\<lambda>chat n db.
       (Inr (case db chat of None \<Rightarrow> None | Some gs \<Rightarrow> find (\<lambda>g. mg_name g = n) gs), db)),
     mc_push = doc_push,
     mc_rename = (\<lambda>chat old new db.
       if has_group db chat old \<and> \<not> has_group db chat new
       then (Inr 1, db(chat \<mapsto> map (\<lambda>g. if mg_name g = old then g\<lparr>mg_name := new\<rparr> else g) (the (db chat))))
       else (Inr 0, db)),
     mc_pull_group = (\<lambda>chat n db.
       if has_group db chat n then (Inr 1, db(chat \<mapsto> filter (\<lambda>g. mg_name g \<noteq> n) (the (db chat))))
       else (Inr 0, db)),
     mc_add = (\<lambda>chat n xs db.
       if has_group db chat n then (Inr 1, db(chat \<mapsto> update_first n (add_each xs) (the (db chat))))
       else (Inr 0, db)),
     mc_pull_members = (\<lambda>chat n xs db.
       if has_group db chat n
       then (let gs = the (db chat); gs' = update_first n (filter (\<lambda>p. p \<notin> set xs)) gs
             in (Inr (if gs' = gs then 0 else 1), db(chat \<mapsto> gs')))
       else (Inr 0, db))\<rparr>"

subsection \<open>The facade\<close>

datatype mention_op =
    Create pystr pystr "pystr list"        \<comment> \<open>sender, name, mentioned\<close>
  | Rename pystr pystr
  | Delete pystr
  | ListAll
  | ListOne pystr
  | Add pystr pystr "pystr list"           \<comment> \<open>name, sender, participants\<close>
  | Exit pystr pystr removal_targets       \<comment> \<open>name, sender, targets\<close>
  | Mention pystr

datatype 'g mention_result =
    Refused pystr | Named pystr | Renamed pystr pystr | Groups 'g | Members "pystr list" | SelfOnly bool

definition answer_as :: "('a \<Rightarrow> 'g mention_result) \<Rightarrow> (exn, 'w, 'a answer) act \<Rightarrow> (exn, 'w, 'g mention_result) act" where
  "answer_as f m = bindA m (\<lambda>a. ret (case a of Inl msg \<Rightarrow> Refused msg | Inr x \<Rightarrow> f x))"

fun mention_service ::
  "'w mention_col \<Rightarrow> pystr \<Rightarrow> mention_op \<Rightarrow> (exn, 'w, mention_group list mention_result) act" where
  "mention_service col chat (Create sender n mentioned) = answer_as Named (create_list col chat sender n mentioned)"
| "mention_service col chat (Rename old new) = answer_as (\<lambda>(o', n'). Renamed o' n') (rename_list col chat old new)"
| "mention_service col chat (Delete n) = answer_as Named (delete_list col chat n)"
| "mention_service col chat ListAll = answer_as Groups (list_all_lists col chat)"
| "mention_service col chat (ListOne n) = answer_as Members (get_list col chat n)"
| "mention_service col chat (Add n sender ps) = answer_as SelfOnly (add_to_list col chat n sender ps)"
| "mention_service col chat (Exit n sender t) = answer_as SelfOnly (exit_list col chat n sender t)"
| "mention_service col chat (Mention n) = answer_as Members (mention_list col chat n)"

subsection \<open>What a service promises\<close>

text \<open>A chat is a map from names to participants.\<close>

type_synonym mention_map = "pystr \<rightharpoonup> pystr list"

definition group_map :: "mention_group list \<Rightarrow> mention_map" where
  "group_map gs = map_of (map (\<lambda>g. (mg_name g, mg_participants g)) gs)"

definition spec_read :: "mention_map \<Rightarrow> pystr \<Rightarrow> mention_map mention_result" where
  "spec_read m n =
     (if m = Map.empty then Refused no_groups
      else case m n of None \<Rightarrow> Refused (missing_group n) | Some ps \<Rightarrow> Members ps)"

fun mention_spec :: "mention_op \<Rightarrow> mention_map \<Rightarrow> mention_map mention_result \<times> mention_map" where
  "mention_spec (Create sender n mentioned) m =
     (if m n \<noteq> None then (Refused (taken_group n), m)
      else (Named n, m(n \<mapsto> first_of_each (normalize_jid sender # normalize_jids (map Some mentioned)))))"
| "mention_spec (Rename old new) m =
     (if m old = None then (Refused (missing_group old), m)
      else if m new \<noteq> None then (Refused (taken_group new), m)
      else (Renamed old new, m(old := None, new := m old)))"
| "mention_spec (Delete n) m =
     (if m n = None then (Refused (missing_group n), m) else (Named n, m(n := None)))"
| "mention_spec ListAll m = (if m = Map.empty then Refused no_groups else Groups m, m)"
| "mention_spec (ListOne n) m = (spec_read m n, m)"
| "mention_spec (Add n sender ps) m =
     (case m n of
        None \<Rightarrow> (Refused (missing_group n), m)
      | Some qs \<Rightarrow>
          (SelfOnly (ps = []),
           m(n \<mapsto> add_each (if ps \<noteq> [] then normalize_jids (map Some ps) else [normalize_jid sender]) qs)))"
| "mention_spec (Exit n sender t) m =
     (case m n of
        None \<Rightarrow> (Refused (missing_group n), m)
      | Some ps \<Rightarrow>
          let out = to_remove t sender ps in
          if set out \<inter> set ps = {}
          then (Refused (if is_self_exit t then U ''Voc{234} n{227}o est{225} no grupo *'' @ n @ U ''* {128532}''
                         else U ''Nenhum participante encontrado para remover {128532}''), m)
          else (SelfOnly (is_self_exit t), m(n \<mapsto> filter (\<lambda>p. p \<notin> set out) ps)))"
| "mention_spec (Mention n) m = (spec_read m n, m)"

subsection \<open>The interface of a collection\<close>

definition put_list :: "(pystr \<Rightarrow> mention_map) \<Rightarrow> pystr \<Rightarrow> pystr \<Rightarrow> pystr list option \<Rightarrow> pystr \<Rightarrow> mention_map" where
  "put_list v chat n x = v(chat := (v chat)(n := x))"

lemma find_group_map: "map_option mg_participants (find (\<lambda>g. mg_name g = n) gs) = group_map gs n"
  by (induction gs) (auto simp: group_map_def)

lemma distinct_first_of_each: "distinct (first_of_each xs)"
  by (simp add: first_of_each_def)

lemma group_map_empty: "group_map gs = Map.empty \<longleftrightarrow> gs = []"
  by (cases gs) (auto simp: group_map_def)

locale mention_store =
  fixes col :: "'w mention_col"
    and inv :: "'w \<Rightarrow> bool"
    and view :: "'w \<Rightarrow> pystr \<Rightarrow> mention_map"
  assumes find: "inv w \<Longrightarrow> \<exists>doc. mc_find col chat w = (Inr doc, w) \<and>
      view w chat = (case doc of None \<Rightarrow> Map.empty | Some gs \<Rightarrow> group_map gs)"
    and find_group: "inv w \<Longrightarrow> \<exists>g. mc_find_group col chat n w = (Inr g, w) \<and> map_option mg_participants g = view w chat n"
    and push_new: "inv w \<Longrightarrow> distinct (mg_participants g) \<Longrightarrow> view w chat (mg_name g) = None \<Longrightarrow>
      \<exists>k w'. mc_push col True chat g w = (Inr k, w') \<and> inv w' \<and>
        view w' = put_list (view w) chat (mg_name g) (Some (mg_participants g))"
    and push_taken: "inv w \<Longrightarrow> view w chat (mg_name g) \<noteq> None \<Longrightarrow>
      mc_push col True chat g w = (Inl duplicate_key, w) \<and> mc_push col False chat g w = (Inr 0, w)"
    and rename: "inv w \<Longrightarrow> view w chat old = Some ps \<Longrightarrow> view w chat new = None \<Longrightarrow>
      \<exists>k w'. mc_rename col chat old new w = (Inr (Suc k), w') \<and> inv w' \<and>
        view w' = put_list (put_list (view w) chat old None) chat new (Some ps)"
    and rename_none: "inv w \<Longrightarrow> view w chat old = None \<or> view w chat new \<noteq> None \<Longrightarrow>
      mc_rename col chat old new w = (Inr 0, w)"
    and pull_group: "inv w \<Longrightarrow> view w chat n = Some ps \<Longrightarrow>
      \<exists>k w'. mc_pull_group col chat n w = (Inr (Suc k), w') \<and> inv w' \<and> view w' = put_list (view w) chat n None"
    and pull_group_none: "inv w \<Longrightarrow> view w chat n = None \<Longrightarrow> mc_pull_group col chat n w = (Inr 0, w)"
    and add: "inv w \<Longrightarrow> view w chat n = Some ps \<Longrightarrow>
      \<exists>k w'. mc_add col chat n xs w = (Inr (Suc k), w') \<and> inv w' \<and>
        view w' = put_list (view w) chat n (Some (add_each xs ps))"
    and add_none: "inv w \<Longrightarrow> view w chat n = None \<Longrightarrow> mc_add col chat n xs w = (Inr 0, w)"
    and pull_members: "inv w \<Longrightarrow> view w chat n = Some ps \<Longrightarrow>
      \<exists>k w'. mc_pull_members col chat n xs w = (Inr k, w') \<and> inv w' \<and>
        view w' = put_list (view w) chat n (Some (filter (\<lambda>p. p \<notin> set xs) ps)) \<and>
        (k = 0 \<longleftrightarrow> set xs \<inter> set ps = {})"
begin

text \<open>What the service of an operation does: the specification on its chat, nothing elsewhere.\<close>

definition meets :: "'w \<Rightarrow> pystr \<Rightarrow> mention_map mention_result \<times> mention_map \<Rightarrow>
    (exn + mention_group list mention_result) \<times> 'w \<Rightarrow> bool" where
  "meets w chat spec out \<longleftrightarrow>
     (\<exists>r. fst out = Inr r \<and> inv (snd out) \<and> map_mention_result group_map r = fst spec \<and>
        view (snd out) = (view w)(chat := snd spec))"

lemma meetsI: "out = (Inr r, w') \<Longrightarrow> inv w' \<Longrightarrow> map_mention_result group_map r = fst spec \<Longrightarrow>
    view w' = (view w)(chat := snd spec) \<Longrightarrow> meets w chat spec out"
  by (simp add: meets_def)

lemma service_create:
  assumes "inv w"
  shows "meets w chat (mention_spec (Create sender n ms) (view w chat)) (mention_service col chat (Create sender n ms) w)"
proof -
  let ?ps = "first_of_each (normalize_jid sender # normalize_jids (map Some ms))"
  let ?g = "\<lparr>mg_name = n, mg_participants = ?ps\<rparr>"
  show ?thesis
  proof (cases "view w chat n")
    case None
    with push_new [OF assms, of ?g chat] obtain k w' where "mc_push col True chat ?g w = (Inr k, w')" "inv w'"
        "view w' = put_list (view w) chat n (Some ?ps)"
      by (auto simp: distinct_first_of_each)
    with None show ?thesis
      by (intro meetsI [of _ "Named n" w'])
        (simp_all add: answer_as_def create_list_def answering_def push_unless_taken_def put_list_def)
  next
    case (Some qs)
    with push_taken [OF assms, of chat ?g] have "mc_push col True chat ?g w = (Inl duplicate_key, w)"
        "mc_push col False chat ?g w = (Inr 0, w)"
      by auto
    with Some assms show ?thesis
      by (intro meetsI [of _ "Refused (taken_group n)" w])
        (simp_all add: answer_as_def create_list_def answering_def push_unless_taken_def bindA_def handleA_def)
  qed
qed

lemma service_rename:
  assumes "inv w"
  shows "meets w chat (mention_spec (Rename old new) (view w chat)) (mention_service col chat (Rename old new) w)"
proof (cases "view w chat old = None \<or> view w chat new \<noteq> None")
  case True
  obtain g where g: "mc_find_group col chat old w = (Inr g, w)" "map_option mg_participants g = view w chat old"
    using find_group [OF assms] by blast
  with rename_none [OF assms True] True assms show ?thesis
    by (intro meetsI [of _ "Refused (if g \<noteq> None then taken_group new else missing_group old)" w])
      (auto simp: answer_as_def rename_list_def rename_refusal_def answering_def)
next
  case False
  then obtain ps where ps: "view w chat old = Some ps" "view w chat new = None" by auto
  with rename [OF assms ps] obtain k w' where w': "mc_rename col chat old new w = (Inr (Suc k), w')" "inv w'"
      "view w' = put_list (put_list (view w) chat old None) chat new (Some ps)"
    by blast
  with ps show ?thesis
    by (intro meetsI [of _ "Renamed old new" w'])
      (simp_all add: answer_as_def rename_list_def answering_def put_list_def)
qed

lemma service_delete:
  assumes "inv w"
  shows "meets w chat (mention_spec (Delete n) (view w chat)) (mention_service col chat (Delete n) w)"
proof (cases "view w chat n")
  case None
  with pull_group_none [OF assms None] assms show ?thesis
    by (intro meetsI [of _ "Refused (missing_group n)" w]) (simp_all add: answer_as_def delete_list_def answering_def)
next
  case (Some ps)
  with pull_group [OF assms Some] obtain k w' where "mc_pull_group col chat n w = (Inr (Suc k), w')" "inv w'"
      "view w' = put_list (view w) chat n None"
    by blast
  with Some show ?thesis
    by (intro meetsI [of _ "Named n" w']) (simp_all add: answer_as_def delete_list_def answering_def put_list_def)
qed

lemma service_read:
  assumes "inv w"
  shows "meets w chat (spec_read (view w chat) n, view w chat) (answer_as Members (read_list failure col chat n) w)"
proof -
  obtain doc where doc: "mc_find col chat w = (Inr doc, w)"
      "view w chat = (case doc of None \<Rightarrow> Map.empty | Some gs \<Rightarrow> group_map gs)"
    using find [OF assms] by blast
  define r :: "mention_group list mention_result" where "r = (case doc of None \<Rightarrow> Refused no_groups
    | Some gs \<Rightarrow> if gs = [] then Refused no_groups
        else case find (\<lambda>g. mg_name g = n) gs of None \<Rightarrow> Refused (missing_group n) | Some g \<Rightarrow> Members (mg_participants g))"
  have "answer_as Members (read_list failure col chat n) w = (Inr r, w)"
    by (simp add: answer_as_def read_list_def answering_def r_def doc(1) split: option.split)
  moreover have "map_mention_result group_map r = spec_read (view w chat) n"
    unfolding doc(2) r_def spec_read_def
    by (auto simp: group_map_empty simp flip: find_group_map split: option.split)
  ultimately show ?thesis
    using assms by (intro meetsI [of _ r w]) simp_all
qed

lemma service_list_all:
  assumes "inv w"
  shows "meets w chat (mention_spec ListAll (view w chat)) (mention_service col chat ListAll w)"
proof -
  obtain doc where doc: "mc_find col chat w = (Inr doc, w)"
      "view w chat = (case doc of None \<Rightarrow> Map.empty | Some gs \<Rightarrow> group_map gs)"
    using find [OF assms] by blast
  with assms show ?thesis
    by (intro meetsI [of _ "case doc of None \<Rightarrow> Refused no_groups | Some gs \<Rightarrow> if gs = [] then Refused no_groups else Groups gs" w])
      (auto simp: answer_as_def list_all_lists_def answering_def group_map_empty split: option.split)
qed

lemma service_add:
  assumes "inv w"
  shows "meets w chat (mention_spec (Add n sender ps) (view w chat)) (mention_service col chat (Add n sender ps) w)"
proof -
  let ?xs = "if ps \<noteq> [] then normalize_jids (map Some ps) else [normalize_jid sender]"
  show ?thesis
  proof (cases "view w chat n")
    case None
    with add_none [OF assms None, of ?xs] assms show ?thesis
      by (intro meetsI [of _ "Refused (missing_group n)" w]) (simp_all add: answer_as_def add_to_list_def answering_def)
  next
    case (Some qs)
    with add [OF assms Some, of ?xs] obtain k w' where "mc_add col chat n ?xs w = (Inr (Suc k), w')" "inv w'"
        "view w' = put_list (view w) chat n (Some (add_each ?xs qs))"
      by blast
    with Some show ?thesis
      by (intro meetsI [of _ "SelfOnly (ps = [])" w']) (simp_all add: answer_as_def add_to_list_def answering_def put_list_def)
  qed
qed

lemma service_exit:
  assumes "inv w"
  shows "meets w chat (mention_spec (Exit n sender t) (view w chat)) (mention_service col chat (Exit n sender t) w)"
proof -
  obtain g where g: "mc_find_group col chat n w = (Inr g, w)" "map_option mg_participants g = view w chat n"
    using find_group [OF assms] by blast
  show ?thesis
  proof (cases g)
    case None
    with g assms show ?thesis
      by (intro meetsI [of _ "Refused (missing_group n)" w]) (auto simp: answer_as_def exit_list_def answering_def)
  next
    case (Some h)
    let ?out = "to_remove t sender (mg_participants h)"
    have v: "view w chat n = Some (mg_participants h)" using g(2) Some by simp
    obtain k w' where k: "mc_pull_members col chat n ?out w = (Inr k, w')" "inv w'"
        "view w' = put_list (view w) chat n (Some (filter (\<lambda>p. p \<notin> set ?out) (mg_participants h)))"
        "k = 0 \<longleftrightarrow> set ?out \<inter> set (mg_participants h) = {}"
      using pull_members [OF assms v] by blast
    show ?thesis
    proof (cases "set ?out \<inter> set (mg_participants h) = {}")
      case True
      then have "filter (\<lambda>p. p \<notin> set ?out) (mg_participants h) = mg_participants h"
        by (auto simp: filter_id_conv)
      with k(3) v have "view w' = view w" by (simp add: put_list_def map_upd_triv)
      with k assms True obtain w'' where "pull_listed col chat n ?out w = (Inr False, w'')" "inv w''" "view w'' = view w"
        by (cases "?out = []") (auto simp: pull_listed_def)
      with True v g(1) Some show ?thesis
        by (intro meetsI [of _ "Refused _" w''])
          (simp_all add: answer_as_def exit_list_def answering_def Let_def bindA_def handleA_def)
    next
      case False
      then have "?out \<noteq> []" by auto
      with k False have "pull_listed col chat n ?out w = (Inr True, w')"
        by (simp add: pull_listed_def)
      with False v g(1) Some k(2,3) show ?thesis
        by (intro meetsI [of _ "SelfOnly (is_self_exit t)" w'])
          (auto simp: answer_as_def exit_list_def answering_def Let_def put_list_def)
    qed
  qed
qed

lemma service_meets: "inv w \<Longrightarrow> meets w chat (mention_spec op (view w chat)) (mention_service col chat op w)"
  by (cases op)
    (simp_all only: service_create service_rename service_delete service_list_all service_add service_exit
      mention_spec.simps(5,8) mention_service.simps(5,8) get_list_def mention_list_def service_read)

end

subsection \<open>The documents provide it\<close>

text \<open>Within a chat no two lists share a name, and no list holds a participant twice.\<close>

definition groups_inv :: "mention_group list \<Rightarrow> bool" where
  "groups_inv gs \<longleftrightarrow> distinct (map mg_name gs) \<and> list_all (\<lambda>g. distinct (mg_participants g)) gs"

definition mention_inv :: "mention_docs \<Rightarrow> bool" where
  "mention_inv db \<longleftrightarrow> (\<forall>chat gs. db chat = Some gs \<longrightarrow> groups_inv gs)"

definition doc_view :: "mention_docs \<Rightarrow> pystr \<Rightarrow> mention_map" where
  "doc_view db chat = (case db chat of None \<Rightarrow> Map.empty | Some gs \<Rightarrow> group_map gs)"

lemma mention_inv_put: "mention_inv db \<Longrightarrow> groups_inv gs \<Longrightarrow> mention_inv (db(chat \<mapsto> gs))"
  by (auto simp: mention_inv_def)

lemma doc_view_put: "doc_view (db(chat \<mapsto> gs)) = (doc_view db)(chat := group_map gs)"
  by (auto simp: doc_view_def)

lemma group_map_None: "group_map gs n = None \<longleftrightarrow> n \<notin> set (map mg_name gs)"
  by (auto simp: group_map_def map_of_eq_None_iff image_image)

lemma has_group_view: "has_group db chat n \<longleftrightarrow> doc_view db chat n \<noteq> None"
  by (simp add: has_group_def doc_view_def group_map_None del: set_map not_None_eq split: option.split)

lemma doc_view_Some:
  assumes "doc_view db chat n = Some ps"
  obtains gs where "db chat = Some gs" "group_map gs n = Some ps" "n \<in> set (map mg_name gs)"
proof (cases "db chat")
  case (Some gs)
  with assms have "group_map gs n = Some ps" by (simp add: doc_view_def)
  with Some that group_map_None [of gs n] show ?thesis by (metis option.distinct(1))
qed (use assms in \<open>simp add: doc_view_def\<close>)

lemma distinct_add_each: "distinct ps \<Longrightarrow> distinct (add_each xs ps)"
  unfolding add_each_def by (induction xs arbitrary: ps) auto

lemma update_first_names: "map mg_name (update_first n f gs) = map mg_name gs"
  by (induction gs) auto

lemma update_first_map: "group_map (update_first n f gs) = (group_map gs)(n := map_option f (group_map gs n))"
  by (induction gs) (auto simp: group_map_def fun_eq_iff)

lemma update_first_inv: "groups_inv gs \<Longrightarrow> (\<And>ps. distinct ps \<Longrightarrow> distinct (f ps)) \<Longrightarrow> groups_inv (update_first n f gs)"
  unfolding groups_inv_def update_first_names by (induction gs) auto

lemma set_participants_same: "g\<lparr>mg_participants := ps\<rparr> = g \<longleftrightarrow> ps = mg_participants g"
  by (cases g) auto

lemma update_first_same: "group_map gs n = Some ps \<Longrightarrow> update_first n f gs = gs \<longleftrightarrow> f ps = ps"
  by (induction gs) (auto simp: group_map_def set_participants_same)

lemma rename_group_map:
  "new \<notin> set (map mg_name gs) \<Longrightarrow>
   group_map (map (\<lambda>g. if mg_name g = old then g\<lparr>mg_name := new\<rparr> else g) gs) =
     (group_map gs)(old := if old = new then group_map gs old else None, new := group_map gs old)"
  by (induction gs) (auto simp: group_map_def fun_eq_iff)

lemma rename_groups_inv:
  "groups_inv gs \<Longrightarrow> new \<notin> set (map mg_name gs) \<Longrightarrow>
   groups_inv (map (\<lambda>g. if mg_name g = old then g\<lparr>mg_name := new\<rparr> else g) gs)"
proof -
  let ?f = "\<lambda>g. if mg_name g = old then g\<lparr>mg_name := new\<rparr> else g"
  assume gs: "groups_inv gs" and new: "new \<notin> set (map mg_name gs)"
  have names: "map mg_name (map ?f gs) = map (\<lambda>n. if n = old then new else n) (map mg_name gs)"
    by simp
  from gs new have "distinct (map (\<lambda>n. if n = old then new else n) (map mg_name gs))"
    unfolding distinct_map [of "\<lambda>n. if n = old then new else n"] by (auto simp: groups_inv_def inj_on_def)
  then have "distinct (map mg_name (map ?f gs))"
    by (simp only: names)
  moreover have "list_all (\<lambda>g. distinct (mg_participants g)) (map ?f gs)"
    using gs by (auto simp: groups_inv_def list_all_iff)
  ultimately show ?thesis
    unfolding groups_inv_def by blast
qed

lemma pull_group_map: "group_map (filter (\<lambda>g. mg_name g \<noteq> n) gs) = (group_map gs)(n := None)"
  by (induction gs) (auto simp: group_map_def fun_eq_iff)

lemma filter_groups_inv: "groups_inv gs \<Longrightarrow> groups_inv (filter P gs)"
  unfolding groups_inv_def by (induction gs) auto

lemma push_group_map: "mg_name g \<notin> set (map mg_name gs) \<Longrightarrow>
    group_map (gs @ [g]) = (group_map gs)(mg_name g \<mapsto> mg_participants g)"
  by (induction gs) (auto simp: group_map_def fun_eq_iff)

lemma push_groups_inv: "groups_inv gs \<Longrightarrow> distinct (mg_participants g) \<Longrightarrow> mg_name g \<notin> set (map mg_name gs) \<Longrightarrow>
    groups_inv (gs @ [g])"
  by (auto simp: groups_inv_def)

lemma filter_same: "filter (\<lambda>p. p \<notin> X) ps = ps \<longleftrightarrow> X \<inter> set ps = {}"
  by (auto simp: filter_id_conv)

lemmas doc_facts = put_list_def doc_view_put has_group_view mention_inv_put

interpretation documents: mention_store doc_col mention_inv doc_view
proof (unfold_locales, goal_cases)
  case (1 db chat)
  then show ?case by (simp add: doc_col_def doc_view_def)
next
  case (2 db chat n)
  then show ?case by (auto simp: doc_col_def doc_view_def find_group_map split: option.split)
next
  case (3 db g chat)
  show ?case
  proof (cases "db chat")
    case None
    with 3 show ?thesis
      by (auto simp: doc_col_def doc_push_def doc_facts groups_inv_def doc_view_def group_map_def)
  next
    case (Some gs)
    with 3 have "mg_name g \<notin> set (map mg_name gs)" "groups_inv gs" "doc_view db chat = group_map gs"
      by (auto simp: doc_view_def group_map_None mention_inv_def)
    with 3 Some show ?thesis
      by (auto simp: doc_col_def doc_push_def doc_facts push_groups_inv push_group_map simp del: set_map)
  qed
next
  case (4 db chat g)
  then obtain ps where "doc_view db chat (mg_name g) = Some ps" by auto
  then show ?case
    by (rule doc_view_Some) (simp add: doc_col_def doc_push_def del: set_map)
next
  case (5 db chat old ps new)
  from 5(2) show ?case
  proof (rule doc_view_Some)
    fix gs assume gs: "db chat = Some gs" "group_map gs old = Some ps"
    with 5 have "new \<notin> set (map mg_name gs)" "groups_inv gs" "doc_view db chat = group_map gs"
      by (auto simp: doc_view_def group_map_None mention_inv_def)
    with 5 gs show ?thesis
      by (auto simp: doc_col_def doc_facts rename_groups_inv rename_group_map simp del: set_map)
  qed
next
  case (6 db chat old new)
  then show ?case by (auto simp: doc_col_def has_group_view)
next
  case (7 db chat n ps)
  from 7(2) show ?case
  proof (rule doc_view_Some)
    fix gs assume gs: "db chat = Some gs" "group_map gs n = Some ps"
    with 7 have "groups_inv gs" "doc_view db chat = group_map gs"
      by (auto simp: doc_view_def mention_inv_def)
    with 7 gs show ?thesis
      by (auto simp: doc_col_def doc_facts filter_groups_inv pull_group_map)
  qed
next
  case (8 db chat n)
  then show ?case by (auto simp: doc_col_def has_group_view)
next
  case (9 db chat n ps xs)
  from 9(2) show ?case
  proof (rule doc_view_Some)
    fix gs assume gs: "db chat = Some gs" "group_map gs n = Some ps"
    with 9 have "groups_inv gs" "doc_view db chat = group_map gs"
      by (auto simp: doc_view_def mention_inv_def)
    with 9 gs show ?thesis
      by (auto simp: doc_col_def doc_facts update_first_inv distinct_add_each update_first_map)
  qed
next
  case (10 db chat n xs)
  then show ?case by (auto simp: doc_col_def has_group_view)
next
  case (11 db chat n ps xs)
  from 11(2) show ?case
  proof (rule doc_view_Some)
    fix gs assume gs: "db chat = Some gs" "group_map gs n = Some ps"
    with 11 have "groups_inv gs" "doc_view db chat = group_map gs"
      by (auto simp: doc_view_def mention_inv_def)
    with 11 gs show ?thesis
      by (auto simp: doc_col_def doc_facts Let_def update_first_inv update_first_map update_first_same filter_same)
  qed
qed

text \<open>
  C11: the mention lists keep their promises.  On documents in which names and participants are not
  repeated, every service answers and changes its chat as specified over a plain map from names
  to participants, keeps the documents in that form and leaves the other chats alone: a taken
  name is refused by create and rename, a missing one by the others, and an exit that removes
  nobody is refused.
\<close>

theorem mention_lists_refine:
  assumes "mention_inv db"
  shows "\<exists>r db'. mention_service doc_col chat op db = (Inr r, db') \<and> mention_inv db' \<and>
    map_mention_result group_map r = fst (mention_spec op (doc_view db chat)) \<and>
    doc_view db' chat = snd (mention_spec op (doc_view db chat)) \<and>
    (\<forall>c. c \<noteq> chat \<longrightarrow> doc_view db' c = doc_view db c)"
  using documents.service_meets [OF assms, of chat op]
  unfolding documents.meets_def by (metis fun_upd_other fun_upd_same prod.collapse)

definition valorant :: mention_docs where
  "valorant = [U ''g'' \<mapsto> [\<lparr>mg_name = U ''val'', mg_participants = [U ''1@lid'', U ''2@lid'']\<rparr>]]"

lemma valorant_inv: "mention_inv valorant"
  by (simp add: mention_inv_def valorant_def groups_inv_def) code_simp

theorem mention_lists_refine_witness:
  "\<exists>r db'. mention_service doc_col (U ''g'') (Rename (U ''val'') (U ''vava'')) valorant = (Inr r, db') \<and> mention_inv db' \<and>
    map_mention_result group_map r = fst (mention_spec (Rename (U ''val'') (U ''vava'')) (doc_view valorant (U ''g''))) \<and>
    doc_view db' (U ''g'') = snd (mention_spec (Rename (U ''val'') (U ''vava'')) (doc_view valorant (U ''g''))) \<and>
    (\<forall>c. c \<noteq> U ''g'' \<longrightarrow> doc_view db' c = doc_view valorant c)"
  by (rule mention_lists_refine [OF valorant_inv])

end
