(* ===== verification/Mention_Race.thy ===== *)
theory Mention_Race
  imports Mentions
begin

text \<open>
  Creates that run at the same time (bot/domain/services/mentions/create_mention_list.py).  An
  upsert is not one step: it looks for a document to update, and when none matches it inserts
  one, which fails with a duplicate key if the chat has a document by then.  The code answers
  that failure with a plain update.  Each transition is one of these steps of one task, or a
  change of the members of a list by another command; they interleave in any order.
\<close>

subsection \<open>The steps\<close>

datatype create_phase =
    Updating       \<comment> \<open>before the first half of the upsert\<close>
  | Inserting      \<comment> \<open>nothing matched: before its second half\<close>
  | Retrying       \<comment> \<open>after a duplicate key: before the plain update\<close>
  | Created
  | Taken

record create_race =
  rc_docs :: mention_docs
  rc_tasks :: "nat \<rightharpoonup> pystr \<times> mention_group \<times> create_phase"

datatype race_event =
    Begin nat pystr mention_group
  | Advance nat
  | Joined pystr pystr "pystr list"
  | Parted pystr pystr "pystr list"

definition move :: "nat \<Rightarrow> pystr \<Rightarrow> mention_group \<Rightarrow> create_phase \<Rightarrow> create_race \<Rightarrow> create_race" where
  "move pid chat g ph s = s\<lparr>rc_tasks := (rc_tasks s)(pid \<mapsto> (chat, g, ph))\<rparr>"

fun race_step :: "create_race \<Rightarrow> race_event \<Rightarrow> create_race option" where
  "race_step s (Begin pid chat g) =
     (if rc_tasks s pid = None \<and> distinct (mg_participants g) then Some (move pid chat g Updating s) else None)"
| "race_step s (Advance pid) =
     (case rc_tasks s pid of
        Some (chat, g, Updating) \<Rightarrow>
          if rc_docs s chat \<noteq> None \<and> \<not> has_group (rc_docs s) chat (mg_name g)
          then Some ((move pid chat g Created s)\<lparr>rc_docs := snd (doc_push False chat g (rc_docs s))\<rparr>)
          else Some (move pid chat g Inserting s)
      | Some (chat, g, Inserting) \<Rightarrow>
          if rc_docs s chat = None
          then Some ((move pid chat g Created s)\<lparr>rc_docs := (rc_docs s)(chat \<mapsto> [g])\<rparr>)
          else Some (move pid chat g Retrying s)
      | Some (chat, g, Retrying) \<Rightarrow>
          (case doc_push False chat g (rc_docs s) of
             (Inr n, db) \<Rightarrow> Some ((move pid chat g (if n = 1 then Created else Taken) s)\<lparr>rc_docs := db\<rparr>)
           | (Inl e, db) \<Rightarrow> None)
      | _ \<Rightarrow> None)"
| "race_step s (Joined chat n xs) = Some (s\<lparr>rc_docs := snd (mc_add doc_col chat n xs (rc_docs s))\<rparr>)"
| "race_step s (Parted chat n xs) = Some (s\<lparr>rc_docs := snd (mc_pull_members doc_col chat n xs (rc_docs s))\<rparr>)"

inductive race_reach :: "mention_docs \<Rightarrow> create_race \<Rightarrow> bool" for db where
  start: "race_reach db \<lparr>rc_docs = db, rc_tasks = Map.empty\<rparr>"
| step: "race_reach db s \<Longrightarrow> race_step s e = Some s' \<Longrightarrow> race_reach db s'"

text \<open>Alone, the steps of a task are \<open>push_unless_taken\<close>.\<close>

fun advance :: "nat \<Rightarrow> nat \<Rightarrow> create_race \<Rightarrow> create_race" where
  "advance 0 pid s = s"
| "advance (Suc k) pid s = (case race_step s (Advance pid) of None \<Rightarrow> s | Some s' \<Rightarrow> advance k pid s')"

lemma alone_is_push_unless_taken:
  assumes "rc_tasks s pid = Some (chat, g, Updating)"
  shows "\<exists>ok. push_unless_taken doc_col chat g (rc_docs s) = (Inr ok, rc_docs (advance 3 pid s)) \<and>
    rc_tasks (advance 3 pid s) pid = Some (chat, g, if ok then Created else Taken)"
  using assms
  by (auto simp: numeral_3_eq_3 push_unless_taken_def doc_col_def doc_push_def has_group_def move_def
      bindA_def handleA_def split: option.splits)

subsection \<open>One create wins\<close>

definition creators :: "create_race \<Rightarrow> pystr \<Rightarrow> pystr \<Rightarrow> create_phase set \<Rightarrow> nat set" where
  "creators s chat n phases = {pid. \<exists>g ph. rc_tasks s pid = Some (chat, g, ph) \<and> mg_name g = n \<and> ph \<in> phases}"

text \<open>
  A list that was not there at the start was made by exactly one task that says so; a task that
  was told the name is taken was told the truth; a document never goes away.
\<close>

definition race_inv :: "mention_docs \<Rightarrow> create_race \<Rightarrow> bool" where
  "race_inv db s \<longleftrightarrow> mention_inv (rc_docs s) \<and>
     (\<forall>pid chat g ph. rc_tasks s pid = Some (chat, g, ph) \<longrightarrow>
        distinct (mg_participants g) \<and>
        (ph = Retrying \<longrightarrow> rc_docs s chat \<noteq> None) \<and>
        (ph \<in> {Created, Taken} \<longrightarrow> has_group (rc_docs s) chat (mg_name g)) \<and>
        (ph = Created \<longrightarrow> \<not> has_group db chat (mg_name g))) \<and>
     (\<forall>chat n. has_group (rc_docs s) chat n \<longrightarrow> has_group db chat n \<or> creators s chat n {Created} \<noteq> {}) \<and>
     (\<forall>chat n. has_group db chat n \<longrightarrow> has_group (rc_docs s) chat n) \<and>
     (\<forall>p q chat g h. rc_tasks s p = Some (chat, g, Created) \<longrightarrow> rc_tasks s q = Some (chat, h, Created) \<longrightarrow>
        mg_name g = mg_name h \<longrightarrow> p = q)"

lemma race_inv_move:
  assumes "race_inv db s" and "\<And>c h. rc_tasks s pid \<noteq> Some (c, h, Created)"
    and "distinct (mg_participants g)" and "ph \<noteq> Created"
    and "ph = Retrying \<Longrightarrow> rc_docs s chat \<noteq> None"
    and "ph = Taken \<Longrightarrow> has_group (rc_docs s) chat (mg_name g)"
  shows "race_inv db (move pid chat g ph s)"
proof -
  have made: "creators (move pid chat g ph s) c n {Created} = creators s c n {Created}" for c n
    using assms(2,4) by (auto simp: creators_def move_def)
  show ?thesis
    using assms unfolding race_inv_def made by (auto simp: move_def split: if_splits)
qed

lemma race_inv_made:
  assumes "race_inv db s" and "rc_tasks s pid = Some (chat, g, ph)" and "ph \<noteq> Created"
    and "mention_inv docs" and "\<not> has_group (rc_docs s) chat (mg_name g)"
    and names: "\<And>c n. has_group docs c n \<longleftrightarrow> has_group (rc_docs s) c n \<or> c = chat \<and> n = mg_name g"
    and kept: "\<And>c gs. rc_docs s c = Some gs \<Longrightarrow> \<exists>gs'. docs c = Some gs'"
  shows "race_inv db ((move pid chat g Created s)\<lparr>rc_docs := docs\<rparr>)"
proof -
  let ?s = "(move pid chat g Created s)\<lparr>rc_docs := docs\<rparr>"
  have made: "creators ?s c n {Created} =
      (if c = chat \<and> n = mg_name g then insert pid (creators s c n {Created}) else creators s c n {Created})" for c n
    using assms(2,3) by (auto simp: creators_def move_def)
  show ?thesis
    using assms unfolding race_inv_def made by (auto simp: move_def split: if_splits) metis+
qed

lemma race_inv_docs:
  assumes "race_inv db s" and "mention_inv docs"
    and names: "\<And>c n. has_group docs c n = has_group (rc_docs s) c n"
    and kept: "\<And>c gs. rc_docs s c = Some gs \<Longrightarrow> \<exists>gs'. docs c = Some gs'"
  shows "race_inv db (s\<lparr>rc_docs := docs\<rparr>)"
  using assms unfolding race_inv_def creators_def by (auto 0 3) metis


lemma docs_names:
  "has_group (snd (mc_add doc_col chat n xs db)) c m = has_group db c m"
  "has_group (snd (mc_pull_members doc_col chat n xs db)) c m = has_group db c m"
  by (auto simp: doc_col_def Let_def has_group_def update_first_names simp del: set_map split: option.split)

lemma docs_kept:
  "db c = Some gs \<Longrightarrow> \<exists>gs'. snd (mc_add doc_col chat n xs db) c = Some gs'"
  "db c = Some gs \<Longrightarrow> \<exists>gs'. snd (mc_pull_members doc_col chat n xs db) c = Some gs'"
  by (simp_all add: doc_col_def Let_def)

lemma docs_inv:
  assumes "mention_inv db"
  shows "mention_inv (snd (mc_add doc_col chat n xs db))" and "mention_inv (snd (mc_pull_members doc_col chat n xs db))"
proof -
  show "mention_inv (snd (mc_add doc_col chat n xs db))"
    using documents.add [OF assms, of chat n _ xs] documents.add_none [OF assms, of chat n xs] assms
    by (cases "doc_view db chat n") force+
  show "mention_inv (snd (mc_pull_members doc_col chat n xs db))"
  proof (cases "doc_view db chat n")
    case None
    with assms show ?thesis by (simp add: doc_col_def has_group_view)
  next
    case (Some ps)
    with documents.pull_members [OF assms this, of xs] show ?thesis by force
  qed
qed

lemma pushed:
  assumes "mention_inv db" and "\<not> has_group db chat (mg_name g)" and "db chat = Some gs" and "distinct (mg_participants g)"
  shows "doc_push False chat g db = (Inr 1, db(chat \<mapsto> gs @ [g]))" and "mention_inv (db(chat \<mapsto> gs @ [g]))"
proof -
  have new: "mg_name g \<notin> set (map mg_name gs)" and inv: "groups_inv gs"
    using assms by (auto simp: has_group_def mention_inv_def)
  from new show "doc_push False chat g db = (Inr 1, db(chat \<mapsto> gs @ [g]))"
    using assms(3) by (simp add: doc_push_def)
  show "mention_inv (db(chat \<mapsto> gs @ [g]))"
    by (rule mention_inv_put [OF assms(1) push_groups_inv [OF inv assms(4) new]])
qed

lemma race_inv_advance:
  assumes inv: "race_inv db s" and t: "rc_tasks s pid = Some (chat, g, ph)" and s': "race_step s (Advance pid) = Some s'"
  shows "race_inv db s'"
proof -
  have m: "mention_inv (rc_docs s)" and g: "distinct (mg_participants g)"
    and r: "ph = Retrying \<Longrightarrow> rc_docs s chat \<noteq> None"
    using inv t by (auto simp: race_inv_def)
  have push: "race_inv db ((move pid chat g Created s)\<lparr>rc_docs := (rc_docs s)(chat \<mapsto> gs @ [g])\<rparr>)"
    if "rc_docs s chat = Some gs" "\<not> has_group (rc_docs s) chat (mg_name g)" "ph \<noteq> Created" for gs
    using that pushed(2) [OF m that(2,1) g]
    by (intro race_inv_made [OF inv t]) (auto simp: has_group_def)
  consider "ph = Updating" | "ph = Inserting" | "ph = Retrying" | "ph \<in> {Created, Taken}"
    by (cases ph) auto
  then show ?thesis
  proof cases
    case 1
    show ?thesis
    proof (cases "rc_docs s chat \<noteq> None \<and> \<not> has_group (rc_docs s) chat (mg_name g)")
      case True
      then obtain gs where "rc_docs s chat = Some gs" by auto
      with True push [of gs] pushed(1) [OF m _ _ g, of chat gs] s' t 1 show ?thesis by auto
    next
      case False
      with s' t 1 have "s' = move pid chat g Inserting s" by auto
      then show ?thesis using inv t 1 g by (auto intro: race_inv_move)
    qed
  next
    case 2
    show ?thesis
    proof (cases "rc_docs s chat")
      case None
      with s' t 2 have "s' = (move pid chat g Created s)\<lparr>rc_docs := (rc_docs s)(chat \<mapsto> [g])\<rparr>" by auto
      moreover have "mention_inv ((rc_docs s)(chat \<mapsto> [g]))"
        using m g by (intro mention_inv_put) (simp_all add: groups_inv_def)
      ultimately show ?thesis
        using None 2 by (auto intro!: race_inv_made [OF inv t] simp: has_group_def split: if_splits)
    next
      case (Some gs)
      with s' t 2 have "s' = move pid chat g Retrying s" by auto
      then show ?thesis using inv t 2 g Some by (auto intro: race_inv_move)
    qed
  next
    case 3
    then obtain gs where gs: "rc_docs s chat = Some gs" using r by auto
    show ?thesis
    proof (cases "has_group (rc_docs s) chat (mg_name g)")
      case True
      with gs have "doc_push False chat g (rc_docs s) = (Inr 0, rc_docs s)"
        by (simp add: doc_push_def has_group_def)
      with s' t 3 have "s' = move pid chat g Taken s" by (auto simp: move_def)
      then show ?thesis using inv t 3 g True by (auto intro: race_inv_move)
    next
      case False
      with pushed(1) [OF m False gs g] push [OF gs False] s' t 3 show ?thesis by auto
    qed
  qed (use s' t in \<open>auto split: create_phase.splits\<close>)
qed

lemma race_inv_step:
  assumes inv: "race_inv db s" and s': "race_step s e = Some s'"
  shows "race_inv db s'"
proof (cases e)
  case (Begin pid chat g)
  with s' have "s' = move pid chat g Updating s" "rc_tasks s pid = None" "distinct (mg_participants g)"
    by (auto split: if_splits)
  then show ?thesis using inv by (auto intro: race_inv_move)
next
  case (Advance pid)
  then obtain chat g ph where "rc_tasks s pid = Some (chat, g, ph)"
    using s' by (auto split: option.splits)
  with inv s' Advance show ?thesis by (auto intro: race_inv_advance)
next
  case (Joined chat n xs)
  with s' have s': "s' = s\<lparr>rc_docs := snd (mc_add doc_col chat n xs (rc_docs s))\<rparr>" by simp
  show ?thesis
    unfolding s' by (rule race_inv_docs [OF inv docs_inv(1) docs_names(1) docs_kept(1)])
      (use inv in \<open>simp_all add: race_inv_def\<close>)
next
  case (Parted chat n xs)
  with s' have s': "s' = s\<lparr>rc_docs := snd (mc_pull_members doc_col chat n xs (rc_docs s))\<rparr>" by simp
  show ?thesis
    unfolding s' by (rule race_inv_docs [OF inv docs_inv(2) docs_names(2) docs_kept(2)])
      (use inv in \<open>simp_all add: race_inv_def\<close>)
qed

lemma race_inv_reach: "race_reach db s \<Longrightarrow> mention_inv db \<Longrightarrow> race_inv db s"
proof (induction rule: race_reach.induct)
  case start
  then show ?case by (auto simp: race_inv_def)
qed (auto intro: race_inv_step)

text \<open>
  C12: one create wins.  However the creates of a chat interleave, with each other and with people
  joining and leaving lists: in every state on the way no name is held by two lists of a chat; of
  the creates of a name that was free at most one has reported that it made the list, and the list
  is there exactly when one has; and once all of them have ended, exactly one has.
\<close>

theorem one_create_wins:
  assumes "race_reach db s" and "mention_inv db"
  shows "(\<forall>c gs. rc_docs s c = Some gs \<longrightarrow> distinct (map mg_name gs)) \<and>
    (\<not> has_group db chat n \<longrightarrow>
      (has_group (rc_docs s) chat n \<longleftrightarrow> creators s chat n {Created} \<noteq> {}) \<and>
      (\<forall>p \<in> creators s chat n {Created}. \<forall>q \<in> creators s chat n {Created}. p = q) \<and>
      (creators s chat n UNIV \<noteq> {} \<and> creators s chat n UNIV \<subseteq> creators s chat n {Created, Taken} \<longrightarrow>
        (\<exists>pid. creators s chat n {Created} = {pid})))"
proof -
  have inv: "race_inv db s" by (rule race_inv_reach [OF assms])
  then have "distinct (map mg_name gs)" if "rc_docs s c = Some gs" for c gs
    using that by (auto simp: race_inv_def mention_inv_def groups_inv_def)
  moreover have there: "has_group (rc_docs s) chat n" if "p \<in> creators s chat n {Created, Taken}" for p
    using that inv by (fastforce simp: creators_def race_inv_def)
  moreover have made: "creators s chat n {Created} \<noteq> {}" if "\<not> has_group db chat n" "has_group (rc_docs s) chat n"
    using that inv by (auto simp: race_inv_def)
  moreover have one: "p = q" if "\<not> has_group db chat n" "p \<in> creators s chat n {Created}" "q \<in> creators s chat n {Created}" for p q
    using that inv by (fastforce simp: creators_def race_inv_def)
  moreover have sub: "creators s chat n {Created} \<subseteq> creators s chat n {Created, Taken}" by (auto simp: creators_def)
  moreover have "\<exists>pid. creators s chat n {Created} = {pid}" if "\<not> has_group db chat n"
    "creators s chat n UNIV \<noteq> {}" "creators s chat n UNIV \<subseteq> creators s chat n {Created, Taken}"
  proof -
    from that(2,3) obtain p where "p \<in> creators s chat n {Created, Taken}" by blast
    with made [OF that(1) there] obtain q where "q \<in> creators s chat n {Created}" by blast
    with one [OF that(1)] show ?thesis by blast
  qed
  ultimately show ?thesis by blast
qed

text \<open>Two creates of one name in a chat without a document, both past the first half of their upsert.\<close>

fun race_run :: "race_event list \<Rightarrow> create_race \<Rightarrow> create_race" where
  "race_run [] s = s"
| "race_run (e # es) s = (case race_step s e of None \<Rightarrow> s | Some s' \<Rightarrow> race_run es s')"

lemma race_run_reach: "race_reach db s \<Longrightarrow> race_reach db (race_run es s)"
  by (induction es arbitrary: s) (auto split: option.split intro: race_reach.step)

definition rivals :: create_race where
  "rivals = race_run
     [Begin 1 (U ''g'') \<lparr>mg_name = U ''val'', mg_participants = [U ''a'']\<rparr>,
      Begin 2 (U ''g'') \<lparr>mg_name = U ''val'', mg_participants = [U ''b'']\<rparr>,
      Advance 1, Advance 2, Advance 2, Advance 1, Advance 1]
     \<lparr>rc_docs = Map.empty, rc_tasks = Map.empty\<rparr>"

theorem one_create_wins_witness: "\<exists>pid. creators rivals (U ''g'') (U ''val'') {Created} = {pid}"
proof -
  have reach: "race_reach Map.empty rivals"
    unfolding rivals_def by (rule race_run_reach [OF race_reach.start])
  have tasks: "rc_tasks rivals =
      [1 \<mapsto> (U ''g'', \<lparr>mg_name = U ''val'', mg_participants = [U ''a'']\<rparr>, Taken),
       2 \<mapsto> (U ''g'', \<lparr>mg_name = U ''val'', mg_participants = [U ''b'']\<rparr>, Created)]"
    by (simp add: rivals_def move_def doc_push_def has_group_def fun_eq_iff)
  have "creators rivals (U ''g'') (U ''val'') UNIV \<noteq> {}"
    "creators rivals (U ''g'') (U ''val'') UNIV \<subseteq> creators rivals (U ''g'') (U ''val'') {Created, Taken}"
    unfolding creators_def tasks by (auto split: if_splits)
  moreover have "\<not> has_group Map.empty (U ''g'') (U ''val'')" "mention_inv Map.empty"
    by (simp_all add: mention_inv_def has_group_def)
  ultimately show ?thesis
    using one_create_wins [OF reach, of "U ''g''" "U ''val''"] by blast
qed

end
