(* ===== verification/Mention_Command.thy ===== *)
theory Mention_Command
  imports Mentions
begin

text \<open>
  The command \<open>grupo\<close> (bot/domain/commands/group_mentions.py): it reads a subcommand and its
  words, calls the service of the mention lists and words the reply.
\<close>

subsection \<open>The command\<close>

definition RESERVED_KEYWORDS :: "pystr list" where
  "RESERVED_KEYWORDS = [U ''add'', U ''exit'', U ''create'', U ''delete'', U ''rename'', U ''list'']"

definition MAX_GROUP_NAME_LEN :: nat where
  "MAX_GROUP_NAME_LEN = 15"

definition MENTION_PATTERN :: rx where
  "MENTION_PATTERN = rseq [Spaces, Chr 64, Plus (Cls CDigit), Spaces]"

definition MISSING_NAME :: pystr where
  "MISSING_NAME = U ''Cad{234} o nome do grupo? {129300}''"

definition validate_group_name :: "command_data \<Rightarrow> pystr \<Rightarrow> bot_message option" where
  "validate_group_name d name =
     (if MAX_GROUP_NAME_LEN < length name
      then Some (reply_text d (U ''O nome do grupo {233} desse tamanho! {9995}    {129306}''))
      else if list_ex (\<lambda>kw. search True (lit kw) name \<noteq> None) RESERVED_KEYWORDS
      then Some (reply_text d (U ''O nome do grupo n{227}o pode ser um comando!''))
      else if search False (Cls CSpace) name \<noteq> None
      then Some (reply_text d (U ''O nome do grupo n{227}o pode ter espa{231}o!''))
      else None)"

text \<open>The reply to a refusal is its message; to a success, what \<open>f\<close> makes of the result.\<close>

definition replying ::
  "command_data \<Rightarrow> ('a \<Rightarrow> bot_message) \<Rightarrow> (exn, 'w, 'a answer) act \<Rightarrow> (exn, 'w, bot_message list) act" where
  "replying d f m = bindA m (\<lambda>a. ret [case a of Inl msg \<Rightarrow> reply_text d msg | Inr x \<Rightarrow> f x])"

definition name_without_mentions :: "pystr \<Rightarrow> pystr" where
  "name_without_mentions rest = lower (rx_sub False MENTION_PATTERN (\<lambda>_. []) rest)"

definition handle_create :: "'w mention_col \<Rightarrow> command_data \<Rightarrow> pystr \<Rightarrow> (exn, 'w, bot_message list) act" where
  "handle_create col d rest =
     (let name = name_without_mentions rest in
      if name = [] then ret [reply_text d MISSING_NAME]
      else case validate_group_name d name of
        Some err \<Rightarrow> ret [err]
      | None \<Rightarrow> replying d (\<lambda>n. reply_text d (U ''Grupo *'' @ n @ U ''* criado com sucesso! {127881}''))
                 (create_list col (cd_jid d) (cd_sender_jid d) name (cd_mentioned_jids d)))"

definition two_words :: rx where
  "two_words = rseq [Plus (Cls (CNeg CSpace)), Plus (Cls CSpace), Plus (Cls (CNeg CSpace))]"

definition handle_rename :: "'w mention_col \<Rightarrow> command_data \<Rightarrow> pystr \<Rightarrow> (exn, 'w, bot_message list) act" where
  "handle_rename col d rest =
     (if prefixmatch False two_words rest = None
      then ret [reply_text d (U ''Cad{234} os nomes dos grupos? {129300}'')]
      else let parts = split_ws rest; old = lower (parts ! 0); new = lower (parts ! 1) in
        case validate_group_name d new of
          Some err \<Rightarrow> ret [err]
        | None \<Rightarrow> replying d
            (\<lambda>(o', n'). reply_text d (U ''Grupo *'' @ o' @ U ''* renomeado para *'' @ n' @ U ''* com sucesso! {127881}''))
            (rename_list col (cd_jid d) old new))"

definition handle_delete :: "'w mention_col \<Rightarrow> command_data \<Rightarrow> pystr \<Rightarrow> (exn, 'w, bot_message list) act" where
  "handle_delete col d rest =
     (let name = lower rest in
      if name = [] then ret [reply_text d MISSING_NAME]
      else replying d (\<lambda>n. reply_text d (U ''Grupo *'' @ n @ U ''* deletado com sucesso! {127881}''))
             (delete_list col (cd_jid d) name))"

definition listing :: "pystr list \<Rightarrow> pystr" where
  "listing ps = join [10]
     (map (\<lambda>(i, p). U ''- '' @ show_nat (i + 1) @ U ''{186} @'' @ strip_jid p) (enumerate 0 ps))"

definition handle_list :: "'w mention_col \<Rightarrow> command_data \<Rightarrow> pystr \<Rightarrow> (exn, 'w, bot_message list) act" where
  "handle_list col d rest =
     (let name = lower rest in
      if name = []
      then replying d
             (\<lambda>gs. reply_text d (U ''{128220} *GRUPOS* {128220}{10}{10}'' @
                join [10] (map (\<lambda>g. U ''- _'' @ mg_name g @ U ''_'') gs)))
             (list_all_lists col (cd_jid d))
      else replying d
             (\<lambda>ps. reply_text_with d (U ''{128220} *'' @ upper name @ U ''* {128220}{10}{10}'' @ listing ps) ps)
             (get_list col (cd_jid d) name))"

definition handle_add :: "'w mention_col \<Rightarrow> command_data \<Rightarrow> pystr \<Rightarrow> (exn, 'w, bot_message list) act" where
  "handle_add col d rest =
     (let name = name_without_mentions rest in
      if name = [] then ret [reply_text d MISSING_NAME]
      else replying d
             (\<lambda>self_only. reply_text d
                ((if self_only then U ''Voc{234} foi adicionado ao grupo *'' else U ''Participantes adicionados ao grupo *'') @
                 name @ U ''* com sucesso! {127881}''))
             (add_to_list col (cd_jid d) name (cd_sender_jid d) (cd_mentioned_jids d)))"

text \<open>\<open>[int(n) for n in numbers if n.isdigit()]\<close>; \<open>int\<close> raises on digits that are not decimal.\<close>

fun positions :: "pystr list \<Rightarrow> exn + int list" where
  "positions [] = Inr []"
| "positions (n # ns) =
     (if str_isdigit n
      then (case py_int n of
              None \<Rightarrow> Inl (OtherExn (U ''ValueError''))
            | Some i \<Rightarrow> map_sum id (\<lambda>is. int i # is) (positions ns))
      else positions ns)"

definition handle_exit :: "'w mention_col \<Rightarrow> command_data \<Rightarrow> pystr \<Rightarrow> (exn, 'w, bot_message list) act" where
  "handle_exit col d rest =
     (let parts = split_ws rest; name = (case parts of [] \<Rightarrow> [] | p # _ \<Rightarrow> lower p) in
      if name = [] then ret [reply_text d MISSING_NAME]
      else case positions (map (rstrip_by (\<lambda>c. c = 186)) (tl parts)) of
             Inl e \<Rightarrow> raise e
           | Inr is \<Rightarrow>
               replying d
                 (\<lambda>self_only. reply_text d
                    ((if self_only then U ''Voc{234} foi removido do grupo *'' else U ''Participantes removidos do grupo *'') @
                     name @ U ''* com sucesso! {127881}''))
                 (exit_list col (cd_jid d) name (cd_sender_jid d)
                    \<lparr>rt_indices = is, rt_mentioned = cd_mentioned_jids d\<rparr>))"

definition handle_mention :: "'w mention_col \<Rightarrow> command_data \<Rightarrow> pystr \<Rightarrow> (exn, 'w, bot_message list) act" where
  "handle_mention col d rest =
     (let parts = split_ws1 rest; name = (case parts of [] \<Rightarrow> [] | p # _ \<Rightarrow> lower p);
          text = (if 1 < length parts then parts ! 1 else []) in
      if name = [] then ret [reply_text d MISSING_NAME]
      else replying d
             (\<lambda>ps. reply_text_with d
                ((if text = [] then [] else text @ [10, 10]) @ join [32] (map (\<lambda>p. 64 # strip_jid p) ps)) ps)
             (mention_list col (cd_jid d) name))"

definition group_handler ::
  "pystr \<Rightarrow> ('w mention_col \<Rightarrow> command_data \<Rightarrow> pystr \<Rightarrow> (exn, 'w, bot_message list) act) option" where
  "group_handler keyword =
     map_of [(U ''create'', handle_create), (U ''rename'', handle_rename), (U ''delete'', handle_delete),
             (U ''list'', handle_list), (U ''add'', handle_add), (U ''exit'', handle_exit)] keyword"

definition group_execute ::
  "'w mention_col \<Rightarrow> command_data \<Rightarrow> parsed_command \<Rightarrow> (exn, 'w, bot_message list) act" where
  "group_execute col d p =
     (let rest = strip (pc_rest p) in
      case group_handler (lower (before 32 rest)) of
        Some handler \<Rightarrow> handler col d (strip (after 32 rest))
      | None \<Rightarrow> handle_mention col d rest)"

subsection \<open>Anyone may edit the lists\<close>

text \<open>
  The menu of the section marks deleting, renaming, adding others and removing others as
  \<open>(admin)\<close>.
\<close>

lemma reply_ignores_admin:
  "reply_text (d\<lparr>cd_is_admin := a\<rparr>) = reply_text d"
  "reply_text_with (d\<lparr>cd_is_admin := a\<rparr>) = reply_text_with d"
  by (simp_all add: reply_text_def reply_text_with_def reply_build_def fun_eq_iff)

lemma validation_ignores_admin: "validate_group_name (d\<lparr>cd_is_admin := a\<rparr>) = validate_group_name d"
  and replying_ignores_admin: "replying (d\<lparr>cd_is_admin := a\<rparr>) = replying d"
  by (simp_all add: validate_group_name_def replying_def reply_ignores_admin fun_eq_iff cong: sum.case_cong)

lemmas ignores_admin = reply_ignores_admin validation_ignores_admin replying_ignores_admin

lemma handlers_ignore_admin:
  "handle_create col (d\<lparr>cd_is_admin := a\<rparr>) = handle_create col d"
  "handle_rename col (d\<lparr>cd_is_admin := a\<rparr>) = handle_rename col d"
  "handle_delete col (d\<lparr>cd_is_admin := a\<rparr>) = handle_delete col d"
  "handle_list col (d\<lparr>cd_is_admin := a\<rparr>) = handle_list col d"
  "handle_add col (d\<lparr>cd_is_admin := a\<rparr>) = handle_add col d"
  "handle_exit col (d\<lparr>cd_is_admin := a\<rparr>) = handle_exit col d"
  "handle_mention col (d\<lparr>cd_is_admin := a\<rparr>) = handle_mention col d"
  by (simp_all add: fun_eq_iff handle_create_def handle_rename_def handle_delete_def handle_list_def
      handle_add_def handle_exit_def handle_mention_def ignores_admin Let_def
      cong: option.case_cong sum.case_cong list.case_cong if_cong)

text \<open>
  Anyone may edit the lists.  What \<open>grupo\<close> answers and what it does to the lists is the same
  whether or not the sender is an administrator of the group: for every subcommand, those that
  the menu marks as reserved to administrators included.
\<close>

theorem mention_lists_need_no_admin: "group_execute col (d\<lparr>cd_is_admin := a\<rparr>) p = group_execute col d p"
proof -
  have "group_handler kw = Some h \<Longrightarrow> h col (d\<lparr>cd_is_admin := a\<rparr>) = h col d" for kw h
    by (auto simp: group_handler_def handlers_ignore_admin split: if_splits)
  then show ?thesis
    by (simp add: group_execute_def Let_def handlers_ignore_admin split: option.split)
qed

subsection \<open>Leaving by position\<close>

lemma join_edges:
  "list_all is_word ws \<Longrightarrow> ws \<noteq> [] \<Longrightarrow>
   join [32] ws \<noteq> [] \<and> \<not> is_space (hd (join [32] ws)) \<and> \<not> is_space (last (join [32] ws))"
proof (induction ws)
  case (Cons w ws)
  then show ?case
    by (cases ws) (auto simp: join_Cons is_word_def list_all_iff)
qed simp

lemma strip_join: "list_all is_word ws \<Longrightarrow> ws \<noteq> [] \<Longrightarrow> strip (join [32] ws) = join [32] ws"
  using join_edges [of ws] by (auto intro: strip_edges)

lemma partition_join:
  assumes "list_all is_word (w # ws)" and "ws \<noteq> []"
  shows "before 32 (join [32] (w # ws)) = w" and "after 32 (join [32] (w # ws)) = join [32] ws"
proof -
  have "\<forall>c \<in> set w. c \<noteq> 32"
    using assms(1) by (auto simp: is_word_def list_all_iff)
  then show "before 32 (join [32] (w # ws)) = w" "after 32 (join [32] (w # ws)) = join [32] ws"
    using assms(2) by (simp_all add: join_Cons before_def after_def takeWhile_append dropWhile_append)
qed

lemma show_nat_digits: "list_all (\<lambda>c. 48 \<le> c \<and> c \<le> 57) (show_nat n)"
proof (induction n rule: show_nat.induct)
  case (1 n)
  have "n mod 10 \<le> 9" by simp
  with 1 show ?case by (subst show_nat.simps) simp
qed

lemma ascii_digit: "48 \<le> c \<Longrightarrow> c \<le> 57 \<Longrightarrow> is_digit c \<and> \<not> is_space c \<and> c \<noteq> 186"
proof -
  assume "48 \<le> c" "c \<le> 57"
  then have "c \<in> set [48..<58]" unfolding set_upt by simp
  moreover have "list_all (\<lambda>c. is_digit c \<and> \<not> is_space c \<and> c \<noteq> 186) [48..<58]" by code_simp
  ultimately show ?thesis unfolding list_all_iff by blast
qed

text \<open>A superscript digit is a digit to \<open>isdigit\<close> and no number to \<open>int\<close>.\<close>

lemma superscript_position_fails:
  "positions (map (rstrip_by (\<lambda>c. c = 186)) [U ''{178}'']) = Inl (OtherExn (U ''ValueError''))"
  by code_simp

definition ordinal :: "nat \<Rightarrow> pystr" where
  "ordinal k = show_nat k @ [186]"

lemma ordinal_word: "is_word (ordinal k)"
  using show_nat_digits [of k] by (auto simp: ordinal_def is_word_def list_all_iff ascii_digit is_space_def space_cps_def)

lemma rstrip_ordinal: "rstrip_by (\<lambda>c. c = 186) (ordinal k) = show_nat k"
proof -
  have "\<forall>c \<in> set (rev (show_nat k)). c \<noteq> 186"
    using show_nat_digits [of k] ascii_digit by (auto simp: list_all_iff)
  then have "dropWhile (\<lambda>c. c = 186) (rev (show_nat k)) = rev (show_nat k)"
    by (cases "rev (show_nat k)") auto
  then show ?thesis by (simp add: ordinal_def rstrip_by_def)
qed

lemma positions_ordinals:
  "list_all (\<lambda>k. length (show_nat k) \<le> max_str_digits) ks \<Longrightarrow>
   positions (map (rstrip_by (\<lambda>c. c = 186)) (map ordinal ks)) = Inr (map int ks)"
proof (induction ks)
  case (Cons k ks)
  have "str_isdigit (show_nat k)"
    using show_nat_digits [of k] by (auto simp: str_isdigit_def list_all_iff ascii_digit)
  with Cons show ?case by (simp add: rstrip_ordinal py_int_show)
qed simp

lemma answer_asD: "answer_as SelfOnly m w = (Inr (SelfOnly b), w') \<Longrightarrow> m w = (Inr (Inr b), w')"
  by (auto simp: answer_as_def bindA_def split: prod.splits sum.splits)

lemma exit_positions_run:
  assumes inv: "mention_inv db" and ps: "doc_view db chat n = Some ps"
    and ks: "ks \<noteq> []" "list_all (\<lambda>k. 1 \<le> k \<and> k \<le> length ps) ks"
  shows "\<exists>db'. exit_list doc_col chat n sender \<lparr>rt_indices = map int ks, rt_mentioned = []\<rparr> db = (Inr (Inr False), db') \<and>
    mention_inv db' \<and> doc_view db' chat n = Some (nths ps {i. i < length ps \<and> Suc i \<notin> set ks})"
proof -
  let ?t = "\<lparr>rt_indices = map int ks, rt_mentioned = []\<rparr>"
  have self: "\<not> is_self_exit ?t" using ks(1) by (simp add: is_self_exit_def)
  have "filter (\<lambda>i. 0 < i \<and> i \<le> int (length ps)) (map int ks) = map int ks"
    using ks(2) by (auto simp: filter_id_conv list_all_iff)
  then have out: "to_remove ?t sender ps = map (\<lambda>k. ps ! (k - 1)) ks"
    using self ks(2) by (auto simp: to_remove_def resolve_targets_def list_all_iff nat_diff_distrib')
  have "distinct ps"
    using inv ps by (auto simp: doc_view_def group_map_def mention_inv_def groups_inv_def list_all_iff
        split: option.splits dest!: map_of_SomeD)
  then have "ps ! i \<in> (\<lambda>k. ps ! (k - 1)) ` set ks \<longleftrightarrow> Suc i \<in> set ks" if "i < length ps" for i
    using that ks(2) by (force simp: list_all_iff nth_eq_iff_index_eq)
  then have left: "filter (\<lambda>p. p \<notin> set (to_remove ?t sender ps)) ps = nths ps {i. i < length ps \<and> Suc i \<notin> set ks}"
    unfolding out filter_eq_nths set_map by (intro arg_cong [of _ _ "nths ps"]) auto
  obtain k ks' where "ks = k # ks'" using ks(1) by (cases ks) auto
  with ks(2) have "set (to_remove ?t sender ps) \<inter> set ps \<noteq> {}"
    unfolding out by (auto intro!: nth_mem)
  with self left ps have spec: "mention_spec (Exit n sender ?t) (doc_view db chat) =
      (SelfOnly False, (doc_view db chat)(n \<mapsto> nths ps {i. i < length ps \<and> Suc i \<notin> set ks}))"
    by (simp add: Let_def)
  let ?out = "mention_service doc_col chat (Exit n sender ?t) db"
  obtain r where r: "fst ?out = Inr r" "mention_inv (snd ?out)" "map_mention_result group_map r = SelfOnly False"
      "doc_view (snd ?out) = (doc_view db)(chat := (doc_view db chat)(n \<mapsto> nths ps {i. i < length ps \<and> Suc i \<notin> set ks}))"
    using documents.service_meets [OF inv, of chat "Exit n sender ?t"]
    unfolding documents.meets_def spec fst_conv snd_conv by blast
  from r(3) have "r = SelfOnly False" by (cases r) simp_all
  with r(1) have "?out = (Inr (SelfOnly False), snd ?out)" by (simp add: prod_eq_iff)
  then have "exit_list doc_col chat n sender ?t db = (Inr (Inr False), snd ?out)"
    by (intro answer_asD) simp
  with r(2,4) show ?thesis by auto
qed

text \<open>
  A position of the listing is the person it shows.  After \<open>grupo list <name>\<close> has numbered the
  participants of a list, \<open>grupo exit <name> i-th j-th ...\<close> with any of the numbers it showed
  takes out exactly the participants on those lines, in whatever order and however often the
  numbers are given, and keeps the others in their order.
\<close>

theorem exit_removes_shown:
  assumes "mention_inv db" and "doc_view db (cd_jid d) n = Some ps" and "is_word n" and "lower n = n"
    and "ks \<noteq> []" and "list_all (\<lambda>k. 1 \<le> k \<and> k \<le> length ps) ks"
    and "list_all (\<lambda>k. length (show_nat k) \<le> max_str_digits) ks" and "cd_mentioned_jids d = []"
  shows "group_execute doc_col d (p\<lparr>pc_rest := join [32] [U ''list'', n]\<rparr>) db =
      (Inr [reply_text_with d (U ''{128220} *'' @ upper n @ U ''* {128220}{10}{10}'' @ listing ps) ps], db) \<and>
    (\<exists>db'. group_execute doc_col d (p\<lparr>pc_rest := join [32] (U ''exit'' # n # map ordinal ks)\<rparr>) db =
      (Inr [reply_text d (U ''Participantes removidos do grupo *'' @ n @ U ''* com sucesso! {127881}'')], db') \<and>
      doc_view db' (cd_jid d) n = Some (nths ps {i. i < length ps \<and> Suc i \<notin> set ks}))"
proof
  have words: "is_word (U ''list'')" "is_word (U ''exit'')" "list_all is_word (map ordinal ks)"
      apply code_simp
     apply code_simp
    apply (simp add: list_all_iff ordinal_word)
    done
  have lowered: "lower (U ''list'') = U ''list''" "lower (U ''exit'') = U ''exit''"
    "group_handler (U ''list'') = Some handle_list" "group_handler (U ''exit'') = Some handle_exit"
  proof -
    have "U ''list'' \<noteq> U ''create''" "U ''list'' \<noteq> U ''rename''" "U ''list'' \<noteq> U ''delete''"
      "U ''exit'' \<noteq> U ''create''" "U ''exit'' \<noteq> U ''rename''" "U ''exit'' \<noteq> U ''delete''"
      "U ''exit'' \<noteq> U ''list''" "U ''exit'' \<noteq> U ''add''"
      by code_simp+
    then show "group_handler (U ''list'') = Some handle_list" "group_handler (U ''exit'') = Some handle_exit"
      by (simp_all add: group_handler_def)
  qed code_simp+
  have n: "n \<noteq> []" "strip n = n" "split_ws n = [n]"
    using assms(3) strip_join [of "[n]"] split_join [of "[n]"] by (auto simp: is_word_def)
  from assms(2) obtain gs where gs: "db (cd_jid d) = Some gs" "group_map gs n = Some ps"
    by (rule doc_view_Some)
  then obtain g where "find (\<lambda>g. mg_name g = n) gs = Some g" "mg_participants g = ps"
    using find_group_map [of n gs] by auto
  with gs have "get_list doc_col (cd_jid d) n db = (Inr (Inr ps), db)"
    by (auto simp: get_list_def read_list_def answering_def doc_col_def bindA_def handleA_def)
  then show "group_execute doc_col d (p\<lparr>pc_rest := join [32] [U ''list'', n]\<rparr>) db =
      (Inr [reply_text_with d (U ''{128220} *'' @ upper n @ U ''* {128220}{10}{10}'' @ listing ps) ps], db)"
    using assms(3,4) words(1) n partition_join [of "U ''list''" "[n]"] strip_join [of "[U ''list'', n]"]
    by (simp add: group_execute_def lowered handle_list_def replying_def del: join.simps(3))
  obtain db' where db': "exit_list doc_col (cd_jid d) n (cd_sender_jid d)
      \<lparr>rt_indices = map int ks, rt_mentioned = []\<rparr> db = (Inr (Inr False), db')"
      "doc_view db' (cd_jid d) n = Some (nths ps {i. i < length ps \<and> Suc i \<notin> set ks})"
    using exit_positions_run [OF assms(1,2,5,6)] by blast
  have "handle_exit doc_col d (join [32] (n # map ordinal ks)) db =
      (Inr [reply_text d (U ''Participantes removidos do grupo *'' @ n @ U ''* com sucesso! {127881}'')], db')"
    using split_join [of "n # map ordinal ks"] assms(3,4,8) words(3) n(1) db'(1) positions_ordinals [OF assms(7)]
    by (simp add: handle_exit_def replying_def Let_def del: join.simps(3))
  then show "\<exists>db'. group_execute doc_col d (p\<lparr>pc_rest := join [32] (U ''exit'' # n # map ordinal ks)\<rparr>) db =
      (Inr [reply_text d (U ''Participantes removidos do grupo *'' @ n @ U ''* com sucesso! {127881}'')], db') \<and>
      doc_view db' (cd_jid d) n = Some (nths ps {i. i < length ps \<and> Suc i \<notin> set ks})"
    using db'(2) assms(3) words partition_join [of "U ''exit''" "n # map ordinal ks"]
      strip_join [of "U ''exit'' # n # map ordinal ks"] strip_join [of "n # map ordinal ks"]
    by (simp add: group_execute_def lowered del: join.simps(3))
qed

definition squad :: mention_docs where
  "squad = [U ''g'' \<mapsto> [\<lparr>mg_name = U ''val'', mg_participants = [U ''1@lid'', U ''2@lid'', U ''3@lid'']\<rparr>]]"

theorem exit_removes_shown_witness:
  "group_execute doc_col (CommandData [] (U ''g'') (U ''u''))
      (\<lparr>pc_command_name = U ''grupo'', pc_flags = {}, pc_options = [], pc_rest = []\<rparr>
         \<lparr>pc_rest := join [32] [U ''list'', U ''val'']\<rparr>) squad =
    (Inr [reply_text_with (CommandData [] (U ''g'') (U ''u''))
       (U ''{128220} *'' @ upper (U ''val'') @ U ''* {128220}{10}{10}'' @ listing [U ''1@lid'', U ''2@lid'', U ''3@lid''])
       [U ''1@lid'', U ''2@lid'', U ''3@lid'']], squad) \<and>
    (\<exists>db'. group_execute doc_col (CommandData [] (U ''g'') (U ''u''))
      (\<lparr>pc_command_name = U ''grupo'', pc_flags = {}, pc_options = [], pc_rest = []\<rparr>
         \<lparr>pc_rest := join [32] (U ''exit'' # U ''val'' # map ordinal [3, 1])\<rparr>) squad =
      (Inr [reply_text (CommandData [] (U ''g'') (U ''u''))
         (U ''Participantes removidos do grupo *'' @ U ''val'' @ U ''* com sucesso! {127881}'')], db') \<and>
      doc_view db' (cd_jid (CommandData [] (U ''g'') (U ''u''))) (U ''val'') =
        Some (nths [U ''1@lid'', U ''2@lid'', U ''3@lid'']
          {i. i < length [U ''1@lid'', U ''2@lid'', U ''3@lid''] \<and> Suc i \<notin> set [3, 1]}))"
proof (rule exit_removes_shown)
  show "mention_inv squad"
    by (simp add: mention_inv_def squad_def groups_inv_def) code_simp
  show "doc_view squad (cd_jid (CommandData [] (U ''g'') (U ''u''))) (U ''val'') = Some [U ''1@lid'', U ''2@lid'', U ''3@lid'']"
    by (simp add: doc_view_def squad_def group_map_def)
qed (code_simp+)

end
