(* ===== verification/Conversation.thy ===== *)
theory Conversation
  imports Guards
begin

text \<open>
  What the agent is waiting for in a chat (bot/domain/models/conversation.py), and how an
  answer to its yes-or-no question is read (bot/domain/models/confirmation_reply.py,
  bot/data/agent_replies.py).
\<close>

subsection \<open>Yes, no, or something else\<close>

text \<open>
  The compatibility decomposition, on ASCII and Latin-1: an accented letter is its base letter
  and a combining mark, and only the base letter survives the filter; the spacing accents are
  a space and a mark.  A combining mark of the block U+0300 is dropped.
\<close>

definition unaccent_cp :: "nat \<Rightarrow> pystr" where
  "unaccent_cp c =
     (if c < 160 then [c]
      else if 768 \<le> c \<and> c \<le> 879 then []
      else if 255 < c then [c]
      else if c \<in> {160, 168, 175, 180, 184} then [32]
      else if c = 170 \<or> 224 \<le> c \<and> c \<le> 229 then [97]
      else if c = 231 then [99]
      else if 232 \<le> c \<and> c \<le> 235 then [101]
      else if 236 \<le> c \<and> c \<le> 239 then [105]
      else if c = 241 then [110]
      else if c = 186 \<or> 242 \<le> c \<and> c \<le> 246 then [111]
      else if 249 \<le> c \<and> c \<le> 252 then [117]
      else if c = 253 \<or> c = 255 then [121]
      else if c = 178 then [50] else if c = 179 then [51] else if c = 185 then [49]
      else if c = 181 then [956] else if c = 188 then [49, 8260, 52]
      else if c = 189 then [49, 8260, 50] else if c = 190 then [51, 8260, 52]
      else [c])"

definition is_emoji_modifier :: "nat \<Rightarrow> bool" where
  "is_emoji_modifier c \<longleftrightarrow> 127995 \<le> c \<and> c < 128000 \<or> c = 65039"

text \<open>\<open>string.punctuation\<close>: the ASCII characters that are neither letters, digits nor space.\<close>

definition is_punctuation :: "nat \<Rightarrow> bool" where
  "is_punctuation c \<longleftrightarrow> 33 \<le> c \<and> c \<le> 47 \<or> 58 \<le> c \<and> c \<le> 64 \<or> 91 \<le> c \<and> c \<le> 96 \<or> 123 \<le> c \<and> c \<le> 126"

definition normalize_reply :: "pystr \<Rightarrow> pystr" where
  "normalize_reply s =
     join [32] (split_ws (filter (\<lambda>c. \<not> is_punctuation c)
       (filter (\<lambda>c. \<not> is_emoji_modifier c) (concat (map unaccent_cp (lower s))))))"

definition CONFIRM_REPLIES :: "pystr list" where
  "CONFIRM_REPLIES =
     map U [''sim'', ''s'', ''ss'', ''isso'', ''isso mesmo'', ''isso ai'', ''pode'', ''pode ser'',
       ''claro'', ''bora'', ''quero'', ''exato'', ''certo'', ''ok'', ''okay'', ''yes'', ''y'',
       ''{128077}'', ''{9989}'']"

definition DENY_REPLIES :: "pystr list" where
  "DENY_REPLIES =
     map U [''nao'', ''n'', ''nn'', ''errado'', ''negativo'', ''nope'', ''no'', ''nao e isso'',
       ''nao quero'', ''{128078}'', ''{10060}'']"

definition ASK_AGAIN_QUESTION :: pystr where
  "ASK_AGAIN_QUESTION = U ''O que voc{234} queria?''"

datatype confirmation = YES | NO | OTHER_REPLY

definition classify_reply :: "pystr \<Rightarrow> confirmation" where
  "classify_reply text =
     (if normalize_reply text \<in> set CONFIRM_REPLIES then YES
      else if normalize_reply text \<in> set DENY_REPLIES then NO else OTHER_REPLY)"

subsection \<open>The conversation\<close>

datatype conversation_status = IDLE | AWAITING_CONFIRMATION | AWAITING_ANSWER

datatype turn_intent = REQUEST | CONFIRMED | DENIED

record conversation =
  cv_status :: conversation_status
  cv_question :: pystr
  cv_proposed :: pystr
  cv_request :: pystr
  cv_attempts :: nat
  cv_asked_at :: rat

definition idle_conversation :: conversation where
  "idle_conversation = \<lparr>cv_status = IDLE, cv_question = [], cv_proposed = [], cv_request = [],
     cv_attempts = 0, cv_asked_at = 0\<rparr>"

definition RESUME_WINDOW_SECONDS :: rat where "RESUME_WINDOW_SECONDS = 180"
definition MAX_QUESTIONS :: nat where "MAX_QUESTIONS = 2"

definition exhausted :: "conversation \<Rightarrow> bool" where
  "exhausted c \<longleftrightarrow> MAX_QUESTIONS \<le> cv_attempts c"

definition resumed :: "rat \<Rightarrow> conversation \<Rightarrow> conversation" where
  "resumed now c = (if RESUME_WINDOW_SECONDS < now - cv_asked_at c then idle_conversation else c)"

definition awaiting :: "pystr \<Rightarrow> rat \<Rightarrow> pystr \<Rightarrow> pystr \<Rightarrow> conversation \<Rightarrow> conversation" where
  "awaiting question now proposed request c =
     (if proposed \<noteq> []
      then c\<lparr>cv_status := AWAITING_CONFIRMATION, cv_question := question, cv_proposed := proposed,
             cv_request := request, cv_asked_at := now\<rparr>
      else c\<lparr>cv_status := AWAITING_ANSWER, cv_question := question, cv_proposed := [],
             cv_request := [], cv_attempts := cv_attempts c + 1, cv_asked_at := now\<rparr>)"

definition turn_intent_of :: "conversation \<Rightarrow> pystr \<Rightarrow> turn_intent" where
  "turn_intent_of c text =
     (if cv_status c \<noteq> AWAITING_CONFIRMATION then REQUEST
      else case classify_reply text of YES \<Rightarrow> CONFIRMED | NO \<Rightarrow> DENIED | OTHER_REPLY \<Rightarrow> REQUEST)"

text \<open>A proposal is pending exactly when there is a command to confirm.\<close>

definition conversation_inv :: "conversation \<Rightarrow> bool" where
  "conversation_inv c \<longleftrightarrow> (cv_status c = AWAITING_CONFIRMATION \<longleftrightarrow> cv_proposed c \<noteq> [])"

lemma conversation_inv_idle [inv_intros]: "conversation_inv idle_conversation"
  and conversation_inv_awaiting [inv_intros]: "conversation_inv (awaiting q now p r c)"
  and conversation_inv_resumed [inv_intros]: "conversation_inv c \<Longrightarrow> conversation_inv (resumed now c)"
  by (simp_all add: conversation_inv_def idle_conversation_def awaiting_def resumed_def)

text \<open>
  The ways to say yes and no.  Every listed answer is read as meant even in capital letters,
  between spaces and punctuation, and with the skin tone and the variation selector of an
  emoji.
\<close>

theorem listed_replies_classified:
  "list_all (\<lambda>r. classify_reply (U '' '' @ upper r @ [127999, 65039] @ U '' !'') = YES) CONFIRM_REPLIES \<and>
   list_all (\<lambda>r. classify_reply (U '' '' @ upper r @ [127999, 65039] @ U '' !'') = NO) DENY_REPLIES"
  by code_simp

end
