(* ===== verification/Agent.thy ===== *)
theory Agent
  imports Conversation
begin

text \<open>
  The agent that maps a request to a command: the translation of a tool call into a command
  text (bot/application/agent_response.py), the choice of examples
  (bot/application/example_selector.py), the reading of the model's answer
  (bot/application/llm_command_mapper.py), and the graph of one turn of the conversation
  (bot/infrastructure/llm/agent_graph_nodes.py, graph_orchestrator.py).

  \<open>json.loads\<close> and \<open>str\<close> of a JSON value are parameters (\<open>loads\<close>, with \<open>None\<close> for a
  \<open>JSONDecodeError\<close>, and \<open>str_of\<close>), and so are the language model, the vector index, the
  budget and the clock.
\<close>

subsection \<open>From a tool call to a command text\<close>

definition dm_keywords :: rx where
  "dm_keywords =
     rseq [WordB,
       ralt [lit (U ''privado''), lit (U ''pv''), lit (U ''dm''), lit (U ''direct''), lit (U ''mp''),
             rseq [lit (U ''message''), Spaces, lit (U ''privately'')],
             rseq [lit (U ''send''), Spaces, Opt (Seq (lit (U ''me'')) Spaces),
                   ralt [lit (U ''dm''), lit (U ''privately'')]]],
       WordB]"

definition long_flag_re :: rx where
  "long_flag_re = rseq [Cls CSpace, lit (U ''--''), Plus (Cls CWord)]"

definition leading_dash_re :: rx where
  "leading_dash_re = rseq [Bol, Plus (Chr 44), Chr 45]"

text \<open>The replacement \<open>\1\2\<close> drops the two dashes after the first character of the match.\<close>

definition normalize_flags :: "pystr \<Rightarrow> pystr" where
  "normalize_flags text =
     rx_sub False leading_dash_re (\<lambda>_. [44])
       (rx_sub False long_flag_re (\<lambda>m. take 1 m @ drop 3 m) text)"

type_synonym loads = "pystr \<Rightarrow> json option"

definition attribute_error :: exn where "attribute_error = OtherExn (U ''AttributeError'')"
definition type_error :: exn where "type_error = OtherExn (U ''TypeError'')"

definition parse_arguments :: "loads \<Rightarrow> pystr \<Rightarrow> json" where
  "parse_arguments loads arguments =
     (if arguments = [] then JObj []
      else case loads arguments of None \<Rightarrow> JObj [] | Some j \<Rightarrow> j)"

definition extract_flags :: "(pystr \<times> json) list \<Rightarrow> pystr list" where
  "extract_flags args = map (\<lambda>(k, v). lstrip_chars [45] k) (filter (\<lambda>(k, v). v = JBool True) args)"

definition extract_options :: "(pystr \<times> json) list \<Rightarrow> (pystr \<times> json) list" where
  "extract_options args =
     fold (\<lambda>(k, v) d. AList.update (lstrip_chars [45] k) v d)
       (filter (\<lambda>(k, v). v \<noteq> JBool True \<and> v \<noteq> JBool False \<and>
                         k \<notin> {U ''args'', U ''command'', U ''confidence''}) args) []"

definition compose_command_text :: "loads \<Rightarrow> (json \<Rightarrow> pystr) \<Rightarrow> pystr \<Rightarrow> pystr \<Rightarrow> exn + pystr" where
  "compose_command_text loads str_of name arguments =
     (case parse_arguments loads arguments of
        JObj args \<Rightarrow>
          (let options = map (\<lambda>(k, v). case v of JStr s \<Rightarrow> k @ [32] @ s | _ \<Rightarrow> str_of v) (extract_options args);
               flags = map (lstrip_chars [45]) (extract_flags args);
               parts = (44 # lstrip_chars [45] name) # options @ flags
           in case dict_get args (U ''args'') of
                None \<Rightarrow> Inr (strip_chars [39, 34] (join [32] parts))
              | Some v \<Rightarrow>
                  if \<not> truthy v then Inr (strip_chars [39, 34] (join [32] parts))
                  else case v of
                         JStr s \<Rightarrow> Inr (strip_chars [39, 34] (join [32] (parts @ [s])))
                       | _ \<Rightarrow> Inl type_error)
      | _ \<Rightarrow> Inl attribute_error)"

definition resolve_command_name :: "'w registry \<Rightarrow> pystr \<Rightarrow> pystr" where
  "resolve_command_name r command_text =
     (if \<not> startswith command_text [44] then command_text
      else case split_ws command_text of
             [] \<Rightarrow> command_text
           | p # ps \<Rightarrow>
               join [32] ((case get_by_name r (drop 1 p) of Some c \<Rightarrow> 44 # command_name c | None \<Rightarrow> p) # ps))"

definition compose :: "'w registry \<Rightarrow> loads \<Rightarrow> (json \<Rightarrow> pystr) \<Rightarrow> pystr \<Rightarrow> pystr \<Rightarrow> exn + pystr" where
  "compose r loads str_of name arguments =
     map_sum id (resolve_command_name r) (compose_command_text loads str_of name arguments)"

definition apply_dm_redirect :: "pystr \<Rightarrow> command_data \<Rightarrow> pystr \<times> pystr" where
  "apply_dm_redirect command_text d =
     (if \<not> (cd_is_group d \<and> search True dm_keywords (cd_text d) \<noteq> None)
      then (command_text, cd_jid d)
      else let rewritten = strip (rx_sub True dm_keywords (\<lambda>_. []) command_text)
           in (44 # (if startswith rewritten [44] then strip (drop 1 rewritten) else rewritten),
               cd_sender_jid d))"

definition translate ::
  "'w registry \<Rightarrow> loads \<Rightarrow> (json \<Rightarrow> pystr) \<Rightarrow> command_data \<Rightarrow> pystr \<Rightarrow> pystr \<Rightarrow> exn + command_data" where
  "translate r loads str_of d name arguments =
     (case compose r loads str_of name arguments of
        Inl e \<Rightarrow> Inl e
      | Inr text \<Rightarrow>
          (let (text, target) = apply_dm_redirect text d
           in Inr (d\<lparr>cd_text := normalize_flags text, cd_jid := target\<rparr>)))"

subsection \<open>Examples\<close>

record retrieved_example =
  re_text :: pystr
  re_command :: pystr
  re_score :: rat

definition MAX_EXAMPLES :: nat where "MAX_EXAMPLES = 5"
definition MIN_SIMILARITY :: rat where "MIN_SIMILARITY = 3 / 4"
definition DIRECT_MATCH_SIMILARITY :: rat where "DIRECT_MATCH_SIMILARITY = 97 / 100"
definition MAX_USER_INPUT_LENGTH :: nat where "MAX_USER_INPUT_LENGTH = 2000"

definition user_input :: "pystr \<Rightarrow> pystr" where
  "user_input text = take MAX_USER_INPUT_LENGTH (strip (replace_str BOT_MENTION_TAG [] text))"

definition static_examples :: "(pystr \<times> pystr) list \<Rightarrow> retrieved_example list" where
  "static_examples bank = map (\<lambda>(t, c). \<lparr>re_text = t, re_command = c, re_score = 0\<rparr>) (take MAX_EXAMPLES bank)"

text \<open>\<open>http_error\<close> says which exceptions are \<open>httpx.HTTPError\<close>s; \<open>bank\<close> is the list of examples.\<close>

definition select_examples ::
  "(exn \<Rightarrow> bool) \<Rightarrow> (pystr \<times> pystr) list \<Rightarrow> (pystr \<Rightarrow> nat \<Rightarrow> (exn, 'w, retrieved_example list) act) option \<Rightarrow>
   pystr \<Rightarrow> (exn, 'w, retrieved_example list) act" where
  "select_examples http_error bank retriever text =
     (case retriever of
        None \<Rightarrow> ret (static_examples bank)
      | Some retrieve \<Rightarrow>
          handleA (bindA (retrieve (user_input text) MAX_EXAMPLES)
                     (\<lambda>es. ret (filter (\<lambda>e. MIN_SIMILARITY \<le> re_score e) es)))
            (\<lambda>e. if http_error e then ret (static_examples bank) else raise e))"

fun best_example :: "retrieved_example list \<Rightarrow> retrieved_example option" where
  "best_example [] = None"
| "best_example (e # es) =
     (case best_example es of
        None \<Rightarrow> Some e
      | Some b \<Rightarrow> if re_score e < re_score b then Some b else Some e)"

definition direct_match :: "command_data \<Rightarrow> retrieved_example list \<Rightarrow> retrieved_example option" where
  "direct_match d es =
     (if truthy_str (cd_quoted_text d) then None
      else case best_example es of
             None \<Rightarrow> None
           | Some b \<Rightarrow> if re_score b < DIRECT_MATCH_SIMILARITY then None else Some b)"

subsection \<open>The model's answer\<close>

datatype agent_outcome =
    O_COMMAND | O_DIRECT | O_CONFIRM | O_CLARIFY | O_SUGGEST | O_UNRESOLVABLE | O_UNAVAILABLE
  | O_OVER_BUDGET | O_CONFIRMED | O_DENIED | O_MENU_HINT

record agent_decision =
  ad_outcome :: agent_outcome
  ad_command :: pystr
  ad_text :: pystr
  ad_provider :: pystr
  ad_version :: pystr

definition mk_decision :: "agent_outcome \<Rightarrow> pystr \<Rightarrow> pystr \<Rightarrow> agent_decision" where
  "mk_decision out command text =
     \<lparr>ad_outcome = out, ad_command = command, ad_text = text, ad_provider = [], ad_version = []\<rparr>"

text \<open>A tool call is its name and its arguments, a JSON text.\<close>

record llm_response =
  lr_content :: pystr
  lr_provider :: pystr
  lr_tool_call :: "(pystr \<times> pystr) option"
  lr_tokens :: nat

definition CONFIDENCE_THRESHOLD :: rat where "CONFIDENCE_THRESHOLD = 7 / 10"

definition UNAVAILABLE_MSG :: pystr where
  "UNAVAILABLE_MSG = U ''{129302} IA indispon{237}vel no momento. '' @ AGENT_MENU_HINT"

definition UNRESOLVABLE_MSG :: pystr where
  "UNRESOLVABLE_MSG = U ''{129302} N{227}o consegui entender. '' @ AGENT_MENU_HINT"

definition over_budget_msg :: "pystr \<Rightarrow> pystr" where
  "over_budget_msg refill =
     U ''{129302} Limite de IA atingido, volta {224}s '' @ refill @ U ''. '' @ AGENT_MENU_HINT"

definition unresolvable :: agent_decision where
  "unresolvable = mk_decision O_UNRESOLVABLE [] UNRESOLVABLE_MSG"

text \<open>
  \<open>float\<close> of a JSON string is the parameter \<open>float_of\<close>, with \<open>None\<close> for a \<open>ValueError\<close>.  \<open>float\<close> of an
  integer that rounds to \<open>2 ^ 1024\<close> or more is an \<open>OverflowError\<close>, which is no \<open>ValueError\<close>.
\<close>

definition FLOAT_OVERFLOW :: rat where "FLOAT_OVERFLOW = 2 ^ 1024 - 2 ^ 970"

lemma FLOAT_OVERFLOW_value [code]:
  "FLOAT_OVERFLOW =
     179769313486231580793728971405303415079934132710037826936173778980444968292764750946649017977587207096330286416692887910946555547851940402630657488671505820681908902000708383676273854845817711531764475730270069855571366959622842914819860834936475292719074168444365510704342711559699508093042880177904174497792"
  by (simp add: FLOAT_OVERFLOW_def)

definition tool_confidence :: "loads \<Rightarrow> (pystr \<Rightarrow> rat option) \<Rightarrow> pystr \<Rightarrow> exn + rat" where
  "tool_confidence loads float_of arguments =
     (case loads arguments of
        None \<Rightarrow> Inr 1
      | Some (JObj args) \<Rightarrow>
          (case dict_get args (U ''confidence'') of
             None \<Rightarrow> Inr 1
           | Some (JNum n) \<Rightarrow> if FLOAT_OVERFLOW \<le> \<bar>n\<bar> then Inl (OtherExn (U ''OverflowError'')) else Inr n
           | Some (JBool b) \<Rightarrow> Inr (if b then 1 else 0)
           | Some (JStr s) \<Rightarrow> Inr (case float_of s of None \<Rightarrow> 1 | Some f \<Rightarrow> f)
           | Some _ \<Rightarrow> Inr 1)
      | Some _ \<Rightarrow> Inl attribute_error)"

definition tool_arg :: "loads \<Rightarrow> (json \<Rightarrow> pystr) \<Rightarrow> pystr \<Rightarrow> pystr \<Rightarrow> exn + pystr" where
  "tool_arg loads str_of arguments key =
     (case loads arguments of
        None \<Rightarrow> Inr []
      | Some (JObj args) \<Rightarrow>
          Inr (strip (case dict_get args key of
                        None \<Rightarrow> [] | Some (JStr s) \<Rightarrow> s | Some v \<Rightarrow> str_of v))
      | Some _ \<Rightarrow> Inl attribute_error)"

text \<open>\<open>META_TOOL_TEXT\<close>: the argument that carries the text, and the outcome of the same name.\<close>

definition meta_tool :: "pystr \<Rightarrow> (pystr \<times> agent_outcome) option" where
  "meta_tool name =
     (if name = U ''clarify'' then Some (U ''question'', O_CLARIFY)
      else if name = U ''suggest'' then Some (U ''message'', O_SUGGEST) else None)"

definition meta_decision ::
  "loads \<Rightarrow> (json \<Rightarrow> pystr) \<Rightarrow> pystr \<times> agent_outcome \<Rightarrow> pystr \<Rightarrow> exn + agent_decision" where
  "meta_decision loads str_of meta arguments =
     map_sum id (\<lambda>text. if text = [] then unresolvable else mk_decision (snd meta) [] text)
       (tool_arg loads str_of arguments (fst meta))"

definition proposal_question :: "pystr \<Rightarrow> pystr" where
  "proposal_question proposed = U ''Voc{234} quis dizer {96}'' @ proposed @ U ''{96}?''"

definition route_tool_call ::
  "'w registry \<Rightarrow> loads \<Rightarrow> (json \<Rightarrow> pystr) \<Rightarrow> (pystr \<Rightarrow> rat option) \<Rightarrow> pystr \<times> pystr \<Rightarrow> exn + agent_decision"
where
  "route_tool_call r loads str_of float_of call =
     (let (name, arguments) = call in
      case meta_tool name of
        Some meta \<Rightarrow> meta_decision loads str_of meta arguments
      | None \<Rightarrow>
          (case compose r loads str_of name arguments of
             Inl e \<Rightarrow> Inl e
           | Inr command \<Rightarrow>
               (case tool_confidence loads float_of arguments of
                  Inl e \<Rightarrow> Inl e
                | Inr conf \<Rightarrow>
                    if CONFIDENCE_THRESHOLD \<le> conf then Inr (mk_decision O_COMMAND command [])
                    else let proposed = normalize_flags command
                         in Inr (mk_decision O_CONFIRM proposed (proposal_question proposed)))))"

definition interpret_response ::
  "'w registry \<Rightarrow> loads \<Rightarrow> (json \<Rightarrow> pystr) \<Rightarrow> (pystr \<Rightarrow> rat option) \<Rightarrow> llm_response \<Rightarrow> exn + agent_decision"
where
  "interpret_response r loads str_of float_of resp =
     (case lr_tool_call resp of
        Some call \<Rightarrow> route_tool_call r loads str_of float_of call
      | None \<Rightarrow>
          (let content = normalize_flags
                 (strip (strip_chars [34, 39] (strip_chars [96] (strip (lr_content resp)))))
           in if startswith content [44] \<or> startswith content [47]
              then Inr (mk_decision O_COMMAND
                     (44 # strip_chars [39, 34] (lstrip_chars [44, 47] content)) [])
              else Inr unresolvable))"

text \<open>
  The prompt.  \<open>format_fields\<close> is \<open>str.format\<close> with named fields, for the templates the code
  uses: a field is a plain name, so no conversion and no format specification.
\<close>

definition key_error :: exn where "key_error = OtherExn (U ''KeyError'')"
definition value_error :: exn where "value_error = OtherExn (U ''ValueError'')"

fun format_go :: "pystr option \<Rightarrow> (pystr \<times> pystr) list \<Rightarrow> pystr \<Rightarrow> exn + pystr" where
  "format_go None fs [] = Inr []"
| "format_go (Some _) fs [] = Inl value_error"
| "format_go (Some name) fs (c # t) =
     (if c = 125 then (case dict_get fs (rev name) of
                         None \<Rightarrow> Inl key_error
                       | Some v \<Rightarrow> map_sum id (append v) (format_go None fs t))
      else format_go (Some (c # name)) fs t)"
| "format_go None fs [c] = (if c = 123 \<or> c = 125 then Inl value_error else Inr [c])"
| "format_go None fs (c # d # t) =
     (if (c = 123 \<or> c = 125) \<and> d = c then map_sum id ((#) c) (format_go None fs t)
      else if c = 123 then format_go (Some []) fs (d # t)
      else if c = 125 then Inl value_error
      else map_sum id ((#) c) (format_go None fs (d # t)))"

definition format_fields :: "(pystr \<times> pystr) list \<Rightarrow> pystr \<Rightarrow> exn + pystr" where
  "format_fields fs template = format_go None fs template"

definition MAX_CONTEXT_LENGTH :: nat where "MAX_CONTEXT_LENGTH = 2000"

definition build_prompt :: "pystr \<Rightarrow> pystr \<Rightarrow> command_data \<Rightarrow> retrieved_example list \<Rightarrow> exn + pystr" where
  "build_prompt command_list template d es =
     (let input = user_input (cd_text d);
          examples_text = join [10]
            (map (\<lambda>e. U ''Usu{225}rio: {34}'' @ re_text e @ U ''{34} -> Comando: '' @ re_command e) es);
          quote = take MAX_CONTEXT_LENGTH (case cd_quoted_text d of None \<Rightarrow> [] | Some q \<Rightarrow> q)
      in format_fields
           [(U ''command_list'', command_list), (U ''examples'', examples_text), (U ''user_input'', input),
            (U ''context'', if quote \<noteq> [] then U ''{10}Contexto da mensagem anterior: {34}'' @ quote @ U ''{34}''
                          else []),
            (U ''user_context'', (if quote \<noteq> [] then U ''{10}Pedido do usu{225}rio (respondendo acima): ''
                               else U ''{10}Pedido do usu{225}rio: '') @ input)]
           template)"

text \<open>
  The collaborators of the mapper: the prompt registry (a template and its version), the
  provider on a prompt, which exceptions it and the registry raise for a failure of theirs, and
  the budget, whose refill time is already formatted.
\<close>

record 'w mapper =
  ma_system_prompt :: "(exn, 'w, pystr \<times> pystr) act"
  ma_command_list :: pystr
  ma_complete :: "pystr \<Rightarrow> (exn, 'w, llm_response) act"
  ma_provider_error :: "exn \<Rightarrow> bool"
  ma_refill_at :: "(command_data \<Rightarrow> (exn, 'w, pystr option) act) option"
  ma_spend :: "command_data \<Rightarrow> nat \<Rightarrow> (exn, 'w, unit) act"
  ma_interpret :: "llm_response \<Rightarrow> exn + agent_decision"

definition unavailable_decision :: "pystr \<Rightarrow> agent_decision" where
  "unavailable_decision version = (mk_decision O_UNAVAILABLE [] UNAVAILABLE_MSG)\<lparr>ad_version := version\<rparr>"

text \<open>The request to the provider, under the handler: the response or the decision of an outage.\<close>

definition outage :: "'w mapper \<Rightarrow> pystr \<Rightarrow> exn \<Rightarrow> (exn, 'w, agent_decision + 'a) act" where
  "outage m version e =
     (if ma_provider_error m e then ret (Inl (unavailable_decision version)) else raise e)"

definition ask_provider ::
  "'w mapper \<Rightarrow> command_data \<Rightarrow> retrieved_example list \<Rightarrow>
   (exn, 'w, agent_decision + llm_response \<times> pystr) act" where
  "ask_provider m d es =
     bindA (handleA (bindA (ma_system_prompt m) (\<lambda>p. ret (Inr p))) (outage m []))
       (\<lambda>r. case r of
          Inl dec \<Rightarrow> ret (Inl dec)
        | Inr (template, version) \<Rightarrow>
            handleA (bindA (case build_prompt (ma_command_list m) template d es of
                              Inl e \<Rightarrow> raise e | Inr prompt \<Rightarrow> ma_complete m prompt)
                       (\<lambda>resp. ret (Inr (resp, version))))
              (outage m version))"

definition map_request ::
  "'w mapper \<Rightarrow> command_data \<Rightarrow> retrieved_example list \<Rightarrow> (exn, 'w, agent_decision) act" where
  "map_request m d es =
     bindA (case ma_refill_at m of None \<Rightarrow> ret None | Some refill \<Rightarrow> refill d)
       (\<lambda>refill. case refill of
          Some t \<Rightarrow> ret (mk_decision O_OVER_BUDGET [] (over_budget_msg t))
        | None \<Rightarrow>
            bindA (ask_provider m d es)
              (\<lambda>r. case r of
                 Inl dec \<Rightarrow> ret dec
               | Inr (resp, version) \<Rightarrow>
                   bindA (case ma_refill_at m of None \<Rightarrow> ret () | Some _ \<Rightarrow> ma_spend m d (lr_tokens resp))
                     (\<lambda>_. case ma_interpret m resp of
                        Inl e \<Rightarrow> raise e
                      | Inr dec \<Rightarrow>
                          ret (dec\<lparr>ad_provider := lr_provider resp, ad_version := version\<rparr>))))"

subsection \<open>What a decision of the mapper can be\<close>

text \<open>Any action that ends normally, and any action that fails in a known way only.\<close>

definition returns :: "('e, 'w, 'a) act \<Rightarrow> bool" where
  "returns m \<longleftrightarrow> (\<forall>w. \<exists>a w'. m w = (Inr a, w'))"

definition fails_only :: "('e \<Rightarrow> bool) \<Rightarrow> ('e, 'w, 'a) act \<Rightarrow> bool" where
  "fails_only P m \<longleftrightarrow> (\<forall>w e w'. m w = (Inl e, w') \<longrightarrow> P e)"

lemma returns_ret [simp]: "returns (ret a)" and returns_Pair [simp]: "returns (Pair (Inr a))"
  by (simp_all add: returns_def)

lemma returns_bindA: "returns m \<Longrightarrow> (\<And>w a w'. m w = (Inr a, w') \<Longrightarrow> returns (f a)) \<Longrightarrow> returns (bindA m f)"
  unfolding returns_def by (metis bindA_Inr)

lemma returns_handleA: "fails_only P m \<Longrightarrow> (\<And>e. P e \<Longrightarrow> returns (h e)) \<Longrightarrow> returns (handleA m h)"
  unfolding returns_def fails_only_def
  by (metis handleA_Inl handleA_Inr old.prod.exhaust sumE)

lemma fails_only_ret [simp]: "fails_only P (ret a)" and fails_only_raise [simp]: "fails_only P (raise e) \<longleftrightarrow> P e"
  by (simp_all add: fails_only_def)

lemma fails_only_bindA:
  assumes m: "fails_only P m" and f: "\<And>w a w'. m w = (Inr a, w') \<Longrightarrow> fails_only P (f a)"
  shows "fails_only P (bindA m f)"
  unfolding fails_only_def
proof (intro allI impI)
  fix w e w' assume b: "bindA m f w = (Inl e, w')"
  show "P e"
  proof (cases rule: bindA_cases [of m w f])
    case 1
    with b m show ?thesis by (auto simp: fails_only_def)
  next
    case (2 a v)
    from f [OF 2(1)] b 2(2) show ?thesis by (auto simp: fails_only_def)
  qed
qed

text \<open>
  A mapper's decision: its outcome has an edge out of \<open>call_llm\<close>; a confirmation shows the
  command it proposes, which is never empty; nothing else but a command carries one.
\<close>

definition mapper_outcomes :: "agent_outcome set" where
  "mapper_outcomes = {O_COMMAND, O_CONFIRM, O_CLARIFY, O_SUGGEST, O_UNRESOLVABLE, O_UNAVAILABLE, O_OVER_BUDGET}"

definition decision_ok :: "agent_decision \<Rightarrow> bool" where
  "decision_ok dec \<longleftrightarrow> ad_outcome dec \<in> mapper_outcomes \<and>
     (ad_outcome dec = O_CONFIRM \<longrightarrow> ad_command dec \<noteq> [] \<and> ad_text dec = proposal_question (ad_command dec)) \<and>
     (ad_outcome dec \<notin> {O_COMMAND, O_CONFIRM} \<longrightarrow> ad_command dec = [])"

lemmas decision_simps = decision_ok_def mapper_outcomes_def mk_decision_def unresolvable_def unavailable_decision_def

lemma decision_ok_unresolvable [simp]: "decision_ok unresolvable"
  and decision_ok_unavailable [simp]: "decision_ok (unavailable_decision v)"
  and decision_ok_over_budget [simp]: "decision_ok (mk_decision O_OVER_BUDGET [] t)"
  by (simp_all add: decision_simps unresolvable_def unavailable_decision_def)

lemma meta_tool_outcome: "meta_tool name = Some m \<Longrightarrow> snd m \<in> {O_CLARIFY, O_SUGGEST}"
  by (auto simp: meta_tool_def split: if_splits)

lemma meta_decision_ok:
  assumes "meta_tool name = Some m" and "meta_decision loads str_of m args = Inr dec"
  shows "decision_ok dec"
proof -
  from assms(2) obtain t where "dec = (if t = [] then unresolvable else mk_decision (snd m) [] t)"
    by (cases "tool_arg loads str_of args (fst m)") (auto simp: meta_decision_def)
  with meta_tool_outcome [OF assms(1)] show ?thesis
    by (cases "t = []") (auto simp: decision_simps)
qed

text \<open>A composed command starts with the comma, so a proposal is never empty.\<close>

lemma sub_go_ne:
  "s \<noteq> [] \<Longrightarrow> (\<And>m. m \<noteq> [] \<Longrightarrow> f m \<noteq> []) \<Longrightarrow> sub_go n ic r f p s \<noteq> []"
  by (cases n) (auto split: list.splits)

lemma normalize_flags_ne: "s \<noteq> [] \<Longrightarrow> normalize_flags s \<noteq> []"
  unfolding normalize_flags_def rx_sub_def by (intro sub_go_ne) auto

lemma rstrip_Cons: "\<not> P c \<Longrightarrow> rstrip_by P (c # s) = c # rstrip_by P s"
  by (simp add: rstrip_by_def dropWhile_append3)

lemma join_hd: "join [32] ((c # s) # ws) = c # (case ws of [] \<Rightarrow> s | _ \<Rightarrow> s @ 32 # join [32] ws)"
  by (cases ws) auto

lemma strip_comma: "strip_chars [39, 34] (44 # t) = 44 # rstrip_by (\<lambda>c. c \<in> set [39, 34]) t"
  by (simp add: strip_by_def lstrip_by_def rstrip_Cons)

lemma compose_text_comma:
  "compose_command_text loads str_of name args = Inr c \<Longrightarrow> \<exists>t. c = 44 # t"
  by (auto simp: compose_command_text_def Let_def join_hd strip_comma simp del: set_simps join.simps
      split: json.splits option.splits if_splits)

lemma split_go_ne: "acc \<noteq> [] \<Longrightarrow> \<exists>w ws. split_go acc s = w # ws \<and> w \<noteq> []"
  by (induction acc s rule: split_go.induct) auto

lemma join_hd_ne: "w \<noteq> [] \<Longrightarrow> join sep (w # ws) \<noteq> []"
  by (cases ws) auto

lemma resolve_ne: "resolve_command_name r (44 # t) \<noteq> []"
proof -
  obtain w ws where *: "split_ws (44 # t) = w # ws" "w \<noteq> []"
    using split_go_ne [of "[44]" t] by (auto simp: split_ws_def is_space_def space_cps_def)
  then show ?thesis
    by (simp add: resolve_command_name_def join_hd_ne split: option.split)
qed

lemma compose_ne: "compose r loads str_of name args = Inr c \<Longrightarrow> c \<noteq> []"
  using resolve_ne compose_text_comma
  by (cases "compose_command_text loads str_of name args") (fastforce simp: compose_def)+

lemma route_tool_call_ok:
  assumes "route_tool_call r loads str_of float_of call = Inr dec"
  shows "decision_ok dec"
proof (cases "meta_tool (fst call)")
  case (Some m)
  with assms show ?thesis
    by (auto simp: route_tool_call_def split: prod.splits dest: meta_decision_ok)
next
  case None
  with assms obtain c where c: "compose r loads str_of (fst call) (snd call) = Inr c"
    by (auto simp: route_tool_call_def split: prod.splits sum.splits)
  from None assms c normalize_flags_ne [OF compose_ne [OF c]] show ?thesis
    by (auto simp: route_tool_call_def Let_def decision_simps split: prod.splits sum.splits if_splits)
qed

lemma interpret_ok: "interpret_response r loads str_of float_of resp = Inr dec \<Longrightarrow> decision_ok dec"
  by (auto simp: interpret_response_def Let_def decision_simps
        dest: route_tool_call_ok split: option.splits if_splits)

lemma decision_ok_stamp [simp]: "decision_ok (dec\<lparr>ad_provider := p, ad_version := v\<rparr>) = decision_ok dec"
  by (simp add: decision_ok_def)

text \<open>What every normal result of an action satisfies.\<close>

definition yields :: "('a \<Rightarrow> bool) \<Rightarrow> ('e, 'w, 'a) act \<Rightarrow> bool" where
  "yields P m \<longleftrightarrow> (\<forall>w a w'. m w = (Inr a, w') \<longrightarrow> P a)"

lemma yields_ret [simp]: "yields P (ret a) = P a" and yields_raise [simp]: "yields P (raise e)"
  by (auto simp: yields_def)

lemma yields_bindA: "yields Q m \<Longrightarrow> (\<And>a. Q a \<Longrightarrow> yields P (f a)) \<Longrightarrow> yields P (bindA m f)"
  unfolding yields_def by (metis bindA_cases Inl_Inr_False prod.inject)

lemma yields_handleA: "yields P m \<Longrightarrow> (\<And>e. yields P (h e)) \<Longrightarrow> yields P (handleA m h)"
  unfolding yields_def
  by (metis handleA_Inl handleA_Inr old.prod.exhaust sumE)

lemma yields_any [simp]: "yields (\<lambda>_. True) m"
  by (simp add: yields_def)

definition outage_ok :: "agent_decision + 'a \<Rightarrow> bool" where
  "outage_ok r = (case r of Inl dec \<Rightarrow> decision_ok dec | Inr _ \<Rightarrow> True)"

lemma ask_provider_ok: "yields outage_ok (ask_provider m d es)"
  unfolding ask_provider_def
proof (rule yields_bindA [where Q = outage_ok])
  show "yields outage_ok (handleA (bindA (ma_system_prompt m) (\<lambda>p. ret (Inr p))) (outage m []))"
    by (intro yields_handleA yields_bindA [where Q = "\<lambda>_. True"]) (auto simp: outage_def outage_ok_def)
  fix r :: "agent_decision + pystr \<times> pystr" assume "outage_ok r"
  then show "yields outage_ok (case r of Inl dec \<Rightarrow> ret (Inl dec) | Inr (template, version) \<Rightarrow>
      handleA (bindA (case build_prompt (ma_command_list m) template d es of
                        Inl e \<Rightarrow> raise e | Inr prompt \<Rightarrow> ma_complete m prompt)
                 (\<lambda>resp. ret (Inr (resp, version)))) (outage m version))"
    by (cases r) (auto intro!: yields_handleA yields_bindA [where Q = "\<lambda>_. True"]
        simp: outage_def outage_ok_def)
qed

lemma map_request_ok:
  assumes "\<And>resp dec. ma_interpret m resp = Inr dec \<Longrightarrow> decision_ok dec"
  shows "yields decision_ok (map_request m d es)"
  unfolding map_request_def
  by (intro yields_bindA [where Q = "\<lambda>_. True"] yields_any)
     (auto split: option.split sum.split prod.split
        intro!: yields_bindA [OF ask_provider_ok] yields_bindA [where Q = "\<lambda>_. True"]
        simp: assms outage_ok_def)

subsection \<open>When the mapper answers\<close>

definition prompt_fields :: "pystr list" where
  "prompt_fields = [U ''command_list'', U ''examples'', U ''user_input'', U ''context'', U ''user_context'']"

definition template_ok :: "pystr \<Rightarrow> bool" where
  "template_ok t \<longleftrightarrow> \<not> isl (format_fields (map (\<lambda>k. (k, [])) prompt_fields) t)"

lemma dict_get_keys: "map fst fs = map fst gs \<Longrightarrow> dict_get fs k = None \<longleftrightarrow> dict_get gs k = None"
  unfolding dict_get_def by (metis list.set_map map_of_eq_None_iff)

lemma isl_map_sum_id [simp]: "isl (map_sum id f x) = isl x"
  by (cases x) auto

lemma format_go_keys: "map fst fs = map fst gs \<Longrightarrow> isl (format_go o' fs t) = isl (format_go o' gs t)"
  by (induction o' fs t rule: format_go.induct)
     (auto split: option.split, (metis dict_get_keys option.distinct(1))+)

lemma build_prompt_ok: "template_ok t \<Longrightarrow> \<exists>p. build_prompt cl t d es = Inr p"
proof -
  assume "template_ok t"
  moreover have "isl (build_prompt cl t d es) = isl (format_fields (map (\<lambda>k. (k, [])) prompt_fields) t)"
    unfolding build_prompt_def format_fields_def Let_def
    by (rule format_go_keys) (simp add: prompt_fields_def)
  ultimately show ?thesis
    by (metis template_ok_def sum.collapse(2))
qed

text \<open>
  The arguments of a tool call, when they are JSON at all, are an object whose \<open>args\<close> is a
  string or falsy, as the tool's schema asks, and whose \<open>confidence\<close> (a number from 0 to 1 in the
  schema) is no integer of more than 308 digits.
\<close>

definition args_ok :: "loads \<Rightarrow> bool" where
  "args_ok loads \<longleftrightarrow>
     (\<forall>s j. loads s = Some j \<longrightarrow>
        (\<exists>args. j = JObj args \<and>
           (\<forall>v. dict_get args (U ''args'') = Some v \<longrightarrow> truthy v \<longrightarrow> (\<exists>a. v = JStr a)) \<and>
           (\<forall>n. dict_get args (U ''confidence'') = Some (JNum n) \<longrightarrow> \<bar>n\<bar> < FLOAT_OVERFLOW)))"

lemma compose_total: "args_ok loads \<Longrightarrow> \<exists>c. compose r loads str_of name args = Inr c"
proof -
  assume ok: "args_ok loads"
  have "\<exists>c. compose_command_text loads str_of name args = Inr c"
  proof (cases "args = [] \<or> loads args = None")
    case True
    then show ?thesis
      by (auto simp: compose_command_text_def parse_arguments_def Let_def dict_get_def)
  next
    case False
    with ok obtain kvs where kvs: "loads args = Some (JObj kvs)"
      and a: "\<And>v. dict_get kvs (U ''args'') = Some v \<Longrightarrow> truthy v \<Longrightarrow> \<exists>a. v = JStr a"
      unfolding args_ok_def by fastforce
    show ?thesis
    proof (cases "dict_get kvs (U ''args'')")
      case None
      with False kvs show ?thesis by (auto simp: compose_command_text_def parse_arguments_def Let_def)
    next
      case (Some v)
      with a [of v] False kvs show ?thesis
        by (cases "truthy v") (auto simp: compose_command_text_def parse_arguments_def Let_def)
    qed
  qed
  then show ?thesis by (auto simp: compose_def)
qed

lemma interpret_total: "args_ok loads \<Longrightarrow> \<exists>dec. interpret_response r loads str_of float_of resp = Inr dec"
proof (cases "lr_tool_call resp")
  case None
  then show ?thesis by (simp add: interpret_response_def Let_def)
next
  case (Some call)
  assume ok: "args_ok loads"
  obtain name args where call: "call = (name, args)" by fastforce
  have arg: "\<exists>t. tool_arg loads str_of args k = Inr t" and conf: "\<exists>c. tool_confidence loads float_of args = Inr c" for k
    using ok unfolding args_ok_def tool_arg_def tool_confidence_def
    by (auto split: option.split json.split dest!: spec leD)+
  obtain c where c: "compose r loads str_of name args = Inr c" using compose_total [OF ok] by blast
  show ?thesis
  proof (cases "meta_tool name")
    case None
    with conf c Some call show ?thesis
      by (auto simp: interpret_response_def route_tool_call_def Let_def)
  next
    case (Some m)
    with arg [of "fst m"] \<open>lr_tool_call resp = _\<close> call show ?thesis
      by (auto simp: interpret_response_def route_tool_call_def meta_decision_def)
  qed
qed

lemma map_request_returns:
  assumes prompt: "fails_only (ma_provider_error m) (ma_system_prompt m)"
      "yields (\<lambda>(t, v). template_ok t) (ma_system_prompt m)"
    and complete: "\<And>p. fails_only (ma_provider_error m) (ma_complete m p)"
    and budget: "\<And>f. ma_refill_at m = Some f \<Longrightarrow> returns (f d)" "\<And>n. returns (ma_spend m d n)"
    and reading: "\<And>resp. \<exists>dec. ma_interpret m resp = Inr dec"
  shows "returns (map_request m d es)"
proof -
  have out: "ma_provider_error m e \<Longrightarrow> returns (outage m v e)" for v e
    by (simp add: outage_def)
  have ask: "returns (ask_provider m d es)"
    unfolding ask_provider_def
  proof (rule returns_bindA)
    show "returns (handleA (bindA (ma_system_prompt m) (\<lambda>p. ret (Inr p))) (outage m []))"
      by (rule returns_handleA [OF fails_only_bindA [OF prompt(1)] out]) simp_all
    fix w r w' assume r: "handleA (bindA (ma_system_prompt m) (\<lambda>p. ret (Inr p))) (outage m []) w = (Inr r, w')"
    show "returns (case r of Inl dec \<Rightarrow> ret (Inl dec) | Inr (template, version) \<Rightarrow>
      handleA (bindA (case build_prompt (ma_command_list m) template d es of
                        Inl e \<Rightarrow> raise e | Inr prompt \<Rightarrow> ma_complete m prompt)
                 (\<lambda>resp. ret (Inr (resp, version)))) (outage m version))"
    proof (cases r)
      case (Inr p)
      obtain t v where p: "p = (t, v)" by fastforce
      have "yields (\<lambda>r. \<forall>t v. r = Inr (t, v) \<longrightarrow> template_ok t)
              (handleA (bindA (ma_system_prompt m) (\<lambda>p. ret (Inr p)))
                 (outage m [] :: exn \<Rightarrow> (exn, 'a, agent_decision + pystr \<times> pystr) act))"
        by (intro yields_handleA yields_bindA [OF prompt(2)]) (auto simp: outage_def)
      with r Inr p have "template_ok t" by (auto simp: yields_def)
      then obtain q where "build_prompt (ma_command_list m) t d es = Inr q"
        using build_prompt_ok by blast
      with Inr p show ?thesis
        by (auto intro!: returns_handleA [OF fails_only_bindA [OF complete] out])
    qed simp
  qed
  have reads: "ma_interpret m resp \<noteq> Inl e" for resp e using reading [of resp] by auto
  show ?thesis
    unfolding map_request_def
    by (intro returns_bindA)
       (auto split: option.splits sum.splits simp: reads intro!: ask returns_bindA budget)
qed

end
