(* ===== verification/Agent_Turn.thy ===== *)
theory Agent_Turn
  imports Agent
begin

text \<open>
  One turn of the conversation with the agent: the nodes of the graph and the state they share
  (bot/infrastructure/llm/agent_graph_nodes.py), its edges and its run over a checkpointer
  (bot/infrastructure/llm/graph_orchestrator.py).

  The graph library is a parameter in one point only, the checkpointer: a turn starts from the
  state loaded for its thread, at the node that follows START, and the state is saved after
  every node.  The library stops a run after 25 nodes, and so does \<open>run_graph\<close>.
\<close>

subsection \<open>The state of a turn and its nodes\<close>

record agent_state =
  as_conversation :: conversation
  as_intent :: turn_intent
  as_examples :: "retrieved_example list"
  as_decision :: "agent_decision option"
  as_result_text :: pystr
  as_result_jid :: pystr

definition initial_state :: agent_state where
  "initial_state = \<lparr>as_conversation = idle_conversation, as_intent = REQUEST, as_examples = [],
     as_decision = None, as_result_text = [], as_result_jid = []\<rparr>"

text \<open>What the nodes call: the clock, the example selector, the mapper and the translator.\<close>

record 'w turn_env =
  te_clock :: "(exn, 'w, rat) act"
  te_select :: "pystr \<Rightarrow> (exn, 'w, retrieved_example list) act"
  te_map :: "command_data \<Rightarrow> retrieved_example list \<Rightarrow> (exn, 'w, agent_decision) act"
  te_translate :: "command_data \<Rightarrow> pystr \<Rightarrow> pystr \<Rightarrow> exn + command_data"

record reply_spec =
  rs_prefix :: pystr
  rs_keeps_waiting :: bool
  rs_fixed :: "agent_decision option"

datatype graph_node =
    N_ROUTE_INPUT | N_RETRIEVE_EXAMPLES | N_CALL_LLM | N_EXECUTE | N_EXECUTE_PROPOSED
  | N_ASK_AGAIN | N_CONFIRM | N_ASK | N_MENU_HINT | N_SUGGEST | N_FALLBACK

fun reply_spec_of :: "graph_node \<Rightarrow> reply_spec option" where
  "reply_spec_of N_CONFIRM = Some \<lparr>rs_prefix = CLARIFY_PREFIX, rs_keeps_waiting = True, rs_fixed = None\<rparr>"
| "reply_spec_of N_ASK = Some \<lparr>rs_prefix = CLARIFY_PREFIX, rs_keeps_waiting = True, rs_fixed = None\<rparr>"
| "reply_spec_of N_MENU_HINT = Some \<lparr>rs_prefix = CLARIFY_PREFIX, rs_keeps_waiting = False,
     rs_fixed = Some (mk_decision O_MENU_HINT [] UNRESOLVABLE_MSG)\<rparr>"
| "reply_spec_of N_SUGGEST = Some \<lparr>rs_prefix = SUGGEST_PREFIX, rs_keeps_waiting = False, rs_fixed = None\<rparr>"
| "reply_spec_of N_FALLBACK = Some \<lparr>rs_prefix = CLARIFY_PREFIX, rs_keeps_waiting = False, rs_fixed = None\<rparr>"
| "reply_spec_of N_ASK_AGAIN = Some \<lparr>rs_prefix = CLARIFY_PREFIX, rs_keeps_waiting = True,
     rs_fixed = Some (mk_decision O_DENIED [] ASK_AGAIN_QUESTION)\<rparr>"
| "reply_spec_of _ = None"

definition with_context :: "agent_state \<Rightarrow> command_data \<Rightarrow> command_data" where
  "with_context st d =
     d\<lparr>cd_quoted_text :=
         if truthy_str (cd_quoted_text d) then cd_quoted_text d
         else if cv_question (as_conversation st) \<noteq> [] then Some (cv_question (as_conversation st))
         else None\<rparr>"

definition route_input ::
  "'w turn_env \<Rightarrow> command_data \<Rightarrow> agent_state \<Rightarrow> (exn, 'w, agent_state) act" where
  "route_input te d st =
     bindA (te_clock te) (\<lambda>now.
       let c = resumed now (as_conversation st)
       in ret (st\<lparr>as_conversation := c, as_intent := turn_intent_of c (cd_text d)\<rparr>))"

definition retrieve_examples ::
  "'w turn_env \<Rightarrow> command_data \<Rightarrow> agent_state \<Rightarrow> (exn, 'w, agent_state) act" where
  "retrieve_examples te d st =
     (let d' = with_context st d
      in bindA (te_select te (cd_text d')) (\<lambda>es.
           ret (st\<lparr>as_examples := es,
                    as_decision := map_option (\<lambda>e. mk_decision O_DIRECT (re_command e) [])
                                     (direct_match d' es)\<rparr>)))"

definition call_llm ::
  "'w turn_env \<Rightarrow> command_data \<Rightarrow> agent_state \<Rightarrow> (exn, 'w, agent_state) act" where
  "call_llm te d st =
     bindA (te_map te (with_context st d) (as_examples st))
       (\<lambda>dec. ret (st\<lparr>as_decision := Some dec\<rparr>))"

definition finish_turn :: "command_data \<Rightarrow> conversation \<Rightarrow> agent_state \<Rightarrow> agent_state" where
  "finish_turn result c st =
     st\<lparr>as_result_text := cd_text result, as_result_jid := cd_jid result, as_conversation := c\<rparr>"

definition run_mapped ::
  "'w turn_env \<Rightarrow> command_data \<Rightarrow> pystr \<Rightarrow> agent_state \<Rightarrow> (exn, 'w, agent_state) act" where
  "run_mapped te d command st =
     (case te_translate te d (lstrip_chars [44] command) [] of
        Inl e \<Rightarrow> raise e
      | Inr result \<Rightarrow> ret (finish_turn result idle_conversation st))"

definition execute_node ::
  "'w turn_env \<Rightarrow> command_data \<Rightarrow> agent_state \<Rightarrow> (exn, 'w, agent_state) act" where
  "execute_node te d st =
     (case as_decision st of
        None \<Rightarrow> raise key_error
      | Some dec \<Rightarrow> run_mapped te d (ad_command dec) st)"

definition execute_proposed ::
  "'w turn_env \<Rightarrow> command_data \<Rightarrow> agent_state \<Rightarrow> (exn, 'w, agent_state) act" where
  "execute_proposed te d st = run_mapped te d (cv_proposed (as_conversation st)) st"

definition reply_node ::
  "reply_spec \<Rightarrow> 'w turn_env \<Rightarrow> command_data \<Rightarrow> agent_state \<Rightarrow> (exn, 'w, agent_state) act" where
  "reply_node spec te d st =
     (case (case rs_fixed spec of Some dec \<Rightarrow> Some dec | None \<Rightarrow> as_decision st) of
        None \<Rightarrow> raise key_error
      | Some dec \<Rightarrow>
          bindA (if rs_keeps_waiting spec
                 then bindA (te_clock te) (\<lambda>now.
                   ret (awaiting (ad_text dec) now (ad_command dec) (cd_text d) (as_conversation st)))
                 else ret idle_conversation)
            (\<lambda>c. ret (finish_turn (d\<lparr>cd_text := rs_prefix spec @ ad_text dec\<rparr>) c st)))"

fun run_node ::
  "'w turn_env \<Rightarrow> command_data \<Rightarrow> graph_node \<Rightarrow> agent_state \<Rightarrow> (exn, 'w, agent_state) act" where
  "run_node te d N_ROUTE_INPUT = route_input te d"
| "run_node te d N_RETRIEVE_EXAMPLES = retrieve_examples te d"
| "run_node te d N_CALL_LLM = call_llm te d"
| "run_node te d N_EXECUTE = execute_node te d"
| "run_node te d N_EXECUTE_PROPOSED = execute_proposed te d"
| "run_node te d n = reply_node (the (reply_spec_of n)) te d"

text \<open>The recall that the feedback records for a command that ran, \<open>None\<close> when it records none.\<close>

definition feedback_recalls :: "'w registry \<Rightarrow> pystr list \<Rightarrow> pystr \<Rightarrow> bool" where
  "feedback_recalls r examples command =
     (case strategy_index r command of
        None \<Rightarrow> False
      | Some i \<Rightarrow> list_ex (\<lambda>e. strategy_index r e = Some i) examples)"

definition feedback_executed ::
  "'w registry \<Rightarrow> retrieved_example list \<Rightarrow> agent_outcome \<Rightarrow> pystr \<Rightarrow> (agent_outcome \<times> bool) option" where
  "feedback_executed r es out command =
     (if out = O_DIRECT \<or> list_ex (\<lambda>e. re_score e = 0) es then None
      else Some (out, feedback_recalls r (map re_command es) command))"

subsection \<open>The edges\<close>

fun route_from_input :: "turn_intent \<Rightarrow> graph_node" where
  "route_from_input CONFIRMED = N_EXECUTE_PROPOSED"
| "route_from_input DENIED = N_ASK_AGAIN"
| "route_from_input REQUEST = N_RETRIEVE_EXAMPLES"

definition after_retrieval :: "agent_state \<Rightarrow> graph_node" where
  "after_retrieval st = (if as_decision st \<noteq> None then N_EXECUTE else N_CALL_LLM)"

fun route_from_llm :: "agent_outcome \<Rightarrow> graph_node option" where
  "route_from_llm O_COMMAND = Some N_EXECUTE"
| "route_from_llm O_CONFIRM = Some N_CONFIRM"
| "route_from_llm O_CLARIFY = Some N_ASK"
| "route_from_llm O_SUGGEST = Some N_SUGGEST"
| "route_from_llm O_UNRESOLVABLE = Some N_FALLBACK"
| "route_from_llm O_UNAVAILABLE = Some N_FALLBACK"
| "route_from_llm O_OVER_BUDGET = Some N_FALLBACK"
| "route_from_llm _ = None"

definition after_llm :: "agent_state \<Rightarrow> exn + graph_node" where
  "after_llm st =
     (let out = (case as_decision st of None \<Rightarrow> O_UNRESOLVABLE | Some dec \<Rightarrow> ad_outcome dec)
      in if out = O_CLARIFY \<and> exhausted (as_conversation st) then Inr N_MENU_HINT
         else case route_from_llm out of None \<Rightarrow> Inl key_error | Some n \<Rightarrow> Inr n)"

fun next_node :: "graph_node \<Rightarrow> agent_state \<Rightarrow> exn + graph_node option" where
  "next_node N_ROUTE_INPUT st = Inr (Some (route_from_input (as_intent st)))"
| "next_node N_RETRIEVE_EXAMPLES st = Inr (Some (after_retrieval st))"
| "next_node N_CALL_LLM st = map_sum id Some (after_llm st)"
| "next_node _ st = Inr None"

subsection \<open>A run of the graph\<close>

definition recursion_error :: exn where "recursion_error = OtherExn (U ''GraphRecursionError'')"

fun run_graph ::
  "(agent_state \<Rightarrow> (exn, 'w, unit) act) \<Rightarrow> 'w turn_env \<Rightarrow> command_data \<Rightarrow> nat \<Rightarrow> graph_node \<Rightarrow>
   agent_state \<Rightarrow> (exn, 'w, agent_state) act" where
  "run_graph save te d 0 n st = raise recursion_error"
| "run_graph save te d (Suc fuel) n st =
     bindA (run_node te d n st) (\<lambda>st'.
     bindA (save st') (\<lambda>_.
       case next_node n st' of
         Inl e \<Rightarrow> raise e
       | Inr None \<Rightarrow> ret st'
       | Inr (Some n') \<Rightarrow> run_graph save te d fuel n' st'))"

definition RECURSION_LIMIT :: nat where "RECURSION_LIMIT = 25"

definition DEFAULT_PLATFORM :: pystr where "DEFAULT_PLATFORM = U ''whatsapp''"

definition thread_id :: "command_data \<Rightarrow> pystr" where
  "thread_id d =
     (case cd_platform d of None \<Rightarrow> DEFAULT_PLATFORM | Some p \<Rightarrow> platform_value p)
     @ [58] @ cd_jid d @ [58] @
     (if truthy_str (cd_participant d) then the (cd_participant d) else cd_sender_jid d)"

record 'w checkpointer =
  ck_setup :: "(exn, 'w, unit) act"
  ck_load :: "pystr \<Rightarrow> (exn, 'w, agent_state option) act"
  ck_save :: "pystr \<Rightarrow> agent_state \<Rightarrow> (exn, 'w, unit) act"

text \<open>A checkpointer with nothing in it whose state is dropped after the turn.\<close>

definition memory_saver :: "'w checkpointer" where
  "memory_saver = \<lparr>ck_setup = ret (), ck_load = (\<lambda>_. ret None), ck_save = (\<lambda>_ _. ret ())\<rparr>"

definition invoke :: "'w checkpointer \<Rightarrow> 'w turn_env \<Rightarrow> command_data \<Rightarrow> (exn, 'w, command_data) act" where
  "invoke ck te d =
     bindA (ck_load ck (thread_id d)) (\<lambda>saved.
     bindA (run_graph (ck_save ck (thread_id d)) te d RECURSION_LIMIT N_ROUTE_INPUT
              (case saved of None \<Rightarrow> initial_state | Some st \<Rightarrow> st))
       (\<lambda>st. ret (d\<lparr>cd_text := as_result_text st, cd_jid := as_result_jid st\<rparr>)))"

definition orchestrate ::
  "'w checkpointer \<Rightarrow> 'w turn_env \<Rightarrow> command_data \<Rightarrow> (exn, 'w, command_data) act" where
  "orchestrate ck te d =
     handleA (bindA (ck_setup ck) (\<lambda>_. invoke ck te d))
       (\<lambda>e. if redis_error e then invoke memory_saver te d else raise e)"

text \<open>\<open>build_agent_graph\<close>: the nodes over their collaborators.\<close>

definition build_agent_graph ::
  "'w registry \<Rightarrow> loads \<Rightarrow> (json \<Rightarrow> pystr) \<Rightarrow> (pystr \<Rightarrow> rat option) \<Rightarrow> (exn \<Rightarrow> bool) \<Rightarrow>
   (pystr \<times> pystr) list \<Rightarrow> (pystr \<Rightarrow> nat \<Rightarrow> (exn, 'w, retrieved_example list) act) option \<Rightarrow>
   (exn, 'w, rat) act \<Rightarrow> 'w mapper \<Rightarrow> 'w turn_env" where
  "build_agent_graph r loads str_of float_of http_error bank retriever clock m =
     \<lparr>te_clock = clock, te_select = select_examples http_error bank retriever,
      te_map = map_request (m\<lparr>ma_interpret := interpret_response r loads str_of float_of\<rparr>),
      te_translate = translate r loads str_of\<rparr>"

subsection \<open>A run follows the edges\<close>

text \<open>
  What a node finds in the state when an edge leads to it, and how many nodes can still follow.
\<close>

definition node_ready :: "graph_node \<Rightarrow> agent_state \<Rightarrow> bool" where
  "node_ready n st \<longleftrightarrow>
     (n = N_EXECUTE \<longrightarrow> as_decision st \<noteq> None) \<and>
     (n \<in> {N_CONFIRM, N_ASK, N_SUGGEST, N_FALLBACK} \<longrightarrow>
        (\<exists>dec. as_decision st = Some dec \<and> decision_ok dec \<and> route_from_llm (ad_outcome dec) = Some n))"

fun node_rank :: "graph_node \<Rightarrow> nat" where
  "node_rank N_ROUTE_INPUT = 4"
| "node_rank N_RETRIEVE_EXAMPLES = 3"
| "node_rank N_CALL_LLM = 2"
| "node_rank _ = 1"

definition leads_on :: "graph_node \<Rightarrow> agent_state \<Rightarrow> bool" where
  "leads_on n st = (case next_node n st of
       Inl _ \<Rightarrow> False | Inr None \<Rightarrow> True
     | Inr (Some n') \<Rightarrow> node_ready n' st \<and> node_rank n' < node_rank n)"

lemma mapper_routed: "decision_ok dec \<Longrightarrow> \<exists>n. route_from_llm (ad_outcome dec) = Some n"
  by (auto simp: decision_ok_def mapper_outcomes_def)

lemma routed_ready:
  "as_decision st = Some dec \<Longrightarrow> decision_ok dec \<Longrightarrow> route_from_llm (ad_outcome dec) = Some n \<Longrightarrow>
   node_ready n st \<and> node_rank n < 2"
  by (cases "ad_outcome dec") (auto simp: node_ready_def)

lemma run_node_leads:
  assumes "\<And>d es. yields decision_ok (te_map te d es)"
  shows "yields (leads_on n) (run_node te d n st)"
proof (cases n)
  case N_ROUTE_INPUT
  have "leads_on N_ROUTE_INPUT s" for s
    by (cases "as_intent s") (auto simp: leads_on_def node_ready_def)
  with N_ROUTE_INPUT show ?thesis by (simp add: yields_def)
next
  case N_RETRIEVE_EXAMPLES
  have "leads_on N_RETRIEVE_EXAMPLES s" for s
    by (auto simp: leads_on_def node_ready_def after_retrieval_def)
  with N_RETRIEVE_EXAMPLES show ?thesis by (simp add: yields_def)
next
  case N_CALL_LLM
  have "leads_on N_CALL_LLM (st\<lparr>as_decision := Some dec\<rparr>)" if ok: "decision_ok dec" for dec
  proof -
    let ?st = "st\<lparr>as_decision := Some dec\<rparr>"
    obtain n' where n': "route_from_llm (ad_outcome dec) = Some n'" using mapper_routed [OF ok] by blast
    with routed_ready [of ?st dec n'] ok show ?thesis
      by (simp add: leads_on_def after_llm_def Let_def node_ready_def)
  qed
  with N_CALL_LLM show ?thesis
    by (auto simp: call_llm_def intro!: yields_bindA [OF assms])
qed (auto simp: yields_def leads_on_def)

lemma run_graph_invariant:
  assumes map: "\<And>d es. yields decision_ok (te_map te d es)"
    and run: "run_graph save te d fuel n st w = (Inr st', w')" and ready: "node_ready n st"
  shows "\<exists>n' s v v'. node_ready n' s \<and> node_rank n' = 1 \<and> run_node te d n' s v = (Inr st', v')"
  using run ready
proof (induction fuel arbitrary: n st w)
  case 0
  then show ?case by simp
next
  case (Suc fuel)
  from Suc.prems(1) obtain s v where s: "run_node te d n st w = (Inr s, v)"
    and rest: "bindA (save s) (\<lambda>_. case next_node n s of Inl e \<Rightarrow> raise e | Inr None \<Rightarrow> ret s
                | Inr (Some n') \<Rightarrow> run_graph save te d fuel n' s) v = (Inr st', w')"
    by (cases rule: bindA_cases [of "run_node te d n st" w]) auto
  from run_node_leads [OF map, of n d st] s have on: "leads_on n s" by (auto simp: yields_def)
  show ?case
  proof (cases "next_node n s")
    case (Inl e)
    with on show ?thesis by (simp add: leads_on_def)
  next
    case (Inr nx)
    show ?thesis
    proof (cases nx)
      case None
      with Inr rest have "st' = s"
        by (cases rule: bindA_cases [of "save s" v]) auto
      moreover from Inr None have "node_rank n = 1"
        by (cases n; cases "after_llm s") auto
      ultimately show ?thesis using s Suc.prems(2) by blast
    next
      case (Some n')
      with Inr rest obtain v' where "run_graph save te d fuel n' s v' = (Inr st', w')"
        by (cases rule: bindA_cases [of "save s" v]) auto
      with Suc.IH on Inr Some show ?thesis by (auto simp: leads_on_def)
    qed
  qed
qed

subsection \<open>Every turn is answered\<close>

lemma select_returns:
  assumes "\<And>f t k. retriever = Some f \<Longrightarrow> fails_only http_error (f t k)"
  shows "returns (select_examples http_error bank retriever q)"
proof (cases retriever)
  case (Some f)
  with assms show ?thesis
    by (auto simp: select_examples_def intro!: returns_handleA [OF fails_only_bindA])
qed (simp add: select_examples_def)

lemma returns_fails: "returns m \<Longrightarrow> fails_only P m"
  unfolding returns_def fails_only_def by (metis Inl_Inr_False prod.inject)

lemma fails_returns: "fails_only (\<lambda>_. False) m \<Longrightarrow> returns m"
  unfolding returns_def fails_only_def by (metis old.prod.exhaust sumE)

lemma translate_total: "\<exists>out. translate r loads str_of d name [] = Inr out"
  by (simp add: translate_def compose_def compose_command_text_def parse_arguments_def
      extract_flags_def extract_options_def Let_def dict_get_def split: prod.split)

lemma run_node_returns:
  assumes "returns (te_clock te)" "\<And>q. returns (te_select te q)" "\<And>d es. returns (te_map te d es)"
    and tr: "\<And>d name. \<exists>out. te_translate te d name [] = Inr out" and "node_ready n st"
  shows "returns (run_node te d n st)"
proof -
  have run: "returns (run_mapped te d c s)" for c s
    using tr [of d "lstrip_chars [44] c"] by (auto simp: run_mapped_def)
  have reply: "returns (reply_node spec te d st)" if "rs_fixed spec \<noteq> None \<or> as_decision st \<noteq> None" for spec
    using that assms(1) by (auto simp: reply_node_def split: option.split intro!: returns_bindA)
  from assms(5) show ?thesis
    by (cases n)
       (auto simp: route_input_def retrieve_examples_def call_llm_def execute_node_def
          execute_proposed_def node_ready_def Let_def intro!: run reply returns_bindA assms)
qed

lemma run_graph_fails:
  assumes node: "\<And>n st. node_ready n st \<Longrightarrow> returns (run_node te d n st)"
    and leads: "\<And>n st. yields (leads_on n) (run_node te d n st)"
    and save: "\<And>st. fails_only P (save st)"
    and "node_ready n st" and "node_rank n \<le> fuel"
  shows "fails_only P (run_graph save te d fuel n st)"
  using assms(4,5)
proof (induction fuel arbitrary: n st)
  case 0
  then show ?case by (cases n) auto
next
  case (Suc fuel)
  show ?case unfolding run_graph.simps
  proof (rule fails_only_bindA)
    show "fails_only P (run_node te d n st)"
      using node [OF Suc.prems(1)] by (rule returns_fails)
    fix w s w' assume "run_node te d n st w = (Inr s, w')"
    with leads [of n st] have on: "leads_on n s" by (auto simp: yields_def)
    show "fails_only P (bindA (save s) (\<lambda>_. case next_node n s of Inl e \<Rightarrow> raise e | Inr None \<Rightarrow> ret s
            | Inr (Some n') \<Rightarrow> run_graph save te d fuel n' s))"
    proof (rule fails_only_bindA [OF save])
      show "fails_only P (case next_node n s of Inl e \<Rightarrow> raise e | Inr None \<Rightarrow> ret s
              | Inr (Some n') \<Rightarrow> run_graph save te d fuel n' s)"
        using on Suc by (auto simp: leads_on_def split: sum.splits option.splits)
    qed
  qed
qed

text \<open>
  C6: every turn is answered.  When the clock and the budget work, the vector index fails with
  HTTP errors only, the provider and the prompt registry only with the errors the mapper
  handles, the prompt template is well formed and the model's tool arguments follow their
  schema, then a turn always ends with a reply, whatever state the conversation is in: no route
  is missing, the node limit of the graph library is never reached, and a Redis outage of the
  checkpointer at any point of the turn only loses the memory of the conversation.
\<close>

theorem turn_completes:
  assumes "returns clock"
    and "\<And>f t k. retriever = Some f \<Longrightarrow> fails_only http_error (f t k)"
    and "fails_only (ma_provider_error m) (ma_system_prompt m)"
    and "yields (\<lambda>(t, v). template_ok t) (ma_system_prompt m)"
    and "\<And>p. fails_only (ma_provider_error m) (ma_complete m p)"
    and "\<And>f d. ma_refill_at m = Some f \<Longrightarrow> returns (f d)" and "\<And>d n. returns (ma_spend m d n)"
    and "args_ok loads"
    and "fails_only redis_error (ck_setup ck)" and "\<And>t. fails_only redis_error (ck_load ck t)"
    and "\<And>t s. fails_only redis_error (ck_save ck t s)"
  shows "returns (orchestrate ck (build_agent_graph r loads str_of float_of http_error bank retriever clock m) d)"
proof -
  let ?te = "build_agent_graph r loads str_of float_of http_error bank retriever clock m"
  let ?m = "m\<lparr>ma_interpret := interpret_response r loads str_of float_of\<rparr>"
  have map: "returns (te_map ?te d es)" for d es
    unfolding build_agent_graph_def turn_env.simps
    by (rule map_request_returns) (use assms interpret_total [OF assms(8)] in auto)
  have node: "returns (run_node ?te d n st)" if "node_ready n st" for n st
    by (rule run_node_returns [OF _ _ map _ that])
       (auto simp: build_agent_graph_def assms(1) translate_total intro!: select_returns assms(2))
  have leads: "yields (leads_on n) (run_node ?te d n st)" for n st
    by (rule run_node_leads) (auto simp: build_agent_graph_def intro!: map_request_ok interpret_ok)
  have turn: "fails_only P (invoke k ?te d)"
    if "\<And>t. fails_only P (ck_load k t)" "\<And>t s. fails_only P (ck_save k t s)" for P k
    unfolding invoke_def using that
    by (intro fails_only_bindA fails_only_ret run_graph_fails [OF node leads])
       (auto simp: node_ready_def RECURSION_LIMIT_def)
  have "returns (invoke memory_saver ?te d)"
    by (rule fails_returns, rule turn) (simp_all add: memory_saver_def)
  then show ?thesis
    unfolding orchestrate_def
    by (intro returns_handleA [where P = redis_error] fails_only_bindA turn) (use assms in auto)
qed

subsection \<open>Confirmation\<close>

lemma terminal_confirmation:
  assumes ready: "node_ready n st" and "node_rank n = 1"
    and run: "run_node te d n st w = (Inr st', w')"
    and wait: "cv_status (as_conversation st') = AWAITING_CONFIRMATION"
  shows "as_result_text st' = CLARIFY_PREFIX @ proposal_question (cv_proposed (as_conversation st'))"
proof -
  have mapped: "cv_status (as_conversation s) \<noteq> AWAITING_CONFIRMATION"
    if "run_mapped te d c st v = (Inr s, v')" for c s v v'
    using that
    by (auto simp: run_mapped_def finish_turn_def idle_conversation_def split: sum.splits)
  have reply: "as_result_text s = CLARIFY_PREFIX @ proposal_question (cv_proposed (as_conversation s))"
    if "reply_node spec te d st v = (Inr s, v')" "cv_status (as_conversation s) = AWAITING_CONFIRMATION"
      and "rs_keeps_waiting spec \<Longrightarrow> rs_prefix spec = CLARIFY_PREFIX \<and>
         (case (case rs_fixed spec of Some dec \<Rightarrow> Some dec | None \<Rightarrow> as_decision st) of None \<Rightarrow> True
          | Some dec \<Rightarrow> ad_command dec = [] \<or> ad_text dec = proposal_question (ad_command dec))"
    for spec s v v'
    using that
    by (auto simp: reply_node_def bindA_def finish_turn_def idle_conversation_def awaiting_def
        split: option.splits sum.splits prod.splits if_splits)
  from ready run wait show ?thesis
    by (cases n)
       (use assms(2) in \<open>auto simp: execute_node_def execute_proposed_def node_ready_def decision_ok_def
          mk_decision_def dest: mapped reply split: option.splits\<close>)
qed

text \<open>
  C4: consent.  When a turn leaves the conversation waiting for a confirmation, the user has been
  shown exactly the question that quotes the proposed command.  A listed way to say yes, within
  three minutes, then runs that command and nothing else: only the clock is consulted (no
  retrieval, no model, no budget), the request becomes the translation of the proposal, and the
  conversation is idle again, so a second yes does not run it twice.
\<close>

theorem consent_runs_what_was_shown:
  fixes r :: "'w registry"
  assumes te: "te = build_agent_graph r loads str_of float_of http_error bank retriever clock m"
    and first: "run_graph save te d1 RECURSION_LIMIT N_ROUTE_INPUT st0 w0 = (Inr st1, w1)"
    and wait: "cv_status (as_conversation st1) = AWAITING_CONFIRMATION"
    and clock: "clock w2 = (Inr now, w3)"
    and window: "now - cv_asked_at (as_conversation st1) \<le> RESUME_WINDOW_SECONDS"
    and yes: "classify_reply (cd_text d2) = YES"
  shows "as_result_text st1 = CLARIFY_PREFIX @ proposal_question (cv_proposed (as_conversation st1)) \<and>
    (\<exists>out st2.
       translate r loads str_of d2 (lstrip_chars [44] (cv_proposed (as_conversation st1))) [] = Inr out \<and>
       run_graph (\<lambda>_. ret ()) te d2 RECURSION_LIMIT N_ROUTE_INPUT st1 w2 = (Inr st2, w3) \<and>
       as_result_text st2 = cd_text out \<and> as_result_jid st2 = cd_jid out \<and>
       as_conversation st2 = idle_conversation)"
proof
  have map: "yields decision_ok (te_map te d es)" for d es
    unfolding te by (auto simp: build_agent_graph_def intro!: map_request_ok interpret_ok)
  have "node_ready N_ROUTE_INPUT st0" by (simp add: node_ready_def)
  from run_graph_invariant [OF map first this] wait
  show "as_result_text st1 = CLARIFY_PREFIX @ proposal_question (cv_proposed (as_conversation st1))"
    by (blast dest: terminal_confirmation)
  let ?c = "as_conversation st1"
  obtain out where out: "translate r loads str_of d2 (lstrip_chars [44] (cv_proposed ?c)) [] = Inr out"
    using translate_total by blast
  have intent: "turn_intent_of (resumed now ?c) (cd_text d2) = CONFIRMED" "resumed now ?c = ?c"
    using wait window yes by (simp_all add: turn_intent_of_def resumed_def)
  have te': "te_clock te = clock" "te_translate te = translate r loads str_of"
    by (simp_all add: te build_agent_graph_def)
  have "run_graph (\<lambda>_. ret ()) te d2 RECURSION_LIMIT N_ROUTE_INPUT st1 w2 =
      (Inr (finish_turn out idle_conversation (st1\<lparr>as_intent := CONFIRMED\<rparr>)), w3)"
    unfolding RECURSION_LIMIT_def numeral_eq_Suc pred_numeral_simps BitM.simps
    using intent out clock
    by (simp add: te' route_input_def bindA_def execute_proposed_def run_mapped_def Let_def
        split: prod.split)
  with out show "\<exists>out st2.
       translate r loads str_of d2 (lstrip_chars [44] (cv_proposed ?c)) [] = Inr out \<and>
       run_graph (\<lambda>_. ret ()) te d2 RECURSION_LIMIT N_ROUTE_INPUT st1 w2 = (Inr st2, w3) \<and>
       as_result_text st2 = cd_text out \<and> as_result_jid st2 = cd_jid out \<and>
       as_conversation st2 = idle_conversation"
    by (auto simp: finish_turn_def)
qed

text \<open>
  A turn with a model that is not sure, in a group: the world is the time.  The request was to
  send the answer in private; the yes has no such words, and the command runs in the group.
\<close>

definition unsure_mapper :: "rat mapper" where
  "unsure_mapper =
     \<lparr>ma_system_prompt = ret (U ''{123}user_context{125}'', U ''v1''), ma_command_list = [],
      ma_complete = (\<lambda>_. ret \<lparr>lr_content = [], lr_provider = U ''p'',
                               lr_tool_call = Some (U ''carro'', U ''j''), lr_tokens = 7\<rparr>),
      ma_provider_error = (\<lambda>e. e = OtherExn (U ''HTTPError'')), ma_refill_at = None, ma_spend = (\<lambda>_ _. ret ()),
      ma_interpret = (\<lambda>_. Inl key_error)\<rparr>"

definition unsure_loads :: loads where
  "unsure_loads s = (if s = U ''j'' then Some (JObj [(U ''confidence'', JNum (1 / 5))]) else None)"

definition unsure_graph :: "rat turn_env" where
  "unsure_graph = build_agent_graph empty_registry unsure_loads (\<lambda>_. []) (\<lambda>_. None) (\<lambda>_. False)
     [] None (\<lambda>t. (Inr t, t)) unsure_mapper"

definition private_request :: command_data where
  "private_request = (CommandData (U ''um carro no privado'') (U ''g'') (U ''u''))\<lparr>cd_is_group := True\<rparr>"

definition asked_state :: agent_state where
  "asked_state =
     \<lparr>as_conversation = \<lparr>cv_status = AWAITING_CONFIRMATION, cv_question = proposal_question (U '',carro''),
        cv_proposed = U '',carro'', cv_request = U ''um carro no privado'', cv_attempts = 0,
        cv_asked_at = 100\<rparr>,
      as_intent = REQUEST, as_examples = [],
      as_decision = Some \<lparr>ad_outcome = O_CONFIRM, ad_command = U '',carro'',
        ad_text = proposal_question (U '',carro''), ad_provider = U ''p'', ad_version = U ''v1''\<rparr>,
      as_result_text = CLARIFY_PREFIX @ proposal_question (U '',carro''), as_result_jid = U ''g''\<rparr>"

lemma asked: "run_graph (\<lambda>_. ret ()) unsure_graph private_request RECURSION_LIMIT N_ROUTE_INPUT
    initial_state 100 = (Inr asked_state, 100)"
  by code_simp

lemma yes_in_group:
  "translate (empty_registry :: rat registry) unsure_loads (\<lambda>_. []) (private_request\<lparr>cd_text := U ''Sim!''\<rparr>)
     (lstrip_chars [44] (U '',carro'')) [] = Inr (private_request\<lparr>cd_text := U '',carro''\<rparr>)"
  by code_simp

theorem consent_runs_what_was_shown_witness:
  "\<exists>st2. run_graph (\<lambda>_. ret ()) unsure_graph (private_request\<lparr>cd_text := U ''Sim!''\<rparr>) RECURSION_LIMIT
      N_ROUTE_INPUT asked_state 250 = (Inr st2, 250) \<and>
    as_result_text st2 = U '',carro'' \<and> as_result_jid st2 = U ''g''"
proof -
  have "cv_status (as_conversation asked_state) = AWAITING_CONFIRMATION"
    "(250::rat) - cv_asked_at (as_conversation asked_state) \<le> RESUME_WINDOW_SECONDS"
    "classify_reply (cd_text (private_request\<lparr>cd_text := U ''Sim!''\<rparr>)) = YES"
    by code_simp+
  from consent_runs_what_was_shown [OF unsure_graph_def asked this(1) refl this(2,3)] yes_in_group
  show ?thesis by (auto simp: asked_state_def private_request_def)
qed

theorem turn_completes_witness:
  "returns (orchestrate memory_saver (build_agent_graph empty_registry unsure_loads (\<lambda>_. []) (\<lambda>_. None)
      (\<lambda>_. False) [] None (\<lambda>t. (Inr t, t)) unsure_mapper) private_request)"
proof (rule turn_completes)
  show "args_ok unsure_loads"
    by (auto simp: args_ok_def unsure_loads_def dict_get_def str_simps FLOAT_OVERFLOW_value)
  show "yields (\<lambda>(t, v). template_ok t) (ma_system_prompt unsure_mapper)"
    by (simp add: unsure_mapper_def) code_simp
qed (auto simp: unsure_mapper_def memory_saver_def returns_def)

end
