(* ===== verification/Selection.thy ===== *)
theory Selection
  imports Registry
begin

text \<open>
  The command that a text selects, decided from the names of the commands: a pattern is tried
  only for a command whose name begins the text.  For the registry of all commands this turns
  the two scans of \<open>get_strategy\<close> into a few evaluations.
\<close>

definition spells :: "command_config \<Rightarrow> pystr \<Rightarrow> bool" where
  "spells cfg t \<longleftrightarrow> list_ex (\<lambda>n. prefixmatch True (name_pattern n) t \<noteq> None) (sorted_names cfg)"

definition plain_start :: "pystr \<Rightarrow> bool" where
  "plain_start t \<longleftrightarrow> (case t of [] \<Rightarrow> False | c # _ \<Rightarrow> \<not> is_space c)"

lemma prefixmatch_None: "prefixmatch ic r s = None \<longleftrightarrow> rx_m ic r (None, s) = []"
  by (simp add: prefixmatch_def split: list.split)

lemma matches_spells:
  assumes "matches cfg (44 # t)" and "plain_start t"
  shows "spells cfg t"
proof -
  from assms(1) obtain ws1 ws2 u p name where s: "44 # t = ws1 @ 44 # ws2 @ u"
    and ws: "list_all is_space ws1" "list_all is_space ws2"
    and n: "name \<in> set (sorted_names cfg)" "rx_m True (name_pattern name) (p, u) \<noteq> []"
    by (rule matches_shape)
  from s ws(1) have "ws1 = []" by (cases ws1) (auto simp: is_space_def space_cps_def)
  with s assms(2) ws(2) have "t = u" by (cases ws2) (auto simp: plain_start_def)
  moreover from n(2) have "rx_m True (name_pattern name) (None, u) \<noteq> []"
    using ctx_free_ne [OF name_items_ctx_free] unfolding name_pattern_def by blast
  ultimately show ?thesis
    using n(1) by (auto simp: spells_def list_ex_iff prefixmatch_None)
qed

lemma consume_name_none:
  "\<not> list_ex (\<lambda>n. prefixmatch True (name_pattern n) t \<noteq> None) names \<Longrightarrow> consume_name names t = ([], t)"
  by (induction names) (auto split: option.splits)

lemma parse_spells:
  assumes "plain_start t" and "[] \<notin> set (sorted_names cfg)"
  shows "pc_command_name (parse cfg (44 # t)) \<noteq> [] \<longleftrightarrow> spells cfg t"
proof -
  have "after_comma (44 # t) = t"
    using assms(1) by (cases t) (auto simp: after_comma_def plain_start_def is_space_def space_cps_def)
  then have eq: "pc_command_name (parse cfg (44 # t)) = fst (consume_name (sorted_names cfg) t)"
    by (simp add: parse_eq Let_def sub_leading_comma consume_command_name_def)
  show ?thesis
  proof (cases "spells cfg t")
    case True
    then have "fst (consume_name (sorted_names cfg) t) \<in> set (sorted_names cfg)"
      by (auto simp: spells_def list_ex_iff intro: consume_name_found)
    with True assms(2) eq show ?thesis by auto
  next
    case False
    then have "consume_name (sorted_names cfg) t = ([], t)"
      unfolding spells_def by (rule consume_name_none)
    with False eq show ?thesis by simp
  qed
qed

subsection \<open>Selection without a candidate\<close>

lemma strategy_by_token:
  "lookup_by_leading_token r t = Some i \<Longrightarrow> matches (cmd_config (rg_commands r ! i)) t \<Longrightarrow> strategy_index r t = Some i"
  by (simp add: strategy_index_def)

text \<open>The positions of the commands that a text spells, from the lists of their names.\<close>

fun spelled_from :: "nat \<Rightarrow> pystr list list \<Rightarrow> pystr \<Rightarrow> nat list" where
  "spelled_from i [] t = []"
| "spelled_from i (ns # nss) t =
     (if list_ex (\<lambda>n. prefixmatch True (name_pattern n) t \<noteq> None) ns
      then i # spelled_from (Suc i) nss t else spelled_from (Suc i) nss t)"

text \<open>Evaluation: a name without white space is compared character by character.\<close>

fun name_begins :: "pystr \<Rightarrow> pystr \<Rightarrow> bool" where
  "name_begins [] t = True"
| "name_begins (a # n) [] = False"
| "name_begins (a # n) (c # t) =
     ((if a < 128 then chr_eq True a c else c \<noteq> 10) \<and> name_begins n t)"

lemma name_begins_eq:
  "list_all (\<lambda>a. \<not> (is_space a \<and> a < 128)) n \<Longrightarrow>
   rx_m True (rseq (name_items n)) (p, t) \<noteq> [] \<longleftrightarrow> name_begins n t"
proof (induction n arbitrary: p t)
  case (Cons a n)
  have dot: "cls_eq True (CNeg (CRange 10 10)) c \<longleftrightarrow> c \<noteq> 10" for c
    by (auto simp: cls_eq_def ci_variants_def)
  have items: "name_items (a # n) = escape_cp a # name_items n"
    using Cons.prems by auto
  show ?case
  proof (cases t)
    case Nil
    then show ?thesis unfolding items by (simp add: escape_cp_def step_if_def)
  next
    case (Cons c u)
    with Cons.prems Cons.IH show ?thesis
      unfolding items by (simp add: escape_cp_def step_if_def dot)
  qed
qed simp

lemma spelled_from_code [code]:
  "spelled_from i [] t = []"
  "spelled_from i (ns # nss) t =
     (if list_ex (\<lambda>n. if list_all (\<lambda>a. \<not> (is_space a \<and> a < 128)) n then name_begins n t
                  else prefixmatch True (name_pattern n) t \<noteq> None) ns
      then i # spelled_from (Suc i) nss t else spelled_from (Suc i) nss t)"
proof -
  have "prefixmatch True (name_pattern n) t \<noteq> None \<longleftrightarrow>
      (if list_all (\<lambda>a. \<not> (is_space a \<and> a < 128)) n then name_begins n t
       else prefixmatch True (name_pattern n) t \<noteq> None)" for n
    using name_begins_eq [of n None t] by (simp add: prefixmatch_None name_pattern_def)
  then show "spelled_from i (ns # nss) t =
     (if list_ex (\<lambda>n. if list_all (\<lambda>a. \<not> (is_space a \<and> a < 128)) n then name_begins n t
                  else prefixmatch True (name_pattern n) t \<noteq> None) ns
      then i # spelled_from (Suc i) nss t else spelled_from (Suc i) nss t)"
    unfolding spelled_from.simps by presburger
qed simp

definition name_table :: "'w command list \<Rightarrow> pystr list list" where
  "name_table cs = map (\<lambda>c. sorted_names (cmd_config c)) cs"

abbreviation nth_config :: "'w registry \<Rightarrow> nat \<Rightarrow> command_config" where
  "nth_config r i \<equiv> cmd_config (rg_commands r ! i)"

lemma spelled_from_eq:
  "spelled_from 0 (name_table cs) t = filter (\<lambda>i. spells (cmd_config (cs ! i)) t) [0..<length cs]"
proof -
  have "spelled_from n (name_table xs) t =
      filter (\<lambda>i. spells (cmd_config (xs ! (i - n))) t) [n..<n + length xs]" for n and xs :: "'a command list"
  proof (induction xs arbitrary: n)
    case (Cons x xs)
    have "filter (\<lambda>i. spells (cmd_config ((x # xs) ! (i - n))) t) [Suc n..<n + length (x # xs)]
        = filter (\<lambda>i. spells (cmd_config (xs ! (i - Suc n))) t) [Suc n..<Suc n + length xs]"
      by (rule filter_cong) (auto simp: nth_Cons')
    with Cons [of "Suc n"] show ?case
      by (subst upt_rec) (simp add: name_table_def spells_def del: upt_Suc)
  qed (simp add: name_table_def)
  from this [of 0 cs] show ?thesis by simp
qed

lemma spelled_iff:
  "i \<in> set (spelled_from 0 (name_table cs) t) \<longleftrightarrow> i < length cs \<and> spells (cmd_config (cs ! i)) t"
  unfolding spelled_from_eq by auto

lemma strategy_by_scan:
  assumes "lookup_by_leading_token r (44 # t) = None" and "plain_start t"
    and "i \<in> set (spelled_from 0 (name_table (rg_commands r)) t)"
    and "\<And>j. j \<in> set (spelled_from 0 (name_table (rg_commands r)) t) \<Longrightarrow>
           matches (nth_config r j) (44 # t) \<longleftrightarrow> j = i"
  shows "strategy_index r (44 # t) = Some i"
proof -
  have i: "i < length (rg_commands r)" "matches (nth_config r i) (44 # t)"
    using assms(3) assms(4) [OF assms(3)] by (simp_all add: spelled_iff)
  have uniq: "j = i" if "j < length (rg_commands r)" "matches (nth_config r j) (44 # t)" for j
    using that assms(4) [of j] matches_spells [OF _ assms(2)] by (simp add: spelled_iff)
  have "\<not> matches (nth_config r j) (44 # t)" if "j < i" for j
    using uniq [of j] i(1) that by (metis less_irrefl less_trans)
  with i have "find (\<lambda>j. matches (nth_config r j) (44 # t)) [0..<length (rg_commands r)] = Some i"
    unfolding find_Some_iff by (intro exI [of _ i]) simp
  with assms(1) show ?thesis by (simp add: strategy_index_def scan_matches_def)
qed

lemma find_filter_hd: "find P xs = (case filter P xs of [] \<Rightarrow> None | x # _ \<Rightarrow> Some x)"
  by (induction xs) auto

lemma strategy_by_name:
  assumes "plain_start t" and "list_all (\<lambda>ns. [] \<notin> set ns) (name_table (rg_commands r))"
    and "spelled_from 0 (name_table (rg_commands r)) t = i # rest"
    and none: "\<And>j. j \<in> set (i # rest) \<Longrightarrow> \<not> matches (nth_config r j) (44 # t)"
    and inv: "registry_inv r"
  shows "strategy_index r (44 # t) = Some i"
proof -
  have unmatched: "\<not> matches (nth_config r j) (44 # t)" if "j < length (rg_commands r)" for j
  proof
    assume m: "matches (nth_config r j) (44 # t)"
    with that matches_spells [OF m assms(1)] have "j \<in> set (i # rest)"
      unfolding assms(3) [symmetric] by (simp add: spelled_iff)
    with none m show False by blast
  qed
  have "scan_parses r (44 # t) = find (\<lambda>j. spells (nth_config r j) t) [0..<length (rg_commands r)]"
    unfolding scan_parses_def
    by (rule find_cong) (use assms(1,2) parse_spells in \<open>auto simp: list_all_length name_table_def\<close>)
  also have "\<dots> = Some i"
    using assms(3) unfolding spelled_from_eq by (simp add: find_filter_hd)
  finally have scan: "scan_parses r (44 # t) = Some i" .
  have "scan_matches r c (44 # t) = None" for c
    using unmatched by (auto simp: scan_matches_def find_None_iff)
  with scan unmatched candidate_index [OF inv, of "44 # t"] show ?thesis
    by (cases "lookup_by_leading_token r (44 # t)") (simp_all add: strategy_index_def)
qed

end
