(* ===== verification/Commands.thy ===== *)
theory Commands
  imports Agent_Turn Selection
begin

text \<open>
  The commands of the bot: the configuration and the menu text of every class under
  bot/domain/commands, in the registration order of bot/application/register_commands.py, with
  their \<open>execute\<close> coroutines as a parameter; the examples and the prompt of the agent
  (bot/data/agent_examples.py).
\<close>

subsection \<open>Football leagues\<close>

record league_info =
  lg_code :: pystr
  lg_name :: pystr
  lg_country :: pystr
  lg_flag :: pystr
  lg_tm_id :: pystr
  lg_espn_slug :: pystr

definition LEAGUES :: "league_info list" where
  "LEAGUES =
     [\<lparr>lg_code = U ''pl'', lg_name = U ''Premier League'', lg_country = U ''Inglaterra'', lg_flag = U ''{127988}{917607}{917602}{917605}{917614}{917607}{917631}'',
       lg_tm_id = U ''GB1'', lg_espn_slug = U ''eng.1''\<rparr>,
      \<lparr>lg_code = U ''la'', lg_name = U ''La Liga'', lg_country = U ''Espanha'', lg_flag = U ''{127466}{127480}'',
       lg_tm_id = U ''ES1'', lg_espn_slug = U ''esp.1''\<rparr>,
      \<lparr>lg_code = U ''bl'', lg_name = U ''Bundesliga'', lg_country = U ''Alemanha'', lg_flag = U ''{127465}{127466}'',
       lg_tm_id = U ''L1'', lg_espn_slug = U ''ger.1''\<rparr>,
      \<lparr>lg_code = U ''sa'', lg_name = U ''Serie A'', lg_country = U ''It{225}lia'', lg_flag = U ''{127470}{127481}'',
       lg_tm_id = U ''IT1'', lg_espn_slug = U ''ita.1''\<rparr>,
      \<lparr>lg_code = U ''l1'', lg_name = U ''Ligue 1'', lg_country = U ''Fran{231}a'', lg_flag = U ''{127467}{127479}'',
       lg_tm_id = U ''FR1'', lg_espn_slug = U ''fra.1''\<rparr>,
      \<lparr>lg_code = U ''br'', lg_name = U ''Brasileir{227}o'', lg_country = U ''Brasil'', lg_flag = U ''{127463}{127479}'',
       lg_tm_id = U ''BRA1'', lg_espn_slug = U ''bra.1''\<rparr>,
      \<lparr>lg_code = U ''ar'', lg_name = U ''Liga Profesional'', lg_country = U ''Argentina'', lg_flag = U ''{127462}{127479}'',
       lg_tm_id = U ''ARG1'', lg_espn_slug = U ''arg.1''\<rparr>,
      \<lparr>lg_code = U ''uy'', lg_name = U ''Primera Divisi{243}n'', lg_country = U ''Uruguai'', lg_flag = U ''{127482}{127486}'',
       lg_tm_id = U ''URU1'', lg_espn_slug = U ''uru.1''\<rparr>,
      \<lparr>lg_code = U ''ec'', lg_name = U ''LigaPro'', lg_country = U ''Equador'', lg_flag = U ''{127466}{127464}'',
       lg_tm_id = U ''EC1N'', lg_espn_slug = U ''ecu.1''\<rparr>,
      \<lparr>lg_code = U ''co'', lg_name = U ''Liga BetPlay'', lg_country = U ''Col{244}mbia'', lg_flag = U ''{127464}{127476}'',
       lg_tm_id = U ''COL1'', lg_espn_slug = U ''col.1''\<rparr>]"

definition LEAGUE_CODES :: "pystr list" where
  "LEAGUE_CODES = map lg_code LEAGUES"

definition MARKET_LEAGUE_CODES :: "pystr list" where
  "MARKET_LEAGUE_CODES = [U ''pl'', U ''la'', U ''bl'', U ''sa'', U ''l1'', U ''br'', U ''ar'']"

subsection \<open>Configurations\<close>

definition letter_class :: cclass where
  "letter_class = COr (CRange 65 90) (CRange 97 122)"

definition add_command :: "'w exec \<Rightarrow> 'w command" where
  "add_command ex = \<lparr>
     cmd_config = (CommandConfig (U ''add''))\<lparr>cc_args := ARG_OPTIONAL,
       cc_args_pattern := Some [Bol, Opt (Plus (Cls CDigit)), Eol],
       cc_args_label := Some (U ''n{250}mero''),
       cc_group_only := True,
       cc_category := Some GROUP\<rparr>,
     cmd_menu = U ''Adiciona um n{250}mero ao grupo. Aleat{243}rio ou espec{237}fico.'',
     cmd_execute = ex\<rparr>"

definition adm_command :: "'w exec \<Rightarrow> 'w command" where
  "adm_command ex = \<lparr>
     cmd_config = (CommandConfig (U ''adm''))\<lparr>cc_group_only := True,
       cc_category := Some GROUP\<rparr>,
     cmd_menu = U ''Manda uma zoeira aleat{243}ria pros administradores do grupo.'',
     cmd_execute = ex\<rparr>"

definition animal_command :: "'w exec \<Rightarrow> 'w command" where
  "animal_command ex = \<lparr>
     cmd_config = (CommandConfig (U ''animal''))\<lparr>cc_flags := [U ''show'', U ''dm''],
       cc_category := Some RANDOM,
       cc_platforms := [ALL_PLATFORMS]\<rparr>,
     cmd_menu = U ''Receba uma foto e curiosidade de um animal aleat{243}rio.'',
     cmd_execute = ex\<rparr>"

definition audio_command :: "'w exec \<Rightarrow> 'w command" where
  "audio_command ex = \<lparr>
     cmd_config = (CommandConfig (U ''{225}udio''))\<lparr>cc_options := [\<lparr>od_name = U ''lang'', od_values = [], od_pattern = Some (rseq [Cls letter_class, Cls letter_class, Chr 45, Cls letter_class, Cls letter_class])\<rparr>],
       cc_flags := [U ''dm''],
       cc_args := ARG_OPTIONAL,
       cc_category := Some DOWNLOAD,
       cc_platforms := [ALL_PLATFORMS]\<rparr>,
     cmd_menu = U ''Converta texto em audio usando a voz do Google, podendo trocar a l{237}ngua.'',
     cmd_execute = ex\<rparr>"

definition ban_command :: "'w exec \<Rightarrow> 'w command" where
  "ban_command ex = \<lparr>
     cmd_config = (CommandConfig (U ''ban''))\<lparr>cc_args := ARG_OPTIONAL,
       cc_args_pattern := Some [Bol, Opt (rseq [Chr 64, Plus (Cls CDigit), Star True (rseq [Plus (Cls CSpace), Chr 64, Plus (Cls CDigit)])]), Eol],
       cc_args_label := Some (U ''@n{250}mero''),
       cc_group_only := True,
       cc_category := Some GROUP\<rparr>,
     cmd_menu = U ''Remove aleatoriamente um ou especificamente um ou mais participantes do grupo.'',
     cmd_execute = ex\<rparr>"

definition beer_command :: "'w exec \<Rightarrow> 'w command" where
  "beer_command ex = \<lparr>
     cmd_config = (CommandConfig (U ''cerveja''))\<lparr>cc_aliases := [U ''beer''],
       cc_flags := [U ''show'', U ''dm''],
       cc_category := Some RANDOM,
       cc_platforms := [ALL_PLATFORMS]\<rparr>,
     cmd_menu = U ''Receba uma cerveja aleat{243}ria com imagem.'',
     cmd_execute = ex\<rparr>"

definition bible_command :: "'w exec \<Rightarrow> 'w command" where
  "bible_command ex = \<lparr>
     cmd_config = (CommandConfig (U ''b{237}blia''))\<lparr>cc_aliases := [U ''bible''],
       cc_args := ARG_OPTIONAL,
       cc_args_label := Some (U ''livro cap{237}tulo:vers{237}culo''),
       cc_category := Some RANDOM,
       cc_platforms := [ALL_PLATFORMS]\<rparr>,
     cmd_menu = U ''Comando complexo. Use *,menu biblia* para detalhes.'',
     cmd_execute = ex\<rparr>"

definition birthday_command :: "'w exec \<Rightarrow> 'w command" where
  "birthday_command ex = \<lparr>
     cmd_config = (CommandConfig (U ''niver''))\<lparr>cc_aliases := [U ''aniversario'', U ''anivers{225}rio'', U ''birthday''],
       cc_args := ARG_OPTIONAL,
       cc_args_label := Some (U ''data''),
       cc_group_only := True,
       cc_category := Some GROUP\<rparr>,
     cmd_menu = U ''Cadastra anivers{225}rios e parabeniza {224} meia-noite. *,niver 21/02*, *,niver @fulano 01/12*, *,niver* lista, *,niver remove* e *,niver save* no quote.'',
     cmd_execute = ex\<rparr>"

definition borges_command :: "'w exec \<Rightarrow> 'w command" where
  "borges_command ex = \<lparr>
     cmd_config = (CommandConfig (U ''borges''))\<lparr>cc_category := Some OTHER,
       cc_platforms := [ALL_PLATFORMS]\<rparr>,
     cmd_menu = U ''Descubra quantos nargas o Borges j{225} fumou.'',
     cmd_execute = ex\<rparr>"

definition car_command :: "'w exec \<Rightarrow> 'w command" where
  "car_command ex = \<lparr>
     cmd_config = (CommandConfig (U ''carro''))\<lparr>cc_aliases := [U ''car''],
       cc_flags := [U ''show'', U ''dm'', U ''wiki''],
       cc_category := Some RANDOM,
       cc_platforms := [ALL_PLATFORMS]\<rparr>,
     cmd_menu = U ''Receba a foto de um carro aleat{243}rio com modelo, ano e pre{231}o FIPE.'',
     cmd_execute = ex\<rparr>"

definition clash_royale_command :: "'w exec \<Rightarrow> 'w command" where
  "clash_royale_command ex = \<lparr>
     cmd_config = (CommandConfig (U ''cr''))\<lparr>cc_aliases := [U ''clashroyale''],
       cc_flags := [U ''deck'', U ''show'', U ''dm''],
       cc_category := Some RANDOM,
       cc_platforms := [ALL_PLATFORMS]\<rparr>,
     cmd_menu = U ''Receba uma carta aleat{243}ria de Clash Royale.'',
     cmd_execute = ex\<rparr>"

definition config_command :: "'w exec \<Rightarrow> 'w command" where
  "config_command ex = \<lparr>
     cmd_config = (CommandConfig (U ''config''))\<lparr>cc_args := ARG_OPTIONAL,
       cc_args_label := Some (U ''subcomando''),
       cc_scope := ADMIN,
       cc_category := Some GROUP,
       cc_platforms := [ALL_PLATFORMS]\<rparr>,
     cmd_menu = U ''Liga/desliga comandos neste chat (s{243} admin). Use *,config on nsfw* para liberar os +18, *,config on|off|reset <comando|nsfw|download|group|random|info>* ou *,config* para ver o estado.'',
     cmd_execute = ex\<rparr>"

definition country_flag_command :: "'w exec \<Rightarrow> 'w command" where
  "country_flag_command ex = \<lparr>
     cmd_config = (CommandConfig (U ''bandeira''))\<lparr>cc_aliases := [U ''flag''],
       cc_flags := [U ''show'', U ''dm'', U ''detail''],
       cc_category := Some RANDOM,
       cc_platforms := [ALL_PLATFORMS]\<rparr>,
     cmd_menu = U ''Envia a bandeira de um pa{237}s aleat{243}rio com informa{231}{245}es.'',
     cmd_execute = ex\<rparr>"

definition currency_command :: "'w exec \<Rightarrow> 'w command" where
  "currency_command ex = \<lparr>
     cmd_config = (CommandConfig (U ''moeda''))\<lparr>cc_aliases := [U ''currency''],
       cc_args := ARG_OPTIONAL,
       cc_args_label := Some (U ''valor''),
       cc_category := Some INFORMATION,
       cc_platforms := [ALL_PLATFORMS]\<rparr>,
     cmd_menu = U ''Cota{231}{227}o de outras moedas em reais.'',
     cmd_execute = ex\<rparr>"

definition d20_command :: "'w exec \<Rightarrow> 'w command" where
  "d20_command ex = \<lparr>
     cmd_config = (CommandConfig (U ''d20''))\<lparr>cc_category := Some RANDOM,
       cc_platforms := [ALL_PLATFORMS]\<rparr>,
     cmd_menu = U ''Role um dado de vinte dimens{245}es.'',
     cmd_execute = ex\<rparr>"

definition dev_command :: "'w exec \<Rightarrow> 'w command" where
  "dev_command ex = \<lparr>
     cmd_config = (CommandConfig (U ''dev''))\<lparr>cc_scope := DEV,
       cc_args := ARG_OPTIONAL,
       cc_args_label := Some (U ''add/remove @n{250}mero ou <@usu{225}rio>''),
       cc_platforms := [ALL_PLATFORMS]\<rparr>,
     cmd_menu = U ''Gerencia a lista de desenvolvedores.'',
     cmd_execute = ex\<rparr>"

definition download_command :: "'w exec \<Rightarrow> 'w command" where
  "download_command ex = \<lparr>
     cmd_config = (CommandConfig (U ''dl''))\<lparr>cc_aliases := [U ''baixar''],
       cc_flags := [U ''show'', U ''dm''],
       cc_args := ARG_OPTIONAL,
       cc_args_pattern := Some [Opt (rseq [lit (U ''http''), Opt (Chr 115), lit (U ''://''), Plus (Cls (CNeg CSpace)), Star True (Cls (COr CSpace (CNeg CSpace)))])],
       cc_args_label := Some (U ''url''),
       cc_category := Some DOWNLOAD,
       cc_platforms := [ALL_PLATFORMS],
       cc_exclusive := True\<rparr>,
     cmd_menu = U ''Baixe v{237}deos e fotos de qualquer URL (YouTube, Instagram, TikTok, etc.).'',
     cmd_execute = ex\<rparr>"

definition drive_command :: "'w exec \<Rightarrow> 'w command" where
  "drive_command ex = \<lparr>
     cmd_config = (CommandConfig (U ''drive''))\<lparr>cc_flags := [U ''new''],
       cc_args := ARG_REQUIRED,
       cc_args_label := Some (U ''categoria canal''),
       cc_group_only := True,
       cc_category := Some GROUP\<rparr>,
     cmd_menu = U ''Arquiva uma m{237}dia no Discord. Use: ,drive <categoria> <canal>'',
     cmd_execute = ex\<rparr>"

definition extract_command :: "'w exec \<Rightarrow> 'w command" where
  "extract_command ex = \<lparr>
     cmd_config = (CommandConfig (U ''extrair''))\<lparr>cc_aliases := [U ''extract''],
       cc_flags := [U ''show'', U ''dm''],
       cc_category := Some DOWNLOAD\<rparr>,
     cmd_menu = U ''Extraia a imagem ou GIF original de um sticker.'',
     cmd_execute = ex\<rparr>"

definition fact_command :: "'w exec \<Rightarrow> 'w command" where
  "fact_command ex = \<lparr>
     cmd_config = (CommandConfig (U ''fato''))\<lparr>cc_aliases := [U ''fact''],
       cc_flags := [U ''hoje''],
       cc_category := Some RANDOM,
       cc_platforms := [ALL_PLATFORMS]\<rparr>,
     cmd_menu = U ''Descubra um fato aleat{243}rio ou de hoje.'',
     cmd_execute = ex\<rparr>"

definition fipe_command :: "'w exec \<Rightarrow> 'w command" where
  "fipe_command ex = \<lparr>
     cmd_config = (CommandConfig (U ''fipe''))\<lparr>cc_category := Some RANDOM,
       cc_platforms := [ALL_PLATFORMS]\<rparr>,
     cmd_menu = U ''Consulte o pre{231}o FIPE de um carro aleat{243}rio.'',
     cmd_execute = ex\<rparr>"

definition football_player_command :: "'w exec \<Rightarrow> 'w command" where
  "football_player_command ex = \<lparr>
     cmd_config = (CommandConfig (U ''jogador''))\<lparr>cc_options := [\<lparr>od_name = U ''top'', od_values = [], od_pattern = Some (rseq [lit (U ''top''), Opt (Cls CSpace), Plus (Cls CDigit)])\<rparr>,
       \<lparr>od_name = U ''liga'', od_values = MARKET_LEAGUE_CODES, od_pattern = None\<rparr>],
       cc_flags := [U ''fifa'', U ''show'', U ''dm''],
       cc_category := Some RANDOM,
       cc_platforms := [ALL_PLATFORMS]\<rparr>,
     cmd_menu = U ''Jogador aleat{243}rio do top de mais valiosos. Use --liga <c{243}digo> e top<N>, ou fifa para uma carta do EA FC.'',
     cmd_execute = ex\<rparr>"

definition football_standings_command :: "'w exec \<Rightarrow> 'w command" where
  "football_standings_command ex = \<lparr>
     cmd_config = (CommandConfig (U ''tabela''))\<lparr>cc_aliases := [U ''table''],
       cc_options := [\<lparr>od_name = U ''liga'', od_values = LEAGUE_CODES, od_pattern = None\<rparr>],
       cc_flags := [U ''g4'', U ''z4''],
       cc_category := Some INFORMATION,
       cc_platforms := [ALL_PLATFORMS]\<rparr>,
     cmd_menu = U ''Tabela de classifica{231}{227}o de uma liga de futebol com pontos, V/E/D e outros stats.'',
     cmd_execute = ex\<rparr>"

definition football_team_command :: "'w exec \<Rightarrow> 'w command" where
  "football_team_command ex = \<lparr>
     cmd_config = (CommandConfig (U ''time''))\<lparr>cc_options := [\<lparr>od_name = U ''top'', od_values = [], od_pattern = Some (rseq [lit (U ''top''), Opt (Cls CSpace), Plus (Cls CDigit)])\<rparr>,
       \<lparr>od_name = U ''liga'', od_values = MARKET_LEAGUE_CODES, od_pattern = None\<rparr>],
       cc_flags := [U ''full'', U ''fifa'', U ''show'', U ''dm''],
       cc_category := Some RANDOM,
       cc_platforms := [ALL_PLATFORMS]\<rparr>,
     cmd_menu = U ''Time aleat{243}rio com valor de elenco e posi{231}{227}o na tabela. Use full para escala{231}{227}o e fifa para um time com os ratings do EA FC.'',
     cmd_execute = ex\<rparr>"

definition fuck_command :: "'w exec \<Rightarrow> 'w command" where
  "fuck_command ex = \<lparr>
     cmd_config = (CommandConfig (U ''fuck''))\<lparr>cc_args := ARG_REQUIRED,
       cc_args_pattern := Some [Bol, Chr 64, Plus (Cls CDigit), Spaces, Eol],
       cc_args_label := Some (U ''@n{250}mero''),
       cc_group_only := True,
       cc_category := Some GROUP,
       cc_scope := NSFW\<rparr>,
     cmd_menu = U ''Marca algu{233}m e recebe um conte{250}do adulto (18+).'',
     cmd_execute = ex\<rparr>"

definition game_command :: "'w exec \<Rightarrow> 'w command" where
  "game_command ex = \<lparr>
     cmd_config = (CommandConfig (U ''game''))\<lparr>cc_flags := [U ''show'', U ''dm''],
       cc_options := [\<lparr>od_name = U ''source'', od_values = [U ''rawg'', U ''igdb''], od_pattern = None\<rparr>],
       cc_category := Some RANDOM,
       cc_platforms := [ALL_PLATFORMS]\<rparr>,
     cmd_menu = U ''Receba um jogo aleat{243}rio com capa e informa{231}{245}es.'',
     cmd_execute = ex\<rparr>"

definition group_mentions_command :: "'w exec \<Rightarrow> 'w command" where
  "group_mentions_command ex = \<lparr>
     cmd_config = (CommandConfig (U ''grupo''))\<lparr>cc_aliases := [U ''group''],
       cc_args := ARG_OPTIONAL,
       cc_args_label := Some (U ''subcomando''),
       cc_group_only := True,
       cc_category := Some GROUP\<rparr>,
     cmd_menu = U ''Comando complexo. Use *,menu grupo* para detalhes.'',
     cmd_execute = ex\<rparr>"

definition hearthstone_command :: "'w exec \<Rightarrow> 'w command" where
  "hearthstone_command ex = \<lparr>
     cmd_config = (CommandConfig (U ''hs''))\<lparr>cc_aliases := [U ''hearthstone''],
       cc_flags := [U ''booster'', U ''show'', U ''dm''],
       cc_category := Some RANDOM,
       cc_platforms := [ALL_PLATFORMS]\<rparr>,
     cmd_menu = U ''Receba uma carta aleat{243}ria de Hearthstone.'',
     cmd_execute = ex\<rparr>"

definition hentai_command :: "'w exec \<Rightarrow> 'w command" where
  "hentai_command ex = \<lparr>
     cmd_config = (CommandConfig (U ''hentai''))\<lparr>cc_flags := [U ''dm'', U ''show'', U ''ehentai'', U ''hitomi'', U ''nhentai''],
       cc_category := Some RANDOM,
       cc_scope := NSFW,
       cc_platforms := [ALL_PLATFORMS]\<rparr>,
     cmd_menu = U ''Recebe um hentai aleat{243}rio com infos do E-Hentai (18+).'',
     cmd_execute = ex\<rparr>"

definition horoscope_command :: "'w exec \<Rightarrow> 'w command" where
  "horoscope_command ex = \<lparr>
     cmd_config = (CommandConfig (U ''hor{243}scopo''))\<lparr>cc_aliases := [U ''horoscope''],
       cc_args := ARG_OPTIONAL,
       cc_args_label := Some (U ''signo''),
       cc_flags := [U ''dm'', U ''show''],
       cc_category := Some RANDOM,
       cc_platforms := [ALL_PLATFORMS]\<rparr>,
     cmd_menu = U ''Hor{243}scopo di{225}rio para o seu signo.'',
     cmd_execute = ex\<rparr>"

definition jackpot_command :: "'w exec \<Rightarrow> 'w command" where
  "jackpot_command ex = \<lparr>
     cmd_config = (CommandConfig (U ''jackpot''))\<lparr>cc_aliases := [U ''slot'', U ''ca{231}an{237}queis'', U ''tigrinho''],
       cc_category := Some RANDOM,
       cc_platforms := [ALL_PLATFORMS]\<rparr>,
     cmd_menu = U ''Jogue na m{225}quina ca{231}a-n{237}queis de emojis.'',
     cmd_execute = ex\<rparr>"

definition league_of_legends_command :: "'w exec \<Rightarrow> 'w command" where
  "league_of_legends_command ex = \<lparr>
     cmd_config = (CommandConfig (U ''lol''))\<lparr>cc_flags := [U ''show'', U ''dm'', U ''build''],
       cc_category := Some RANDOM,
       cc_platforms := [ALL_PLATFORMS]\<rparr>,
     cmd_menu = U ''Receba um campe{227}o aleat{243}rio de League of Legends.'',
     cmd_execute = ex\<rparr>"

definition lottery_command :: "'w exec \<Rightarrow> 'w command" where
  "lottery_command ex = \<lparr>
     cmd_config = (CommandConfig (U ''bicho''))\<lparr>cc_args := ARG_OPTIONAL,
       cc_args_pattern := Some [Bol, Opt (ralt [lit (U ''ppt''), lit (U ''ptm''), lit (U ''pt''), lit (U ''ptv''), lit (U ''ptn''), lit (U ''cor'')]), Eol],
       cc_args_label := Some (U ''sorteio''),
       cc_options := [\<lparr>od_name = U ''regiao'', od_values = [U ''rio'', U ''sp'', U ''mg'', U ''ba'', U ''go'', U ''ce''], od_pattern = None\<rparr>],
       cc_category := Some INFORMATION,
       cc_platforms := [ALL_PLATFORMS]\<rparr>,
     cmd_menu = U ''Exibe os resultados do Jogo do Bicho do dia.'',
     cmd_execute = ex\<rparr>"

definition magic_the_gathering_command :: "'w exec \<Rightarrow> 'w command" where
  "magic_the_gathering_command ex = \<lparr>
     cmd_config = (CommandConfig (U ''mtg''))\<lparr>cc_aliases := [U ''magic''],
       cc_flags := [U ''booster'', U ''show'', U ''dm''],
       cc_category := Some RANDOM,
       cc_platforms := [ALL_PLATFORMS]\<rparr>,
     cmd_menu = U ''Receba uma carta aleat{243}ria de Magic: The Gathering.'',
     cmd_execute = ex\<rparr>"

definition mateus_command :: "'w exec \<Rightarrow> 'w command" where
  "mateus_command ex = \<lparr>
     cmd_config = (CommandConfig (U ''mateus''))\<lparr>cc_category := Some RANDOM,
       cc_platforms := [ALL_PLATFORMS]\<rparr>,
     cmd_menu = U ''Descubra a probabilidade do Mateus nascer.'',
     cmd_execute = ex\<rparr>"

definition meal_recipes_command :: "'w exec \<Rightarrow> 'w command" where
  "meal_recipes_command ex = \<lparr>
     cmd_config = (CommandConfig (U ''comida''))\<lparr>cc_aliases := [U ''food''],
       cc_flags := [U ''show'', U ''dm''],
       cc_category := Some RANDOM,
       cc_platforms := [ALL_PLATFORMS]\<rparr>,
     cmd_menu = U ''Receba aleatoriamente uma receita e suas instru{231}{245}es.'',
     cmd_execute = ex\<rparr>"

definition menu_command :: "'w exec \<Rightarrow> 'w command" where
  "menu_command ex = \<lparr>
     cmd_config = (CommandConfig (U ''menu''))\<lparr>cc_options := [\<lparr>od_name = U ''section'', od_values = [U ''grupo'', U ''b{237}blia''], od_pattern = None\<rparr>],
       cc_flags := [U ''dm''],
       cc_category := Some OTHER,
       cc_platforms := [ALL_PLATFORMS]\<rparr>,
     cmd_menu = U ''Exibe o menu de comandos.'',
     cmd_execute = ex\<rparr>"

definition moon_command :: "'w exec \<Rightarrow> 'w command" where
  "moon_command ex = \<lparr>
     cmd_config = (CommandConfig (U ''lua''))\<lparr>cc_aliases := [U ''moon''],
       cc_category := Some INFORMATION,
       cc_platforms := [ALL_PLATFORMS]\<rparr>,
     cmd_menu = U ''Mostra a fase atual da lua.'',
     cmd_execute = ex\<rparr>"

definition movie_series_command :: "'w exec \<Rightarrow> 'w command" where
  "movie_series_command ex = \<lparr>
     cmd_config = (CommandConfig (U ''filme''))\<lparr>cc_aliases := [U ''s{233}rie'', U ''movie'', U ''series''],
       cc_options := [\<lparr>od_name = U ''pop'', od_values = [], od_pattern = Some (rseq [lit (U ''pop''), Opt (Seq (Opt (Cls CSpace)) (Plus (Cls CDigit)))])\<rparr>,
       \<lparr>od_name = U ''top'', od_values = [], od_pattern = Some (rseq [lit (U ''top''), Opt (Cls CSpace), Plus (Cls CDigit)])\<rparr>],
       cc_flags := [U ''show'', U ''dm'', U ''tmdb''],
       cc_category := Some RANDOM,
       cc_platforms := [ALL_PLATFORMS]\<rparr>,
     cmd_menu = U ''Receba um filme ou s{233}rie aleat{243}rio. Use top<N> ou pop<N> para limitar o ranking.'',
     cmd_execute = ex\<rparr>"

definition music_command :: "'w exec \<Rightarrow> 'w command" where
  "music_command ex = \<lparr>
     cmd_config = (CommandConfig (U ''m{250}sica''))\<lparr>cc_aliases := [U ''music''],
       cc_flags := [U ''free'', U ''show'', U ''dm''],
       cc_args := ARG_OPTIONAL,
       cc_args_label := Some (U ''g{234}nero''),
       cc_category := Some DOWNLOAD,
       cc_platforms := [ALL_PLATFORMS]\<rparr>,
     cmd_menu = U ''Receba um preview de m{250}sica popular (Deezer) ou use {34}free{34} para m{250}sicas completas gratuitas (Jamendo).'',
     cmd_execute = ex\<rparr>"

definition my_anime_list_command :: "'w exec \<Rightarrow> 'w command" where
  "my_anime_list_command ex = \<lparr>
     cmd_config = (CommandConfig (U ''anime''))\<lparr>cc_aliases := [U ''manga''],
       cc_flags := [U ''show'', U ''dm''],
       cc_options := [\<lparr>od_name = U ''pop'', od_values = [], od_pattern = Some (rseq [lit (U ''pop''), Opt (Seq (Opt (Cls CSpace)) (Plus (Cls CDigit)))])\<rparr>,
       \<lparr>od_name = U ''top'', od_values = [], od_pattern = Some (rseq [lit (U ''top''), Opt (Cls CSpace), Plus (Cls CDigit)])\<rparr>],
       cc_category := Some RANDOM,
       cc_platforms := [ALL_PLATFORMS]\<rparr>,
     cmd_menu = U ''Receba um anime ou mang{225} aleat{243}rio. Use top<N> ou pop<N> para limitar o ranking.'',
     cmd_execute = ex\<rparr>"

definition oi_command :: "'w exec \<Rightarrow> 'w command" where
  "oi_command ex = \<lparr>
     cmd_config = (CommandConfig (U ''oi''))\<lparr>cc_aliases := [U ''hi''],
       cc_category := Some OTHER,
       cc_platforms := [ALL_PLATFORMS]\<rparr>,
     cmd_menu = U ''Diga oi e ganhe as boas-vindas do bot.'',
     cmd_execute = ex\<rparr>"

definition playing_card_command :: "'w exec \<Rightarrow> 'w command" where
  "playing_card_command ex = \<lparr>
     cmd_config = (CommandConfig (U ''carta''))\<lparr>cc_aliases := [U ''card''],
       cc_flags := [U ''show'', U ''dm''],
       cc_category := Some RANDOM,
       cc_platforms := [ALL_PLATFORMS]\<rparr>,
     cmd_menu = U ''Receba uma carta de baralho aleat{243}ria.'',
     cmd_execute = ex\<rparr>"

definition pokemon_command :: "'w exec \<Rightarrow> 'w command" where
  "pokemon_command ex = \<lparr>
     cmd_config = (CommandConfig (U ''pok{233}mon''))\<lparr>cc_flags := [U ''team'', U ''show'', U ''dm''],
       cc_category := Some RANDOM,
       cc_platforms := [ALL_PLATFORMS]\<rparr>,
     cmd_menu = U ''Receba uma imagem e dados de um pok{233}mon aleat{243}rio.'',
     cmd_execute = ex\<rparr>"

definition pokemon_tcg_command :: "'w exec \<Rightarrow> 'w command" where
  "pokemon_tcg_command ex = \<lparr>
     cmd_config = (CommandConfig (U ''pok{233}montcg''))\<lparr>cc_aliases := [U ''ptcg''],
       cc_flags := [U ''booster'', U ''show'', U ''dm''],
       cc_category := Some RANDOM,
       cc_platforms := [ALL_PLATFORMS]\<rparr>,
     cmd_menu = U ''Receba uma carta aleat{243}ria do Pok{233}mon TCG.'',
     cmd_execute = ex\<rparr>"

definition porno_command :: "'w exec \<Rightarrow> 'w command" where
  "porno_command ex = \<lparr>
     cmd_config = (CommandConfig (U ''porno''))\<lparr>cc_args := ARG_OPTIONAL,
       cc_args_label := Some (U ''categoria''),
       cc_flags := [U ''show'', U ''dm''],
       cc_category := Some RANDOM,
       cc_scope := NSFW,
       cc_platforms := [ALL_PLATFORMS]\<rparr>,
     cmd_menu = U ''Recebe um v{237}deo adulto aleat{243}rio, ou um da categoria escolhida (18+).'',
     cmd_execute = ex\<rparr>"

definition puppy_command :: "'w exec \<Rightarrow> 'w command" where
  "puppy_command ex = \<lparr>
     cmd_config = (CommandConfig (U ''puppy''))\<lparr>cc_flags := [U ''show'', U ''dm''],
       cc_options := [\<lparr>od_name = U ''tipo'', od_values = [U ''dog'', U ''cat''], od_pattern = None\<rparr>],
       cc_category := Some RANDOM,
       cc_platforms := [ALL_PLATFORMS]\<rparr>,
     cmd_menu = U ''Receba uma foto aleat{243}ria de cachorro ou gato.'',
     cmd_execute = ex\<rparr>"

definition quran_command :: "'w exec \<Rightarrow> 'w command" where
  "quran_command ex = \<lparr>
     cmd_config = (CommandConfig (U ''alcor{227}o''))\<lparr>cc_aliases := [U ''quran''],
       cc_options := [\<lparr>od_name = U ''lang'', od_values = [U ''ar'', U ''pt''], od_pattern = None\<rparr>],
       cc_category := Some RANDOM,
       cc_platforms := [ALL_PLATFORMS]\<rparr>,
     cmd_menu = U ''Receba um vers{237}culo aleat{243}rio do Alcor{227}o em {225}rabe e portugu{234}s.'',
     cmd_execute = ex\<rparr>"

definition rule34_command :: "'w exec \<Rightarrow> 'w command" where
  "rule34_command ex = \<lparr>
     cmd_config = (CommandConfig (U ''rule 34''))\<lparr>cc_aliases := [U ''rule34'', U ''rule_34'', U ''r34''],
       cc_flags := [U ''show'', U ''dm''],
       cc_category := Some RANDOM,
       cc_scope := NSFW,
       cc_platforms := [ALL_PLATFORMS]\<rparr>,
     cmd_menu = U ''Recebe uma imagem aleat{243}ria da Rule 34 (18+).'',
     cmd_execute = ex\<rparr>"

definition score_command :: "'w exec \<Rightarrow> 'w command" where
  "score_command ex = \<lparr>
     cmd_config = (CommandConfig (U ''placar''))\<lparr>cc_aliases := [U ''score''],
       cc_flags := [U ''past'', U ''now'', U ''next''],
       cc_category := Some INFORMATION,
       cc_platforms := [ALL_PLATFORMS]\<rparr>,
     cmd_menu = U ''Placar ao vivo de jogos de futebol com resultados ao vivo, pr{243}ximos e encerrados.'',
     cmd_execute = ex\<rparr>"

definition sticker_command :: "'w exec \<Rightarrow> 'w command" where
  "sticker_command ex = \<lparr>
     cmd_config = (CommandConfig (U ''stic''))\<lparr>cc_aliases := [U ''fig'', U ''figurinha'', U ''sticker''],
       cc_options := [\<lparr>od_name = U ''type'', od_values = [U ''crop'', U ''full'', U ''circle'', U ''rounded''], od_pattern = None\<rparr>,
       \<lparr>od_name = U ''quality'', od_values = [], od_pattern = Some (rseq [Opt (Chr 45), Cls CDigit, Opt (Cls CDigit), Opt (Chr 37)])\<rparr>],
       cc_args := ARG_OPTIONAL,
       cc_args_label := Some (U ''pack | autor''),
       cc_category := Some DOWNLOAD\<rparr>,
     cmd_menu = U ''Transforme sua imagem anexada em sticker.'',
     cmd_execute = ex\<rparr>"

definition torah_command :: "'w exec \<Rightarrow> 'w command" where
  "torah_command ex = \<lparr>
     cmd_config = (CommandConfig (U ''tor{225}''))\<lparr>cc_aliases := [U ''torah''],
       cc_options := [\<lparr>od_name = U ''lang'', od_values = [U ''he'', U ''en'', U ''pt''], od_pattern = None\<rparr>],
       cc_args := ARG_OPTIONAL,
       cc_args_label := Some (U ''livro cap{237}tulo:vers{237}culo''),
       cc_flags := [U ''dm'', U ''show''],
       cc_category := Some RANDOM,
       cc_platforms := [ALL_PLATFORMS]\<rparr>,
     cmd_menu = U ''Receba um vers{237}culo aleat{243}rio da Tor{225} em hebraico e portugu{234}s.'',
     cmd_execute = ex\<rparr>"

definition yugioh_command :: "'w exec \<Rightarrow> 'w command" where
  "yugioh_command ex = \<lparr>
     cmd_config = (CommandConfig (U ''ygo''))\<lparr>cc_flags := [U ''booster'', U ''show'', U ''dm''],
       cc_category := Some RANDOM,
       cc_platforms := [ALL_PLATFORMS]\<rparr>,
     cmd_menu = U ''Receba uma carta aleat{243}ria de Yu-Gi-Oh!.'',
     cmd_execute = ex\<rparr>"

definition simple_commands :: "(pystr \<Rightarrow> 'w exec) \<Rightarrow> 'w command list" where
  "simple_commands ex =
     [adm_command (ex (U ''adm'')),
      quran_command (ex (U ''alcor{227}o'')),
      animal_command (ex (U ''animal'')),
      audio_command (ex (U ''{225}udio'')),
      playing_card_command (ex (U ''carta'')),
      lottery_command (ex (U ''bicho'')),
      birthday_command (ex (U ''niver'')),
      borges_command (ex (U ''borges'')),
      car_command (ex (U ''carro'')),
      clash_royale_command (ex (U ''cr'')),
      currency_command (ex (U ''moeda'')),
      d20_command (ex (U ''d20'')),
      config_command (ex (U ''config'')),
      dev_command (ex (U ''dev'')),
      extract_command (ex (U ''extrair'')),
      fact_command (ex (U ''fato'')),
      fipe_command (ex (U ''fipe'')),
      football_player_command (ex (U ''jogador'')),
      football_standings_command (ex (U ''tabela'')),
      football_team_command (ex (U ''time'')),
      group_mentions_command (ex (U ''grupo'')),
      horoscope_command (ex (U ''hor{243}scopo'')),
      jackpot_command (ex (U ''jackpot'')),
      fuck_command (ex (U ''fuck'')),
      league_of_legends_command (ex (U ''lol'')),
      moon_command (ex (U ''lua'')),
      magic_the_gathering_command (ex (U ''mtg'')),
      mateus_command (ex (U ''mateus'')),
      meal_recipes_command (ex (U ''comida'')),
      menu_command (ex (U ''menu'')),
      my_anime_list_command (ex (U ''anime'')),
      oi_command (ex (U ''oi'')),
      pokemon_command (ex (U ''pok{233}mon'')),
      pokemon_tcg_command (ex (U ''pok{233}montcg'')),
      score_command (ex (U ''placar'')),
      porno_command (ex (U ''porno'')),
      puppy_command (ex (U ''puppy'')),
      rule34_command (ex (U ''rule 34'')),
      sticker_command (ex (U ''stic'')),
      torah_command (ex (U ''tor{225}'')),
      yugioh_command (ex (U ''ygo''))]"

definition configured_commands :: "(pystr \<Rightarrow> 'w exec) \<Rightarrow> 'w command list" where
  "configured_commands ex =
     [add_command (ex (U ''add'')),
      ban_command (ex (U ''ban'')),
      bible_command (ex (U ''b{237}blia'')),
      country_flag_command (ex (U ''bandeira'')),
      download_command (ex (U ''dl'')),
      drive_command (ex (U ''drive'')),
      movie_series_command (ex (U ''filme'')),
      game_command (ex (U ''game'')),
      hearthstone_command (ex (U ''hs'')),
      hentai_command (ex (U ''hentai'')),
      music_command (ex (U ''m{250}sica'')),
      beer_command (ex (U ''cerveja''))]"

definition all_commands :: "(pystr \<Rightarrow> 'w exec) \<Rightarrow> 'w command list" where
  "all_commands ex = simple_commands ex @ configured_commands ex"

text \<open>The registry after \<open>register_all_commands\<close>.\<close>

definition bot_registry :: "(pystr \<Rightarrow> 'w exec) \<Rightarrow> 'w registry" where
  "bot_registry ex = register_all (all_commands ex)"

subsection \<open>The examples and the prompt of the agent\<close>

definition AGENT_EXAMPLES :: "(pystr \<times> pystr) list" where
  "AGENT_EXAMPLES =
     [(U ''mostrar placar dos jogos'', U '',score --now''),
      (U ''placar football agora'', U '',score --now''),
      (U ''jogos encerrados'', U '',score --past''),
      (U ''pr{243}ximos jogos'', U '',score --next''),
      (U ''ver placar ao vivo'', U '',score --now''),
      (U ''Resultados dos jogos'', U '',score --past --now''),
      (U ''time completo do flamengo'', U '',time flamengo''),
      (U ''escala{231}{227}o do palmeiras'', U '',time palmeiras''),
      (U ''time do corinthians'', U '',time corinthians''),
      (U ''que time {233} o flamengo'', U '',time flamengo''),
      (U ''ranking times brasileiros'', U '',time --liga br''),
      (U ''tabela do brasileiro'', U '',tabela br''),
      (U ''classifica{231}{227}o champions'', U '',tabela bl''),
      (U ''lista de comandos'', U '',menu''),
      (U ''o que voc{234} pode fazer'', U '',menu''),
      (U ''comandos dispon{237}veis'', U '',menu''),
      (U ''jogar dado'', U '',d20''),
      (U ''rolar dados'', U '',d20 2d6''),
      (U ''sortear n{250}mero'', U '',d20''),
      (U ''me mande um carro'', U '',carro''),
      (U ''foto de carro'', U '',carro''),
      (U ''carro aleat{243}rio'', U '',carro''),
      (U ''mostra um carro'', U '',carro''),
      (U ''animal aleat{243}rio'', U '',animal''),
      (U ''foto de cachorro'', U '',puppy''),
      (U ''foto de gato'', U '',puppy cat''),
      (U ''carta de poker'', U '',carta''),
      (U ''carta aleat{243}ria baralho'', U '',carta''),
      (U ''carta yu-gi-oh'', U '',ygo''),
      (U ''carta magic'', U '',mtg''),
      (U ''carta pokemon'', U '',pokemon''),
      (U ''carta hearthstone'', U '',hs''),
      (U ''carta clash royale'', U '',cr''),
      (U ''me mande um pacotinho de yugioh'', U '',ygo booster''),
      (U ''pacote de pokemon'', U '',pokemon booster''),
      (U ''booster de magic'', U '',mtg booster''),
      (U ''me envia um pacotinho de yu-gi-oh'', U '',ygo booster''),
      (U ''cerveja aleat{243}ria'', U '',cerveja''),
      (U ''receita de comida'', U '',comida''),
      (U ''comida aleat{243}ria'', U '',comida''),
      (U ''anime aleat{243}rio'', U '',anime''),
      (U ''manga aleat{243}rio'', U '',manga''),
      (U ''jogo aleat{243}rio'', U '',game''),
      (U ''filme aleat{243}rio'', U '',filme''),
      (U ''s{233}rie aleat{243}ria'', U '',s{233}rie''),
      (U ''um dos 10 melhores filmes'', U '',filme top10''),
      (U ''anime do top 50'', U '',anime top50''),
      (U ''jogador entre os 5 mais caros'', U '',jogador top5''),
      (U ''fato aleat{243}rio'', U '',fato''),
      (U ''hor{243}scopo'', U '',hor{243}scopo''),
      (U ''jogador aleat{243}rio'', U '',jogador''),
      (U ''moeda convers{227}o'', U '',moeda''),
      (U ''transformar em sticker'', U '',stic''),
      (U ''fazer figurinha'', U '',stic''),
      (U ''tornar figurinha'', U '',stic''),
      (U ''figurinha centralizada'', U '',stic type crop''),
      (U ''sticker centralizado'', U '',stic type crop''),
      (U ''figurinha com bordas arredondadas'', U '',stic type rounded''),
      (U ''sticker sem bordas'', U '',stic type rounded''),
      (U ''figurinha redonda'', U '',stic type circle''),
      (U ''sticker circular'', U '',stic type circle''),
      (U ''oi'', U '',oi''),
      (U ''me mande um oi'', U '',oi''),
      (U ''tocar m{250}sica rock'', U '',m{250}sica rock''),
      (U ''m{250}sica funk'', U '',m{250}sica funk''),
      (U ''rock'', U '',m{250}sica rock''),
      (U ''pagode'', U '',m{250}sica pagode''),
      (U ''sertanejo'', U '',m{250}sica sertanejo''),
      (U ''mpb'', U '',m{250}sica mpb''),
      (U ''reggaeton'', U '',m{250}sica reggaeton''),
      (U ''kpop'', U '',m{250}sica kpop''),
      (U ''rock pauleira'', U '',m{250}sica rock''),
      (U ''toque um metal pauleira'', U '',m{250}sica metal''),
      (U ''mande um {225}udio em mandarim'', U '',{225}udio lang zh''),
      (U ''{225}udio em japon{234}s'', U '',{225}udio lang ja''),
      (U ''fala em ingl{234}s'', U '',{225}udio lang en''),
      (U ''{225}udio chino'', U '',{225}udio lang zh''),
      (U ''leia{35753}{25105}{35828}{20013}{25991}'', U '',{225}udio lang zh''),
      (U ''jogo do bicho'', U '',bicho''),
      (U ''fase da lua'', U '',lua''),
      (U ''pre{231}o fipe de um carro'', U '',fipe''),
      (U ''quanto custa um carro na tabela fipe'', U '',fipe''),
      (U ''deck de clash royale'', U '',cr deck''),
      (U ''melhor deck do clash royale'', U '',cr deck''),
      (U ''campe{227}o aleat{243}rio de league of legends'', U '',lol''),
      (U ''me d{225} um campe{227}o de lol'', U '',lol''),
      (U ''build de um campe{227}o de lol'', U '',lol build''),
      (U ''itens pra montar no campe{227}o de lol'', U '',lol build''),
      (U ''jogador do brasileir{227}o'', U '',jogador br''),
      (U ''jogador da premier league'', U '',jogador pl''),
      (U ''craque da s{233}rie a italiana'', U '',jogador sa''),
      (U ''time da bundesliga'', U '',time bl''),
      (U ''um time do brasileir{227}o'', U '',time br''),
      (U ''escala{231}{227}o completa com imagem do campo'', U '',time --full''),
      (U ''hor{243}scopo de {225}ries'', U '',hor{243}scopo {225}ries''),
      (U ''previs{227}o do signo de touro'', U '',hor{243}scopo touro''),
      (U ''pok{233}mon aleat{243}rio'', U '',pok{233}mon''),
      (U ''carta do pok{233}mon tcg'', U '',pok{233}montcg''),
      (U ''vers{237}culo da b{237}blia'', U '',b{237}blia''),
      (U ''um trecho da b{237}blia'', U '',b{237}blia''),
      (U ''vers{237}culo do alcor{227}o'', U '',alcor{227}o''),
      (U ''vers{237}culo da tor{225}'', U '',tor{225}''),
      (U ''baixar v{237}deo do youtube'', U '',dl''),
      (U ''baixa esse v{237}deo do tiktok'', U '',dl''),
      (U ''extrair a imagem do sticker'', U '',extrair''),
      (U ''imagem original da figurinha'', U '',extrair''),
      (U ''bandeira de um pa{237}s aleat{243}rio'', U '',bandeira''),
      (U ''jogar na m{225}quina ca{231}a-n{237}queis'', U '',jackpot''),
      (U ''jogar no tigrinho'', U '',jackpot''),
      (U ''adicionar um n{250}mero ao grupo'', U '',add''),
      (U ''banir algu{233}m do grupo'', U '',ban''),
      (U ''marcar todo mundo do grupo'', U '',grupo''),
      (U ''cadastrar meu anivers{225}rio'', U '',niver''),
      (U ''quando {233} o anivers{225}rio do pessoal'', U '',niver''),
      (U ''xingar os administradores'', U '',adm''),
      (U ''arquivar essa m{237}dia no drive'', U '',drive''),
      (U ''gerenciar a lista de devs'', U '',dev''),
      (U ''quantos nargas o borges fumou'', U '',borges''),
      (U ''probabilidade do mateus nascer'', U '',mateus''),
      (U ''foder a pessoa marcada'', U '',fuck''),
      (U ''manda um porno'', U '',porno''),
      (U ''porno de ruiva'', U '',porno ruiva''),
      (U ''um hentai aleat{243}rio'', U '',hentai''),
      (U ''imagem da rule 34'', U '',rule34''),
      (U ''configurar os comandos do grupo'', U '',config''),
      (U ''ver a configura{231}{227}o do chat'', U '',config''),
      (U ''quais comandos est{227}o ativos aqui'', U '',config''),
      (U ''o que est{225} liberado nesse grupo'', U '',config''),
      (U ''desativar o porno aqui'', U '',config off porno''),
      (U ''desliga o hentai nesse grupo'', U '',config off hentai''),
      (U ''bloquear os comandos +18'', U '',config off nsfw''),
      (U ''desligar o conte{250}do adulto do chat'', U '',config off nsfw''),
      (U ''liberar os comandos +18 aqui'', U '',config on nsfw''),
      (U ''ativar nsfw nesse grupo'', U '',config on nsfw''),
      (U ''desabilitar os downloads nesse grupo'', U '',config off download''),
      (U ''ativar o modo curado'', U '',config policy curated''),
      (U ''s{243} comandos da resenha nesse grupo'', U '',config policy curated''),
      (U ''voltar ao modo aberto'', U '',config policy open''),
      (U ''resetar o porno pro padr{227}o'', U '',config reset porno''),
      (U ''n{227}o sei'', U '',menu'')]"

definition SYSTEM_PROMPT_TEMPLATE :: pystr where
  "SYSTEM_PROMPT_TEMPLATE = join [10]
    [U ''Voc{234} {233} um assistente que mapeia pedidos'',
     U ''naturais em comandos do bot Resenhazord.'',
     U '''',
     U ''Lista de comandos dispon{237}veis com descri{231}{245}es:'',
     U ''{123}command_list{125}'',
     U '''',
     U ''Exemplos de mapeamento (USE ESSES PARA INFERIR PADR{213}ES):'',
     U ''{123}examples{125}'',
     U '''',
     U ''REGRAS DE INFER{202}NCIA:'',
     U '' 1. Sempre use V{205}RGULA (,) como prefixo do comando.'',
     U ''    Ex: {34}carro{34} {8594} {34},carro{34}, {34}menu{34} {8594} {34},menu{34}, {34}score now{34} {8594} {34},score --now{34}'',
     U '' 2. G{202}NEROS DE M{218}SICA: quando o usu{225}rio menciona um g{234}nero musical'',
     U ''    (rock, funk, pagode, sertanejo, pop, mpb, etc.), use {34}m{250}sica <g{234}nero>{34}.'',
     U ''    Ex: {34}rock pauleira{34} {8594} {34},m{250}sica rock{34}, {34}funk{34} {8594} {34},m{250}sica funk{34}'',
     U '' 3. NSFW: {34}porno{34}, {34}porn{244}{34}, {34}xvideos{34} {8594} {34},porno{34}. Se pedir uma categoria (p{233}s, ruiva,'',
     U ''    l{233}sbicas...), passe a categoria sem acento.'',
     U ''    Ex: {34}porno de p{233}s{34} {8594} {34},porno pes{34}'',
     U '' 4. Nunca adicione {34}todos{34} ou m{250}ltiplos g{234}neros se usu{225}rio especificou apenas um'',
     U '' 5. {193}UDIO: apenas para synthesis de voz, TTS, ou aprender idiomas.'',
     U ''    {34}{225}udio{34} {8594} synthesis de voz/leitura; {34}m{250}sica{34} {8594} g{234}neros/bandas.'',
     U ''    Ex: {34}fala em japon{234}s{34} {8594} {34},{225}udio lang ja{34}, {34}toque rock{34} {8594} {34},m{250}sica rock{34}'',
     U '' 6. SHOW FLAG: N{195}O use --show a menos que o usu{225}rio solicite explicitamente'',
     U ''    {34}view once{34}, {34}temporal{34}, {34} visualize{34} ou similar.'',
     U ''    Por padr{227}o, envie m{237}dias em modo view-once (com --show MUDA o comportamento).'',
     U '' 7. SE N{195}O SOUBER qual comando: chame a ferramenta {96}clarify{96} com uma pergunta'',
     U ''    em pt-br. Ex: clarify(question={34}Voc{234} quer ver a tabela do brasileiro?{34}).'',
     U ''    N{227}o responda apenas {34}n{227}o entendi{34}.'',
     U '' 8. PEDIDO FORA DAS FUN{199}{213}ES com comando SIMILAR: chame a ferramenta {96}suggest{96},'',
     U ''    respondendo CONVERSACIONALMENTE, SEM executar o comando.'',
     U ''    Ex: {34}qual a funda{231}{227}o do flamengo?{34} {8594}'',
     U ''    suggest(message={34}N{227}o sei a data exata, mas posso te mandar um time! Use ,time{34}, command={34},time{34})'',
     U ''    Ex: {34}por que o c{233}u {233} azul?{34} {8594}'',
     U ''    suggest(message={34}N{227}o sei responder, mas posso te contar um fato! Use ,fato{34}, command={34},fato{34})'',
     U ''  9. STICKER type:'',
     U ''     - crop: {34}centralizada{34}, {34}centralizado{34}, {34}cortada{34}, {34}meio{34}'',
     U ''     - rounded: {34}bordas arredondadas{34}, {34}sem bordas{34}, {34}cantos arredondados{34}'',
     U ''     - circle: {34}redonda{34}, {34}circular{34}, {34}completamente circular{34}'',
     U ''     - full: padr{227}o, sem especifica{231}{227}o'',
     U '' 10. CONTEXTO DE RESPOSTA: Se o usu{225}rio est{225} RESPONDENDO a uma mensagem do bot'',
     U ''    (reply/quotation), use o contexto para inferir o comando correto.'',
     U ''    Ex: se o bot disse {34}Use ,fato{34} e o usu{225}rio responde {34}sim{34} {8594} {34},fato{34}'',
     U ''    Ex: se o bot sugeriu {34}Use ,tabela bl{34} e o usu{225}rio diz {34}sim{34} {8594} {34},tabela bl{34}'',
     U '' 11. CONFIG (admin): VERBOS de gest{227}o {8212} {34}ativar{34}, {34}desativar{34}, {34}ligar{34}, {34}desligar{34},'',
     U ''    {34}bloquear{34}, {34}liberar{34}, {34}resetar{34} {8212} sobre um comando ou tipo mapeiam para {34},config{34}.'',
     U ''    Tipos: {34}nsfw{34}/{34}+18{34}/{34}adulto{34} {8594} nsfw; {34}download{34}, {34}group{34}, {34}random{34}, {34}info{34}.'',
     U ''    Ex: {34}desativar o porno aqui{34} {8594} {34},config off porno{34} (N{195}O {34},porno{34}).'',
     U ''    Ex: {34}liberar +18 no grupo{34} {8594} {34},config on nsfw{34}.'',
     U ''    Ex: {34}modo curado{34} {8594} {34},config policy curated{34}.{123}context{125}'',
     U '''',
     U ''{123}user_context{125}'',
     U ''Comando:'']"

end
