(* ===== verification/Catalogue.thy ===== *)
theory Catalogue
  imports Commands "HOL-Library.Multiset"
begin

text \<open>
  What the registry of all commands shows to people and to the model: the menu
  (bot/domain/commands/menu.py, bot/data/menu_messages.py) and the tools
  (bot/infrastructure/llm/tools.py, example_bank.py); and the names by which its commands are
  reached.
\<close>

subsection \<open>The menu\<close>

fun category_header :: "category \<Rightarrow> pystr" where
  "category_header GROUP = U ''{129730} FUN{199}{213}ES DE GRUPO {129730}''"
| "category_header RANDOM = U ''{127922} FUN{199}{213}ES ALEAT{211}RIAS {127922}''"
| "category_header DOWNLOAD = U ''{128190} FUN{199}{213}ES DE DOWNLOAD {128190}''"
| "category_header INFORMATION = U ''{128240} INFORMA{199}{213}ES {128240}''"
| "category_header OTHER = U ''{128578} OUTRAS FUN{199}{213}ES {128578}''"

definition CATEGORY_ORDER :: "category list" where
  "CATEGORY_ORDER = [GROUP, RANDOM, DOWNLOAD, INFORMATION, OTHER]"

definition ALEATORIA_SUBHEADER :: pystr where
  "ALEATORIA_SUBHEADER =
     U ''{10}{10}_(use as op{231}{245}es *show* e/ou *dm* para enviar imagens'' @
     U '' sem visualiza{231}{227}o {250}nica e no chat privado respectivamente)_''"

definition MENU_GRUPO :: pystr where
  "MENU_GRUPO = join [10]
    [U ''{9}{9}{9}{128221} *COMANDOS DE GRUPO* {128221}'',
     U '''',
     U ''{127881} _Criar_'',
     U ''- *,grupo create* valorant'',
     U ''> Cria o grupo valorant com voc{234}'',
     U ''- *,grupo create* valorant @fulano @ciclano'',
     U ''> Cria o grupo valorant com voc{234} e mais pessoas'',
     U '''',
     U ''{9904}{65039} _Deletar_'',
     U ''- *,grupo delete* valorant'',
     U ''> Deleta o grupo valorant (admin)'',
     U '''',
     U ''{9999}{65039} _Editar_'',
     U ''- *,grupo rename* valorant val'',
     U ''> Renomeia o grupo valorant para val (admin)'',
     U '''',
     U ''{129730} _Adicionar_'',
     U ''- *,grupo add* val'',
     U ''> Se adiciona no grupo val'',
     U ''- *,grupo add* val @fulano @ciclano'',
     U ''> Adiciona pessoas no grupo val (admin)'',
     U '''',
     U ''{128695} _Sair_'',
     U ''- *,grupo exit* val'',
     U ''> Saia do grupo val'',
     U ''- *,grupo exit* val @fulano @ciclano'',
     U ''> Tire pessoas do grupo val (admin)'',
     U ''- *,grupo exit* val 1{186} 3{186}'',
     U ''> Tire pessoas por posi{231}{227}o na lista (admin)'',
     U '''',
     U ''{128218} Listagem'',
     U ''- *,grupo list*'',
     U ''> Liste os grupos'',
     U ''- *,grupo list* val'',
     U ''> Liste os n{250}meros no grupo val'',
     U '''',
     U ''{128172} _Mensagem_'',
     U ''- *,grupo* val texto'',
     U ''> Mande um texto marcando todos do grupo val'']"

definition MENU_BIBLIA :: pystr where
  "MENU_BIBLIA = join [10]
    [U ''{9}{9}{9}{128221} *COMANDOS DE B{205}BLIA* {128221}'',
     U '''',
     U ''{127922} _Aleat{243}rio_'',
     U ''- *,biblia*'',
     U ''> Receba um vers{237}culo aleat{243}rio da b{237}blia.'',
     U '''',
     U ''{128210} _Por Refer{234}ncia_'',
     U ''- *,biblia* _Mateus 1:2_'',
     U ''> Receba o vers{237}culo especificado da b{237}blia.'',
     U '''',
     U ''{128218} _M{250}ltiplas Refer{234}ncias_'',
     U ''- *,biblia* _Mateus 1:2-3_'',
     U ''> Receba junto os v{225}rios vers{237}culos especificados.'',
     U '''',
     U ''_Tradu{231}{227}o: Jo{227}o Ferreira de Almeida_'']"

definition format_options :: "command_config \<Rightarrow> pystr" where
  "format_options cfg =
     (let label = (case cc_args_label cfg of None \<Rightarrow> U ''texto''
                   | Some l \<Rightarrow> if l = [] then U ''texto'' else l);
          parts = map (\<lambda>opt. 91 # join (U '' | '') (od_values opt) @ [93])
                    (filter (\<lambda>opt. od_values opt \<noteq> []) (cc_options cfg))
                @ map (\<lambda>f. 43 # f) (filter (\<lambda>f. f \<noteq> flag_value DM \<and> f \<noteq> flag_value SHOW) (cc_flags cfg))
                @ (case cc_args cfg of ARG_REQUIRED \<Rightarrow> [60 # label @ [62]]
                   | ARG_OPTIONAL \<Rightarrow> [91 # label @ [93]] | ARG_NONE \<Rightarrow> [])
      in if parts = [] then [] else 32 # join [32] parts)"

definition format_entry :: "'w command \<Rightarrow> pystr" where
  "format_entry c =
     U ''- '' @ join (U '' ou '') (map (\<lambda>n. U ''*,'' @ n @ U ''*'') (command_names c)) @
     format_options (cmd_config c) @ U ''{10}> '' @ cmd_menu c"

text \<open>The commands of a category in the menu of a platform, in the order of registration.\<close>

definition listed_in :: "'w registry \<Rightarrow> platform option \<Rightarrow> category \<Rightarrow> 'w command list" where
  "listed_in r p cat =
     filter (\<lambda>c. cc_category (cmd_config c) = Some cat \<and>
               (case p of None \<Rightarrow> True | Some q \<Rightarrow> supports (cc_platforms (cmd_config c)) q))
       (get_all r)"

definition menu_section :: "category \<Rightarrow> 'w command list \<Rightarrow> pystr" where
  "menu_section cat cs =
     category_header cat @ (if cat = RANDOM then ALEATORIA_SUBHEADER else []) @ [10, 10] @
     join [10, 10] (map format_entry cs)"

definition menu_groups :: "'w registry \<Rightarrow> platform option \<Rightarrow> (category \<times> 'w command list) list" where
  "menu_groups r p =
     filter (\<lambda>(cat, cs). cs \<noteq> []) (map (\<lambda>cat. (cat, listed_in r p cat)) CATEGORY_ORDER)"

definition build_menu :: "'w registry \<Rightarrow> platform option \<Rightarrow> pystr" where
  "build_menu r p =
     join [10, 10] (U ''{9}{9}{9}{128221} *MENU DE COMANDOS* {128221}'' #
       map (\<lambda>(cat, cs). menu_section cat cs) (menu_groups r p))"

definition SECTION_MENUS :: "(pystr \<times> pystr) list" where
  "SECTION_MENUS = [(U ''grupo'', MENU_GRUPO), (U ''b{237}blia'', MENU_BIBLIA)]"

definition menu_execute :: "'w registry \<Rightarrow> command_data \<Rightarrow> parsed_command \<Rightarrow> bot_message list" where
  "menu_execute r d p =
     (case dict_get (pc_options p) (U ''section'') of
        Some s \<Rightarrow>
          (case (if s = [] then None else dict_get SECTION_MENUS s) of
             Some m \<Rightarrow> [reply_text d m]
           | None \<Rightarrow> [reply_text d (build_menu r (cd_platform d))])
      | None \<Rightarrow> [reply_text d (build_menu r (cd_platform d))])"

definition menu_visible :: "platform option \<Rightarrow> 'w command \<Rightarrow> bool" where
  "menu_visible p c \<longleftrightarrow> cc_category (cmd_config c) \<noteq> None \<and>
     (case p of None \<Rightarrow> True | Some q \<Rightarrow> supports (cc_platforms (cmd_config c)) q)"

lemma mset_by_category:
  assumes "distinct cats" and "\<And>c. c \<in> set cs \<Longrightarrow> f c \<in> set cats"
  shows "mset (concat (map (\<lambda>k. filter (\<lambda>c. f c = k) cs) cats)) = mset cs"
  using assms
proof (induction cats arbitrary: cs)
  case Nil
  then show ?case by (cases cs) auto
next
  case (Cons k ks)
  let ?rest = "filter (\<lambda>c. f c \<noteq> k) cs"
  have rest: "map (\<lambda>j. filter (\<lambda>c. f c = j) cs) ks = map (\<lambda>j. filter (\<lambda>c. f c = j) ?rest) ks"
    using Cons.prems(1) by (auto intro!: filter_cong)
  have "mset (concat (map (\<lambda>j. filter (\<lambda>c. f c = j) ?rest) ks)) = mset ?rest"
    using Cons.prems by (intro Cons.IH) auto
  then have "mset (concat (map (\<lambda>j. filter (\<lambda>c. f c = j) cs) (k # ks))) =
      mset (filter (\<lambda>c. f c = k) cs) + mset ?rest"
    by (simp only: list.map concat.simps mset_append rest)
  also have "\<dots> = mset cs"
    unfolding mset_filter by (rule multiset_partition [symmetric])
  finally show ?case .
qed

lemma concat_nonempty: "concat (map snd (filter (\<lambda>(k, cs). cs \<noteq> []) kcs)) = concat (map snd kcs)"
  by (induction kcs) auto

text \<open>
  The menu lists every command once.  Whatever is registered, the groups of the menu hold
  exactly the commands that have a category and support the platform, each as often as it is
  registered and under its own category, and no group is empty; the menu is its title and one
  section per group.
\<close>

theorem menu_lists_commands:
  "mset (concat (map snd (menu_groups r p))) = mset (filter (menu_visible p) (get_all r)) \<and>
   list_all (\<lambda>(cat, cs). cs \<noteq> [] \<and> list_all (\<lambda>c. cc_category (cmd_config c) = Some cat) cs) (menu_groups r p)"
proof
  let ?cs = "filter (menu_visible p) (get_all r)"
  let ?f = "\<lambda>c. the (cc_category (cmd_config c))"
  have "listed_in r p k = filter (\<lambda>c. ?f c = k) ?cs" for k
    unfolding listed_in_def filter_filter
    by (rule filter_cong) (auto simp: menu_visible_def)
  then have "concat (map snd (menu_groups r p)) = concat (map (\<lambda>k. filter (\<lambda>c. ?f c = k) ?cs) CATEGORY_ORDER)"
    unfolding menu_groups_def concat_nonempty by (simp add: comp_def)
  moreover have "k \<in> set CATEGORY_ORDER" for k
    by (cases k) (simp_all add: CATEGORY_ORDER_def)
  ultimately show "mset (concat (map snd (menu_groups r p))) = mset ?cs"
    using mset_by_category [of CATEGORY_ORDER ?cs ?f] by (simp only: CATEGORY_ORDER_def) simp
  show "list_all (\<lambda>(cat, cs). cs \<noteq> [] \<and> list_all (\<lambda>c. cc_category (cmd_config c) = Some cat) cs) (menu_groups r p)"
    by (auto simp: menu_groups_def listed_in_def list_all_iff)
qed

subsection \<open>The tools offered to the model\<close>

text \<open>
  The canonical decomposition without its marks; unlike the compatibility decomposition it
  leaves the other characters of Latin-1 as they are.
\<close>

definition strip_marks_cp :: "nat \<Rightarrow> pystr" where
  "strip_marks_cp c =
     (if c \<in> {160, 168, 170, 175, 178, 179, 180, 181, 184, 185, 186, 188, 189, 190} then [c]
      else unaccent_cp c)"

definition to_ascii_name :: "pystr \<Rightarrow> pystr" where
  "to_ascii_name name =
     map (\<lambda>c. if 97 \<le> c \<and> c \<le> 122 \<or> 48 \<le> c \<and> c \<le> 57 \<or> c = 95 \<or> c = 45 then c else 95)
       (concat (map strip_marks_cp (lower name)))"

fun scope_priority :: "command_scope \<Rightarrow> nat" where
  "scope_priority PUBLIC = 0"
| "scope_priority INTERNAL = 1"
| "scope_priority DEV = 2"
| "scope_priority ADMIN = 3"
| "scope_priority NSFW = 4"
| "scope_priority DISABLED = 5"

text \<open>A Python dict is built key by key: a repeated key keeps its place and takes the last value.\<close>

definition dict_of :: "(pystr \<times> json) list \<Rightarrow> (pystr \<times> json) list" where
  "dict_of kvs = fold (\<lambda>(k, v) d. AList.update k v d) kvs []"

definition tool_properties :: "command_config \<Rightarrow> (pystr \<times> json) list" where
  "tool_properties cfg =
     dict_of (map (\<lambda>f. (f, JObj [(U ''type'', JStr (U ''boolean''))])) (cc_flags cfg)
       @ map (\<lambda>opt. (od_name opt, JObj ((U ''type'', JStr (U ''string'')) #
            (if od_values opt \<noteq> [] then [(U ''enum'', JArr (map JStr (od_values opt)))] else []))))
          (cc_options cfg)
       @ (if cc_args cfg \<noteq> ARG_NONE then [(U ''args'', JObj [(U ''type'', JStr (U ''string''))])] else []))"

definition command_to_tool_schema :: "'w command \<Rightarrow> json" where
  "command_to_tool_schema c =
     JObj [(U ''type'', JStr (U ''function'')),
           (U ''function'', JObj
             [(U ''name'', JStr (to_ascii_name (cc_name (cmd_config c)))),
              (U ''description'', JStr (if cmd_menu c \<noteq> [] then cmd_menu c else cc_name (cmd_config c))),
              (U ''parameters'', JObj
                [(U ''type'', JStr (U ''object'')),
                 (U ''properties'', JObj (tool_properties (cmd_config c)))])])]"

definition offered :: "command_scope \<Rightarrow> command_scope list \<Rightarrow> 'w command \<Rightarrow> bool" where
  "offered include excluded c \<longleftrightarrow>
     (let scope = cc_scope (cmd_config c) in
      scope \<notin> set excluded \<and> scope \<noteq> DISABLED \<and>
      (include = PUBLIC \<or> scope_priority include \<le> scope_priority scope))"

definition build_tools_for_prompt :: "'w registry \<Rightarrow> command_scope \<Rightarrow> command_scope list \<Rightarrow> json list" where
  "build_tools_for_prompt r include excluded =
     map command_to_tool_schema (filter (offered include excluded) (get_all r))"

definition get_command_list_with_descriptions :: "'w registry \<Rightarrow> pystr" where
  "get_command_list_with_descriptions r =
     join [10] (map (\<lambda>c.
       (let name = cc_name (cmd_config c); aliases = cc_aliases (cmd_config c);
            names = (if aliases \<noteq> [] then name @ U '' ('' @ join (U '', '') aliases @ U '')'' else name)
        in U ''- '' @ names @ (if cmd_menu c \<noteq> [] then U '': '' @ cmd_menu c else [])))
       (get_all r))"

subsection \<open>The example bank\<close>

definition bank_included :: "'w command \<Rightarrow> bool" where
  "bank_included c \<longleftrightarrow> cc_scope (cmd_config c) \<noteq> NSFW \<and> cc_scope (cmd_config c) \<noteq> DISABLED"

definition baseline_for :: "'w command \<Rightarrow> retrieved_example list" where
  "baseline_for c =
     map (\<lambda>t. \<lparr>re_text = t, re_command = 44 # cc_name (cmd_config c), re_score = 0\<rparr>)
       (command_names c @ (if cmd_menu c \<noteq> [] then [cmd_menu c] else []))"

definition example_key :: "retrieved_example \<Rightarrow> pystr" where
  "example_key e = lower (strip (re_text e))"

fun dedup_add :: "retrieved_example list \<times> pystr set \<Rightarrow> retrieved_example list \<Rightarrow> retrieved_example list \<times> pystr set"
where
  "dedup_add st [] = st"
| "dedup_add (bank, seen) (e # es) =
     (if example_key e \<in> seen then dedup_add (bank, seen) es
      else dedup_add (bank @ [e], insert (example_key e) seen) es)"

definition build_example_bank :: "'w registry \<Rightarrow> (pystr \<times> pystr) list \<Rightarrow> retrieved_example list" where
  "build_example_bank r hand =
     fst (dedup_add ([], {})
       (map (\<lambda>(t, c). \<lparr>re_text = t, re_command = c, re_score = 0\<rparr>) hand
        @ concat (map baseline_for (filter bank_included (get_all r)))))"

lemma dedup_add_finds:
  "seen = example_key ` set bank \<Longrightarrow> distinct (map example_key bank) \<Longrightarrow>
   distinct (map example_key (fst (dedup_add (bank, seen) es))) \<and>
   find (\<lambda>e. example_key e = k) (fst (dedup_add (bank, seen) es)) = find (\<lambda>e. example_key e = k) (bank @ es)"
proof (induction es arbitrary: bank seen)
  case (Cons e es)
  show ?case
  proof (cases "example_key e \<in> seen")
    case True
    then obtain b where "b \<in> set bank" "example_key b = example_key e" using Cons.prems(1) by force
    then have "example_key e = k \<Longrightarrow> find (\<lambda>e. example_key e = k) bank \<noteq> None"
      by (auto simp: find_None_iff)
    with Cons.IH [OF Cons.prems] True show ?thesis
      by (auto simp: find_append split: option.split)
  next
    case False
    with Cons.IH [of "insert (example_key e) seen" "bank @ [e]"] Cons.prems show ?thesis
      by auto
  qed
qed simp

text \<open>
  The first phrasing wins.  The example bank has one example per phrasing (up to case and
  outer white space), and for every phrasing it is the first among the hand-written examples
  followed by the names, aliases and menu texts of the commands that are neither adult nor
  disabled: a hand-written example is never displaced by a generated one.
\<close>

theorem example_bank_first_wins:
  "distinct (map example_key (build_example_bank r hand)) \<and>
   (\<forall>k. find (\<lambda>e. example_key e = k) (build_example_bank r hand) =
        find (\<lambda>e. example_key e = k)
          (map (\<lambda>(t, c). \<lparr>re_text = t, re_command = c, re_score = 0\<rparr>) hand
           @ concat (map baseline_for (filter bank_included (get_all r)))))"
  unfolding build_example_bank_def using dedup_add_finds [of "{}" "[]"] by simp

subsection \<open>The names of the commands\<close>

definition names_index :: "'w command list \<Rightarrow> (pystr \<times> nat) list" where
  "names_index cs = concat (map (\<lambda>(i, c). map (\<lambda>n. (lower n, i)) (command_names c)) (enumerate 0 cs))"

lemma register_all_by_name:
  "rg_by_name (register_all cs) n = map_of (rev (names_index cs)) n"
proof (induction cs rule: rev_induct)
  case Nil
  then show ?case by (simp add: register_all_def empty_registry_def names_index_def)
next
  case (snoc c cs)
  have "map_of (rev (map (\<lambda>m. (lower m, i)) ms)) n = (if n \<in> lower ` set ms then Some i else None)"
    for ms :: "pystr list" and i :: nat
    by (induction ms) (auto simp: map_add_def)
  moreover have "register_all (cs @ [c]) = register (register_all cs) c"
    by (simp add: register_all_def)
  ultimately show ?case
    using snoc by (simp add: register_by_name names_index_def enumerate_append_eq register_all_commands map_add_def)
qed

lemma names_index_mem:
  "i < length cs \<Longrightarrow> n \<in> set (command_names (cs ! i)) \<Longrightarrow> (lower n, i) \<in> set (names_index cs)"
  by (force simp: names_index_def in_set_enumerate_eq)

lemma get_by_name_own:
  assumes "distinct (map fst (names_index cs))" and "i < length cs" and "n \<in> set (command_names (cs ! i))"
  shows "rg_by_name (register_all cs) (lower n) = Some i"
proof -
  have "map_of (rev (names_index cs)) = map_of (names_index cs)"
    using assms(1) by (intro map_of_inject_set [THEN iffD2]) (simp_all add: rev_map [symmetric])
  with names_index_mem [OF assms(2,3)] assms(1) show ?thesis
    by (simp add: register_all_by_name)
qed

text \<open>The names of every command, in the order of registration.\<close>

definition bot_declared :: "pystr list list" where
  "bot_declared =
     [[U ''adm''],
      [U ''alcor{227}o'', U ''quran''],
      [U ''animal''],
      [U ''{225}udio''],
      [U ''carta'', U ''card''],
      [U ''bicho''],
      [U ''niver'', U ''aniversario'', U ''anivers{225}rio'', U ''birthday''],
      [U ''borges''],
      [U ''carro'', U ''car''],
      [U ''cr'', U ''clashroyale''],
      [U ''moeda'', U ''currency''],
      [U ''d20''],
      [U ''config''],
      [U ''dev''],
      [U ''extrair'', U ''extract''],
      [U ''fato'', U ''fact''],
      [U ''fipe''],
      [U ''jogador''],
      [U ''tabela'', U ''table''],
      [U ''time''],
      [U ''grupo'', U ''group''],
      [U ''hor{243}scopo'', U ''horoscope''],
      [U ''jackpot'', U ''slot'', U ''ca{231}an{237}queis'', U ''tigrinho''],
      [U ''fuck''],
      [U ''lol''],
      [U ''lua'', U ''moon''],
      [U ''mtg'', U ''magic''],
      [U ''mateus''],
      [U ''comida'', U ''food''],
      [U ''menu''],
      [U ''anime'', U ''manga''],
      [U ''oi'', U ''hi''],
      [U ''pok{233}mon''],
      [U ''pok{233}montcg'', U ''ptcg''],
      [U ''placar'', U ''score''],
      [U ''porno''],
      [U ''puppy''],
      [U ''rule 34'', U ''rule34'', U ''rule_34'', U ''r34''],
      [U ''stic'', U ''fig'', U ''figurinha'', U ''sticker''],
      [U ''tor{225}'', U ''torah''],
      [U ''ygo''],
      [U ''add''],
      [U ''ban''],
      [U ''b{237}blia'', U ''bible''],
      [U ''bandeira'', U ''flag''],
      [U ''dl'', U ''baixar''],
      [U ''drive''],
      [U ''filme'', U ''s{233}rie'', U ''movie'', U ''series''],
      [U ''game''],
      [U ''hs'', U ''hearthstone''],
      [U ''hentai''],
      [U ''m{250}sica'', U ''music''],
      [U ''cerveja'', U ''beer'']]"

lemmas command_defs =
  adm_command_def quran_command_def animal_command_def audio_command_def
  playing_card_command_def lottery_command_def birthday_command_def borges_command_def
  car_command_def clash_royale_command_def currency_command_def d20_command_def
  config_command_def dev_command_def extract_command_def fact_command_def fipe_command_def
  football_player_command_def football_standings_command_def football_team_command_def
  group_mentions_command_def horoscope_command_def jackpot_command_def fuck_command_def
  league_of_legends_command_def moon_command_def magic_the_gathering_command_def
  mateus_command_def meal_recipes_command_def menu_command_def my_anime_list_command_def
  oi_command_def pokemon_command_def pokemon_tcg_command_def score_command_def
  porno_command_def puppy_command_def rule34_command_def sticker_command_def
  torah_command_def yugioh_command_def add_command_def ban_command_def bible_command_def
  country_flag_command_def download_command_def drive_command_def movie_series_command_def
  game_command_def hearthstone_command_def hentai_command_def music_command_def
  beer_command_def

lemma declared: "map command_names (all_commands ex) = bot_declared"
  unfolding all_commands_def simple_commands_def configured_commands_def
  by (simp add: command_names_def command_defs CommandConfig_def bot_declared_def)

definition declared_index :: "pystr list list \<Rightarrow> (pystr \<times> nat) list" where
  "declared_index nss = concat (map (\<lambda>(i, ns). map (\<lambda>n. (lower n, i)) ns) (enumerate 0 nss))"

lemma names_index_eq: "names_index (all_commands ex) = declared_index bot_declared"
proof -
  have "map (\<lambda>(i, c). map (\<lambda>n. (lower n, i)) (command_names c)) (enumerate n cs) =
      map (\<lambda>(i, ns). map (\<lambda>n. (lower n, i)) ns) (enumerate n (map command_names cs))"
    for n and cs :: "'a command list"
    by (induction cs arbitrary: n) auto
  then show ?thesis by (simp add: names_index_def declared_index_def flip: declared [of ex])
qed

lemma names_distinct: "distinct (map fst (names_index (all_commands ex)))"
  unfolding names_index_eq by code_simp

lemma bare_names_match:
  "list_all (\<lambda>c. cc_args (cmd_config c) = ARG_REQUIRED \<or>
     list_all (\<lambda>n. matches (cmd_config c) (44 # n)) (command_names c)) (simple_commands ex)"
  "list_all (\<lambda>c. cc_args (cmd_config c) = ARG_REQUIRED \<or>
     list_all (\<lambda>n. matches (cmd_config c) (44 # n)) (command_names c)) (configured_commands ex)"
  by code_simp+

text \<open>The names of every command, longest first, for the selection by name.\<close>

definition bot_names :: "pystr list list" where
  "bot_names =
     [[U ''adm''],
      [U ''alcor{227}o'', U ''quran''],
      [U ''animal''],
      [U ''{225}udio''],
      [U ''carta'', U ''card''],
      [U ''bicho''],
      [U ''aniversario'', U ''anivers{225}rio'', U ''birthday'', U ''niver''],
      [U ''borges''],
      [U ''carro'', U ''car''],
      [U ''clashroyale'', U ''cr''],
      [U ''currency'', U ''moeda''],
      [U ''d20''],
      [U ''config''],
      [U ''dev''],
      [U ''extrair'', U ''extract''],
      [U ''fato'', U ''fact''],
      [U ''fipe''],
      [U ''jogador''],
      [U ''tabela'', U ''table''],
      [U ''time''],
      [U ''grupo'', U ''group''],
      [U ''hor{243}scopo'', U ''horoscope''],
      [U ''ca{231}an{237}queis'', U ''tigrinho'', U ''jackpot'', U ''slot''],
      [U ''fuck''],
      [U ''lol''],
      [U ''moon'', U ''lua''],
      [U ''magic'', U ''mtg''],
      [U ''mateus''],
      [U ''comida'', U ''food''],
      [U ''menu''],
      [U ''anime'', U ''manga''],
      [U ''oi'', U ''hi''],
      [U ''pok{233}mon''],
      [U ''pok{233}montcg'', U ''ptcg''],
      [U ''placar'', U ''score''],
      [U ''porno''],
      [U ''puppy''],
      [U ''rule 34'', U ''rule_34'', U ''rule34'', U ''r34''],
      [U ''figurinha'', U ''sticker'', U ''stic'', U ''fig''],
      [U ''torah'', U ''tor{225}''],
      [U ''ygo''],
      [U ''add''],
      [U ''ban''],
      [U ''b{237}blia'', U ''bible''],
      [U ''bandeira'', U ''flag''],
      [U ''baixar'', U ''dl''],
      [U ''drive''],
      [U ''series'', U ''filme'', U ''s{233}rie'', U ''movie''],
      [U ''game''],
      [U ''hearthstone'', U ''hs''],
      [U ''hentai''],
      [U ''m{250}sica'', U ''music''],
      [U ''cerveja'', U ''beer'']]"

lemma bot_names: "name_table (all_commands ex) = bot_names"
proof -
  have "name_table cs = map (sort_key (\<lambda>n. - int (length n))) (map command_names cs)" for cs :: "'a command list"
    by (simp add: name_table_def sorted_names_def command_names_def)
  moreover have "map (sort_key (\<lambda>n. - int (length n))) bot_declared = bot_names"
    by code_simp
  ultimately show ?thesis by (simp only: declared)
qed

text \<open>The one name with a space in it is found by the scan.\<close>

definition spaced_name :: pystr where "spaced_name = U ''rule 34''"

lemma spaced_name_spelled: "spelled_from 0 bot_names spaced_name = [37]"
  by code_simp

lemma leading_token_word:
  assumes "n \<noteq> []" and "list_all (\<lambda>c. is_word_cp c \<or> c = 45) n" and "plain_start n"
  shows "leading_token (44 # n) = Some n"
proof -
  obtain c t where n: "n = c # t" "\<not> is_space c"
    using assms(1,3) by (cases n) (auto simp: plain_start_def)
  then have "rx_m False leading_comma (None, 44 # n) = [(Some 44, n)]"
    by (simp add: leading_comma_m is_space_def space_cps_def Let_def step_if_def)
  then have p: "prefixmatch False leading_comma (44 # n) = Some n"
    by (simp add: prefixmatch_def)
  have t: "takeWhile (\<lambda>c. is_word_cp c \<or> c = 45) n = n"
    using assms(2) by (simp add: takeWhile_eq_all_conv list_all_iff)
  show ?thesis using assms(1) by (simp add: leading_token_def p t)
qed

lemma bare_names_lead:
  "list_all (list_all (\<lambda>n. n = spaced_name \<or> plain_start n \<and> list_all (\<lambda>c. is_word_cp c \<or> c = 45) n))
     (map command_names (all_commands ex))"
  "leading_token (44 # spaced_name) = Some (U ''rule'')"
  "lower (U ''rule'') \<notin> fst ` set (names_index (all_commands ex))"
  unfolding names_index_eq declared by code_simp+

definition reaches_own :: "'w registry \<Rightarrow> 'w command \<Rightarrow> pystr \<Rightarrow> bool" where
  "reaches_own r c n \<longleftrightarrow> get_by_name r n = Some c \<and>
     (cc_args (cmd_config c) = ARG_REQUIRED \<or> get_strategy r (44 # n) = Some c)"

lemma bot_commands: "rg_commands (bot_registry ex) = all_commands ex"
  by (simp add: bot_registry_def register_all_commands)

lemma unindexed:
  "leading_token t = Some n \<Longrightarrow> lower n \<notin> fst ` set (names_index (all_commands ex)) \<Longrightarrow>
   lookup_by_leading_token (bot_registry ex) t = None"
  by (simp add: lookup_by_leading_token_def bot_registry_def register_all_by_name map_of_eq_None_iff)

lemma own_names:
  assumes i: "i < length (all_commands ex)" and n: "n \<in> set (command_names (all_commands ex ! i))"
  shows "reaches_own (bot_registry ex) (all_commands ex ! i) n"
proof -
  let ?r = "bot_registry ex" and ?cs = "all_commands ex"
  have c: "?cs ! i \<in> set ?cs" using i by simp
  have idx: "rg_by_name ?r (lower n) = Some i"
    unfolding bot_registry_def by (rule get_by_name_own [OF names_distinct i n])
  have "get_strategy ?r (44 # n) = Some (?cs ! i)" if args: "cc_args (cmd_config (?cs ! i)) \<noteq> ARG_REQUIRED"
  proof -
    have m: "matches (cmd_config (?cs ! i)) (44 # n)"
      using bare_names_match [of ex] c args n
      by (fastforce simp: all_commands_def list_all_iff)
    have "strategy_index ?r (44 # n) = Some i"
    proof (cases "n = spaced_name")
      case False
      with bare_names_lead(1) [of ex] c n have "plain_start n \<and> list_all (\<lambda>c. is_word_cp c \<or> c = 45) n"
        by (auto simp: list_all_iff)
      then have "leading_token (44 # n) = Some n"
        by (auto intro!: leading_token_word simp: plain_start_def)
      with idx m show ?thesis
        by (intro strategy_by_token) (simp_all add: lookup_by_leading_token_def bot_commands)
    next
      case True
      have plain: "plain_start spaced_name"
        by code_simp
      from m True have "matches (cmd_config (?cs ! i)) (44 # spaced_name)" by simp
      with i matches_spells [OF this plain] have "i \<in> set (spelled_from 0 bot_names spaced_name)"
        by (simp add: spelled_iff [of i ?cs, unfolded bot_names])
      then have i37: "i = 37" unfolding spaced_name_spelled by simp
      have "strategy_index ?r (44 # spaced_name) = Some i"
        by (rule strategy_by_scan [OF unindexed [OF bare_names_lead(2,3)] plain])
           (use m True i37 in \<open>auto simp: bot_commands bot_names spaced_name_spelled\<close>)
      then show ?thesis using True by simp
    qed
    then show ?thesis by (simp add: get_strategy_def bot_commands)
  qed
  with idx show ?thesis
    by (auto simp: reaches_own_def get_by_name_def bot_commands)
qed

text \<open>
  C24: no two commands share a name.  Each of the 53 commands is found under its own name and
  each of its aliases, and a message that is just the comma and that name selects it, unless the
  command needs arguments; this also holds for the name with a space, which the index cannot
  find.
\<close>

theorem names_reach_their_commands:
  "length (all_commands ex) = 53 \<and>
   list_all (\<lambda>c. list_all (reaches_own (bot_registry ex) c) (command_names c)) (all_commands ex)"
proof
  show "length (all_commands ex) = 53"
    by (simp add: all_commands_def simple_commands_def configured_commands_def)
  show "list_all (\<lambda>c. list_all (reaches_own (bot_registry ex) c) (command_names c)) (all_commands ex)"
    unfolding list_all_length [of _ "all_commands ex"] using own_names by (auto simp: list_all_iff)
qed

subsection \<open>The names of the tools\<close>

text \<open>
  The eight commands whose tool has a name that is none of theirs: the position, the name of the
  tool, and the commands that name spells.
\<close>

definition accented_tools :: "(nat \<times> pystr \<times> nat list) list" where
  "accented_tools =
     [(1, U ''alcorao'', [1]), (3, U ''audio'', [3]), (21, U ''horoscopo'', [21]),
      (32, U ''pokemon'', [32]), (33, U ''pokemontcg'', [32, 33]), (39, U ''tora'', [39]),
      (43, U ''biblia'', [43]), (51, U ''musica'', [51])]"

lemma accented_tools_lead:
  "list_all (\<lambda>(i, t, js). leading_token (44 # t) = Some t \<and> plain_start t) accented_tools"
proof -
  have "list_all (\<lambda>(i, t, js). plain_start t \<and> list_all (\<lambda>c. is_word_cp c \<or> c = 45) t) accented_tools"
    by code_simp
  then show ?thesis
    by (auto simp: list_all_iff plain_start_def intro!: leading_token_word split: list.splits)
qed

lemma accented_tools_spelled: "list_all (\<lambda>(i, t, js). spelled_from 0 bot_names t = js) accented_tools"
  by code_simp

lemma accented_tools_unindexed:
  "list_all (\<lambda>(i, t, js). lower t \<notin> fst ` set (names_index (all_commands ex))) accented_tools"
  unfolding names_index_eq by code_simp

lemma accented_tools_all:
  "list_all (\<lambda>(i, ns). to_ascii_name (hd ns) \<in> set ns \<or> i \<in> {1, 3, 21, 32, 33, 39, 43, 51})
     (enumerate 0 (map command_names (all_commands ex)))"
  unfolding declared by code_simp

lemma accented_tools_at: "fst ` set accented_tools = {1, 3, 21, 32, 33, 39, 43, 51}"
  by (simp add: accented_tools_def)

lemmas accented_tools = accented_tools_lead accented_tools_spelled accented_tools_unindexed
  accented_tools_all [folded accented_tools_at]

lemma accented_commands:
  "all_commands ex ! 1 = quran_command (ex (U ''alcor{227}o''))"
  "all_commands ex ! 3 = audio_command (ex (U ''{225}udio''))"
  "all_commands ex ! 21 = horoscope_command (ex (U ''hor{243}scopo''))"
  "all_commands ex ! 32 = pokemon_command (ex (U ''pok{233}mon''))"
  "all_commands ex ! 33 = pokemon_tcg_command (ex (U ''pok{233}montcg''))"
  "all_commands ex ! 39 = torah_command (ex (U ''tor{225}''))"
  "all_commands ex ! 43 = bible_command (ex (U ''b{237}blia''))"
  "all_commands ex ! 51 = music_command (ex (U ''m{250}sica''))"
  by (simp_all add: all_commands_def simple_commands_def configured_commands_def)

lemma accented_ascii:
  "to_ascii_name (cc_name (cmd_config (quran_command e))) = U ''alcorao''"
  "to_ascii_name (cc_name (cmd_config (audio_command e))) = U ''audio''"
  "to_ascii_name (cc_name (cmd_config (horoscope_command e))) = U ''horoscopo''"
  "to_ascii_name (cc_name (cmd_config (pokemon_command e))) = U ''pokemon''"
  "to_ascii_name (cc_name (cmd_config (pokemon_tcg_command e))) = U ''pokemontcg''"
  "to_ascii_name (cc_name (cmd_config (torah_command e))) = U ''tora''"
  "to_ascii_name (cc_name (cmd_config (bible_command e))) = U ''biblia''"
  "to_ascii_name (cc_name (cmd_config (music_command e))) = U ''musica''"
  by code_simp+

lemma accented_matches:
  "matches (cmd_config (quran_command e)) (44 # U ''alcorao'')"
  "matches (cmd_config (audio_command e)) (44 # U ''audio'')"
  "matches (cmd_config (horoscope_command e)) (44 # U ''horoscopo'')"
  "matches (cmd_config (pokemon_command e)) (44 # U ''pokemon'')"
  "matches (cmd_config (pokemon_tcg_command e)) (44 # U ''pokemontcg'')"
  "matches (cmd_config (torah_command e)) (44 # U ''tora'')"
  "matches (cmd_config (bible_command e)) (44 # U ''biblia'')"
  "matches (cmd_config (music_command e)) (44 # U ''musica'')"
  "\<not> matches (cmd_config (pokemon_command e)) (44 # U ''pokemontcg'')"
  by code_simp+

lemma accented_names:
  "list_all (\<lambda>(i, t, js). i < 53 \<and> to_ascii_name (cc_name (cmd_config (all_commands ex ! i))) = t \<and> i \<in> set js \<and>
     list_all (\<lambda>j. matches (cmd_config (all_commands ex ! j)) (44 # t) = (j = i)) js) accented_tools"
  by (simp add: accented_tools_def accented_commands accented_ascii accented_matches del: One_nat_def)

lemma all_commands_length: "length (all_commands ex) = 53"
  by (simp add: all_commands_def simple_commands_def configured_commands_def)

text \<open>
  C25: the name of a tool leads back to its command.  For each of the 53 commands, a message that
  is the comma and the ASCII name under which the command is offered to the model selects that
  command, unless it needs arguments.
\<close>

theorem tool_names_roundtrip:
  "list_all (\<lambda>c. cc_args (cmd_config c) = ARG_REQUIRED \<or>
      get_strategy (bot_registry ex) (44 # to_ascii_name (cc_name (cmd_config c))) = Some c) (all_commands ex)"
proof -
  let ?r = "bot_registry ex" and ?cs = "all_commands ex"
  have "get_strategy ?r (44 # to_ascii_name (cc_name (cmd_config (?cs ! i)))) = Some (?cs ! i)"
    if i: "i < length ?cs" and args: "cc_args (cmd_config (?cs ! i)) \<noteq> ARG_REQUIRED" for i
  proof (cases "to_ascii_name (cc_name (cmd_config (?cs ! i))) \<in> set (command_names (?cs ! i))")
    case True
    with own_names [OF i] args show ?thesis by (auto simp: reaches_own_def)
  next
    case False
    have "(i, command_names (?cs ! i)) \<in> set (enumerate 0 (map command_names ?cs))"
      using i by (simp add: in_set_enumerate_eq)
    from bspec [OF accented_tools(4) [of ex, unfolded list_all_iff] this] False
    have "i \<in> fst ` set accented_tools" by (simp add: command_names_def)
    then obtain t js where a: "(i, t, js) \<in> set accented_tools" by auto
    note facts = bspec [OF accented_tools(1) [unfolded list_all_iff] a]
      bspec [OF accented_tools(2) [unfolded list_all_iff] a]
      bspec [OF accented_tools(3) [of ex, unfolded list_all_iff] a]
      bspec [OF accented_names [of ex, unfolded list_all_iff] a]
    have t: "leading_token (44 # t) = Some t" "plain_start t" "spelled_from 0 bot_names t = js"
        "lower t \<notin> fst ` set (names_index ?cs)" "to_ascii_name (cc_name (cmd_config (?cs ! i))) = t" "i \<in> set js"
      and m: "\<And>j. j \<in> set js \<Longrightarrow> matches (cmd_config (?cs ! j)) (44 # t) = (j = i)"
      using facts by (simp_all add: list_all_iff)
    have "strategy_index ?r (44 # t) = Some i"
      by (rule strategy_by_scan [OF unindexed [OF t(1,4)] t(2)]) (simp_all add: bot_commands bot_names t(3,6) m)
    with t(5) show ?thesis by (simp add: get_strategy_def bot_commands)
  qed
  then show ?thesis by (auto simp: list_all_length)
qed

end
