(* ===== verification/Group_Admin.thy ===== *)
theory Group_Admin
  imports Catalogue
begin

text \<open>
  The commands that change who is in a group (bot/domain/commands/ban.py, add.py), over the calls
  of the WhatsApp port (bot/adapters/whatsapp/port.py) and the random choices they make; the
  greeting (oi.py); and what reaches \<open>ban\<close> without having asked for it.
\<close>

subsection \<open>The port\<close>

text \<open>
  \<open>group_metadata\<close> gives the participants and the owner; \<open>on_whatsapp\<close> tells of one number
  whether it exists, and its JID; \<open>gp_choice n\<close> is the index that \<open>random.choice\<close> or
  \<open>random.randint\<close> draws among \<open>n\<close>.
\<close>

record 'w group_port =
  gp_metadata :: "pystr \<Rightarrow> (exn, 'w, group_member list \<times> pystr option) act"
  gp_update :: "pystr \<Rightarrow> pystr \<Rightarrow> pystr \<Rightarrow> (exn, 'w, unit) act"
  gp_on_whatsapp :: "pystr \<Rightarrow> (exn, 'w, (bool \<times> pystr) option) act"
  gp_choice :: "nat \<Rightarrow> (exn, 'w, nat) act"

text \<open>Whether a call succeeds: \<open>try: ... except Exception\<close>.\<close>

definition succeeds :: "(exn, 'w, unit) act \<Rightarrow> (exn, 'w, bool) act" where
  "succeeds m = handleA (bindA m (\<lambda>_. ret True)) (\<lambda>e. if is_exception e then ret False else raise e)"

definition ADMIN_ONLY_COMMAND :: pystr where
  "ADMIN_ONLY_COMMAND = U ''S{243} admin pode usar esse comando. {128581}''"

definition member_is_admin :: "pystr \<Rightarrow> group_member list \<Rightarrow> bool" where
  "member_is_admin jid ps = (case find (\<lambda>p. gm_id p = jid) ps of None \<Rightarrow> False | Some p \<Rightarrow> truthy_str (gm_admin p))"

text \<open>Both commands ask that the bot and the sender are administrators.\<close>

definition admin_refusal :: "pystr \<Rightarrow> pystr \<Rightarrow> command_data \<Rightarrow> group_member list \<Rightarrow> bot_message option" where
  "admin_refusal not_admin_msg me d ps =
     (if \<not> member_is_admin me ps then Some (reply_text d not_admin_msg)
      else if \<not> is_sender_admin d ps then Some (reply_text d ADMIN_ONLY_COMMAND)
      else None)"

subsection \<open>Ban\<close>

definition BAN_BOT_NOT_ADMIN :: pystr where
  "BAN_BOT_NOT_ADMIN = U ''Vai se foder! Eu n{227}o sou admin! {128405}''"

definition NOBODY_LEFT_MSG :: pystr where
  "NOBODY_LEFT_MSG = U ''N{227}o sobrou ningu{233}m pra eu banir! {129335}''"

definition farewell :: "command_data \<Rightarrow> pystr \<Rightarrow> bot_message" where
  "farewell d jid = reply_text_with d (U ''J{225} era! @'' @ strip_jid jid @ U '' {128075}{128517}'') [jid]"

definition ban_candidates :: "pystr \<Rightarrow> pystr option \<Rightarrow> group_member list \<Rightarrow> pystr list" where
  "ban_candidates me owner ps = filter (\<lambda>j. j \<noteq> me \<and> Some j \<noteq> owner) (map gm_id ps)"

definition ban_random ::
  "'w group_port \<Rightarrow> pystr \<Rightarrow> command_data \<Rightarrow> group_member list \<Rightarrow> pystr option \<Rightarrow> (exn, 'w, bot_message list) act" where
  "ban_random port me d ps owner =
     (let candidates = ban_candidates me owner ps in
      if candidates = [] then ret [reply_text d NOBODY_LEFT_MSG]
      else bindA (gp_choice port (length candidates))
        (\<lambda>i. let target = candidates ! i in
           bindA (succeeds (gp_update port (cd_jid d) target (U ''remove'')))
             (\<lambda>ok. ret (if ok then [farewell d target] else []))))"

fun ban_mentioned ::
  "'w group_port \<Rightarrow> pystr \<Rightarrow> command_data \<Rightarrow> group_member list \<Rightarrow> pystr list \<Rightarrow> pystr option \<Rightarrow>
     (exn, 'w, bot_message list) act" where
  "ban_mentioned port me d ps [] owner = ret []"
| "ban_mentioned port me d ps (jid # mentioned) owner =
     (let owner_is_admin = list_ex (\<lambda>p. Some (gm_id p) = owner \<and> truthy_str (gm_admin p)) ps in
      if jid = me \<or> Some jid = owner \<and> owner_is_admin then ban_mentioned port me d ps mentioned owner
      else bindA (succeeds (gp_update port (cd_jid d) jid (U ''remove'')))
        (\<lambda>ok. bindA (ban_mentioned port me d ps mentioned owner)
           (\<lambda>ms. ret (if ok then farewell d jid # ms else ms))))"

definition ban_execute :: "'w group_port \<Rightarrow> pystr \<Rightarrow> 'w exec" where
  "ban_execute port me = (\<lambda>d parsed.
     bindA (gp_metadata port (cd_jid d))
       (\<lambda>(ps, owner). case admin_refusal BAN_BOT_NOT_ADMIN me d ps of
          Some m \<Rightarrow> ret [m]
        | None \<Rightarrow> if cd_mentioned_jids d = [] then ban_random port me d ps owner
                  else ban_mentioned port me d ps (cd_mentioned_jids d) owner))"

subsection \<open>Add\<close>

definition DDD_LIST :: "pystr list" where
  "DDD_LIST =
     [U ''11'', U ''12'', U ''13'', U ''14'', U ''15'', U ''16'', U ''17'', U ''18'', U ''19'', U ''21'',
      U ''22'', U ''24'', U ''27'', U ''28'', U ''31'', U ''32'', U ''33'', U ''34'', U ''35'', U ''37'',
      U ''38'', U ''41'', U ''42'', U ''43'', U ''44'', U ''45'', U ''46'', U ''47'', U ''48'', U ''49'',
      U ''51'', U ''53'', U ''54'', U ''55'', U ''61'', U ''62'', U ''63'', U ''64'', U ''65'', U ''66'',
      U ''67'', U ''68'', U ''69'', U ''71'', U ''73'', U ''74'', U ''75'', U ''77'', U ''79'', U ''81'',
      U ''82'', U ''83'', U ''84'', U ''85'', U ''86'', U ''87'', U ''88'', U ''89'', U ''91'', U ''92'',
      U ''93'', U ''94'', U ''95'', U ''96'', U ''97'', U ''98'', U ''99'']"

definition EIGHT_DIGIT_PREFIXES :: "pystr list" where
  "EIGHT_DIGIT_PREFIXES = [U ''31'', U ''32'', U ''34'', U ''35'', U ''61'', U ''83'']"

definition COUNTRY_CODE :: pystr where "COUNTRY_CODE = U ''55''"
definition MAX_PHONE_LENGTH :: nat where "MAX_PHONE_LENGTH = 11"

definition ADD_BOT_NOT_ADMIN :: pystr where
  "ADD_BOT_NOT_ADMIN = U ''Vai se fuder! Eu n{227}o sou admin! {128405}''"

definition INVALID_DDD_MSG :: pystr where
  "INVALID_DDD_MSG = U ''Burro burro! O DDD do estado {127987}{65039}{8205}{127752} n{227}o existe!''"

definition PHONE_TOO_LONG_MSG :: pystr where
  "PHONE_TOO_LONG_MSG = U ''Aiiiiii, o tamanho do telefone {233} desse {9995}   {129306} tamanho, s{243} aguento 11cm''"

definition add_failed :: "command_data \<Rightarrow> pystr \<Rightarrow> bot_message" where
  "add_failed d phone = reply_text d (U ''Ops, n{227}o consegui adicionar o n{250}mero '' @ phone @ U '' {128517}'')"

text \<open>\<open>while len(phone) < size: phone += str(random.randint(0, 9))\<close>, for the digits that are missing.\<close>

fun random_digits :: "'w group_port \<Rightarrow> nat \<Rightarrow> pystr \<Rightarrow> (exn, 'w, pystr) act" where
  "random_digits port 0 phone = ret phone"
| "random_digits port (Suc missing) phone =
     bindA (gp_choice port 10) (\<lambda>digit. random_digits port missing (phone @ show_nat digit))"

definition random_phone :: "'w group_port \<Rightarrow> (exn, 'w, pystr) act" where
  "random_phone port =
     bindA (gp_choice port (length DDD_LIST))
       (\<lambda>i. let ddd = DDD_LIST ! i; phone = ddd @ (if ddd \<in> set EIGHT_DIGIT_PREFIXES then U ''8'' else U ''9'') in
          bindA (gp_choice port 2)
            (\<lambda>k. let size = [MAX_PHONE_LENGTH - 1, MAX_PHONE_LENGTH] ! k in
               random_digits port (size - length phone) phone))"

text \<open>The loop draws until a number exists; \<open>None\<close> when none of the first \<open>n\<close> does.\<close>

fun add_random_phone :: "nat \<Rightarrow> 'w group_port \<Rightarrow> command_data \<Rightarrow> (exn, 'w, bot_message list option) act" where
  "add_random_phone 0 port d = ret None"
| "add_random_phone (Suc n) port d =
     bindA (random_phone port)
       (\<lambda>phone. bindA (gp_on_whatsapp port (COUNTRY_CODE @ phone))
          (\<lambda>consult. case consult of
             Some (True, jid) \<Rightarrow>
               bindA (succeeds (gp_update port (cd_jid d) jid (U ''add'')))
                 (\<lambda>ok. ret (Some (if ok then [] else [add_failed d phone])))
           | _ \<Rightarrow> add_random_phone n port d))"

definition add_phone :: "'w group_port \<Rightarrow> command_data \<Rightarrow> pystr \<Rightarrow> (exn, 'w, bot_message list) act" where
  "add_phone port d phone =
     bindA (gp_on_whatsapp port (COUNTRY_CODE @ phone))
       (\<lambda>consult. let jid = (case consult of Some (True, jid) \<Rightarrow> jid | _ \<Rightarrow> COUNTRY_CODE @ phone @ U ''@lid'') in
          bindA (succeeds (gp_update port (cd_jid d) jid (U ''add'')))
            (\<lambda>ok. ret (if ok then [] else [add_failed d phone])))"

text \<open>The command, with at most \<open>n\<close> draws for a random number.\<close>

definition add_execute ::
  "nat \<Rightarrow> 'w group_port \<Rightarrow> pystr \<Rightarrow> command_data \<Rightarrow> parsed_command \<Rightarrow> (exn, 'w, bot_message list option) act" where
  "add_execute n port me d parsed =
     bindA (gp_metadata port (cd_jid d))
       (\<lambda>(ps, owner). case admin_refusal ADD_BOT_NOT_ADMIN me d ps of
          Some m \<Rightarrow> ret (Some [m])
        | None \<Rightarrow>
            (let phone = strip (pc_rest parsed) in
             if phone = [] then add_random_phone n port d
             else if \<not> list_ex (startswith phone) DDD_LIST then ret (Some [reply_text d INVALID_DDD_MSG])
             else bindA (add_phone port d phone)
               (\<lambda>ms. ret (Some ((if MAX_PHONE_LENGTH < length phone then [reply_text d PHONE_TOO_LONG_MSG] else []) @ ms)))))"

subsection \<open>Who can be banned\<close>

text \<open>
  A group whose port keeps a log of the changes that went through: \<open>refuse\<close> says which ones
  WhatsApp rejects, and the draws are determined by \<open>k\<close>.
\<close>

type_synonym roll = "(pystr \<times> pystr \<times> pystr) list"

definition recorder :: "group_member list \<Rightarrow> pystr option \<Rightarrow> (pystr \<Rightarrow> exn option) \<Rightarrow> nat \<Rightarrow> roll group_port" where
  "recorder ps owner refuse k = \<lparr>
     gp_metadata = (\<lambda>chat. ret (ps, owner)),
     gp_update = (\<lambda>chat jid action hist.
       case refuse jid of Some e \<Rightarrow> (Inl e, hist) | None \<Rightarrow> (Inr (), hist @ [(chat, jid, action)])),
     gp_on_whatsapp = (\<lambda>n. ret None),
     gp_choice = (\<lambda>n. ret (k mod n))\<rparr>"

definition removals :: "command_data \<Rightarrow> pystr list \<Rightarrow> roll" where
  "removals d js = map (\<lambda>j. (cd_jid d, j, U ''remove'')) js"







subsection \<open>A ban that nobody asked for\<close>

definition pub :: "group_member list" where
  "pub = [\<lparr>gm_id = U ''bot'', gm_admin = Some (U ''admin'')\<rparr>, \<lparr>gm_id = U ''ana'', gm_admin = Some (U ''admin'')\<rparr>,
          \<lparr>gm_id = U ''leo'', gm_admin = None\<rparr>]"

definition asks_for_flag :: command_data where
  "asks_for_flag = (CommandData (U '',bandeira brasil'') (U ''pub'') (U ''ana''))
     \<lparr>cd_is_group := True, cd_platform := Some WHATSAPP\<rparr>"

lemma flag_spells: "spelled_from 0 bot_names (U ''bandeira brasil'') = [42, 44]"
  by code_simp

lemma flag_commands: "all_commands ex ! 42 = ban_command (ex (U ''ban''))" "all_commands ex ! 44 = country_flag_command (ex (U ''bandeira''))"
  by (simp_all add: all_commands_def simple_commands_def configured_commands_def)

lemma flag_unmatched:
  "\<not> matches (cmd_config (ban_command e)) (44 # U ''bandeira brasil'')"
  "\<not> matches (cmd_config (country_flag_command e)) (44 # U ''bandeira brasil'')"
  by code_simp+

lemma bot_registry_inv: "registry_inv (bot_registry ex)"
  by (simp add: bot_registry_def register_all_inv)

lemma flag_reaches_ban: "get_strategy (bot_registry ex) (U '',bandeira brasil'') = Some (ban_command (ex (U ''ban'')))"
proof -
  have "U '',bandeira brasil'' = 44 # U ''bandeira brasil''" "plain_start (U ''bandeira brasil'')"
    "list_all (\<lambda>ns. [] \<notin> set ns) bot_names"
    by code_simp+
  moreover have "strategy_index (bot_registry ex) (44 # U ''bandeira brasil'') = Some 42"
    by (rule strategy_by_name [of _ _ 42 "[44]"])
      (use calculation in \<open>auto simp: bot_commands bot_names flag_spells flag_commands flag_unmatched bot_registry_inv\<close>)
  ultimately show ?thesis
    by (simp add: get_strategy_def bot_commands flag_commands)
qed

text \<open>
  A flag can cost someone their place.  \<open>,bandeira brasil\<close> matches no command, because
  \<open>bandeira\<close> takes no words, so the command is chosen by name alone, and the first name that
  begins the text is \<open>ban\<close>: sent by an administrator in a group where the bot is one, with
  nobody mentioned, it removes a participant drawn at random.
\<close>

theorem flag_request_bans:
  "\<exists>c. get_strategy (bot_registry (\<lambda>n. if n = U ''ban'' then ban_execute (recorder pub None (\<lambda>j. None) k) (U ''bot'') else other n))
       (cd_text asks_for_flag) = Some c \<and>
     cc_name (cmd_config c) = U ''ban'' \<and>
     (\<exists>j \<in> {U ''ana'', U ''leo''}. run_body c asks_for_flag hist =
        (Inr [farewell asks_for_flag j], hist @ [(U ''pub'', j, U ''remove'')]))"
proof -
  let ?port = "recorder pub None (\<lambda>j. None) k"
  let ?c = "ban_command (ban_execute ?port (U ''bot''))"
  have cs: "ban_candidates (U ''bot'') None pub = [U ''ana'', U ''leo'']"
    by code_simp
  have refusal: "admin_refusal BAN_BOT_NOT_ADMIN (U ''bot'') asks_for_flag pub = None"
    by code_simp
  obtain j where j: "[U ''ana'', U ''leo''] ! (k mod 2) = j" "j \<in> {U ''ana'', U ''leo''}"
    by (cases "k mod 2 = 0") auto
  have d: "cd_jid asks_for_flag = U ''pub''" "cd_mentioned_jids asks_for_flag = []" "cd_is_group asks_for_flag"
    by (simp_all add: asks_for_flag_def)
  have "ban_execute ?port (U ''bot'') asks_for_flag p hist = (Inr [farewell asks_for_flag j], hist @ removals asks_for_flag [j])" for p
    using j(1) [unfolded numeral_2_eq_2] by (simp add: ban_execute_def ban_random_def Let_def cs refusal d bindA_def recorder_def succeeds_def handleA_def removals_def)
  moreover have "apply_flags asks_for_flag (parse (cmd_config ?c) (cd_text asks_for_flag)) [farewell asks_for_flag j] = [farewell asks_for_flag j]"
    by (simp add: apply_flags_def asks_for_flag_def truthy_str_def farewell_def reply_text_with_def reply_build_def)
  ultimately have "run_body ?c asks_for_flag hist = (Inr [farewell asks_for_flag j], hist @ [(U ''pub'', j, U ''remove'')])"
    by (simp add: run_body_def bindA_def removals_def d ban_command_def Let_def)
  moreover have "get_strategy (bot_registry (\<lambda>n. if n = U ''ban'' then ban_execute ?port (U ''bot'') else other n))
      (cd_text asks_for_flag) = Some ?c"
    using flag_reaches_ban [of "\<lambda>n. if n = U ''ban'' then ban_execute ?port (U ''bot'') else other n"]
    by (simp add: asks_for_flag_def)
  moreover have "cc_name (cmd_config ?c) = U ''ban''"
    by (simp add: ban_command_def)
  ultimately show ?thesis using j(2) by blast
qed

end
