(* ===== verification/Ranking.thy ===== *)
theory Ranking
  imports Catalogue
begin

text \<open>
  The commands that draw from a ranking of an online catalogue: \<open>anime\<close> and \<open>manga\<close>
  (bot/domain/commands/my_anime_list.py) and \<open>filme\<close> and series (movie_series.py).  What is
  modelled is which list they ask for, which pages, and which items of a page they draw from; the
  HTTP calls and the captions are not.
\<close>

subsection \<open>Anime and manga\<close>

definition ANIME_DEFAULT_MAX_PAGE :: nat where "ANIME_DEFAULT_MAX_PAGE = 20"
definition ANIME_ITEMS_PER_PAGE :: nat where "ANIME_ITEMS_PER_PAGE = 25"

definition anime_media_type :: "parsed_command \<Rightarrow> pystr" where
  "anime_media_type p = (if pc_command_name p = U ''anime'' then U ''anime'' else U ''manga'')"

definition has_option :: "parsed_command \<Rightarrow> pystr \<Rightarrow> bool" where
  "has_option p n \<longleftrightarrow> dict_get (pc_options p) n \<noteq> None"

definition pages_for :: "nat \<Rightarrow> nat \<Rightarrow> nat" where
  "pages_for per_page rank_limit = max 1 ((rank_limit + per_page - 1) div per_page)"

text \<open>The limit of the ranking (0 for none) and the last page to draw.\<close>

definition anime_page_range :: "parsed_command \<Rightarrow> exn + nat \<times> nat" where
  "anime_page_range p =
     map_sum id
       (\<lambda>rank_limit. if rank_limit = 0 then (0, ANIME_DEFAULT_MAX_PAGE)
          else (rank_limit, pages_for ANIME_ITEMS_PER_PAGE rank_limit))
       (parsed_number p (if has_option p (U ''pop'') then U ''pop'' else U ''top''))"

text \<open>The last page of a limited ranking is cut; Python's slice takes no item twice.\<close>

definition cut_last_page :: "nat \<Rightarrow> nat \<Rightarrow> nat \<Rightarrow> nat \<Rightarrow> 'i list \<Rightarrow> 'i list" where
  "cut_last_page per_page rank_limit max_page page items =
     (if rank_limit \<noteq> 0 \<and> page = max_page then take (rank_limit - (max_page - 1) * per_page) items else items)"

definition anime_variables :: "parsed_command \<Rightarrow> nat \<Rightarrow> (pystr \<times> json) list" where
  "anime_variables p page =
     [(U ''page'', JNum (of_nat page)), (U ''perPage'', JNum (of_nat ANIME_ITEMS_PER_PAGE)),
      (U ''type'', JStr (upper (anime_media_type p))),
      (U ''sort'', JArr [JStr (if has_option p (U ''pop'') then U ''POPULARITY_DESC'' else U ''SCORE_DESC'')])]"

text \<open>The items of a drawn page from which one is chosen.\<close>

definition anime_items :: "parsed_command \<Rightarrow> nat \<Rightarrow> 'i list \<Rightarrow> exn + 'i list" where
  "anime_items p page items =
     map_sum id (\<lambda>(rank_limit, max_page). cut_last_page ANIME_ITEMS_PER_PAGE rank_limit max_page page items)
       (anime_page_range p)"

subsection \<open>Films and series\<close>

definition MOVIE_MAX_PAGE :: nat where "MOVIE_MAX_PAGE = 25"
definition MOVIE_ITEMS_PER_PAGE :: nat where "MOVIE_ITEMS_PER_PAGE = 20"

definition MOVIE_NAMES :: "pystr list" where
  "MOVIE_NAMES = [U ''filme'', U ''movie'']"

definition TMDB_BASE_URL :: pystr where
  "TMDB_BASE_URL = U ''https://api.themoviedb.org/3''"

definition movie_media_type :: "parsed_command \<Rightarrow> pystr" where
  "movie_media_type p = (if pc_command_name p \<in> set MOVIE_NAMES then U ''movie'' else U ''tv'')"

definition TOP_MIN_VOTES :: "(pystr \<times> nat) list" where
  "TOP_MIN_VOTES = [(U ''movie'', 5000), (U ''tv'', 1000)]"

text \<open>The mode, the last page and the limit.\<close>

definition movie_query :: "parsed_command \<Rightarrow> exn + pystr \<times> nat \<times> nat" where
  "movie_query p =
     (case parsed_number p (U ''top'') of
        Inl e \<Rightarrow> Inl e
      | Inr top_n \<Rightarrow>
          let top = (top_n \<noteq> 0 \<and> \<not> has_option p (U ''pop''))
          in map_sum id
               (\<lambda>rank_limit. (if top then U ''top_rated'' else U ''popular'',
                  if rank_limit = 0 then MOVIE_MAX_PAGE else pages_for MOVIE_ITEMS_PER_PAGE rank_limit, rank_limit))
               (if top then Inr top_n else parsed_number p (U ''pop'')))"

definition movie_listing :: "pystr \<Rightarrow> pystr \<Rightarrow> pystr \<times> (pystr \<times> json) list" where
  "movie_listing media_type mode =
     (if mode = U ''popular'' then (TMDB_BASE_URL @ [47] @ media_type @ U ''/popular'', [])
      else (TMDB_BASE_URL @ U ''/discover/'' @ media_type,
            [(U ''sort_by'', JStr (U ''vote_average.desc'')),
             (U ''vote_count.gte'', JNum (of_nat (the (map_of TOP_MIN_VOTES media_type))))]))"

definition movie_items :: "parsed_command \<Rightarrow> nat \<Rightarrow> 'i list \<Rightarrow> exn + 'i list" where
  "movie_items p page results =
     map_sum id (\<lambda>(mode, max_page, rank_limit). cut_last_page MOVIE_ITEMS_PER_PAGE rank_limit max_page page results)
       (movie_query p)"

subsection \<open>A limit is the top of the ranking\<close>

text \<open>A catalogue serves its ranking in pages of a fixed size, numbered from 1.\<close>

definition served :: "nat \<Rightarrow> 'i list \<Rightarrow> nat \<Rightarrow> 'i list" where
  "served per_page ranking page = take per_page (drop ((page - 1) * per_page) ranking)"

lemma pages_bounds:
  assumes "0 < per" and "0 < n"
  shows "(pages_for per n - 1) * per < n" and "n \<le> pages_for per n * per" and "0 < pages_for per n"
proof -
  let ?m = "(n + per - 1) div per"
  have m: "?m * per \<le> n + per - 1" "n + per - 1 < ?m * per + per"
    using dividend_less_div_times [OF assms(1), of "n + per - 1"] by simp_all
  have pos: "0 < ?m" using assms by (simp add: div_greater_zero_iff)
  then have eq: "pages_for per n = ?m" by (simp add: pages_for_def)
  from pos obtain k where k: "?m = Suc k" by (cases ?m) auto
  show "(pages_for per n - 1) * per < n" "n \<le> pages_for per n * per" "0 < pages_for per n"
    using m assms unfolding eq k by simp_all
qed

lemma full_pages: "concat (map (served per ranking) [1..<Suc k]) = take (k * per) ranking"
proof (induction k)
  case (Suc k)
  have "concat (map (served per ranking) [1..<Suc (Suc k)]) =
      concat (map (served per ranking) [1..<Suc k]) @ served per ranking (Suc k)"
    by simp
  also have "\<dots> = take (k * per) ranking @ take per (drop (k * per) ranking)"
    unfolding Suc by (simp add: served_def)
  also have "\<dots> = take (Suc k * per) ranking"
    by (metis add.commute mult_Suc take_add)
  finally show ?case .
qed simp

lemma cut_pages:
  assumes "0 < per" and "0 < n" and "n \<le> length ranking"
  shows "concat (map (\<lambda>page. cut_last_page per n (pages_for per n) page (served per ranking page))
      [1..<Suc (pages_for per n)]) = take n ranking" (is "concat (map ?cut _) = _")
    and "list_all (\<lambda>page. cut_last_page per n (pages_for per n) page (served per ranking page) \<noteq> [])
      [1..<Suc (pages_for per n)]"
proof -
  note b = pages_bounds [OF assms(1,2)]
  obtain k where k: "pages_for per n = Suc k" using b(3) by (cases "pages_for per n") auto
  have "concat (map ?cut [1..<Suc k]) = concat (map (served per ranking) [1..<Suc k])"
    by (rule arg_cong [of _ _ concat], rule map_cong) (auto simp: cut_last_page_def k)
  moreover have "?cut (Suc k) = take (n - k * per) (drop (k * per) ranking)"
    using b assms k by (simp add: cut_last_page_def served_def min_def)
  moreover have "take (k * per) ranking @ take (n - k * per) (drop (k * per) ranking) = take n ranking"
    using b(1) k take_add [of "k * per" "n - k * per" ranking] by simp
  ultimately show "concat (map ?cut [1..<Suc (pages_for per n)]) = take n ranking"
    unfolding k using full_pages [of per ranking k] by simp
  show "list_all (\<lambda>page. ?cut page \<noteq> []) [1..<Suc (pages_for per n)]"
    unfolding list_all_iff
  proof
    fix page assume "page \<in> set [1..<Suc (pages_for per n)]"
    then have p: "1 \<le> page" "page \<le> Suc k" unfolding k by auto
    then have "(page - 1) * per \<le> k * per" by (intro mult_right_mono) simp_all
    also have "\<dots> < length ranking" using b(1) assms(3) k by simp
    finally have "(page - 1) * per < length ranking" .
    with b assms k show "?cut page \<noteq> []"
      by (auto simp: cut_last_page_def served_def)
  qed
qed

text \<open>
  A limit is the top of the ranking.  When \<open>,anime\<close> or \<open>,filme\<close> is given a limit of \<open>n\<close>
  (\<open>top 30\<close>, \<open>pop 30\<close>), the pages it may draw hold together exactly the first \<open>n\<close> titles of the
  ranking, in order, each once, although the catalogue serves whole pages; and whichever page is
  drawn, there is a title on it to choose.
\<close>

theorem ranking_is_top_n:
  assumes "0 < n" and "n \<le> length ranking"
    and "anime_page_range p = Inr (n, m)" and "movie_query q = Inr (mode, k, n)"
  shows "concat (map (\<lambda>page. case anime_items p page (served ANIME_ITEMS_PER_PAGE ranking page) of Inr is \<Rightarrow> is) [1..<Suc m]) = take n ranking \<and>
    list_all (\<lambda>page. \<exists>is. anime_items p page (served ANIME_ITEMS_PER_PAGE ranking page) = Inr is \<and> is \<noteq> []) [1..<Suc m] \<and>
    concat (map (\<lambda>page. case movie_items q page (served MOVIE_ITEMS_PER_PAGE ranking page) of Inr is \<Rightarrow> is) [1..<Suc k]) = take n ranking \<and>
    list_all (\<lambda>page. \<exists>is. movie_items q page (served MOVIE_ITEMS_PER_PAGE ranking page) = Inr is \<and> is \<noteq> []) [1..<Suc k]"
proof -
  have m: "m = pages_for ANIME_ITEMS_PER_PAGE n"
    using assms(1,3) by (cases "parsed_number p (if has_option p (U ''pop'') then U ''pop'' else U ''top'')")
      (auto simp: anime_page_range_def split: if_splits)
  have k: "k = pages_for MOVIE_ITEMS_PER_PAGE n"
    using assms(1,4) by (auto simp: movie_query_def Let_def map_sum_def split: sum.splits if_splits)
  have per: "0 < ANIME_ITEMS_PER_PAGE" "0 < MOVIE_ITEMS_PER_PAGE"
    by (simp_all add: ANIME_ITEMS_PER_PAGE_def MOVIE_ITEMS_PER_PAGE_def)
  note anime = cut_pages [OF per(1) assms(1,2)] and movie = cut_pages [OF per(2) assms(1,2)]
  show ?thesis
    using anime movie unfolding m k
    by (simp add: anime_items_def movie_items_def assms(3) [unfolded m] assms(4) [unfolded k] del: upt_Suc)
qed

definition top_30 :: parsed_command where
  "top_30 = parse (cmd_config (my_anime_list_command (\<lambda>d p. ret []) :: unit command)) (U '',anime top 30'')"

theorem ranking_is_top_n_witness:
  "concat (map (\<lambda>page. case anime_items top_30 page (served ANIME_ITEMS_PER_PAGE [0::nat..<100] page) of Inr is \<Rightarrow> is) [1..<Suc 2]) = take 30 [0..<100] \<and>
    list_all (\<lambda>page. \<exists>is. anime_items top_30 page (served ANIME_ITEMS_PER_PAGE [0::nat..<100] page) = Inr is \<and> is \<noteq> []) [1..<Suc 2] \<and>
    concat (map (\<lambda>page. case movie_items top_30 page (served MOVIE_ITEMS_PER_PAGE [0::nat..<100] page) of Inr is \<Rightarrow> is) [1..<Suc 2]) = take 30 [0..<100] \<and>
    list_all (\<lambda>page. \<exists>is. movie_items top_30 page (served MOVIE_ITEMS_PER_PAGE [0::nat..<100] page) = Inr is \<and> is \<noteq> []) [1..<Suc 2]"
proof (rule ranking_is_top_n)
  show "anime_page_range top_30 = Inr (30, 2)" "movie_query top_30 = Inr (U ''top_rated'', 2, 30)"
    by code_simp+
qed simp_all

subsection \<open>The agent forgets the alias\<close>

lemma alias_commands:
  "all_commands ex ! 30 = my_anime_list_command (ex (U ''anime''))"
  "all_commands ex ! 47 = movie_series_command (ex (U ''filme''))"
  by (simp_all add: all_commands_def simple_commands_def configured_commands_def)

lemma resolves_to_main_name:
  assumes "i < length (all_commands ex)" and "n \<in> set (command_names (all_commands ex ! i))" and "is_word (44 # n)"
  shows "resolve_command_name (bot_registry ex) (44 # n) = 44 # command_name (all_commands ex ! i)"
proof -
  have "get_by_name (bot_registry ex) n = Some (all_commands ex ! i)"
    using own_names [OF assms(1,2)] by (simp add: reaches_own_def)
  moreover have "split_ws (44 # n) = [44 # n]"
    using split_join [of "[44 # n]"] assms(3) by simp
  ultimately show ?thesis
    by (simp add: resolve_command_name_def startswith_def)
qed

text \<open>
  The agent forgets which alias was meant.  The examples teach the model to answer a wish for
  a random manga with \<open>,manga\<close>, and one for a random series with the Portuguese alias of \<open>filme\<close>;
  typed by a person, these commands ask for a manga and for a series.  From the model, the name is
  first replaced by the main name of its command, so the same answers run \<open>,anime\<close> and \<open>,filme\<close>,
  which ask for an anime and a film.
\<close>

theorem agent_forgets_alias:
  "(U ''manga aleat{243}rio'', U '',manga'') \<in> set AGENT_EXAMPLES \<and> (U ''s{233}rie aleat{243}ria'', U '',s{233}rie'') \<in> set AGENT_EXAMPLES \<and>
   anime_media_type (parse (cmd_config (my_anime_list_command e)) (U '',manga'')) = U ''manga'' \<and>
   movie_media_type (parse (cmd_config (movie_series_command e)) (U '',s{233}rie'')) = U ''tv'' \<and>
   compose (bot_registry ex) loads str_of (U ''manga'') [] = Inr (U '',anime'') \<and>
   compose (bot_registry ex) loads str_of (U ''s{233}rie'') [] = Inr (U '',filme'') \<and>
   anime_media_type (parse (cmd_config (my_anime_list_command e)) (U '',anime'')) = U ''anime'' \<and>
   movie_media_type (parse (cmd_config (movie_series_command e)) (U '',filme'')) = U ''movie''"
proof (intro conjI)
  show "(U ''manga aleat{243}rio'', U '',manga'') \<in> set AGENT_EXAMPLES" "(U ''s{233}rie aleat{243}ria'', U '',s{233}rie'') \<in> set AGENT_EXAMPLES"
    by (simp_all add: AGENT_EXAMPLES_def)
  show "anime_media_type (parse (cmd_config (my_anime_list_command e)) (U '',manga'')) = U ''manga''"
    "movie_media_type (parse (cmd_config (movie_series_command e)) (U '',s{233}rie'')) = U ''tv''"
    "anime_media_type (parse (cmd_config (my_anime_list_command e)) (U '',anime'')) = U ''anime''"
    "movie_media_type (parse (cmd_config (movie_series_command e)) (U '',filme'')) = U ''movie''"
    by code_simp+
  have "resolve_command_name (bot_registry ex) (44 # U ''manga'') = 44 # U ''anime''"
    "resolve_command_name (bot_registry ex) (44 # U ''s{233}rie'') = 44 # U ''filme''"
  proof -
    have "is_word (44 # U ''manga'')" "is_word (44 # U ''s{233}rie'')" by code_simp+
    then show "resolve_command_name (bot_registry ex) (44 # U ''manga'') = 44 # U ''anime''"
      "resolve_command_name (bot_registry ex) (44 # U ''s{233}rie'') = 44 # U ''filme''"
      using resolves_to_main_name [of 30 ex "U ''manga''"] resolves_to_main_name [of 47 ex "U ''s{233}rie''"]
      by (simp_all add: all_commands_length alias_commands command_names_def command_name_def
          my_anime_list_command_def movie_series_command_def)
  qed
  moreover have "U '',anime'' = 44 # U ''anime''" "U '',filme'' = 44 # U ''filme''" by code_simp+
  moreover have "compose_command_text loads str_of (U ''manga'') [] = Inr (44 # U ''manga'')"
    "compose_command_text loads str_of (U ''s{233}rie'') [] = Inr (44 # U ''s{233}rie'')"
    by code_simp+
  ultimately show "compose (bot_registry ex) loads str_of (U ''manga'') [] = Inr (U '',anime'')"
    "compose (bot_registry ex) loads str_of (U ''s{233}rie'') [] = Inr (U '',filme'')"
    by (simp_all add: compose_def)
qed

end
