(* ===== verification/Audio.thy ===== *)
theory Audio
  imports Catalogue
begin

text \<open>
  The command that speaks a text (bot/domain/commands/audio.py, bot/data/languages.py): the choice
  of the language, the split of the text into pieces short enough for the speech service, and
  the addresses of the pieces.
\<close>

subsection \<open>The split\<close>

definition MAX_CHUNK_LENGTH :: nat where "MAX_CHUNK_LENGTH = 200"
definition DEFAULT_LANGUAGE :: pystr where "DEFAULT_LANGUAGE = U ''pt-br''"
definition TTS_HOST :: pystr where "TTS_HOST = U ''https://translate.google.com''"

text \<open>The characters of \<open>SPACE_AND_PUNCT_RE\<close>: ASCII punctuation but the backslash, and spaces.\<close>

definition is_space_or_punct :: "nat \<Rightarrow> bool" where
  "is_space_or_punct c \<longleftrightarrow> is_space c \<or> c = 65279 \<or> c = 160 \<or>
     33 \<le> c \<and> c \<le> 47 \<or> 58 \<le> c \<and> c \<le> 64 \<or> c = 91 \<or> 93 \<le> c \<and> c \<le> 96 \<or> 123 \<le> c \<and> c \<le> 126"

definition slice :: "pystr \<Rightarrow> nat \<Rightarrow> nat \<Rightarrow> pystr" where
  "slice text a b = take (b - a) (drop a text)"

definition last_space_or_punct :: "pystr \<Rightarrow> nat \<Rightarrow> nat \<Rightarrow> nat option" where
  "last_space_or_punct text left right = find (\<lambda>i. is_space_or_punct (text ! i)) (rev [left..<right + 1])"

definition word_too_long :: exn where
  "word_too_long = Raised ValidationError
     (U ''Essa palavra {233} grande demais pra eu falar! O m{225}ximo {233} '' @ show_nat MAX_CHUNK_LENGTH @
      U '' letras {128483}{65039}'')"

lemma last_space_bounds: "last_space_or_punct text left right = Some i \<Longrightarrow> left \<le> i \<and> i \<le> right \<and> is_space_or_punct (text ! i)"
  unfolding last_space_or_punct_def by (drule find_SomeD) auto

function split_from :: "pystr \<Rightarrow> nat \<Rightarrow> exn + pystr list" where
  "split_from text start =
     (if length text - start \<le> MAX_CHUNK_LENGTH then Inr [drop start text]
      else let last = start + MAX_CHUNK_LENGTH - 1 in
        if is_space_or_punct (text ! last) \<or> is_space_or_punct (text ! (last + 1))
        then map_sum id (\<lambda>cs. slice text start (last + 1) # cs) (split_from text (last + 1))
        else case last_space_or_punct text start last of
               None \<Rightarrow> Inl word_too_long
             | Some i \<Rightarrow> map_sum id (\<lambda>cs. slice text start (i + 1) # cs) (split_from text (i + 1)))"
  by pat_completeness auto
termination
  by (relation "measure (\<lambda>(text, start). length text - start)")
    (auto simp: MAX_CHUNK_LENGTH_def dest!: last_space_bounds)

declare split_from.simps [simp del]

definition split_long_text :: "pystr \<Rightarrow> exn + pystr list" where
  "split_long_text text = split_from text 0"

subsection \<open>The addresses\<close>

text \<open>The UTF-8 bytes of a character, and \<open>urllib.parse.quote_plus\<close>.\<close>

definition utf8_cp :: "nat \<Rightarrow> nat list" where
  "utf8_cp c =
     (if c < 128 then [c]
      else if c < 2048 then [192 + c div 64, 128 + c mod 64]
      else if c < 65536 then [224 + c div 4096, 128 + c div 64 mod 64, 128 + c mod 64]
      else [240 + c div 262144, 128 + c div 4096 mod 64, 128 + c div 64 mod 64, 128 + c mod 64])"

definition hex_digit :: "nat \<Rightarrow> nat" where
  "hex_digit d = (if d < 10 then 48 + d else 55 + d)"

definition quote_byte :: "nat \<Rightarrow> pystr" where
  "quote_byte b =
     (if 65 \<le> b \<and> b \<le> 90 \<or> 97 \<le> b \<and> b \<le> 122 \<or> 48 \<le> b \<and> b \<le> 57 \<or> b \<in> {95, 46, 45, 126} then [b]
      else if b = 32 then [43] else [37, hex_digit (b div 16), hex_digit (b mod 16)])"

definition quote_plus :: "pystr \<Rightarrow> pystr" where
  "quote_plus s = concat (map quote_byte (concat (map utf8_cp s)))"

definition urlencode :: "(pystr \<times> pystr) list \<Rightarrow> pystr" where
  "urlencode kvs = join [38] (map (\<lambda>(k, v). quote_plus k @ [61] @ quote_plus v) kvs)"

definition build_tts_url :: "pystr \<Rightarrow> pystr \<Rightarrow> nat \<Rightarrow> nat \<Rightarrow> pystr" where
  "build_tts_url text lang idx n =
     TTS_HOST @ U ''/translate_tts?'' @
     urlencode
       [(U ''ie'', U ''UTF-8''), (U ''q'', text), (U ''tl'', lang), (U ''total'', show_nat n),
        (U ''idx'', show_nat idx), (U ''textlen'', show_nat (length text)), (U ''client'', U ''tw-ob''),
        (U ''prev'', U ''input''), (U ''ttsspeed'', U ''1'')]"

subsection \<open>The command\<close>

definition LANGUAGES :: "pystr list" where
  "LANGUAGES =
     [U ''af-za'', U ''am-et'', U ''ar-bh'', U ''ar-dz'', U ''ar-eg'', U ''ar-il'', U ''ar-iq'', U ''ar-jo'', U ''ar-kw'',
      U ''ar-lb'', U ''ar-ma'', U ''ar-mr'', U ''ar-om'', U ''ar-ps'', U ''ar-qa'', U ''ar-sa'', U ''ar-tn'', U ''ar-ae'',
      U ''ar-ye'', U ''az-az'', U ''bn-bd'', U ''bn-in'', U ''bs-ba'', U ''bg-bg'', U ''my-mm'', U ''ca-es'', U ''cs-cz'',
      U ''da-dk'', U ''de-at'', U ''de-ch'', U ''de-de'', U ''el-gr'', U ''en-au'', U ''en-ca'', U ''en-gb'', U ''en-gh'',
      U ''en-hk'', U ''en-ie'', U ''en-in'', U ''en-ke'', U ''en-ng'', U ''en-nz'', U ''en-ph'', U ''en-pk'', U ''en-sg'',
      U ''en-tz'', U ''en-us'', U ''en-za'', U ''es-ar'', U ''es-bo'', U ''es-cl'', U ''es-co'', U ''es-cr'', U ''es-do'',
      U ''es-ec'', U ''es-es'', U ''es-gt'', U ''es-hn'', U ''es-mx'', U ''es-ni'', U ''es-pa'', U ''es-pe'', U ''es-pr'',
      U ''es-py'', U ''es-sv'', U ''es-us'', U ''es-uy'', U ''es-ve'', U ''et-ee'', U ''eu-es'', U ''fa-ir'', U ''fi-fi'',
      U ''fil-ph'', U ''fr-be'', U ''fr-ca'', U ''fr-ch'', U ''fr-fr'', U ''gl-es'', U ''gu-in'', U ''hi-in'', U ''hr-hr'',
      U ''hu-hu'', U ''hy-am'', U ''id-id'', U ''is-is'', U ''it-ch'', U ''it-it'', U ''iw-il'', U ''ja-jp'', U ''jv-id'',
      U ''ka-ge'', U ''kk-kz'', U ''km-kh'', U ''kn-in'', U ''ko-kr'', U ''lo-la'', U ''lt-lt'', U ''lv-lv'', U ''mk-mk'',
      U ''ml-in'', U ''mn-mn'', U ''mr-in'', U ''ms-my'', U ''ne-np'', U ''nl-be'', U ''nl-nl'', U ''no-no'', U ''pa-guru-in'',
      U ''pl-pl'', U ''pt-br'', U ''pt-pt'', U ''ro-ro'', U ''ru-ru'', U ''si-lk'', U ''sk-sk'', U ''sl-si'', U ''sq-al'',
      U ''sr-rs'', U ''su-id'', U ''sv-se'', U ''sw-ke'', U ''sw-tz'', U ''ta-in'', U ''ta-lk'', U ''ta-my'', U ''ta-sg'',
      U ''te-in'', U ''th-th'', U ''tr-tr'', U ''uk-ua'', U ''ur-in'', U ''ur-pk'', U ''uz-uz'', U ''vi-vn'', U ''yue-hant-hk'',
      U ''zh-cn'', U ''zh-tw'', U ''zu-za'']"

definition or_empty :: "pystr option \<Rightarrow> pystr" where
  "or_empty v = (case v of None \<Rightarrow> [] | Some s \<Rightarrow> s)"

definition audio_execute :: "command_data \<Rightarrow> parsed_command \<Rightarrow> exn + bot_message list" where
  "audio_execute d parsed =
     (let chosen = or_empty (dict_get (pc_options parsed) (U ''lang''));
          language = lower (if chosen = [] then DEFAULT_LANGUAGE else chosen)
      in if language \<notin> set LANGUAGES then Inr [reply_text d (U ''Opa, esse idioma eu ainda n{227}o conhe{231}o! {127757}'')]
      else let rest = strip (pc_rest parsed);
               text = (if rest \<noteq> [] then rest else strip (or_empty (cd_quoted_text d)))
      in if text = [] then Inr [reply_text d (U ''Cad{234} o texto pra eu falar? {129300}'')]
      else map_sum id
        (\<lambda>chunks. map (\<lambda>(i, chunk). reply_audio d (build_tts_url chunk language i (length chunks)) (U ''audio/mpeg''))
           (enumerate 0 chunks))
        (split_long_text text))"

subsection \<open>Nothing is lost and no word is cut\<close>

lemma slice_drop: "a \<le> b \<Longrightarrow> b \<le> length text \<Longrightarrow> slice text a b @ drop b text = drop a text"
  unfolding slice_def by (metis append_take_drop_id drop_drop le_add_diff_inverse2)

text \<open>The pieces of the text from a position on.\<close>

definition pieces_ok :: "pystr \<Rightarrow> pystr list \<Rightarrow> bool" where
  "pieces_ok text chunks \<longleftrightarrow> chunks \<noteq> [] \<and> concat chunks = text \<and>
     list_all (\<lambda>c. length c \<le> MAX_CHUNK_LENGTH \<and> (c \<noteq> [] \<or> text = [])) chunks \<and>
     successively (\<lambda>c e. is_space_or_punct (last c) \<or> is_space_or_punct (hd e)) chunks"

lemma pieces_step:
  assumes "pieces_ok (drop b text) chunks" and "a < b" and "b < length text" and "b - a \<le> MAX_CHUNK_LENGTH"
    and "is_space_or_punct (text ! (b - 1)) \<or> is_space_or_punct (text ! b)"
  shows "pieces_ok (drop a text) (slice text a b # chunks)"
proof -
  from assms(3) have ne: "drop b text \<noteq> []" by simp
  then obtain c cs where c: "chunks = c # cs" "c \<noteq> []"
    using assms(1) by (cases chunks) (auto simp: pieces_ok_def)
  then have "hd c = hd (drop b text)"
    using assms(1) by (metis concat.simps(2) hd_append2 pieces_ok_def)
  then have hd: "hd c = text ! b" using assms(3) by (simp add: hd_drop_conv_nth)
  have len: "length (slice text a b) = b - a" using assms(2,3) by (simp add: slice_def)
  then have last: "last (slice text a b) = text ! (b - 1)"
    using assms(2,3) by (simp add: last_conv_nth slice_def flip: length_greater_0_conv)
  have "concat (slice text a b # chunks) = drop a text"
    using assms(1-3) slice_drop [of a b "text"] by (simp add: pieces_ok_def)
  with assms c hd last len ne show ?thesis
    by (auto simp: pieces_ok_def list_all_iff)
qed

definition long_word :: "pystr \<Rightarrow> bool" where
  "long_word text \<longleftrightarrow>
     (\<exists>a. a + MAX_CHUNK_LENGTH < length text \<and> list_all (\<lambda>i. \<not> is_space_or_punct (text ! i)) [a..<a + MAX_CHUNK_LENGTH + 1])"

lemma long_word_iff:
  "long_word s \<longleftrightarrow>
     (\<exists>a. a + MAX_CHUNK_LENGTH < length s \<and> (\<forall>i. a \<le> i \<longrightarrow> i \<le> a + MAX_CHUNK_LENGTH \<longrightarrow> \<not> is_space_or_punct (s ! i)))"
  unfolding long_word_def list_all_iff set_upt by (simp add: Ball_def less_Suc_eq_le imp_conjL)

lemma split_from_result:
  assumes "start \<le> length t" and "start < length t \<or> t = []"
  shows "case split_from t start of
      Inr chunks \<Rightarrow> pieces_ok (drop start t) chunks
    | Inl e \<Rightarrow> e = word_too_long \<and> long_word t"
  using assms
proof (induction t start rule: split_from.induct)
  case (1 t start)
  let ?last = "start + MAX_CHUNK_LENGTH - 1"
  show ?case
  proof (cases "length t - start \<le> MAX_CHUNK_LENGTH")
    case True
    with "1.prems" show ?thesis
      by (subst split_from.simps) (auto simp: pieces_ok_def)
  next
    case long: False
    then have bounds: "?last + 1 < length t" "start < ?last + 1" "?last + 1 - start \<le> MAX_CHUNK_LENGTH"
      by (auto simp: MAX_CHUNK_LENGTH_def)
    show ?thesis
    proof (cases "is_space_or_punct (t ! ?last) \<or> is_space_or_punct (t ! (?last + 1))")
      case True
      have step: "split_from t start = map_sum id (\<lambda>cs. slice t start (?last + 1) # cs) (split_from t (?last + 1))"
        using long True by (subst split_from.simps) (simp add: Let_def)
      show ?thesis
        using "1.IH"(1) [OF long refl True] bounds True pieces_step [OF _ bounds(2,1,3)]
        unfolding step by (auto split: sum.splits)
    next
      case False
      show ?thesis
      proof (cases "last_space_or_punct t start ?last")
        case None
        have fails: "split_from t start = Inl word_too_long"
          using long False None by (subst split_from.simps) (simp add: Let_def)
        have "\<not> is_space_or_punct (t ! i)" if "start \<le> i" "i \<le> ?last" for i
          using None that by (auto simp: last_space_or_punct_def find_None_iff)
        moreover have "i \<le> ?last \<or> i = ?last + 1" if "i \<le> start + MAX_CHUNK_LENGTH" for i
          using that by (auto simp: MAX_CHUNK_LENGTH_def)
        ultimately have "\<forall>i. start \<le> i \<longrightarrow> i \<le> start + MAX_CHUNK_LENGTH \<longrightarrow> \<not> is_space_or_punct (t ! i)"
          using False by metis
        moreover have "start + MAX_CHUNK_LENGTH < length t"
          using bounds(1) by (simp add: MAX_CHUNK_LENGTH_def)
        ultimately have "long_word t" unfolding long_word_iff by blast
        then show ?thesis by (simp add: fails)
      next
        case (Some i)
        note i = last_space_bounds [OF Some]
        then have b: "start < i + 1" "i + 1 < length t" "i + 1 - start \<le> MAX_CHUNK_LENGTH"
            "is_space_or_punct (t ! (i + 1 - 1)) \<or> is_space_or_punct (t ! (i + 1))"
          using bounds(1) by (auto simp: MAX_CHUNK_LENGTH_def)
        have step: "split_from t start = map_sum id (\<lambda>cs. slice t start (i + 1) # cs) (split_from t (i + 1))"
          using long False Some by (subst split_from.simps) (simp add: Let_def)
        show ?thesis
          using "1.IH"(2) [OF long refl False Some] b pieces_step [OF _ b]
          unfolding step by (auto split: sum.splits)
      qed
    qed
  qed
qed

lemma pieces_long_word: "pieces_ok t chunks \<Longrightarrow> \<not> long_word t"
proof (induction chunks arbitrary: t)
  case (Cons c cs)
  from Cons.prems have t: "t = c @ concat cs" and len: "length c \<le> MAX_CHUNK_LENGTH"
    by (simp_all add: pieces_ok_def)
  show ?case
  proof (cases cs)
    case Nil
    with t len show ?thesis by (auto simp: long_word_def)
  next
    case (Cons e es)
    show ?thesis
    proof
      assume "long_word t"
      then obtain a where a: "a + MAX_CHUNK_LENGTH < length t"
        and run: "\<And>i. a \<le> i \<Longrightarrow> i \<le> a + MAX_CHUNK_LENGTH \<Longrightarrow> \<not> is_space_or_punct (t ! i)"
        unfolding long_word_iff by blast
      then have "t \<noteq> []" by auto
      with Cons.prems Cons have ne: "c \<noteq> []" "e \<noteq> []" and seam: "is_space_or_punct (last c) \<or> is_space_or_punct (hd e)"
        and rest: "pieces_ok (concat cs) cs"
        by (auto simp: pieces_ok_def list_all_iff)
      show False
      proof (cases "a < length c")
        case True
        have "last c = t ! (length c - 1)" "hd e = t ! length c"
          using ne Cons unfolding t by (simp_all add: last_conv_nth hd_conv_nth nth_append)
        moreover from True len have "a \<le> length c - 1" "length c - 1 \<le> a + MAX_CHUNK_LENGTH"
            "a \<le> length c" "length c \<le> a + MAX_CHUNK_LENGTH"
          by simp_all
        ultimately show False using seam run by metis
      next
        case False
        have "long_word (concat cs)"
          unfolding long_word_iff
        proof (intro exI [of _ "a - length c"] conjI)
          show "a - length c + MAX_CHUNK_LENGTH < length (concat cs)"
            using a False unfolding t by simp
          have "\<not> is_space_or_punct (concat cs ! i)" if "a - length c \<le> i" "i \<le> a - length c + MAX_CHUNK_LENGTH" for i
            using run [of "i + length c"] that False unfolding t by (simp add: nth_append)
          then show "\<forall>i. a - length c \<le> i \<longrightarrow> i \<le> a - length c + MAX_CHUNK_LENGTH \<longrightarrow> \<not> is_space_or_punct (concat cs ! i)"
            by blast
        qed
        with Cons.IH [OF rest] show False by blast
      qed
    qed
  qed
qed (simp add: pieces_ok_def)

text \<open>
  A long text is spoken whole.  The pieces into which a text is split put together are the
  text; each has at most 200 characters and something to say; no word is cut: at every seam the
  character before it or the one after it is a space or a punctuation mark.  The command refuses
  a text only when that cannot be done, because it has a run of more than 200 characters without
  any, and it always refuses such a text.
\<close>

theorem audio_speaks_whole_text:
  "case split_long_text text of
     Inr chunks \<Rightarrow> pieces_ok text chunks \<and> \<not> long_word text
   | Inl e \<Rightarrow> e = word_too_long \<and> long_word text"
  using split_from_result [of 0 "text"] pieces_long_word [of "text"]
  by (auto simp: split_long_text_def split: sum.splits)

subsection \<open>What the agent's examples ask for\<close>

text \<open>
  The examples of the agent name a language by two letters (\<open>lang ja\<close>), but the option only
  takes the form \<open>ja-jp\<close>: the words are read out, in Portuguese.  Two of the languages of the
  list have three parts and cannot be chosen at all.
\<close>

lemma audio_example_reads_option:
  "(U ''{225}udio em japon{234}s'', U '',{225}udio lang ja'') \<in> set AGENT_EXAMPLES"
  "audio_execute d (parse (cmd_config (audio_command e)) (U '',{225}udio lang ja'')) =
     Inr [reply_audio d (build_tts_url (U ''lang ja'') (U ''pt-br'') 0 1) (U ''audio/mpeg'')]"
proof -
  show "(U ''{225}udio em japon{234}s'', U '',{225}udio lang ja'') \<in> set AGENT_EXAMPLES"
    by (simp add: AGENT_EXAMPLES_def)
  have p: "pc_options (parse (cmd_config (audio_command e)) (U '',{225}udio lang ja'')) = []"
    "pc_rest (parse (cmd_config (audio_command e)) (U '',{225}udio lang ja'')) = U ''lang ja''"
    by code_simp+
  have c: "lower DEFAULT_LANGUAGE = U ''pt-br''" "U ''pt-br'' \<in> set LANGUAGES" "strip (U ''lang ja'') = U ''lang ja''"
    "U ''lang ja'' \<noteq> []" "split_long_text (U ''lang ja'') = Inr [U ''lang ja'']"
    by code_simp+
  show "audio_execute d (parse (cmd_config (audio_command e)) (U '',{225}udio lang ja'')) =
     Inr [reply_audio d (build_tts_url (U ''lang ja'') (U ''pt-br'') 0 1) (U ''audio/mpeg'')]"
    by (simp add: audio_execute_def p c or_empty_def dict_get_def)
qed

lemma long_languages_unreachable:
  "U ''yue-hant-hk'' \<in> set LANGUAGES \<and>
   pc_options (parse (cmd_config (audio_command e)) (U '',{225}udio yue-hant-hk oi'')) = []"
  "U ''pa-guru-in'' \<in> set LANGUAGES \<and>
   pc_options (parse (cmd_config (audio_command e)) (U '',{225}udio pa-guru-in oi'')) = []"
  by code_simp+

end
