(* ===== verification/Lineup.thy ===== *)
theory Lineup
  imports Prelude
begin

text \<open>
  Football line-ups: the formations with the labels of their slots
  (bot/data/football_formations.py), the positions of the dataset
  (bot/data/transfermarkt_positions.py), and the assignment of players to slots
  (bot/domain/services/lineup_assigner.py, lineup_builder.py).  The coordinates, decimals with two
  digits, are hundredths, so their comparisons are those of the code.
\<close>

subsection \<open>Formations\<close>

datatype slot = Slot (sl_role: pystr) (sl_x: nat) (sl_y: nat)

datatype formation = Formation (fm_name: pystr) (fm_slots: "slot list")

definition FORMATIONS :: "formation list" where
  "FORMATIONS =
    [Formation (U ''4-3-3'')
       [Slot (U ''GK'') 50 90, Slot (U ''DEF'') 15 70, Slot (U ''DEF'') 38 70, Slot (U ''DEF'') 62 70,
        Slot (U ''DEF'') 85 70, Slot (U ''MID'') 20 44, Slot (U ''MID'') 50 44, Slot (U ''MID'') 80 44,
        Slot (U ''ATT'') 15 19, Slot (U ''ATT'') 50 14, Slot (U ''ATT'') 85 19],
     Formation (U ''4-4-2'')
       [Slot (U ''GK'') 50 90, Slot (U ''DEF'') 12 70, Slot (U ''DEF'') 37 70, Slot (U ''DEF'') 63 70,
        Slot (U ''DEF'') 88 70, Slot (U ''MID'') 12 44, Slot (U ''MID'') 37 44, Slot (U ''MID'') 63 44,
        Slot (U ''MID'') 88 44, Slot (U ''ATT'') 35 15, Slot (U ''ATT'') 65 15],
     Formation (U ''4-2-3-1'')
       [Slot (U ''GK'') 50 90, Slot (U ''DEF'') 12 72, Slot (U ''DEF'') 37 72, Slot (U ''DEF'') 63 72,
        Slot (U ''DEF'') 88 72, Slot (U ''MID'') 35 51, Slot (U ''MID'') 65 51, Slot (U ''MID'') 15 34,
        Slot (U ''MID'') 50 34, Slot (U ''MID'') 85 34, Slot (U ''ATT'') 50 14],
     Formation (U ''4-1-4-1'')
       [Slot (U ''GK'') 50 90, Slot (U ''DEF'') 12 72, Slot (U ''DEF'') 37 72, Slot (U ''DEF'') 63 72,
        Slot (U ''DEF'') 88 72, Slot (U ''MID'') 50 53, Slot (U ''MID'') 12 40, Slot (U ''MID'') 37 40,
        Slot (U ''MID'') 63 40, Slot (U ''MID'') 88 40, Slot (U ''ATT'') 50 14],
     Formation (U ''4-1-2-1-2'')
       [Slot (U ''GK'') 50 90, Slot (U ''DEF'') 12 72, Slot (U ''DEF'') 37 72, Slot (U ''DEF'') 63 72,
        Slot (U ''DEF'') 88 72, Slot (U ''MID'') 50 54, Slot (U ''MID'') 28 43, Slot (U ''MID'') 72 43,
        Slot (U ''MID'') 50 32, Slot (U ''ATT'') 35 15, Slot (U ''ATT'') 65 15],
     Formation (U ''4-3-3 (Tri. Atq.)'')
       [Slot (U ''GK'') 50 90, Slot (U ''DEF'') 15 70, Slot (U ''DEF'') 38 70, Slot (U ''DEF'') 62 70,
        Slot (U ''DEF'') 85 70, Slot (U ''MID'') 50 51, Slot (U ''MID'') 26 38, Slot (U ''MID'') 74 38,
        Slot (U ''ATT'') 15 19, Slot (U ''ATT'') 50 14, Slot (U ''ATT'') 85 19],
     Formation (U ''4-3-3 (Tri. Def.)'')
       [Slot (U ''GK'') 50 90, Slot (U ''DEF'') 15 70, Slot (U ''DEF'') 38 70, Slot (U ''DEF'') 62 70,
        Slot (U ''DEF'') 85 70, Slot (U ''MID'') 30 49, Slot (U ''MID'') 70 49, Slot (U ''MID'') 50 36,
        Slot (U ''ATT'') 15 19, Slot (U ''ATT'') 50 14, Slot (U ''ATT'') 85 19],
     Formation (U ''4-4-2 (Diamante)'')
       [Slot (U ''GK'') 50 90, Slot (U ''DEF'') 12 72, Slot (U ''DEF'') 37 72, Slot (U ''DEF'') 63 72,
        Slot (U ''DEF'') 88 72, Slot (U ''MID'') 50 53, Slot (U ''MID'') 25 42, Slot (U ''MID'') 75 42,
        Slot (U ''MID'') 50 32, Slot (U ''ATT'') 35 15, Slot (U ''ATT'') 65 15],
     Formation (U ''4-3-2-1 ({193}rvore)'')
       [Slot (U ''GK'') 50 90, Slot (U ''DEF'') 12 72, Slot (U ''DEF'') 37 72, Slot (U ''DEF'') 63 72,
        Slot (U ''DEF'') 88 72, Slot (U ''MID'') 20 51, Slot (U ''MID'') 50 51, Slot (U ''MID'') 80 51,
        Slot (U ''MID'') 35 34, Slot (U ''MID'') 65 34, Slot (U ''ATT'') 50 14],
     Formation (U ''4-5-1'')
       [Slot (U ''GK'') 50 90, Slot (U ''DEF'') 12 72, Slot (U ''DEF'') 37 72, Slot (U ''DEF'') 63 72,
        Slot (U ''DEF'') 88 72, Slot (U ''MID'') 30 56, Slot (U ''MID'') 70 56, Slot (U ''MID'') 12 39,
        Slot (U ''MID'') 50 39, Slot (U ''MID'') 88 39, Slot (U ''ATT'') 50 15],
     Formation (U ''3-5-2'')
       [Slot (U ''GK'') 50 90, Slot (U ''DEF'') 20 70, Slot (U ''DEF'') 50 70, Slot (U ''DEF'') 80 70,
        Slot (U ''MID'') 28 56, Slot (U ''MID'') 72 56, Slot (U ''MID'') 50 44, Slot (U ''MID'') 12 33,
        Slot (U ''MID'') 88 33, Slot (U ''ATT'') 35 15, Slot (U ''ATT'') 65 15],
     Formation (U ''3-4-3'')
       [Slot (U ''GK'') 50 90, Slot (U ''DEF'') 20 70, Slot (U ''DEF'') 50 70, Slot (U ''DEF'') 80 70,
        Slot (U ''MID'') 10 44, Slot (U ''MID'') 35 44, Slot (U ''MID'') 65 44, Slot (U ''MID'') 90 44,
        Slot (U ''ATT'') 15 19, Slot (U ''ATT'') 50 14, Slot (U ''ATT'') 85 19],
     Formation (U ''3-4-2-1'')
       [Slot (U ''GK'') 50 90, Slot (U ''DEF'') 20 72, Slot (U ''DEF'') 50 72, Slot (U ''DEF'') 80 72,
        Slot (U ''MID'') 12 49, Slot (U ''MID'') 38 49, Slot (U ''MID'') 62 49, Slot (U ''MID'') 88 49,
        Slot (U ''MID'') 35 32, Slot (U ''MID'') 65 32, Slot (U ''ATT'') 50 14],
     Formation (U ''5-4-1 (Losango)'')
       [Slot (U ''GK'') 50 90, Slot (U ''DEF'') 10 70, Slot (U ''DEF'') 30 70, Slot (U ''DEF'') 50 70,
        Slot (U ''DEF'') 70 70, Slot (U ''DEF'') 90 70, Slot (U ''MID'') 50 53, Slot (U ''MID'') 22 41,
        Slot (U ''MID'') 78 41, Slot (U ''MID'') 50 30, Slot (U ''ATT'') 50 15],
     Formation (U ''5-3-2 (Tri{226}ngulo)'')
       [Slot (U ''GK'') 50 90, Slot (U ''DEF'') 10 70, Slot (U ''DEF'') 30 70, Slot (U ''DEF'') 50 70,
        Slot (U ''DEF'') 70 70, Slot (U ''DEF'') 90 70, Slot (U ''MID'') 28 50, Slot (U ''MID'') 72 50,
        Slot (U ''MID'') 50 33, Slot (U ''ATT'') 35 15, Slot (U ''ATT'') 65 15]]"

definition DM_Y_THRESHOLD :: nat where "DM_Y_THRESHOLD = 50"
definition AM_Y_THRESHOLD :: nat where "AM_Y_THRESHOLD = 36"
definition MIN_DEF_FOR_FULLBACK :: nat where "MIN_DEF_FOR_FULLBACK = 3"

definition ROLE_GROUPS :: "(pystr \<times> pystr) list" where
  "ROLE_GROUPS =
     [(U ''GK'', U ''GK''), (U ''CB'', U ''DEF''), (U ''LB'', U ''DEF''), (U ''RB'', U ''DEF''),
      (U ''DM'', U ''MID''), (U ''CM'', U ''MID''), (U ''AM'', U ''MID''), (U ''LW'', U ''ATT''),
      (U ''ST'', U ''ATT''), (U ''RW'', U ''ATT'')]"

definition SCARCITY_ORDER :: "(pystr \<times> nat) list" where
  "SCARCITY_ORDER =
     [(U ''LB'', 0), (U ''RB'', 0), (U ''LW'', 0), (U ''RW'', 0), (U ''AM'', 1), (U ''DM'', 1), (U ''GK'', 2)]"

definition DEFAULT_SCARCITY :: nat where "DEFAULT_SCARCITY = 3"

subsection \<open>The label of a slot\<close>

text \<open>The labellers write into the list of labels at the indices of their role.\<close>

definition label_def :: "slot list \<Rightarrow> nat list \<Rightarrow> pystr list \<Rightarrow> pystr list" where
  "label_def slots indexes labels =
     (let sorted_idx = sort_key (\<lambda>i. sl_x (slots ! i)) indexes; n = length sorted_idx in
      fold (\<lambda>(rank, i) labels. labels[i :=
          (if MIN_DEF_FOR_FULLBACK \<le> n \<and> rank = 0 then U ''LB''
           else if MIN_DEF_FOR_FULLBACK \<le> n \<and> rank = n - 1 then U ''RB'' else U ''CB'')])
        (List.enumerate 0 sorted_idx) labels)"

definition label_att :: "slot list \<Rightarrow> nat list \<Rightarrow> pystr list \<Rightarrow> pystr list" where
  "label_att slots indexes labels =
     (let sorted_idx = sort_key (\<lambda>i. sl_x (slots ! i)) indexes in
      if length sorted_idx \<le> 2 then fold (\<lambda>i labels. labels[i := U ''ST'']) sorted_idx labels
      else fold (\<lambda>i labels. labels[i := U ''ST'']) (butlast (tl sorted_idx))
             (labels[hd sorted_idx := U ''LW'', last sorted_idx := U ''RW'']))"

definition label_mid :: "slot list \<Rightarrow> nat list \<Rightarrow> pystr list \<Rightarrow> pystr list" where
  "label_mid slots indexes labels =
     fold (\<lambda>i labels. let y = sl_y (slots ! i) in labels[i :=
         (if DM_Y_THRESHOLD \<le> y then U ''DM'' else if y < AM_Y_THRESHOLD then U ''AM'' else U ''CM'')])
       indexes labels"

definition LABELERS :: "(pystr \<times> (slot list \<Rightarrow> nat list \<Rightarrow> pystr list \<Rightarrow> pystr list)) list" where
  "LABELERS = [(U ''DEF'', label_def), (U ''MID'', label_mid), (U ''ATT'', label_att)]"

definition indexes_by_role :: "slot list \<Rightarrow> (pystr \<times> nat list) list" where
  "indexes_by_role slots = fold (\<lambda>(i, s). append_under (sl_role s) i) (List.enumerate 0 slots) []"

definition specific_roles :: "formation \<Rightarrow> pystr list" where
  "specific_roles f =
     fold (\<lambda>(role, indexes) labels.
         if role = U ''GK'' then fold (\<lambda>i labels. labels[i := U ''GK'']) indexes labels
         else case map_of LABELERS role of None \<Rightarrow> labels | Some labeler \<Rightarrow> labeler (fm_slots f) indexes labels)
       (indexes_by_role (fm_slots f)) (replicate (length (fm_slots f)) [])"

subsection \<open>Assigning players\<close>

text \<open>
  A pool holds the players of one role, best first.  The players are any values with a name:
  the code is generic over them too.
\<close>

type_synonym 'p pools = "(pystr \<times> 'p list) list"

definition pool_of :: "'p pools \<Rightarrow> pystr \<Rightarrow> 'p list" where
  "pool_of pools role = (case map_of pools role of None \<Rightarrow> [] | Some ps \<Rightarrow> ps)"

text \<open>\<open>ROLE_GROUPS.get(specific, role)\<close>: the group of a label, or the slot's own role.\<close>

definition slot_group :: "pystr \<Rightarrow> pystr \<Rightarrow> pystr" where
  "slot_group specific role = (case map_of ROLE_GROUPS specific of None \<Rightarrow> role | Some g \<Rightarrow> g)"

fun find_in_group :: "('p \<Rightarrow> pystr) \<Rightarrow> pystr \<Rightarrow> 'p pools \<Rightarrow> pystr set \<Rightarrow> 'p option" where
  "find_in_group name grp [] used = None"
| "find_in_group name grp ((role, ps) # pools) used =
     (if map_of ROLE_GROUPS role \<noteq> Some grp then find_in_group name grp pools used
      else case find (\<lambda>p. name p \<notin> used) ps of
        Some p \<Rightarrow> Some p
      | None \<Rightarrow> find_in_group name grp pools used)"

definition find_player :: "('p \<Rightarrow> pystr) \<Rightarrow> pystr \<Rightarrow> 'p pools \<Rightarrow> pystr set \<Rightarrow> pystr \<Rightarrow> 'p option" where
  "find_player name specific pools used role =
     (case find (\<lambda>p. name p \<notin> used) (pool_of pools specific) of
        Some p \<Rightarrow> Some p
      | None \<Rightarrow> find_in_group name (slot_group specific role) pools used)"

definition scarcity :: "pystr \<Rightarrow> nat" where
  "scarcity specific = (case map_of SCARCITY_ORDER specific of None \<Rightarrow> DEFAULT_SCARCITY | Some n \<Rightarrow> n)"

definition slot_order :: "formation \<Rightarrow> nat list" where
  "slot_order f = sort_key (\<lambda>i. scarcity (specific_roles f ! i)) [0..<length (fm_slots f)]"

definition fill_slot ::
  "('p \<Rightarrow> pystr) \<Rightarrow> 'p pools \<Rightarrow> formation \<Rightarrow> nat \<Rightarrow> pystr set \<times> 'p option list \<Rightarrow> pystr set \<times> 'p option list" where
  "fill_slot name pools f i = (\<lambda>(used, ordered).
     let player = find_player name (specific_roles f ! i) pools used (sl_role (fm_slots f ! i)) in
     ((case player of None \<Rightarrow> used | Some p \<Rightarrow> insert (name p) used), ordered[i := player]))"

definition assign_slots :: "('p \<Rightarrow> pystr) \<Rightarrow> 'p pools \<Rightarrow> formation \<Rightarrow> 'p option list" where
  "assign_slots name pools f =
     snd (fold (fill_slot name pools f) (slot_order f) ({}, replicate (length (fm_slots f)) None))"

subsection \<open>From the players of the dataset\<close>

definition POSITION_ROLES :: "(pystr \<times> pystr) list" where
  "POSITION_ROLES =
     [(U ''Goalkeeper'', U ''GK''), (U ''Centre-Back'', U ''CB''), (U ''Left-Back'', U ''LB''),
      (U ''Right-Back'', U ''RB''), (U ''Defensive Midfield'', U ''DM''),
      (U ''Central Midfield'', U ''CM''), (U ''Right Midfield'', U ''CM''),
      (U ''Left Midfield'', U ''CM''), (U ''Attacking Midfield'', U ''AM''),
      (U ''Centre-Forward'', U ''ST''), (U ''Second Striker'', U ''ST''), (U ''Left Winger'', U ''LW''),
      (U ''Right Winger'', U ''RW'')]"

text \<open>
  The fields of \<open>TmPlayer\<close> a line-up is built from; \<open>shuffle\<close> is what \<open>random.shuffle\<close> does to
  the pool of a role.  \<open>pool[:per_role]\<close> keeps the whole pool when there is no bound.
\<close>

record tm_player =
  tm_name :: pystr
  tm_position :: pystr
  tm_market_value :: int

definition cut_pool :: "nat option \<Rightarrow> 'p list \<Rightarrow> 'p list" where
  "cut_pool per_role pool = (case per_role of None \<Rightarrow> pool | Some n \<Rightarrow> take n pool)"

definition role_pools :: "'a tm_player_scheme list \<Rightarrow> 'a tm_player_scheme pools" where
  "role_pools players =
     fold (\<lambda>p pools. case map_of POSITION_ROLES (tm_position p) of
         None \<Rightarrow> pools
       | Some role \<Rightarrow> append_under role p pools) players []"

definition from_players ::
  "(pystr \<Rightarrow> 'a tm_player_scheme list \<Rightarrow> 'a tm_player_scheme list) \<Rightarrow> 'a tm_player_scheme list \<Rightarrow> formation \<Rightarrow> nat option \<Rightarrow> 'a tm_player_scheme option list" where
  "from_players shuffle players f per_role =
     assign_slots tm_name (map (\<lambda>(role, pool). (role, shuffle role (cut_pool per_role pool))) (role_pools players)) f"

subsection \<open>Filling the slots one by one\<close>

text \<open>A loop over distinct indices, seen from the set of indices that are done.\<close>

lemma fold_done:
  assumes "\<And>D x s. Q D s \<Longrightarrow> x \<notin> D \<Longrightarrow> x \<in> set xs \<Longrightarrow> Q (insert x D) (f x s)" "Q D s" "distinct xs" "D \<inter> set xs = {}"
  shows "Q (D \<union> set xs) (fold f xs s)"
  using assms
proof (induction xs arbitrary: D s)
  case (Cons x xs)
  have "Q (insert x D \<union> set xs) (fold f xs (f x s))"
    using Cons.prems by (intro Cons.IH) auto
  then show ?case by simp
qed simp

definition somes :: "'p option list \<Rightarrow> 'p list" where
  "somes xs = List.map_filter id xs"

lemma set_somes: "set (somes xs) = {p. Some p \<in> set xs}"
  by (auto simp: somes_def map_filter_def) force

lemma somes_simps [simp]: "somes [] = []" "somes (None # xs) = somes xs" "somes (Some p # xs) = p # somes xs"
  "somes (xs @ ys) = somes xs @ somes ys"
  by (simp_all add: somes_def map_filter_def)

text \<open>The players of the other pools of the slot's group, and what the search finds.\<close>

definition group_players :: "pystr \<Rightarrow> 'p pools \<Rightarrow> 'p set" where
  "group_players grp pools = (\<Union>(role, ps) \<in> set pools. if map_of ROLE_GROUPS role = Some grp then set ps else {})"

lemma find_None: "find P xs = None \<longleftrightarrow> (\<forall>x \<in> set xs. \<not> P x)"
  by (auto simp: find_None_iff)

lemma group_players_simps [simp]:
  "group_players g [] = {}"
  "group_players g ((role, ps) # pools) =
    (if map_of ROLE_GROUPS role = Some g then set ps else {}) \<union> group_players g pools"
  by (auto simp: group_players_def)

lemma find_in_group_None:
  "find_in_group name grp pools used = None \<longleftrightarrow> (\<forall>p \<in> group_players grp pools. name p \<in> used)"
proof (induction name grp pools used rule: find_in_group.induct)
  case (2 name grp role ps pools used)
  then show ?case
  proof (cases "find (\<lambda>p. name p \<notin> used) ps")
    case None
    moreover from this have "\<forall>p \<in> set ps. name p \<in> used"
      by (simp only: find_None simp_thms)
    ultimately show ?thesis using 2 by auto
  qed (use 2 in \<open>auto dest: find_SomeD\<close>)
qed simp

lemma find_in_group_Some:
  "find_in_group name grp pools used = Some p \<Longrightarrow> p \<in> group_players grp pools \<and> name p \<notin> used"
  by (induction name grp pools used rule: find_in_group.induct)
    (auto split: option.splits if_splits dest: find_SomeD)

lemma find_player_None:
  "find_player name specific pools used role = None \<longleftrightarrow>
    (\<forall>p \<in> set (pool_of pools specific) \<union> group_players (slot_group specific role) pools. name p \<in> used)"
  by (auto simp: find_player_def find_None find_in_group_None split: option.split dest: find_SomeD)

lemma find_player_Some:
  assumes "find_player name specific pools used role = Some p"
  shows "name p \<notin> used"
    and "p \<in> set (pool_of pools specific) \<or>
      p \<in> group_players (slot_group specific role) pools \<and> (\<forall>q \<in> set (pool_of pools specific). name q \<in> used)"
  using assms
  by (auto simp: find_player_def find_None split: option.splits dest: find_SomeD find_in_group_Some)

text \<open>
  What holds of the state of the loop when the slots of \<open>D\<close> are done: \<open>used\<close> holds the names of
  the placed players, no name twice, and every done slot is settled for good, since \<open>used\<close> only
  grows.
\<close>

definition settled :: "('p \<Rightarrow> pystr) \<Rightarrow> 'p pools \<Rightarrow> formation \<Rightarrow> pystr set \<Rightarrow> nat \<Rightarrow> 'p option \<Rightarrow> bool" where
  "settled name pools f used i player \<longleftrightarrow>
     (let own = set (pool_of pools (specific_roles f ! i));
          others = group_players (slot_group (specific_roles f ! i) (sl_role (fm_slots f ! i))) pools
      in case player of
           None \<Rightarrow> \<forall>p \<in> own \<union> others. name p \<in> used
         | Some p \<Rightarrow> p \<in> own \<or> p \<in> others \<and> (\<forall>q \<in> own. name q \<in> used))"

definition filling :: "('p \<Rightarrow> pystr) \<Rightarrow> 'p pools \<Rightarrow> formation \<Rightarrow> nat set \<Rightarrow> pystr set \<times> 'p option list \<Rightarrow> bool" where
  "filling name pools f D = (\<lambda>(used, ordered).
     length ordered = length (fm_slots f) \<and> used = name ` set (somes ordered) \<and> distinct (map name (somes ordered)) \<and>
     (\<forall>i < length ordered. i \<notin> D \<longrightarrow> ordered ! i = None) \<and>
     (\<forall>i < length ordered. i \<in> D \<longrightarrow> settled name pools f used i (ordered ! i)))"

lemma settled_mono: "settled name pools f used i player \<Longrightarrow> used \<subseteq> used' \<Longrightarrow> settled name pools f used' i player"
  by (auto simp: settled_def Let_def split: option.splits)

lemma somes_upd:
  assumes "i < length xs" "xs ! i = None"
  shows "\<exists>as bs. somes xs = as @ bs \<and> somes (xs[i := Some p]) = as @ p # bs"
proof -
  have "xs = take i xs @ None # drop (Suc i) xs"
    using assms by (metis id_take_nth_drop)
  moreover have "xs[i := Some p] = take i xs @ Some p # drop (Suc i) xs"
    using assms by (simp add: upd_conv_take_nth_drop)
  ultimately show ?thesis
    by (metis append_Cons append_Nil somes_simps(2,3,4))
qed

lemma fill_slot_filling:
  assumes "filling name pools f D (used, ordered)" "i \<notin> D" "i < length (fm_slots f)"
  shows "filling name pools f (insert i D) (fill_slot name pools f i (used, ordered))"
proof -
  let ?find = "find_player name (specific_roles f ! i) pools used (sl_role (fm_slots f ! i))"
  from assms have i: "i < length ordered" "ordered ! i = None" and len: "length ordered = length (fm_slots f)"
    and used: "used = name ` set (somes ordered)" and dist: "distinct (map name (somes ordered))"
    and todo: "\<And>j. j < length ordered \<Longrightarrow> j \<notin> D \<Longrightarrow> ordered ! j = None"
    and old: "\<And>j. j < length ordered \<Longrightarrow> j \<in> D \<Longrightarrow> settled name pools f used j (ordered ! j)"
    by (auto simp: filling_def)
  show ?thesis
  proof (cases ?find)
    case None
    then have "settled name pools f used i None"
      by (simp add: settled_def find_player_None Let_def)
    with None i assms(1) show ?thesis
      by (auto simp: fill_slot_def filling_def list_update_same_conv nth_list_update list_update_id [of ordered i, unfolded i(2)])
  next
    case (Some p)
    obtain as bs where ab: "somes ordered = as @ bs" "somes (ordered[i := Some p]) = as @ p # bs"
      using somes_upd [OF i] by blast
    from Some have new: "name p \<notin> used"
      by (rule find_player_Some(1))
    from find_player_Some(2) [OF Some] have "settled name pools f (insert (name p) used) i (Some p)"
      by (auto simp: settled_def Let_def)
    moreover have "settled name pools f (insert (name p) used) j (ordered ! j)" if "j < length ordered" "j \<in> D" for j
      using old [OF that] by (rule settled_mono) auto
    ultimately show ?thesis
      using Some i len used dist todo new ab
      by (auto simp: fill_slot_def filling_def nth_list_update)
  qed
qed

lemma assign_filling:
  "\<exists>used. filling name pools f {..<length (fm_slots f)} (used, assign_slots name pools f)"
proof -
  let ?n = "length (fm_slots f)"
  let ?st = "fold (fill_slot name pools f) (slot_order f) ({}, replicate ?n None)"
  have order: "set (slot_order f) = {..<?n}" "distinct (slot_order f)"
    by (auto simp: slot_order_def)
  have none: "somes (replicate n None) = []" for n
    by (induction n) auto
  have start: "filling name pools f {} ({}, replicate ?n None)"
    by (simp add: filling_def none)
  have "filling name pools f ({} \<union> set (slot_order f)) ?st"
    by (rule fold_done [where Q = "filling name pools f"])
      (use order start fill_slot_filling in \<open>auto\<close>)
  then show ?thesis
    unfolding assign_slots_def order by (metis prod.collapse sup_bot_left)
qed

subsection \<open>What a line-up promises\<close>

lemma greedy:
  "length (assign_slots name pools f) = length (fm_slots f)"
  "distinct (map name (somes (assign_slots name pools f)))"
  "i < length (fm_slots f) \<Longrightarrow>
   settled name pools f (name ` set (somes (assign_slots name pools f))) i (assign_slots name pools f ! i)"
  using assign_filling [of name pools f] by (auto simp: filling_def)

text \<open>
  A line-up never fields anyone twice, and leaves a slot empty only when it must.  Whatever
  the pools and the formation, the line-up has one entry per slot; two slots never hold players of
  the same name; a slot stays empty only when everyone in the pool of its label and in the pools
  of its group is on the field; and a player stands in a slot of another label of the group only
  when everyone of that label is on the field.
\<close>

theorem line_up_is_greedy:
  "length (assign_slots name pools f) = length (fm_slots f) \<and>
   distinct (map name (somes (assign_slots name pools f))) \<and>
   list_all2 (settled name pools f (name ` set (somes (assign_slots name pools f))))
     [0..<length (fm_slots f)] (assign_slots name pools f)"
  by (simp add: greedy list_all2_conv_all_nth)

subsection \<open>The formations\<close>

lemma role_codes [str_simps]:
  "U ''GK'' = [71, 75]" "U ''DEF'' = [68, 69, 70]" "U ''MID'' = [77, 73, 68]" "U ''ATT'' = [65, 84, 84]"
  "U ''CB'' = [67, 66]" "U ''LB'' = [76, 66]" "U ''RB'' = [82, 66]" "U ''DM'' = [68, 77]" "U ''CM'' = [67, 77]"
  "U ''AM'' = [65, 77]" "U ''LW'' = [76, 87]" "U ''ST'' = [83, 84]" "U ''RW'' = [82, 87]"
  by code_simp+

definition well_formed :: "formation \<Rightarrow> bool" where
  "well_formed f \<longleftrightarrow>
     length (fm_slots f) = 11 \<and> map sl_role (fm_slots f) = U ''GK'' # filter (\<lambda>r. r \<noteq> U ''GK'') (map sl_role (fm_slots f)) \<and>
     length (specific_roles f) = 11 \<and>
     list_all2 (\<lambda>label s. map_of ROLE_GROUPS label = Some (sl_role s)) (specific_roles f) (fm_slots f) \<and>
     list_all (\<lambda>label. length (filter (\<lambda>l. l = label) (specific_roles f)) \<le> 1)
       [U ''LB'', U ''RB'', U ''LW'', U ''RW'']"

lemma formations_well_formed: "list_all well_formed FORMATIONS"
  by code_simp

lemma formation_slots:
  assumes "f \<in> set FORMATIONS"
  shows "length (fm_slots f) = 11"
    and "i < 11 \<Longrightarrow> map_of ROLE_GROUPS (specific_roles f ! i) = Some (sl_role (fm_slots f ! i))"
proof -
  have "well_formed f"
    using formations_well_formed assms by (simp add: list_all_iff)
  then show "length (fm_slots f) = 11"
    and "i < 11 \<Longrightarrow> map_of ROLE_GROUPS (specific_roles f ! i) = Some (sl_role (fm_slots f ! i))"
    by (simp_all only: well_formed_def list_all2_conv_all_nth)
qed

lemma pool_of_group:
  "p \<in> set (pool_of pools role) \<Longrightarrow> map_of ROLE_GROUPS role = Some g \<Longrightarrow> p \<in> group_players g pools"
  by (cases "map_of pools role") (force simp: pool_of_def group_players_def dest: map_of_SomeD [of pools])+

lemma line_up_in_group:
  assumes "f \<in> set FORMATIONS" "i < 11" "assign_slots name pools f ! i = Some p"
  shows "p \<in> group_players (sl_role (fm_slots f ! i)) pools"
  using greedy(3) [of i f name pools] formation_slots [OF assms(1)] assms(2,3)
  by (auto simp: settled_def slot_group_def Let_def intro: pool_of_group)

lemma enough_players_fill:
  assumes "f \<in> set FORMATIONS"
    and enough: "\<And>g. length (filter (\<lambda>s. sl_role s = g) (fm_slots f)) \<le> card (name ` group_players g pools)"
    and apart: "\<And>g h. g \<noteq> h \<Longrightarrow> name ` group_players g pools \<inter> name ` group_players h pools = {}"
  shows "None \<notin> set (assign_slots name pools f)"
proof
  let ?xi = "assign_slots name pools f"
  assume none: "None \<in> set ?xi"
  note label = formation_slots(2) [OF assms(1)]
  have n: "length (fm_slots f) = 11" "length ?xi = 11"
    and settled: "\<And>i. i < 11 \<Longrightarrow> settled name pools f (name ` set (somes ?xi)) i (?xi ! i)"
    by (simp_all add: greedy formation_slots(1) [OF assms(1)])
  from none n obtain i where i: "i < 11" "?xi ! i = None"
    by (metis in_set_conv_nth)
  define g where "g = sl_role (fm_slots f ! i)"
  define slots where "slots = {j. j < length (fm_slots f) \<and> sl_role (fm_slots f ! j) = g}"
  have "name ` group_players g pools \<subseteq> (\<lambda>j. name (the (?xi ! j))) ` (slots - {i})"
  proof
    fix x assume x: "x \<in> name ` group_players g pools"
    with settled [OF i(1)] i label [OF i(1)] have "x \<in> name ` set (somes ?xi)"
      by (auto simp: settled_def Let_def slot_group_def g_def)
    then obtain p j where p: "x = name p" "j < 11" "?xi ! j = Some p"
      using n by (auto simp: set_somes in_set_conv_nth)
    then have "p \<in> group_players (sl_role (fm_slots f ! j)) pools"
      by (intro line_up_in_group [OF assms(1)])
    with x p(1) apart have "sl_role (fm_slots f ! j) = g" by blast
    with p i n show "x \<in> (\<lambda>j. name (the (?xi ! j))) ` (slots - {i})"
      by (auto simp: slots_def image_iff intro!: bexI [of _ j])
  qed
  then have "card (name ` group_players g pools) \<le> card (slots - {i})"
    by (rule surj_card_le [rotated]) (simp add: slots_def)
  also have "\<dots> < card slots"
    using i n by (intro psubset_card_mono) (auto simp: slots_def g_def)
  also have "\<dots> = length (filter (\<lambda>s. sl_role s = g) (fm_slots f))"
    by (simp add: slots_def length_filter_conv_card)
  finally show False
    using enough [of g] by simp
qed

lemma map_Some_the: "None \<notin> set xs \<Longrightarrow> xs = map Some (map the xs)"
  by (induction xs) auto

text \<open>The group a player of the dataset plays in.\<close>

definition plays_in :: "tm_player \<Rightarrow> pystr \<Rightarrow> bool" where
  "plays_in p g \<longleftrightarrow>
     (case map_of POSITION_ROLES (tm_position p) of None \<Rightarrow> False | Some role \<Rightarrow> map_of ROLE_GROUPS role = Some g)"

lemma group_players_append_under:
  "group_players g (append_under role p pools) =
    (if map_of ROLE_GROUPS role = Some g then {p} else {}) \<union> group_players g pools"
  by (induction role p pools rule: append_under.induct) auto

lemma group_players_role_pools: "group_players g (role_pools players) = {p \<in> set players. plays_in p g}"
  unfolding role_pools_def
  by (induction players rule: rev_induct)
    (auto simp: group_players_append_under plays_in_def split: option.splits)

lemma group_players_shuffled:
  "(\<And>role ps. set (shuffle role ps) = set ps) \<Longrightarrow>
   group_players g (map (\<lambda>(role, ps). (role, shuffle role ps)) pools) = group_players g pools"
  by (induction pools) auto

text \<open>
  C18: a squad that suffices gives a full team.  From players with different names, at least as many
  in each group (goalkeepers, defenders, midfielders, forwards) as the formation has slots there,
  and however the pools are shuffled, the line-up of a league fills all eleven slots with eleven
  different players of the squad, each in his own group.
\<close>

theorem squad_gives_full_team:
  assumes "f \<in> set FORMATIONS" "\<And>role ps. set (shuffle role ps) = set ps" "distinct (map tm_name players)"
    and "\<And>g. length (filter (\<lambda>s. sl_role s = g) (fm_slots f)) \<le> length (filter (\<lambda>p. plays_in p g) players)"
  shows "\<exists>team. from_players shuffle players f None = map Some team \<and> length team = 11 \<and>
    distinct (map tm_name team) \<and> set team \<subseteq> set players \<and>
    list_all2 (\<lambda>p s. plays_in p (sl_role s)) team (fm_slots f)"
proof -
  let ?pools = "map (\<lambda>(role, ps). (role, shuffle role ps)) (role_pools players)"
  let ?xi = "assign_slots tm_name ?pools f"
  have xi: "from_players shuffle players f None = ?xi"
    by (simp add: from_players_def cut_pool_def)
  have groups: "group_players g ?pools = {p \<in> set players. plays_in p g}" for g
    by (simp add: group_players_shuffled assms(2) group_players_role_pools)
  have inj: "inj_on tm_name (set players)" and "distinct players"
    using assms(3) by (auto simp: distinct_map)
  then have card: "card (tm_name ` {p \<in> set players. plays_in p g}) = length (filter (\<lambda>p. plays_in p g) players)" for g
    by (subst card_image) (auto simp: inj_on_def distinct_length_filter Collect_conj_eq Int_commute)
  have apart: "tm_name ` {p \<in> set players. plays_in p g} \<inter> tm_name ` {p \<in> set players. plays_in p h} = {}" if "g \<noteq> h" for g h
    using inj that by (auto simp: plays_in_def dest!: inj_onD [OF inj] split: option.splits)
  have "None \<notin> set ?xi"
    by (rule enough_players_fill) (use assms(1,4) groups card apart in \<open>simp_all\<close>)
  then have all: "?xi = map Some (map the ?xi)"
    by (rule map_Some_the)
  obtain team where team: "?xi = map Some team"
    using all by blast
  have n: "length (fm_slots f) = 11" "length team = 11"
    using formation_slots(1) [OF assms(1)] greedy(1) [of tm_name "?pools" f] team by simp_all
  have in_group: "team ! i \<in> {p \<in> set players. plays_in p (sl_role (fm_slots f ! i))}" if "i < 11" for i
    using line_up_in_group [of f i tm_name "?pools" "team ! i"] assms(1) that team n by (simp add: groups)
  then have "set team \<subseteq> set players"
    using n by (auto simp: in_set_conv_nth)
  moreover have "somes (map Some team) = team"
    by (induction team) auto
  ultimately show ?thesis
    using greedy(2) [of tm_name "?pools" f] team n in_group xi
    by (intro exI [of _ team]) (auto simp: list_all2_conv_all_nth)
qed

definition squad :: "tm_player list" where
  "squad = map (\<lambda>(k, position). \<lparr>tm_name = U ''P'' @ show_nat k, tm_position = position, tm_market_value = 1\<rparr>)
     (List.enumerate 0
       [U ''Goalkeeper'', U ''Centre-Back'', U ''Centre-Back'', U ''Right-Back'', U ''Left-Back'',
        U ''Central Midfield'', U ''Left Midfield'', U ''Defensive Midfield'', U ''Second Striker'',
        U ''Left Winger'', U ''Right Winger'', U ''Goalkeeper''])"

lemma squad_facts:
  "distinct (map tm_name squad)"
  "map (\<lambda>p. map_of ROLE_GROUPS (the (map_of POSITION_ROLES (tm_position p)))) squad =
    map Some [U ''GK'', U ''DEF'', U ''DEF'', U ''DEF'', U ''DEF'', U ''MID'', U ''MID'', U ''MID'', U ''ATT'', U ''ATT'', U ''ATT'', U ''GK'']"
  "list_all (\<lambda>p. map_of POSITION_ROLES (tm_position p) \<noteq> None) squad"
  "map sl_role (fm_slots (FORMATIONS ! 0)) =
    [U ''GK'', U ''DEF'', U ''DEF'', U ''DEF'', U ''DEF'', U ''MID'', U ''MID'', U ''MID'', U ''ATT'', U ''ATT'', U ''ATT'']"
  by code_simp+

lemma squad_suffices:
  "length (filter (\<lambda>s. sl_role s = g) (fm_slots (FORMATIONS ! 0))) \<le> length (filter (\<lambda>p. plays_in p g) squad)"
proof -
  have "filter (\<lambda>p. plays_in p g) squad =
      filter (\<lambda>p. map_of ROLE_GROUPS (the (map_of POSITION_ROLES (tm_position p))) = Some g) squad"
    using squad_facts(3) by (intro filter_cong) (auto simp: plays_in_def list_all_iff)
  then have "length (filter (\<lambda>p. plays_in p g) squad) = length (filter (\<lambda>r. r = Some g)
      (map (\<lambda>p. map_of ROLE_GROUPS (the (map_of POSITION_ROLES (tm_position p)))) squad))"
    by (simp add: filter_map comp_def)
  moreover have "length (filter (\<lambda>s. sl_role s = g) (fm_slots (FORMATIONS ! 0))) =
      length (filter (\<lambda>r. r = g) (map sl_role (fm_slots (FORMATIONS ! 0))))"
    by (simp add: filter_map comp_def)
  ultimately show ?thesis
    unfolding squad_facts by (auto simp: str_simps)
qed

theorem squad_gives_full_team_witness:
  "\<exists>team. from_players (\<lambda>_. rev) squad (FORMATIONS ! 0) None = map Some team \<and> length team = 11 \<and>
    distinct (map tm_name team) \<and> set team \<subseteq> set squad \<and>
    list_all2 (\<lambda>p s. plays_in p (sl_role s)) team (fm_slots (FORMATIONS ! 0))"
proof (rule squad_gives_full_team)
  show "FORMATIONS ! 0 \<in> set FORMATIONS"
    by (simp add: FORMATIONS_def)
  show "distinct (map tm_name squad)"
    by (rule squad_facts(1))
  show "length (filter (\<lambda>s. sl_role s = g) (fm_slots (FORMATIONS ! 0))) \<le> length (filter (\<lambda>p. plays_in p g) squad)" for g
    by (rule squad_suffices)
qed simp

end
