(* ===== verification/Birthdays.thy ===== *)
theory Birthdays
  imports Guards
begin

text \<open>
  Birthdays: the book that stores them and the calendar that reads them
  (bot/domain/services/birthday_book.py, birthday_calendar.py), the command \<open>niver\<close>
  (bot/domain/commands/birthday.py) over the contract of the book, and the greetings at midnight
  (bot/application/birthday_scheduler.py).
\<close>

subsection \<open>Dates\<close>

datatype date = Date (dt_year: nat) (dt_month: nat) (dt_day: nat)

definition isleap :: "nat \<Rightarrow> bool" where
  "isleap y \<longleftrightarrow> y mod 4 = 0 \<and> (y mod 100 \<noteq> 0 \<or> y mod 400 = 0)"

definition days_in_month :: "nat \<Rightarrow> nat \<Rightarrow> nat" where
  "days_in_month y m = (if m = 2 then if isleap y then 29 else 28 else if m \<in> {4, 6, 9, 11} then 30 else 31)"

text \<open>The dates that the constructor \<open>date(year, month, day)\<close> accepts.\<close>

definition valid_date :: "date \<Rightarrow> bool" where
  "valid_date t \<longleftrightarrow> 1 \<le> dt_month t \<and> dt_month t \<le> 12 \<and> 1 \<le> dt_day t \<and> dt_day t \<le> days_in_month (dt_year t) (dt_month t)"

definition LEAP_YEAR :: nat where "LEAP_YEAR = 2000"
definition LEAP_DAY :: "nat \<times> nat" where "LEAP_DAY = (29, 2)"
definition LAST_DAY_OF_FEBRUARY :: "nat \<times> nat" where "LAST_DAY_OF_FEBRUARY = (28, 2)"

definition dates_celebrated :: "date \<Rightarrow> (nat \<times> nat) list" where
  "dates_celebrated today =
     (let d = (dt_day today, dt_month today) in
      if d = LAST_DAY_OF_FEBRUARY \<and> \<not> isleap (dt_year today) then [d, LEAP_DAY] else [d])"

definition zfill :: "nat \<Rightarrow> nat \<Rightarrow> pystr" where
  "zfill width n = replicate (width - length (show_nat n)) 48 @ show_nat n"

definition isoformat :: "date \<Rightarrow> pystr" where
  "isoformat t = zfill 4 (dt_year t) @ [45] @ zfill 2 (dt_month t) @ [45] @ zfill 2 (dt_day t)"

subsection \<open>The documents\<close>

record birthday =
  by_user :: pystr
  by_day :: nat
  by_month :: nat

text \<open>
  The two collections: the birthdays in the order in which the database returns them, and the
  text of each chat.
\<close>

record birthday_doc =
  bd_id :: pystr
  bd_chat :: pystr
  bd_user :: pystr
  bd_day :: nat
  bd_month :: nat

record birthday_docs =
  bs_birthdays :: "birthday_doc list"
  bs_messages :: "pystr \<Rightarrow> pystr option"

definition birthday_id :: "pystr \<Rightarrow> pystr \<Rightarrow> pystr" where
  "birthday_id chat user = chat @ [58] @ normalize_jid user"

definition birthday_document :: "pystr \<Rightarrow> birthday \<Rightarrow> birthday_doc" where
  "birthday_document chat b =
     \<lparr>bd_id = birthday_id chat (by_user b), bd_chat = chat, bd_user = normalize_jid (by_user b),
      bd_day = by_day b, bd_month = by_month b\<rparr>"

text \<open>\<open>UpdateOne({'_id': ...}, {'$set': ...}, upsert=True)\<close>, where the update sets every field.\<close>

fun upsert :: "birthday_doc \<Rightarrow> birthday_doc list \<Rightarrow> birthday_doc list" where
  "upsert doc [] = [doc]"
| "upsert doc (d # ds) = (if bd_id d = bd_id doc then doc # ds else d # upsert doc ds)"

definition doc_register :: "pystr \<Rightarrow> birthday list \<Rightarrow> (exn, birthday_docs, unit) act" where
  "doc_register chat bs = (\<lambda>db.
     (Inr (), db\<lparr>bs_birthdays := fold (\<lambda>b. upsert (birthday_document chat b)) bs (bs_birthdays db)\<rparr>))"

definition doc_remove :: "pystr \<Rightarrow> pystr list \<Rightarrow> (exn, birthday_docs, nat) act" where
  "doc_remove chat users = (\<lambda>db.
     let gone = (\<lambda>d. bd_chat d = chat \<and> bd_user d \<in> set (normalize_jids (map Some users))) in
     (Inr (length (filter gone (bs_birthdays db))),
      db\<lparr>bs_birthdays := filter (\<lambda>d. \<not> gone d) (bs_birthdays db)\<rparr>))"

definition doc_save_message :: "pystr \<Rightarrow> pystr \<Rightarrow> (exn, birthday_docs, unit) act" where
  "doc_save_message chat t = (\<lambda>db. (Inr (), db\<lparr>bs_messages := (bs_messages db)(chat \<mapsto> t)\<rparr>))"

definition to_birthday :: "birthday_doc \<Rightarrow> birthday" where
  "to_birthday d = \<lparr>by_user = bd_user d, by_day = bd_day d, by_month = bd_month d\<rparr>"

definition doc_of_chat :: "pystr \<Rightarrow> (exn, birthday_docs, birthday list) act" where
  "doc_of_chat chat = (\<lambda>db. (Inr (map to_birthday (filter (\<lambda>d. bd_chat d = chat) (bs_birthdays db))), db))"

text \<open>The users of a chat in the order of the documents.\<close>

definition celebrants :: "date \<Rightarrow> birthday_doc list \<Rightarrow> (pystr \<times> pystr list) list" where
  "celebrants today docs =
     fold (\<lambda>d. append_under (bd_chat d) (bd_user d))
       (filter (\<lambda>d. (bd_day d, bd_month d) \<in> set (dates_celebrated today)) docs) []"

definition doc_on :: "date \<Rightarrow> (exn, birthday_docs, (pystr \<times> pystr list) list) act" where
  "doc_on today = (\<lambda>db. (Inr (celebrants today (bs_birthdays db)), db))"

definition doc_message_for :: "pystr \<Rightarrow> (exn, birthday_docs, pystr option) act" where
  "doc_message_for chat = (\<lambda>db. (Inr (bs_messages db chat), db))"

text \<open>The book as the command and the scheduler see it.\<close>

record 'w book =
  bk_register :: "pystr \<Rightarrow> birthday list \<Rightarrow> (exn, 'w, unit) act"
  bk_remove :: "pystr \<Rightarrow> pystr list \<Rightarrow> (exn, 'w, nat) act"
  bk_save_message :: "pystr \<Rightarrow> pystr \<Rightarrow> (exn, 'w, unit) act"
  bk_of_chat :: "pystr \<Rightarrow> (exn, 'w, birthday list) act"

definition doc_book :: "birthday_docs book" where
  "doc_book = \<lparr>bk_register = doc_register, bk_remove = doc_remove, bk_save_message = doc_save_message,
     bk_of_chat = doc_of_chat\<rparr>"

subsection \<open>The command\<close>

definition DATE :: rx where
  "DATE = (let two = Seq (Cls CDigit) (Opt (Cls CDigit)) in rseq [two, Chr 47, two])"

definition MENTION_WITH_DATE :: rx where
  "MENTION_WITH_DATE = rseq [Chr 64, Plus (Cls CDigit), Plus (Cls CSpace), DATE]"

definition BIRTHDAY_USAGE :: pystr where
  "BIRTHDAY_USAGE = U ''Manda assim: *,niver 21/02* ou *,niver @fulano 01/12* {129300}''"

definition impossible_date :: "pystr \<Rightarrow> pystr" where
  "impossible_date t = t @ U '' n{227}o existe no calend{225}rio {129320}''"

text \<open>
  \<open>findall\<close>: the two groups of every match.  Digits and white space are disjoint, so the first
  group is the run of digits and the second what follows the white space.  A match is never
  empty, so a text as long as the fuel is read to its end.
\<close>

definition mention_groups :: "pystr \<Rightarrow> pystr \<times> pystr" where
  "mention_groups m =
     (takeWhile is_decimal (tl m), dropWhile is_space (dropWhile is_decimal (tl m)))"

fun findall_mentions :: "nat \<Rightarrow> pystr \<Rightarrow> (pystr \<times> pystr) list" where
  "findall_mentions 0 s = []"
| "findall_mentions (Suc n) s =
     (case search False MENTION_WITH_DATE s of
        None \<Rightarrow> []
      | Some (_, m, rest) \<Rightarrow> mention_groups m # findall_mentions n rest)"

text \<open>\<open>dict(pairs)\<close>: the last value of a key, at the place of the first.\<close>

definition last_wins :: "(pystr \<times> 'v) list \<Rightarrow> (pystr \<times> 'v) list" where
  "last_wins kvs = fold (\<lambda>(k, v). AList.update k v) kvs []"

definition parse_day_month :: "pystr \<Rightarrow> pystr \<Rightarrow> pystr + birthday" where
  "parse_day_month user t =
     (case (py_int (before 47 t), py_int (after 47 t)) of
        (Some day, Some month) \<Rightarrow>
          if valid_date (Date LEAP_YEAR month day) then Inr \<lparr>by_user = user, by_day = day, by_month = month\<rparr>
          else Inl (impossible_date t)
      | _ \<Rightarrow> Inl (impossible_date t))"

fun parse_all :: "(pystr \<times> pystr) list \<Rightarrow> pystr + birthday list" where
  "parse_all [] = Inr []"
| "parse_all ((user, t) # ds) =
     (case parse_day_month user t of
        Inl e \<Rightarrow> Inl e
      | Inr b \<Rightarrow> map_sum id ((#) b) (parse_all ds))"

text \<open>\<open>_parse\<close>: \<open>Inl\<close> is the message of an \<open>InvalidBirthdayError\<close>.\<close>

definition parse_birthdays :: "command_data \<Rightarrow> pystr \<Rightarrow> pystr + birthday list" where
  "parse_birthdays d rest =
     (if cd_mentioned_jids d = [] then
        if fullmatch False DATE rest then parse_all [(cd_sender_jid d, rest)] else Inl BIRTHDAY_USAGE
      else
        let dates = last_wins (findall_mentions (length rest) rest);
            by_number = last_wins (map (\<lambda>jid. (strip_jid (normalize_jid jid), jid)) (cd_mentioned_jids d))
        in if set (map fst dates) \<noteq> set (map fst by_number) then Inl BIRTHDAY_USAGE
           else parse_all (map (\<lambda>(number, t). (the (map_of by_number number), t)) dates))"

definition format_day :: "birthday \<Rightarrow> pystr" where
  "format_day b = zfill 2 (by_day b) @ [47] @ zfill 2 (by_month b)"

definition passed :: "date \<Rightarrow> birthday \<Rightarrow> bool" where
  "passed today b \<longleftrightarrow> by_month b < dt_month today \<or> by_month b = dt_month today \<and> by_day b < dt_day today"

text \<open>The sort key is the tuple (passed, month, day).\<close>

definition upcoming :: "date \<Rightarrow> birthday list \<Rightarrow> birthday list" where
  "upcoming today bs = sort_key (\<lambda>b. [of_bool (passed today b), by_month b, by_day b]) bs"

definition list_birthdays :: "'w book \<Rightarrow> date \<Rightarrow> command_data \<Rightarrow> (exn, 'w, bot_message list) act" where
  "list_birthdays bk today d =
     bindA (bk_of_chat bk (cd_jid d))
       (\<lambda>bs. if bs = [] then ret [reply_text d (U ''Ningu{233}m cadastrou anivers{225}rio ainda {127880}'')]
         else let us = upcoming today bs in
           ret [reply_text_with d (U ''{127874} *ANIVERS{193}RIOS* {127874}{10}{10}'' @
                  join [10] (map (\<lambda>b. U ''- '' @ format_day b @ U '' @'' @ strip_jid (by_user b)) us))
                (map by_user us)])"

definition save_greeting :: "'w book \<Rightarrow> command_data \<Rightarrow> (exn, 'w, bot_message list) act" where
  "save_greeting bk d =
     (if \<not> truthy_str (cd_quoted_text d)
      then ret [reply_text d (U ''Responda a mensagem de parab{233}ns com *,niver save* {129300}'')]
      else bindA (bk_save_message bk (cd_jid d) (the (cd_quoted_text d)))
             (\<lambda>_. ret [reply_text d (U ''Mensagem de anivers{225}rio salva! {127874}'')]))"

definition remove_birthdays :: "'w book \<Rightarrow> command_data \<Rightarrow> (exn, 'w, bot_message list) act" where
  "remove_birthdays bk d =
     (let targets = (if cd_mentioned_jids d = [] then [cd_sender_jid d] else cd_mentioned_jids d) in
      bindA (bk_remove bk (cd_jid d) targets)
        (\<lambda>n. ret [if n = 0 then reply_text d (U ''N{227}o achei esse anivers{225}rio {129300}'')
                  else reply_text d (U ''Anivers{225}rio removido! {128465}{65039}'')]))"

definition noted :: "command_data \<Rightarrow> birthday list \<Rightarrow> bot_message" where
  "noted d bs = reply_text_with d (U ''{127874} Anotado!{10}{10}'' @
     join [10] (map (\<lambda>b. U ''- @'' @ strip_jid (by_user b) @ [32] @ format_day b) bs)) (map by_user bs)"

definition birthday_execute :: "'w book \<Rightarrow> date \<Rightarrow> 'w exec" where
  "birthday_execute bk today = (\<lambda>d parsed.
     let rest = strip (pc_rest parsed); keyword = lower (before 32 rest) in
     if keyword = U ''save'' then save_greeting bk d
     else if keyword = U ''remove'' then remove_birthdays bk d
     else if rest = [] then list_birthdays bk today d
     else case parse_birthdays d rest of
            Inl e \<Rightarrow> ret [reply_text d e]
          | Inr bs \<Rightarrow> bindA (bk_register bk (cd_jid d) bs) (\<lambda>_. ret [noted d bs]))"

subsection \<open>The scheduler\<close>

definition DEFAULT_BIRTHDAY_MESSAGE :: pystr where
  "DEFAULT_BIRTHDAY_MESSAGE =
     U ''Feliz anivers{225}rio! {129395} Que o seu dia seja pura resenha {127881}''"

definition birthday_greeting :: "pystr \<Rightarrow> pystr \<Rightarrow> pystr" where
  "birthday_greeting mentions t = U ''{127874} '' @ mentions @ [10, 10] @ t"

text \<open>
  What the scheduler uses: the calendar, \<open>SET key 1 NX EX ...\<close> of Redis, when there is one, and
  the sending of a text with mentions.
\<close>

record 'w scheduler =
  sc_on :: "date \<Rightarrow> (exn, 'w, (pystr \<times> pystr list) list) act"
  sc_message_for :: "pystr \<Rightarrow> (exn, 'w, pystr option) act"
  sc_set_nx :: "(pystr \<Rightarrow> (exn, 'w, bool) act) option"
  sc_send :: "pystr \<Rightarrow> pystr \<Rightarrow> pystr list \<Rightarrow> (exn, 'w, unit) act"

definition sent_key :: "pystr \<Rightarrow> date \<Rightarrow> pystr" where
  "sent_key chat today = U ''birthday_sent:'' @ chat @ [58] @ isoformat today"

definition claim_greeting :: "'w scheduler \<Rightarrow> pystr \<Rightarrow> date \<Rightarrow> (exn, 'w, bool) act" where
  "claim_greeting sc chat today =
     (case sc_set_nx sc of
        None \<Rightarrow> ret True
      | Some set_nx \<Rightarrow> handleA (set_nx (sent_key chat today)) (\<lambda>e. if redis_error e then ret True else raise e))"

definition greeting_text :: "pystr option \<Rightarrow> pystr list \<Rightarrow> pystr" where
  "greeting_text saved users =
     birthday_greeting (join [32] (map (\<lambda>j. 64 # strip_jid j) users))
       (if truthy_str saved then the saved else DEFAULT_BIRTHDAY_MESSAGE)"

fun greet_chats :: "'w scheduler \<Rightarrow> date \<Rightarrow> (pystr \<times> pystr list) list \<Rightarrow> (exn, 'w, unit) act" where
  "greet_chats sc today [] = ret ()"
| "greet_chats sc today ((chat, users) # chats) =
     bindA (claim_greeting sc chat today)
       (\<lambda>ok. if \<not> ok then greet_chats sc today chats
         else bindA (sc_message_for sc chat)
           (\<lambda>saved. bindA (sc_send sc chat (greeting_text saved users) users)
             (\<lambda>_. greet_chats sc today chats)))"

definition celebrate :: "'w scheduler \<Rightarrow> date \<Rightarrow> (exn, 'w, unit) act" where
  "celebrate sc today = bindA (sc_on sc today) (greet_chats sc today)"

text \<open>One turn of \<open>run\<close>: an \<open>Exception\<close> is logged, anything else ends the task.\<close>

definition celebration_turn :: "'w scheduler \<Rightarrow> date \<Rightarrow> (exn, 'w, unit) act" where
  "celebration_turn sc today =
     handleA (celebrate sc today) (\<lambda>e. if is_exception e then ret () else raise e)"

definition MICROS_PER_DAY :: nat where "MICROS_PER_DAY = 86400000000"

text \<open>The sleep until midnight, in microseconds, from the microseconds of the day gone by.\<close>

definition micros_until_midnight :: "nat \<Rightarrow> nat" where
  "micros_until_midnight now = MICROS_PER_DAY - now"

lemma sleep_ends_at_midnight:
  "now < MICROS_PER_DAY \<Longrightarrow> 0 < micros_until_midnight now \<and> (now + micros_until_midnight now) mod MICROS_PER_DAY = 0"
  by (simp add: micros_until_midnight_def)

subsection \<open>Every birthday once a year\<close>

text \<open>A day that exists in a leap year: the days the command accepts.\<close>

definition real_day :: "nat \<times> nat \<Rightarrow> bool" where
  "real_day v \<longleftrightarrow> valid_date (Date LEAP_YEAR (snd v) (fst v))"

definition day_in_year :: "nat \<Rightarrow> nat \<times> nat \<Rightarrow> date" where
  "day_in_year y v = (if v = LEAP_DAY \<and> \<not> isleap y then Date y 2 28 else Date y (snd v) (fst v))"

lemma leap_year_leap: "isleap LEAP_YEAR"
  by (simp add: isleap_def LEAP_YEAR_def)

lemma day_in_year_valid: "real_day v \<Longrightarrow> valid_date (day_in_year y v)"
  using leap_year_leap
  by (cases v) (auto simp: real_day_def valid_date_def day_in_year_def days_in_month_def LEAP_DAY_def split: if_splits)

lemma celebrated_iff:
  assumes "real_day v" "valid_date t"
  shows "v \<in> set (dates_celebrated t) \<longleftrightarrow> t = day_in_year (dt_year t) v"
  using assms
  by (cases v; cases t)
    (auto simp: dates_celebrated_def day_in_year_def LEAP_DAY_def LAST_DAY_OF_FEBRUARY_def valid_date_def days_in_month_def
      Let_def split: if_splits)

subsection \<open>The documents as a map\<close>

definition doc_entry :: "birthday_doc \<Rightarrow> (pystr \<times> pystr) \<times> (nat \<times> nat)" where
  "doc_entry d = ((bd_chat d, bd_user d), (bd_day d, bd_month d))"

definition birthday_view :: "birthday_docs \<Rightarrow> pystr \<Rightarrow> pystr \<Rightarrow> (nat \<times> nat) option" where
  "birthday_view db chat user = map_of (map doc_entry (bs_birthdays db)) (chat, user)"

text \<open>
  The identifier pins the chat and the user, since no chat has a colon in its JID; nobody has two
  birthdays in a chat, and every day is one of the calendar.
\<close>

definition doc_ok :: "birthday_doc \<Rightarrow> bool" where
  "doc_ok d \<longleftrightarrow> bd_id d = bd_chat d @ [58] @ bd_user d \<and> 58 \<notin> set (bd_chat d) \<and> real_day (bd_day d, bd_month d)"

definition birthday_inv :: "birthday_docs \<Rightarrow> bool" where
  "birthday_inv db \<longleftrightarrow> list_all doc_ok (bs_birthdays db) \<and> distinct (map fst (map doc_entry (bs_birthdays db)))"

definition put_days :: "birthday list \<Rightarrow> (pystr \<Rightarrow> (nat \<times> nat) option) \<Rightarrow> pystr \<Rightarrow> (nat \<times> nat) option" where
  "put_days bs m = fold (\<lambda>b m. m(normalize_jid (by_user b) \<mapsto> (by_day b, by_month b))) bs m"

lemma put_days_simps [simp]:
  "put_days [] m = m"
  "put_days (b # bs) m = put_days bs (m(normalize_jid (by_user b) \<mapsto> (by_day b, by_month b)))"
  by (simp_all add: put_days_def)

lemma append_colon:
  fixes x :: nat
  assumes "x \<notin> set as" "x \<notin> set cs"
  shows "as @ x # bs = cs @ x # ds \<longleftrightarrow> as = cs \<and> bs = ds"
  using assms by (induction as arbitrary: cs) (case_tac cs; auto)+

lemma doc_ok_id: "doc_ok d \<Longrightarrow> doc_ok e \<Longrightarrow> bd_id d = bd_id e \<longleftrightarrow> fst (doc_entry d) = fst (doc_entry e)"
  by (auto simp: doc_ok_def doc_entry_def append_colon)

lemma upsert_entries:
  "doc_ok doc \<Longrightarrow> list_all doc_ok ds \<Longrightarrow>
   list_all doc_ok (upsert doc ds) \<and>
   map doc_entry (upsert doc ds) = AList.update (fst (doc_entry doc)) (snd (doc_entry doc)) (map doc_entry ds)"
  by (induction doc ds rule: upsert.induct) (auto simp: doc_ok_id)

lemma register_entries:
  assumes "58 \<notin> set chat" "list_all (\<lambda>b. real_day (by_day b, by_month b)) bs" "birthday_inv db"
    and "db' = db\<lparr>bs_birthdays := fold (\<lambda>b. upsert (birthday_document chat b)) bs (bs_birthdays db)\<rparr>"
  shows "birthday_inv db' \<and> birthday_view db' = (birthday_view db)(chat := put_days bs (birthday_view db chat))"
  using assms
proof (induction bs arbitrary: db)
  case Nil
  then show ?case by simp
next
  case (Cons b bs)
  let ?d = "birthday_document chat b"
  let ?db = "db\<lparr>bs_birthdays := upsert ?d (bs_birthdays db)\<rparr>"
  from Cons.prems have ok: "doc_ok ?d"
    by (simp add: doc_ok_def birthday_document_def birthday_id_def)
  have entry: "doc_entry ?d = ((chat, normalize_jid (by_user b)), (by_day b, by_month b))"
    by (simp add: doc_entry_def birthday_document_def)
  have "list_all doc_ok (bs_birthdays db)"
    using Cons.prems by (simp add: birthday_inv_def)
  note up = upsert_entries [OF ok this]
  from up Cons.prems have inv: "birthday_inv ?db"
    by (simp add: birthday_inv_def distinct_update del: map_map)
  have "map_of (map doc_entry (bs_birthdays ?db)) =
      (map_of (map doc_entry (bs_birthdays db)))((chat, normalize_jid (by_user b)) \<mapsto> (by_day b, by_month b))"
    using up by (simp add: entry update_conv')
  then have view: "birthday_view ?db =
      (birthday_view db)(chat := (birthday_view db chat)(normalize_jid (by_user b) \<mapsto> (by_day b, by_month b)))"
    by (auto simp: birthday_view_def fun_eq_iff)
  have "birthday_inv db' \<and> birthday_view db' = (birthday_view ?db)(chat := put_days bs (birthday_view ?db chat))"
    using Cons.prems inv by (intro Cons.IH) simp_all
  then show ?case
    unfolding view by (simp del: fun_upd_apply add: fun_upd_same)
qed

lemma map_of_filter_fst: "map_of (filter (\<lambda>e. P (fst e)) xs) k = (if P k then map_of xs k else None)"
  by (induction xs) auto

lemma remove_view:
  assumes "birthday_inv db" "doc_remove chat users db = (Inr n, db')"
  shows "birthday_inv db' \<and>
    birthday_view db' = (birthday_view db)(chat := (birthday_view db chat) |` (- set (normalize_jids (map Some users)))) \<and>
    (n = 0 \<longleftrightarrow> birthday_view db' = birthday_view db)"
proof -
  let ?users = "set (normalize_jids (map Some users))"
  let ?gone = "\<lambda>d. bd_chat d = chat \<and> bd_user d \<in> ?users"
  let ?keep = "\<lambda>k. \<not> (fst k = chat \<and> snd k \<in> ?users)"
  from assms(2) have db': "db' = db\<lparr>bs_birthdays := filter (\<lambda>d. \<not> ?gone d) (bs_birthdays db)\<rparr>"
    and n: "n = length (filter ?gone (bs_birthdays db))"
    by (auto simp: doc_remove_def Let_def)
  have entries: "map doc_entry (bs_birthdays db') = filter (\<lambda>e. ?keep (fst e)) (map doc_entry (bs_birthdays db))"
    by (simp add: db' filter_map comp_def doc_entry_def)
  have view: "birthday_view db' c u = (if ?keep (c, u) then birthday_view db c u else None)" for c u
    unfolding birthday_view_def entries map_of_filter_fst [of ?keep] by simp
  have "birthday_inv db'"
    using assms(1) unfolding birthday_inv_def entries
    by (intro conjI distinct_map_filter) (auto simp: db' list_all_iff)
  moreover have "birthday_view db' = (birthday_view db)(chat := (birthday_view db chat) |` (- ?users))"
    by (auto simp: view restrict_map_def fun_eq_iff)
  moreover have "n = 0 \<longleftrightarrow> birthday_view db' = birthday_view db"
  proof
    assume "n = 0"
    then show "birthday_view db' = birthday_view db"
      by (simp add: n db' filter_empty_conv)
  next
    assume same: "birthday_view db' = birthday_view db"
    show "n = 0"
    proof (rule ccontr)
      assume "n \<noteq> 0"
      then obtain d where d: "d \<in> set (bs_birthdays db)" "?gone d"
        by (auto simp: n filter_empty_conv)
      then have "fst (doc_entry d) \<in> fst ` set (map doc_entry (bs_birthdays db))"
        by (intro imageI) simp
      then have "(bd_chat d, bd_user d) \<in> fst ` set (map doc_entry (bs_birthdays db))"
        by (simp only: doc_entry_def fst_conv)
      then have "birthday_view db (bd_chat d) (bd_user d) \<noteq> None"
        by (simp only: birthday_view_def map_of_eq_None_iff simp_thms)
      with d(2) same view [of "bd_chat d" "bd_user d"] show False by simp
    qed
  qed
  ultimately show ?thesis by blast
qed

lemma of_chat_view:
  assumes "birthday_inv db"
  shows "\<exists>bs. doc_of_chat chat db = (Inr bs, db) \<and> distinct (map by_user bs) \<and>
    birthday_view db chat = map_of (map (\<lambda>b. (by_user b, (by_day b, by_month b))) bs)"
proof -
  have "distinct (map by_user (map to_birthday (filter (\<lambda>d. bd_chat d = chat) ds)))"
    if "distinct (map fst (map doc_entry ds))" for ds
    using that by (induction ds) (auto simp: to_birthday_def doc_entry_def image_iff)
  moreover have "map_of (map doc_entry ds) (chat, u) =
      map_of (map (\<lambda>b. (by_user b, (by_day b, by_month b))) (map to_birthday (filter (\<lambda>d. bd_chat d = chat) ds))) u" for ds u
    by (induction ds) (auto simp: to_birthday_def doc_entry_def)
  ultimately show ?thesis
    using assms unfolding doc_of_chat_def birthday_view_def birthday_inv_def
    by (intro exI [of _ "map to_birthday (filter (\<lambda>d. bd_chat d = chat) (bs_birthdays db))"]) (simp add: fun_eq_iff)
qed

subsection \<open>The contract of the book\<close>

locale birthday_book =
  fixes bk :: "'w book"
    and inv :: "'w \<Rightarrow> bool"
    and view :: "'w \<Rightarrow> pystr \<Rightarrow> pystr \<Rightarrow> (nat \<times> nat) option"
  assumes register: "inv w \<Longrightarrow> 58 \<notin> set chat \<Longrightarrow> list_all (\<lambda>b. real_day (by_day b, by_month b)) bs \<Longrightarrow>
      \<exists>w'. bk_register bk chat bs w = (Inr (), w') \<and> inv w' \<and> view w' = (view w)(chat := put_days bs (view w chat))"
    and remove: "inv w \<Longrightarrow>
      \<exists>n w'. bk_remove bk chat users w = (Inr n, w') \<and> inv w' \<and>
        view w' = (view w)(chat := (view w chat) |` (- set (normalize_jids (map Some users)))) \<and>
        (n = 0 \<longleftrightarrow> view w' = view w)"
    and save: "inv w \<Longrightarrow> \<exists>w'. bk_save_message bk chat t w = (Inr (), w') \<and> inv w' \<and> view w' = view w"
    and of_chat: "inv w \<Longrightarrow>
      \<exists>bs. bk_of_chat bk chat w = (Inr bs, w) \<and> distinct (map by_user bs) \<and>
        view w chat = map_of (map (\<lambda>b. (by_user b, (by_day b, by_month b))) bs)"

text \<open>What the command does to the birthdays of its chat.\<close>

definition birthday_spec ::
  "command_data \<Rightarrow> pystr \<Rightarrow> (pystr \<Rightarrow> (nat \<times> nat) option) \<Rightarrow> pystr \<Rightarrow> (nat \<times> nat) option" where
  "birthday_spec d text m =
     (let rest = strip text; keyword = lower (before 32 rest);
          targets = (if cd_mentioned_jids d = [] then [cd_sender_jid d] else cd_mentioned_jids d)
      in if keyword = U ''save'' then m
         else if keyword = U ''remove'' then m |` (- set (normalize_jids (map Some targets)))
         else if rest = [] then m
         else case parse_birthdays d rest of Inl _ \<Rightarrow> m | Inr bs \<Rightarrow> put_days bs m)"

lemma parse_day_month_real: "parse_day_month user t = Inr b \<Longrightarrow> real_day (by_day b, by_month b)"
  by (auto simp: parse_day_month_def real_day_def split: option.splits if_splits)

lemma parse_all_real: "parse_all uts = Inr bs \<Longrightarrow> list_all (\<lambda>b. real_day (by_day b, by_month b)) bs"
proof (induction uts arbitrary: bs rule: parse_all.induct)
  case (2 user t uts)
  then show ?case
    by (cases "parse_day_month user t"; cases "parse_all uts") (auto simp: parse_day_month_real)
qed simp

lemma parse_birthdays_real: "parse_birthdays d rest = Inr bs \<Longrightarrow> list_all (\<lambda>b. real_day (by_day b, by_month b)) bs"
  by (auto simp: parse_birthdays_def Let_def simp del: parse_all.simps intro: parse_all_real split: if_splits)

context birthday_book begin

definition does :: "'w \<Rightarrow> pystr \<Rightarrow> (pystr \<Rightarrow> (nat \<times> nat) option) \<Rightarrow> (exn, 'w, bot_message list) act \<Rightarrow> bool" where
  "does w chat m act \<longleftrightarrow> (\<exists>ms w'. act w = (Inr ms, w') \<and> inv w' \<and> view w' = (view w)(chat := m))"

lemma does_ret: "inv w \<Longrightarrow> does w chat (view w chat) (ret ms)"
  by (simp add: does_def)

lemma does_save: "inv w \<Longrightarrow> does w chat (view w chat) (save_greeting bk d)"
  using save [of w "cd_jid d" "the (cd_quoted_text d)"]
  by (auto simp: does_def save_greeting_def bindA_def)

lemma does_remove:
  "inv w \<Longrightarrow> does w (cd_jid d)
     (view w (cd_jid d) |` (- set (normalize_jids (map Some
        (if cd_mentioned_jids d = [] then [cd_sender_jid d] else cd_mentioned_jids d))))) (remove_birthdays bk d)"
  using remove [of w "cd_jid d" "if cd_mentioned_jids d = [] then [cd_sender_jid d] else cd_mentioned_jids d"]
  unfolding does_def remove_birthdays_def Let_def by (auto simp: bindA_def)

lemma does_list: "inv w \<Longrightarrow> does w chat (view w chat) (list_birthdays bk today d)"
  using of_chat [of w "cd_jid d"]
  by (auto simp: does_def list_birthdays_def bindA_def Let_def)

lemma does_register:
  "inv w \<Longrightarrow> 58 \<notin> set (cd_jid d) \<Longrightarrow> list_all (\<lambda>b. real_day (by_day b, by_month b)) bs \<Longrightarrow>
   does w (cd_jid d) (put_days bs (view w (cd_jid d))) (bindA (bk_register bk (cd_jid d) bs) (\<lambda>_. ret [noted d bs]))"
  using register [of w "cd_jid d" bs] by (auto simp: does_def bindA_def)

lemma execute_does:
  assumes "inv w" "58 \<notin> set (cd_jid d)"
  shows "does w (cd_jid d) (birthday_spec d (pc_rest parsed) (view w (cd_jid d))) (birthday_execute bk today d parsed)"
proof (cases "parse_birthdays d (strip (pc_rest parsed))")
  case (Inl e)
  with assms show ?thesis
    by (simp add: birthday_execute_def birthday_spec_def Let_def does_ret does_save does_remove does_list)
next
  case (Inr bs)
  then have "list_all (\<lambda>b. real_day (by_day b, by_month b)) bs"
    by (rule parse_birthdays_real)
  with Inr assms show ?thesis
    by (simp add: birthday_execute_def birthday_spec_def Let_def does_save does_remove does_list does_register)
qed

end

interpretation birthday_documents: birthday_book doc_book birthday_inv birthday_view
proof (unfold_locales, goal_cases)
  case (1 w chat bs)
  then show ?case
    using register_entries [of chat bs w] by (auto simp: doc_book_def doc_register_def)
next
  case (2 w chat users)
  then show ?case
    using remove_view [of w chat users] by (auto simp: doc_book_def doc_remove_def Let_def)
next
  case (3 w chat t)
  then show ?case
    by (auto simp: doc_book_def doc_save_message_def birthday_inv_def birthday_view_def fun_eq_iff)
next
  case (4 w chat)
  then show ?case
    using of_chat_view [of w chat] by (simp add: doc_book_def)
qed

text \<open>
  C17: the birthday book keeps its promises.  In a chat whose JID has no colon, \<open>niver\<close> always
  answers, and changes the birthdays of that chat as specified on a map from people to days: a
  date replaces the one the person had, \<open>remove\<close> forgets the people asked for, and everything else,
  a refused date included, changes nothing.  Nobody ever has two birthdays in a chat, every
  stored day exists, and the other chats are left alone.
\<close>

theorem birthdays_refine:
  assumes "birthday_inv db" "58 \<notin> set (cd_jid d)"
  shows "\<exists>ms db'. birthday_execute doc_book today d parsed db = (Inr ms, db') \<and> birthday_inv db' \<and>
    birthday_view db' =
      (birthday_view db)(cd_jid d := birthday_spec d (pc_rest parsed) (birthday_view db (cd_jid d)))"
  using birthday_documents.execute_does [OF assms, of parsed today]
  unfolding birthday_documents.does_def .

definition party_db :: birthday_docs where
  "party_db = \<lparr>bs_birthdays = [\<lparr>bd_id = U ''g@g.us:7@lid'', bd_chat = U ''g@g.us'', bd_user = U ''7@lid'', bd_day = 29, bd_month = 2\<rparr>],
     bs_messages = Map.empty\<rparr>"

lemma party_db_inv: "birthday_inv party_db"
  by code_simp

theorem birthdays_refine_witness:
  "\<exists>ms db'. birthday_execute doc_book (Date 2026 7 1) (CommandData (U '',niver 21/02'') (U ''g@g.us'') (U ''8@lid''))
      \<lparr>pc_command_name = U ''niver'', pc_flags = {}, pc_options = [], pc_rest = U ''21/02''\<rparr> party_db = (Inr ms, db') \<and> birthday_inv db' \<and>
    birthday_view db' = (birthday_view party_db)(cd_jid (CommandData (U '',niver 21/02'') (U ''g@g.us'') (U ''8@lid'')) :=
      birthday_spec (CommandData (U '',niver 21/02'') (U ''g@g.us'') (U ''8@lid''))
        (pc_rest \<lparr>pc_command_name = U ''niver'', pc_flags = {}, pc_options = [], pc_rest = U ''21/02''\<rparr>)
        (birthday_view party_db (cd_jid (CommandData (U '',niver 21/02'') (U ''g@g.us'') (U ''8@lid'')))))"
  by (rule birthdays_refine [OF party_db_inv]) code_simp

subsection \<open>Celebrating\<close>

definition celebrated_in :: "pystr \<Rightarrow> (pystr \<times> pystr list) list \<Rightarrow> pystr list" where
  "celebrated_in chat cs = (case map_of cs chat of None \<Rightarrow> [] | Some us \<Rightarrow> us)"

lemma celebrated_in_Nil [simp]: "celebrated_in chat [] = []"
  by (simp add: celebrated_in_def)

lemma celebrated_in_append_under:
  "celebrated_in chat (append_under c u cs) = celebrated_in chat cs @ (if c = chat then [u] else [])"
  by (auto simp: celebrated_in_def map_of_append_under split: option.split)

lemma celebrated_in_celebrants:
  "celebrated_in chat (celebrants today docs) =
    map bd_user (filter (\<lambda>d. bd_chat d = chat \<and> (bd_day d, bd_month d) \<in> set (dates_celebrated today)) docs)"
  unfolding celebrants_def
  by (induction docs rule: rev_induct) (auto simp: celebrated_in_append_under)

lemma distinct_celebrants: "distinct (map fst (celebrants today docs))"
  unfolding celebrants_def by (rule fold_append_under_distinct) simp

lemma distinct_celebrated:
  assumes "birthday_inv db"
  shows "distinct (celebrated_in chat (celebrants today (bs_birthdays db)))"
proof -
  have "distinct (map (\<lambda>d. (bd_chat d, bd_user d)) (bs_birthdays db))"
    using assms by (simp add: birthday_inv_def doc_entry_def comp_def)
  then have "distinct (map (\<lambda>d. (bd_chat d, bd_user d))
      (filter (\<lambda>d. bd_chat d = chat \<and> (bd_day d, bd_month d) \<in> set (dates_celebrated today)) (bs_birthdays db)))"
    by (rule distinct_map_filter)
  then show ?thesis
    by (auto simp: celebrated_in_celebrants distinct_map inj_on_def)
qed

text \<open>
  C14: everyone is celebrated exactly once a year.  A person with a birthday in a chat, the leap day
  included, is among the people the scheduler celebrates there on exactly one day of every year,
  and only once on that day: on no day is a chat listed twice, nor a person twice in its greeting.
\<close>

theorem birthday_once_a_year:
  assumes "birthday_inv db" "birthday_view db chat user = Some v"
  shows "(\<exists>!t. dt_year t = y \<and> valid_date t \<and> user \<in> set (celebrated_in chat (celebrants t (bs_birthdays db)))) \<and>
    (\<forall>t. distinct (map fst (celebrants t (bs_birthdays db))) \<and> distinct (celebrated_in chat (celebrants t (bs_birthdays db))))"
proof -
  let ?docs = "bs_birthdays db"
  have dist: "distinct (map fst (map doc_entry ?docs))" and ok: "list_all doc_ok ?docs"
    using assms(1) by (auto simp: birthday_inv_def)
  from assms(2) have "((chat, user), v) \<in> set (map doc_entry ?docs)"
    unfolding birthday_view_def by (rule map_of_SomeD)
  then obtain d where d: "d \<in> set ?docs" "doc_entry d = ((chat, user), v)"
    by auto
  have only: "(bd_day e, bd_month e) = v" if "e \<in> set ?docs" "bd_chat e = chat" "bd_user e = user" for e
  proof -
    from that have "doc_entry e = ((chat, user), (bd_day e, bd_month e))"
      by (simp add: doc_entry_def)
    with that(1) have "((chat, user), (bd_day e, bd_month e)) \<in> set (map doc_entry ?docs)"
      by (metis image_eqI list.set_map)
    with dist have "map_of (map doc_entry ?docs) (chat, user) = Some (bd_day e, bd_month e)"
      by (rule map_of_is_SomeI)
    with assms(2) show ?thesis by (simp add: birthday_view_def)
  qed
  have day: "user \<in> set (celebrated_in chat (celebrants t ?docs)) \<longleftrightarrow> v \<in> set (dates_celebrated t)" for t
  proof
    assume "user \<in> set (celebrated_in chat (celebrants t ?docs))"
    then show "v \<in> set (dates_celebrated t)"
      by (auto simp: celebrated_in_celebrants dest: only)
  next
    assume "v \<in> set (dates_celebrated t)"
    with d show "user \<in> set (celebrated_in chat (celebrants t ?docs))"
      by (auto simp: celebrated_in_celebrants doc_entry_def intro!: rev_image_eqI [of d])
  qed
  have real: "real_day v"
    using ok d by (auto simp: list_all_iff doc_ok_def doc_entry_def)
  have year: "dt_year (day_in_year y v) = y"
    by (simp add: day_in_year_def)
  have "dt_year t = y \<and> valid_date t \<and> v \<in> set (dates_celebrated t) \<longleftrightarrow> t = day_in_year y v" for t
    using celebrated_iff [OF real, of t] day_in_year_valid [OF real, of y] year by auto
  then show ?thesis
    using distinct_celebrants distinct_celebrated [OF assms(1)] unfolding day by simp
qed

theorem birthday_once_a_year_witness:
  "(\<exists>!t. dt_year t = 1900 \<and> valid_date t \<and>
      U ''7@lid'' \<in> set (celebrated_in (U ''g@g.us'') (celebrants t (bs_birthdays party_db)))) \<and>
    (\<forall>t. distinct (map fst (celebrants t (bs_birthdays party_db))) \<and>
      distinct (celebrated_in (U ''g@g.us'') (celebrants t (bs_birthdays party_db))))"
  by (rule birthday_once_a_year [OF party_db_inv, of _ _ "(29, 2)"]) code_simp

subsection \<open>The greetings\<close>

text \<open>
  The scheduler at work: the documents, the claims in Redis and the greetings sent;
  \<open>refuse\<close> says which chats cannot be written to.  Redis may be absent, and for each
  key it may fail to answer the claim with an error, having taken the claim or not.
\<close>

record party =
  pa_docs :: birthday_docs
  pa_claims :: "pystr set"
  pa_sent :: "(pystr \<times> pystr \<times> pystr list) list"

type_synonym redis_health = "(pystr \<Rightarrow> (exn \<times> bool) option) option"

definition redis_works :: redis_health where "redis_works = Some (\<lambda>k. None)"

definition party_scheduler :: "redis_health \<Rightarrow> (pystr \<Rightarrow> exn option) \<Rightarrow> party scheduler" where
  "party_scheduler redis refuse =
     \<lparr>sc_on = (\<lambda>today w. (Inr (celebrants today (bs_birthdays (pa_docs w))), w)),
      sc_message_for = (\<lambda>chat w. (Inr (bs_messages (pa_docs w) chat), w)),
      sc_set_nx = map_option (\<lambda>health k w.
        case health k of
          None \<Rightarrow> (Inr (k \<notin> pa_claims w), w\<lparr>pa_claims := insert k (pa_claims w)\<rparr>)
        | Some (e, taken) \<Rightarrow> (Inl e, if taken then w\<lparr>pa_claims := insert k (pa_claims w)\<rparr> else w)) redis,
      sc_send = (\<lambda>chat t users w.
        case refuse chat of
          Some e \<Rightarrow> (Inl e, w)
        | None \<Rightarrow> (Inr (), w\<lparr>pa_sent := pa_sent w @ [(chat, t, users)]\<rparr>))\<rparr>"

lemma greet_step:
  "greet_chats (party_scheduler redis_works refuse) today ((chat, users) # cs) w =
    (let w' = w\<lparr>pa_claims := insert (sent_key chat today) (pa_claims w)\<rparr>;
         t = greeting_text (bs_messages (pa_docs w) chat) users
     in if sent_key chat today \<in> pa_claims w then greet_chats (party_scheduler redis_works refuse) today cs w'
        else case refuse chat of
          Some e \<Rightarrow> (Inl e, w')
        | None \<Rightarrow> greet_chats (party_scheduler redis_works refuse) today cs (w'\<lparr>pa_sent := pa_sent w @ [(chat, t, users)]\<rparr>))"
  by (auto simp: claim_greeting_def party_scheduler_def redis_works_def bindA_def handleA_def Let_def split: option.split)

lemma celebrate_party:
  "celebrate (party_scheduler redis refuse) today w =
    greet_chats (party_scheduler redis refuse) today (celebrants today (bs_birthdays (pa_docs w))) w"
  by (simp add: celebrate_def bindA_def party_scheduler_def)

lemma turn_world:
  "snd (celebration_turn (party_scheduler redis refuse) today w) = snd (celebrate (party_scheduler redis refuse) today w)"
  by (auto simp: celebration_turn_def handleA_def split: prod.split sum.split)

text \<open>The greetings of a chat, whether its claim is held, and whether Redis left the claim open.\<close>

definition greeted :: "pystr \<Rightarrow> party \<Rightarrow> nat" where
  "greeted chat w = length (filter (\<lambda>s. fst s = chat) (pa_sent w))"

definition held :: "pystr \<Rightarrow> date \<Rightarrow> party \<Rightarrow> nat" where
  "held chat today w = (if sent_key chat today \<in> pa_claims w then 1 else 0)"

definition claim_open :: "redis_health \<Rightarrow> pystr \<Rightarrow> bool" where
  "claim_open redis k \<longleftrightarrow> (case redis of None \<Rightarrow> True | Some health \<Rightarrow> health k \<noteq> None)"

lemma sent_key_inj: "sent_key c today = sent_key c' today \<longleftrightarrow> c = c'"
  by (simp add: sent_key_def)

lemma claim_facts:
  assumes "claim_greeting (party_scheduler redis refuse) chat today w = (r, w1)"
  shows "pa_sent w1 = pa_sent w" "c \<noteq> chat \<Longrightarrow> held c today w1 = held c today w"
    "held chat today w \<le> held chat today w1"
    "r = Inr True \<Longrightarrow> claim_open redis (sent_key chat today) \<or> held chat today w = 0 \<and> held chat today w1 = 1"
  using assms
  by (auto simp: claim_greeting_def party_scheduler_def claim_open_def held_def handleA_def sent_key_inj
      split: option.splits if_splits)

lemma greet_world:
  assumes "claim_greeting (party_scheduler redis refuse) chat today w = (r, w1)"
  shows "\<exists>w2. snd (greet_chats (party_scheduler redis refuse) today ((chat, users) # cs) w) \<in>
      {w2, snd (greet_chats (party_scheduler redis refuse) today cs w2)} \<and> pa_claims w2 = pa_claims w1 \<and>
    (pa_sent w2 = pa_sent w1 \<or> r = Inr True \<and> (\<exists>t. pa_sent w2 = pa_sent w1 @ [(chat, t, users)]))"
proof (cases r)
  case (Inr ok)
  let ?t = "greeting_text (bs_messages (pa_docs w1) chat) users"
  show ?thesis
  proof (cases "ok \<and> refuse chat = None")
    case True
    with Inr assms show ?thesis
      by (intro exI [of _ "w1\<lparr>pa_sent := pa_sent w1 @ [(chat, ?t, users)]\<rparr>"])
        (auto simp: bindA_def party_scheduler_def)
  next
    case False
    with Inr assms show ?thesis
      by (intro exI [of _ w1]) (auto simp: bindA_def party_scheduler_def)
  qed
qed (use assms in \<open>auto simp: bindA_def\<close>)

declare greet_chats.simps(2) [simp del]

lemma greet_others:
  "c \<notin> fst ` set cs \<Longrightarrow> w' = snd (greet_chats (party_scheduler redis refuse) today cs w) \<Longrightarrow>
   greeted c w' = greeted c w \<and> held c today w' = held c today w"
proof (induction cs arbitrary: w)
  case (Cons p cs)
  obtain chat users where p: "p = (chat, users)" by (cases p)
  obtain r w1 where claim: "claim_greeting (party_scheduler redis refuse) chat today w = (r, w1)"
    by (cases "claim_greeting (party_scheduler redis refuse) chat today w")
  from greet_world [OF claim] obtain w2 where
    w2: "w' \<in> {w2, snd (greet_chats (party_scheduler redis refuse) today cs w2)}" "pa_claims w2 = pa_claims w1"
      "pa_sent w2 = pa_sent w1 \<or> (\<exists>t. pa_sent w2 = pa_sent w1 @ [(chat, t, users)])"
    using Cons.prems(2) p by blast
  have "greeted c w2 = greeted c w" "held c today w2 = held c today w"
    using w2(2,3) claim_facts(1) [OF claim] claim_facts(2) [OF claim, of c] Cons.prems(1) p
    by (auto simp: greeted_def held_def)
  with w2(1) Cons.IH [of w2] Cons.prems(1) p show ?case by auto
qed auto

lemma greet_counts:
  assumes "distinct (map fst cs)" "w' = snd (greet_chats (party_scheduler redis refuse) today cs w)"
  shows "greeted c w' + held c today w \<le>
    greeted c w + held c today w' + (if claim_open redis (sent_key c today) then 1 else 0)"
  using assms
proof (induction cs arbitrary: w)
  case (Cons p cs)
  obtain chat users where p: "p = (chat, users)" by (cases p)
  obtain r w1 where claim: "claim_greeting (party_scheduler redis refuse) chat today w = (r, w1)"
    by (cases "claim_greeting (party_scheduler redis refuse) chat today w")
  from greet_world [OF claim] obtain w2 where
    w2: "w' \<in> {w2, snd (greet_chats (party_scheduler redis refuse) today cs w2)}" "pa_claims w2 = pa_claims w1"
      "pa_sent w2 = pa_sent w1 \<or> r = Inr True \<and> (\<exists>t. pa_sent w2 = pa_sent w1 @ [(chat, t, users)])"
    using Cons.prems(2) p by blast
  have held: "held x today w2 = held x today w1" for x
    using w2(2) by (simp add: held_def)
  show ?case
  proof (cases "c = chat")
    case True
    have "greeted c w' = greeted c w2" "held c today w' = held c today w2"
      using w2(1) greet_others [of c cs w' redis refuse today w2] Cons.prems(1) p True by auto
    moreover have "greeted c w2 + held c today w \<le>
        greeted c w + held c today w2 + (if claim_open redis (sent_key c today) then 1 else 0)"
      using w2(3) claim_facts [OF claim] True held by (auto simp: greeted_def)
    ultimately show ?thesis by simp
  next
    case False
    have "greeted c w2 = greeted c w" "held c today w2 = held c today w"
      using w2(3) claim_facts(1) [OF claim] claim_facts(2) [OF claim False] False held
      by (auto simp: greeted_def)
    with w2(1) Cons.IH [of w2] Cons.prems(1) show ?thesis by auto
  qed
qed simp

text \<open>
  The life of the scheduler on one day: each turn (a start of the process or a midnight) finds
  the documents as they are by then, a set of claims that Redis has lost since, and a Redis and
  chats that fail as they like.
\<close>

record party_turn =
  pt_docs :: birthday_docs
  pt_lost :: "pystr set"
  pt_redis :: redis_health
  pt_refuse :: "pystr \<Rightarrow> exn option"

definition take_turn :: "date \<Rightarrow> party_turn \<Rightarrow> party \<Rightarrow> party" where
  "take_turn today t w = snd (celebration_turn (party_scheduler (pt_redis t) (pt_refuse t)) today
     (w\<lparr>pa_docs := pt_docs t, pa_claims := pa_claims w - pt_lost t\<rparr>))"

definition claim_failed :: "pystr \<Rightarrow> date \<Rightarrow> party_turn \<Rightarrow> bool" where
  "claim_failed chat today t \<longleftrightarrow> claim_open (pt_redis t) (sent_key chat today)"

definition claim_lost :: "pystr \<Rightarrow> date \<Rightarrow> party_turn \<Rightarrow> bool" where
  "claim_lost chat today t \<longleftrightarrow> sent_key chat today \<in> pt_lost t"

lemma turn_counts:
  "greeted c (take_turn today t w) + held c today w \<le>
    greeted c w + held c today (take_turn today t w) +
    (if claim_failed c today t then 1 else 0) + (if claim_lost c today t then 1 else 0)"
proof -
  let ?w = "w\<lparr>pa_docs := pt_docs t, pa_claims := pa_claims w - pt_lost t\<rparr>"
  have "greeted c (take_turn today t w) + held c today ?w \<le>
      greeted c ?w + held c today (take_turn today t w) + (if claim_failed c today t then 1 else 0)"
    unfolding take_turn_def turn_world celebrate_party claim_failed_def
    by (rule greet_counts [OF distinct_celebrants refl])
  moreover have "held c today w \<le> held c today ?w + (if claim_lost c today t then 1 else 0)"
    by (simp add: held_def claim_lost_def)
  ultimately show ?thesis by (simp add: greeted_def)
qed

text \<open>
  C20: a chat is greeted once a day, unless Redis fails.  Through any number of turns of the
  scheduler on one day, restarts included, whatever the birthdays have become in between and
  whichever sends fail, a chat gets at most one greeting, plus one for each turn in which its
  claim could not be asked (no Redis, or an error of it: the scheduler then greets, a duplicate
  being better than a missed birthday) and one for each time Redis lost the claim.
\<close>

theorem one_greeting_a_day:
  "greeted chat (fold (take_turn today) turns \<lparr>pa_docs = docs0, pa_claims = claims, pa_sent = []\<rparr>) \<le>
    1 + length (filter (claim_failed chat today) turns) + length (filter (claim_lost chat today) turns)"
proof -
  have "greeted chat (fold (take_turn today) turns w) + held chat today w \<le>
      greeted chat w + held chat today (fold (take_turn today) turns w) +
      length (filter (claim_failed chat today) turns) + length (filter (claim_lost chat today) turns)" for w
  proof (induction turns arbitrary: w)
    case (Cons t turns)
    from Cons.IH [of "take_turn today t w"] turn_counts [of chat today t w] show ?case
      by (simp split: if_splits)
  qed simp
  from this [of "\<lparr>pa_docs = docs0, pa_claims = claims, pa_sent = []\<rparr>"] show ?thesis
    by (simp add: greeted_def held_def split: if_splits)
qed

lemma greet_fresh:
  assumes "distinct (map fst cs)" "\<And>c. c \<in> fst ` set cs \<Longrightarrow> sent_key c today \<notin> pa_claims w \<and> refuse c = None"
    and inj: "\<And>c c'. sent_key c today = sent_key c' today \<longleftrightarrow> c = c'"
  shows "\<exists>w'. (\<forall>rest. greet_chats (party_scheduler redis_works refuse) today (cs @ rest) w = greet_chats (party_scheduler redis_works refuse) today rest w') \<and>
    pa_docs w' = pa_docs w \<and> pa_claims w' = pa_claims w \<union> (\<lambda>c. sent_key c today) ` fst ` set cs \<and>
    map fst (pa_sent w') = map fst (pa_sent w) @ map fst cs"
  using assms(1,2)
proof (induction cs arbitrary: w)
  case (Cons c cs)
  obtain chat users where c: "c = (chat, users)" by (cases c)
  let ?w = "w\<lparr>pa_claims := insert (sent_key chat today) (pa_claims w),
    pa_sent := pa_sent w @ [(chat, greeting_text (bs_messages (pa_docs w) chat) users, users)]\<rparr>"
  from Cons.prems c have "sent_key x today \<notin> pa_claims ?w \<and> refuse x = None" if "x \<in> fst ` set cs" for x
    using that by (auto simp: inj)
  with Cons.IH [of ?w] Cons.prems c obtain w' where
    w': "\<And>rest. greet_chats (party_scheduler redis_works refuse) today (cs @ rest) ?w = greet_chats (party_scheduler redis_works refuse) today rest w'"
      "pa_docs w' = pa_docs ?w" "pa_claims w' = pa_claims ?w \<union> (\<lambda>c. sent_key c today) ` fst ` set cs"
      "map fst (pa_sent w') = map fst (pa_sent ?w) @ map fst cs"
    by auto
  have "greet_chats (party_scheduler redis_works refuse) today ((c # cs) @ rest) w = greet_chats (party_scheduler redis_works refuse) today rest w'" for rest
    using Cons.prems(2) [of chat] by (simp add: c greet_step Let_def w'(1))
  with w' c show ?case
    by (intro exI [of _ w']) auto
qed auto

lemma greet_claimed:
  "(\<And>c. c \<in> fst ` set cs \<Longrightarrow> sent_key c today \<in> pa_claims w) \<Longrightarrow>
   greet_chats (party_scheduler redis_works refuse) today (cs @ rest) w = greet_chats (party_scheduler redis_works refuse) today rest w"
  by (induction cs) (auto simp: greet_step Let_def insert_absorb)

lemma sent_key_image: "sent_key c today \<in> (\<lambda>c. sent_key c today) ` A \<longleftrightarrow> c \<in> A"
  by (auto simp: sent_key_inj)

text \<open>
  A chat that cannot be written to silences the ones behind it.  When the greeting of one chat
  fails, the chats after it get nothing in that turn, and the claim that was taken before the send keeps
  the failed chat from being greeted that day at all, even by a turn in which every send works.
\<close>

theorem failed_greeting_starves:
  assumes "celebrants today (bs_birthdays docs) = pre @ (chat, users) # post" "is_exception e"
  shows "let w1 = snd (celebration_turn (party_scheduler redis_works (\<lambda>c. if c = chat then Some e else None)) today
                 \<lparr>pa_docs = docs, pa_claims = {}, pa_sent = []\<rparr>) in
    map fst (pa_sent w1) = map fst pre \<and>
    map fst (pa_sent (snd (celebration_turn (party_scheduler redis_works (\<lambda>c. None)) today w1))) = map fst pre @ map fst post \<and>
    chat \<notin> set (map fst pre @ map fst post)"
proof -
  let ?bad = "\<lambda>c. if c = chat then Some e else None"
  define w where "w = \<lparr>pa_docs = docs, pa_claims = {}, pa_sent = []\<rparr>"
  define w1 where "w1 = snd (celebration_turn (party_scheduler redis_works ?bad) today w)"
  let ?keys = "\<lambda>cs. (\<lambda>c. sent_key c today) ` fst ` set cs"
  have dist: "distinct (map fst (pre @ (chat, users) # post))"
    unfolding assms(1) [symmetric] celebrants_def by (rule fold_append_under_distinct) simp
  have "\<exists>w'. (\<forall>rest. greet_chats (party_scheduler redis_works ?bad) today (pre @ rest) w = greet_chats (party_scheduler redis_works ?bad) today rest w') \<and>
      pa_docs w' = pa_docs w \<and> pa_claims w' = pa_claims w \<union> ?keys pre \<and>
      map fst (pa_sent w') = map fst (pa_sent w) @ map fst pre"
    by (rule greet_fresh [OF _ _ sent_key_inj]) (use dist w_def in auto)
  then obtain w' where w': "\<And>rest. greet_chats (party_scheduler redis_works ?bad) today (pre @ rest) w = greet_chats (party_scheduler redis_works ?bad) today rest w'"
      "pa_docs w' = docs" "pa_claims w' = ?keys pre" "map fst (pa_sent w') = map fst pre"
    using w_def by auto
  have w1: "w1 = w'\<lparr>pa_claims := insert (sent_key chat today) (?keys pre)\<rparr>"
    using dist by (auto simp: assms(1) w_def w1_def turn_world celebrate_party w'(1) [unfolded w_def] greet_step Let_def w'(3) sent_key_inj image_iff)
  have claimed: "\<And>c. c \<in> fst ` set (pre @ [(chat, users)]) \<Longrightarrow> sent_key c today \<in> pa_claims w1"
    by (auto simp: w1 sent_key_inj)
  have "\<exists>w2. (\<forall>rest. greet_chats (party_scheduler redis_works (\<lambda>c. None)) today (post @ rest) w1 = greet_chats (party_scheduler redis_works (\<lambda>c. None)) today rest w2) \<and>
      pa_docs w2 = pa_docs w1 \<and> pa_claims w2 = pa_claims w1 \<union> ?keys post \<and>
      map fst (pa_sent w2) = map fst (pa_sent w1) @ map fst post"
    by (rule greet_fresh [OF _ _ sent_key_inj]) (use dist in \<open>auto simp: w1 sent_key_inj sent_key_image simp del: image_eqI\<close>)
  then obtain w2 where w2: "\<And>rest. greet_chats (party_scheduler redis_works (\<lambda>c. None)) today (post @ rest) w1 = greet_chats (party_scheduler redis_works (\<lambda>c. None)) today rest w2"
      "map fst (pa_sent w2) = map fst (pa_sent w1) @ map fst post"
    by auto
  have "greet_chats (party_scheduler redis_works (\<lambda>c. None)) today (celebrants today (bs_birthdays (pa_docs w1))) w1 = (Inr (), w2)"
    using greet_claimed [of "pre @ [(chat, users)]" today w1 "\<lambda>c. None" post, OF claimed] w2(1) [of "[]"]
    by (simp add: w1 w'(2) assms(1))
  with w2(2) w'(4) dist show ?thesis
    unfolding w_def [symmetric] w1_def [symmetric] Let_def by (auto simp: turn_world celebrate_party w1)
qed

definition three_chats :: birthday_docs where
  "three_chats = \<lparr>bs_birthdays = map (\<lambda>chat. birthday_document chat \<lparr>by_user = U ''7@lid'', by_day = 21, by_month = 2\<rparr>)
       [U ''a@g.us'', U ''b@g.us'', U ''c@g.us''], bs_messages = Map.empty\<rparr>"

theorem failed_greeting_starves_witness:
  "let w1 = snd (celebration_turn (party_scheduler redis_works (\<lambda>c. if c = U ''b@g.us'' then Some (OtherExn (U ''TimeoutError'')) else None))
                 (Date 2026 2 21) \<lparr>pa_docs = three_chats, pa_claims = {}, pa_sent = []\<rparr>) in
    map fst (pa_sent w1) = map fst [(U ''a@g.us'', [U ''7@lid''])] \<and>
    map fst (pa_sent (snd (celebration_turn (party_scheduler redis_works (\<lambda>c. None)) (Date 2026 2 21) w1))) =
      map fst [(U ''a@g.us'', [U ''7@lid''])] @ map fst [(U ''c@g.us'', [U ''7@lid''])] \<and>
    U ''b@g.us'' \<notin> set (map fst [(U ''a@g.us'', [U ''7@lid''])] @ map fst [(U ''c@g.us'', [U ''7@lid''])])"
  by (rule failed_greeting_starves [where users = "[U ''7@lid'']"]) code_simp+

end
