(* ===== verification/Preprocess.thy ===== *)
theory Preprocess
  imports Command_Run
begin

text \<open>
  Media fetched ahead for the platforms that want bytes instead of a URL
  (bot/application/message_preprocess.py).  \<open>fetch url browser\<close> is the HTTP request, with the
  headers of a browser or without: the status and the body of the response, or an exception;
  an \<open>httpx.HTTPError\<close> gives no buffer.  The workers of a list
  run concurrently but each writes its own place, so they are run here in the order of the list.
\<close>

type_synonym 'w fetch = "pystr \<Rightarrow> bool \<Rightarrow> (exn, 'w, nat \<times> bytes) act"

definition http_errors :: "pystr list" where
  "http_errors = [U ''HTTPError'', U ''HTTPStatusError'', U ''RequestError'', U ''TransportError'',
     U ''TimeoutException'', U ''ConnectTimeout'', U ''ReadTimeout'', U ''WriteTimeout'', U ''PoolTimeout'',
     U ''NetworkError'', U ''ConnectError'', U ''ReadError'', U ''WriteError'', U ''CloseError'',
     U ''ProxyError'', U ''UnsupportedProtocol'', U ''ProtocolError'', U ''LocalProtocolError'',
     U ''RemoteProtocolError'', U ''DecodingError'', U ''TooManyRedirects'']"

definition is_http_error :: "exn \<Rightarrow> bool" where
  "is_http_error e = (case e of OtherExn n \<Rightarrow> n \<in> set http_errors | Raised _ _ \<Rightarrow> False)"

definition download :: "'w fetch \<Rightarrow> pystr \<Rightarrow> bool \<Rightarrow> (exn, 'w, bytes option) act" where
  "download fetch url browser =
     handleA (bindA (fetch url browser) (\<lambda>(status, body). ret (Some body))) (\<lambda>e. if is_http_error e then ret None else raise e)"

text \<open>\<open>BotMessage(jid=..., content=...)\<close>: the quote and the expiration are left at their defaults.\<close>

definition bare_message :: "pystr \<Rightarrow> message_content \<Rightarrow> bot_message" where
  "bare_message jid c = \<lparr>bm_jid = jid, bm_content = c, bm_quoted_message_id = None, bm_expiration = None\<rparr>"

definition with_buffer ::
  "'w fetch \<Rightarrow> bot_message \<Rightarrow> pystr \<Rightarrow> bool \<Rightarrow> (bytes \<Rightarrow> message_content) \<Rightarrow> (exn, 'w, bot_message) act" where
  "with_buffer fetch m url browser mk =
     bindA (download fetch url browser)
       (\<lambda>b. ret (case b of None \<Rightarrow> m | Some b \<Rightarrow> bare_message (bm_jid m) (mk b)))"

fun preprocess_content :: "'w fetch \<Rightarrow> bot_message \<Rightarrow> message_content \<Rightarrow> (exn, 'w, bot_message) act" where
  "preprocess_content fetch m (AudioContent url _ _) =
     with_buffer fetch m url False (\<lambda>b. AudioBufferContent b (U ''audio/mpeg'') (U ''audio_mp3''))"
| "preprocess_content fetch m (ImageContent url caption _) =
     with_buffer fetch m url True (\<lambda>b. ImageBufferContent b caption True)"
| "preprocess_content fetch m _ = ret m"

definition preprocess_one :: "'w fetch \<Rightarrow> bot_message \<Rightarrow> (exn, 'w, bot_message) act" where
  "preprocess_one fetch m = preprocess_content fetch m (bm_content m)"

definition preprocess_messages :: "'w fetch \<Rightarrow> bot_message list \<Rightarrow> (exn, 'w, bot_message list) act" where
  "preprocess_messages fetch ms = mapA (preprocess_one fetch) ms"

subsection \<open>Telegram\<close>

text \<open>\<open>raw.get(key)\<close> where the value is a dict: its \<open>url\<close>; \<open>None\<close> when there is none.\<close>

definition raw_url :: "(pystr \<times> json) list \<Rightarrow> pystr \<Rightarrow> json" where
  "raw_url raw k =
     (case dict_get raw k of
        Some (JObj kvs) \<Rightarrow> (case dict_get kvs (U ''url'') of None \<Rightarrow> JNull | Some u \<Rightarrow> u)
      | _ \<Rightarrow> JNull)"

definition raw_caption :: "(pystr \<times> json) list \<Rightarrow> pystr option" where
  "raw_caption raw = (case dict_get raw (U ''caption'') of Some (JStr c) \<Rightarrow> if c = [] then None else Some c | _ \<Rightarrow> None)"

definition raw_gif :: "(pystr \<times> json) list \<Rightarrow> bool" where
  "raw_gif raw = (case dict_get raw (U ''gifPlayback'') of None \<Rightarrow> False | Some v \<Rightarrow> truthy v)"

definition preprocess_raw :: "'w fetch \<Rightarrow> bot_message \<Rightarrow> (pystr \<times> json) list \<Rightarrow> (exn, 'w, bot_message) act" where
  "preprocess_raw fetch m raw =
     (let url = (if truthy (raw_url raw (U ''video'')) then raw_url raw (U ''video'') else raw_url raw (U ''image'')) in
      case url of
        JNull \<Rightarrow> ret m
      | JStr u \<Rightarrow>
          with_buffer fetch m u True (\<lambda>b.
            if dict_get raw (U ''video'') \<noteq> None then VideoBufferContent b (raw_caption raw) True (raw_gif raw)
            else if raw_gif raw then VideoBufferContent b (raw_caption raw) True True
            else ImageBufferContent b (raw_caption raw) True)
      | _ \<Rightarrow> raise (OtherExn (U ''TypeError'')))"

fun preprocess_telegram_content :: "'w fetch \<Rightarrow> bot_message \<Rightarrow> message_content \<Rightarrow> (exn, 'w, bot_message) act" where
  "preprocess_telegram_content fetch m (VideoContent url caption _) =
     with_buffer fetch m url True (\<lambda>b. VideoBufferContent b caption True False)"
| "preprocess_telegram_content fetch m (RawContent raw) = preprocess_raw fetch m raw"
| "preprocess_telegram_content fetch m _ = ret m"

definition preprocess_for_telegram :: "'w fetch \<Rightarrow> bot_message list \<Rightarrow> (exn, 'w, bot_message list) act" where
  "preprocess_for_telegram fetch ms =
     bindA (preprocess_messages fetch ms) (mapA (\<lambda>m. preprocess_telegram_content fetch m (bm_content m)))"

subsection \<open>One message out for each message in\<close>

lemma mapA_length: "mapA f xs w = (Inr ys, w') \<Longrightarrow> length ys = length xs"
proof (induction xs arbitrary: w ys)
  case (Cons x xs)
  then show ?case
    by (auto simp: bindA_def split: prod.splits sum.splits)
qed simp

lemma mapA_all:
  assumes "\<And>x w y w'. f x w = (Inr y, w') \<Longrightarrow> R x y" "mapA f xs w = (Inr ys, w')"
  shows "list_all2 R xs ys"
  using assms(2)
proof (induction xs arbitrary: w ys)
  case (Cons x xs)
  then show ?case
    by (auto simp: bindA_def split: prod.splits sum.splits dest: assms(1))
qed simp

definition same_chat :: "bot_message \<Rightarrow> bot_message \<Rightarrow> bool" where
  "same_chat m m' \<longleftrightarrow> bm_jid m' = bm_jid m"

lemma with_buffer_same: "with_buffer fetch m url br mk w = (Inr m', w') \<Longrightarrow> same_chat m m'"
  by (auto simp: with_buffer_def bindA_def same_chat_def bare_message_def split: prod.splits sum.splits option.splits)

lemma preprocess_one_same: "preprocess_one fetch m w = (Inr m', w') \<Longrightarrow> same_chat m m'"
  unfolding preprocess_one_def
  by (cases "bm_content m") (auto dest: with_buffer_same simp: same_chat_def)

lemma preprocess_telegram_same: "preprocess_telegram_content fetch m c w = (Inr m', w') \<Longrightarrow> same_chat m m'"
  by (cases c) (auto simp: same_chat_def preprocess_raw_def Let_def
      dest!: with_buffer_same [unfolded same_chat_def] split: json.splits if_splits)

lemma preprocess_for_telegram_same:
  assumes "preprocess_for_telegram fetch ms w = (Inr ms', w')"
  shows "list_all2 same_chat ms ms'"
proof -
  from assms obtain ms1 w1 where 1: "mapA (preprocess_one fetch) ms w = (Inr ms1, w1)"
    and 2: "mapA (\<lambda>m. preprocess_telegram_content fetch m (bm_content m)) ms1 w1 = (Inr ms', w')"
    by (auto simp: preprocess_for_telegram_def preprocess_messages_def bindA_def split: prod.splits sum.splits)
  have "list_all2 same_chat ms ms1"
    using 1 by (rule mapA_all [rotated]) (rule preprocess_one_same)
  moreover have "list_all2 same_chat ms1 ms'"
    using 2 by (rule mapA_all [rotated]) (rule preprocess_telegram_same)
  ultimately show ?thesis
    by (auto simp: list_all2_conv_all_nth same_chat_def)
qed

text \<open>The status is not looked at: the page of an error is sent as the picture.\<close>

lemma error_page_becomes_image:
  assumes "fetch url True w = (Inr (404, page), w')"
  shows "preprocess_one fetch (bare_message jid (ImageContent url caption v)) w =
    (Inr (bare_message jid (ImageBufferContent page caption True)), w')"
  using assms
  by (simp add: preprocess_one_def bare_message_def with_buffer_def download_def bindA_def handleA_def)

text \<open>An outage of the network leaves every message as it was.\<close>

lemma preprocess_outage:
  assumes "\<And>url br w. fetch url br w = (Inl (OtherExn (U ''ConnectError'')), w)"
    and "list_all (\<lambda>m. case bm_content m of RawContent raw \<Rightarrow>
      (case raw_url raw (U ''video'') of JStr _ \<Rightarrow> True | JNull \<Rightarrow> True | _ \<Rightarrow> False) \<and>
      (case raw_url raw (U ''image'') of JStr _ \<Rightarrow> True | JNull \<Rightarrow> True | _ \<Rightarrow> False) | _ \<Rightarrow> True) ms"
  shows "preprocess_for_telegram fetch ms w = (Inr ms, w)"
proof -
  have con: "is_http_error (OtherExn (U ''ConnectError''))"
    by code_simp
  have buf: "with_buffer fetch m url br mk w = (Inr m, w)" for m url br mk w
    by (simp add: with_buffer_def download_def bindA_def handleA_def assms(1) con)
  have one: "preprocess_one fetch m w = (Inr m, w)" for m w
    unfolding preprocess_one_def by (cases "bm_content m") (simp_all add: buf)
  then have "preprocess_messages fetch ms w = (Inr ms, w)"
    unfolding preprocess_messages_def by (induction ms) (simp_all add: bindA_def)
  moreover have "mapA (\<lambda>m. preprocess_telegram_content fetch m (bm_content m)) ms w = (Inr ms, w)"
    using assms(2)
  proof (induction ms)
    case (Cons m ms)
    then have "preprocess_telegram_content fetch m (bm_content m) w = (Inr m, w)"
      by (cases "bm_content m") (auto simp: buf preprocess_raw_def Let_def split: json.splits)
    with Cons show ?case by (simp add: bindA_def)
  qed simp
  ultimately show ?thesis
    by (simp add: preprocess_for_telegram_def bindA_def)
qed

end
