(* ===== verification/Adapters.thy ===== *)
theory Adapters
  imports Preprocess Handler
begin

text \<open>
  What the adapters of Telegram and Discord share: an action whose exception becomes a value, and
  the count of the runs of commands (Handler) over the actions they are built from.
\<close>

text \<open>\<open>try: ... except Exception\<close> around an action: its result, or the exception as a value.\<close>

definition attemptA :: "(exn, 'w, 'a) act \<Rightarrow> (exn, 'w, exn + 'a) act" where
  "attemptA m = handleA (bindA m (\<lambda>a. ret (Inr a))) (\<lambda>e. if is_exception e then ret (Inl e) else raise e)"

lemma adds0_iff: "adds runs 0 m \<longleftrightarrow> (\<forall>w. runs (snd (m w)) = runs w)"
  by (auto simp: adds_def intro: le_antisym)

lemma adds_bind0: "adds runs 0 m \<Longrightarrow> (\<And>a. adds runs k (f a)) \<Longrightarrow> adds runs k (bindA m f)"
  by (rule adds_bindA0)

lemma adds_handle0:
  assumes "adds runs k m" "\<And>e. adds runs 0 (h e)"
  shows "adds runs k (handleA m h)"
  unfolding adds_def
proof
  fix w
  obtain r w' where m: "m w = (r, w')" by (cases "m w")
  with assms(1) have "runs w \<le> runs w'" "runs w' \<le> runs w + k"
    by (auto simp: adds_def dest: spec [of _ w])
  with m assms(2) show "runs w \<le> runs (snd (handleA m h w)) \<and> runs (snd (handleA m h w)) \<le> runs w + k"
    by (cases r) (auto simp: adds0_iff)
qed

lemma adds_attempt: "adds runs k m \<Longrightarrow> adds runs k (attemptA m)"
  unfolding attemptA_def
  using adds_bindA [of runs k m 0 "\<lambda>a. ret (Inr a)"] by (intro adds_handle0) auto

lemma adds_mapA: "(\<And>x. adds runs 0 (f x)) \<Longrightarrow> adds runs 0 (mapA f xs)"
  by (induction xs) (auto intro!: adds_bind0)

lemmas adds_intros = adds_bind0 adds_attempt adds_mapA adds_ret adds_raise

lemma adds_download:
  assumes "\<And>url br. adds runs 0 (fetch url br)"
  shows "adds runs 0 (with_buffer fetch m url br mk)" "adds runs 0 (preprocess_messages fetch ms)"
proof -
  have dl: "adds runs 0 (download fetch url br)" for url br
    unfolding download_def by (intro adds_handle0 adds_bind0 assms) (auto split: prod.split)
  show buf: "adds runs 0 (with_buffer fetch m url br mk)" for m url br mk
    unfolding with_buffer_def by (intro adds_bind0 dl) simp
  have "adds runs 0 (preprocess_one fetch m)" for m
    unfolding preprocess_one_def by (cases "bm_content m") (simp_all add: buf)
  then show "adds runs 0 (preprocess_messages fetch ms)"
    unfolding preprocess_messages_def by (intro adds_mapA)
qed

lemma adds_preprocess:
  assumes "\<And>url br. adds runs 0 (fetch url br)"
  shows "adds runs 0 (preprocess_for_telegram fetch ms)"
proof -
  have "adds runs 0 (preprocess_telegram_content fetch m c)" for m c
    by (cases c) (simp_all add: adds_download(1) [OF assms] preprocess_raw_def Let_def split: json.split)
  then show ?thesis
    unfolding preprocess_for_telegram_def by (intro adds_bind0 adds_mapA adds_download(2) [OF assms])
qed

text \<open>A list of the commands of a platform, from the table of its flags.\<close>

lemma filter_by_flags: "map f (filter P xs) = map snd (filter fst (zip (map P xs) (map f xs)))"
  by (induction xs) auto

end
