(* ===== verification/Telegram_Render.thy ===== *)
theory Telegram_Render
  imports Preprocess
begin

text \<open>
  What a reply looks like on Telegram: the HTML written from the WhatsApp markup
  (bot/adapters/telegram/formatter.py), and the messages to send for each content
  (bot/adapters/telegram/renderer.py, bot/ports/telegram_port.py).
\<close>

subsection \<open>Markup\<close>

fun html_escape_cp :: "nat \<Rightarrow> pystr" where
  "html_escape_cp c = (if c = 38 then U ''&amp;'' else if c = 60 then U ''&lt;'' else if c = 62 then U ''&gt;'' else [c])"

definition html_escape :: "pystr \<Rightarrow> pystr" where
  "html_escape s = concat (map html_escape_cp s)"

abbreviation not_in :: "nat \<Rightarrow> cclass" where
  "not_in c \<equiv> CNeg (COr (CRange c c) (CRange 10 10))"

definition alnum :: cclass where
  "alnum = COr (CRange 97 122) (COr (CRange 65 90) (CRange 48 57))"

abbreviation lazy_plus :: "rx \<Rightarrow> rx" where
  "lazy_plus r \<equiv> Seq r (Star False r)"

definition BOLD_PATTERN :: rx where
  "BOLD_PATTERN = Seq (Chr 42) (Seq (lazy_plus (Cls (not_in 42))) (Chr 42))"

definition ITALIC_PATTERN :: rx where
  "ITALIC_PATTERN = Seq (NotBehind alnum) (Seq (Chr 95) (Seq (lazy_plus (Cls (not_in 95))) (Seq (Chr 95) (NotAhead alnum))))"

definition BULLET_PATTERN :: rx where
  "BULLET_PATTERN = Seq (Alt Bol (Chr 10)) (Seq (Chr 45) (Seq (Chr 32) (Ahead (Cls (CNeg CSpace)))))"

text \<open>The replacements in terms of the matched text; the group is what stands between the marks.\<close>

definition bullet :: "pystr \<Rightarrow> pystr" where
  "bullet m = takeWhile (\<lambda>c. c = 10) m @ [8226, 32]"

definition bold :: "pystr \<Rightarrow> pystr" where
  "bold m = U ''<b>'' @ butlast (tl m) @ U ''</b>''"

definition italic :: "pystr \<Rightarrow> pystr" where
  "italic m = U ''<i>'' @ butlast (tl m) @ U ''</i>''"

definition BLOCKQUOTE_PREFIX :: pystr where
  "BLOCKQUOTE_PREFIX = U ''&gt; ''"

definition flush_quote :: "pystr list \<Rightarrow> pystr list" where
  "flush_quote buffer =
     (if buffer = [] then [] else [U ''<blockquote>'' @ join [10] buffer @ U ''</blockquote>''])"

fun quote_lines :: "pystr list \<Rightarrow> pystr list \<Rightarrow> pystr list" where
  "quote_lines buffer [] = flush_quote buffer"
| "quote_lines buffer (line # rest) =
     (if startswith line BLOCKQUOTE_PREFIX then quote_lines (buffer @ [removeprefix BLOCKQUOTE_PREFIX line]) rest
      else flush_quote buffer @ line # quote_lines [] rest)"

definition apply_blockquotes :: "pystr \<Rightarrow> pystr" where
  "apply_blockquotes t =
     (if \<not> contains BLOCKQUOTE_PREFIX t then t else join [10] (quote_lines [] (split_on 10 t)))"

definition to_html :: "pystr \<Rightarrow> pystr" where
  "to_html t =
     (if t = [] then t
      else rx_sub False ITALIC_PATTERN italic
        (rx_sub False BOLD_PATTERN bold (apply_blockquotes (rx_sub False BULLET_PATTERN bullet (html_escape t)))))"

subsection \<open>Messages\<close>

datatype tg_kind = TG_TEXT | TG_PHOTO | TG_VIDEO | TG_AUDIO | TG_VOICE | TG_DOCUMENT | TG_STICKER | TG_ANIMATION

record tg_outbound =
  to_kind :: tg_kind
  to_chat :: int
  to_text :: "pystr option"
  to_buffer :: "bytes option"
  to_url :: "json option"
  to_filename :: "pystr option"

definition TelegramOutbound :: "tg_kind \<Rightarrow> int \<Rightarrow> tg_outbound" where
  "TelegramOutbound kind chat =
     \<lparr>to_kind = kind, to_chat = chat, to_text = None, to_buffer = None, to_url = None, to_filename = None\<rparr>"

definition text_outbound :: "int \<Rightarrow> pystr \<Rightarrow> tg_outbound" where
  "text_outbound chat t = (TelegramOutbound TG_TEXT chat)\<lparr>to_text := Some t\<rparr>"

definition url_outbound :: "tg_kind \<Rightarrow> int \<Rightarrow> json \<Rightarrow> tg_outbound" where
  "url_outbound kind chat url = (TelegramOutbound kind chat)\<lparr>to_url := Some url\<rparr>"

definition buffer_outbound :: "tg_kind \<Rightarrow> int \<Rightarrow> bytes \<Rightarrow> pystr \<Rightarrow> tg_outbound" where
  "buffer_outbound kind chat b filename =
     (TelegramOutbound kind chat)\<lparr>to_buffer := Some b, to_filename := Some filename\<rparr>"

definition TG_MAX_TEXT_LENGTH :: nat where "TG_MAX_TEXT_LENGTH = 4096"
definition TG_MAX_CAPTION_LENGTH :: nat where "TG_MAX_CAPTION_LENGTH = 1024"
definition VOICE_AUDIO_TYPE :: pystr where "VOICE_AUDIO_TYPE = U ''audio_ogg''"

definition TG_UNSUPPORTED :: pystr where
  "TG_UNSUPPORTED = U ''Este tipo de conteudo ainda nao e suportado no Telegram.''"

text \<open>\<open>[text[i : i + limit] for i in range(0, len(text), limit)]\<close>.\<close>

definition split_limit :: "pystr \<Rightarrow> nat \<Rightarrow> pystr list" where
  "split_limit t limit =
     (if length t \<le> limit then [t]
      else map (\<lambda>k. take limit (drop (k * limit) t)) [0..<(length t + limit - 1) div limit])"

definition with_caption :: "tg_outbound \<Rightarrow> pystr option \<Rightarrow> tg_outbound list" where
  "with_caption media caption =
     (case caption of
        None \<Rightarrow> [media]
      | Some c \<Rightarrow>
          if c = [] then [media]
          else if length c \<le> TG_MAX_CAPTION_LENGTH then [media\<lparr>to_text := Some (to_html c)\<rparr>]
          else [media, text_outbound (to_chat media) (to_html c)])"

text \<open>
  \<open>raw['video'].get('url', '')\<close>; a value that is no dict has no \<open>get\<close>.
\<close>

definition required_url :: "json \<Rightarrow> exn + json" where
  "required_url v =
     (case v of
        JObj kvs \<Rightarrow> Inr (case dict_get kvs (U ''url'') of None \<Rightarrow> JStr [] | Some u \<Rightarrow> u)
      | _ \<Rightarrow> Inl (OtherExn (U ''AttributeError'')))"

definition render_raw :: "(pystr \<times> json) list \<Rightarrow> int \<Rightarrow> exn + tg_outbound list" where
  "render_raw raw chat =
     (case dict_get raw (U ''video'') of
        Some v \<Rightarrow> map_sum id (\<lambda>u. with_caption
            (url_outbound (if raw_gif raw then TG_ANIMATION else TG_VIDEO) chat u) (raw_caption raw)) (required_url v)
      | None \<Rightarrow>
          (case dict_get raw (U ''image'') of
             Some v \<Rightarrow> map_sum id (\<lambda>u. with_caption
                 (url_outbound (if raw_gif raw then TG_ANIMATION else TG_PHOTO) chat u) (raw_caption raw)) (required_url v)
           | None \<Rightarrow> Inr [text_outbound chat TG_UNSUPPORTED]))"

fun tg_render_content :: "message_content \<Rightarrow> int \<Rightarrow> exn + tg_outbound list" where
  "tg_render_content (TextContent t _) chat =
     Inr (map (\<lambda>chunk. text_outbound chat (to_html chunk)) (split_limit t TG_MAX_TEXT_LENGTH))"
| "tg_render_content (ImageContent url caption _) chat =
     Inr (with_caption (url_outbound TG_PHOTO chat (JStr url)) caption)"
| "tg_render_content (ImageBufferContent b caption _) chat =
     Inr (with_caption (buffer_outbound TG_PHOTO chat b (U ''image.png'')) caption)"
| "tg_render_content (VideoContent url caption _) chat =
     Inr (with_caption (url_outbound TG_VIDEO chat (JStr url)) caption)"
| "tg_render_content (VideoBufferContent b caption _ gif) chat =
     Inr (with_caption (buffer_outbound (if gif then TG_ANIMATION else TG_VIDEO) chat b (U ''video.mp4'')) caption)"
| "tg_render_content (AudioContent url _ _) chat = Inr [url_outbound TG_AUDIO chat (JStr url)]"
| "tg_render_content (AudioBufferContent b _ ty) chat =
     Inr [if ty = VOICE_AUDIO_TYPE then buffer_outbound TG_VOICE chat b (U ''audio.ogg'')
          else buffer_outbound TG_AUDIO chat b (U ''audio.mp3'')]"
| "tg_render_content (StickerContent b _ _) chat = Inr [buffer_outbound TG_STICKER chat b (U ''sticker.webp'')]"
| "tg_render_content (RawContent raw) chat = render_raw raw chat"

definition tg_render :: "bot_message \<Rightarrow> int \<Rightarrow> exn + tg_outbound list" where
  "tg_render m chat = tg_render_content (bm_content m) chat"

fun tg_render_many :: "bot_message list \<Rightarrow> int \<Rightarrow> exn + tg_outbound list" where
  "tg_render_many [] chat = Inr []"
| "tg_render_many (m # ms) chat =
     (case tg_render m chat of
        Inl e \<Rightarrow> Inl e
      | Inr outs \<Rightarrow> map_sum id ((@) outs) (tg_render_many ms chat))"

subsection \<open>No tag but our own\<close>

text \<open>A string whose angle brackets are all those of the six tags.\<close>

definition TAGS :: "pystr list" where
  "TAGS = [U ''<b>'', U ''</b>'', U ''<i>'', U ''</i>'', U ''<blockquote>'', U ''</blockquote>'']"

inductive only_tags :: "pystr \<Rightarrow> bool" where
  none [intro]: "only_tags []"
| char [intro]: "c \<noteq> 60 \<Longrightarrow> c \<noteq> 62 \<Longrightarrow> only_tags s \<Longrightarrow> only_tags (c # s)"
| tag [intro]: "t \<in> set TAGS \<Longrightarrow> only_tags s \<Longrightarrow> only_tags (t @ s)"

lemma tag_shapes: "t \<in> set TAGS \<Longrightarrow> \<exists>w. t = 60 # w @ [62] \<and> 42 \<notin> set w \<and> 95 \<notin> set w \<and> 60 \<notin> set w \<and> 62 \<notin> set w"
proof -
  have "list_all (\<lambda>t. hd t = 60 \<and> last t = 62 \<and> 2 \<le> length t \<and>
      list_all (\<lambda>c. c \<notin> {42, 95, 60, 62}) (butlast (tl t))) TAGS"
    by code_simp
  moreover assume "t \<in> set TAGS"
  ultimately have t: "hd t = 60" "last t = 62" "2 \<le> length t" "list_all (\<lambda>c. c \<notin> {42, 95, 60, 62}) (butlast (tl t))"
    by (auto simp: list_all_iff)
  then have "t = 60 # butlast (tl t) @ [62]"
    by (cases t; cases "tl t" rule: rev_cases) auto
  with t(4) show ?thesis by (auto simp: list_all_iff)
qed

lemma only_tags_append: "only_tags a \<Longrightarrow> only_tags b \<Longrightarrow> only_tags (a @ b)"
  by (induction a rule: only_tags.induct) auto

lemma plain_only_tags: "60 \<notin> set s \<Longrightarrow> 62 \<notin> set s \<Longrightarrow> only_tags s"
  by (induction s) auto

text \<open>A mark is never inside a tag, so it splits the string in two of the same kind.\<close>

lemma only_tags_split:
  assumes "only_tags s" "s = a @ c # b" "c \<in> {42, 95}"
  shows "only_tags a \<and> only_tags b"
  using assms
proof (induction s arbitrary: a rule: only_tags.induct)
  case none
  then show ?case by simp
next
  case (char d s)
  then show ?case
    by (cases a) auto
next
  case (tag t s)
  from tag_shapes [OF tag.hyps(1)] tag.prems(2) have free: "c \<notin> set t" by auto
  from tag.prems(1) consider us where "a = t @ us" "us @ c # b = s" | us where "t = a @ us" "us @ s = c # b"
    by (auto simp: append_eq_append_conv2)
  then show ?case
  proof cases
    case 1
    with tag.IH [of us] tag.prems(2) tag.hyps(1) show ?thesis by auto
  next
    case 2
    with free have "us = []" by (cases us) auto
    with 2 tag.IH [of "[]"] tag.prems(2) tag.hyps(1) show ?thesis
      by (metis append_Nil append_Nil2 only_tags.none only_tags.tag)
  qed
qed

text \<open>
  A substitution, seen as cutting the text in pieces: those that matched are replaced.
\<close>

lemma sub_pieces:
  "\<exists>ps. concat (map snd ps) = s \<and> sub_go n ic r f p s = concat (map (\<lambda>(hit, m). if hit then f m else m) ps) \<and>
     (\<forall>m. (True, m) \<in> set ps \<longrightarrow> (\<exists>q s' t. t \<in> set (rx_m ic r (q, s')) \<and> s' = m @ snd t))"
proof (induction n ic r f p s rule: sub_go.induct)
  case (1 ic r f p s)
  then show ?case by (intro exI [of _ "[(False, s)]"]) simp
next
  case (2 n ic r f p s)
  show ?case
  proof (cases s)
    case Nil
    then show ?thesis by (intro exI [of _ "[]"]) simp
  next
    case (Cons c cs)
    show ?thesis
    proof (cases "\<exists>t ts. rx_m ic r (p, s) = t # ts \<and> length (snd t) < length s")
      case True
      then obtain t ts where t: "rx_m ic r (p, s) = t # ts" "length (snd t) < length s" by blast
      then have mem: "t \<in> set (rx_m ic r (p, s))" by simp
      define m where "m = take (length s - length (snd t)) s"
      from rx_m_suffix [OF mem] have s: "s = m @ snd t" by (auto simp: m_def)
      from "2.IH"(2) [OF Cons t] obtain ps where ps:
        "concat (map snd ps) = snd t"
        "sub_go n ic r f (fst t) (snd t) = concat (map (\<lambda>(hit, m). if hit then f m else m) ps)"
        "\<forall>m. (True, m) \<in> set ps \<longrightarrow> (\<exists>q s' t. t \<in> set (rx_m ic r (q, s')) \<and> s' = m @ snd t)"
        by blast
      have "sub_go (Suc n) ic r f p s = f m @ sub_go n ic r f (fst t) (snd t)"
        using t Cons by (simp add: m_def)
      moreover have "\<exists>q s' t. t \<in> set (rx_m ic r (q, s')) \<and> s' = m @ snd t"
        using mem s by blast
      ultimately show ?thesis
        using ps s by (intro exI [of _ "(True, m) # ps"]) auto
    next
      case False
      have "\<exists>ps. concat (map snd ps) = cs \<and> sub_go n ic r f (Some c) cs = concat (map (\<lambda>(hit, m). if hit then f m else m) ps) \<and>
          (\<forall>m. (True, m) \<in> set ps \<longrightarrow> (\<exists>q s' t. t \<in> set (rx_m ic r (q, s')) \<and> s' = m @ snd t))"
        using "2.IH"(1,3) Cons False by (cases "rx_m ic r (p, s)") blast+
      then obtain ps where
        "concat (map snd ps) = cs"
        "sub_go n ic r f (Some c) cs = concat (map (\<lambda>(hit, m). if hit then f m else m) ps)"
        "\<forall>m. (True, m) \<in> set ps \<longrightarrow> (\<exists>q s' t. t \<in> set (rx_m ic r (q, s')) \<and> s' = m @ snd t)"
        by blast
      with Cons False show ?thesis
        by (intro exI [of _ "(False, [c]) # ps"]) (auto split: list.split)
    qed
  qed
qed

text \<open>Putting a tag around what stands between two marks keeps the tags whole.\<close>

definition wraps :: "nat \<Rightarrow> (pystr \<Rightarrow> pystr) \<Rightarrow> rx \<Rightarrow> bool" where
  "wraps c f r \<longleftrightarrow> (\<forall>m. (\<exists>q s' t. t \<in> set (rx_m False r (q, s')) \<and> s' = m @ snd t) \<longrightarrow>
     (\<exists>b. m = c # b @ [c] \<and> (only_tags b \<longrightarrow> only_tags (f m))))"

lemma wraps_only_tags:
  assumes "c \<in> {42, 95}" "wraps c f r" "only_tags s"
  shows "only_tags (rx_sub False r f s)"
proof -
  have pieces: "only_tags (x @ concat (map snd ps)) \<Longrightarrow>
      (\<And>m. (True, m) \<in> set ps \<Longrightarrow> \<exists>b. m = c # b @ [c] \<and> (only_tags b \<longrightarrow> only_tags (f m))) \<Longrightarrow>
      only_tags (x @ concat (map (\<lambda>(hit, m). if hit then f m else m) ps))" for x ps
  proof (induction ps arbitrary: x)
    case (Cons p ps)
    obtain hit m where p: "p = (hit, m)" by (cases p)
    show ?case
    proof (cases hit)
      case False
      with Cons.IH [of "x @ m"] Cons.prems p show ?thesis by simp
    next
      case True
      with Cons.prems(2) [of m] p obtain b where b: "m = c # b @ [c]" "only_tags b \<longrightarrow> only_tags (f m)" by auto
      have "only_tags x" "only_tags (b @ c # concat (map snd ps))"
        using only_tags_split [OF Cons.prems(1), of x c "b @ c # concat (map snd ps)"] assms(1) p True b(1) by simp_all
      moreover from this(2) have "only_tags b" "only_tags (concat (map snd ps))"
        using only_tags_split [of _ b c "concat (map snd ps)"] assms(1) by blast+
      moreover from this(2) have "only_tags (concat (map (\<lambda>(hit, m). if hit then f m else m) ps))"
        using Cons.IH [of "[]"] Cons.prems(2) by simp
      ultimately show ?thesis
        using p True b(2) by (auto intro: only_tags_append)
    qed
  qed simp
  obtain ps where ps: "concat (map snd ps) = s"
      "rx_sub False r f s = concat (map (\<lambda>(hit, m). if hit then f m else m) ps)"
      "\<And>m. (True, m) \<in> set ps \<Longrightarrow> \<exists>q s' t. t \<in> set (rx_m False r (q, s')) \<and> s' = m @ snd t"
    using sub_pieces [of s "length s" False r f None] by (auto simp: rx_sub_def)
  show ?thesis
    using pieces [of "[]" ps] ps assms(2,3) by (auto simp: wraps_def)
qed

lemma bold_tags: "U ''<b>'' \<in> set TAGS" "U ''</b>'' \<in> set TAGS" "U ''<i>'' \<in> set TAGS" "U ''</i>'' \<in> set TAGS"
  "U ''<blockquote>'' \<in> set TAGS" "U ''</blockquote>'' \<in> set TAGS"
  by (simp_all add: TAGS_def)

lemma tagged:
  assumes "s \<in> set TAGS" "t \<in> set TAGS" "only_tags b"
  shows "only_tags (s @ b @ t)"
proof -
  have "only_tags t" using tag [OF assms(2) none] by simp
  with assms(1,3) show ?thesis by (intro tag only_tags_append)
qed

lemma rest_unique: "s = 42 # x @ 42 # r \<Longrightarrow> s = m @ r \<Longrightarrow> m = 42 # x @ [42]"
  "s = 95 # x @ 95 # r \<Longrightarrow> s = m @ r \<Longrightarrow> m = 95 # x @ [95]" for s :: pystr
  by (simp_all add: append_eq_append_conv_if [symmetric])

lemma rx_SeqE:
  assumes "t \<in> set (rx_m ic (Seq r q) s)"
  obtains u where "u \<in> set (rx_m ic r s)" "t \<in> set (rx_m ic q u)"
  using assms by auto

lemma step_Chr: "t \<in> set (rx_m False (Chr c) st) \<Longrightarrow> snd st = c # snd t"
  by (auto simp: step_if_iff chr_eq_def)

lemma bold_wraps: "wraps 42 bold BOLD_PATTERN"
  unfolding wraps_def
proof (intro allI impI, elim exE conjE)
  fix m q s' t assume t: "t \<in> set (rx_m False BOLD_PATTERN (q, s'))" and s': "s' = m @ snd t"
  from t obtain u where u: "u \<in> set (rx_m False (Chr 42) (q, s'))"
      and "t \<in> set (rx_m False (Seq (lazy_plus (Cls (not_in 42))) (Chr 42)) u)"
    unfolding BOLD_PATTERN_def by (rule rx_SeqE)
  from this(2) obtain v where v: "v \<in> set (rx_m False (lazy_plus (Cls (not_in 42))) u)"
      and w: "t \<in> set (rx_m False (Chr 42) v)"
    by (rule rx_SeqE)
  from rx_m_suffix [OF v] obtain b where "snd u = b @ snd v" by blast
  with step_Chr [OF u] step_Chr [OF w] have "s' = 42 # b @ 42 # snd t" by simp
  with s' have "m = 42 # b @ [42]" by (blast dest: rest_unique)
  then show "\<exists>b. m = 42 # b @ [42] \<and> (only_tags b \<longrightarrow> only_tags (bold m))"
    by (auto simp: bold_def intro: tagged bold_tags)
qed

lemma italic_wraps: "wraps 95 italic ITALIC_PATTERN"
  unfolding wraps_def
proof (intro allI impI, elim exE conjE)
  fix m q s' t assume t: "t \<in> set (rx_m False ITALIC_PATTERN (q, s'))" and s': "s' = m @ snd t"
  from t obtain u where u: "u \<in> set (rx_m False (NotBehind alnum) (q, s'))"
      and 1: "t \<in> set (rx_m False (Seq (Chr 95) (Seq (lazy_plus (Cls (not_in 95))) (Seq (Chr 95) (NotAhead alnum)))) u)"
    unfolding ITALIC_PATTERN_def by (rule rx_SeqE)
  from 1 obtain v where v: "v \<in> set (rx_m False (Chr 95) u)"
      and 2: "t \<in> set (rx_m False (Seq (lazy_plus (Cls (not_in 95))) (Seq (Chr 95) (NotAhead alnum))) v)"
    by (rule rx_SeqE)
  from 2 obtain x where x: "x \<in> set (rx_m False (lazy_plus (Cls (not_in 95))) v)"
      and 3: "t \<in> set (rx_m False (Seq (Chr 95) (NotAhead alnum)) x)"
    by (rule rx_SeqE)
  from 3 obtain y where y: "y \<in> set (rx_m False (Chr 95) x)" and z: "t \<in> set (rx_m False (NotAhead alnum) y)"
    by (rule rx_SeqE)
  have same: "snd u = s'" "snd t = snd y"
    using u z by (auto split: option.splits list.splits if_splits)
  from rx_m_suffix [OF x] obtain b where "snd v = b @ snd x" by blast
  with step_Chr [OF v] step_Chr [OF y] same have "s' = 95 # b @ 95 # snd t" by simp
  with s' have "m = 95 # b @ [95]" by (blast dest: rest_unique)
  then show "\<exists>b. m = 95 # b @ [95] \<and> (only_tags b \<longrightarrow> only_tags (italic m))"
    by (auto simp: italic_def intro: tagged bold_tags)
qed

text \<open>Before the tags there is no angle bracket at all.\<close>

lemma escape_plain: "60 \<notin> set (html_escape s) \<and> 62 \<notin> set (html_escape s)"
proof -
  have "60 \<notin> set (html_escape_cp c) \<and> 62 \<notin> set (html_escape_cp c)" for c
    by (simp add: U_eval)
  then show ?thesis by (auto simp: html_escape_def simp del: html_escape_cp.simps)
qed

lemma bullets_plain:
  assumes "60 \<notin> set s" "62 \<notin> set s"
  shows "60 \<notin> set (rx_sub False BULLET_PATTERN bullet s) \<and> 62 \<notin> set (rx_sub False BULLET_PATTERN bullet s)"
proof -
  obtain ps where ps: "concat (map snd ps) = s"
      "rx_sub False BULLET_PATTERN bullet s = concat (map (\<lambda>(hit, m). if hit then bullet m else m) ps)"
    using sub_pieces [of s "length s" False BULLET_PATTERN bullet None] by (auto simp: rx_sub_def)
  have "set (bullet m) \<subseteq> {10, 8226, 32}" for m
    by (auto simp: bullet_def dest: set_takeWhileD)
  with assms ps show ?thesis
    by (fastforce split: if_splits)
qed

lemma join_only_tags: "list_all only_tags ws \<Longrightarrow> only_tags (join [10] ws)"
  by (induction "[10] :: pystr" ws rule: join.induct) (simp_all add: only_tags_append only_tags.char only_tags.none)

lemma split_on_plain: "w \<in> set (split_on d s) \<Longrightarrow> set w \<subseteq> set s"
proof (induction s arbitrary: w)
  case (Cons c s)
  then show ?case
    by (fastforce split: if_splits list.splits)
qed simp

lemma quote_lines_only_tags:
  "list_all only_tags buffer \<Longrightarrow> list_all (\<lambda>l. 60 \<notin> set l \<and> 62 \<notin> set l) ls \<Longrightarrow> list_all only_tags (quote_lines buffer ls)"
proof (induction buffer ls rule: quote_lines.induct)
  have flush: "list_all only_tags buffer \<Longrightarrow> list_all only_tags (flush_quote buffer)" for buffer
    by (auto simp: flush_quote_def intro: tagged bold_tags join_only_tags)
  case (1 buffer)
  then show ?case by (simp add: flush)
next
  have flush: "list_all only_tags buffer \<Longrightarrow> list_all only_tags (flush_quote buffer)" for buffer
    by (auto simp: flush_quote_def intro: tagged bold_tags join_only_tags)
  case (2 buffer line rest)
  have "only_tags (removeprefix BLOCKQUOTE_PREFIX line)"
    using 2(4) by (auto simp: removeprefix_def intro!: plain_only_tags dest: in_set_dropD)
  with 2 flush show ?case by (auto intro: plain_only_tags)
qed

lemma to_html_only_tags: "only_tags (to_html t)"
proof -
  let ?s = "rx_sub False BULLET_PATTERN bullet (html_escape t)"
  have plain: "60 \<notin> set ?s" "62 \<notin> set ?s"
    using bullets_plain escape_plain by blast+
  have "list_all (\<lambda>l. 60 \<notin> set l \<and> 62 \<notin> set l) (split_on 10 ?s)"
    using plain split_on_plain by (fastforce simp: list_all_iff)
  then have "only_tags (join [10] (quote_lines [] (split_on 10 ?s)))"
    by (intro join_only_tags quote_lines_only_tags) simp_all
  then have "only_tags (apply_blockquotes ?s)"
    using plain by (simp add: apply_blockquotes_def plain_only_tags)
  then have "only_tags (rx_sub False ITALIC_PATTERN italic (rx_sub False BOLD_PATTERN bold (apply_blockquotes ?s)))"
    by (intro wraps_only_tags [OF _ italic_wraps] wraps_only_tags [OF _ bold_wraps]) simp_all
  then show ?thesis by (simp add: to_html_def only_tags.none)
qed

definition safe_text :: "tg_outbound \<Rightarrow> bool" where
  "safe_text out = (case to_text out of None \<Rightarrow> True | Some h \<Rightarrow> only_tags h)"

lemma safe_texts [simp]:
  "safe_text (url_outbound kind chat u)" "safe_text (buffer_outbound kind chat b f)"
  "safe_text (text_outbound chat (to_html t))"
  by (simp_all add: safe_text_def url_outbound_def buffer_outbound_def text_outbound_def TelegramOutbound_def to_html_only_tags)

lemma unsupported_safe [simp]: "safe_text (text_outbound chat TG_UNSUPPORTED)"
proof -
  have "60 \<notin> set TG_UNSUPPORTED" "62 \<notin> set TG_UNSUPPORTED"
    by code_simp+
  then show ?thesis
    by (simp add: safe_text_def text_outbound_def TelegramOutbound_def plain_only_tags)
qed

lemma caption_safe [simp]: "safe_text media \<Longrightarrow> list_all safe_text (with_caption media c)"
  by (auto simp: with_caption_def split: option.split) (simp add: safe_text_def to_html_only_tags)

lemma raw_safe: "render_raw raw chat = Inr outs \<Longrightarrow> list_all safe_text outs"
  by (auto simp: render_raw_def map_sum_def split: option.splits sum.splits)

lemma content_safe: "tg_render_content c chat = Inr outs \<Longrightarrow> list_all safe_text outs"
  by (induction c chat rule: tg_render_content.induct) (auto simp: list_all_iff [of _ "map _ _"] raw_safe)

text \<open>
  C21: nobody can smuggle markup into the reply of a command.  Whatever the text, every angle
  bracket of what \<open>to_html\<close> writes belongs to one of the tags the formatter knows (b, i and
  blockquote), and of whatever messages a command answers with, every text and every caption
  that the renderer hands to the port as HTML is such a text.
\<close>

theorem html_has_only_our_tags:
  "only_tags (to_html t) \<and>
   (case tg_render_many ms chat of Inl _ \<Rightarrow> True | Inr outs \<Rightarrow> list_all safe_text outs)"
proof -
  have "list_all safe_text outs" if "tg_render_many ms chat = Inr outs" for outs
    using that
    by (induction ms arbitrary: outs)
      (auto simp: tg_render_def map_sum_def dest: content_safe split: sum.splits)
  then show ?thesis
    by (simp add: to_html_only_tags split: sum.split)
qed

lemma only_tags_bracket: "only_tags s \<Longrightarrow> s \<noteq> [] \<Longrightarrow> hd s = 60 \<Longrightarrow> list_ex (startswith s) TAGS"
proof (induction rule: only_tags.induct)
  case (tag t s)
  have "startswith (t @ s) t" by (simp add: startswith_def)
  with tag(1) show ?case unfolding list_ex_iff by blast
qed simp_all

text \<open>The tags need not nest: overlapping marks give HTML that Telegram refuses.\<close>

lemma overlapping_marks: "to_html (U ''*_a*_'') = U ''<b><i>a</b></i>''"
  by code_simp

subsection \<open>No text is lost\<close>

lemma concat_slices:
  "0 < n \<Longrightarrow> length t \<le> k * n \<Longrightarrow> concat (map (\<lambda>i. take n (drop (i * n) t)) [0..<k]) = t"
proof (induction k arbitrary: t)
  case (Suc k)
  have "[0..<Suc k] = 0 # map Suc [0..<k]"
    by (simp add: upt_conv_Cons map_Suc_upt del: upt_Suc)
  then have "concat (map (\<lambda>i. take n (drop (i * n) t)) [0..<Suc k]) =
      take n t @ concat (map (\<lambda>i. take n (drop (i * n) (drop n t))) [0..<k])"
    by (simp add: comp_def add.commute)
  also have "concat (map (\<lambda>i. take n (drop (i * n) (drop n t))) [0..<k]) = drop n t"
    using Suc.prems by (intro Suc.IH) auto
  finally show ?case by simp
qed simp

text \<open>
  A long text reaches Telegram whole.  The pieces a text is split into join to that text,
  none is longer than a Telegram message may be, and each becomes one text message, in order.
\<close>

theorem telegram_text_is_whole:
  "\<exists>chunks. tg_render_content (TextContent t mentions) chat = Inr (map (\<lambda>c. text_outbound chat (to_html c)) chunks) \<and>
    concat chunks = t \<and> list_all (\<lambda>c. length c \<le> 4096) chunks"
proof -
  have "length t \<le> (length t + 4096 - 1) div 4096 * 4096"
    using div_mult_mod_eq [of "length t + 4096 - 1" 4096] mod_less_divisor [of 4096 "length t + 4096 - 1"] by linarith
  then have "concat (split_limit t 4096) = t"
    by (simp add: split_limit_def concat_slices)
  moreover have "list_all (\<lambda>c. length c \<le> 4096) (split_limit t 4096)"
    by (auto simp: split_limit_def list_all_iff)
  ultimately show ?thesis
    by (auto simp: TG_MAX_TEXT_LENGTH_def)
qed

text \<open>A caption too long for its picture goes out as one text, however long it is.\<close>

lemma long_caption_unsplit:
  "1024 < length c \<Longrightarrow> with_caption media (Some c) = [media, text_outbound (to_chat media) (to_html c)]"
  by (auto simp: with_caption_def TG_MAX_CAPTION_LENGTH_def)

end
