(* ===== verification/Developers.thy ===== *)
theory Developers
  imports Commands
begin

text \<open>
  The list of developers as a MongoDB collection of identifiers
  (bot/domain/services/dev_list.py) and the command \<open>dev\<close> that edits it
  (bot/domain/commands/dev.py).
\<close>

subsection \<open>The collection\<close>

type_synonym dev_docs = "pystr list"

text \<open>\<open>find_one({'_id': {'$in': keys}}) is not None\<close>.\<close>

definition dev_find_any :: "pystr list \<Rightarrow> (exn, dev_docs, bool) act" where
  "dev_find_any keys = (\<lambda>db. (Inr (list_ex (\<lambda>i. i \<in> set keys) db), db))"

text \<open>An upsert answers an \<open>upserted_id\<close> only when it inserts.\<close>

definition dev_add :: "pystr \<Rightarrow> (exn, dev_docs, bool) act" where
  "dev_add jid = (\<lambda>db. if jid \<in> set db then (Inr False, db) else (Inr True, db @ [jid]))"

definition dev_remove :: "pystr \<Rightarrow> (exn, dev_docs, bool) act" where
  "dev_remove jid = (\<lambda>db. (Inr (jid \<in> set db), remove1 jid db))"

definition dev_list_all :: "(exn, dev_docs, pystr list) act" where
  "dev_list_all = (\<lambda>db. (Inr db, db))"

record 'w dev_service =
  ds_add :: "pystr \<Rightarrow> (exn, 'w, bool) act"
  ds_remove :: "pystr \<Rightarrow> (exn, 'w, bool) act"
  ds_list_all :: "(exn, 'w, pystr list) act"

definition dev_docs_service :: "dev_docs dev_service" where
  "dev_docs_service = \<lparr>ds_add = dev_add, ds_remove = dev_remove, ds_list_all = dev_list_all\<rparr>"

subsection \<open>The command\<close>

definition DEV_JID_PATTERN :: rx where
  "DEV_JID_PATTERN = Seq (Opt (Chr 64)) (Plus (Cls CDigit))"

definition DISCORD_MENTION_PATTERN :: rx where
  "DISCORD_MENTION_PATTERN = rseq [lit (U ''<@''), Plus (Cls CDigit), Chr 62]"

text \<open>The group of either pattern is the run of digits of the match.\<close>

definition digits_group :: "pystr \<Rightarrow> pystr" where
  "digits_group m = filter is_decimal m"

definition extract_jid :: "pystr \<Rightarrow> command_data \<Rightarrow> pystr option" where
  "extract_jid rest d =
     (if cd_mentioned_jids d \<noteq> [] then Some (hd (cd_mentioned_jids d))
      else let typed = (case search False DEV_JID_PATTERN rest of
             None \<Rightarrow> None
           | Some (_, m, _) \<Rightarrow> Some (digits_group m @ U ''@s.whatsapp.net''))
      in if cd_platform d = Some DISCORD then
           (case search False DISCORD_MENTION_PATTERN rest of
              Some (_, m, _) \<Rightarrow> Some (U ''discord:'' @ digits_group m)
            | None \<Rightarrow> typed)
         else typed)"

definition format_dev_id :: "pystr \<Rightarrow> pystr" where
  "format_dev_id jid =
     (if startswith jid (U ''discord:'') then U ''<@'' @ replace_str (U ''discord:'') [] jid @ U ''>''
      else U ''@'' @ strip_jid jid)"

definition dev_usage :: "pystr \<Rightarrow> command_data \<Rightarrow> bot_message" where
  "dev_usage verb d = reply_text d (U ''Uso: ,dev '' @ verb @
     (if cd_platform d = Some DISCORD then U '' <@usu{225}rio>'' else U '' @n{250}mero''))"

definition dev_handle_add :: "'w dev_service \<Rightarrow> command_data \<Rightarrow> pystr \<Rightarrow> (exn, 'w, bot_message list) act" where
  "dev_handle_add ds d rest =
     (case extract_jid rest d of
        None \<Rightarrow> ret [dev_usage (U ''add'') d]
      | Some jid \<Rightarrow>
          if jid = [] then ret [dev_usage (U ''add'') d]
          else bindA (ds_add ds jid)
            (\<lambda>added. ret [reply_text d (format_dev_id jid @
               (if added then U '' adicionado como dev {128736}{65039}'' else U '' j{225} {233} dev''))]))"

definition dev_handle_remove :: "'w dev_service \<Rightarrow> command_data \<Rightarrow> pystr \<Rightarrow> (exn, 'w, bot_message list) act" where
  "dev_handle_remove ds d rest =
     (case extract_jid rest d of
        None \<Rightarrow> ret [dev_usage (U ''remove'') d]
      | Some jid \<Rightarrow>
          if jid = [] then ret [dev_usage (U ''remove'') d]
          else bindA (ds_remove ds jid)
            (\<lambda>removed. ret [reply_text d (format_dev_id jid @
               (if removed then U '' removido da lista de devs'' else U '' n{227}o {233} dev''))]))"

definition dev_handle_list :: "'w dev_service \<Rightarrow> command_data \<Rightarrow> (exn, 'w, bot_message list) act" where
  "dev_handle_list ds d =
     bindA (ds_list_all ds)
       (\<lambda>devs. ret [reply_text d
          (if devs = [] then U ''Nenhum dev cadastrado.''
           else U ''{128736}{65039} *Devs* {128736}{65039}{10}{10}'' @
             join [10] (map (\<lambda>j. U ''- '' @ format_dev_id j) devs))])"

definition dev_execute :: "'w dev_service \<Rightarrow> 'w exec" where
  "dev_execute ds = (\<lambda>d parsed.
     let rest = strip (pc_rest parsed) in
     if startswith rest (U ''add'') then dev_handle_add ds d (strip (drop 3 rest))
     else if startswith rest (U ''remove'') then dev_handle_remove ds d (strip (drop 6 rest))
     else dev_handle_list ds d)"

subsection \<open>Who is a developer afterwards\<close>

lemma dev_add_spec:
  "dev_add jid db = (Inr (jid \<notin> set db), if jid \<in> set db then db else db @ [jid])"
  by (simp add: dev_add_def)

lemma dev_find_add:
  "fst (dev_find_any keys (snd (dev_add jid db))) = Inr (jid \<in> set keys \<or> list_ex (\<lambda>i. i \<in> set keys) db)"
  by (auto simp: dev_find_any_def dev_add_def list_ex_iff)

text \<open>No identifier is listed twice, whatever \<open>dev\<close> is asked to do.\<close>

lemma dev_execute_distinct:
  "distinct db \<Longrightarrow> distinct (snd (dev_execute dev_docs_service d parsed db))"
  by (auto simp: dev_execute_def dev_handle_add_def dev_handle_remove_def dev_handle_list_def dev_docs_service_def
      dev_add_def dev_remove_def dev_list_all_def bindA_def Let_def split: option.split)

end
