(* ===== verification/Telegram.thy ===== *)
theory Telegram
  imports Adapters Telegram_Render Developers Catalogue
begin

text \<open>
  The Telegram adapter: the commands it registers (bot/adapters/telegram/bot.py), what it does with
  an update (handler.py), the messages that go to the language model (agent_router.py) and the
  greeting of a group (join_handler.py).  The Bot API is the record \<open>tg_port\<close>
  (bot/ports/telegram_port.py).
\<close>

subsection \<open>Updates and the port\<close>

record 'w tg_port =
  tp_send :: "tg_outbound \<Rightarrow> (exn, 'w, unit) act"
  tp_send_typing :: "int \<Rightarrow> (exn, 'w, unit) act"
  tp_react :: "int \<Rightarrow> int \<Rightarrow> pystr \<Rightarrow> (exn, 'w, unit) act"
  tp_is_chat_admin :: "int \<Rightarrow> int \<Rightarrow> (exn, 'w, bool) act"

text \<open>An entity is its type, its offset and its length.\<close>

record tg_message =
  tm_id :: int
  tm_text :: "pystr option"
  tm_entities :: "(pystr \<times> nat \<times> nat) list"

record tg_chat =
  tc_id :: int
  tc_type :: pystr

record tg_user =
  tu_id :: int
  tu_full_name :: pystr

record tg_update =
  up_message :: "tg_message option"
  up_chat :: "tg_chat option"
  up_user :: "tg_user option"

text \<open>What the adapter is built with.\<close>

record 'w tg_bot =
  tb_env :: "'w env"
  tb_registry :: "'w registry"
  tb_fetch :: "'w fetch"
  tb_agent :: "command_data \<Rightarrow> (exn, 'w, command_data) act"
  tb_username :: pystr                              \<comment> \<open>in lower case\<close>
  tb_names :: "pystr \<Rightarrow> pystr option"

subsection \<open>Names\<close>

definition TG_NAME_MAX_LENGTH :: nat where "TG_NAME_MAX_LENGTH = 32"

definition telegram_name :: "pystr \<Rightarrow> pystr" where
  "telegram_name name =
     take TG_NAME_MAX_LENGTH
       (filter (\<lambda>c. 97 \<le> c \<and> c \<le> 122 \<or> 48 \<le> c \<and> c \<le> 57 \<or> c = 95)
         (map (\<lambda>c. if c = 32 \<or> c = 45 then 95 else c) (concat (map strip_marks_cp (lower name)))))"

text \<open>
  \<open>_register_handlers\<close>: every name of every command of the platform, then \<open>start\<close>; a later
  registration of a name wins.
\<close>

definition telegram_names :: "'w registry \<Rightarrow> (pystr \<times> pystr) list" where
  "telegram_names r =
     concat (map (\<lambda>c. map (\<lambda>n. (telegram_name n, 44 # n)) (command_names c))
       (filter (\<lambda>c. supports (cc_platforms (cmd_config c)) TELEGRAM) (get_all r))) @
     (case get_by_name r (U ''menu'') of
        None \<Rightarrow> []
      | Some c \<Rightarrow> if supports (cc_platforms (cmd_config c)) TELEGRAM then [(U ''start'', U '',menu'')] else [])"

definition telegram_name_map :: "'w registry \<Rightarrow> pystr \<Rightarrow> pystr option" where
  "telegram_name_map r = map_of (rev (telegram_names r))"

definition MENU_SCOPES :: "command_scope list" where
  "MENU_SCOPES = [PUBLIC, ADMIN, NSFW]"

definition DESCRIPTION_MAX_LENGTH :: nat where "DESCRIPTION_MAX_LENGTH = 256"

text \<open>The published menu: name and description.\<close>

definition telegram_menu :: "'w registry \<Rightarrow> (pystr \<times> pystr) list" where
  "telegram_menu r =
     map (\<lambda>c. (telegram_name (cc_name (cmd_config c)), take DESCRIPTION_MAX_LENGTH (cmd_menu c)))
       (filter (\<lambda>c. supports (cc_platforms (cmd_config c)) TELEGRAM \<and> cc_scope (cmd_config c) \<in> set MENU_SCOPES) (get_all r))"

subsection \<open>Running a command and replying\<close>

definition TG_UNKNOWN_COMMAND :: pystr where "TG_UNKNOWN_COMMAND = U ''Comando nao reconhecido.''"
definition TG_GENERIC_ERROR :: pystr where "TG_GENERIC_ERROR = U ''Ocorreu um erro ao executar o comando.''"
definition TG_EMPTY_REPLY :: pystr where "TG_EMPTY_REPLY = U ''Sem resposta do bot.''"
definition TG_GROUP_ONLY :: pystr where "TG_GROUP_ONLY = U ''Esse comando so funciona em grupos.''"
definition ACK_REACTION :: pystr where "ACK_REACTION = U ''{128077}''"

definition tg_reply :: "'w tg_port \<Rightarrow> int \<Rightarrow> pystr \<Rightarrow> (exn, 'w, unit) act" where
  "tg_reply port chat t = tp_send port (text_outbound chat t)"

definition safe_react :: "'w tg_port \<Rightarrow> int \<Rightarrow> int \<Rightarrow> (exn, 'w, unit) act" where
  "safe_react port chat message = bindA (attemptA (tp_react port chat message ACK_REACTION)) (\<lambda>_. ret ())"

fun send_all :: "'w tg_port \<Rightarrow> int \<Rightarrow> tg_outbound list \<Rightarrow> (exn, 'w, unit) act" where
  "send_all port chat [] = ret ()"
| "send_all port chat (out # outs) =
     bindA (attemptA (tp_send port out))
       (\<lambda>r. case r of Inl _ \<Rightarrow> tg_reply port chat TG_GENERIC_ERROR | Inr _ \<Rightarrow> send_all port chat outs)"

definition tg_send_messages :: "'w tg_bot \<Rightarrow> 'w tg_port \<Rightarrow> int \<Rightarrow> bot_message list \<Rightarrow> (exn, 'w, unit) act" where
  "tg_send_messages tb port chat ms =
     bindA (preprocess_for_telegram (tb_fetch tb) ms)
       (\<lambda>prepared. case tg_render_many prepared chat of Inl e \<Rightarrow> raise e | Inr outs \<Rightarrow> send_all port chat outs)"

definition run_and_reply :: "'w tg_bot \<Rightarrow> 'w tg_port \<Rightarrow> 'w command \<Rightarrow> command_data \<Rightarrow> int \<Rightarrow> (exn, 'w, unit) act" where
  "run_and_reply tb port c d chat =
     bindA (attemptA (run_command (ev_emit (tb_env tb)) c d))
       (\<lambda>r. case r of
          Inl e \<Rightarrow> tg_reply port chat (if isinstance e BotError then user_message e else TG_GENERIC_ERROR)
        | Inr ms \<Rightarrow> if ms = [] then tg_reply port chat TG_EMPTY_REPLY else tg_send_messages tb port chat ms)"

text \<open>
  The first typing signal; the loop that repeats it while the body runs is left out.
\<close>

definition keep_typing :: "'w tg_port \<Rightarrow> int \<Rightarrow> (exn, 'w, unit) act \<Rightarrow> (exn, 'w, unit) act" where
  "keep_typing port chat body = bindA (tp_send_typing port chat) (\<lambda>_. body)"

subsection \<open>The agent\<close>

definition is_agent_mention :: "tg_message \<Rightarrow> pystr \<Rightarrow> bool" where
  "is_agent_mention m username \<longleftrightarrow>
     truthy_str (tm_text m) \<and> username \<noteq> [] \<and> contains (64 # username) (lower (the (tm_text m)))"

definition tg_route_result :: "'w tg_bot \<Rightarrow> 'w tg_port \<Rightarrow> int \<Rightarrow> command_data \<Rightarrow> (exn, 'w, unit) act" where
  "tg_route_result tb port chat res =
     (if startswith (cd_text res) CLARIFY_PREFIX then tg_reply port chat (strip (drop (length CLARIFY_PREFIX) (cd_text res)))
      else if startswith (cd_text res) SUGGEST_PREFIX then tg_reply port chat (strip (drop (length SUGGEST_PREFIX) (cd_text res)))
      else case get_strategy (tb_registry tb) (cd_text res) of
             None \<Rightarrow> tg_reply port chat TG_UNKNOWN_COMMAND
           | Some c \<Rightarrow> run_and_reply tb port c res chat)"

definition tg_route :: "'w tg_bot \<Rightarrow> 'w tg_port \<Rightarrow> tg_message \<Rightarrow> int \<Rightarrow> command_data \<Rightarrow> (exn, 'w, unit) act" where
  "tg_route tb port m chat d =
     bindA (safe_react port chat (tm_id m))
       (\<lambda>_. keep_typing port chat
          (bindA (attemptA (tb_agent tb d))
             (\<lambda>r. case r of
                Inl _ \<Rightarrow> tg_reply port chat TG_GENERIC_ERROR
              | Inr res \<Rightarrow> tg_route_result tb port chat res)))"

subsection \<open>An update\<close>

definition GROUP_CHAT_TYPES :: "pystr list" where
  "GROUP_CHAT_TYPES = [U ''group'', U ''supergroup'']"

definition find_command_entity :: "(pystr \<times> nat \<times> nat) list \<Rightarrow> (pystr \<times> nat \<times> nat) option" where
  "find_command_entity es = find (\<lambda>(ty, off, len). ty = U ''bot_command'' \<and> off = 0) es"

definition strip_bot_mention :: "pystr \<Rightarrow> pystr \<Rightarrow> pystr" where
  "strip_bot_mention username token =
     (if 64 \<notin> set token then token
      else if username \<noteq> [] \<and> lower (after 64 token) \<noteq> username then token
      else before 64 token)"

definition extract_command_name :: "pystr \<Rightarrow> tg_message \<Rightarrow> pystr option" where
  "extract_command_name username m =
     (case (find_command_entity (tm_entities m), tm_text m) of
        (Some (_, off, len), Some t) \<Rightarrow> Some (strip_bot_mention username (lstrip_chars [47] (take len (drop off t))))
      | _ \<Rightarrow> None)"

definition tg_command_text :: "'w tg_bot \<Rightarrow> pystr \<Rightarrow> tg_message \<Rightarrow> pystr" where
  "tg_command_text tb name m =
     (let base = (case tb_names tb name of None \<Rightarrow> COMMAND_PREFIX @ name | Some t \<Rightarrow> t);
          rest = (case (find_command_entity (tm_entities m), tm_text m) of
                    (Some (_, off, len), Some t) \<Rightarrow> strip (drop (off + len) t)
                  | _ \<Rightarrow> [])
      in strip (base @ [32] @ rest))"

definition tg_command_data :: "tg_message \<Rightarrow> tg_chat \<Rightarrow> tg_user \<Rightarrow> pystr \<Rightarrow> bool option \<Rightarrow> command_data" where
  "tg_command_data m chat user t is_admin =
     (CommandData t (show_int (tc_id chat)) (show_int (tu_id user)))
       \<lparr>cd_message_id := Some (show_int (tm_id m)), cd_is_group := tc_type chat \<in> set GROUP_CHAT_TYPES,
        cd_push_name := Some (tu_full_name user), cd_platform := Some TELEGRAM, cd_is_admin := is_admin\<rparr>"

definition tg_resolve_admin :: "'w tg_port \<Rightarrow> 'w command \<Rightarrow> tg_chat \<Rightarrow> tg_user \<Rightarrow> (exn, 'w, bool option) act" where
  "tg_resolve_admin port c chat user =
     (if cc_scope (cmd_config c) \<noteq> ADMIN then ret None
      else if tc_type chat \<notin> set GROUP_CHAT_TYPES then ret None
      else bindA (tp_is_chat_admin port (tc_id chat) (tu_id user)) (\<lambda>b. ret (Some b)))"

definition maybe_route_agent ::
  "'w tg_bot \<Rightarrow> 'w tg_port \<Rightarrow> tg_message \<Rightarrow> tg_chat \<Rightarrow> tg_user \<Rightarrow> (exn, 'w, unit) act" where
  "maybe_route_agent tb port m chat user =
     (if tc_type chat = U ''private'' \<or> is_agent_mention m (tb_username tb)
      then tg_route tb port m (tc_id chat)
             (tg_command_data m chat user (case tm_text m of None \<Rightarrow> [] | Some t \<Rightarrow> t) None)
      else ret ())"

definition tg_run_gated ::
  "'w tg_bot \<Rightarrow> 'w tg_port \<Rightarrow> tg_message \<Rightarrow> int \<Rightarrow> 'w command \<Rightarrow> command_data \<Rightarrow> (exn, 'w, unit) act" where
  "tg_run_gated tb port m chat c d =
     bindA (rejection_text (tb_env tb) c d)
       (\<lambda>rejection. case rejection of
          Some t \<Rightarrow> tg_reply port chat t
        | None \<Rightarrow> bindA (safe_react port chat (tm_id m))
                    (\<lambda>_. keep_typing port chat (run_and_reply tb port c d chat)))"

definition tg_handle :: "'w tg_bot \<Rightarrow> 'w tg_port \<Rightarrow> tg_update \<Rightarrow> (exn, 'w, unit) act" where
  "tg_handle tb port up =
     (case (up_message up, up_chat up, up_user up) of
        (Some m, Some chat, Some user) \<Rightarrow>
          if tm_text m = None then ret ()
          else (case extract_command_name (tb_username tb) m of
            None \<Rightarrow> maybe_route_agent tb port m chat user
          | Some name \<Rightarrow>
              let t = tg_command_text tb name m in
              (case get_strategy (tb_registry tb) t of
                 None \<Rightarrow> tg_reply port (tc_id chat) TG_UNKNOWN_COMMAND
               | Some c \<Rightarrow>
                   if cc_group_only (cmd_config c) \<and> tc_type chat \<notin> set GROUP_CHAT_TYPES
                   then tg_reply port (tc_id chat) TG_GROUP_ONLY
                   else bindA (tg_resolve_admin port c chat user)
                     (\<lambda>adm. tg_run_gated tb port m (tc_id chat) c (tg_command_data m chat user t adm))))
      | _ \<Rightarrow> ret ())"

subsection \<open>Joining a group\<close>

definition TELEGRAM_WELCOME :: pystr where
  "TELEGRAM_WELCOME =
     U ''{128075} *E a{237}, galera! Sou o Resenhazord2.*{10}{10}Bot de resenha: memes, downloads, figurinhas, jogos e muito mais. Manda /menu pra ver tudo que eu sei fazer.''"

definition OUTSIDE_STATUSES :: "pystr list" where
  "OUTSIDE_STATUSES = [U ''left'', U ''kicked'']"

text \<open>The change of the bot's own membership: the chat, the old and the new status.\<close>

definition join_handle :: "'w tg_port \<Rightarrow> (tg_chat \<times> pystr \<times> pystr) option \<Rightarrow> (exn, 'w, unit) act" where
  "join_handle port change =
     (case change of
        None \<Rightarrow> ret ()
      | Some (chat, old, new) \<Rightarrow>
          if tc_type chat \<notin> set GROUP_CHAT_TYPES then ret ()
          else if old \<notin> set OUTSIDE_STATUSES \<or> new \<in> set OUTSIDE_STATUSES then ret ()
          else tp_send port (text_outbound (tc_id chat) (to_html TELEGRAM_WELCOME)))"

subsection \<open>What the model says is not escaped\<close>

text \<open>
  The questions and suggestions of the agent go to the API as HTML without passing the
  formatter: markup that the model was talked into reaches the chat as it is.
\<close>

definition linked_question :: command_data where
  "linked_question = CommandData (CLARIFY_PREFIX @ U ''<a href=x>qual deles?</a>'') (U ''7'') (U ''7'')"

lemma clarify_is_not_escaped:
  "tg_route_result tb port chat linked_question = tp_send port (text_outbound chat (U ''<a href=x>qual deles?</a>'')) \<and>
   \<not> only_tags (U ''<a href=x>qual deles?</a>'')"
proof
  have "startswith (cd_text linked_question) CLARIFY_PREFIX"
    "strip (drop (length CLARIFY_PREFIX) (cd_text linked_question)) = U ''<a href=x>qual deles?</a>''"
    by code_simp+
  then show "tg_route_result tb port chat linked_question = tp_send port (text_outbound chat (U ''<a href=x>qual deles?</a>''))"
    by (simp add: tg_route_result_def tg_reply_def)
  have "U ''<a href=x>qual deles?</a>'' \<noteq> []" "hd (U ''<a href=x>qual deles?</a>'') = 60"
    "\<not> list_ex (startswith (U ''<a href=x>qual deles?</a>'')) TAGS"
    by code_simp+
  then show "\<not> only_tags (U ''<a href=x>qual deles?</a>'')"
    using only_tags_bracket by blast
qed

subsection \<open>The commands on Telegram\<close>

definition on_telegram :: "'w command \<Rightarrow> bool" where
  "on_telegram c \<longleftrightarrow> supports (cc_platforms (cmd_config c)) TELEGRAM"

definition telegram_flags :: "bool list" where
  "telegram_flags = map (\<lambda>i. i \<notin> {0, 6, 14, 20, 23, 38, 41, 42, 46}) [0..<53]"

lemma telegram_flags: "map on_telegram (all_commands ex) = telegram_flags"
  unfolding telegram_flags_def on_telegram_def by code_simp

definition telegram_declared :: "pystr list list" where
  "telegram_declared = map snd (filter fst (zip telegram_flags bot_declared))"

lemma telegram_declared: "map command_names (filter on_telegram (all_commands ex)) = telegram_declared"
  unfolding filter_by_flags [of command_names on_telegram] telegram_flags declared telegram_declared_def ..

definition declared_pairs :: "pystr list list \<Rightarrow> (pystr \<times> pystr) list" where
  "declared_pairs nss = concat (map (map (\<lambda>n. (telegram_name n, 44 # n))) nss) @ [(U ''start'', U '',menu'')]"

lemma menu_found: "get_by_name (bot_registry ex) (U ''menu'') = Some (menu_command (ex (U ''menu'')))"
proof -
  have i: "29 < length (all_commands ex)" "all_commands ex ! 29 = menu_command (ex (U ''menu''))"
    by (simp_all add: all_commands_def simple_commands_def configured_commands_def)
  moreover have "U ''menu'' \<in> set (command_names (menu_command (ex (U ''menu''))))"
    by (simp add: command_names_def menu_command_def CommandConfig_def)
  ultimately show ?thesis
    using own_names [OF i(1), of "U ''menu''"] by (simp add: reaches_own_def)
qed

lemma bot_telegram_names: "telegram_names (bot_registry ex) = declared_pairs telegram_declared"
proof -
  have "on_telegram (menu_command (ex (U ''menu'')))"
    unfolding on_telegram_def by code_simp
  then have "telegram_names (bot_registry ex) =
      concat (map (\<lambda>c. map (\<lambda>n. (telegram_name n, 44 # n)) (command_names c)) (filter on_telegram (all_commands ex))) @
      [(U ''start'', U '',menu'')]"
    by (simp add: telegram_names_def menu_found get_all_def bot_commands on_telegram_def [abs_def])
  also have "concat (map (\<lambda>c. map (\<lambda>n. (telegram_name n, 44 # n)) (command_names c)) cs) =
      concat (map (map (\<lambda>n. (telegram_name n, 44 # n))) (map command_names cs))" for cs :: "'a command list"
    by (simp add: comp_def)
  finally show ?thesis
    unfolding telegram_declared declared_pairs_def .
qed

text \<open>The check of one name against the table, with the arguments evaluated once.\<close>

definition name_own :: "(pystr \<times> pystr) list \<Rightarrow> pystr list \<Rightarrow> pystr \<Rightarrow> bool" where
  "name_own table ns m \<longleftrightarrow> m \<noteq> [] \<and> (case map_of table m of None \<Rightarrow> False | Some t \<Rightarrow> hd t = 44 \<and> tl t \<in> set ns \<and> t \<noteq> [])"

definition names_own :: "(pystr \<times> pystr) list \<Rightarrow> pystr list list \<Rightarrow> bool" where
  "names_own table nss \<longleftrightarrow> list_all (\<lambda>ns. list_all (\<lambda>n. name_own table ns (telegram_name n)) ns) nss"

lemma name_own_iff: "name_own table ns m \<longleftrightarrow> m \<noteq> [] \<and> list_ex (\<lambda>n'. map_of table m = Some (44 # n')) ns"
  by (auto simp: name_own_def list_ex_iff split: option.split) (metis hd_Cons_tl)

lemma telegram_names_own: "names_own (rev (declared_pairs telegram_declared)) telegram_declared"
  by code_simp

text \<open>
  Every command keeps its names on Telegram.  Each name and alias of a command of that platform
  becomes a name Telegram accepts (1 to 32 letters, digits and underscores), and sending it brings
  the comma and a name of that same command, whatever other command was registered since.
\<close>

theorem telegram_names_reach:
  "list_all (\<lambda>c.
     list_all (\<lambda>n. telegram_name n \<noteq> [] \<and> length (telegram_name n) \<le> 32 \<and>
       list_all (\<lambda>x. 97 \<le> x \<and> x \<le> 122 \<or> 48 \<le> x \<and> x \<le> 57 \<or> x = 95) (telegram_name n) \<and>
       list_ex (\<lambda>n'. telegram_name_map (bot_registry ex) (telegram_name n) = Some (44 # n')) (command_names c))
       (command_names c)) (filter on_telegram (all_commands ex))"
proof -
  have "list_all (\<lambda>ns. list_all (\<lambda>n. telegram_name n \<noteq> [] \<and>
     list_ex (\<lambda>n'. telegram_name_map (bot_registry ex) (telegram_name n) = Some (44 # n')) ns) ns)
     (map command_names (filter on_telegram (all_commands ex)))"
    using telegram_names_own
    unfolding telegram_declared telegram_name_map_def bot_telegram_names names_own_def name_own_iff .
  moreover have "length (telegram_name n) \<le> 32" for n
    by (simp add: telegram_name_def TG_NAME_MAX_LENGTH_def)
  moreover have "list_all (\<lambda>x. 97 \<le> x \<and> x \<le> 122 \<or> 48 \<le> x \<and> x \<le> 57 \<or> x = 95) (telegram_name n)" for n
    by (auto simp: telegram_name_def list_all_iff dest!: in_set_takeD)
  ultimately show ?thesis
    by (auto simp: list_all_iff)
qed

subsection \<open>What an update can run\<close>

text \<open>
  Neither the Bot API, the requests for media nor the agent runs commands: a count of the runs
  stays as it is, as it does for the services of the handler.
\<close>

definition tg_counts :: "('w \<Rightarrow> nat) \<Rightarrow> 'w tg_bot \<Rightarrow> 'w tg_port \<Rightarrow> bool" where
  "tg_counts runs tb port \<longleftrightarrow>
     counts_runs runs (tb_env tb) (tb_registry tb) None \<and>
     (\<forall>out w. runs (snd (tp_send port out w)) = runs w) \<and>
     (\<forall>c w. runs (snd (tp_send_typing port c w)) = runs w) \<and>
     (\<forall>c m e w. runs (snd (tp_react port c m e w)) = runs w) \<and>
     (\<forall>c u w. runs (snd (tp_is_chat_admin port c u w)) = runs w) \<and>
     (\<forall>url br w. runs (snd (tb_fetch tb url br w)) = runs w) \<and>
     (\<forall>d w. runs (snd (tb_agent tb d w)) = runs w)"

lemma adds_port:
  assumes "tg_counts runs tb port"
  shows "adds runs 0 (tg_reply port chat t)" "adds runs 0 (safe_react port chat m)"
    "adds runs k body \<Longrightarrow> adds runs k (keep_typing port chat body)" "adds runs 0 (attemptA (tb_agent tb d))"
    "adds runs 0 (tg_resolve_admin port c ch user)" "adds runs 0 (rejection_text (tb_env tb) c d)"
proof -
  show "adds runs 0 (tg_reply port chat t)"
    using assms by (simp add: tg_counts_def adds0_iff tg_reply_def)
  show "adds runs 0 (safe_react port chat m)"
    unfolding safe_react_def using assms by (intro adds_intros) (simp add: tg_counts_def adds0_iff)
  show "adds runs k body \<Longrightarrow> adds runs k (keep_typing port chat body)"
    unfolding keep_typing_def using assms by (intro adds_bind0) (simp_all add: tg_counts_def adds0_iff)
  show "adds runs 0 (attemptA (tb_agent tb d))"
    using assms by (intro adds_attempt) (simp add: tg_counts_def adds0_iff)
  have "adds runs 0 (tp_is_chat_admin port i j)" for i j
    using assms by (simp add: tg_counts_def adds0_iff)
  then show "adds runs 0 (tg_resolve_admin port c ch user)"
    unfolding tg_resolve_admin_def by (auto intro!: adds_bind0)
  have "counts_runs runs (tb_env tb) (tb_registry tb) None"
    using assms by (simp add: tg_counts_def)
  from adds_gate [OF this] show "adds runs 0 (rejection_text (tb_env tb) c d)"
    unfolding rejection_text_def by (intro adds_intros)
qed

lemma adds_send_all:
  assumes "tg_counts runs tb port"
  shows "adds runs 0 (send_all port chat outs)"
proof (induction outs)
  case (Cons out outs)
  have "adds runs 0 (tp_send port out)"
    using assms by (simp add: tg_counts_def adds0_iff)
  with Cons show ?case
    by (auto intro!: adds_bind0 adds_attempt adds_port(1) [OF assms] split: sum.split)
qed simp

lemma adds_run_and_reply:
  assumes "tg_counts runs tb port" "c \<in> set (get_all (tb_registry tb))"
  shows "adds runs 1 (run_and_reply tb port c d chat)"
proof -
  have cr: "counts_runs runs (tb_env tb) (tb_registry tb) None" and fetch: "adds runs 0 (tb_fetch tb url br)" for url br
    using assms(1) by (auto simp: tg_counts_def adds0_iff)
  have send: "adds runs 0 (tg_send_messages tb port chat ms)" for ms
    unfolding tg_send_messages_def
    by (intro adds_bind0 adds_preprocess fetch) (auto intro: adds_send_all [OF assms(1)] split: sum.split)
  have "adds runs (1 + 0) (run_and_reply tb port c d chat)"
    unfolding run_and_reply_def
    by (rule adds_bindA [OF adds_attempt [OF adds_run_command [OF cr assms(2)]]])
      (auto intro: adds_port(1) [OF assms(1)] send split: sum.split)
  then show ?thesis by (simp del: One_nat_def)
qed

lemma adds_gated:
  assumes "tg_counts runs tb port" "c \<in> set (get_all (tb_registry tb))"
  shows "adds runs 1 (tg_run_gated tb port m chat c d)"
  unfolding tg_run_gated_def
  by (intro adds_bind0 adds_port(6) [OF assms(1)])
    (auto simp del: One_nat_def intro!: adds_bind0 adds_port(2,3) [OF assms(1)] adds_run_and_reply [OF assms]
        adds_mono [OF adds_port(1) [OF assms(1)]] split: option.split)

text \<open>
  C15: the commands of Telegram pass the gate.  When an update is a command, and the gate, asked
  about that command with the data of this very update (its chat, its sender, its text, what
  the API has just answered about the sender being an administrator), refuses it, nothing is run,
  whatever else goes wrong.
\<close>

theorem telegram_commands_gated:
  assumes "tg_counts runs tb port"
    and "up_message up = Some m" "up_chat up = Some chat" "up_user up = Some user"
    and "extract_command_name (tb_username tb) m = Some name"
    and "\<And>c adm w1. get_strategy (tb_registry tb) (tg_command_text tb name m) = Some c \<Longrightarrow>
      tg_resolve_admin port c chat user w = (Inr adm, w1) \<Longrightarrow>
      \<exists>t w'. rejection_text (tb_env tb) c (tg_command_data m chat user (tg_command_text tb name m) adm) w1 = (Inr (Some t), w')"
  shows "runs (snd (tg_handle tb port up w)) = runs w"
proof -
  let ?t = "tg_command_text tb name m"
  have reply: "runs (snd (tg_reply port (tc_id chat) t w)) = runs w" for t w
    using adds_port(1) [OF assms(1)] by (simp add: adds0_iff)
  have gated: "runs (snd (bindA (tg_resolve_admin port c chat user)
      (\<lambda>adm. tg_run_gated tb port m (tc_id chat) c (tg_command_data m chat user ?t adm)) w)) = runs w"
    if c: "get_strategy (tb_registry tb) ?t = Some c" for c
  proof -
    obtain r w1 where r: "tg_resolve_admin port c chat user w = (r, w1)"
      by (cases "tg_resolve_admin port c chat user w")
    then have w1: "runs w1 = runs w"
      using adds_port(5) [OF assms(1), of c chat user] by (auto simp: adds0_iff dest: spec [of _ w])
    show ?thesis
    proof (cases r)
      case (Inr adm)
      with assms(6) [OF c] r obtain t w' where
        why: "rejection_text (tb_env tb) c (tg_command_data m chat user ?t adm) w1 = (Inr (Some t), w')" by blast
      then have "runs w' = runs w1"
        using adds_port(6) [OF assms(1), of c "tg_command_data m chat user ?t adm"] by (auto simp: adds0_iff dest: spec [of _ w1])
      with why r Inr w1 reply show ?thesis
        by (simp add: bindA_def tg_run_gated_def)
    qed (use r w1 in \<open>simp add: bindA_def\<close>)
  qed
  show ?thesis
    using gated by (auto simp: tg_handle_def assms(2-5) Let_def reply split: option.split)
qed

definition dev_only_cmd :: "nat command" where
  "dev_only_cmd = counting_cmd\<lparr>cmd_config := puppy_config\<lparr>cc_scope := DEV\<rparr>\<rparr>"

definition quiet_port :: "'w tg_port" where
  "quiet_port = \<lparr>tp_send = (\<lambda>_. ret ()), tp_send_typing = (\<lambda>_. ret ()), tp_react = (\<lambda>_ _ _. ret ()),
     tp_is_chat_admin = (\<lambda>_ _. ret False)\<rparr>"

text \<open>A bot whose only developer is the user 42.\<close>

definition counting_bot :: "nat tg_bot" where
  "counting_bot = \<lparr>tb_env = counting_env\<lparr>ev_find_any := \<lambda>ks. ret (U ''telegram:42'' \<in> set ks)\<rparr>,
     tb_registry = register_all [dev_only_cmd], tb_fetch = (\<lambda>_ _. ret (200, [])),
     tb_agent = (\<lambda>d. ret d), tb_username = U ''resenhazord'', tb_names = (\<lambda>_. None)\<rparr>"

definition private_chat :: tg_chat where
  "private_chat = \<lparr>tc_id = 7, tc_type = U ''private''\<rparr>"

definition from_stranger :: "pystr \<Rightarrow> (pystr \<times> nat \<times> nat) list \<Rightarrow> tg_update" where
  "from_stranger t es = \<lparr>up_message = Some \<lparr>tm_id = 1, tm_text = Some t, tm_entities = es\<rparr>,
     up_chat = Some private_chat, up_user = Some \<lparr>tu_id = 7, tu_full_name = U ''Fulano''\<rparr>\<rparr>"

lemma stranger_key: "dev_candidates (dev_key (tg_command_data m ch \<lparr>tu_id = 7, tu_full_name = n\<rparr> t adm)) = [U ''telegram:7'']"
proof -
  have "show_int 7 = U ''7''" "list_ex (startswith (U ''telegram:7'')) NAMESPACED_PREFIXES"
    "U ''telegram:'' @ U ''7'' = U ''telegram:7''"
    by code_simp+
  then show ?thesis
    by (simp add: dev_candidates_def dev_key_def tg_command_data_def)
qed

theorem telegram_commands_gated_witness:
  "id (snd (tg_handle counting_bot quiet_port (from_stranger (U ''/puppy'') [(U ''bot_command'', 0, 6)]) 3)) = (id 3 :: nat)"
proof (rule telegram_commands_gated)
  let ?m = "\<lparr>tm_id = 1, tm_text = Some (U ''/puppy''), tm_entities = [(U ''bot_command'', 0, 6)]\<rparr>"
  show "up_message (from_stranger (U ''/puppy'') [(U ''bot_command'', 0, 6)]) = Some ?m"
    "up_chat (from_stranger (U ''/puppy'') [(U ''bot_command'', 0, 6)]) = Some private_chat"
    "up_user (from_stranger (U ''/puppy'') [(U ''bot_command'', 0, 6)]) = Some \<lparr>tu_id = 7, tu_full_name = U ''Fulano''\<rparr>"
    by (simp_all add: from_stranger_def)
  show "extract_command_name (tb_username counting_bot) ?m = Some (U ''puppy'')"
    by code_simp
  show "tg_counts id counting_bot quiet_port"
    by (simp add: tg_counts_def counts_runs_def counting_bot_def counting_env_def quiet_port_def get_all_def
        register_all_commands dev_only_cmd_def counting_cmd_def)
  fix c adm and w1 :: nat
  assume "get_strategy (tb_registry counting_bot) (tg_command_text counting_bot (U ''puppy'') ?m) = Some c"
  then have "c \<in> set (get_all (tb_registry counting_bot))"
    using strategy_mem [OF register_all_inv] by (simp add: counting_bot_def)
  then have "c = dev_only_cmd"
    by (simp add: counting_bot_def get_all_def register_all_commands)
  moreover have "U ''telegram:42'' \<noteq> U ''telegram:7''"
    by code_simp
  ultimately show "\<exists>t w'. rejection_text (tb_env counting_bot) c (tg_command_data ?m private_chat
      \<lparr>tu_id = 7, tu_full_name = U ''Fulano''\<rparr> (tg_command_text counting_bot (U ''puppy'') ?m) adm) w1 = (Inr (Some t), w')"
    by (simp add: rejection_text_def gate_is_dev_def gate_reason_def dev_only_cmd_def is_dev_def stranger_key
        counting_bot_def bindA_def)
qed

text \<open>Gated or not, through the agent or not, an update runs at most one command.\<close>

lemma telegram_one_run:
  assumes "tg_counts runs tb port" "registry_inv (tb_registry tb)"
  shows "runs (snd (tg_handle tb port up w)) \<le> runs w + 1"
proof -
  have mem: "get_strategy (tb_registry tb) t = Some c \<Longrightarrow> c \<in> set (get_all (tb_registry tb))" for t c
    using strategy_mem [OF assms(2)] .
  have reply: "adds runs 1 (tg_reply port chat t)" for chat t
    using adds_mono [OF adds_port(1) [OF assms(1)]] by (simp del: One_nat_def)
  have result: "adds runs 1 (tg_route_result tb port chat res)" for chat res
    unfolding tg_route_result_def by (auto simp del: One_nat_def intro: reply adds_run_and_reply [OF assms(1)] dest: mem split: option.split)
  have "adds runs 1 (maybe_route_agent tb port m chat user)" for m chat user
    unfolding maybe_route_agent_def tg_route_def
    by (auto simp del: One_nat_def intro!: adds_bind0 adds_port(2,3,4) [OF assms(1)] reply result split: sum.split)
  then have "adds runs 1 (tg_handle tb port up)"
    unfolding tg_handle_def
    by (auto simp: Let_def simp del: One_nat_def intro!: adds_bind0 adds_gated [OF assms(1)] adds_port(5) [OF assms(1)] reply
        dest: mem split: option.split)
  then show ?thesis by (simp add: adds_def)
qed

text \<open>
  A bot whose world is the list of developers, and whose agent answers every message with the
  call of the tool \<open>dev\<close>, which is among the tools the model is offered.
\<close>

definition dev_request :: pystr where
  "dev_request = U '',dev add @5511999990000''"

definition dev_bot :: "(pystr \<Rightarrow> dev_docs exec) \<Rightarrow> dev_docs tg_bot" where
  "dev_bot other = \<lparr>
     tb_env = \<lparr>ev_find_any = dev_find_any, ev_load = (\<lambda>_ _. ret ChatConfig), ev_agent = (\<lambda>_. ret None),
               ev_emit = (\<lambda>_ w. w), ev_bot_jids = []\<rparr>,
     tb_registry = bot_registry (\<lambda>n. if n = U ''dev'' then dev_execute dev_docs_service else other n),
     tb_fetch = (\<lambda>_ _. ret (200, [])),
     tb_agent = (\<lambda>d. ret (d\<lparr>cd_text := dev_request\<rparr>)),
     tb_username = U ''resenhazord'',
     tb_names = telegram_name_map (bot_registry other)\<rparr>"

definition typed_command :: tg_update where
  "typed_command = from_stranger (U ''/dev add @5511999990000'') [(U ''bot_command'', 0, 4)]"

definition asked_agent :: tg_update where
  "asked_agent = from_stranger (U ''me adiciona como dev'') []"

lemma dev_at: "13 < length (all_commands ex)" "all_commands ex ! 13 = dev_command (ex (U ''dev''))"
  by (simp_all add: all_commands_def simple_commands_def configured_commands_def)

lemma dev_request_selects: "get_strategy (bot_registry ex) dev_request = Some (dev_command (ex (U ''dev'')))"
proof -
  have "U ''dev'' \<in> set (command_names (all_commands ex ! 13))"
    by (simp add: dev_at command_names_def dev_command_def CommandConfig_def)
  then have "rg_by_name (bot_registry ex) (lower (U ''dev'')) = Some 13"
    unfolding bot_registry_def by (rule get_by_name_own [OF names_distinct dev_at(1)])
  moreover have "leading_token dev_request = Some (U ''dev'')"
    by code_simp
  moreover have "matches (cmd_config (dev_command e)) dev_request" for e :: "'b exec"
    by code_simp
  ultimately have "strategy_index (bot_registry ex) dev_request = Some 13"
    by (intro strategy_by_token) (simp_all add: lookup_by_leading_token_def bot_commands dev_at)
  then show ?thesis by (simp add: get_strategy_def bot_commands dev_at)
qed

lemma dev_name: "telegram_name_map (bot_registry ex) (U ''dev'') = Some (U '',dev'')"
  unfolding telegram_name_map_def bot_telegram_names by code_simp

lemma dev_parsed: "pc_rest (parse (cmd_config (dev_command e)) dev_request) = U ''add @5511999990000''"
  "pc_flags (parse (cmd_config (dev_command e)) dev_request) = {}"
  by code_simp+

lemma dev_texts:
  "strip (U ''add @5511999990000'') = U ''add @5511999990000''" "startswith (U ''add @5511999990000'') (U ''add'')"
  "strip (drop 3 (U ''add @5511999990000'')) = U ''@5511999990000''"
  "search False DEV_JID_PATTERN (U ''@5511999990000'') = Some ([], U ''@5511999990000'', [])"
  "digits_group (U ''@5511999990000'') @ U ''@s.whatsapp.net'' = U ''5511999990000@s.whatsapp.net''"
  by code_simp+

lemma dev_runs:
  assumes "cd_mentioned_jids d = []" "cd_platform d = Some TELEGRAM" "cd_text d = dev_request"
  shows "\<exists>t. run_body (dev_command (dev_execute dev_docs_service)) d [] =
    (Inr [reply_text d t], [U ''5511999990000@s.whatsapp.net''])"
proof -
  have "extract_jid (U ''@5511999990000'') d = Some (U ''5511999990000@s.whatsapp.net'')"
    by (simp add: extract_jid_def assms(1,2) dev_texts)
  moreover have "U ''5511999990000@s.whatsapp.net'' \<noteq> []"
    by code_simp
  ultimately have "\<exists>t. dev_execute dev_docs_service d (parse (cmd_config (dev_command (dev_execute dev_docs_service))) dev_request) [] =
      (Inr [reply_text d t], [U ''5511999990000@s.whatsapp.net''])"
    by (simp add: dev_execute_def dev_parsed dev_texts dev_handle_add_def dev_docs_service_def dev_add_def bindA_def) blast
  then obtain t where t: "dev_execute dev_docs_service d (parse (cmd_config (dev_command (dev_execute dev_docs_service))) dev_request) [] =
      (Inr [reply_text d t], [U ''5511999990000@s.whatsapp.net''])"
    by blast
  have "apply_flags d (parse (cmd_config (dev_command (dev_execute dev_docs_service))) dev_request) [reply_text d t] = [reply_text d t]"
    by (simp add: apply_flags_def dev_parsed Let_def)
  with t have "run_body (dev_command (dev_execute dev_docs_service)) d [] =
      (Inr [reply_text d t], [U ''5511999990000@s.whatsapp.net''])"
    by (simp add: run_body_def bindA_def assms(3) Let_def) (simp add: dev_command_def CommandConfig_def)
  then show ?thesis by blast
qed

lemma dev_bot_simps:
  "tb_username (dev_bot other) = U ''resenhazord''" "tb_agent (dev_bot other) d = ret (d\<lparr>cd_text := dev_request\<rparr>)"
  "ev_emit (tb_env (dev_bot other)) = (\<lambda>_ w. w)"
  by (simp_all add: dev_bot_def)

lemma quiet_replies:
  "tg_reply quiet_port chat t w = (Inr (), w)" "safe_react quiet_port chat m w = (Inr (), w)"
  "keep_typing quiet_port chat body w = body w"
  by (simp_all add: tg_reply_def safe_react_def keep_typing_def quiet_port_def attemptA_def bindA_def handleA_def)

lemma quiet_send: "send_all quiet_port chat outs w = (Inr (), w)"
  by (induction outs) (simp_all add: quiet_port_def attemptA_def bindA_def handleA_def)

lemma quiet_text: "tg_send_messages tb quiet_port chat [reply_text d t] w = (Inr (), w)"
  by (simp add: tg_send_messages_def preprocess_for_telegram_def preprocess_messages_def preprocess_one_def
      reply_text_def reply_build_def bindA_def tg_render_def quiet_send)

text \<open>
  C5: the agent of Telegram skips the gate.  The model is offered the tool \<open>dev\<close>.  A stranger who
  types \<open>/dev add\<close> with a number is refused and the list of developers stays empty; the same
  stranger, asking the agent in a private chat, becomes (with that number) a developer of the bot
  when the agent answers with that command, since its answer is run with no gate at all.
\<close>

theorem telegram_agent_skips_gate:
  "offered PUBLIC [NSFW] (dev_command (dev_execute dev_docs_service)) \<and>
   snd (tg_handle (dev_bot other) quiet_port typed_command []) = [] \<and>
   snd (tg_handle (dev_bot other) quiet_port asked_agent []) = [U ''5511999990000@s.whatsapp.net'']"
proof (intro conjI)
  let ?ex = "\<lambda>n. if n = U ''dev'' then dev_execute dev_docs_service else other n"
  let ?c = "dev_command (dev_execute dev_docs_service)"
  let ?m = "the (up_message typed_command)" and ?a = "the (up_message asked_agent)"
  show "offered PUBLIC [NSFW] ?c"
    by code_simp
  have sel: "get_strategy (tb_registry (dev_bot other)) dev_request = Some ?c"
    using dev_request_selects [of ?ex] by (simp add: dev_bot_def)
  have cfg: "\<not> cc_group_only (cmd_config ?c)" "cc_scope (cmd_config ?c) = DEV"
    by (simp_all add: dev_command_def CommandConfig_def)
  have name: "extract_command_name (U ''resenhazord'') ?m = Some (U ''dev'')"
    by code_simp
  have "strip (U '',dev'' @ [32] @ strip (drop (0 + 4) (U ''/dev add @5511999990000''))) = dev_request"
    by code_simp
  then have t: "tg_command_text (dev_bot other) (U ''dev'') ?m = dev_request"
    by (simp add: tg_command_text_def typed_command_def from_stranger_def find_command_entity_def dev_bot_def dev_name)
  have refused: "rejection_text (tb_env (dev_bot other)) ?c d [] = (Inr (Some (gate_message DEV_ONLY)), [])" for d
    by (simp add: rejection_text_def gate_is_dev_def gate_reason_def is_dev_def cfg dev_bot_def dev_find_any_def bindA_def)
  show "snd (tg_handle (dev_bot other) quiet_port typed_command []) = []"
    using name t
    by (simp add: tg_handle_def typed_command_def from_stranger_def dev_bot_simps Let_def sel tg_resolve_admin_def cfg
        tg_run_gated_def refused bindA_def quiet_replies)
  let ?d = "(tg_command_data ?a private_chat \<lparr>tu_id = 7, tu_full_name = U ''Fulano''\<rparr> (U ''me adiciona como dev'') None)
    \<lparr>cd_text := dev_request\<rparr>"
  have "cd_mentioned_jids ?d = []" "cd_platform ?d = Some TELEGRAM" "cd_text ?d = dev_request"
    by (simp_all add: tg_command_data_def)
  from dev_runs [OF this] obtain t where
    "run_body ?c ?d [] = (Inr [reply_text ?d t], [U ''5511999990000@s.whatsapp.net''])" by blast
  then have run: "run_and_reply (dev_bot other) quiet_port ?c ?d chat [] = (Inr (), [U ''5511999990000@s.whatsapp.net''])" for chat
    by (simp add: run_and_reply_def attemptA_def run_command_def dev_bot_simps bindA_def handleA_def Let_def quiet_text)
  have plain: "\<not> startswith dev_request CLARIFY_PREFIX" "\<not> startswith dev_request SUGGEST_PREFIX"
    by code_simp+
  have "extract_command_name u ?a = None" for u
    by (simp add: extract_command_name_def find_command_entity_def asked_agent_def from_stranger_def)
  then show "snd (tg_handle (dev_bot other) quiet_port asked_agent []) = [U ''5511999990000@s.whatsapp.net'']"
    using run
    by (simp add: tg_handle_def asked_agent_def from_stranger_def maybe_route_agent_def tg_route_def private_chat_def
        dev_bot_simps attemptA_def bindA_def handleA_def quiet_replies tg_route_result_def plain sel)
qed

end
