(* ===== verification/Discord.thy ===== *)
theory Discord
  imports Adapters Catalogue
begin

text \<open>
  The Discord adapter: the slash commands it registers (bot/adapters/discord/slash_register.py), an
  interaction (handler.py) and its port (adapter.py), the replies (renderer.py), the messages that
  go to the language model (agent_router.py, bot.py) and the greeting of a server
  (guild_welcome.py).
\<close>

subsection \<open>Slash commands\<close>

definition DC_NAME_MAX_LENGTH :: nat where "DC_NAME_MAX_LENGTH = 32"
definition DC_DESC_MAX_LENGTH :: nat where "DC_DESC_MAX_LENGTH = 100"

definition discord_name :: "pystr \<Rightarrow> pystr" where
  "discord_name name =
     take DC_NAME_MAX_LENGTH
       (filter (\<lambda>c. 97 \<le> c \<and> c \<le> 122 \<or> 48 \<le> c \<and> c \<le> 57 \<or> c = 95 \<or> c = 45)
         (map (\<lambda>c. if c = 32 then 45 else c) (concat (map strip_marks_cp (lower name)))))"

definition WHATSAPP_ONLY_FLAGS :: "pystr list" where
  "WHATSAPP_ONLY_FLAGS = [flag_value DM, flag_value SHOW]"

text \<open>A parameter of the callback: its name, its type and whether it must be given.\<close>

datatype slash_type = SLASH_STR | SLASH_BOOL

definition option_parameters :: "command_config \<Rightarrow> (pystr \<times> slash_type \<times> bool) list" where
  "option_parameters cfg =
     map (\<lambda>opt. (od_name opt, SLASH_STR, False)) (filter (\<lambda>opt. od_values opt \<noteq> [] \<or> od_pattern opt \<noteq> None) (cc_options cfg))"

definition flag_parameters :: "command_config \<Rightarrow> (pystr \<times> slash_type \<times> bool) list" where
  "flag_parameters cfg = map (\<lambda>f. (f, SLASH_BOOL, False)) (filter (\<lambda>f. f \<notin> set WHATSAPP_ONLY_FLAGS) (cc_flags cfg))"

definition args_parameter :: "command_config \<Rightarrow> (pystr \<times> slash_type \<times> bool) list" where
  "args_parameter cfg =
     (if cc_args cfg = ARG_NONE then [] else [(U ''args'', SLASH_STR, cc_args cfg = ARG_REQUIRED)])"

definition build_signature :: "command_config \<Rightarrow> (pystr \<times> slash_type \<times> bool) list" where
  "build_signature cfg = option_parameters cfg @ flag_parameters cfg @ args_parameter cfg"

text \<open>
  \<open>register_all\<close>: the names of the handler, a later one winning, and the tree of commands, an
  earlier one winning.
\<close>

definition on_discord :: "'w command \<Rightarrow> bool" where
  "on_discord c \<longleftrightarrow> supports (cc_platforms (cmd_config c)) DISCORD"

definition discord_names :: "'w registry \<Rightarrow> (pystr \<times> pystr) list" where
  "discord_names r =
     map (\<lambda>c. (discord_name (cc_name (cmd_config c)), 44 # cc_name (cmd_config c))) (filter on_discord (get_all r))"

definition discord_name_map :: "'w registry \<Rightarrow> pystr \<Rightarrow> pystr option" where
  "discord_name_map r = map_of (rev (discord_names r))"

definition add_to_tree ::
  "'w command \<Rightarrow> (pystr \<times> pystr \<times> (pystr \<times> slash_type \<times> bool) list) list \<Rightarrow>
     (pystr \<times> pystr \<times> (pystr \<times> slash_type \<times> bool) list) list" where
  "add_to_tree c tree =
     (let n = discord_name (cc_name (cmd_config c)) in
      if n \<in> fst ` set tree then tree
      else tree @ [(n, take DC_DESC_MAX_LENGTH (cmd_menu c), build_signature (cmd_config c))])"

definition slash_tree :: "'w registry \<Rightarrow> (pystr \<times> pystr \<times> (pystr \<times> slash_type \<times> bool) list) list" where
  "slash_tree r = fold add_to_tree (filter on_discord (get_all r)) []"

subsection \<open>Replies\<close>

record embed =
  em_description :: "pystr option"
  em_image :: "json option"

record dc_reply =
  dr_text :: "pystr option"
  dr_embed :: "embed option"
  dr_file :: "(bytes \<times> pystr) option"

definition DiscordReply :: dc_reply where
  "DiscordReply = \<lparr>dr_text = None, dr_embed = None, dr_file = None\<rparr>"

definition DC_MAX_EMBED_DESC_LENGTH :: nat where "DC_MAX_EMBED_DESC_LENGTH = 4096"

definition DC_UNSUPPORTED :: pystr where
  "DC_UNSUPPORTED = U ''Este tipo de conteudo nao e suportado no Discord.''"

definition BUFFER_EXTENSIONS :: "(pystr \<times> pystr) list" where
  "BUFFER_EXTENSIONS =
     [(U ''image_buffer'', U ''png''), (U ''video_buffer'', U ''mp4''), (U ''audio_buffer'', U ''mp4''),
      (U ''audio_mp3'', U ''mp3'')]"

definition extension :: "pystr \<Rightarrow> pystr \<Rightarrow> pystr" where
  "extension k other = (case dict_get BUFFER_EXTENSIONS k of None \<Rightarrow> other | Some e \<Rightarrow> e)"

definition truthy_caption :: "pystr option \<Rightarrow> pystr option" where
  "truthy_caption c = (if truthy_str c then c else None)"

definition image_embed :: "json \<Rightarrow> pystr option \<Rightarrow> embed" where
  "image_embed url caption = \<lparr>em_description = truthy_caption caption, em_image = Some url\<rparr>"

definition caption_and_url :: "pystr option \<Rightarrow> pystr \<Rightarrow> pystr" where
  "caption_and_url caption url = (if truthy_str caption then the caption @ [10, 10] @ url else url)"

text \<open>\<open>raw['video'].get('url', '')\<close>; a value that is no dict has no \<open>get\<close>.  \<open>str_of\<close> is \<open>str\<close> on other values.\<close>

definition dict_url :: "json \<Rightarrow> exn + json" where
  "dict_url v =
     (case v of
        JObj kvs \<Rightarrow> Inr (case dict_get kvs (U ''url'') of None \<Rightarrow> JStr [] | Some u \<Rightarrow> u)
      | _ \<Rightarrow> Inl (OtherExn (U ''AttributeError'')))"

definition as_text :: "(json \<Rightarrow> pystr) \<Rightarrow> json \<Rightarrow> pystr" where
  "as_text str_of v = (case v of JStr s \<Rightarrow> s | _ \<Rightarrow> str_of v)"

definition dc_render_raw :: "(json \<Rightarrow> pystr) \<Rightarrow> (pystr \<times> json) list \<Rightarrow> exn + dc_reply" where
  "dc_render_raw str_of raw =
     (case dict_get raw (U ''video'') of
        Some v \<Rightarrow> map_sum id (\<lambda>u. DiscordReply\<lparr>dr_text := Some (caption_and_url (raw_caption raw) (as_text str_of u))\<rparr>) (dict_url v)
      | None \<Rightarrow>
          (case dict_get raw (U ''image'') of
             Some v \<Rightarrow> map_sum id (\<lambda>u. DiscordReply\<lparr>dr_embed := Some (image_embed u (raw_caption raw))\<rparr>) (dict_url v)
           | None \<Rightarrow> Inr (DiscordReply\<lparr>dr_text := Some DC_UNSUPPORTED\<rparr>)))"

fun dc_render :: "(json \<Rightarrow> pystr) \<Rightarrow> message_content \<Rightarrow> exn + dc_reply" where
  "dc_render str_of (TextContent t _) =
     Inr (DiscordReply\<lparr>dr_embed := Some \<lparr>em_description = Some (take DC_MAX_EMBED_DESC_LENGTH t), em_image = None\<rparr>\<rparr>)"
| "dc_render str_of (ImageContent url caption _) = Inr (DiscordReply\<lparr>dr_embed := Some (image_embed (JStr url) caption)\<rparr>)"
| "dc_render str_of (ImageBufferContent b caption v) =
     (let filename = U ''image.'' @ extension (content_type (ImageBufferContent b caption v)) (U ''png'') in
      Inr (DiscordReply\<lparr>dr_embed := Some (image_embed (JStr (U ''attachment://'' @ filename)) caption), dr_file := Some (b, filename)\<rparr>))"
| "dc_render str_of (VideoContent url caption _) = Inr (DiscordReply\<lparr>dr_text := Some (caption_and_url caption url)\<rparr>)"
| "dc_render str_of (VideoBufferContent b caption v g) =
     Inr (DiscordReply\<lparr>dr_text := truthy_caption caption,
       dr_file := Some (b, U ''video.'' @ extension (content_type (VideoBufferContent b caption v g)) (U ''mp4''))\<rparr>)"
| "dc_render str_of (AudioContent url _ _) = Inr (DiscordReply\<lparr>dr_text := Some url\<rparr>)"
| "dc_render str_of (AudioBufferContent b _ ty) =
     Inr (DiscordReply\<lparr>dr_file := Some (b, U ''audio.'' @ extension ty (U ''mp4''))\<rparr>)"
| "dc_render str_of (StickerContent _ _ _) = Inr (DiscordReply\<lparr>dr_text := Some DC_UNSUPPORTED\<rparr>)"
| "dc_render str_of (RawContent raw) = dc_render_raw str_of raw"

text \<open>
  \<open>_render_audio_async\<close>: the request is the aiohttp session; its \<open>ClientError\<close> leaves the link.
\<close>

definition client_errors :: "pystr list" where
  "client_errors = [U ''ClientError'', U ''ClientResponseError'', U ''ClientPayloadError'', U ''ClientConnectionError'',
     U ''ClientOSError'', U ''ClientConnectorError'', U ''ServerDisconnectedError'', U ''ServerTimeoutError'',
     U ''InvalidURL'', U ''TooManyRedirects'']"

definition is_client_error :: "exn \<Rightarrow> bool" where
  "is_client_error e = (case e of OtherExn n \<Rightarrow> n \<in> set client_errors | Raised _ _ \<Rightarrow> False)"

definition audio_link :: "pystr \<Rightarrow> dc_reply" where
  "audio_link url = DiscordReply\<lparr>dr_text := Some (U ''{127925} '' @ url)\<rparr>"

definition render_audio_async ::
  "(pystr \<Rightarrow> (exn, 'w, nat \<times> bytes) act) \<Rightarrow> pystr \<Rightarrow> pystr \<Rightarrow> (exn, 'w, dc_reply) act" where
  "render_audio_async get url mimetype =
     handleA
       (bindA (get url)
         (\<lambda>(status, body). ret (if status = 200
            then DiscordReply\<lparr>dr_file := Some (body, U ''audio'' @ (if mimetype = [] then U ''.mp3'' else extension mimetype (U ''.mp3'')))\<rparr>
            else audio_link url)))
       (\<lambda>e. if is_client_error e then ret (audio_link url) else raise e)"

definition dc_render_async ::
  "(pystr \<Rightarrow> (exn, 'w, nat \<times> bytes) act) \<Rightarrow> (json \<Rightarrow> pystr) \<Rightarrow> message_content \<Rightarrow> (exn, 'w, dc_reply) act" where
  "dc_render_async get str_of c =
     (case c of
        AudioContent url _ mimetype \<Rightarrow> render_audio_async get url mimetype
      | _ \<Rightarrow> (case dc_render str_of c of Inl e \<Rightarrow> raise e | Inr r \<Rightarrow> ret r))"

subsection \<open>Interactions\<close>

text \<open>
  The channel is its \<open>nsfw\<close> attribute, true when it has none; the permissions are those of a member
  (administrator, manage guild), missing for a user outside a server.
\<close>

record interaction =
  in_id :: int
  in_command :: "pystr option"
  in_guild_id :: "int option"
  in_channel_id :: int
  in_channel_nsfw :: "bool option"
  in_user_id :: int
  in_display_name :: pystr
  in_permissions :: "(bool \<times> bool) option"
  in_kwargs :: "(pystr \<times> json) list"

record 'w dc_port =
  dp_send_message :: "pystr \<Rightarrow> (exn, 'w, unit) act"
  dp_defer :: "(exn, 'w, unit) act"
  dp_followup :: "dc_reply \<Rightarrow> (exn, 'w, unit) act"

record 'w dc_bot =
  db_env :: "'w env"
  db_registry :: "'w registry"
  db_fetch :: "'w fetch"
  db_get :: "pystr \<Rightarrow> (exn, 'w, nat \<times> bytes) act"
  db_agent :: "command_data \<Rightarrow> (exn, 'w, command_data) act"
  db_names :: "pystr \<Rightarrow> pystr option"
  db_str_of :: "json \<Rightarrow> pystr"

definition followup_text :: "'w dc_port \<Rightarrow> pystr \<Rightarrow> (exn, 'w, unit) act" where
  "followup_text port t = dp_followup port (DiscordReply\<lparr>dr_text := Some t\<rparr>)"

definition kwarg :: "(pystr \<times> json) list \<Rightarrow> pystr \<Rightarrow> json" where
  "kwarg kw k = (case dict_get kw k of None \<Rightarrow> JNull | Some v \<Rightarrow> v)"

definition format_option :: "(json \<Rightarrow> pystr) \<Rightarrow> option_def \<Rightarrow> json \<Rightarrow> pystr" where
  "format_option str_of opt v =
     (let s = as_text str_of v in
      case od_pattern opt of
        None \<Rightarrow> s
      | Some r \<Rightarrow> if fullmatch True r s then s else od_name opt @ s)"

definition has_free_args :: "command_config \<Rightarrow> (pystr \<times> json) list \<Rightarrow> bool" where
  "has_free_args cfg kw \<longleftrightarrow>
     kwarg kw (U ''args'') \<noteq> JNull \<and> U ''args'' \<notin> set (map od_name (cc_options cfg)) \<and> U ''args'' \<notin> set (cc_flags cfg)"

definition extract_text_parts :: "(json \<Rightarrow> pystr) \<Rightarrow> command_config \<Rightarrow> (pystr \<times> json) list \<Rightarrow> pystr list" where
  "extract_text_parts str_of cfg kw =
     map (\<lambda>opt. format_option str_of opt (kwarg kw (od_name opt))) (filter (\<lambda>opt. kwarg kw (od_name opt) \<noteq> JNull) (cc_options cfg)) @
     filter (\<lambda>f. kwarg kw f = JBool True) (cc_flags cfg) @
     (if has_free_args cfg kw then [as_text str_of (kwarg kw (U ''args''))] else [])"

definition dc_command_text :: "'w dc_bot \<Rightarrow> pystr \<Rightarrow> (pystr \<times> json) list \<Rightarrow> pystr" where
  "dc_command_text db name kw =
     (let prefix = (case db_names db name of None \<Rightarrow> COMMAND_PREFIX @ name | Some t \<Rightarrow> t) in
      join [32] (prefix #
        (case get_by_name (db_registry db) (lstrip_chars [44, 32] prefix) of
           None \<Rightarrow> []
         | Some c \<Rightarrow> extract_text_parts (db_str_of db) (cmd_config c) kw)))"

definition dc_resolve_admin :: "interaction \<Rightarrow> bool option" where
  "dc_resolve_admin i =
     (if in_guild_id i = None then None
      else map_option (\<lambda>(administrator, manage). administrator \<or> manage) (in_permissions i))"

definition dc_command_data :: "interaction \<Rightarrow> pystr \<Rightarrow> command_data" where
  "dc_command_data i t =
     (CommandData t (show_int (in_channel_id i)) (show_int (in_user_id i)))
       \<lparr>cd_message_id := Some (show_int (in_id i)), cd_is_group := in_guild_id i \<noteq> None,
        cd_push_name := Some (in_display_name i), cd_platform := Some DISCORD, cd_is_admin := dc_resolve_admin i\<rparr>"

definition nsfw_blocked :: "'w command \<Rightarrow> interaction \<Rightarrow> bool" where
  "nsfw_blocked c i \<longleftrightarrow> cc_scope (cmd_config c) = NSFW \<and> in_channel_nsfw i = Some False"

fun follow_all :: "'w dc_port \<Rightarrow> dc_reply list \<Rightarrow> (exn, 'w, unit) act" where
  "follow_all port [] = ret ()"
| "follow_all port (r # rs) = bindA (dp_followup port r) (\<lambda>_. follow_all port rs)"

definition dc_run_and_reply :: "'w dc_bot \<Rightarrow> 'w dc_port \<Rightarrow> 'w command \<Rightarrow> command_data \<Rightarrow> (exn, 'w, unit) act" where
  "dc_run_and_reply db port c d =
     bindA (attemptA (run_command (ev_emit (db_env db)) c d))
       (\<lambda>r. case r of
          Inl e \<Rightarrow> followup_text port (if isinstance e BotError then user_message e else U ''Ocorreu um erro ao executar o comando.'')
        | Inr ms \<Rightarrow>
            if ms = [] then followup_text port (U ''Sem resposta do bot.'')
            else bindA (preprocess_messages (db_fetch db) ms)
              (\<lambda>ms. bindA (mapA (\<lambda>m. dc_render_async (db_get db) (db_str_of db) (bm_content m)) ms) (follow_all port)))"

definition dc_handle :: "'w dc_bot \<Rightarrow> 'w dc_port \<Rightarrow> interaction \<Rightarrow> (exn, 'w, unit) act" where
  "dc_handle db port i =
     (case in_command i of
        None \<Rightarrow> ret ()
      | Some name \<Rightarrow>
          let t = dc_command_text db name (in_kwargs i) in
          (case get_strategy (db_registry db) t of
             None \<Rightarrow> dp_send_message port (U ''Comando nao reconhecido.'')
           | Some c \<Rightarrow>
               if cc_group_only (cmd_config c) \<and> in_guild_id i = None
               then dp_send_message port (U ''Esse comando so funciona em servidores.'')
               else bindA (dp_defer port)
                 (\<lambda>_. if nsfw_blocked c i then followup_text port (U ''Este comando so pode ser usado em canais NSFW.'')
                    else bindA (rejection_text (db_env db) c (dc_command_data i t))
                      (\<lambda>rejection. case rejection of
                         Some why \<Rightarrow> followup_text port why
                       | None \<Rightarrow> dc_run_and_reply db port c (dc_command_data i t)))))"

subsection \<open>The agent\<close>

record dc_message =
  dm_content :: pystr
  dm_channel_id :: int
  dm_author_id :: int
  dm_guild_id :: "int option"

definition dc_message_data :: "dc_message \<Rightarrow> bool \<Rightarrow> command_data" where
  "dc_message_data m grp =
     (CommandData (dm_content m) (show_int (dm_channel_id m)) (show_int (dm_author_id m)))
       \<lparr>cd_is_group := grp, cd_platform := Some DISCORD\<rparr>"

text \<open>\<open>reply\<close> sends one answer to the message; an empty text is sent as a zero-width space.\<close>

definition dc_send_reply :: "(dc_reply \<Rightarrow> (exn, 'w, unit) act) \<Rightarrow> dc_reply \<Rightarrow> (exn, 'w, unit) act" where
  "dc_send_reply reply r = reply (r\<lparr>dr_text := Some (if truthy_str (dr_text r) then the (dr_text r) else [8203])\<rparr>)"

definition reply_line :: "(dc_reply \<Rightarrow> (exn, 'w, unit) act) \<Rightarrow> pystr \<Rightarrow> (exn, 'w, unit) act" where
  "reply_line reply t = reply (DiscordReply\<lparr>dr_text := Some t\<rparr>)"

fun render_each ::
  "'w dc_bot \<Rightarrow> (dc_reply \<Rightarrow> (exn, 'w, unit) act) \<Rightarrow> bot_message list \<Rightarrow> (exn, 'w, unit) act" where
  "render_each db reply [] = ret ()"
| "render_each db reply (m # ms) =
     bindA (dc_render_async (db_get db) (db_str_of db) (bm_content m))
       (\<lambda>r. bindA (dc_send_reply reply r) (\<lambda>_. render_each db reply ms))"

definition dc_pipeline ::
  "'w dc_bot \<Rightarrow> (dc_reply \<Rightarrow> (exn, 'w, unit) act) \<Rightarrow> command_data \<Rightarrow> (exn, 'w, unit) act" where
  "dc_pipeline db reply d =
     bindA (db_agent db d)
       (\<lambda>res.
          if startswith (cd_text res) CLARIFY_PREFIX then reply_line reply (strip (drop (length CLARIFY_PREFIX) (cd_text res)))
          else if startswith (cd_text res) SUGGEST_PREFIX then reply_line reply (strip (drop (length SUGGEST_PREFIX) (cd_text res)))
          else case get_strategy (db_registry db) (cd_text res) of
            None \<Rightarrow> reply_line reply (U ''Comando n{227}o reconhecido.'')
          | Some c \<Rightarrow>
              bindA (run_command (ev_emit (db_env db)) c (d\<lparr>cd_text := cd_text res\<rparr>))
                (\<lambda>ms. if ms = [] then reply_line reply (U ''Sem resposta do comando.'') else render_each db reply ms))"

definition dc_dispatch ::
  "'w dc_bot \<Rightarrow> (dc_reply \<Rightarrow> (exn, 'w, unit) act) \<Rightarrow> command_data \<Rightarrow> (exn, 'w, unit) act" where
  "dc_dispatch db reply d =
     handleA (dc_pipeline db reply d)
       (\<lambda>e. if is_exception e then reply_line reply (U ''Erro ao processar comando.'') else raise e)"

text \<open>\<open>on_message\<close>: who the bot is (identifier and name), and the server it answers in.\<close>

definition dc_mentions_bot :: "(int \<times> pystr) option \<Rightarrow> dc_message \<Rightarrow> bool" where
  "dc_mentions_bot me m =
     (case me of
        None \<Rightarrow> False
      | Some (i, name) \<Rightarrow> contains (U ''<@'' @ show_int i @ U ''>'') (dm_content m) \<or> contains (64 # name) (dm_content m))"

definition dc_on_message ::
  "'w dc_bot \<Rightarrow> (int \<times> pystr) option \<Rightarrow> int \<Rightarrow> (dc_reply \<Rightarrow> (exn, 'w, unit) act) \<Rightarrow> dc_message \<Rightarrow> (exn, 'w, unit) act" where
  "dc_on_message db me server reply m =
     (if map_option fst me = Some (dm_author_id m) \<or> dm_content m = [] then ret ()
      else case dm_guild_id m of
        None \<Rightarrow> dc_dispatch db reply (dc_message_data m False)
      | Some g \<Rightarrow> if g \<noteq> server then ret ()
                 else if \<not> dc_mentions_bot me m then ret ()
                 else dc_dispatch db reply (dc_message_data m True))"

text \<open>The greeting of a new server goes to the first channel the bot may write to.\<close>

definition DISCORD_WELCOME :: pystr where
  "DISCORD_WELCOME =
     U ''{128075} **E a{237}, galera! Sou o Resenhazord2.**{10}{10}Bot de resenha: memes, downloads, figurinhas, jogos e muito mais. Manda {96}/menu{96} pra ver tudo que eu sei fazer.''"

definition writable_channel :: "('c \<times> bool) option \<Rightarrow> ('c \<times> bool) list \<Rightarrow> 'c option" where
  "writable_channel system texts =
     map_option fst (find snd ((case system of None \<Rightarrow> [] | Some c \<Rightarrow> [c]) @ texts))"

definition on_guild_join ::
  "('c \<Rightarrow> pystr \<Rightarrow> (exn, 'w, unit) act) \<Rightarrow> ('c \<times> bool) option \<Rightarrow> ('c \<times> bool) list \<Rightarrow> (exn, 'w, unit) act" where
  "on_guild_join send system texts =
     (case writable_channel system texts of None \<Rightarrow> ret () | Some c \<Rightarrow> send c DISCORD_WELCOME)"


subsection \<open>Connecting\<close>

text \<open>
  \<open>_sync_with_retries\<close>: the global commands are sent, then those of each server are cleared; a
  server that forbids it is skipped, and a failed connection is tried five times, with a longer pause
  each time.  The result is whether it succeeded.
\<close>

definition MAX_SYNC_RETRIES :: nat where "MAX_SYNC_RETRIES = 5"
definition SYNC_RETRY_DELAY_SECS :: nat where "SYNC_RETRY_DELAY_SECS = 3"

record 'w dc_client =
  dc_sync :: "(exn, 'w, unit) act"
  dc_sync_guild :: "int \<Rightarrow> (exn, 'w, unit) act"
  dc_guilds :: "int list"
  dc_connect :: "(exn, 'w, unit) act"
  dc_login :: "pystr \<Rightarrow> (exn, 'w, unit) act"
  dc_close :: "(exn, 'w, unit) act"
  dc_sleep :: "nat \<Rightarrow> (exn, 'w, unit) act"

definition clear_guild_commands :: "'w dc_client \<Rightarrow> int \<Rightarrow> (exn, 'w, unit) act" where
  "clear_guild_commands cl g =
     handleA (dc_sync_guild cl g) (\<lambda>e. if e = OtherExn (U ''Forbidden'') then ret () else raise e)"

definition sync_once :: "'w dc_client \<Rightarrow> (exn, 'w, bool) act" where
  "sync_once cl = bindA (dc_sync cl) (\<lambda>_. bindA (mapA (clear_guild_commands cl) (dc_guilds cl)) (\<lambda>_. ret True))"

definition connector_errors :: "pystr list" where
  "connector_errors = [U ''ClientConnectorError'', U ''ClientConnectorDNSError'', U ''ClientProxyConnectionError'',
     U ''ClientConnectorSSLError'', U ''ClientConnectorCertificateError'', U ''UnixClientConnectorError'']"

definition attemptC :: "(exn, 'w, 'a) act \<Rightarrow> (exn, 'w, exn + 'a) act" where
  "attemptC m = handleA (bindA m (\<lambda>a. ret (Inr a)))
     (\<lambda>e. case e of OtherExn n \<Rightarrow> if n \<in> set connector_errors then ret (Inl e) else raise e | _ \<Rightarrow> raise e)"

fun sync_attempts :: "'w dc_client \<Rightarrow> nat list \<Rightarrow> (exn, 'w, bool) act" where
  "sync_attempts cl [] = ret False"
| "sync_attempts cl (k # ks) =
     bindA (attemptC (sync_once cl))
       (\<lambda>r. case r of
          Inr b \<Rightarrow> ret b
        | Inl _ \<Rightarrow> if k = MAX_SYNC_RETRIES then ret False
                 else bindA (dc_sleep cl (SYNC_RETRY_DELAY_SECS * k)) (\<lambda>_. sync_attempts cl ks))"

definition sync_with_retries :: "'w dc_client \<Rightarrow> (exn, 'w, bool) act" where
  "sync_with_retries cl = sync_attempts cl [1..<MAX_SYNC_RETRIES + 1]"

text \<open>
  \<open>_stay_connected\<close>: the loop has no bound, so it runs on fuel; \<open>None\<close> is an exhausted fuel, the
  number otherwise the delay it had reached.
\<close>

definition RECONNECT_INITIAL_DELAY_SECS :: nat where "RECONNECT_INITIAL_DELAY_SECS = 5"
definition RECONNECT_MAX_DELAY_SECS :: nat where "RECONNECT_MAX_DELAY_SECS = 300"

fun stay_connected :: "nat \<Rightarrow> 'w dc_client \<Rightarrow> nat \<Rightarrow> (exn, 'w, nat option) act" where
  "stay_connected 0 cl delay = ret None"
| "stay_connected (Suc fuel) cl delay =
     bindA (attemptA (dc_connect cl))
       (\<lambda>r. case r of
          Inr _ \<Rightarrow> ret (Some delay)
        | Inl _ \<Rightarrow> bindA (dc_sleep cl delay) (\<lambda>_. stay_connected fuel cl (min (delay * 2) RECONNECT_MAX_DELAY_SECS)))"

text \<open>\<open>start\<close>, up to the task that stays connected.\<close>

definition dc_start :: "'w dc_client \<Rightarrow> pystr \<Rightarrow> (exn, 'w, unit) act" where
  "dc_start cl token =
     handleA (dc_login cl token)
       (\<lambda>e. bindA (dc_close cl)
          (\<lambda>_. raise (if e = OtherExn (U ''LoginFailure'') then OtherExn (U ''PlatformAuthenticationError'') else e)))"

text \<open>The pauses of five failed attempts: thirty seconds in all, four times.\<close>

definition slept :: "nat dc_client \<Rightarrow> bool" where
  "slept cl \<longleftrightarrow> (\<forall>n w. dc_sleep cl n w = (Inr (), w + n))"

lemma sync_gives_up:
  assumes "\<And>w. dc_sync cl w = (Inl (OtherExn (U ''ClientConnectorError'')), w)" and "slept cl"
  shows "sync_with_retries cl 0 = (Inr False, 30)"
proof -
  have "U ''ClientConnectorError'' \<in> set connector_errors" by (simp add: connector_errors_def)
  with assms(1) have "attemptC (sync_once cl) w = (Inr (Inl (OtherExn (U ''ClientConnectorError''))), w)" for w
    by (simp add: attemptC_def sync_once_def bindA_def handleA_def)
  moreover have "[1..<MAX_SYNC_RETRIES + 1] = [1, 2, 3, 4, 5]"
    by (simp add: MAX_SYNC_RETRIES_def upt_conv_Cons)
  ultimately show ?thesis
    using assms(2) by (simp add: sync_with_retries_def slept_def bindA_def MAX_SYNC_RETRIES_def SYNC_RETRY_DELAY_SECS_def)
qed

text \<open>A connection that works at the next try is found, and no pause is over five minutes.\<close>

lemma stay_connected_delay:
  assumes "stay_connected fuel cl delay w = (Inr (Some d), w')" "delay \<le> RECONNECT_MAX_DELAY_SECS"
  shows "d \<le> RECONNECT_MAX_DELAY_SECS"
  using assms
proof (induction fuel arbitrary: delay w)
  case (Suc fuel)
  then show ?case
    by (auto simp: bindA_def split: prod.splits sum.splits)
qed simp

subsection \<open>The commands on Discord\<close>

definition is_identifier :: "pystr \<Rightarrow> bool" where
  "is_identifier s \<longleftrightarrow> (case s of [] \<Rightarrow> False | c # _ \<Rightarrow> \<not> (48 \<le> c \<and> c \<le> 57)) \<and>
     list_all (\<lambda>c. 97 \<le> c \<and> c \<le> 122 \<or> 48 \<le> c \<and> c \<le> 57 \<or> c = 95) s"

definition valid_signature :: "command_config \<Rightarrow> bool" where
  "valid_signature cfg \<longleftrightarrow>
     distinct (map fst (build_signature cfg)) \<and> list_all is_identifier (map fst (build_signature cfg))"

lemma signatures_valid1: "list_all (\<lambda>c. valid_signature (cmd_config c)) (simple_commands ex)"
  by code_simp

lemma signatures_valid2: "list_all (\<lambda>c. valid_signature (cmd_config c)) (configured_commands ex)"
  by code_simp

definition discord_flags :: "bool list" where
  "discord_flags = map (\<lambda>i. i \<notin> {0, 6, 14, 20, 23, 38, 41, 42, 46}) [0..<53]"

lemma discord_flags: "map on_discord (all_commands ex) = discord_flags"
  unfolding discord_flags_def on_discord_def by code_simp

definition discord_declared :: "pystr list" where
  "discord_declared = map hd (map snd (filter fst (zip discord_flags bot_declared)))"

lemma discord_declared: "map (\<lambda>c. cc_name (cmd_config c)) (filter on_discord (all_commands ex)) = discord_declared"
proof -
  have "map (\<lambda>c. cc_name (cmd_config c)) cs = map hd (map command_names cs)" for cs :: "'a command list"
    by (simp add: command_names_def)
  then show ?thesis
    by (simp add: filter_by_flags [of command_names on_discord] discord_flags declared discord_declared_def del: map_map)
qed

text \<open>The check of one name, with its arguments evaluated once.\<close>

definition slash_name_ok :: "pystr \<Rightarrow> bool" where
  "slash_name_ok n \<longleftrightarrow> discord_name n \<noteq> [] \<and> lstrip_chars [44, 32] (44 # n) = n"

lemma discord_declared_ok: "distinct (map discord_name discord_declared)" "list_all slash_name_ok discord_declared"
  by code_simp+

lemma fold_add_to_tree:
  assumes "distinct (map (\<lambda>c. discord_name (cc_name (cmd_config c))) cs)"
    and "list_all (\<lambda>c. discord_name (cc_name (cmd_config c)) \<notin> fst ` set tree) cs"
  shows "fold add_to_tree cs tree =
    tree @ map (\<lambda>c. (discord_name (cc_name (cmd_config c)), take DC_DESC_MAX_LENGTH (cmd_menu c), build_signature (cmd_config c))) cs"
  using assms
proof (induction cs arbitrary: tree)
  case (Cons c cs)
  let ?n = "\<lambda>c. discord_name (cc_name (cmd_config c))"
  let ?e = "(?n c, take DC_DESC_MAX_LENGTH (cmd_menu c), build_signature (cmd_config c))"
  from Cons.prems have "list_all (\<lambda>c'. ?n c' \<notin> fst ` set (tree @ [?e])) cs" "add_to_tree c tree = tree @ [?e]"
    by (auto simp: list_all_iff add_to_tree_def Let_def) (metis image_eqI)
  with Cons show ?case by simp
qed simp

text \<open>
  Every command of the platform becomes a slash command.  None is shadowed by another with the
  same name; the names are ones Discord accepts (1 to 32 lower-case letters, digits, hyphens and
  underscores); the parameters of the callback have different names that are identifiers, so that
  registering them does not fail; and a use of the command brings the text of that same command.
\<close>

theorem discord_slash_commands:
  "slash_tree (bot_registry ex) =
     map (\<lambda>c. (discord_name (cc_name (cmd_config c)), take 100 (cmd_menu c), build_signature (cmd_config c)))
       (filter on_discord (all_commands ex)) \<and>
   list_all (\<lambda>c.
     (let name = cc_name (cmd_config c); n = discord_name name; params = map fst (build_signature (cmd_config c)) in
        n \<noteq> [] \<and> length n \<le> 32 \<and> list_all (\<lambda>x. 97 \<le> x \<and> x \<le> 122 \<or> 48 \<le> x \<and> x \<le> 57 \<or> x = 95 \<or> x = 45) n \<and>
        distinct params \<and> list_all is_identifier params \<and>
        discord_name_map (bot_registry ex) n = Some (44 # name) \<and>
        get_by_name (bot_registry ex) (lstrip_chars [44, 32] (44 # name)) = Some c))
     (filter on_discord (all_commands ex))"
proof
  let ?r = "bot_registry ex" and ?cs = "filter on_discord (all_commands ex)"
  have get_all: "get_all ?r = all_commands ex"
    by (simp add: get_all_def bot_commands)
  have names: "map (\<lambda>c. discord_name (cc_name (cmd_config c))) ?cs = map discord_name discord_declared"
    unfolding discord_declared [symmetric, of ex] by simp
  then show "slash_tree ?r =
     map (\<lambda>c. (discord_name (cc_name (cmd_config c)), take 100 (cmd_menu c), build_signature (cmd_config c))) ?cs"
    using discord_declared_ok(1) fold_add_to_tree [of ?cs "[]"]
    by (simp add: slash_tree_def get_all list_all_iff DC_DESC_MAX_LENGTH_def)
  have "map fst (discord_names ?r) = map discord_name discord_declared"
    using names by (simp add: discord_names_def get_all comp_def)
  then have dist: "distinct (map fst (discord_names ?r))"
    using discord_declared_ok(1) by simp
  then have map: "discord_name_map ?r = map_of (discord_names ?r)"
    unfolding discord_name_map_def by (intro map_of_inject_set [THEN iffD2]) (simp_all add: rev_map [symmetric])
  have one: "let name = cc_name (cmd_config c); n = discord_name name; params = map fst (build_signature (cmd_config c)) in
        n \<noteq> [] \<and> length n \<le> 32 \<and> list_all (\<lambda>x. 97 \<le> x \<and> x \<le> 122 \<or> 48 \<le> x \<and> x \<le> 57 \<or> x = 95 \<or> x = 45) n \<and>
        distinct params \<and> list_all is_identifier params \<and>
        discord_name_map ?r n = Some (44 # name) \<and> get_by_name ?r (lstrip_chars [44, 32] (44 # name)) = Some c"
    if c: "c \<in> set ?cs" for c
  proof -
    let ?n = "cc_name (cmd_config c)"
    have "?n \<in> set discord_declared"
      using c unfolding discord_declared [symmetric, of ex] by auto
    then have ok: "slash_name_ok ?n"
      using discord_declared_ok(2) by (simp add: list_all_iff)
    have "(discord_name ?n, 44 # ?n) \<in> set (discord_names ?r)"
      using c by (auto simp: discord_names_def get_all)
    with dist map have "discord_name_map ?r (discord_name ?n) = Some (44 # ?n)"
      by simp
    moreover have "valid_signature (cmd_config c)"
      using c signatures_valid1 [of ex] signatures_valid2 [of ex] by (auto simp: all_commands_def list_all_iff)
    moreover obtain i where "i < length (all_commands ex)" "c = all_commands ex ! i"
      using c by (auto simp: in_set_conv_nth)
    then have "get_by_name ?r ?n = Some c"
      using own_names [of i ex ?n] by (simp add: reaches_own_def command_names_def)
    moreover have "list_all (\<lambda>x. 97 \<le> x \<and> x \<le> 122 \<or> 48 \<le> x \<and> x \<le> 57 \<or> x = 95 \<or> x = 45) (discord_name ?n)"
      by (auto simp: discord_name_def list_all_iff dest!: in_set_takeD)
    moreover have "length (discord_name ?n) \<le> 32"
      by (simp add: discord_name_def DC_NAME_MAX_LENGTH_def)
    ultimately show ?thesis
      using ok by (simp add: slash_name_ok_def valid_signature_def Let_def)
  qed
  then show "list_all (\<lambda>c.
     (let name = cc_name (cmd_config c); n = discord_name name; params = map fst (build_signature (cmd_config c)) in
        n \<noteq> [] \<and> length n \<le> 32 \<and> list_all (\<lambda>x. 97 \<le> x \<and> x \<le> 122 \<or> 48 \<le> x \<and> x \<le> 57 \<or> x = 95 \<or> x = 45) n \<and>
        distinct params \<and> list_all is_identifier params \<and>
        discord_name_map (bot_registry ex) n = Some (44 # name) \<and>
        get_by_name (bot_registry ex) (lstrip_chars [44, 32] (44 # name)) = Some c)) ?cs"
    unfolding list_all_iff by blast
qed

subsection \<open>What an interaction can run\<close>

definition dc_counts :: "('w \<Rightarrow> nat) \<Rightarrow> 'w dc_bot \<Rightarrow> 'w dc_port \<Rightarrow> bool" where
  "dc_counts runs db port \<longleftrightarrow>
     counts_runs runs (db_env db) (db_registry db) None \<and>
     (\<forall>t w. runs (snd (dp_send_message port t w)) = runs w) \<and>
     (\<forall>w. runs (snd (dp_defer port w)) = runs w) \<and>
     (\<forall>r w. runs (snd (dp_followup port r w)) = runs w) \<and>
     (\<forall>url br w. runs (snd (db_fetch db url br w)) = runs w) \<and>
     (\<forall>url w. runs (snd (db_get db url w)) = runs w)"

lemma adds_dc_port:
  assumes "dc_counts runs db port"
  shows "adds runs 0 (dp_send_message port t)" "adds runs 0 (dp_defer port)" "adds runs 0 (dp_followup port r)"
    "adds runs 0 (followup_text port t)" "adds runs 0 (rejection_text (db_env db) c d)"
    "adds runs 0 (preprocess_messages (db_fetch db) ms)" "adds runs 0 (dc_render_async (db_get db) (db_str_of db) con)"
    "adds runs 0 (follow_all port rs)"
proof -
  show "adds runs 0 (dp_send_message port t)" "adds runs 0 (dp_defer port)"
    and follow: "\<And>r. adds runs 0 (dp_followup port r)"
    using assms by (simp_all add: dc_counts_def adds0_iff)
  then show "adds runs 0 (followup_text port t)" by (simp add: followup_text_def)
  show "adds runs 0 (follow_all port rs)"
    by (induction rs) (simp_all add: adds_bind0 follow)
  have "counts_runs runs (db_env db) (db_registry db) None"
    using assms by (simp add: dc_counts_def)
  from adds_gate [OF this] show "adds runs 0 (rejection_text (db_env db) c d)"
    unfolding rejection_text_def by (intro adds_intros)
  show "adds runs 0 (preprocess_messages (db_fetch db) ms)"
    using assms by (intro adds_download) (simp add: dc_counts_def adds0_iff)
  have "adds runs 0 (db_get db url)" for url
    using assms by (simp add: dc_counts_def adds0_iff)
  then show "adds runs 0 (dc_render_async (db_get db) (db_str_of db) con)"
    unfolding dc_render_async_def render_audio_async_def
    by (cases con) (auto intro!: adds_handle0 adds_bind0 split: prod.split sum.split)
qed

lemma adds_dc_run:
  assumes "dc_counts runs db port" "c \<in> set (get_all (db_registry db))"
  shows "adds runs 1 (dc_run_and_reply db port c d)"
proof -
  have cr: "counts_runs runs (db_env db) (db_registry db) None"
    using assms(1) by (simp add: dc_counts_def)
  have "adds runs (1 + 0) (dc_run_and_reply db port c d)"
    unfolding dc_run_and_reply_def
    by (rule adds_bindA [OF adds_attempt [OF adds_run_command [OF cr assms(2)]]])
      (auto intro!: adds_bind0 adds_mapA adds_dc_port [OF assms(1)] split: sum.split)
  then show ?thesis by (simp del: One_nat_def)
qed

text \<open>An interaction runs at most one command.\<close>

lemma discord_one_run:
  assumes "dc_counts runs db port" "registry_inv (db_registry db)"
  shows "runs (snd (dc_handle db port i w)) \<le> runs w + 1"
proof -
  have "adds runs 1 (dc_handle db port i)"
    unfolding dc_handle_def
    by (auto simp: Let_def simp del: One_nat_def intro!: adds_bind0 adds_dc_port(2,5) [OF assms(1)]
        adds_mono [OF adds_dc_port(1) [OF assms(1)]] adds_mono [OF adds_dc_port(4) [OF assms(1)]]
        adds_dc_run [OF assms(1) strategy_mem [OF assms(2)]] split: option.split)
  then show ?thesis by (simp add: adds_def)
qed

text \<open>
  C16: the slash commands of Discord pass their checks.  When the gate refuses the command, or the
  command is for adults and the channel is not marked so, nothing is run, whoever asks and whatever
  else goes wrong.
\<close>

theorem discord_commands_gated:
  assumes "dc_counts runs db port" "in_command i = Some name"
    and "\<And>c w. get_strategy (db_registry db) (dc_command_text db name (in_kwargs i)) = Some c \<Longrightarrow>
      nsfw_blocked c i \<or>
      (\<exists>t w'. rejection_text (db_env db) c (dc_command_data i (dc_command_text db name (in_kwargs i))) w = (Inr (Some t), w'))"
  shows "runs (snd (dc_handle db port i w)) = runs w"
proof -
  let ?t = "dc_command_text db name (in_kwargs i)"
  have gated: "adds runs 0 (bindA (rejection_text (db_env db) c (dc_command_data i ?t))
      (\<lambda>rejection. case rejection of Some why \<Rightarrow> followup_text port why
         | None \<Rightarrow> dc_run_and_reply db port c (dc_command_data i ?t)))"
    if c: "get_strategy (db_registry db) ?t = Some c" "\<not> nsfw_blocked c i" for c
  proof (rule adds_bindA0 [OF adds_dc_port(5) [OF assms(1)]])
    fix w a w' assume "rejection_text (db_env db) c (dc_command_data i ?t) w = (Inr a, w')"
    with assms(3) [OF c(1), of w] c(2) obtain t where "a = Some t" by auto
    then show "adds runs 0 (case a of Some why \<Rightarrow> followup_text port why
        | None \<Rightarrow> dc_run_and_reply db port c (dc_command_data i ?t))"
      by (simp add: adds_dc_port(4) [OF assms(1)])
  qed
  have "adds runs 0 (dc_handle db port i)"
    unfolding dc_handle_def
    by (auto simp: assms(2) Let_def intro!: adds_bind0 gated adds_dc_port(1,2,4) [OF assms(1)] split: option.split)
  then show ?thesis by (simp add: adds0_iff)
qed

definition adult_cmd :: "nat command" where
  "adult_cmd = counting_cmd\<lparr>cmd_config := puppy_config\<lparr>cc_scope := NSFW\<rparr>\<rparr>"

definition silent_dc_port :: "'w dc_port" where
  "silent_dc_port = \<lparr>dp_send_message = (\<lambda>_. ret ()), dp_defer = ret (), dp_followup = (\<lambda>_. ret ())\<rparr>"

text \<open>A bot with that one command, whose agent answers every message with it.\<close>

definition adult_bot :: "nat dc_bot" where
  "adult_bot = \<lparr>db_env = counting_env, db_registry = register_all [adult_cmd], db_fetch = (\<lambda>_ _. ret (200, [])),
     db_get = (\<lambda>_. ret (200, [])), db_agent = (\<lambda>d. ret (d\<lparr>cd_text := U '',puppy''\<rparr>)),
     db_names = (\<lambda>_. None), db_str_of = (\<lambda>_. [])\<rparr>"

definition in_plain_channel :: interaction where
  "in_plain_channel = \<lparr>in_id = 1, in_command = Some (U ''puppy''), in_guild_id = Some 5, in_channel_id = 9,
     in_channel_nsfw = Some False, in_user_id = 7, in_display_name = U ''Fulano'', in_permissions = None, in_kwargs = []\<rparr>"

lemma adult_bot_counts: "dc_counts id adult_bot silent_dc_port"
  by (simp add: dc_counts_def counts_runs_def adult_bot_def counting_env_def silent_dc_port_def get_all_def
      register_all_commands adult_cmd_def counting_cmd_def)

lemma adult_bot_only:
  "get_strategy (db_registry adult_bot) t = Some c \<Longrightarrow> c = adult_cmd"
  using strategy_mem [OF register_all_inv, of "[adult_cmd]" t c] by (simp add: adult_bot_def get_all_def register_all_commands)

lemma adult_blocked: "nsfw_blocked adult_cmd in_plain_channel"
  by (simp add: nsfw_blocked_def adult_cmd_def in_plain_channel_def)

theorem discord_commands_gated_witness:
  "id (snd (dc_handle adult_bot silent_dc_port in_plain_channel 3)) = (id 3 :: nat)"
proof (rule discord_commands_gated [OF adult_bot_counts])
  show "in_command in_plain_channel = Some (U ''puppy'')"
    by (simp add: in_plain_channel_def)
  fix c w
  assume "get_strategy (db_registry adult_bot) (dc_command_text adult_bot (U ''puppy'') (in_kwargs in_plain_channel)) = Some c"
  then have c: "c = adult_cmd" by (rule adult_bot_only)
  show "nsfw_blocked c in_plain_channel \<or> (\<exists>t w'. rejection_text (db_env adult_bot) c
      (dc_command_data in_plain_channel (dc_command_text adult_bot (U ''puppy'') (in_kwargs in_plain_channel))) w = (Inr (Some t), w'))"
    unfolding c by (rule disjI1) (rule adult_blocked)
qed

text \<open>
  The agent of Discord has neither check: the same command, refused as a slash command in a channel
  of a server that is not marked for adults, is run there when the agent answers with it.
\<close>

definition asks_in_channel :: dc_message where
  "asks_in_channel = \<lparr>dm_content = U ''<@42> manda'', dm_channel_id = 9, dm_author_id = 7, dm_guild_id = Some 5\<rparr>"

lemma adult_selected: "get_strategy (db_registry adult_bot) (U '',puppy'') = Some adult_cmd"
proof -
  have "strategy_index (register_all [adult_cmd]) (U '',puppy'') = Some 0"
    by code_simp
  then show ?thesis
    by (simp add: get_strategy_def adult_bot_def register_all_commands)
qed

lemma adult_agent: "db_agent adult_bot d = ret (d\<lparr>cd_text := U '',puppy''\<rparr>)"
  by (simp add: adult_bot_def)

lemma discord_agent_skips_checks:
  "snd (dc_handle adult_bot silent_dc_port in_plain_channel 0) = 0 \<and>
   snd (dc_on_message adult_bot (Some (42, U ''resenhazord'')) 5 (\<lambda>_. ret ()) asks_in_channel 0) = 1"
proof
  show "snd (dc_handle adult_bot silent_dc_port in_plain_channel 0) = 0"
    using adult_blocked
    by (auto simp: dc_handle_def in_plain_channel_def silent_dc_port_def bindA_def Let_def followup_text_def
        dest!: adult_bot_only split: option.split)
  have "dc_mentions_bot (Some (42, U ''resenhazord'')) asks_in_channel" "dm_content asks_in_channel \<noteq> []"
    "\<not> startswith (U '',puppy'') CLARIFY_PREFIX" "\<not> startswith (U '',puppy'') SUGGEST_PREFIX"
    by code_simp+
  moreover have "run_command (ev_emit (db_env adult_bot)) adult_cmd d 0 = (Inr [], 1)" for d
    by (simp add: run_command_def adult_bot_def counting_env_def adult_cmd_def counting_cmd_def run_body_def
        bindA_def handleA_def Let_def apply_flags_def puppy_config_def)
  ultimately show "snd (dc_on_message adult_bot (Some (42, U ''resenhazord'')) 5 (\<lambda>_. ret ()) asks_in_channel 0) = 1"
    by (simp add: dc_on_message_def asks_in_channel_def dc_dispatch_def dc_pipeline_def dc_message_data_def
        adult_agent adult_selected reply_line_def bindA_def handleA_def)
qed

end
