(* ===== verification/Content_Filter.thy ===== *)
theory Content_Filter
  imports Adapters
begin

text \<open>
  What the commands for adults never send: the denylist (bot/domain/services/minors_filter.py,
  bot/data/nsfw_tags.py) and the sources that go through it: RedGifs
  (bot/domain/services/redgifs.py), Rule 34 (rule34_images.py, bot/domain/commands/rule34.py) and
  \<open>hentai\<close> (bot/domain/commands/hentai.py, bot/data/hentai_gallery.py, bot/domain/services/hentai).
  The requests are actions; what BeautifulSoup selects from a page is the record of the page.
\<close>

subsection \<open>The denylist\<close>

definition MINOR_TAG_TERMS :: "pystr list" where
  "MINOR_TAG_TERMS = [U ''loli'', U ''shota'', U ''toddler'', U ''child'', U ''underage'', U ''preteen'', U ''infant'',
     U ''baby'', U ''young'', U ''kid'', U ''teen'', U ''minor'', U ''little'', U ''cub'', U ''school'', U ''student'',
     U ''{12525}{12522}'', U ''{12471}{12519}{12479}'', U ''{24188}{22899}'']"

definition denylisted :: "pystr list \<Rightarrow> bool" where
  "denylisted labels \<longleftrightarrow> list_ex (\<lambda>label. list_ex (\<lambda>term. contains term (lower label)) MINOR_TAG_TERMS) labels"

text \<open>Nothing on the denylist occurs in any of the labels, in either case.\<close>

definition clean :: "pystr list \<Rightarrow> bool" where
  "clean labels \<longleftrightarrow> list_all (\<lambda>label. list_all (\<lambda>term. \<not> contains term (lower label)) MINOR_TAG_TERMS) labels"

lemma not_denylisted_clean: "\<not> denylisted labels \<longleftrightarrow> clean labels"
  by (auto simp: denylisted_def clean_def list_all_iff list_ex_iff)

lemma clean_append [simp]: "clean (xs @ ys) \<longleftrightarrow> clean xs \<and> clean ys"
  and clean_Cons: "clean (x # xs) \<longleftrightarrow> clean [x] \<and> clean xs"
  by (auto simp: clean_def)

text \<open>\<open>random.choice\<close>: any number is drawn, taken modulo the length.\<close>

definition draw_from :: "(exn, 'w, nat) act \<Rightarrow> 'a list \<Rightarrow> (exn, 'w, 'a) act" where
  "draw_from draw xs = bindA draw (\<lambda>i. ret (xs ! (i mod length xs)))"

definition raise_for_status :: "nat \<Rightarrow> (exn, 'w, unit) act" where
  "raise_for_status status = (if 200 \<le> status \<and> status < 300 then ret () else raise (OtherExn (U ''HTTPStatusError'')))"

lemma draw_from_mem:
  assumes "draw_from draw xs w = (Inr x, w')" "xs \<noteq> []"
  shows "x \<in> set xs"
  using assms(1) unfolding draw_from_def
  by (rule bindA_InrE) (use assms(2) in auto)

subsection \<open>RedGifs\<close>

text \<open>
  An item of the search, with no tags or niches when it has no such key; the token of the service
  object is read and written; \<open>rp_search token tag page videos\<close> is the request.
\<close>

record gif_item =
  gif_tags :: "pystr list"
  gif_niches :: "pystr list"
  gif_url :: pystr
  gif_type :: int

record 'w gif_port =
  rp_load :: "(exn, 'w, pystr option) act"
  rp_store :: "pystr option \<Rightarrow> (exn, 'w, unit) act"
  rp_new_token :: "(exn, 'w, nat \<times> pystr) act"
  rp_search :: "pystr \<Rightarrow> pystr \<Rightarrow> nat \<Rightarrow> bool \<Rightarrow> (exn, 'w, nat \<times> gif_item list) act"
  rp_draw :: "(exn, 'w, nat) act"

record redgifs_media =
  rm_url :: pystr
  rm_is_video :: bool

definition RG_MAX_PAGE :: nat where "RG_MAX_PAGE = 10"
definition RG_VIDEO_TYPE :: int where "RG_VIDEO_TYPE = 1"

definition fetch_token :: "'w gif_port \<Rightarrow> (exn, 'w, pystr) act" where
  "fetch_token port =
     bindA (rp_new_token port)
       (\<lambda>(status, token). bindA (raise_for_status status) (\<lambda>_. bindA (rp_store port (Some token)) (\<lambda>_. ret token)))"

definition get_search :: "'w gif_port \<Rightarrow> pystr \<Rightarrow> nat \<Rightarrow> bool \<Rightarrow> (exn, 'w, nat \<times> gif_item list) act" where
  "get_search port tag page videos =
     bindA (rp_load port)
       (\<lambda>t. bindA (case t of Some token \<Rightarrow> if token \<noteq> [] then ret token else fetch_token port | None \<Rightarrow> fetch_token port)
          (\<lambda>token. rp_search port token tag page videos))"

definition search_gifs :: "'w gif_port \<Rightarrow> pystr \<Rightarrow> nat \<Rightarrow> bool \<Rightarrow> (exn, 'w, gif_item list) act" where
  "search_gifs port tag page videos =
     bindA (get_search port tag page videos)
       (\<lambda>r. bindA (if fst r = 401 then bindA (rp_store port None) (\<lambda>_. get_search port tag page videos) else ret r)
          (\<lambda>(status, gifs). bindA (raise_for_status status) (\<lambda>_. ret gifs)))"

definition points_to_minors :: "gif_item \<Rightarrow> bool" where
  "points_to_minors item \<longleftrightarrow> denylisted (gif_tags item @ gif_niches item)"

definition random_media :: "'w gif_port \<Rightarrow> pystr \<Rightarrow> bool \<Rightarrow> (exn, 'w, redgifs_media) act" where
  "random_media port tag video_only =
     bindA (rp_draw port)
       (\<lambda>i. bindA (search_gifs port tag (i mod RG_MAX_PAGE + 1) video_only)
         (\<lambda>gifs. let safe = filter (\<lambda>item. \<not> points_to_minors item) gifs in
            if safe = [] then raise (Raised ExternalServiceError (U ''N{227}o achei nada nessa categoria agora, tenta de novo''))
            else bindA (draw_from (rp_draw port) safe)
              (\<lambda>item. ret \<lparr>rm_url = gif_url item, rm_is_video = (gif_type item = RG_VIDEO_TYPE)\<rparr>)))"

text \<open>
  RedGifs never hands on an item that points to minors.  The item drawn is one the search
  returned, and no term of the denylist occurs in any of its tags or niches.
\<close>

theorem redgifs_item_is_clean:
  assumes "random_media port tag video_only w = (Inr media, w')"
  shows "\<exists>page gifs item w1 w2. search_gifs port tag page video_only w1 = (Inr gifs, w2) \<and> item \<in> set gifs \<and>
    1 \<le> page \<and> page \<le> 10 \<and> rm_url media = gif_url item \<and> clean (gif_tags item @ gif_niches item)"
proof -
  from assms obtain i w1 where "bindA (search_gifs port tag (i mod RG_MAX_PAGE + 1) video_only)
         (\<lambda>gifs. let safe = filter (\<lambda>item. \<not> points_to_minors item) gifs in
            if safe = [] then raise (Raised ExternalServiceError (U ''N{227}o achei nada nessa categoria agora, tenta de novo''))
            else bindA (draw_from (rp_draw port) safe)
              (\<lambda>item. ret \<lparr>rm_url = gif_url item, rm_is_video = (gif_type item = RG_VIDEO_TYPE)\<rparr>)) w1 = (Inr media, w')"
    unfolding random_media_def by (rule bindA_InrE)
  then obtain gifs w2 where g: "search_gifs port tag (i mod RG_MAX_PAGE + 1) video_only w1 = (Inr gifs, w2)"
    and r: "(let safe = filter (\<lambda>item. \<not> points_to_minors item) gifs in
            if safe = [] then raise (Raised ExternalServiceError (U ''N{227}o achei nada nessa categoria agora, tenta de novo''))
            else bindA (draw_from (rp_draw port) safe)
              (\<lambda>item. ret \<lparr>rm_url = gif_url item, rm_is_video = (gif_type item = RG_VIDEO_TYPE)\<rparr>)) w2 = (Inr media, w')"
    by (rule bindA_InrE)
  let ?safe = "filter (\<lambda>item. \<not> points_to_minors item) gifs"
  from r have ne: "?safe \<noteq> []" by (auto simp: Let_def)
  with r obtain item w3 where "draw_from (rp_draw port) ?safe w2 = (Inr item, w3)" "rm_url media = gif_url item"
    by (auto simp: Let_def elim!: bindA_InrE)
  moreover from this ne have "item \<in> set ?safe" by (blast intro: draw_from_mem)
  moreover have "i mod RG_MAX_PAGE + 1 \<le> 10" by (simp add: RG_MAX_PAGE_def Suc_le_eq)
  ultimately show ?thesis
    using g by (intro exI [of _ "i mod RG_MAX_PAGE + 1"] exI [of _ gifs] exI [of _ item] exI [of _ w1] exI [of _ w2])
      (auto simp: points_to_minors_def not_denylisted_clean)
qed


definition one_gif :: gif_item where
  "one_gif = \<lparr>gif_tags = [U ''Adult''], gif_niches = [], gif_url = U ''u'', gif_type = 1\<rparr>"

definition one_gif_port :: "unit gif_port" where
  "one_gif_port = \<lparr>rp_load = ret (Some (U ''t'')), rp_store = (\<lambda>_. ret ()), rp_new_token = ret (200, U ''t''),
     rp_search = (\<lambda>_ _ _ _. ret (200, [one_gif])), rp_draw = ret 0\<rparr>"

theorem redgifs_item_is_clean_witness:
  "\<exists>page gifs item w1 w2. search_gifs one_gif_port [] page False w1 = (Inr gifs, w2) \<and> item \<in> set gifs \<and>
    1 \<le> page \<and> page \<le> 10 \<and> rm_url \<lparr>rm_url = U ''u'', rm_is_video = True\<rparr> = gif_url item \<and>
    clean (gif_tags item @ gif_niches item)"
proof (rule redgifs_item_is_clean)
  have "\<not> points_to_minors one_gif" "U ''t'' \<noteq> []" by code_simp+
  then show "random_media one_gif_port [] False () = (Inr \<lparr>rm_url = U ''u'', rm_is_video = True\<rparr>, ())"
    by (simp add: random_media_def one_gif_port_def search_gifs_def get_search_def raise_for_status_def draw_from_def
        one_gif_def RG_VIDEO_TYPE_def bindA_def)
qed

subsection \<open>Rule 34\<close>

text \<open>
  A page of rule34.xxx: the source and the alternative text of the images of its box, and the texts
  of its sidebar.  A post of paheal has its tags, its file name and its address.
\<close>

record r34_page =
  pg_images :: "(pystr option \<times> pystr option) list"
  pg_sidebar :: "pystr list"

record paheal_post =
  po_tags :: pystr
  po_file_name :: pystr
  po_file_url :: pystr

record 'w r34_port =
  r34_page_of :: "(exn, 'w, nat \<times> r34_page) act"
  r34_posts :: "nat \<Rightarrow> (exn, 'w, nat \<times> paheal_post list) act"
  r34_draw :: "(exn, 'w, nat) act"

definition R34_MAX_PAGE :: nat where "R34_MAX_PAGE = 200000"
definition MIN_TAGS :: nat where "MIN_TAGS = 3"
definition PLACEHOLDER_TAG :: pystr where "PLACEHOLDER_TAG = U ''tagme''"

definition IMAGE_EXTENSIONS :: "pystr list" where
  "IMAGE_EXTENSIONS = [U ''.png'', U ''.jpg'', U ''.jpeg'']"

definition host_class :: cclass where
  "host_class = COr (CRange 97 122) (COr (CRange 48 57) (CRange 45 45))"

definition chars_class :: "pystr \<Rightarrow> cclass" where
  "chars_class cs = foldr (\<lambda>c k. COr (CRange c c) k) cs CWord"

definition RULE34_CDN_URL :: rx where
  "RULE34_CDN_URL = rseq [lit (U ''https://''), Plus (Cls host_class), lit (U ''.rule34.xxx/''), Plus (Cls (chars_class (U ''/.?=&-'')))]"

definition PAHEAL_CDN_URL :: rx where
  "PAHEAL_CDN_URL = rseq [lit (U ''https://''), Plus (Cls host_class), lit (U ''.paheal-cdn.net/''), Plus (Cls (chars_class (U ''/.-'')))]"

definition py_str_opt :: "pystr option \<Rightarrow> pystr" where
  "py_str_opt v = (case v of None \<Rightarrow> U ''None'' | Some s \<Rightarrow> s)"

definition image_of :: "r34_page \<Rightarrow> pystr option" where
  "image_of page =
     (case filter (\<lambda>(src, alt). fullmatch False RULE34_CDN_URL (py_str_opt src)) (pg_images page) of
        [] \<Rightarrow> None
      | (src, alt) # _ \<Rightarrow>
          if denylisted (split_ws (case alt of None \<Rightarrow> [] | Some a \<Rightarrow> a) @ pg_sidebar page) then None else Some (py_str_opt src))"

definition from_rule34 :: "'w r34_port \<Rightarrow> (exn, 'w, pystr option) act" where
  "from_rule34 port =
     handleA
       (bindA (r34_page_of port)
         (\<lambda>(status, page). if status = 403 then ret None
            else bindA (raise_for_status status) (\<lambda>_. ret (image_of page))))
       (\<lambda>e. if is_http_error e then ret None else raise e)"

definition endswith_any :: "pystr \<Rightarrow> pystr list \<Rightarrow> bool" where
  "endswith_any s es \<longleftrightarrow> list_ex (\<lambda>e. suffix e s) es"

definition is_sendable :: "paheal_post \<Rightarrow> bool" where
  "is_sendable post \<longleftrightarrow>
     (let tags = split_ws (lower (po_tags post)); file_name = lower (po_file_name post) in
      MIN_TAGS \<le> length tags \<and> PLACEHOLDER_TAG \<notin> set tags \<and> \<not> denylisted (tags @ [file_name]) \<and>
      endswith_any file_name IMAGE_EXTENSIONS \<and> fullmatch False PAHEAL_CDN_URL (po_file_url post))"

definition from_paheal :: "'w r34_port \<Rightarrow> (exn, 'w, pystr) act" where
  "from_paheal port =
     bindA (r34_draw port)
       (\<lambda>i. bindA (r34_posts port (i mod R34_MAX_PAGE + 1))
         (\<lambda>(status, posts). bindA (raise_for_status status)
           (\<lambda>_. let images = map po_file_url (filter is_sendable posts) in
              if images = [] then raise (Raised ExternalServiceError (U ''Nenhuma imagem encontrada''))
              else draw_from (r34_draw port) images)))"

definition rule34_fetch :: "'w r34_port \<Rightarrow> (exn, 'w, pystr) act" where
  "rule34_fetch port =
     bindA (from_rule34 port) (\<lambda>r. case r of Some url \<Rightarrow> if url \<noteq> [] then ret url else from_paheal port | None \<Rightarrow> from_paheal port)"

definition rule34_execute :: "'w r34_port \<Rightarrow> 'w exec" where
  "rule34_execute port = (\<lambda>d parsed.
     bindA (rule34_fetch port)
       (\<lambda>image. ret [reply_image d image (Some (U ''Aqui est{225} a imagem que voc{234} pediu {129303}''))]))"

lemma image_of_clean:
  assumes "image_of page = Some url"
  shows "\<exists>src alt. (src, alt) \<in> set (pg_images page) \<and> url = py_str_opt src \<and> fullmatch False RULE34_CDN_URL url \<and>
    clean (split_ws (case alt of None \<Rightarrow> [] | Some a \<Rightarrow> a) @ pg_sidebar page)"
proof -
  let ?ok = "filter (\<lambda>(src, alt). fullmatch False RULE34_CDN_URL (py_str_opt src)) (pg_images page)"
  from assms obtain src alt rest where f: "?ok = (src, alt) # rest"
    and nf: "\<not> denylisted (split_ws (case alt of None \<Rightarrow> [] | Some a \<Rightarrow> a) @ pg_sidebar page)" and "url = py_str_opt src"
    by (auto simp: image_of_def split: list.splits if_splits)
  have "(src, alt) \<in> set ?ok" unfolding f by simp
  then have "(src, alt) \<in> set (pg_images page)" "fullmatch False RULE34_CDN_URL (py_str_opt src)" by auto
  with nf \<open>url = py_str_opt src\<close> show ?thesis
    unfolding not_denylisted_clean by blast
qed

text \<open>
  C28: an image of Rule 34 is on its own servers and carries no tag of the denylist.  What is sent is
  either an image of the random page, on rule34.xxx, with no term of the denylist in its own tags or
  those of the page (which may be none), or the file of a post on paheal-cdn.net with three tags or
  more, none of them the placeholder, and no such term in its tags or its file name.
\<close>

theorem rule34_image_is_clean:
  assumes "rule34_fetch port w = (Inr url, w')"
  shows "(\<exists>page src alt. (src, alt) \<in> set (pg_images page) \<and> url = py_str_opt src \<and>
      fullmatch False RULE34_CDN_URL url \<and> clean (split_ws (case alt of None \<Rightarrow> [] | Some a \<Rightarrow> a) @ pg_sidebar page) \<and>
      (\<exists>status w1. r34_page_of port w = (Inr (status, page), w1) \<and> status < 400)) \<or>
    (\<exists>post n posts w1 w2 status. r34_posts port n w1 = (Inr (status, posts), w2) \<and> post \<in> set posts \<and> url = po_file_url post \<and>
      fullmatch False PAHEAL_CDN_URL url \<and> 3 \<le> length (split_ws (lower (po_tags post))) \<and>
      PLACEHOLDER_TAG \<notin> set (split_ws (lower (po_tags post))) \<and>
      clean (split_ws (lower (po_tags post)) @ [lower (po_file_name post)]))"
proof -
  from assms obtain r w1 where r: "from_rule34 port w = (Inr r, w1)"
    and c: "(case r of Some url \<Rightarrow> if url \<noteq> [] then ret url else from_paheal port | None \<Rightarrow> from_paheal port) w1 = (Inr url, w')"
    unfolding rule34_fetch_def by (rule bindA_InrE)
  show ?thesis
  proof (cases "r = Some url")
    case True
    with r obtain status page w2 where p: "r34_page_of port w = (Inr (status, page), w2)" "image_of page = Some url" "status < 400"
      by (cases "r34_page_of port w"; cases "fst (r34_page_of port w)")
        (auto simp: from_rule34_def handleA_def bindA_def raise_for_status_def split: if_splits)
    with image_of_clean [OF p(2)] show ?thesis by blast
  next
    case False
    with c have "from_paheal port w1 = (Inr url, w')"
      by (auto split: option.splits if_splits)
    then obtain i w2 where "(bindA (r34_posts port (i mod R34_MAX_PAGE + 1))
         (\<lambda>(status, posts). bindA (raise_for_status status)
           (\<lambda>_. let images = map po_file_url (filter is_sendable posts) in
              if images = [] then raise (Raised ExternalServiceError (U ''Nenhuma imagem encontrada''))
              else draw_from (r34_draw port) images))) w2 = (Inr url, w')"
      unfolding from_paheal_def by (rule bindA_InrE)
    then obtain sp w3 where q: "r34_posts port (i mod R34_MAX_PAGE + 1) w2 = (Inr sp, w3)"
      and "(case sp of (status, posts) \<Rightarrow> bindA (raise_for_status status)
           (\<lambda>_. let images = map po_file_url (filter is_sendable posts) in
              if images = [] then raise (Raised ExternalServiceError (U ''Nenhuma imagem encontrada''))
              else draw_from (r34_draw port) images)) w3 = (Inr url, w')"
      by (rule bindA_InrE)
    then have "url \<in> set (map po_file_url (filter is_sendable (snd sp)))"
      by (auto simp: Let_def raise_for_status_def split: if_splits prod.splits dest!: draw_from_mem)
    then obtain post where "post \<in> set (snd sp)" "url = po_file_url post" "is_sendable post" by auto
    moreover have "r34_posts port (i mod R34_MAX_PAGE + 1) w2 = (Inr (fst sp, snd sp), w3)" using q by simp
    ultimately show ?thesis
      by (intro disjI2) (fastforce simp: is_sendable_def Let_def not_denylisted_clean MIN_TAGS_def)
  qed
qed


definition one_image :: r34_page where
  "one_image = \<lparr>pg_images = [(Some (U ''https://a.rule34.xxx/i.png''), Some (U ''adult''))], pg_sidebar = []\<rparr>"

definition one_image_port :: "unit r34_port" where
  "one_image_port = \<lparr>r34_page_of = ret (200, one_image), r34_posts = (\<lambda>_. ret (200, [])), r34_draw = ret 0\<rparr>"

theorem rule34_image_is_clean_witness:
  "(\<exists>page src alt. (src, alt) \<in> set (pg_images page) \<and> U ''https://a.rule34.xxx/i.png'' = py_str_opt src \<and>
      fullmatch False RULE34_CDN_URL (U ''https://a.rule34.xxx/i.png'') \<and>
      clean (split_ws (case alt of None \<Rightarrow> [] | Some a \<Rightarrow> a) @ pg_sidebar page) \<and>
      (\<exists>status w1. r34_page_of one_image_port () = (Inr (status, page), w1) \<and> status < 400)) \<or>
    (\<exists>post n posts w1 w2 status. r34_posts one_image_port n w1 = (Inr (status, posts), w2) \<and> post \<in> set posts \<and>
      U ''https://a.rule34.xxx/i.png'' = po_file_url post \<and>
      fullmatch False PAHEAL_CDN_URL (U ''https://a.rule34.xxx/i.png'') \<and> 3 \<le> length (split_ws (lower (po_tags post))) \<and>
      PLACEHOLDER_TAG \<notin> set (split_ws (lower (po_tags post))) \<and>
      clean (split_ws (lower (po_tags post)) @ [lower (po_file_name post)]))"
proof (rule rule34_image_is_clean)
  have "image_of one_image = Some (U ''https://a.rule34.xxx/i.png'')" "U ''https://a.rule34.xxx/i.png'' \<noteq> []"
    by code_simp+
  then show "rule34_fetch one_image_port () = (Inr (U ''https://a.rule34.xxx/i.png''), ())"
    by (simp add: rule34_fetch_def from_rule34_def one_image_port_def raise_for_status_def bindA_def handleA_def)
qed

subsection \<open>Galleries\<close>

record hentai_gallery =
  hg_title :: pystr
  hg_japanese_title :: "pystr option"
  hg_artists :: "pystr list"
  hg_groups :: "pystr list"
  hg_tags :: "pystr list"
  hg_type :: pystr
  hg_language :: pystr
  hg_pages :: int
  hg_date :: pystr
  hg_cover_url :: pystr
  hg_cover_headers :: "(pystr \<times> pystr) list"
  hg_url :: pystr
  hg_hidden_tags :: "pystr list"

definition may_depict_minors :: "hentai_gallery \<Rightarrow> bool" where
  "may_depict_minors g \<longleftrightarrow>
     hg_tags g = [] \<or>
     denylisted (hg_tags g @ hg_hidden_tags g @ [hg_title g, case hg_japanese_title g of None \<Rightarrow> [] | Some t \<Rightarrow> t])"

text \<open>
  The tags of a gallery.  E-Hentai gives texts \<open>namespace:name\<close>; nhentai gives names with a type.
  What is shown in the caption are some of them, the hidden tags are all of them.
\<close>

definition TAG_NAMESPACES :: "pystr list" where
  "TAG_NAMESPACES = [U ''female'', U ''male'', U ''mixed'', U ''other'']"

definition partition_colon :: "pystr \<Rightarrow> pystr \<times> pystr" where
  "partition_colon tag = (takeWhile (\<lambda>c. c \<noteq> 58) tag, drop 1 (dropWhile (\<lambda>c. c \<noteq> 58) tag))"

definition by_namespace :: "pystr list \<Rightarrow> pystr \<Rightarrow> pystr list" where
  "by_namespace tags ns = map (snd \<circ> partition_colon) (filter (\<lambda>t. fst (partition_colon t) = ns) tags)"

definition ehentai_tags :: "pystr list \<Rightarrow> pystr list" where
  "ehentai_tags tags = concat (map (by_namespace tags) TAG_NAMESPACES)"

definition ehentai_hidden :: "pystr list \<Rightarrow> pystr list" where
  "ehentai_hidden tags = map (\<lambda>t. let name = snd (partition_colon t) in if name \<noteq> [] then name else t) tags"

definition UNTRANSLATED_LANGUAGE_TAG :: pystr where "UNTRANSLATED_LANGUAGE_TAG = U ''translated''"

definition ehentai_language :: "pystr list \<Rightarrow> pystr" where
  "ehentai_language tags =
     (case filter (\<lambda>n. n \<noteq> UNTRANSLATED_LANGUAGE_TAG) (by_namespace tags (U ''language'')) of
        [] \<Rightarrow> U ''unknown'' | l # _ \<Rightarrow> l)"

definition filter_tags :: "(pystr \<times> pystr) list \<Rightarrow> pystr \<Rightarrow> pystr list" where
  "filter_tags tags ty = map fst (filter (\<lambda>(name, t). t = ty) tags)"

subsection \<open>The command\<close>

text \<open>The sources by their flag, in the order the default tries them; the cover of a gallery.\<close>

record 'w hentai_port =
  hp_sources :: "(pystr \<times> (exn, 'w, hentai_gallery) act) list"
  hp_cover :: "pystr \<Rightarrow> (pystr \<times> pystr) list \<Rightarrow> (exn, 'w, bytes) act"

definition COVER_RETRIES :: nat where "COVER_RETRIES = 3"
definition MAX_TAGS_SHOWN :: nat where "MAX_TAGS_SHOWN = 10"

definition lookup_errors :: "pystr list" where
  "lookup_errors = [U ''KeyError'', U ''IndexError'']"

definition source_failed :: "exn \<Rightarrow> bool" where
  "source_failed e \<longleftrightarrow> is_http_error e \<or> is_value_error e \<or> isinstance e ExternalServiceError \<or>
     (case e of OtherExn n \<Rightarrow> n \<in> set lookup_errors | Raised _ _ \<Rightarrow> False)"

fun fetch_default :: "(pystr \<times> (exn, 'w, hentai_gallery) act) list \<Rightarrow> (exn, 'w, hentai_gallery) act" where
  "fetch_default [] = raise (OtherExn (U ''ValueError''))"
| "fetch_default [(_, only)] = only"
| "fetch_default ((_, fetch) # sources) = handleA fetch (\<lambda>e. if source_failed e then fetch_default sources else raise e)"

definition select_source ::
  "(pystr \<times> (exn, 'w, hentai_gallery) act) list \<Rightarrow> parsed_command \<Rightarrow> (exn, 'w, hentai_gallery) act" where
  "select_source sources parsed =
     (case filter (\<lambda>(flag, _). flag \<in> pc_flags parsed) sources of [] \<Rightarrow> fetch_default sources | (_, fetch) # _ \<Rightarrow> fetch)"

definition dash_join :: "pystr list \<Rightarrow> pystr" where
  "dash_join xs = (if xs = [] then U ''{8212}'' else join (U '', '') xs)"

definition hentai_caption :: "hentai_gallery \<Rightarrow> pystr" where
  "hentai_caption g =
     (let jap = (case hg_japanese_title g of
                   Some t \<Rightarrow> if t \<noteq> [] \<and> t \<noteq> hg_title g then U ''{10}{128510} _'' @ t @ U ''_'' else []
                 | None \<Rightarrow> []);
          shown = take MAX_TAGS_SHOWN (hg_tags g);
          extra = length (hg_tags g) - MAX_TAGS_SHOWN;
          more = (if 0 < extra then U '' (+'' @ show_nat extra @ U '' more)'' else []);
          tags = (if shown = [] then U ''{8212}'' else join (U '', '') shown @ more)
      in join [10]
           [U ''{128214} *'' @ hg_title g @ U ''*'' @ jap, [],
            U ''{9997}{65039} '' @ dash_join (hg_artists g), U ''{128101} '' @ dash_join (hg_groups g),
            U ''{128218} '' @ hg_type g, U ''{127760} '' @ hg_language g, [],
            U ''{127991}{65039} '' @ tags, U ''{128196} '' @ show_int (hg_pages g), U ''{128197} '' @ hg_date g, [],
            U ''{128279} '' @ hg_url g])"

text \<open>
  One attempt: no result when the gallery is refused, \<open>Inl\<close> an error that leaves a next attempt.
  The bot's own errors end the loop.
\<close>

definition try_gallery ::
  "'w hentai_port \<Rightarrow> (exn, 'w, hentai_gallery) act \<Rightarrow> (exn, 'w, exn + (hentai_gallery \<times> bytes) option) act" where
  "try_gallery port fetch =
     handleA
       (bindA fetch
         (\<lambda>g. if may_depict_minors g then ret (Inr None)
            else bindA (hp_cover port (hg_cover_url g) (hg_cover_headers g)) (\<lambda>c. ret (Inr (Some (g, c))))))
       (\<lambda>e. if isinstance e BotError then raise e else if is_exception e then ret (Inl e) else raise e)"

fun hentai_attempts ::
  "nat \<Rightarrow> 'w hentai_port \<Rightarrow> (exn, 'w, hentai_gallery) act \<Rightarrow> command_data \<Rightarrow> exn option \<Rightarrow> (exn, 'w, bot_message list) act" where
  "hentai_attempts 0 port fetch d last_error =
     raise (case last_error of Some e \<Rightarrow> e | None \<Rightarrow> Raised ExternalServiceError (U ''All hentai fetch attempts failed''))"
| "hentai_attempts (Suc n) port fetch d last_error =
     bindA (try_gallery port fetch)
       (\<lambda>r. case r of
          Inl e \<Rightarrow> hentai_attempts n port fetch d (Some e)
        | Inr None \<Rightarrow> hentai_attempts n port fetch d last_error
        | Inr (Some (g, cover)) \<Rightarrow> ret [reply_image_buffer d cover (Some (hentai_caption g))])"

definition hentai_execute :: "'w hentai_port \<Rightarrow> 'w exec" where
  "hentai_execute port = (\<lambda>d parsed.
     hentai_attempts COVER_RETRIES port (select_source (hp_sources port) parsed) d None)"

lemma hentai_attempts_clean:
  assumes "hentai_attempts n port fetch d le w = (Inr ms, w')"
  shows "\<exists>g cover w1 w2 w3. fetch w1 = (Inr g, w2) \<and> hp_cover port (hg_cover_url g) (hg_cover_headers g) w2 = (Inr cover, w3) \<and>
    ms = [reply_image_buffer d cover (Some (hentai_caption g))] \<and> \<not> may_depict_minors g"
  using assms
proof (induction n arbitrary: le w)
  case (Suc n)
  then obtain r w1 where r: "try_gallery port fetch w = (Inr r, w1)"
    and k: "(case r of
          Inl e \<Rightarrow> hentai_attempts n port fetch d (Some e)
        | Inr None \<Rightarrow> hentai_attempts n port fetch d le
        | Inr (Some (g, cover)) \<Rightarrow> ret [reply_image_buffer d cover (Some (hentai_caption g))]) w1 = (Inr ms, w')"
    by (auto elim!: bindA_InrE)
  show ?case
  proof (cases "\<exists>g cover. r = Inr (Some (g, cover))")
    case True
    then obtain g cover where g: "r = Inr (Some (g, cover))" by blast
    from r g obtain w2 where "fetch w = (Inr g, w2)" "hp_cover port (hg_cover_url g) (hg_cover_headers g) w2 = (Inr cover, w1)"
      "\<not> may_depict_minors g"
      by (auto simp: try_gallery_def handleA_def split: prod.splits sum.splits if_splits elim!: bindA_InrE)
    moreover from g k have "ms = [reply_image_buffer d cover (Some (hentai_caption g))]" by simp
    ultimately show ?thesis by blast
  next
    case False
    with k Suc.IH show ?thesis by (auto split: sum.splits option.splits)
  qed
qed simp

text \<open>
  C29: a gallery is shown only when its tags vouch for it.  When the command answers, the answer is
  the cover of one gallery that its source returned, a gallery with tags to look at and no term of
  the denylist in any tag shown or hidden, in its title, or in its Japanese title.
\<close>

theorem hentai_gallery_is_clean:
  assumes "hentai_execute port d parsed w = (Inr ms, w')"
  shows "\<exists>g cover w1 w2 w3. select_source (hp_sources port) parsed w1 = (Inr g, w2) \<and>
    hp_cover port (hg_cover_url g) (hg_cover_headers g) w2 = (Inr cover, w3) \<and>
    ms = [reply_image_buffer d cover (Some (hentai_caption g))] \<and> hg_tags g \<noteq> [] \<and>
    clean (hg_tags g @ hg_hidden_tags g @ [hg_title g, case hg_japanese_title g of None \<Rightarrow> [] | Some t \<Rightarrow> t])"
proof -
  from hentai_attempts_clean [OF assms [unfolded hentai_execute_def]] obtain g cover w1 w2 w3 where
    "select_source (hp_sources port) parsed w1 = (Inr g, w2)"
    "hp_cover port (hg_cover_url g) (hg_cover_headers g) w2 = (Inr cover, w3)"
    "ms = [reply_image_buffer d cover (Some (hentai_caption g))]" "\<not> may_depict_minors g" by blast
  moreover from this(4) have "hg_tags g \<noteq> []"
    "clean (hg_tags g @ hg_hidden_tags g @ [hg_title g, case hg_japanese_title g of None \<Rightarrow> [] | Some t \<Rightarrow> t])"
    unfolding may_depict_minors_def de_Morgan_disj not_denylisted_clean by blast+
  ultimately show ?thesis by blast
qed

definition one_gallery :: hentai_gallery where
  "one_gallery = \<lparr>hg_title = U ''t'', hg_japanese_title = None, hg_artists = [], hg_groups = [], hg_tags = [U ''adult''],
     hg_type = U ''manga'', hg_language = U ''unknown'', hg_pages = 1, hg_date = U ''2026-01'', hg_cover_url = [],
     hg_cover_headers = [], hg_url = [], hg_hidden_tags = []\<rparr>"

definition one_gallery_port :: "unit hentai_port" where
  "one_gallery_port = \<lparr>hp_sources = [(U ''hitomi'', ret one_gallery)], hp_cover = (\<lambda>_ _. ret [])\<rparr>"

definition plain_parse :: parsed_command where
  "plain_parse = \<lparr>pc_command_name = U ''hentai'', pc_flags = {}, pc_options = [], pc_rest = []\<rparr>"

theorem hentai_gallery_is_clean_witness:
  "\<exists>g cover w1 w2 w3. select_source (hp_sources one_gallery_port) plain_parse w1 = (Inr g, w2) \<and>
    hp_cover one_gallery_port (hg_cover_url g) (hg_cover_headers g) w2 = (Inr cover, w3) \<and>
    [reply_image_buffer (CommandData [] [] []) [] (Some (hentai_caption one_gallery))] =
      [reply_image_buffer (CommandData [] [] []) cover (Some (hentai_caption g))] \<and> hg_tags g \<noteq> [] \<and>
    clean (hg_tags g @ hg_hidden_tags g @ [hg_title g, case hg_japanese_title g of None \<Rightarrow> [] | Some t \<Rightarrow> t])"
proof (rule hentai_gallery_is_clean)
  have "\<not> may_depict_minors one_gallery" by code_simp
  then show "hentai_execute one_gallery_port (CommandData [] [] []) plain_parse () =
      (Inr [reply_image_buffer (CommandData [] [] []) [] (Some (hentai_caption one_gallery))], ())"
    by (simp add: hentai_execute_def COVER_RETRIES_def numeral_eq_Suc try_gallery_def select_source_def plain_parse_def
        one_gallery_port_def bindA_def handleA_def)
qed

text \<open>Every name of every tag of E-Hentai is among the hidden tags, so the denylist sees it.\<close>

lemma ehentai_hides_nothing: "name \<in> set (ehentai_tags tags) \<Longrightarrow> name = [] \<or> name \<in> set (ehentai_hidden tags)"
  by (auto simp: ehentai_tags_def ehentai_hidden_def by_namespace_def Let_def)

lemma clean_ehentai_hidden: "clean (ehentai_hidden tags) \<Longrightarrow> clean (ehentai_tags tags)"
proof -
  assume h: "clean (ehentai_hidden tags)"
  have "clean [[]]" by code_simp
  with h ehentai_hides_nothing [of _ tags] show ?thesis
    by (fastforce simp: clean_def list_all_iff)
qed

end
