(* ===== verification/Sticker.thy ===== *)
theory Sticker
  imports Adapters
begin

text \<open>
  Stickers: what \<open>stic\<close> reads of its words (bot/domain/commands/sticker.py), the quality and the
  encoder of a medium (bot/domain/services/sticker_creator.py), the signatures and the frame
  durations read from the bytes (bot/domain/services/sticker/media_format.py), and the two encoders
  that drop frames until a sticker fits (video_sticker_encoder.py, animated_webp_encoder.py).
  Pillow and ffmpeg are actions of a record.
\<close>

subsection \<open>Bytes\<close>

text \<open>\<open>buffer[a:b]\<close> and \<open>int.from_bytes(..., 'little')\<close>.\<close>

definition slice :: "bytes \<Rightarrow> nat \<Rightarrow> nat \<Rightarrow> bytes" where
  "slice buf a b = take (b - a) (drop a buf)"

definition le_int :: "bytes \<Rightarrow> nat" where
  "le_int bs = foldr (\<lambda>b n. b + 256 * n) bs 0"

definition MIN_VIDEO_SIGNATURE_LEN :: nat where "MIN_VIDEO_SIGNATURE_LEN = 12"
definition MIN_ANIMATED_WEBP_LEN :: nat where "MIN_ANIMATED_WEBP_LEN = 21"
definition WEBP_ANIMATION_FLAG :: nat where "WEBP_ANIMATION_FLAG = 2"
definition DEFAULT_FRAME_DURATION_MS :: nat where "DEFAULT_FRAME_DURATION_MS = 100"
definition ANMF_DURATION_OFFSET :: nat where "ANMF_DURATION_OFFSET = 12"
definition ANMF_DURATION_SIZE :: nat where "ANMF_DURATION_SIZE = 3"
definition ANMF :: bytes where "ANMF = U ''ANMF''"

definition is_video :: "bytes \<Rightarrow> bool" where
  "is_video buf \<longleftrightarrow>
     MIN_VIDEO_SIGNATURE_LEN \<le> length buf \<and>
     (slice buf 4 8 = U ''ftyp'' \<or>
      slice buf 0 4 = U ''RIFF'' \<and> slice buf 8 12 = U ''AVI '' \<or>
      slice buf 0 4 = [26, 69, 223, 163])"

text \<open>\<open>buffer[20] & WEBP_ANIMATION_FLAG\<close>, the second bit of the byte.\<close>

definition is_animated_webp :: "bytes \<Rightarrow> bool" where
  "is_animated_webp buf \<longleftrightarrow>
     MIN_ANIMATED_WEBP_LEN \<le> length buf \<and> slice buf 0 4 = U ''RIFF'' \<and> slice buf 8 12 = U ''WEBP'' \<and>
     slice buf 12 16 = U ''VP8X'' \<and> odd (buf ! 20 div WEBP_ANIMATION_FLAG)"

text \<open>The duration a chunk adds: none when it is not a frame or ends before its duration.\<close>

definition chunk_duration :: "bytes \<Rightarrow> nat \<Rightarrow> nat list" where
  "chunk_duration buf pos =
     (if slice buf pos (pos + 4) = ANMF then
        let start = pos + 8 + ANMF_DURATION_OFFSET; finish = start + ANMF_DURATION_SIZE in
        if finish \<le> length buf then
          let raw = le_int (slice buf start finish) in [if raw = 0 then DEFAULT_FRAME_DURATION_MS else raw]
        else []
      else [])"

definition chunk_size :: "bytes \<Rightarrow> nat \<Rightarrow> nat" where
  "chunk_size buf pos = le_int (slice buf (pos + 4) (pos + 8))"

function scan_frames :: "bytes \<Rightarrow> nat \<Rightarrow> nat list \<Rightarrow> nat list" where
  "scan_frames buf pos durations =
     (if pos + 8 \<le> length buf
      then scan_frames buf (pos + (8 + chunk_size buf pos + chunk_size buf pos mod 2)) (durations @ chunk_duration buf pos)
      else durations)"
  by pat_completeness auto

termination
  by (relation "measure (\<lambda>(buf, pos, _). Suc (length buf) - pos)") auto

declare scan_frames.simps [simp del]

definition frame_durations :: "bytes \<Rightarrow> nat \<Rightarrow> nat list" where
  "frame_durations buf n =
     (let durations = scan_frames buf 12 [] in
      take n (durations @ replicate (n - length durations) DEFAULT_FRAME_DURATION_MS))"

subsection \<open>The words of the command\<close>

definition STICKER_SIDE :: int where "STICKER_SIDE = 512"
definition MAX_FRAME_STRIDE :: nat where "MAX_FRAME_STRIDE = 4"
definition MAX_ANIMATED_STICKER_BYTES :: nat where "MAX_ANIMATED_STICKER_BYTES = 500000"
definition WEBP_QUALITY :: int where "WEBP_QUALITY = 50"
definition MIN_WEBP_QUALITY :: int where "MIN_WEBP_QUALITY = 1"
definition MIN_WORKING_SIZE :: int where "MIN_WORKING_SIZE = 16"
definition DEFAULT_PACK :: pystr where "DEFAULT_PACK = U ''Resenha''"
definition DEFAULT_AUTHOR :: pystr where "DEFAULT_AUTHOR = U ''Resenhazord2''"

text \<open>
  \<open>round(n / 100)\<close>, to the even neighbour at a half.  The products are small integers, so the
  division of floats is exact where a half is reached.
\<close>

definition round_percent :: "int \<Rightarrow> int" where
  "round_percent n =
     (let q = n div 100; r = n mod 100 in
      if r < 50 \<or> r = 50 \<and> even q then q else q + 1)"

definition effective_quality :: "int \<Rightarrow> int" where
  "effective_quality reduction = max MIN_WEBP_QUALITY (round_percent (WEBP_QUALITY * (100 - reduction)))"

definition effective_working_size :: "int \<Rightarrow> int" where
  "effective_working_size reduction = max MIN_WORKING_SIZE (round_percent (STICKER_SIDE * (100 - reduction)))"

definition parse_quality_reduction :: "pystr option \<Rightarrow> exn + int" where
  "parse_quality_reduction token =
     (case token of
        None \<Rightarrow> Inr 0
      | Some t \<Rightarrow>
          if t = [] then Inr 0
          else case py_int (rstrip_by (\<lambda>c. c = 37) (removeprefix [45] (strip t))) of
                 None \<Rightarrow> Inl (OtherExn (U ''ValueError'')) | Some n \<Rightarrow> Inr (int n))"

definition parse_pack_author :: "pystr \<Rightarrow> pystr \<times> pystr" where
  "parse_pack_author args =
     (if args = [] then ([], [])
      else if 124 \<in> set args then (strip (before 124 args), strip (after 124 args))
      else (strip args, []))"

subsection \<open>The encoders\<close>

text \<open>
  \<open>sp_ffmpeg medium graph quality\<close> is a run of ffmpeg with a filter graph: the file it wrote, or its
  error.  \<open>sp_frames\<close> opens an animation and shapes its frames, \<open>sp_save\<close> writes frames with their
  durations, and \<open>sp_image\<close> shapes and writes a still image.
\<close>

record ('w, 'i) sticker_port =
  sp_ffmpeg :: "bytes \<Rightarrow> pystr \<Rightarrow> int \<Rightarrow> (exn, 'w, bytes) act"
  sp_frames :: "bytes \<Rightarrow> pystr \<Rightarrow> int \<Rightarrow> (exn, 'w, 'i list) act"
  sp_save :: "'i list \<Rightarrow> nat list \<Rightarrow> int \<Rightarrow> (exn, 'w, bytes) act"
  sp_image :: "bytes \<Rightarrow> pystr \<Rightarrow> int \<Rightarrow> int \<Rightarrow> (exn, 'w, bytes) act"

definition COVER_STICKER_TYPES :: "pystr list" where
  "COVER_STICKER_TYPES = [U ''crop'', U ''circle'', U ''rounded'']"

definition VIDEO_ALPHA_MASKS :: "(pystr \<times> pystr) list" where
  "VIDEO_ALPHA_MASKS =
     [(U ''circle'', U ''255*lte(hypot(X+0.5-W/2,Y+0.5-H/2),W/2)''),
      (U ''rounded'', U ''255*lte(hypot(max(0,max(W/8-X-0.5,X+0.5-W+W/8)),max(0,max(H/8-Y-0.5,Y+0.5-H+H/8))),W/8)'')]"

definition VIDEO_FPS :: nat where "VIDEO_FPS = 15"

definition filter_graph :: "pystr \<Rightarrow> int \<Rightarrow> nat \<Rightarrow> pystr" where
  "filter_graph sticker_type working_size stride =
     (let sz = show_int working_size @ [58] @ show_int working_size;
          fps = U ''fps='' @ show_nat VIDEO_FPS @ [47] @ show_nat stride;
          fit = (if sticker_type \<in> set COVER_STICKER_TYPES
                 then U ''scale='' @ sz @ U '':force_original_aspect_ratio=increase:flags=bilinear,'' @ fps @ U '',crop='' @ sz
                 else U ''scale='' @ sz @ U '':force_original_aspect_ratio=decrease:flags=bilinear,'' @ fps @ U '',pad='' @ sz @
                   U '':-1:-1:color=0x00000000'');
          shape = (case map_of VIDEO_ALPHA_MASKS sticker_type of
                     Some alpha \<Rightarrow> U '',geq=r={39}r(X,Y){39}:g={39}g(X,Y){39}:b={39}b(X,Y){39}:a={39}'' @ alpha @ [39]
                   | None \<Rightarrow> [])
      in U ''format=rgba,'' @ fit @ shape @ U '',scale=512:512:flags=neighbor'')"

text \<open>The next stride: \<open>max(stride + 1, ceil(len(output) / MAX_ANIMATED_STICKER_BYTES))\<close>.\<close>

definition next_stride :: "nat \<Rightarrow> nat \<Rightarrow> nat" where
  "next_stride stride len =
     max (stride + 1) ((len + MAX_ANIMATED_STICKER_BYTES - 1) div MAX_ANIMATED_STICKER_BYTES)"

function encode_video_from ::
  "('w, 'i) sticker_port \<Rightarrow> bytes \<Rightarrow> pystr \<Rightarrow> int \<Rightarrow> int \<Rightarrow> nat \<Rightarrow> (exn, 'w, bytes) act" where
  "encode_video_from port buf ty quality working_size stride =
     (if stride \<le> MAX_FRAME_STRIDE
      then bindA (sp_ffmpeg port buf (filter_graph ty working_size stride) quality)
        (\<lambda>output. if length output \<le> MAX_ANIMATED_STICKER_BYTES then ret output
           else encode_video_from port buf ty quality working_size (next_stride stride (length output)))
      else raise sticker_too_large)"
  by pat_completeness auto

termination
  by (relation "measure (\<lambda>(_, _, _, _, _, stride). Suc MAX_FRAME_STRIDE - stride)") (auto simp: next_stride_def)

declare encode_video_from.simps [simp del]

definition encode_video :: "('w, 'i) sticker_port \<Rightarrow> bytes \<Rightarrow> pystr \<Rightarrow> int \<Rightarrow> int \<Rightarrow> (exn, 'w, bytes) act" where
  "encode_video port buf ty quality working_size = encode_video_from port buf ty quality working_size 1"

text \<open>\<open>all_frames[::stride]\<close>, and the sums of the durations of the frames each one stands for.\<close>

fun every :: "nat \<Rightarrow> 'i list \<Rightarrow> 'i list" where
  "every stride [] = []"
| "every stride (x # xs) = x # every stride (drop (stride - 1) xs)"

function stride_sums :: "nat \<Rightarrow> nat list \<Rightarrow> nat list" where
  "stride_sums stride ds =
     (if ds = [] \<or> stride = 0 then [] else sum_list (take stride ds) # stride_sums stride (drop stride ds))"
  by pat_completeness auto

termination
  by (relation "measure (\<lambda>(_, ds). length ds)") auto

declare stride_sums.simps [simp del]

definition encode_stride :: "('w, 'i) sticker_port \<Rightarrow> 'i list \<Rightarrow> nat list \<Rightarrow> nat \<Rightarrow> int \<Rightarrow> (exn, 'w, bytes) act" where
  "encode_stride port frames durations stride quality =
     (if frames = [] then raise (OtherExn (U ''IndexError''))
      else sp_save port (every stride frames) (stride_sums stride durations) quality)"

fun encode_strides ::
  "('w, 'i) sticker_port \<Rightarrow> 'i list \<Rightarrow> nat list \<Rightarrow> int \<Rightarrow> nat list \<Rightarrow> (exn, 'w, bytes) act" where
  "encode_strides port frames durations quality [] = raise sticker_too_large"
| "encode_strides port frames durations quality (stride # strides) =
     bindA (encode_stride port frames durations stride quality)
       (\<lambda>output. if length output \<le> MAX_ANIMATED_STICKER_BYTES then ret output
          else encode_strides port frames durations quality strides)"

definition max_stride :: "nat \<Rightarrow> nat" where
  "max_stride n_frames = min MAX_FRAME_STRIDE (max 1 (n_frames div 2))"

definition encode_animation :: "('w, 'i) sticker_port \<Rightarrow> bytes \<Rightarrow> pystr \<Rightarrow> int \<Rightarrow> int \<Rightarrow> (exn, 'w, bytes) act" where
  "encode_animation port buf ty quality working_size =
     bindA (sp_frames port buf ty working_size)
       (\<lambda>frames. encode_strides port frames (frame_durations buf (length frames)) quality [1..<max_stride (length frames) + 1])"

definition create_sticker :: "('w, 'i) sticker_port \<Rightarrow> bytes \<Rightarrow> pystr \<Rightarrow> int \<Rightarrow> (exn, 'w, bytes) act" where
  "create_sticker port buf ty reduction =
     (let quality = effective_quality reduction; working_size = effective_working_size reduction in
      if is_video buf then encode_video port buf ty quality working_size
      else if is_animated_webp buf then encode_animation port buf ty quality working_size
      else sp_image port buf ty quality working_size)"

definition MEDIA_TYPES :: "pystr list" where
  "MEDIA_TYPES = [U ''image'', U ''video'', U ''sticker'']"

definition sticker_execute ::
  "('w, 'i) sticker_port \<Rightarrow> (pystr \<Rightarrow> pystr \<Rightarrow> (exn, 'w, bytes) act) option \<Rightarrow> 'w exec" where
  "sticker_execute port whatsapp = (\<lambda>d parsed.
     if \<not> has_media d \<or> cd_media_type d \<notin> Some ` set MEDIA_TYPES
     then ret [reply_text d (U ''Burro burro! Voc{234} precisa enviar uma imagem, gif ou sticker para fazer um sticker! {129318}{8205}{9794}{65039}'')]
     else case parse_quality_reduction (dict_get (pc_options parsed) (U ''quality'')) of
            Inl e \<Rightarrow> raise e
          | Inr reduction \<Rightarrow>
              let ty = (case dict_get (pc_options parsed) (U ''type'') of None \<Rightarrow> U ''full'' | Some t \<Rightarrow> t);
                  (pack, author) = parse_pack_author (pc_rest parsed);
                  pack = (if pack = [] then DEFAULT_PACK else pack);
                  author = (if author = [] then DEFAULT_AUTHOR else author)
              in bindA (get_media whatsapp d)
                   (\<lambda>buf. bindA (create_sticker port buf ty reduction)
                     (\<lambda>s. ret [reply_sticker d s pack author])))"

subsection \<open>Reading a container\<close>

text \<open>
  A container as it is written: chunks of four characters, the length of the payload in four bytes,
  the payload, and a byte of padding after an odd one.
\<close>

fun le_bytes :: "nat \<Rightarrow> nat \<Rightarrow> bytes" where
  "le_bytes 0 n = []"
| "le_bytes (Suc k) n = n mod 256 # le_bytes k (n div 256)"

definition riff_chunk :: "bytes \<times> bytes \<Rightarrow> bytes" where
  "riff_chunk c = fst c @ le_bytes 4 (length (snd c)) @ snd c @ replicate (length (snd c) mod 2) 0"

definition webp_file :: "(bytes \<times> bytes) list \<Rightarrow> bytes" where
  "webp_file cs =
     (let body = concat (map riff_chunk cs) in U ''RIFF'' @ le_bytes 4 (4 + length body) @ U ''WEBP'' @ body)"

text \<open>A chunk of the format: a name of four characters; a frame has sixteen bytes at least.\<close>

definition chunk_ok :: "bytes \<times> bytes \<Rightarrow> bool" where
  "chunk_ok c \<longleftrightarrow> length (fst c) = 4 \<and> length (snd c) < 2 ^ 32 \<and> (fst c \<noteq> ANMF \<or> 16 \<le> length (snd c))"

definition frame_ms :: "bytes \<times> bytes \<Rightarrow> nat list" where
  "frame_ms c =
     (if fst c = ANMF
      then let raw = le_int (slice (snd c) 12 15) in [if raw = 0 then DEFAULT_FRAME_DURATION_MS else raw]
      else [])"

lemma length_le_bytes [simp]: "length (le_bytes k n) = k"
  by (induction k n rule: le_bytes.induct) auto

lemma le_int_bytes: "le_int (le_bytes k n) = n mod 256 ^ k"
  by (induction k n rule: le_bytes.induct) (simp_all add: le_int_def mod_mult2_eq)

lemma slice_append:
  "length pre \<le> a \<Longrightarrow> slice (pre @ xs) a b = slice xs (a - length pre) (b - length pre)"
  by (simp add: slice_def)

lemma slice_within: "b \<le> length xs \<Longrightarrow> slice (xs @ ys) a b = slice xs a b"
  by (cases "a \<le> b") (simp_all add: slice_def)

lemma chunk_duration_at:
  assumes "slice buf pos (pos + 4) = cc" "cc = ANMF \<Longrightarrow> slice buf (pos + 20) (pos + 23) = q \<and> pos + 23 \<le> length buf"
  shows "chunk_duration buf pos = (if cc = ANMF then [if le_int q = 0 then DEFAULT_FRAME_DURATION_MS else le_int q] else [])"
  using assms
  by (simp add: chunk_duration_def ANMF_DURATION_OFFSET_def ANMF_DURATION_SIZE_def Let_def add.assoc)

lemma scan_step:
  assumes "chunk_ok c"
  shows "chunk_size (pre @ riff_chunk c @ rest) (length pre) = length (snd c)"
    and "chunk_duration (pre @ riff_chunk c @ rest) (length pre) = frame_ms c"
proof -
  obtain cc p where c: "c = (cc, p)" by (cases c)
  have cc: "length cc = 4" and p: "length p < 2 ^ 32" "cc \<noteq> ANMF \<or> 16 \<le> length p"
    using assms by (simp_all add: chunk_ok_def c)
  have "slice (cc @ le_bytes 4 (length p) @ p @ replicate (length p mod 2) 0 @ rest) 4 8 = le_bytes 4 (length p)"
    using cc by (simp add: slice_append slice_within) (simp add: slice_def)
  then show "chunk_size (pre @ riff_chunk c @ rest) (length pre) = length (snd c)"
    using p(1) by (simp add: chunk_size_def slice_append riff_chunk_def c le_int_bytes)
  let ?buf = "pre @ riff_chunk c @ rest"
  have "slice ?buf (length pre) (length pre + 4) = cc"
    using cc by (simp add: slice_append riff_chunk_def c) (simp add: slice_def)
  moreover have "slice ?buf (length pre + 20) (length pre + 23) = slice p 12 15 \<and> length pre + 23 \<le> length ?buf"
    if "16 \<le> length p"
    using cc that by (simp add: slice_append slice_within riff_chunk_def c)
  ultimately show "chunk_duration ?buf (length pre) = frame_ms c"
    using p(2) by (subst chunk_duration_at [where cc = cc and q = "slice p 12 15"]) (auto simp: frame_ms_def c)
qed

lemma scan_chunks:
  assumes "list_all chunk_ok cs"
  shows "scan_frames (pre @ concat (map riff_chunk cs)) (length pre) ds = ds @ concat (map frame_ms cs)"
  using assms
proof (induction cs arbitrary: pre ds)
  case Nil
  then show ?case by (subst scan_frames.simps) simp
next
  case (Cons c cs)
  let ?buf = "pre @ riff_chunk c @ concat (map riff_chunk cs)"
  have c: "chunk_ok c" using Cons.prems by simp
  have len: "length (riff_chunk c) = 8 + length (snd c) + length (snd c) mod 2"
    using c by (simp add: riff_chunk_def chunk_ok_def)
  have "scan_frames ?buf (length pre) ds = scan_frames ?buf (length (pre @ riff_chunk c)) (ds @ frame_ms c)"
    by (subst scan_frames.simps) (simp add: scan_step [OF c] len)
  also have "\<dots> = (ds @ frame_ms c) @ concat (map frame_ms cs)"
    using Cons.IH [of "pre @ riff_chunk c" "ds @ frame_ms c"] Cons.prems by simp
  finally show ?case by simp
qed

text \<open>
  C32: the durations of an animation are read back.  In a container written chunk by chunk, with
  chunks of any other kind between the frames and odd payloads padded, the durations found are those
  of the frames, in their order, where 0 stands for 100 milliseconds.
\<close>

theorem frame_durations_roundtrip:
  assumes "list_all chunk_ok cs" and "n = length (concat (map frame_ms cs))"
  shows "frame_durations (webp_file cs) n = concat (map frame_ms cs)"
proof -
  let ?pre = "U ''RIFF'' @ le_bytes 4 (4 + length (concat (map riff_chunk cs))) @ U ''WEBP''"
  have "length (U ''RIFF'') = 4" "length (U ''WEBP'') = 4" by code_simp+
  then have pre: "length ?pre = 12" by simp
  have "webp_file cs = ?pre @ concat (map riff_chunk cs)" by (simp add: webp_file_def Let_def)
  then have "scan_frames (webp_file cs) 12 [] = concat (map frame_ms cs)"
    using scan_chunks [OF assms(1), of ?pre "[]"] unfolding pre by simp
  then show ?thesis using assms(2) by (simp add: frame_durations_def)
qed

definition two_frames :: "(bytes \<times> bytes) list" where
  "two_frames = [(U ''ANIM'', [0]), (ANMF, replicate 12 0 @ [44, 1, 0, 0]), (ANMF, replicate 16 0)]"

theorem frame_durations_roundtrip_witness:
  "list_all chunk_ok two_frames \<and> frame_durations (webp_file two_frames) 2 = [300, 100]"
proof -
  have ok: "list_all chunk_ok two_frames" "concat (map frame_ms two_frames) = [300, 100]" by code_simp+
  show ?thesis
    using frame_durations_roundtrip [of two_frames 2] ok by simp
qed

subsection \<open>Stickers that fit\<close>

lemma encode_video_runs:
  assumes "\<And>b g q. adds runs 1 (sp_ffmpeg port b g q)"
  shows "adds runs (Suc MAX_FRAME_STRIDE - stride) (encode_video_from port buf ty quality working_size stride)"
  using assms
proof (induction port buf ty quality working_size stride rule: encode_video_from.induct)
  case (1 port buf ty quality working_size stride)
  show ?case
  proof (cases "stride \<le> MAX_FRAME_STRIDE")
    case True
    have next_run: "adds runs (MAX_FRAME_STRIDE - stride)
        (encode_video_from port buf ty quality working_size (next_stride stride (length o1)))"
      if "\<not> length o1 \<le> MAX_ANIMATED_STICKER_BYTES" for o1 :: bytes
    proof (rule adds_mono)
      show "adds runs (Suc MAX_FRAME_STRIDE - next_stride stride (length o1))
        (encode_video_from port buf ty quality working_size (next_stride stride (length o1)))"
        using "1.IH" [OF True that] "1.prems" by blast
    qed (simp add: next_stride_def)
    have "adds runs (1 + (MAX_FRAME_STRIDE - stride)) (encode_video_from port buf ty quality working_size stride)"
      unfolding encode_video_from.simps [of port buf ty quality working_size stride] if_P [OF True]
      by (intro adds_bindA "1.prems") (auto intro: next_run)
    then show ?thesis using True by (simp add: Suc_diff_le)
  next
    case False
    then show ?thesis by (subst encode_video_from.simps) simp
  qed
qed


lemma encode_video_fits:
  assumes "encode_video_from port buf ty quality working_size stride w = (Inr out, w')"
  shows "length out \<le> MAX_ANIMATED_STICKER_BYTES \<and>
    (\<exists>s w1 w2. stride \<le> s \<and> s \<le> MAX_FRAME_STRIDE \<and> sp_ffmpeg port buf (filter_graph ty working_size s) quality w1 = (Inr out, w2))"
  using assms
proof (induction port buf ty quality working_size stride arbitrary: w rule: encode_video_from.induct)
  case (1 port buf ty quality working_size stride)
  have le: "stride \<le> MAX_FRAME_STRIDE"
  proof (rule ccontr)
    assume "\<not> stride \<le> MAX_FRAME_STRIDE"
    with "1.prems" show False
      unfolding encode_video_from.simps [of port buf ty quality working_size stride] by simp
  qed
  from "1.prems" obtain o1 w1 where run: "sp_ffmpeg port buf (filter_graph ty working_size stride) quality w = (Inr o1, w1)"
    and k: "(if length o1 \<le> MAX_ANIMATED_STICKER_BYTES then ret o1
           else encode_video_from port buf ty quality working_size (next_stride stride (length o1))) w1 = (Inr out, w')"
    unfolding encode_video_from.simps [of port buf ty quality working_size stride] if_P [OF le] by (rule bindA_InrE)
  show ?case
  proof (cases "length o1 \<le> MAX_ANIMATED_STICKER_BYTES")
    case True
    with k have "o1 = out" by simp
    with True run le show ?thesis by (intro conjI exI [of _ stride] exI [of _ w] exI [of _ w1]) auto
  next
    case False
    with k have "encode_video_from port buf ty quality working_size (next_stride stride (length o1)) w1 = (Inr out, w')" by simp
    note ih = "1.IH" [OF le False this]
    have "stride \<le> next_stride stride (length o1)" by (simp add: next_stride_def)
    with ih show ?thesis by (meson order_trans)
  qed
qed

text \<open>
  A video becomes a sticker that fits, in at most four runs of ffmpeg.  Whatever ffmpeg writes,
  the encoder runs it four times at most and stops, the fourth time at the latest; a sticker it
  returns has at most 500000 bytes and was written at some stride from 1 to 4.
\<close>

theorem video_sticker_fits:
  assumes "\<And>b g q. adds runs 1 (sp_ffmpeg port b g q)"
  shows "adds runs 4 (encode_video port buf ty quality working_size) \<and>
    (case encode_video port buf ty quality working_size w of
       (Inr out, _) \<Rightarrow> length out \<le> 500000 \<and>
         (\<exists>s w1 w2. 1 \<le> s \<and> s \<le> 4 \<and> sp_ffmpeg port buf (filter_graph ty working_size s) quality w1 = (Inr out, w2))
     | (Inl _, _) \<Rightarrow> True)"
  using encode_video_runs [OF assms, of 1 buf ty quality working_size]
    encode_video_fits [of port buf ty quality working_size 1 w]
  by (auto simp: encode_video_def MAX_FRAME_STRIDE_def MAX_ANIMATED_STICKER_BYTES_def split: prod.split sum.split)

definition small_port :: "(nat, unit) sticker_port" where
  "small_port = \<lparr>sp_ffmpeg = (\<lambda>_ _ _ w. (Inr [1], Suc w)), sp_frames = (\<lambda>_ _ _. ret []), sp_save = (\<lambda>_ _ _. ret []),
     sp_image = (\<lambda>_ _ _ _. ret [])\<rparr>"

theorem video_sticker_fits_witness:
  "adds id 4 (encode_video small_port [] (U ''full'') 50 512) \<and> encode_video small_port [] (U ''full'') 50 512 0 = (Inr [1], 1)"
proof -
  have "adds id 4 (encode_video small_port [] (U ''full'') 50 512)"
    using video_sticker_fits [of id small_port "[]" "U ''full''" 50 512] by (simp add: small_port_def adds_def)
  moreover have "encode_video small_port [] (U ''full'') 50 512 0 = (Inr [1], 1)"
    unfolding encode_video_def
    by (subst encode_video_from.simps)
      (simp add: small_port_def bindA_def MAX_FRAME_STRIDE_def MAX_ANIMATED_STICKER_BYTES_def)
  ultimately show ?thesis by blast
qed

lemma stride_sums_total: "0 < stride \<Longrightarrow> sum_list (stride_sums stride ds) = sum_list ds"
proof (induction stride ds rule: stride_sums.induct)
  case (1 stride ds)
  have "sum_list ds = sum_list (take stride ds) + sum_list (drop stride ds)"
    by (metis append_take_drop_id sum_list_append)
  with 1 show ?case by (subst stride_sums.simps) auto
qed

lemma stride_sums_length:
  "0 < stride \<Longrightarrow> length xs = length ds \<Longrightarrow> length (stride_sums stride ds) = length (every stride xs)"
proof (induction stride xs arbitrary: ds rule: every.induct)
  case (2 stride x xs)
  then obtain d ds' where ds: "ds = d # ds'" by (cases ds) auto
  from "2.prems" obtain k where k: "stride = Suc k" by (cases stride) auto
  with 2 ds have "length (stride_sums stride (drop k ds')) = length (every stride (drop k xs))" by simp
  then show ?case unfolding ds k by (subst stride_sums.simps) (simp add: k)
qed (simp add: stride_sums.simps)

lemma frame_durations_length [simp]: "length (frame_durations buf n) = n"
  by (simp add: frame_durations_def Let_def)

lemma encode_strides_saved:
  assumes "encode_strides port frames ds quality strides w = (Inr out, w')"
  shows "length out \<le> MAX_ANIMATED_STICKER_BYTES \<and>
    (\<exists>stride \<in> set strides. \<exists>w1 w2. sp_save port (every stride frames) (stride_sums stride ds) quality w1 = (Inr out, w2))"
  using assms
proof (induction strides arbitrary: w)
  case (Cons stride strides)
  then obtain o1 w1 where o1: "encode_stride port frames ds stride quality w = (Inr o1, w1)"
    and k: "(if length o1 \<le> MAX_ANIMATED_STICKER_BYTES then ret o1 else encode_strides port frames ds quality strides) w1 = (Inr out, w')"
    by (auto elim!: bindA_InrE)
  from o1 have saved: "sp_save port (every stride frames) (stride_sums stride ds) quality w = (Inr o1, w1)"
    by (simp add: encode_stride_def split: if_splits)
  show ?case
  proof (cases "length o1 \<le> MAX_ANIMATED_STICKER_BYTES")
    case True
    with k saved show ?thesis by auto
  next
    case False
    with k Cons.IH [of w1] show ?thesis by auto
  qed
qed simp

text \<open>
  C33: dropping frames keeps the time of an animation.  A sticker the encoder returns fits, and was
  written with every s-th frame for some s from 1 to 4, with one duration for each frame, whose sum
  is that of all the frames of the medium.
\<close>

theorem animation_keeps_time:
  assumes "encode_animation port buf ty quality working_size w = (Inr out, w')"
  shows "length out \<le> 500000 \<and>
    (\<exists>frames stride durations w1 w2 w3. sp_frames port buf ty working_size w = (Inr frames, w1) \<and> 1 \<le> stride \<and> stride \<le> 4 \<and>
      sp_save port (every stride frames) durations quality w2 = (Inr out, w3) \<and>
      length durations = length (every stride frames) \<and>
      sum_list durations = sum_list (frame_durations buf (length frames)))"
proof -
  from assms obtain frames w1 where f: "sp_frames port buf ty working_size w = (Inr frames, w1)"
    and e: "encode_strides port frames (frame_durations buf (length frames)) quality [1..<max_stride (length frames) + 1] w1 = (Inr out, w')"
    unfolding encode_animation_def by (rule bindA_InrE)
  from encode_strides_saved [OF e] obtain stride w2 w3 where s: "1 \<le> stride" "stride \<le> max_stride (length frames)"
    "sp_save port (every stride frames) (stride_sums stride (frame_durations buf (length frames))) quality w2 = (Inr out, w3)"
    and "length out \<le> MAX_ANIMATED_STICKER_BYTES" by auto
  moreover have "max_stride (length frames) \<le> 4" by (simp add: max_stride_def MAX_FRAME_STRIDE_def)
  ultimately show ?thesis
    using f stride_sums_total [of stride] stride_sums_length [of stride frames "frame_durations buf (length frames)"]
    by (intro conjI) (fastforce simp: MAX_ANIMATED_STICKER_BYTES_def)+
qed

definition frames_port :: "(unit, nat) sticker_port" where
  "frames_port = \<lparr>sp_ffmpeg = (\<lambda>_ _ _. ret []), sp_frames = (\<lambda>_ _ _. ret [0, 1, 2, 3]),
     sp_save = (\<lambda>_ _ _. ret [7]), sp_image = (\<lambda>_ _ _ _. ret [])\<rparr>"

theorem animation_keeps_time_witness:
  "length [7 :: nat] \<le> 500000 \<and>
    (\<exists>frames stride durations w1 w2 w3. sp_frames frames_port [] [] 512 () = (Inr frames, w1) \<and> 1 \<le> stride \<and> stride \<le> 4 \<and>
      sp_save frames_port (every stride frames) durations 50 w2 = (Inr [7], w3) \<and>
      length durations = length (every stride frames) \<and>
      sum_list durations = sum_list (frame_durations [] (length frames)))"
proof (rule animation_keeps_time)
  have four: "max_stride (Suc (Suc (Suc (Suc 0)))) = Suc (Suc 0)" by code_simp
  show "encode_animation frames_port [] [] 50 512 () = (Inr [7], ())"
    by (simp add: encode_animation_def frames_port_def encode_stride_def bindA_def MAX_ANIMATED_STICKER_BYTES_def four)
qed

end
