(* ===== verification/Download.thy ===== *)
theory Download
  imports Sticker
begin

text \<open>
  The command \<open>dl\<close> (bot/domain/commands/download.py): the runs of yt-dlp
  (bot/domain/services/ytdlp.py), the photos of a tweet (bot/domain/services/x_photos.py), the sound
  of a video (bot/domain/services/mp4.py) and the messages for an error
  (bot/data/download_errors.py).  A \<open>RuntimeError\<close> carries its text here, since the code reads it.
  Processes, single requests of HTTP, \<open>bytes.decode\<close> and \<open>urlparse\<close> are fields of a record; the
  redirections that the client follows (bot/infrastructure/http_client.py) are modelled.
\<close>

subsection \<open>Errors and their messages\<close>

datatype dl_error = Runtime pystr | Failed exn

type_synonym ('w, 'a) dl_act = "(dl_error, 'w, 'a) act"

definition FILE_TOO_LARGE_MESSAGE :: pystr where
  "FILE_TOO_LARGE_MESSAGE = U ''V{237}deo muito grande pra baixar {128230}''"

definition NO_VIDEO_IN_POST :: pystr where "NO_VIDEO_IN_POST = U ''There is no video in this post''"
definition NO_VIDEO_IN_TWEET :: pystr where "NO_VIDEO_IN_TWEET = U ''No video could be found in this tweet''"

definition YTDLP_ERROR_MESSAGES :: "(pystr \<times> pystr) list" where
  "YTDLP_ERROR_MESSAGES =
     [(NO_VIDEO_IN_TWEET, U ''Esse tweet n{227}o tem v{237}deo {128248}''),
      (U ''Unsupported URL'', U ''Esse link n{227}o {233} suportado {128279}''),
      (U ''login required'', U ''Esse conte{250}do precisa de login {128272}''),
      (U ''Video unavailable'', U ''Esse v{237}deo n{227}o est{225} dispon{237}vel {128532}''),
      (U ''Private video'', U ''Esse v{237}deo {233} privado {128274}''),
      (U ''Sign in to confirm your age'', U ''Esse v{237}deo tem restri{231}{227}o de idade {128286}''),
      (U ''HTTP Error 403'', U ''Acesso ao v{237}deo foi bloqueado {128683}''),
      (U ''Forbidden'', U ''Acesso ao v{237}deo foi bloqueado {128683}''),
      (U ''exceeds'', FILE_TOO_LARGE_MESSAGE),
      (U ''File is larger'', FILE_TOO_LARGE_MESSAGE)]"

definition FALLBACK_MESSAGE :: pystr where
  "FALLBACK_MESSAGE = U ''N{227}o consegui baixar esse v{237}deo {128517}''"

definition match_error :: "pystr \<Rightarrow> pystr" where
  "match_error err =
     (case find (\<lambda>(pattern, _). contains pattern err) YTDLP_ERROR_MESSAGES of
        Some (_, message) \<Rightarrow> message | None \<Rightarrow> FALLBACK_MESSAGE)"

subsection \<open>The port\<close>

text \<open>
  A finished process: its return code and what it wrote.  A tweet of the API, where a missing text is
  empty.  One request to the web (the transport's retries included) is answered by a response or
  by a redirection.  \<open>dp_split\<close> gives the scheme and the host name of a URL, or the error of
  \<open>urlparse\<close>; \<open>dp_parse_tweet\<close> reads the tweet in the JSON of a response.
\<close>

datatype web_answer = Answer nat bytes | Redirect pystr

record process =
  pr_code :: int
  pr_stdout :: bytes
  pr_stderr :: bytes

record tweet =
  tw_photo_urls :: "pystr list"
  tw_author :: pystr
  tw_text :: pystr

record 'w download_port =
  dp_run :: "pystr list \<Rightarrow> ('w, process) dl_act"
  dp_decode :: "bytes \<Rightarrow> exn + pystr"
  dp_split :: "pystr \<Rightarrow> exn + (pystr \<times> pystr option)"
  dp_send :: "pystr \<Rightarrow> ('w, web_answer) dl_act"
  dp_parse_tweet :: "bytes \<Rightarrow> exn + tweet"
  dp_cookies :: pystr

definition lift_sum :: "exn + 'a \<Rightarrow> ('w, 'a) dl_act" where
  "lift_sum r = (case r of Inl e \<Rightarrow> raise (Failed e) | Inr a \<Rightarrow> ret a)"

subsection \<open>The HTTP client\<close>

text \<open>
  The client is made with \<open>follow_redirects=True\<close>: it goes wherever it is sent, up to the
  20 redirections that httpx allows by default.  \<open>raise_for_status\<close> accepts only 2xx.
\<close>

definition MAX_REDIRECTS :: nat where "MAX_REDIRECTS = 20"

fun follow :: "nat \<Rightarrow> (pystr \<Rightarrow> ('w, web_answer) dl_act) \<Rightarrow> pystr \<Rightarrow> ('w, nat \<times> bytes) dl_act" where
  "follow n send url =
     bindA (send url)
       (\<lambda>a. case a of
          Answer status body \<Rightarrow> ret (status, body)
        | Redirect next_url \<Rightarrow>
            (case n of
               0 \<Rightarrow> raise (Failed (OtherExn (U ''TooManyRedirects'')))
             | Suc m \<Rightarrow> follow m send next_url))"

definition http_get :: "'w download_port \<Rightarrow> pystr \<Rightarrow> ('w, nat \<times> bytes) dl_act" where
  "http_get port url = follow MAX_REDIRECTS (dp_send port) url"

definition checked_body :: "nat \<times> bytes \<Rightarrow> ('w, bytes) dl_act" where
  "checked_body r =
     (case r of (status, body) \<Rightarrow>
        if 200 \<le> status \<and> status < 300 then ret body else raise (Failed (OtherExn (U ''HTTPStatusError''))))"

definition get_buffer :: "'w download_port \<Rightarrow> pystr \<Rightarrow> ('w, bytes) dl_act" where
  "get_buffer port url = bindA (http_get port url) checked_body"

subsection \<open>yt-dlp\<close>

definition MAX_BUFFER :: nat where "MAX_BUFFER = 100 * 1024 * 1024"
definition MAX_FILESIZE :: pystr where "MAX_FILESIZE = U ''50M''"
definition IMAGE_HOST_SUFFIX :: pystr where "IMAGE_HOST_SUFFIX = U ''.fbcdn.net''"

definition cookie_args :: "pystr \<Rightarrow> pystr list" where
  "cookie_args path = (if path = [] then [] else [U ''--cookies'', path])"

definition title_args :: "pystr \<Rightarrow> pystr \<Rightarrow> pystr list" where
  "title_args cookies url =
     U ''yt-dlp'' # cookie_args cookies @ [U ''--playlist-items'', U ''1'', U ''--print'', U ''title'', url]"

definition video_args :: "pystr \<Rightarrow> pystr \<Rightarrow> pystr list" where
  "video_args cookies url =
     U ''yt-dlp'' # cookie_args cookies @
     [U ''--playlist-items'', U ''1'', U ''-f'', U ''best[ext=mp4]/best'', U ''-S'', U ''size:'' @ MAX_FILESIZE,
      U ''--max-filesize'', MAX_FILESIZE, U ''-o'', U ''-'', url]"

definition image_args :: "pystr \<Rightarrow> pystr \<Rightarrow> pystr list" where
  "image_args cookies url =
     U ''yt-dlp'' # cookie_args cookies @
     [U ''--ignore-no-formats-error'', U ''--playlist-items'', U ''1'', U ''--print'', U ''title'', U ''--print'', U ''thumbnail'', url]"

definition video_too_large :: exn where
  "video_too_large = Raised DownloadError (U ''Video exceeds maximum buffer size'')"

definition ytdlp_download :: "'w download_port \<Rightarrow> pystr \<Rightarrow> ('w, bytes \<times> pystr) dl_act" where
  "ytdlp_download port url =
     bindA (dp_run port (title_args (dp_cookies port) url))
       (\<lambda>t. bindA (lift_sum (dp_decode port (pr_stdout t)))
         (\<lambda>decoded. let title = (if strip decoded = [] then U ''V{237}deo'' else strip decoded) in
            bindA (dp_run port (video_args (dp_cookies port) url))
              (\<lambda>v. if pr_code v \<noteq> 0 \<or> pr_stdout v = []
                 then bindA (lift_sum (dp_decode port (pr_stderr v)))
                   (\<lambda>e. raise (Runtime (U ''yt-dlp failed: '' @ strip e)))
                 else if MAX_BUFFER < length (pr_stdout v) then raise (Failed video_too_large)
                 else ret (pr_stdout v, title))))"

text \<open>\<open>str.splitlines\<close>.\<close>

definition line_ends :: "nat list" where
  "line_ends = [10, 11, 12, 13, 28, 29, 30, 133, 8232, 8233]"

fun lines_go :: "pystr \<Rightarrow> pystr \<Rightarrow> pystr list" where
  "lines_go acc [] = (if acc = [] then [] else [acc])"
| "lines_go acc (c # cs) =
     (if c = 13 \<and> cs \<noteq> [] \<and> hd cs = 10 then acc # lines_go [] (tl cs)
      else if c \<in> set line_ends then acc # lines_go [] cs
      else lines_go (acc @ [c]) cs)"

definition splitlines :: "pystr \<Rightarrow> pystr list" where
  "splitlines s = lines_go [] s"

text \<open>Only images of the servers of Facebook are fetched.\<close>

definition fetch_post_image :: "'w download_port \<Rightarrow> pystr \<Rightarrow> ('w, bytes) dl_act" where
  "fetch_post_image port image_url =
     bindA (lift_sum (dp_split port image_url))
       (\<lambda>(scheme, host).
          if scheme \<noteq> U ''https'' \<or> \<not> suffix IMAGE_HOST_SUFFIX (case host of None \<Rightarrow> [] | Some h \<Rightarrow> h)
          then raise (Runtime (U ''Unexpected image host: '' @ (case host of None \<Rightarrow> U ''None'' | Some h \<Rightarrow> h)))
          else bindA (get_buffer port image_url)
            (\<lambda>b. if MAX_BUFFER < length b then raise (Runtime (U ''Image exceeds maximum buffer size'')) else ret b))"

definition ytdlp_image :: "'w download_port \<Rightarrow> pystr \<Rightarrow> ('w, bytes \<times> pystr) dl_act" where
  "ytdlp_image port url =
     bindA (dp_run port (image_args (dp_cookies port) url))
       (\<lambda>p. if pr_code p \<noteq> 0
          then bindA (lift_sum (dp_decode port (pr_stderr p))) (\<lambda>e. raise (Runtime (U ''yt-dlp failed: '' @ strip e)))
          else bindA (lift_sum (dp_decode port (pr_stdout p)))
            (\<lambda>s. let ls = splitlines s in
               if length ls < 2 then raise (Failed (OtherExn (U ''ValueError'')))
               else bindA (fetch_post_image port (last ls)) (\<lambda>b. ret (b, hd ls))))"

subsection \<open>Photos of a tweet\<close>

definition PHOTO_HOST :: pystr where "PHOTO_HOST = U ''pbs.twimg.com''"

definition STATUS_IN_ERROR :: rx where
  "STATUS_IN_ERROR = rseq [lit (U ''[twitter] ''), Plus (Cls CDigit), lit (U '': ''), lit NO_VIDEO_IN_TWEET]"

definition status_of :: "pystr \<Rightarrow> pystr option" where
  "status_of err =
     map_option (\<lambda>(_, m, _). takeWhile is_decimal (drop (length (U ''[twitter] '')) m)) (search False STATUS_IN_ERROR err)"

definition no_tweet :: tweet where
  "no_tweet = \<lparr>tw_photo_urls = [], tw_author = [], tw_text = []\<rparr>"

definition API_URL :: "pystr \<Rightarrow> pystr" where
  "API_URL status_id = U ''https://api.fxtwitter.com/status/'' @ status_id"

definition tweet_of :: "'w download_port \<Rightarrow> pystr \<Rightarrow> ('w, tweet) dl_act" where
  "tweet_of port err =
     (case status_of err of
        None \<Rightarrow> ret no_tweet
      | Some i \<Rightarrow>
          bindA
            (handleA (bindA (http_get port (API_URL i)) (\<lambda>r. bindA (checked_body r) (\<lambda>body. ret (Some body))))
              (\<lambda>e. case e of
                 Failed x \<Rightarrow> if is_http_error x then ret None else raise e
               | Runtime _ \<Rightarrow> raise e))
            (\<lambda>response. case response of None \<Rightarrow> ret no_tweet | Some body \<Rightarrow> lift_sum (dp_parse_tweet port body)))"

definition is_x_photo :: "'w download_port \<Rightarrow> pystr \<Rightarrow> exn + bool" where
  "is_x_photo port url =
     map_sum id (\<lambda>(scheme, host). scheme = U ''https'' \<and> host = Some PHOTO_HOST) (dp_split port url)"

fun x_photo_urls :: "'w download_port \<Rightarrow> pystr list \<Rightarrow> exn + pystr list" where
  "x_photo_urls port [] = Inr []"
| "x_photo_urls port (u # us) =
     (case is_x_photo port u of
        Inl e \<Rightarrow> Inl e
      | Inr b \<Rightarrow> map_sum id (\<lambda>vs. if b then u # vs else vs) (x_photo_urls port us))"

definition fetch_photo :: "'w download_port \<Rightarrow> pystr \<Rightarrow> ('w, bytes) dl_act" where
  "fetch_photo port url =
     bindA (get_buffer port url)
       (\<lambda>b. if MAX_BUFFER < length b then raise (Runtime (U ''Image exceeds maximum buffer size'')) else ret b)"

definition x_photos_download :: "'w download_port \<Rightarrow> pystr \<Rightarrow> ('w, bytes list \<times> pystr) dl_act" where
  "x_photos_download port err =
     bindA (tweet_of port err)
       (\<lambda>t. bindA (lift_sum (x_photo_urls port (tw_photo_urls t)))
         (\<lambda>urls. bindA (mapA (fetch_photo port) urls)
           (\<lambda>photos. ret (photos, tw_author t @ U '' - '' @ tw_text t))))"

subsection \<open>The command\<close>

text \<open>\<open>hdlr.{8}soun\<close> over bytes, with a dot for any byte.\<close>

definition has_sound :: "bytes \<Rightarrow> bool" where
  "has_sound buf \<longleftrightarrow>
     list_ex (\<lambda>i. slice buf i (i + 4) = U ''hdlr'' \<and> slice buf (i + 12) (i + 16) = U ''soun'') [0..<length buf]"

definition is_silent :: "bytes \<Rightarrow> bool" where
  "is_silent buf \<longleftrightarrow> slice buf 4 8 = U ''ftyp'' \<and> \<not> has_sound buf"

definition URL_REGEX :: rx where
  "URL_REGEX = rseq [lit (U ''http''), Opt (Chr 115), lit (U ''://''), Plus (Cls (CNeg CSpace))]"

definition url_in :: "pystr \<Rightarrow> pystr option" where
  "url_in s = map_option (\<lambda>(_, m, _). m) (search False URL_REGEX s)"

definition download_photos ::
  "'w download_port \<Rightarrow> command_data \<Rightarrow> pystr \<Rightarrow> pystr \<Rightarrow> ('w, bot_message list) dl_act" where
  "download_photos port d url err =
     (if contains NO_VIDEO_IN_POST err
      then bindA (ytdlp_image port url) (\<lambda>(b, title). ret [reply_image_buffer d b (Some title)])
      else if \<not> contains NO_VIDEO_IN_TWEET err then raise (Runtime err)
      else bindA (x_photos_download port err)
        (\<lambda>(photos, title). if photos = [] then raise (Runtime err)
           else ret (map (\<lambda>(i, photo). reply_image_buffer d photo (if i = 0 then Some title else None)) (enumerate 0 photos))))"

definition download_media :: "'w download_port \<Rightarrow> command_data \<Rightarrow> pystr \<Rightarrow> ('w, bot_message list) dl_act" where
  "download_media port d url = (\<lambda>w.
     case ytdlp_download port url w of
       (Inr (video, title), w') \<Rightarrow> (Inr [reply_video_buffer d video (Some title) (is_silent video)], w')
     | (Inl (Runtime err), w') \<Rightarrow> download_photos port d url err w'
     | (Inl (Failed e), w') \<Rightarrow> (Inl (Failed e), w'))"

definition as_download_error :: "dl_error \<Rightarrow> exn" where
  "as_download_error e =
     (case e of
        Runtime err \<Rightarrow> Raised DownloadError (match_error err)
      | Failed x \<Rightarrow>
          if isinstance x DownloadError then x
          else if is_exception x then Raised DownloadError FALLBACK_MESSAGE else x)"

text \<open>The link in the message, or in the message it answers.\<close>

definition url_asked :: "command_data \<Rightarrow> parsed_command \<Rightarrow> pystr option" where
  "url_asked d parsed =
     (case url_in (pc_rest parsed) of
        Some url \<Rightarrow> Some url
      | None \<Rightarrow> url_in (case cd_quoted_text d of None \<Rightarrow> [] | Some q \<Rightarrow> q))"

definition download_execute :: "'w download_port \<Rightarrow> 'w exec" where
  "download_execute port = (\<lambda>d parsed w.
     case url_asked d parsed of
       None \<Rightarrow> (Inr [reply_text d (U ''Cad{234} o link pra eu baixar? {128279}'')], w)
     | Some url \<Rightarrow>
         (case download_media port d url w of
            (Inr ms, w') \<Rightarrow> (Inr ms, w')
          | (Inl e, w') \<Rightarrow> (Inl (as_download_error e), w')))"

subsection \<open>What can go wrong, and what is fetched\<close>

text \<open>
  The message for an error: that of the first row of the table whose text occurs in it, when
  some row's does, else the last resort.
\<close>

definition answers_error :: "pystr \<Rightarrow> pystr \<Rightarrow> bool" where
  "answers_error err m \<longleftrightarrow>
     (\<exists>k < length YTDLP_ERROR_MESSAGES. m = snd (YTDLP_ERROR_MESSAGES ! k) \<and> contains (fst (YTDLP_ERROR_MESSAGES ! k)) err \<and>
        (\<forall>j < k. \<not> contains (fst (YTDLP_ERROR_MESSAGES ! j)) err)) \<or>
     m = FALLBACK_MESSAGE \<and> (\<forall>row \<in> set YTDLP_ERROR_MESSAGES. \<not> contains (fst row) err)"

lemma match_error_first: "answers_error err (match_error err)"
proof (cases "find (\<lambda>(pattern, _). contains pattern err) YTDLP_ERROR_MESSAGES")
  case None
  then have "\<forall>row \<in> set YTDLP_ERROR_MESSAGES. \<not> contains (fst row) err"
    by (auto simp: find_None_iff)
  with None show ?thesis
    by (simp add: answers_error_def match_error_def)
next
  case (Some row)
  then obtain k where k: "k < length YTDLP_ERROR_MESSAGES" "YTDLP_ERROR_MESSAGES ! k = row"
      "contains (fst row) err" "\<And>j. j < k \<Longrightarrow> \<not> contains (fst (YTDLP_ERROR_MESSAGES ! j)) err"
    by (auto simp: find_Some_iff case_prod_beta)
  with Some show ?thesis
    by (auto simp: answers_error_def match_error_def case_prod_beta)
qed

text \<open>
  C35: a download fails with an answer.  An error that leaves the command comes of an error of the
  download of the link that was asked for.  A \<open>RuntimeError\<close> becomes a \<open>DownloadError\<close> whose
  message, for the user, is that of the first row of the table whose text occurs in the error, or
  the last resort when none does; a \<open>DownloadError\<close> of the download itself is passed on as it
  is; any other \<open>Exception\<close> becomes a \<open>DownloadError\<close> with the last resort; and only what is no
  \<open>Exception\<close> (a cancellation) goes through.
\<close>

theorem download_fails_with_answer:
  "case fst (download_execute port d parsed w) of
     Inr _ \<Rightarrow> True
   | Inl x \<Rightarrow>
       (\<exists>url e. url_asked d parsed = Some url \<and> fst (download_media port d url w) = Inl e \<and>
          (case e of
             Runtime err \<Rightarrow> isinstance x DownloadError \<and> answers_error err (user_message x)
           | Failed y \<Rightarrow>
               if isinstance y DownloadError then x = y
               else if is_exception y then isinstance x DownloadError \<and> user_message x = FALLBACK_MESSAGE
               else x = y))"
proof (cases "fst (download_execute port d parsed w)")
  case (Inl x)
  then obtain url where url: "url_asked d parsed = Some url"
    by (cases "url_asked d parsed") (simp_all add: download_execute_def)
  with Inl obtain e where e: "fst (download_media port d url w) = Inl e" "x = as_download_error e"
    by (cases "download_media port d url w"; cases "fst (download_media port d url w)") (simp_all add: download_execute_def)
  have "case e of
      Runtime err \<Rightarrow> isinstance x DownloadError \<and> answers_error err (user_message x)
    | Failed y \<Rightarrow>
        if isinstance y DownloadError then x = y
        else if is_exception y then isinstance x DownloadError \<and> user_message x = FALLBACK_MESSAGE
        else x = y"
    using match_error_first unfolding e(2)
    by (auto simp: as_download_error_def split: dl_error.split)
  with Inl url e(1) show ?thesis by auto
qed simp

text \<open>
  The addresses the command may ask for: the API with the number of a tweet, an https address of
  the photos of X, or one of an image server of Facebook, as \<open>urlparse\<close> reads them.
\<close>

definition is_post_image :: "'w download_port \<Rightarrow> pystr \<Rightarrow> bool" where
  "is_post_image port url \<longleftrightarrow>
     (case dp_split port url of
        Inr (scheme, host) \<Rightarrow> scheme = U ''https'' \<and> suffix IMAGE_HOST_SUFFIX (case host of None \<Rightarrow> [] | Some h \<Rightarrow> h)
      | Inl _ \<Rightarrow> False)"

definition vetted :: "'w download_port \<Rightarrow> pystr \<Rightarrow> bool" where
  "vetted port url \<longleftrightarrow> is_post_image port url \<or> is_x_photo port url = Inr True"

definition of_the_api :: "pystr \<Rightarrow> bool" where
  "of_the_api url \<longleftrightarrow> (\<exists>i. list_all is_decimal i \<and> url = API_URL i)"

lemma bindA_cong_result:
  assumes "\<And>a w1 w2. m w1 = (Inr a, w2) \<Longrightarrow> f a = g a"
  shows "bindA m f = bindA m g"
proof
  fix w
  show "bindA m f w = bindA m g w"
    by (cases rule: bindA_cases [of m w f]) (auto dest: assms)
qed

text \<open>
  Two webs that answer alike on a set of addresses which the first web never leaves by a
  redirection are not told apart by a request for one of them.
\<close>

definition alike_on ::
  "pystr set \<Rightarrow> (pystr \<Rightarrow> ('w, web_answer) dl_act) \<Rightarrow> (pystr \<Rightarrow> ('w, web_answer) dl_act) \<Rightarrow> bool" where
  "alike_on V f g \<longleftrightarrow>
     (\<forall>url \<in> V. f url = g url \<and> (\<forall>w v w'. f url w = (Inr (Redirect v), w') \<longrightarrow> v \<in> V))"

declare follow.simps [simp del]

lemma follow_answer: "send url w = (Inr (Answer s b), w') \<Longrightarrow> follow n send url w = (Inr (s, b), w')"
  by (simp add: follow.simps [of n] bindA_def)

lemma follow_redirect: "send url w = (Inr (Redirect v), w') \<Longrightarrow> follow (Suc n) send url w = follow n send v w'"
  by (simp add: follow.simps [of "Suc n"] bindA_def)

lemma follow_cong: "alike_on V f g \<Longrightarrow> url \<in> V \<Longrightarrow> follow n f url = follow n g url"
proof (induction n arbitrary: url)
  case 0
  then have "f url = g url" by (simp add: alike_on_def)
  then show ?case by (simp add: follow.simps [of 0])
next
  case (Suc n)
  then have same: "f url = g url" and to: "\<And>w v w'. f url w = (Inr (Redirect v), w') \<Longrightarrow> v \<in> V"
    unfolding alike_on_def by blast+
  show ?case
    unfolding follow.simps [of "Suc n"] same [symmetric]
    by (rule bindA_cong_result) (auto dest: to Suc.IH [OF Suc.prems(1)] split: web_answer.split)
qed

lemma get_buffer_cong:
  "alike_on V f g \<Longrightarrow> url \<in> V \<Longrightarrow> get_buffer (port\<lparr>dp_send := f\<rparr>) url = get_buffer (port\<lparr>dp_send := g\<rparr>) url"
  by (simp add: get_buffer_def http_get_def follow_cong)

lemma x_photo_urls_vetted:
  "x_photo_urls port us = Inr vs \<Longrightarrow> list_all (\<lambda>u. is_x_photo port u = Inr True) vs"
proof (induction us arbitrary: vs)
  case (Cons u us)
  then show ?case by (cases "x_photo_urls port us") (auto split: sum.splits if_splits)
qed simp

lemma x_photo_urls_update [simp]: "x_photo_urls (port\<lparr>dp_send := f\<rparr>) us = x_photo_urls port us"
  by (induction us) (simp_all add: is_x_photo_def split: sum.split)

lemma fetch_photos_cong:
  assumes "alike_on V f g" "\<And>u. vetted port u \<Longrightarrow> u \<in> V" "list_all (\<lambda>u. is_x_photo port u = Inr True) us"
  shows "mapA (fetch_photo (port\<lparr>dp_send := f\<rparr>)) us = mapA (fetch_photo (port\<lparr>dp_send := g\<rparr>)) us"
  using assms(3)
proof (induction us)
  case (Cons u us)
  then have "u \<in> V" using assms(2) [of u] by (simp add: vetted_def)
  with Cons get_buffer_cong [OF assms(1)] show ?case by (simp add: fetch_photo_def)
qed simp

lemma lift_sum_Inr: "lift_sum r w1 = (Inr a, w2) \<Longrightarrow> r = Inr a"
  by (cases r) (auto simp: lift_sum_def)

lemma status_decimal: "status_of err = Some i \<Longrightarrow> list_all is_decimal i"
  by (auto simp: status_of_def list_all_iff dest: set_takeWhileD)

lemma tweet_of_cong:
  assumes "alike_on V f g" "\<And>u. of_the_api u \<Longrightarrow> u \<in> V"
  shows "tweet_of (port\<lparr>dp_send := f\<rparr>) err = tweet_of (port\<lparr>dp_send := g\<rparr>) err"
proof (cases "status_of err")
  case (Some i)
  then have "API_URL i \<in> V"
    using assms(2) status_decimal by (auto simp: of_the_api_def)
  with Some follow_cong [OF assms(1)] show ?thesis
    by (simp add: tweet_of_def http_get_def)
qed (simp add: tweet_of_def)

lemma x_photos_cong:
  assumes "alike_on V f g" "\<And>u. vetted port u \<Longrightarrow> u \<in> V" "\<And>u. of_the_api u \<Longrightarrow> u \<in> V"
  shows "x_photos_download (port\<lparr>dp_send := f\<rparr>) err = x_photos_download (port\<lparr>dp_send := g\<rparr>) err"
proof -
  have t: "tweet_of (port\<lparr>dp_send := f\<rparr>) err = tweet_of (port\<lparr>dp_send := g\<rparr>) err"
    by (rule tweet_of_cong [OF assms(1)]) (rule assms(3))
  show ?thesis
    unfolding x_photos_download_def t x_photo_urls_update
    by (intro bindA_cong_result arg_cong2 [where f = bindA] fetch_photos_cong [OF assms(1,2)] refl)
      (auto dest!: lift_sum_Inr x_photo_urls_vetted)
qed

lemma fetch_post_image_cong:
  assumes "alike_on V f g" "\<And>u. vetted port u \<Longrightarrow> u \<in> V"
  shows "fetch_post_image (port\<lparr>dp_send := f\<rparr>) url = fetch_post_image (port\<lparr>dp_send := g\<rparr>) url"
proof (cases "dp_split port url")
  case (Inr parts)
  then show ?thesis
    using assms(2) [of url] get_buffer_cong [OF assms(1), of url port]
    by (cases parts) (auto simp: fetch_post_image_def lift_sum_def vetted_def is_post_image_def raise_def)
next
  case (Inl e)
  have "bindA (raise x) k = raise x" for x :: dl_error and k :: "pystr \<times> pystr option \<Rightarrow> ('a, bytes) dl_act"
    by (rule ext) simp
  with Inl show ?thesis by (simp add: fetch_post_image_def lift_sum_def)
qed

lemma ytdlp_image_cong:
  assumes "alike_on V f g" "\<And>u. vetted port u \<Longrightarrow> u \<in> V"
  shows "ytdlp_image (port\<lparr>dp_send := f\<rparr>) url = ytdlp_image (port\<lparr>dp_send := g\<rparr>) url"
proof -
  have "fetch_post_image (port\<lparr>dp_send := f\<rparr>) u = fetch_post_image (port\<lparr>dp_send := g\<rparr>) u" for u
    using assms by (rule fetch_post_image_cong)
  then show ?thesis by (simp add: ytdlp_image_def cong: if_cong)
qed

text \<open>
  C34: a download asks only vetted hosts.  Besides the runs of yt-dlp, which go where they go, all
  that the command itself asks of the web are the API with the number of a tweet, https addresses
  of pbs.twimg.com and https addresses of hosts ending in .fbcdn.net, and what the answers to
  those redirect to: two webs that answer alike on any set of addresses that has all of these
  and is closed under redirections are not told apart, whatever yt-dlp prints and whatever
  photos the API names.
\<close>

theorem download_fetches_vetted_only:
  assumes "alike_on V f g" "\<And>url. vetted port url \<or> of_the_api url \<Longrightarrow> url \<in> V"
  shows "download_execute (port\<lparr>dp_send := f\<rparr>) d parsed = download_execute (port\<lparr>dp_send := g\<rparr>) d parsed"
proof -
  have v: "ytdlp_download (port\<lparr>dp_send := f\<rparr>) = ytdlp_download (port\<lparr>dp_send := g\<rparr>)"
    by (simp add: ytdlp_download_def fun_eq_iff cong: if_cong)
  have "ytdlp_image (port\<lparr>dp_send := f\<rparr>) u = ytdlp_image (port\<lparr>dp_send := g\<rparr>) u"
    "x_photos_download (port\<lparr>dp_send := f\<rparr>) u = x_photos_download (port\<lparr>dp_send := g\<rparr>) u" for u
    using assms by (auto intro!: ytdlp_image_cong [OF assms(1)] x_photos_cong [OF assms(1)])
  then have p: "download_photos (port\<lparr>dp_send := f\<rparr>) = download_photos (port\<lparr>dp_send := g\<rparr>)"
    by (intro ext) (simp add: download_photos_def)
  show ?thesis
    unfolding download_execute_def download_media_def v p ..
qed

text \<open>A tweet with two photos, one of them at the host of the photos, which redirects elsewhere.\<close>

definition photo_port :: "unit download_port" where
  "photo_port = \<lparr>dp_run = (\<lambda>_. ret \<lparr>pr_code = 1, pr_stdout = [], pr_stderr = []\<rparr>),
     dp_decode = (\<lambda>_. Inr (U ''[twitter] 7: No video could be found in this tweet'')),
     dp_split = (\<lambda>u. Inr (if u = U ''a'' then (U ''https'', Some PHOTO_HOST) else (U ''http'', Some (U ''localhost'')))),
     dp_send = (\<lambda>u. ret (if u = U ''a'' then Redirect (U ''c'') else Answer 200 [1])),
     dp_parse_tweet = (\<lambda>_. Inr \<lparr>tw_photo_urls = [U ''a'', U ''b''], tw_author = [], tw_text = []\<rparr>), dp_cookies = []\<rparr>"

definition may_ask :: "pystr \<Rightarrow> bool" where
  "may_ask u \<longleftrightarrow> vetted photo_port u \<or> of_the_api u \<or> u = U ''c''"

theorem download_fetches_vetted_only_witness:
  "download_execute (photo_port\<lparr>dp_send := dp_send photo_port\<rparr>) (CommandData [] [] [])
     \<lparr>pc_command_name = U ''dl'', pc_flags = {}, pc_options = [], pc_rest = U ''https://x.com/7''\<rparr> =
   download_execute (photo_port\<lparr>dp_send := \<lambda>u. if may_ask u then dp_send photo_port u else ret (Answer 200 [2])\<rparr>) (CommandData [] [] [])
     \<lparr>pc_command_name = U ''dl'', pc_flags = {}, pc_options = [], pc_rest = U ''https://x.com/7''\<rparr>"
  by (rule download_fetches_vetted_only [where V = "Collect may_ask"])
    (auto simp: alike_on_def may_ask_def photo_port_def)

text \<open>The host is checked before the request only: the photo may come from anywhere.\<close>

lemma redirect_leaves_the_hosts:
  "vetted photo_port (U ''a'') \<and> \<not> vetted photo_port (U ''c'') \<and> dp_send photo_port (U ''c'') w = (Inr (Answer 200 [1]), w) \<and>
   fetch_photo photo_port (U ''a'') w = (Inr [1], w)"
proof -
  have "U ''c'' \<noteq> U ''a''" "U ''http'' \<noteq> U ''https''" by code_simp+
  moreover have "follow 20 (dp_send photo_port) (U ''a'') w = (Inr (200, [1]), w)"
    using calculation follow_redirect [of "dp_send photo_port" "U ''a''" w "U ''c''" w 19] follow_answer [of "dp_send photo_port" "U ''c''" w 200 "[1]" w 19]
    by (simp add: photo_port_def)
  ultimately show ?thesis
    by (simp add: vetted_def is_post_image_def is_x_photo_def fetch_photo_def get_buffer_def http_get_def
        MAX_REDIRECTS_def checked_body_def MAX_BUFFER_def bindA_def) (simp add: photo_port_def)
qed

text \<open>A video over the buffer is refused in English, past the table that has a message for it.\<close>

lemma large_video_in_english:
  "as_download_error (Failed video_too_large) = Raised DownloadError (U ''Video exceeds maximum buffer size'')"
    and "match_error (U ''Video exceeds maximum buffer size'') = FILE_TOO_LARGE_MESSAGE"
  subgoal by (simp add: as_download_error_def video_too_large_def)
  subgoal by code_simp
  done

end
