(* ===== verification/Colony.thy ===== *)
theory Colony
  imports Command_Run
begin

text \<open>
  Counting once, and the groups the bot takes over: the counter that a redelivered message does not
  count twice (bot/infrastructure/idempotent_counter.py) with the command \<open>borges\<close> that uses it
  (bot/domain/commands/borges.py), the Roman numeral of a number (bot/data/roman_numerals.py), and
  what happens when the bot becomes an administrator of a group or joins one
  (bot/domain/services/steal_group.py, group_welcome.py, bot/adapters/broker/group_event_consumer.py).
\<close>

subsection \<open>The counter\<close>

text \<open>
  The document of a collection: the count and the keys it remembers, oldest first.  A call of
  \<open>find_one_and_update\<close> is one atomic step that returns the document after the update.  When the
  filter misses, the upsert inserts a document; with the identifier already taken that fails.
\<close>

type_synonym counter_doc = "(int \<times> pystr list) option"

definition RECENT_LIMIT :: nat where "RECENT_LIMIT = 50"

definition duplicate_key :: exn where "duplicate_key = OtherExn (U ''DuplicateKeyError'')"

text \<open>\<open>$push\<close> with \<open>$slice: -50\<close>: the last fifty keys are kept.\<close>

definition push_key :: "pystr list \<Rightarrow> pystr \<Rightarrow> pystr list" where
  "push_key recent k = (let ks = recent @ [k] in drop (length ks - RECENT_LIMIT) ks)"

text \<open>\<open>_increment\<close>: the key of the filter and of the push, when there is one, and the step.\<close>

definition update_counter :: "pystr option \<Rightarrow> int \<Rightarrow> (exn, counter_doc, int) act" where
  "update_counter key step doc =
     (case (doc, key) of
        (None, None) \<Rightarrow> (Inr step, Some (step, []))
      | (None, Some k) \<Rightarrow> (Inr step, Some (step, push_key [] k))
      | (Some (n, recent), None) \<Rightarrow> (Inr (n + step), Some (n + step, recent))
      | (Some (n, recent), Some k) \<Rightarrow>
          if k \<in> set recent then (Inl duplicate_key, doc)
          else (Inr (n + step), Some (n + step, push_key recent k)))"

definition increment :: "pystr option \<Rightarrow> (exn, counter_doc, int) act" where
  "increment key =
     (case key of
        None \<Rightarrow> update_counter None 1
      | Some k \<Rightarrow> handleA (update_counter (Some k) 1) (\<lambda>e. if e = duplicate_key then update_counter None 0 else raise e))"

text \<open>\<open>borges\<close>: the count of the message, through any collection.\<close>

definition borges_execute :: "(pystr option \<Rightarrow> (exn, 'w, int) act) \<Rightarrow> 'w exec" where
  "borges_execute count = (\<lambda>d parsed.
     bindA (count (cd_message_id d))
       (\<lambda>n. ret [reply_text d (U ''Borges j{225} fumou '' @ show_int n @ U '' nargas {128684}'')]))"

definition count_of :: "counter_doc \<Rightarrow> int" where
  "count_of doc = (case doc of None \<Rightarrow> 0 | Some (n, _) \<Rightarrow> n)"

definition recent_of :: "counter_doc \<Rightarrow> pystr list" where
  "recent_of doc = (case doc of None \<Rightarrow> [] | Some (_, ks) \<Rightarrow> ks)"

lemma increment_seen:
  "k \<in> set (recent_of doc) \<Longrightarrow> increment (Some k) doc = (Inr (count_of doc), doc)"
  by (cases doc) (auto simp: increment_def recent_of_def count_of_def update_counter_def handleA_def)

lemma increment_new:
  "k \<notin> set (recent_of doc) \<Longrightarrow>
   increment (Some k) doc = (Inr (count_of doc + 1), Some (count_of doc + 1, push_key (recent_of doc) k))"
  by (cases doc) (auto simp: increment_def recent_of_def count_of_def update_counter_def handleA_def)

text \<open>The documents after the deliveries of a list of keys.\<close>

fun deliveries :: "pystr list \<Rightarrow> counter_doc \<Rightarrow> counter_doc" where
  "deliveries [] doc = doc"
| "deliveries (k # ks) doc = deliveries ks (snd (increment (Some k) doc))"

lemma recent_increment:
  "recent_of (snd (increment (Some k) doc)) =
   (if k \<in> set (recent_of doc) then recent_of doc else push_key (recent_of doc) k)"
proof (cases "k \<in> set (recent_of doc)")
  case True
  then show ?thesis by (simp add: increment_seen)
next
  case False
  then show ?thesis by (simp only: increment_new [OF False] snd_conv recent_of_def option.case prod.case if_False)
qed

text \<open>A key that was pushed stays until fifty others were pushed.\<close>

lemma kept_suffix:
  assumes "recent_of doc = pre @ k # post" "distinct post" "k \<notin> set post" "set post \<subseteq> S" "set ks \<subseteq> insert k S"
    and "finite S" "card S < RECENT_LIMIT"
  shows "k \<in> set (recent_of (deliveries ks doc))"
  using assms
proof (induction ks arbitrary: doc pre post)
  case (Cons x ks)
  let ?doc = "snd (increment (Some x) doc)"
  have "length post < RECENT_LIMIT"
    using card_mono [OF Cons.prems(6,4)] Cons.prems(2,7) by (simp add: distinct_card)
  have "\<exists>pre' post'. recent_of ?doc = pre' @ k # post' \<and> distinct post' \<and> k \<notin> set post' \<and> set post' \<subseteq> S"
  proof (cases "x \<in> set (recent_of doc)")
    case True
    with Cons.prems show ?thesis by (auto simp: recent_increment)
  next
    case False
    with Cons.prems have x: "x \<notin> set post" "x \<noteq> k" "x \<in> S" by auto
    then have "insert x (set post) \<subseteq> S" using Cons.prems(4) by blast
    then have "Suc (length post) \<le> card S"
      using card_mono [OF Cons.prems(6)] Cons.prems(2) x(1) distinct_card [OF Cons.prems(2)] by (metis card_insert_disjoint List.finite_set)
    then have n: "length (recent_of doc @ [x]) - RECENT_LIMIT \<le> length pre"
      using Cons.prems(1,7) by simp
    have "recent_of ?doc = drop (length (recent_of doc @ [x]) - RECENT_LIMIT) (pre @ k # post @ [x])"
      using False Cons.prems(1) by (simp add: recent_increment push_key_def Let_def)
    also have "\<dots> = drop (length (recent_of doc @ [x]) - RECENT_LIMIT) pre @ k # (post @ [x])"
      using n by (simp add: drop_append)
    finally have "recent_of ?doc = drop (length (recent_of doc @ [x]) - RECENT_LIMIT) pre @ k # (post @ [x])" .
    moreover have "distinct (post @ [x])" "k \<notin> set (post @ [x])" "set (post @ [x]) \<subseteq> S"
      using x Cons.prems(2-4) by auto
    ultimately show ?thesis by blast
  qed
  then show ?case
    using Cons.IH Cons.prems(5-7) by (metis deliveries.simps(2) insert_subset list.simps(15))
qed simp

text \<open>
  C26: a redelivered message is counted once.  After a message was counted, however many messages
  with fewer than fifty other identifiers are counted in between, its redelivery leaves the counter
  as it is, and is answered with the current count.
\<close>

theorem redelivery_counts_once:
  assumes "k \<notin> set (recent_of doc)" and "card (set ks - {k}) < 50"
  shows "let d = deliveries ks (snd (increment (Some k) doc)) in increment (Some k) d = (Inr (count_of d), d)"
proof -
  let ?d = "snd (increment (Some k) doc)"
  have "recent_of ?d = drop (length (recent_of doc @ [k]) - RECENT_LIMIT) (recent_of doc @ [k])"
    using assms(1) by (simp add: recent_increment push_key_def Let_def)
  then obtain pre where "recent_of ?d = pre @ k # []"
    by (simp add: RECENT_LIMIT_def drop_append)
  then have "k \<in> set (recent_of (deliveries ks ?d))"
    using assms(2) by (intro kept_suffix [of _ pre k "[]" "set ks - {k}"]) (auto simp: RECENT_LIMIT_def)
  then show ?thesis by (simp add: Let_def increment_seen)
qed

theorem redelivery_counts_once_witness:
  "let d = deliveries [U ''b'', U ''c''] (snd (increment (Some (U ''a'')) None)) in
   increment (Some (U ''a'')) d = (Inr (count_of d), d)"
proof (rule redelivery_counts_once)
  show "U ''a'' \<notin> set (recent_of None)" by (simp add: recent_of_def)
  have "card (set [U ''b'', U ''c''] - {U ''a''}) \<le> card (set [U ''b'', U ''c''])"
    by (intro card_mono) auto
  also have "\<dots> \<le> length [U ''b'', U ''c'']" by (rule card_length)
  finally show "card (set [U ''b'', U ''c''] - {U ''a''}) < 50" by simp
qed


subsection \<open>Roman numerals\<close>

definition ROMAN_VALUES :: "(nat \<times> pystr) list" where
  "ROMAN_VALUES = [(1000, U ''M''), (900, U ''CM''), (500, U ''D''), (400, U ''CD''), (100, U ''C''), (90, U ''XC''),
     (50, U ''L''), (40, U ''XL''), (10, U ''X''), (9, U ''IX''), (5, U ''V''), (4, U ''IV''), (1, U ''I'')]"

text \<open>The inner loop: how the text grows and what is left of the number.  No value is zero.\<close>

function roman_while :: "nat \<Rightarrow> pystr \<Rightarrow> nat \<Rightarrow> pystr \<times> nat" where
  "roman_while v s n = (if v = 0 \<or> n < v then ([], n) else let (t, r) = roman_while v s (n - v) in (s @ t, r))"
  by pat_completeness auto
termination by (relation "measure (\<lambda>(v, s, n). n)") auto

declare roman_while.simps [simp del]

fun roman_from :: "(nat \<times> pystr) list \<Rightarrow> nat \<Rightarrow> pystr" where
  "roman_from [] n = []"
| "roman_from ((v, s) # vs) n = (let (t, r) = roman_while v s n in t @ roman_from vs r)"

definition to_roman :: "nat \<Rightarrow> pystr" where
  "to_roman n = roman_from ROMAN_VALUES n"

text \<open>How a Roman numeral is read: a letter before a greater one is subtracted.\<close>

definition letter_value :: "nat \<Rightarrow> int" where
  "letter_value c = (if c = 77 then 1000 else if c = 68 then 500 else if c = 67 then 100 else if c = 76 then 50
     else if c = 88 then 10 else if c = 86 then 5 else if c = 73 then 1 else 0)"

fun read_roman :: "pystr \<Rightarrow> int" where
  "read_roman [] = 0"
| "read_roman [c] = letter_value c"
| "read_roman (c # d # s) =
     (if letter_value c < letter_value d then read_roman (d # s) - letter_value c else letter_value c + read_roman (d # s))"

lemma roman_while_div: "0 < v \<Longrightarrow> roman_while v s n = (concat (replicate (n div v) s), n mod v)"
proof (induction v s n rule: roman_while.induct)
  case (1 v s n)
  show ?case
  proof (cases "n < v")
    case True
    then show ?thesis by (simp add: roman_while.simps [of v s n])
  next
    case False
    with 1 have "roman_while v s (n - v) = (concat (replicate ((n - v) div v) s), (n - v) mod v)" by simp
    moreover have "n div v = Suc ((n - v) div v)" "n mod v = (n - v) mod v"
      using False 1(2) by (simp_all add: le_div_geq le_mod_geq)
    ultimately show ?thesis
      using False 1(2) by (simp add: roman_while.simps [of v s n])
  qed
qed

text \<open>
  The four values of a decimal place write its digit: \<open>numeral_digit\<close> of the digit, from the texts
  of 9, 5, 4 and 1.
\<close>

definition numeral_digit :: "pystr \<Rightarrow> pystr \<Rightarrow> pystr \<Rightarrow> pystr \<Rightarrow> nat \<Rightarrow> pystr" where
  "numeral_digit s9 s5 s4 s1 k =
     concat (replicate (k div 9) s9) @ concat (replicate (k mod 9 div 5) s5) @
     concat (replicate (k mod 9 mod 5 div 4) s4) @ concat (replicate (k mod 9 mod 5 mod 4) s1)"

lemma roman_place:
  assumes "0 < v"
  shows "roman_from ((v * 9, s9) # (v * 5, s5) # (v * 4, s4) # (v, s1) # vs) n =
    numeral_digit s9 s5 s4 s1 (n div v) @ roman_from vs (n mod v)"
proof -
  have "m div (v * c) = m div v div c" "m mod (v * c) div v = m div v mod c" "m mod (v * c) mod v = m mod v" for m c
    using assms by (simp_all add: div_mult2_eq mod_mult2_eq)
  then show ?thesis
    using assms by (simp add: roman_while_div numeral_digit_def)
qed

text \<open>Three places, and what is known of the digits of each.\<close>

definition digit_ok :: "nat \<Rightarrow> pystr \<Rightarrow> nat \<Rightarrow> bool" where
  "digit_ok v t k \<longleftrightarrow> read_roman t = int (v * k) \<and>
     (t = [] \<or> letter_value (hd t) \<le> 10 * int v \<and> int v \<le> letter_value (last t))"

lemma digits_ok:
  "list_all (\<lambda>k. digit_ok 100 (numeral_digit (U ''CM'') (U ''D'') (U ''CD'') (U ''C'') k) k) [0..<10]"
  "list_all (\<lambda>k. digit_ok 10 (numeral_digit (U ''XC'') (U ''L'') (U ''XL'') (U ''X'') k) k) [0..<10]"
  "list_all (\<lambda>k. digit_ok 1 (numeral_digit (U ''IX'') (U ''V'') (U ''IV'') (U ''I'') k) k) [0..<10]"
  by code_simp+

lemma read_append:
  "s = [] \<or> t = [] \<or> letter_value (hd t) \<le> letter_value (last s) \<Longrightarrow> read_roman (s @ t) = read_roman s + read_roman t"
proof (induction s rule: read_roman.induct)
  case (2 c)
  then show ?case by (cases t) auto
qed auto

lemma read_thousands:
  "t = [] \<or> letter_value (hd t) \<le> 1000 \<Longrightarrow> read_roman (concat (replicate k (U ''M'')) @ t) = 1000 * int k + read_roman t"
proof (induction k)
  case (Suc k)
  have M: "U ''M'' = [77]" "letter_value 77 = 1000" by (simp_all add: str_simps letter_value_def)
  have "concat (replicate k (U ''M'')) @ t = [] \<or> letter_value (hd (concat (replicate k (U ''M'')) @ t)) \<le> 1000"
    using Suc.prems M by (cases k) auto
  with read_append [of "[77]" "concat (replicate k (U ''M'')) @ t"] Suc show ?case
    by (simp add: M)
qed simp

text \<open>
  A Roman numeral can be read back.  For every number the text written is read as that number,
  so two different colonies never get the same numeral.
\<close>

theorem roman_roundtrip: "read_roman (to_roman n) = int n"
proof -
  let ?h = "numeral_digit (U ''CM'') (U ''D'') (U ''CD'') (U ''C'') (n mod 1000 div 100)"
  let ?t = "numeral_digit (U ''XC'') (U ''L'') (U ''XL'') (U ''X'') (n mod 100 div 10)"
  let ?u = "numeral_digit (U ''IX'') (U ''V'') (U ''IV'') (U ''I'') (n mod 10)"
  have "to_roman n = concat (replicate (n div 1000) (U ''M'')) @ ?h @ ?t @ ?u"
    using roman_place [of 100 "U ''CM''" "U ''D''" "U ''CD''" "U ''C''" _ "n mod 1000"]
      roman_place [of 10 "U ''XC''" "U ''L''" "U ''XL''" "U ''X''" _ "n mod 100"]
      roman_place [of 1 "U ''IX''" "U ''V''" "U ''IV''" "U ''I''" "[]" "n mod 10"]
    by (simp add: to_roman_def ROMAN_VALUES_def roman_while_div mod_mod_cancel)
  moreover have "digit_ok 100 ?h (n mod 1000 div 100)" "digit_ok 10 ?t (n mod 100 div 10)" "digit_ok 1 ?u (n mod 10)"
    using digits_ok by (auto simp: list_all_iff)
  then have ok: "read_roman ?h = int (100 * (n mod 1000 div 100))" "read_roman ?t = int (10 * (n mod 100 div 10))"
      "read_roman ?u = int (n mod 10)"
      "?h = [] \<or> letter_value (hd ?h) \<le> 1000 \<and> 100 \<le> letter_value (last ?h)"
      "?t = [] \<or> letter_value (hd ?t) \<le> 100 \<and> 10 \<le> letter_value (last ?t)"
      "?u = [] \<or> letter_value (hd ?u) \<le> 10"
    unfolding digit_ok_def by auto
  have "read_roman (?t @ ?u) = read_roman ?t + read_roman ?u"
    using ok(5,6) by (intro read_append) auto
  moreover have "read_roman (?h @ ?t @ ?u) = read_roman ?h + read_roman (?t @ ?u)"
    using ok(4-6) by (intro read_append) (auto simp: hd_append)
  moreover have "read_roman (concat (replicate (n div 1000) (U ''M'')) @ ?h @ ?t @ ?u) =
      1000 * int (n div 1000) + read_roman (?h @ ?t @ ?u)"
    using ok(4-6) by (intro read_thousands) (auto simp: hd_append)
  moreover have "1000 * (n div 1000) + n mod 1000 = n" "100 * (n mod 1000 div 100) + n mod 100 = n mod 1000"
      "10 * (n mod 100 div 10) + n mod 10 = n mod 100"
    using mult_div_mod_eq [of 1000 n] mult_div_mod_eq [of 100 "n mod 1000"] mult_div_mod_eq [of 10 "n mod 100"]
    by (simp_all add: mod_mod_cancel del: mult_div_mod_eq)
  then have "int n = 1000 * int (n div 1000) + (int (100 * (n mod 1000 div 100)) + (int (10 * (n mod 100 div 10)) + int (n mod 10)))"
    by linarith
  ultimately show ?thesis
    using ok(1-3) by (simp only:)
qed


subsection \<open>Taking over a group\<close>

text \<open>
  The calls of the WhatsApp port, the image service and the counter.  The metadata are the
  participants, the phone number of the owner (empty when it is missing), the subject and the
  description.
\<close>

record event_member =
  em_id :: pystr
  em_phone :: "pystr option"
  em_admin :: "pystr option"

record group_info =
  gi_participants :: "event_member list"
  gi_owner :: pystr
  gi_subject :: pystr
  gi_desc :: pystr

record 'w colony_port =
  cp_metadata :: "pystr \<Rightarrow> (exn, 'w, group_info) act"
  cp_update :: "pystr \<Rightarrow> pystr list \<Rightarrow> pystr \<Rightarrow> (exn, 'w, unit) act"
  cp_subject :: "pystr \<Rightarrow> pystr \<Rightarrow> (exn, 'w, unit) act"
  cp_send :: "pystr \<Rightarrow> pystr \<Rightarrow> nat option \<Rightarrow> (exn, 'w, unit) act"
  cp_description :: "pystr \<Rightarrow> pystr \<Rightarrow> (exn, 'w, unit) act"
  cp_picture :: "pystr \<Rightarrow> nat list \<Rightarrow> (exn, 'w, unit) act"
  cp_image :: "(exn, 'w, nat list) act"
  cp_count :: "pystr option \<Rightarrow> (exn, 'w, int) act"

record group_event =
  ge_action :: "pystr option"
  ge_id :: pystr
  ge_participants :: "event_member list"

definition COLONY_EMOJI :: pystr where "COLONY_EMOJI = U ''{128046}{127907}{127814}''"
definition COLONY_DESCRIPTION :: pystr where "COLONY_DESCRIPTION = U ''Este grupo pertece agora a Resenha {128274}''"
definition NOTIFICATION_EXPIRATION :: nat where "NOTIFICATION_EXPIRATION = 86400"

definition phone_number :: "event_member \<Rightarrow> pystr" where
  "phone_number p = (case em_phone p of None \<Rightarrow> em_id p | Some n \<Rightarrow> if n = [] then em_id p else n)"

definition is_bot :: "pystr \<Rightarrow> event_member \<Rightarrow> bool" where
  "is_bot me p \<longleftrightarrow> phone_number p = me"

definition truthy_admin :: "event_member \<Rightarrow> bool" where
  "truthy_admin p \<longleftrightarrow> em_admin p \<noteq> None \<and> em_admin p \<noteq> Some []"

definition other_admins :: "pystr \<Rightarrow> group_info \<Rightarrow> event_member list" where
  "other_admins me g = filter (\<lambda>p. truthy_admin p \<and> \<not> is_bot me p) (gi_participants g)"

definition colony_subject :: "int \<Rightarrow> pystr" where
  "colony_subject n = U ''Col{244}nia da Resenha '' @ to_roman (nat n) @ [32] @ COLONY_EMOJI"

definition steal :: "'w colony_port \<Rightarrow> pystr \<Rightarrow> pystr \<Rightarrow> pystr \<Rightarrow> (exn, 'w, unit) act" where
  "steal port me resenha grp =
     bindA (cp_metadata port grp)
       (\<lambda>g. let admins = other_admins me g in
          if list_ex (\<lambda>p. phone_number p = gi_owner g) admins then ret ()
          else bindA (cp_update port grp (map em_id admins) (U ''demote''))
            (\<lambda>_. bindA (cp_count port (Some grp))
              (\<lambda>n. bindA (cp_subject port grp (colony_subject n))
                (\<lambda>_. bindA (cp_send port resenha
                     (U ''Col{244}nia obtida!{10}{10}*'' @ gi_subject g @ U ''{10}*'' @ gi_desc g) (Some NOTIFICATION_EXPIRATION))
                  (\<lambda>_. bindA (cp_description port grp COLONY_DESCRIPTION)
                    (\<lambda>_. bindA (cp_image port) (\<lambda>b. cp_picture port grp b)))))))"

text \<open>\<open>StealGroupService.run\<close>, \<open>GroupWelcomeService.run\<close> and the consumer that calls them.\<close>

definition steal_group :: "'w colony_port \<Rightarrow> pystr \<Rightarrow> pystr \<Rightarrow> group_event \<Rightarrow> (exn, 'w, unit) act" where
  "steal_group port me resenha ev =
     (if ge_action ev \<noteq> Some (U ''promote'') then ret ()
      else if \<not> list_ex (is_bot me) (ge_participants ev) then ret ()
      else handleA (steal port me resenha (ge_id ev)) (\<lambda>e. if is_exception e then ret () else raise e))"

definition WHATSAPP_WELCOME :: pystr where
  "WHATSAPP_WELCOME =
     U ''{128075} *E a{237}, galera! Sou o Resenhazord2.*{10}{10}Bot de resenha: memes, downloads, figurinhas, jogos e muito mais. Manda *,menu* pra ver tudo que eu sei fazer.''"

definition group_welcome :: "'w colony_port \<Rightarrow> group_event \<Rightarrow> (exn, 'w, unit) act" where
  "group_welcome port ev = cp_send port (ge_id ev) WHATSAPP_WELCOME None"

text \<open>\<open>None\<close> stands for a body that is no JSON object with an identifier.\<close>

definition handle_group_event :: "'w colony_port \<Rightarrow> pystr \<Rightarrow> pystr \<Rightarrow> group_event option \<Rightarrow> (exn, 'w, unit) act" where
  "handle_group_event port me resenha body =
     (case body of
        None \<Rightarrow> ret ()
      | Some ev \<Rightarrow>
          handleA
            (if ge_action ev = Some (U ''promote'') then steal_group port me resenha ev
             else if ge_action ev = Some (U ''joined'') then group_welcome port ev
             else ret ())
            (\<lambda>e. if is_exception e then ret () else raise e))"

text \<open>
  A world that records the demotions and the subjects set, with the counter's document; the other
  calls change nothing, and any call may fail, as \<open>refuse\<close> says.
\<close>

record colony_world =
  cw_demoted :: "(pystr \<times> pystr list) list"
  cw_subjects :: "(pystr \<times> pystr) list"
  cw_doc :: counter_doc

definition may_fail :: "(pystr \<Rightarrow> exn option) \<Rightarrow> pystr \<Rightarrow> (exn, 'w, 'a) act \<Rightarrow> (exn, 'w, 'a) act" where
  "may_fail refuse name m = (case refuse name of None \<Rightarrow> m | Some e \<Rightarrow> raise e)"

definition colony_recorder :: "(pystr \<Rightarrow> group_info) \<Rightarrow> (pystr \<Rightarrow> exn option) \<Rightarrow> colony_world colony_port" where
  "colony_recorder info refuse = \<lparr>
     cp_metadata = (\<lambda>g. may_fail refuse (U ''metadata'') (ret (info g))),
     cp_update = (\<lambda>g ps action. may_fail refuse (U ''update'')
        (\<lambda>w. (Inr (), w\<lparr>cw_demoted := cw_demoted w @ [(g, ps)]\<rparr>))),
     cp_subject = (\<lambda>g s. may_fail refuse (U ''subject'') (\<lambda>w. (Inr (), w\<lparr>cw_subjects := cw_subjects w @ [(g, s)]\<rparr>))),
     cp_send = (\<lambda>j t x. may_fail refuse (U ''send'') (ret ())),
     cp_description = (\<lambda>g t. may_fail refuse (U ''description'') (ret ())),
     cp_picture = (\<lambda>g b. may_fail refuse (U ''picture'') (ret ())),
     cp_image = may_fail refuse (U ''image'') (ret []),
     cp_count = (\<lambda>k. may_fail refuse (U ''count'')
        (\<lambda>w. let (r, doc) = increment k (cw_doc w) in (r, w\<lparr>cw_doc := doc\<rparr>)))\<rparr>"

definition empty_colonies :: colony_world where
  "empty_colonies = \<lparr>cw_demoted = [], cw_subjects = [], cw_doc = None\<rparr>"

text \<open>Actions that demote nobody.\<close>

definition spares :: "('e, colony_world, 'a) act \<Rightarrow> bool" where
  "spares m \<longleftrightarrow> stays (\<lambda>w w'. cw_demoted w' = cw_demoted w) m"

lemma spares_intros:
  "spares (ret a)" "spares (raise e)" "spares m \<Longrightarrow> (\<And>a. spares (f a)) \<Longrightarrow> spares (bindA m f)"
  "spares m \<Longrightarrow> spares (may_fail refuse n m)"
  "spares m \<Longrightarrow> (\<And>e. spares (h e)) \<Longrightarrow> spares (handleA m h)"
proof -
  show "spares (ret a)" "spares (raise e)" by (simp_all add: spares_def stays_def)
  show "spares m \<Longrightarrow> (\<And>a. spares (f a)) \<Longrightarrow> spares (bindA m f)"
    unfolding spares_def by (rule stays_bindA) (auto simp: transp_def)
  then show "spares m \<Longrightarrow> spares (may_fail refuse n m)"
    by (simp add: may_fail_def spares_def stays_def split: option.split)
  show "spares m \<Longrightarrow> (\<And>e. spares (h e)) \<Longrightarrow> spares (handleA m h)"
  proof -
    assume m: "spares m" and h: "\<And>e. spares (h e)"
    have "cw_demoted (snd (handleA m h w)) = cw_demoted w" for w
    proof (cases "m w")
      case (Pair r w')
      with m have "cw_demoted w' = cw_demoted w" by (auto simp: spares_def stays_def dest: spec [of _ w])
      with Pair h show ?thesis by (cases r) (simp_all add: handleA_def spares_def stays_def)
    qed
    then show ?thesis by (simp add: spares_def stays_def)
  qed
qed

lemma recorder_spares:
  "spares (cp_metadata (colony_recorder info refuse) g)" "spares (cp_subject (colony_recorder info refuse) g s)"
  "spares (cp_send (colony_recorder info refuse) j t x)" "spares (cp_description (colony_recorder info refuse) g t)"
  "spares (cp_image (colony_recorder info refuse))" "spares (cp_picture (colony_recorder info refuse) g b)"
  "spares (cp_count (colony_recorder info refuse) k)"
  unfolding colony_recorder_def colony_port.simps
  by (intro spares_intros; simp add: spares_def stays_def Let_def split: prod.split)+

lemma steal_demotes:
  "let w' = snd (steal (colony_recorder info refuse) me resenha g w) in
   cw_demoted w' = cw_demoted w \<or>
   (cw_demoted w' = cw_demoted w @ [(g, map em_id (other_admins me (info g)))] \<and>
    \<not> list_ex (\<lambda>p. phone_number p = gi_owner (info g)) (other_admins me (info g)))"
proof -
  let ?port = "colony_recorder info refuse" and ?ps = "other_admins me (info g)"
  let ?rest = "bindA (cp_count ?port (Some g))
              (\<lambda>n. bindA (cp_subject ?port g (colony_subject n))
                (\<lambda>_. bindA (cp_send ?port resenha
                     (U ''Col{244}nia obtida!{10}{10}*'' @ gi_subject (info g) @ U ''{10}*'' @ gi_desc (info g)) (Some NOTIFICATION_EXPIRATION))
                  (\<lambda>_. bindA (cp_description ?port g COLONY_DESCRIPTION)
                    (\<lambda>_. bindA (cp_image ?port) (\<lambda>b. cp_picture ?port g b)))))"
  have rest: "spares ?rest"
    by (intro spares_intros recorder_spares)
  then have "cw_demoted (snd (?rest w)) = cw_demoted w" for w
    by (simp add: spares_def stays_def)
  then show ?thesis
    by (cases "refuse (U ''metadata'')"; cases "refuse (U ''update'')")
      (simp_all add: steal_def colony_recorder_def may_fail_def bindA_def [of "\<lambda>w. (Inr (), _ w)"] Let_def)
qed

text \<open>
  C27: the bot takes over no group whose owner rules it.  Whatever calls fail, an event demotes only
  administrators of its group, all of them but the bot, and nobody at all when the owner is among
  them, when the event is no promotion, or when it promotes someone other than the bot.
\<close>

theorem takeover_spares_owner:
  "let w' = snd (handle_group_event (colony_recorder info refuse) me resenha (Some ev) w) in
   cw_demoted w' = cw_demoted w \<or>
   (cw_demoted w' = cw_demoted w @ [(ge_id ev, map em_id (other_admins me (info (ge_id ev))))] \<and>
    ge_action ev = Some (U ''promote'') \<and> list_ex (is_bot me) (ge_participants ev) \<and>
    \<not> list_ex (\<lambda>p. phone_number p = gi_owner (info (ge_id ev))) (other_admins me (info (ge_id ev))))"
proof (cases "ge_action ev = Some (U ''promote'') \<and> list_ex (is_bot me) (ge_participants ev)")
  case True
  let ?m = "steal (colony_recorder info refuse) me resenha (ge_id ev)"
  have "snd (handle_group_event (colony_recorder info refuse) me resenha (Some ev) w) = snd (?m w)"
    using True by (simp add: handle_group_event_def steal_group_def handleA_def split: prod.split sum.split)
  with steal_demotes [of info refuse me resenha "ge_id ev" w] True show ?thesis
    by (simp add: Let_def)
next
  case False
  then have "spares (handle_group_event (colony_recorder info refuse) me resenha (Some ev))"
    by (auto simp: handle_group_event_def steal_group_def group_welcome_def intro!: spares_intros recorder_spares)
  then show ?thesis by (simp add: spares_def stays_def Let_def)
qed

definition promoted_in :: "pystr \<Rightarrow> group_event" where
  "promoted_in g = \<lparr>ge_action = Some (U ''promote''), ge_id = g,
     ge_participants = [\<lparr>em_id = U ''bot'', em_phone = None, em_admin = None\<rparr>]\<rparr>"

lemma takeover_step:
  assumes "increment (Some g) (cw_doc w) = (Inr n, doc)"
  shows "snd (handle_group_event (colony_recorder (\<lambda>_. \<lparr>gi_participants = [], gi_owner = owner, gi_subject = s,
       gi_desc = d\<rparr>) (\<lambda>_. None)) (U ''bot'') resenha (Some (promoted_in g)) w) =
    w\<lparr>cw_demoted := cw_demoted w @ [(g, [])], cw_doc := doc, cw_subjects := cw_subjects w @ [(g, colony_subject n)]\<rparr>"
proof -
  have "list_ex (is_bot (U ''bot'')) (ge_participants (promoted_in g))"
    by (simp add: promoted_in_def is_bot_def phone_number_def)
  then show ?thesis
    using assms
    by (simp add: handle_group_event_def steal_group_def promoted_in_def steal_def colony_recorder_def may_fail_def other_admins_def
        bindA_def handleA_def)
qed

lemma two_colonies:
  "increment (Some (U ''a'')) None = (Inr 1, Some (1, [U ''a'']))"
  "increment (Some (U ''b'')) (Some (1, [U ''a''])) = (Inr 2, Some (2, [U ''a'', U ''b'']))"
  "increment (Some (U ''a'')) (Some (2, [U ''a'', U ''b''])) = (Inr 2, Some (2, [U ''a'', U ''b'']))"
  "colony_subject 1 = U ''Col{244}nia da Resenha I '' @ COLONY_EMOJI"
  "colony_subject 2 = U ''Col{244}nia da Resenha II '' @ COLONY_EMOJI"
  by code_simp+

text \<open>
  A redelivered promotion gives a colony the numeral of another.  The counter answers a group it
  has counted with the current count, not with the count that group got.  So when the promotion in
  the first group is delivered again after a second group was taken over, the first is renamed to
  the numeral of the second, and both carry the same name.
\<close>

theorem redelivered_colony_renamed:
  "cw_subjects (fold (\<lambda>g w. snd (handle_group_event (colony_recorder (\<lambda>_. \<lparr>gi_participants = [], gi_owner = owner, gi_subject = s,
       gi_desc = d\<rparr>) (\<lambda>_. None)) (U ''bot'') resenha (Some (promoted_in g)) w)) [U ''a'', U ''b'', U ''a''] empty_colonies) =
   [(U ''a'', U ''Col{244}nia da Resenha I '' @ COLONY_EMOJI), (U ''b'', U ''Col{244}nia da Resenha II '' @ COLONY_EMOJI),
    (U ''a'', U ''Col{244}nia da Resenha II '' @ COLONY_EMOJI)]"
  by (simp add: takeover_step two_colonies empty_colonies_def)

end
