(* ===== verification/Broker.thy ===== *)
theory Broker
  imports Delivery Colony
begin

text \<open>
  The connection to RabbitMQ (bot/infrastructure/broker.py), what the consumers start
  (\<open>start\<close> of command_consumer.py and group_event_consumer.py) and the WhatsApp client that
  publishes its calls on a queue (bot/adapters/whatsapp/broker_client.py).  aio-pika is a record of
  actions; the object of the bot is a record next to the world the library works on.
\<close>

subsection \<open>The library\<close>

text \<open>
  Connections and channels are numbers.  \<open>aq_declare\<close> takes a channel, a name (none asks for an
  exclusive queue with a name of the broker) and the arguments, and returns the name.  \<open>aq_wait\<close>
  awaits the reply of a correlation identifier, \<open>aq_idle\<close> the end of the messages in flight: it
  tells whether they ended in time.
\<close>

record amqp_message =
  am_body :: bytes
  am_persistent :: bool
  am_correlation :: "pystr option"
  am_reply_to :: "pystr option"

record 'w amqp =
  aq_connect :: "pystr \<Rightarrow> (exn, 'w, nat) act"
  aq_channel :: "nat \<Rightarrow> bool \<Rightarrow> (exn, 'w, nat) act"
  aq_qos :: "nat \<Rightarrow> nat \<Rightarrow> (exn, 'w, unit) act"
  aq_declare :: "nat \<Rightarrow> pystr option \<Rightarrow> (pystr \<times> json) list \<Rightarrow> (exn, 'w, pystr) act"
  aq_publish :: "nat \<Rightarrow> amqp_message \<Rightarrow> pystr \<Rightarrow> (exn, 'w, unit) act"
  aq_consume :: "pystr \<Rightarrow> (exn, 'w, pystr) act"
  aq_cancel :: "pystr \<times> pystr \<Rightarrow> (exn, 'w, unit) act"
  aq_uuid :: "(exn, 'w, pystr) act"
  aq_wait :: "pystr \<Rightarrow> (exn, 'w, bytes) act"
  aq_idle :: "(exn, 'w, bool) act"
  aq_is_error :: "exn \<Rightarrow> bool"
  aq_close :: "nat \<Rightarrow> (exn, 'w, unit) act"

subsection \<open>The broker\<close>

record rabbit =
  rb_publish_connection :: "nat option"
  rb_consume_connection :: "nat option"
  rb_publish_channel :: "nat option"
  rb_consume_channel :: "nat option"
  rb_consumers :: "(pystr \<times> pystr) list"
  rb_in_flight :: nat
  rb_idle :: bool

definition new_rabbit :: rabbit where
  "new_rabbit = \<lparr>rb_publish_connection = None, rb_consume_connection = None, rb_publish_channel = None,
     rb_consume_channel = None, rb_consumers = [], rb_in_flight = 0, rb_idle = True\<rparr>"

type_synonym ('w, 'a) rb_act = "(exn, rabbit \<times> 'w, 'a) act"

definition outside :: "(exn, 'w, 'a) act \<Rightarrow> ('w, 'a) rb_act" where
  "outside m = (\<lambda>(b, w). let (r, w') = m w in (r, (b, w')))"

definition change :: "(rabbit \<Rightarrow> rabbit) \<Rightarrow> ('w, unit) rb_act" where
  "change f = (\<lambda>(b, w). (Inr (), (f b, w)))"

definition reading :: "(rabbit \<Rightarrow> 'a) \<Rightarrow> ('w, 'a) rb_act" where
  "reading f = (\<lambda>(b, w). (Inr (f b), (b, w)))"

definition PREFETCH_COUNT :: nat where "PREFETCH_COUNT = 4"

text \<open>\<open>OSError\<close> and its subclasses; the errors of the library are a predicate of its record.\<close>

definition os_errors :: "pystr list" where
  "os_errors = [U ''OSError'', U ''BlockingIOError'', U ''BrokenPipeError'', U ''ConnectionError'', U ''ConnectionAbortedError'',
     U ''ConnectionRefusedError'', U ''ConnectionResetError'', U ''InterruptedError'', U ''TimeoutError'', U ''gaierror'', U ''SSLError'']"

definition is_named :: "pystr list \<Rightarrow> exn \<Rightarrow> bool" where
  "is_named names e = (case e of OtherExn n \<Rightarrow> n \<in> set names | Raised _ _ \<Rightarrow> False)"

definition connection_error :: exn where "connection_error = OtherExn (U ''BrokerConnectionError'')"
definition not_connected :: exn where "not_connected = OtherExn (U ''RuntimeError'')"

definition connect :: "'w amqp \<Rightarrow> pystr \<Rightarrow> ('w, unit) rb_act" where
  "connect lib url =
     handleA
       (bindA (outside (aq_connect lib url))
         (\<lambda>p. bindA (change (rb_publish_connection_update (\<lambda>_. Some p)))
           (\<lambda>_. bindA (outside (aq_connect lib url))
             (\<lambda>c. bindA (change (rb_consume_connection_update (\<lambda>_. Some c)))
               (\<lambda>_. bindA (outside (aq_channel lib p True))
                 (\<lambda>pc. bindA (change (rb_publish_channel_update (\<lambda>_. Some pc)))
                   (\<lambda>_. bindA (outside (aq_channel lib c False))
                     (\<lambda>cc. bindA (change (rb_consume_channel_update (\<lambda>_. Some cc)))
                       (\<lambda>_. outside (aq_qos lib cc PREFETCH_COUNT))))))))))
       (\<lambda>e. if aq_is_error lib e \<or> is_named os_errors e then raise connection_error else raise e)"

definition active :: "(rabbit \<Rightarrow> nat option) \<Rightarrow> ('w, nat) rb_act" where
  "active channel = bindA (reading channel) (\<lambda>c. case c of None \<Rightarrow> raise not_connected | Some n \<Rightarrow> ret n)"

definition declare_queue :: "'w amqp \<Rightarrow> pystr \<Rightarrow> ('w, unit) rb_act" where
  "declare_queue lib queue =
     bindA (active rb_publish_channel) (\<lambda>ch. bindA (outside (aq_declare lib ch (Some queue) [])) (\<lambda>_. ret ()))"

definition declare_retry_queue :: "'w amqp \<Rightarrow> pystr \<Rightarrow> nat \<Rightarrow> pystr \<Rightarrow> ('w, unit) rb_act" where
  "declare_retry_queue lib queue ttl_ms dead_letter_to =
     bindA (active rb_publish_channel)
       (\<lambda>ch. bindA (outside (aq_declare lib ch (Some queue)
           [(U ''x-message-ttl'', JNum (of_nat ttl_ms)), (U ''x-dead-letter-exchange'', JStr []),
            (U ''x-dead-letter-routing-key'', JStr dead_letter_to)])) (\<lambda>_. ret ()))"

definition publish :: "'w amqp \<Rightarrow> pystr \<Rightarrow> bytes \<Rightarrow> ('w, unit) rb_act" where
  "publish lib queue body =
     bindA (active rb_publish_channel)
       (\<lambda>ch. outside (aq_publish lib ch \<lparr>am_body = body, am_persistent = True, am_correlation = None, am_reply_to = None\<rparr> queue))"

definition consume :: "'w amqp \<Rightarrow> pystr \<Rightarrow> ('w, unit) rb_act" where
  "consume lib queue =
     bindA (active rb_consume_channel)
       (\<lambda>ch. bindA (outside (aq_declare lib ch (Some queue) []))
         (\<lambda>q. bindA (outside (aq_consume lib q)) (\<lambda>tag. change (rb_consumers_update (\<lambda>cs. cs @ [(q, tag)])))))"

text \<open>
  A call: the queue of the answer is declared and consumed, the request published, the answer
  awaited, and the consumer of the answer cancelled after it, however the wait ends.
\<close>

definition finallyA :: "(exn, 'w, 'a) act \<Rightarrow> (exn, 'w, unit) act \<Rightarrow> (exn, 'w, 'a) act" where
  "finallyA m f = (\<lambda>w. let (r, w') = m w in
     case f w' of (Inl e, w'') \<Rightarrow> (Inl e, w'') | (Inr _, w'') \<Rightarrow> (r, w''))"

definition rpc_call :: "'w amqp \<Rightarrow> pystr \<Rightarrow> bytes \<Rightarrow> ('w, bytes) rb_act" where
  "rpc_call lib queue body =
     bindA (active rb_consume_channel)
       (\<lambda>ch. bindA (outside (aq_declare lib ch None []))
         (\<lambda>cb. bindA (outside (aq_uuid lib))
           (\<lambda>i. bindA (outside (aq_consume lib cb))
             (\<lambda>tag. bindA (active rb_publish_channel)
               (\<lambda>pc. bindA (outside (aq_publish lib pc
                    \<lparr>am_body = body, am_persistent = True, am_correlation = Some i, am_reply_to = Some cb\<rparr> queue))
                 (\<lambda>_. finallyA (outside (aq_wait lib i)) (outside (aq_cancel lib (cb, tag)))))))))"

text \<open>\<open>on_response\<close>: the future keeps the first body whose identifier is that of the call.\<close>

definition on_response :: "pystr \<Rightarrow> bytes option \<Rightarrow> amqp_message \<Rightarrow> bytes option" where
  "on_response i future m =
     (if am_correlation m = Some i \<and> future = None then Some (am_body m) else future)"

text \<open>\<open>rpc_respond\<close>: the queue is declared and consumed, and not noted among the consumers.\<close>

definition rpc_respond :: "'w amqp \<Rightarrow> pystr \<Rightarrow> ('w, unit) rb_act" where
  "rpc_respond lib queue =
     bindA (active rb_consume_channel)
       (\<lambda>ch. bindA (outside (aq_declare lib ch (Some queue) [])) (\<lambda>q. bindA (outside (aq_consume lib q)) (\<lambda>_. ret ())))"

definition on_request :: "'w amqp \<Rightarrow> (bytes \<Rightarrow> (exn, rabbit \<times> 'w, bytes) act) \<Rightarrow> amqp_message \<Rightarrow> ('w, unit) rb_act" where
  "on_request lib handler m =
     (case am_reply_to m of
        None \<Rightarrow> ret ()
      | Some q \<Rightarrow>
          bindA (handler (am_body m))
            (\<lambda>result. bindA (active rb_publish_channel)
              (\<lambda>ch. outside (aq_publish lib ch
                 \<lparr>am_body = result, am_persistent = False, am_correlation = am_correlation m, am_reply_to = None\<rparr> q))))"

text \<open>The callback of a consumer, before and after the handler it runs.\<close>

definition begin_message :: "rabbit \<Rightarrow> rabbit" where
  "begin_message b = b\<lparr>rb_in_flight := rb_in_flight b + 1, rb_idle := False\<rparr>"

definition end_message :: "rabbit \<Rightarrow> rabbit" where
  "end_message b =
     (let n = rb_in_flight b - 1 in b\<lparr>rb_in_flight := n, rb_idle := (if n = 0 then True else rb_idle b)\<rparr>)"

text \<open>
  A coroutine, as the event loop sees it: it changes the broker, and at each await it stops until it
  is resumed, with a value or with an exception thrown into it (an error or a cancellation); it
  ends by returning (\<open>True\<close>) or by raising.  Statements one after the other, \<open>try\<close> with
  \<open>finally\<close>, and the context of a message, which on leaving awaits the acknowledgement or the
  rejection, are functions on coroutines.
\<close>

datatype coroutine = Stop bool | Change "rabbit \<Rightarrow> rabbit" coroutine | Wait coroutine coroutine

definition await_it :: coroutine where "await_it = Wait (Stop True) (Stop False)"

primrec and_then :: "coroutine \<Rightarrow> coroutine \<Rightarrow> coroutine" where
  "and_then (Stop ok) q = (if ok then q else Stop False)"
| "and_then (Change f p) q = Change f (and_then p q)"
| "and_then (Wait p p') q = Wait (and_then p q) (and_then p' q)"

primrec try_finally :: "coroutine \<Rightarrow> coroutine \<Rightarrow> coroutine" where
  "try_finally (Stop ok) q = and_then q (Stop ok)"
| "try_finally (Change f p) q = Change f (try_finally p q)"
| "try_finally (Wait p p') q = Wait (try_finally p q) (try_finally p' q)"

primrec leave_message :: "coroutine \<Rightarrow> coroutine" where
  "leave_message (Stop ok) = Wait (Stop ok) (Stop False)"
| "leave_message (Change f p) = Change f (leave_message p)"
| "leave_message (Wait p p') = Wait (leave_message p) (leave_message p')"

definition process_message :: "coroutine \<Rightarrow> coroutine" where
  "process_message body = and_then await_it (leave_message body)"

definition on_message :: "(bytes \<Rightarrow> coroutine) \<Rightarrow> bytes \<Rightarrow> coroutine" where
  "on_message handler body =
     Change begin_message (try_finally (process_message (handler body)) (Change end_message (Stop True)))"

text \<open>\<open>cancel_all\<close> is the loop of \<open>stop_consuming\<close>; the warnings are left out.\<close>

definition cancel_all :: "'w amqp \<Rightarrow> ('w, unit) rb_act" where
  "cancel_all lib = bindA (reading rb_consumers)
     (\<lambda>cs. bindA (mapA (\<lambda>c. outside (aq_cancel lib c)) cs) (\<lambda>_. ret ()))"

definition stop_consuming :: "'w amqp \<Rightarrow> ('w, unit) rb_act" where
  "stop_consuming lib =
     bindA
       (handleA (bindA (cancel_all lib) (\<lambda>_. ret True))
         (\<lambda>e. if aq_is_error lib e \<or> e = OtherExn (U ''ChannelInvalidStateError'') then ret False else raise e))
       (\<lambda>cancelled. bindA (change (rb_consumers_update (\<lambda>_. [])))
         (\<lambda>_. if cancelled then bindA (outside (aq_idle lib)) (\<lambda>_. ret ()) else ret ()))"

definition close_connection :: "'w amqp \<Rightarrow> nat option \<Rightarrow> ('w, unit) rb_act" where
  "close_connection lib c = (case c of None \<Rightarrow> ret () | Some n \<Rightarrow> outside (aq_close lib n))"

definition close_broker :: "'w amqp \<Rightarrow> ('w, unit) rb_act" where
  "close_broker lib =
     bindA (stop_consuming lib)
       (\<lambda>_. bindA (reading rb_publish_connection)
         (\<lambda>p. bindA (reading rb_consume_connection)
           (\<lambda>c. bindA (close_connection lib p)
             (\<lambda>_. bindA (close_connection lib c)
               (\<lambda>_. change (\<lambda>b. b\<lparr>rb_publish_connection := None, rb_consume_connection := None,
                      rb_publish_channel := None, rb_consume_channel := None\<rparr>))))))"

subsection \<open>What the consumers start\<close>

definition COMMANDS_QUEUE :: pystr where "COMMANDS_QUEUE = U ''commands''"
definition REPLIES_QUEUE :: pystr where "REPLIES_QUEUE = U ''replies''"
definition RETRY_QUEUE :: pystr where "RETRY_QUEUE = U ''commands.retry''"
definition DLQ_QUEUE :: pystr where "DLQ_QUEUE = U ''commands.dlq''"
definition RETRY_TTL_MS :: nat where "RETRY_TTL_MS = 30000"
definition GROUP_EVENTS_QUEUE :: pystr where "GROUP_EVENTS_QUEUE = U ''group_events''"

definition start_commands :: "'w amqp \<Rightarrow> ('w, unit) rb_act" where
  "start_commands lib =
     bindA (declare_queue lib REPLIES_QUEUE)
       (\<lambda>_. bindA (declare_queue lib DLQ_QUEUE)
         (\<lambda>_. bindA (declare_retry_queue lib RETRY_QUEUE RETRY_TTL_MS COMMANDS_QUEUE)
           (\<lambda>_. consume lib COMMANDS_QUEUE)))"

definition start_group_events :: "'w amqp \<Rightarrow> ('w, unit) rb_act" where
  "start_group_events lib = consume lib GROUP_EVENTS_QUEUE"

subsection \<open>The WhatsApp client\<close>

text \<open>
  \<open>wc_dumps\<close> and \<open>wc_loads\<close> write and read JSON as bytes; \<open>wc_deadline\<close> is \<open>asyncio.timeout\<close> with
  the thirty seconds of a call.
\<close>

record 'w wa_client =
  wc_lib :: "'w amqp"
  wc_dumps :: "json \<Rightarrow> bytes"
  wc_loads :: "bytes \<Rightarrow> exn + json"
  wc_deadline :: "(exn, rabbit \<times> 'w, bytes) act \<Rightarrow> (exn, rabbit \<times> 'w, bytes) act"

definition ACTIONS_QUEUE :: pystr where "ACTIONS_QUEUE = U ''wa_actions''"
definition RPC_QUEUE :: pystr where "RPC_QUEUE = U ''wa_rpc''"

definition MEDIA_UNAVAILABLE_MESSAGE :: pystr where
  "MEDIA_UNAVAILABLE_MESSAGE = U ''{10060} N{227}o consegui baixar essa m{237}dia.''"

definition wa_request :: "pystr \<Rightarrow> (pystr \<times> json) list \<Rightarrow> json" where
  "wa_request call data = JObj ((U ''method'', JStr call) # data)"

definition wa_rpc :: "'w wa_client \<Rightarrow> pystr \<Rightarrow> (pystr \<times> json) list \<Rightarrow> ('w, json) rb_act" where
  "wa_rpc c call data =
     bindA (wc_deadline c (rpc_call (wc_lib c) RPC_QUEUE (wc_dumps c (wa_request call data))))
       (\<lambda>reply. case wc_loads c reply of Inl e \<Rightarrow> raise e | Inr j \<Rightarrow> ret j)"

definition wa_publish :: "'w wa_client \<Rightarrow> pystr \<Rightarrow> (pystr \<times> json) list \<Rightarrow> ('w, unit) rb_act" where
  "wa_publish c call data = publish (wc_lib c) ACTIONS_QUEUE (wc_dumps c (wa_request call data))"

definition wa_on_whatsapp :: "'w wa_client \<Rightarrow> pystr list \<Rightarrow> ('w, json) rb_act" where
  "wa_on_whatsapp c jids =
     bindA (wa_rpc c (U ''on_whatsapp'') [(U ''jids'', JArr (map JStr jids))])
       (\<lambda>j. case j of
          JObj d \<Rightarrow> ret (case dict_get d (U ''results'') of None \<Rightarrow> JArr [] | Some r \<Rightarrow> r)
        | _ \<Rightarrow> raise (OtherExn (U ''AttributeError'')))"

definition wa_group_metadata :: "'w wa_client \<Rightarrow> pystr \<Rightarrow> ('w, json) rb_act" where
  "wa_group_metadata c jid = wa_rpc c (U ''group_metadata'') [(U ''jid'', JStr jid)]"

definition wa_download_media :: "'w wa_client \<Rightarrow> pystr \<Rightarrow> pystr \<Rightarrow> ('w, bytes) rb_act" where
  "wa_download_media c message_id src = raise (Raised MediaUnavailableError MEDIA_UNAVAILABLE_MESSAGE)"

definition wa_participants_update :: "'w wa_client \<Rightarrow> pystr \<Rightarrow> pystr list \<Rightarrow> pystr \<Rightarrow> ('w, unit) rb_act" where
  "wa_participants_update c jid participants action =
     wa_publish c (U ''group_participants_update'')
       [(U ''jid'', JStr jid), (U ''participants'', JArr (map JStr participants)), (U ''action'', JStr action)]"

definition wa_send_message ::
  "'w wa_client \<Rightarrow> pystr \<Rightarrow> (pystr \<times> json) list \<Rightarrow> (pystr \<times> json) list option \<Rightarrow> ('w, unit) rb_act" where
  "wa_send_message c jid content options =
     wa_publish c (U ''send_message'')
       [(U ''jid'', JStr jid), (U ''content'', JObj content),
        (U ''options'', case options of None \<Rightarrow> JNull | Some kvs \<Rightarrow> JObj kvs)]"

definition wa_profile_picture :: "'w wa_client \<Rightarrow> pystr \<Rightarrow> bytes \<Rightarrow> ('w, unit) rb_act" where
  "wa_profile_picture c jid picture =
     wa_publish c (U ''update_profile_picture'') [(U ''jid'', JStr jid), (U ''image'', JStr (b64encode picture))]"

definition wa_subject :: "'w wa_client \<Rightarrow> pystr \<Rightarrow> pystr \<Rightarrow> ('w, unit) rb_act" where
  "wa_subject c jid subject = wa_publish c (U ''group_update_subject'') [(U ''jid'', JStr jid), (U ''subject'', JStr subject)]"

definition wa_description :: "'w wa_client \<Rightarrow> pystr \<Rightarrow> pystr \<Rightarrow> ('w, unit) rb_act" where
  "wa_description c jid description =
     wa_publish c (U ''group_update_description'') [(U ''jid'', JStr jid), (U ''description'', JStr description)]"

definition wa_presence :: "'w wa_client \<Rightarrow> pystr \<Rightarrow> pystr \<Rightarrow> ('w, unit) rb_act" where
  "wa_presence c ty jid = wa_publish c (U ''send_presence_update'') [(U ''type'', JStr ty), (U ''jid'', JStr jid)]"

subsection \<open>Messages in flight\<close>

text \<open>
  The event loop: a coroutine runs without interruption from one await to the next.  The callbacks
  interleave: a message is delivered, which starts its callback; a callback that waits is resumed,
  or has an exception thrown into it; anything else the program does leaves the count and the event
  alone.  A handler may change the broker too, but not these two.
\<close>

primrec advance :: "coroutine \<Rightarrow> rabbit \<Rightarrow> rabbit \<times> coroutine" where
  "advance (Stop ok) b = (b, Stop ok)"
| "advance (Change f p) b = advance p (f b)"
| "advance (Wait p p') b = (b, Wait p p')"

type_synonym loop_state = "rabbit \<times> (nat \<Rightarrow> coroutine option)"

definition go_on :: "nat \<Rightarrow> coroutine \<Rightarrow> loop_state \<Rightarrow> loop_state" where
  "go_on pid p s = (let (b, k) = advance p (fst s) in (b, (snd s)(pid \<mapsto> k)))"

definition counters :: "rabbit \<Rightarrow> nat \<times> bool" where
  "counters b = (rb_in_flight b, rb_idle b)"

inductive flight :: "(bytes \<Rightarrow> coroutine) \<Rightarrow> loop_state \<Rightarrow> loop_state \<Rightarrow> bool" for handler where
  deliver: "pid \<notin> dom (snd s) \<Longrightarrow> flight handler s (go_on pid (on_message handler body) s)"
| resume: "snd s pid = Some (Wait p p') \<Longrightarrow> flight handler s (go_on pid (if ok then p else p') s)"
| elsewhere: "counters b' = counters (fst s) \<Longrightarrow> flight handler s (b', snd s)"

primrec quiet :: "coroutine \<Rightarrow> bool" where
  "quiet (Stop ok) = True"
| "quiet (Change f p) = ((\<forall>b. counters (f b) = counters b) \<and> quiet p)"
| "quiet (Wait p p') = (quiet p \<and> quiet p')"

definition in_progress :: "(nat \<Rightarrow> coroutine option) \<Rightarrow> nat set" where
  "in_progress T = {pid. \<exists>p p'. T pid = Some (Wait p p')}"

definition finishing :: "coroutine \<Rightarrow> coroutine" where
  "finishing p = try_finally p (Change end_message (Stop True))"

text \<open>Every callback in progress still has its \<open>finally\<close> before it, and the count is right.\<close>

definition flight_ok :: "loop_state \<Rightarrow> bool" where
  "flight_ok s \<longleftrightarrow> finite (in_progress (snd s)) \<and>
     counters (fst s) = (card (in_progress (snd s)), in_progress (snd s) = {}) \<and>
     (\<forall>pid p p'. snd s pid = Some (Wait p p') \<longrightarrow> (\<exists>q q'. quiet q \<and> quiet q' \<and> p = finishing q \<and> p' = finishing q'))"

lemma quiet_combinators:
  "quiet p \<Longrightarrow> quiet q \<Longrightarrow> quiet (and_then p q)" "quiet p \<Longrightarrow> quiet (leave_message p)"
  by (induction p) simp_all

lemma quiet_process: "quiet p \<Longrightarrow> quiet (process_message p)"
  by (simp add: process_message_def await_it_def quiet_combinators)

lemma counters_end: "counters b = counters b' \<Longrightarrow> counters (end_message b) = counters (end_message b')"
  by (simp add: counters_def end_message_def Let_def)

text \<open>To the next await the counts stay, and at its end the callback has closed its own.\<close>

lemma advance_finishing:
  "quiet p \<Longrightarrow> advance (finishing p) b = (b', k) \<Longrightarrow>
   (\<exists>q q'. k = Wait (finishing q) (finishing q') \<and> quiet q \<and> quiet q' \<and> counters b' = counters b) \<or>
   (\<exists>ok. k = Stop ok \<and> counters b' = counters (end_message b))"
proof (induction p arbitrary: b)
  case (Change f p)
  then have "advance (finishing p) (f b) = (b', k)" "counters (f b) = counters b"
    by (simp_all add: finishing_def)
  with Change.IH [of "f b"] Change.prems(1) counters_end [of "f b" b] show ?case by simp
qed (auto simp: finishing_def)

lemma in_progress_update:
  "in_progress (T(pid \<mapsto> Stop ok)) = in_progress T - {pid}"
  "in_progress (T(pid \<mapsto> Wait p p')) = insert pid (in_progress T)"
  by (auto simp: in_progress_def)

lemma go_on_ok:
  assumes "quiet p" "finite R" "pid \<notin> R" "in_progress (snd s) - {pid} = R"
    and "counters (fst s) = (Suc (card R), False)"
    and "\<And>i q q'. i \<noteq> pid \<Longrightarrow> snd s i = Some (Wait q q') \<Longrightarrow> \<exists>r r'. quiet r \<and> quiet r' \<and> q = finishing r \<and> q' = finishing r'"
  shows "flight_ok (go_on pid (finishing p) s)"
proof -
  obtain b k where bk: "advance (finishing p) (fst s) = (b, k)" by (cases "advance (finishing p) (fst s)")
  from advance_finishing [OF assms(1) this] consider
      (wait) q q' where "k = Wait (finishing q) (finishing q')" "quiet q" "quiet q'" "counters b = counters (fst s)"
    | (ended) ok where "k = Stop ok" "counters b = counters (end_message (fst s))"
    by blast
  then show ?thesis
  proof cases
    case wait
    have "insert pid (in_progress (snd s)) = insert pid R"
      using assms(4) by blast
    with wait bk assms(2,3,5,6) show ?thesis
      by (auto simp: flight_ok_def go_on_def in_progress_update split: if_splits)
  next
    case ended
    have "counters (end_message (fst s)) = (card R, R = {})"
      using assms(2,5) by (auto simp: counters_def end_message_def Let_def)
    with ended bk assms(2-4,6) show ?thesis
      by (auto simp: flight_ok_def go_on_def in_progress_update split: if_splits)
  qed
qed

lemma flight_step:
  assumes "\<And>body. quiet (handler body)"
  shows "flight handler s t \<Longrightarrow> flight_ok s \<Longrightarrow> flight_ok t"
proof (induction rule: flight.induct)
  case (deliver pid s body)
  let ?s = "(begin_message (fst s), snd s)"
  have new: "pid \<notin> in_progress (snd s)"
    using deliver(1) by (auto simp: in_progress_def)
  have "go_on pid (on_message handler body) s = go_on pid (finishing (process_message (handler body))) ?s"
    by (simp add: go_on_def on_message_def finishing_def)
  moreover have "flight_ok (go_on pid (finishing (process_message (handler body))) ?s)"
    using deliver(2) new quiet_process [OF assms]
    by (intro go_on_ok [of _ "in_progress (snd s)"]) (auto simp: flight_ok_def counters_def begin_message_def)
  ultimately show ?case by simp
next
  case (resume s pid p p' ok)
  then obtain r r' where "quiet r" "quiet r'" "p = finishing r" "p' = finishing r'"
    unfolding flight_ok_def by blast
  then obtain q where q: "quiet q" "(if ok then p else p') = finishing q"
    by (cases ok) auto
  have here: "pid \<in> in_progress (snd s)"
    using resume(1) by (auto simp: in_progress_def)
  let ?R = "in_progress (snd s) - {pid}"
  have "counters (fst s) = (Suc (card ?R), False)"
    using resume(2) here card_Suc_Diff1 [of "in_progress (snd s)" pid] by (auto simp: flight_ok_def)
  then have "flight_ok (go_on pid (finishing q) s)"
    using q(1) resume(2) by (intro go_on_ok [of _ ?R]) (auto simp: flight_ok_def)
  then show ?case by (simp add: q(2))
next
  case (elsewhere b' s)
  then show ?case by (simp add: flight_ok_def)
qed

text \<open>
  C36: the event of the drain means what it says.  However the callbacks of the messages
  interleave, whatever each handler awaits and wherever an error or a cancellation is thrown into
  them (in the handler, in the acknowledgement, in the rejection), the count in flight is that of the
  callbacks that have started and not ended, and the event \<open>_idle\<close>, for which \<open>stop_consuming\<close>
  waits, is set when and only when there is none.  (How long it waits, twenty seconds, and that it
  does not wait when the broker is gone, are matters of \<open>stop_consuming\<close>.)
\<close>

theorem idle_means_drained:
  assumes "\<And>body. quiet (handler body)" "(flight handler)\<^sup>*\<^sup>* (new_rabbit, Map.empty) (b, T)"
  shows "rb_in_flight b = card (in_progress T) \<and> (rb_idle b \<longleftrightarrow> in_progress T = {})"
proof -
  have "flight_ok (new_rabbit, Map.empty)"
    by (simp add: flight_ok_def new_rabbit_def counters_def in_progress_def)
  with assms(2) have "flight_ok (b, T)"
    by (induction rule: rtranclp_induct) (auto intro: flight_step [OF assms(1)])
  then show ?thesis by (simp add: flight_ok_def counters_def)
qed

text \<open>Two messages, the second of which is cancelled as its context is entered.\<close>

definition one_cancelled :: loop_state where
  "one_cancelled = go_on 2 (finishing (Stop False))
     (go_on 2 (on_message (\<lambda>_. await_it) []) (go_on 1 (on_message (\<lambda>_. await_it) []) (new_rabbit, Map.empty)))"

theorem idle_means_drained_witness:
  "rb_in_flight (fst one_cancelled) = card (in_progress (snd one_cancelled)) \<and>
   (rb_idle (fst one_cancelled) \<longleftrightarrow> in_progress (snd one_cancelled) = {})"
proof (rule idle_means_drained [where handler = "\<lambda>_. await_it"])
  let ?h = "\<lambda>_ :: bytes. await_it"
  let ?s1 = "go_on 1 (on_message ?h []) (new_rabbit, Map.empty)"
  let ?s2 = "go_on 2 (on_message ?h []) ?s1"
  note defs = go_on_def on_message_def process_message_def await_it_def finishing_def
  have "flight ?h (new_rabbit, Map.empty) ?s1"
    by (rule deliver) simp
  moreover have "flight ?h ?s1 ?s2"
    by (rule deliver) (simp add: defs)
  moreover have "snd ?s2 2 = Some (Wait (finishing (leave_message await_it)) (finishing (Stop False)))"
    by (simp add: defs)
  then have "flight ?h ?s2 (go_on 2 (finishing (Stop False)) ?s2)"
    using resume [of ?s2 2 _ _ ?h False] by simp
  ultimately show "(flight ?h)\<^sup>*\<^sup>* (new_rabbit, Map.empty) (fst one_cancelled, snd one_cancelled)"
    unfolding one_cancelled_def by (simp add: converse_rtranclp_into_rtranclp)
qed (simp add: await_it_def)

subsection \<open>A closed broker\<close>

lemma outside_stays: "snd (outside m (b, w)) = (b, snd (m w))"
  by (simp add: outside_def split: prod.split)

text \<open>
  A closed broker is inert.  When closing returns, nothing is consumed any more, and whatever is
  asked of the broker afterwards raises \<open>RuntimeError\<close> before it reaches the library.
\<close>

theorem closed_broker_is_inert:
  assumes "close_broker lib (b, w) = (Inr (), (b', w'))"
  shows "rb_consumers b' = [] \<and>
    publish lib queue body (b', w') = (Inl not_connected, (b', w')) \<and>
    consume lib queue (b', w') = (Inl not_connected, (b', w')) \<and>
    declare_queue lib queue (b', w') = (Inl not_connected, (b', w')) \<and>
    rpc_call lib queue body (b', w') = (Inl not_connected, (b', w'))"
proof -
  have keep: "rb_consumers b2 = rb_consumers b1" if "close_connection lib n (b1, w1) = (r, (b2, w2))" for n b1 w1 r b2 w2
    using that by (cases n) (auto simp: close_connection_def outside_def split: prod.splits)
  have stop: "rb_consumers b1 = []" if "stop_consuming lib (b, w) = (Inr (), (b1, w1))" for b1 w1
    using that
    by (auto simp: stop_consuming_def change_def outside_def elim!: bindA_InrE split: if_splits prod.splits)
  from assms have "rb_consumers b' = []"
    by (auto simp: close_broker_def change_def reading_def elim!: bindA_InrE dest!: keep stop)
  moreover from assms obtain b3 where
    "b' = b3\<lparr>rb_publish_connection := None, rb_consume_connection := None, rb_publish_channel := None, rb_consume_channel := None\<rparr>"
    by (auto simp: close_broker_def change_def elim!: bindA_InrE)
  ultimately show ?thesis
    by (simp add: publish_def consume_def declare_queue_def rpc_call_def active_def reading_def bindA_def)
qed

definition quiet_lib :: "unit amqp" where
  "quiet_lib = \<lparr>aq_connect = (\<lambda>_. ret 1), aq_channel = (\<lambda>_ _. ret 2), aq_qos = (\<lambda>_ _. ret ()), aq_declare = (\<lambda>_ _ _. ret []),
     aq_publish = (\<lambda>_ _ _. ret ()), aq_consume = (\<lambda>_. ret []), aq_cancel = (\<lambda>_. ret ()), aq_uuid = ret [], aq_wait = (\<lambda>_. ret []),
     aq_idle = ret True, aq_is_error = (\<lambda>_. False), aq_close = (\<lambda>_. ret ())\<rparr>"

text \<open>An open broker with a consumer, closed.\<close>

theorem closed_broker_is_inert_witness:
  "rb_consumers new_rabbit = [] \<and>
    publish quiet_lib [] [] (new_rabbit, ()) = (Inl not_connected, (new_rabbit, ())) \<and>
    consume quiet_lib [] (new_rabbit, ()) = (Inl not_connected, (new_rabbit, ())) \<and>
    declare_queue quiet_lib [] (new_rabbit, ()) = (Inl not_connected, (new_rabbit, ())) \<and>
    rpc_call quiet_lib [] [] (new_rabbit, ()) = (Inl not_connected, (new_rabbit, ()))"
proof (rule closed_broker_is_inert)
  show "close_broker quiet_lib (new_rabbit\<lparr>rb_publish_connection := Some 1, rb_publish_channel := Some 2, rb_consume_channel := Some 2,
      rb_consumers := [([], [])]\<rparr>, ()) = (Inr (), (new_rabbit, ()))"
    by (simp add: close_broker_def stop_consuming_def cancel_all_def close_connection_def quiet_lib_def new_rabbit_def
        change_def reading_def outside_def bindA_def handleA_def)
qed

subsection \<open>Calls\<close>

text \<open>The answer of a call is the first message with its identifier, whatever else arrives.\<close>

lemma rpc_answer_is_own:
  "fold (\<lambda>m future. on_response i future m) ms None = map_option am_body (find (\<lambda>m. am_correlation m = Some i) ms)"
proof -
  have "fold (\<lambda>m future. on_response i future m) ms (Some x) = Some x" for x
    by (induction ms) (simp_all add: on_response_def)
  then show ?thesis by (induction ms) (auto simp: on_response_def)
qed

text \<open>
  The consumer of the answer is cancelled after the wait.  When the request cannot be published, it
  is never cancelled: the call ends in the world the failed publication left.
\<close>

lemma rpc_cancels_after_wait:
  assumes "rb_consume_channel b = Some ch" "rb_publish_channel b = Some pc"
    "aq_declare lib ch None [] w = (Inr cb, w1)" "aq_uuid lib w1 = (Inr i, w2)" "aq_consume lib cb w2 = (Inr tag, w3)"
  shows "rpc_call lib queue body (b, w) =
    (case aq_publish lib pc \<lparr>am_body = body, am_persistent = True, am_correlation = Some i, am_reply_to = Some cb\<rparr> queue w3 of
       (Inl e, w4) \<Rightarrow> (Inl e, (b, w4))
     | (Inr _, w4) \<Rightarrow> finallyA (outside (aq_wait lib i)) (outside (aq_cancel lib (cb, tag))) (b, w4))"
  using assms
  by (simp add: rpc_call_def active_def reading_def outside_def bindA_def split: prod.split sum.split)

subsection \<open>A takeover over the queue\<close>

text \<open>
  The port of the takeover, whose writes are published by the client: \<open>send_message\<close> with the text
  and the expiration.  Reading the metadata, the image and the counter stay those of a given port.
\<close>

definition published_port :: "'w wa_client \<Rightarrow> (rabbit \<times> 'w) colony_port \<Rightarrow> (rabbit \<times> 'w) colony_port" where
  "published_port c port = \<lparr>
     cp_metadata = cp_metadata port,
     cp_update = wa_participants_update c,
     cp_subject = wa_subject c,
     cp_send = (\<lambda>jid t expiration. wa_send_message c jid [(U ''text'', JStr t)]
        (map_option (\<lambda>n. [(U ''ephemeralExpiration'', JNum (of_nat n))]) expiration)),
     cp_description = wa_description c,
     cp_picture = wa_profile_picture c,
     cp_image = cp_image port,
     cp_count = cp_count port\<rparr>"

text \<open>A library that records what is published, and refuses some of the publications.\<close>

definition recording_lib :: "(nat \<Rightarrow> bool) \<Rightarrow> ((pystr \<times> bytes) list) amqp" where
  "recording_lib refused = \<lparr>aq_connect = (\<lambda>_. ret 1), aq_channel = (\<lambda>_ _. ret 2), aq_qos = (\<lambda>_ _. ret ()),
     aq_declare = (\<lambda>_ q _. ret (case q of None \<Rightarrow> [] | Some n \<Rightarrow> n)),
     aq_publish = (\<lambda>_ m q w. if refused (length w) then (Inl (OtherExn (U ''DeliveryError'')), w) else (Inr (), w @ [(q, am_body m)])),
     aq_consume = (\<lambda>_. ret []), aq_cancel = (\<lambda>_. ret ()), aq_uuid = ret [], aq_wait = (\<lambda>_. ret []),
     aq_idle = ret True, aq_is_error = (\<lambda>_. False), aq_close = (\<lambda>_. ret ())\<rparr>"

definition takeover_bodies :: "(json \<Rightarrow> bytes) \<Rightarrow> pystr \<Rightarrow> pystr \<Rightarrow> pystr \<Rightarrow> group_info \<Rightarrow> int \<Rightarrow> bytes \<Rightarrow> (pystr \<times> bytes) list" where
  "takeover_bodies dumps me resenha grp g n picture =
     map (\<lambda>(call, data). (ACTIONS_QUEUE, dumps (wa_request call data)))
       [(U ''group_participants_update'', [(U ''jid'', JStr grp), (U ''participants'', JArr (map JStr (map em_id (other_admins me g)))),
           (U ''action'', JStr (U ''demote''))]),
        (U ''group_update_subject'', [(U ''jid'', JStr grp), (U ''subject'', JStr (colony_subject n))]),
        (U ''send_message'', [(U ''jid'', JStr resenha),
           (U ''content'', JObj [(U ''text'', JStr (U ''Col{244}nia obtida!{10}{10}*'' @ gi_subject g @ U ''{10}*'' @ gi_desc g))]),
           (U ''options'', JObj [(U ''ephemeralExpiration'', JNum (of_nat NOTIFICATION_EXPIRATION))])]),
        (U ''group_update_description'', [(U ''jid'', JStr grp), (U ''description'', JStr COLONY_DESCRIPTION)]),
        (U ''update_profile_picture'', [(U ''jid'', JStr grp), (U ''image'', JStr (b64encode picture))])]"

lemma wa_publish_recording:
  assumes "rb_publish_channel b = Some ch" "wc_lib c = recording_lib refused"
  shows "wa_publish c call data (b, w) =
    (if refused (length w) then (Inl (OtherExn (U ''DeliveryError'')), (b, w))
     else (Inr (), (b, w @ [(ACTIONS_QUEUE, wc_dumps c (wa_request call data))])))"
  using assms
  by (simp add: wa_publish_def publish_def active_def reading_def outside_def bindA_def recording_lib_def)

text \<open>
  What a takeover leaves on the queue.  With a group whose other administrators are not its
  owner, a takeover publishes on the queue of actions a beginning of these five, in this order: the
  demotion, the subject, the notification, the description, the picture.  The first publication that
  is refused is where they end.
\<close>

theorem takeover_actions_in_order:
  assumes "rb_publish_channel b = Some ch"
    and "\<not> list_ex (\<lambda>p. phone_number p = gi_owner g) (other_admins me g)"
    and "cp_metadata port = (\<lambda>_. ret g)" "cp_count port = (\<lambda>_. ret n)" "cp_image port = ret picture"
    and "wc_lib c = recording_lib refused"
  shows "snd (snd (steal (published_port c port) me resenha grp (b, []))) =
    take (length (takeWhile (\<lambda>i. \<not> refused i) [0..<5])) (takeover_bodies (wc_dumps c) me resenha grp g n picture)"
proof -
  note pub = wa_publish_recording [OF assms(1,6)]
  show ?thesis
    using assms(2-5)
    by (cases "refused 0"; cases "refused 1"; cases "refused 2"; cases "refused 3"; cases "refused 4")
      (simp_all add: steal_def published_port_def Let_def bindA_def pub wa_participants_update_def wa_subject_def
        wa_send_message_def wa_description_def wa_profile_picture_def takeover_bodies_def numeral_eq_Suc)
qed

definition one_admin :: group_info where
  "one_admin = \<lparr>gi_participants = [\<lparr>em_id = U ''a'', em_phone = None, em_admin = Some (U ''admin'')\<rparr>], gi_owner = U ''o'',
     gi_subject = [], gi_desc = []\<rparr>"

definition recording_client :: "(nat \<Rightarrow> bool) \<Rightarrow> (pystr \<times> bytes) list wa_client" where
  "recording_client refused = \<lparr>wc_lib = recording_lib refused, wc_dumps = (\<lambda>_. [0]), wc_loads = (\<lambda>_. Inr JNull), wc_deadline = (\<lambda>m. m)\<rparr>"

definition reading_port :: "(rabbit \<times> (pystr \<times> bytes) list) colony_port" where
  "reading_port = \<lparr>cp_metadata = (\<lambda>_. ret one_admin), cp_update = (\<lambda>_ _ _. ret ()), cp_subject = (\<lambda>_ _. ret ()),
     cp_send = (\<lambda>_ _ _. ret ()), cp_description = (\<lambda>_ _. ret ()), cp_picture = (\<lambda>_ _. ret ()), cp_image = ret [], cp_count = (\<lambda>_. ret 4)\<rparr>"

text \<open>The third publication is refused.\<close>

theorem takeover_actions_in_order_witness:
  "snd (snd (steal (published_port (recording_client (\<lambda>i. i = 2)) reading_port) (U ''me'') [] [] (new_rabbit\<lparr>rb_publish_channel := Some 2\<rparr>, []))) =
    take (length (takeWhile (\<lambda>i. \<not> i = (2 :: nat)) [0..<5])) (takeover_bodies (wc_dumps (recording_client (\<lambda>i. i = 2))) (U ''me'') [] [] one_admin 4 [])"
proof (rule takeover_actions_in_order)
  show "\<not> list_ex (\<lambda>p. phone_number p = gi_owner one_admin) (other_admins (U ''me'') one_admin)" by code_simp
qed (simp_all add: reading_port_def recording_client_def)

end
