(* ===== verification/Scores.thy ===== *)
theory Scores
  imports Commands Birthdays "HOL-Library.Multiset" "HOL-Library.Product_Lexorder"
begin

text \<open>
  Football results: what \<open>placar\<close> shows (bot/domain/commands/score.py, bot/domain/services/score_formatter.py,
  bot/data/number_emoji.py, football_league_priority.py, espn_leagues.py) and what \<open>tabela\<close> shows
  (bot/domain/commands/football_standings.py, bot/data/football_zones.py), with the part of
  bot/domain/services/espn.py that reads a league, orders a table and survives a league that fails.
  The JSON of an event is a record of the keys the code reads.
\<close>

subsection \<open>Matches\<close>

datatype match_status = NOT_STARTED | LIVE | FINISHED | POSTPONED | HALF_TIME

record live_match =
  lm_competition_code :: pystr
  lm_competition_name :: pystr
  lm_country :: pystr
  lm_country_flag :: pystr
  lm_home_team :: pystr
  lm_away_team :: pystr
  lm_home_score :: "int option"
  lm_away_score :: "int option"
  lm_match_time :: pystr
  lm_status :: match_status
  lm_match_id :: pystr
  lm_round :: "pystr option"
  lm_source_date :: pystr

definition MAX_EMOJI_SCORE :: int where "MAX_EMOJI_SCORE = 10"

definition NUMBER_EMOJI :: "(int \<times> pystr) list" where
  "NUMBER_EMOJI =
     [(0, U ''0{65039}{8419}''), (1, U ''1{65039}{8419}''), (2, U ''2{65039}{8419}''), (3, U ''3{65039}{8419}''), 
      (4, U ''4{65039}{8419}''), (5, U ''5{65039}{8419}''), (6, U ''6{65039}{8419}''), (7, U ''7{65039}{8419}''), 
      (8, U ''8{65039}{8419}''), (9, U ''9{65039}{8419}''), (10, U ''{128287}'')]"

definition score_emoji :: "int option \<Rightarrow> pystr" where
  "score_emoji score =
     (case score of
        None \<Rightarrow> [45]
      | Some n \<Rightarrow> if MAX_EMOJI_SCORE < n then show_int n
          else if n = MAX_EMOJI_SCORE then U ''{128287}''
          else (case map_of NUMBER_EMOJI n of None \<Rightarrow> show_int n | Some e \<Rightarrow> e))"

definition format_match_time :: "pystr \<Rightarrow> match_status \<Rightarrow> pystr" where
  "format_match_time t status = (if status = LIVE then U ''{9201}{65039} '' @ t else U ''{128336} '' @ t)"

subsection \<open>Times\<close>

text \<open>The clock of Brasilia: a day, and the microseconds since its midnight.\<close>

record clock_time =
  now_date :: date
  now_micros :: int

definition MICROS_PER_SECOND :: int where "MICROS_PER_SECOND = 1000000"
definition MICROS_PER_DAY :: int where "MICROS_PER_DAY = 24 * 3600 * MICROS_PER_SECOND"

text \<open>\<open>int\<close> of a text: spaces around it, a sign, digits with single underscores between them.\<close>

fun underscores_ok :: "pystr \<Rightarrow> bool" where
  "underscores_ok [] = True"
| "underscores_ok [c] = (c \<noteq> 95)"
| "underscores_ok (c # d # cs) = (\<not> (c = 95 \<and> d = 95) \<and> underscores_ok (d # cs))"

definition unsigned_int :: "pystr \<Rightarrow> int option" where
  "unsigned_int s =
     (if s = [] \<or> hd s = 95 \<or> \<not> underscores_ok s then None
      else map_option int (py_int (filter (\<lambda>c. c \<noteq> 95) s)))"

definition int_of_text :: "pystr \<Rightarrow> int option" where
  "int_of_text s =
     (case strip s of
        [] \<Rightarrow> None
      | c # cs \<Rightarrow> if c = 45 then map_option uminus (unsigned_int cs)
          else if c = 43 then unsigned_int cs else unsigned_int (c # cs))"

text \<open>\<open>hour, minute = match_time.split(':')\<close> and \<open>int\<close> of both: \<open>None\<close> is the \<open>ValueError\<close>.\<close>

definition hour_minute :: "pystr \<Rightarrow> (int \<times> int) option" where
  "hour_minute t =
     (case split_on 58 t of
        [h, m] \<Rightarrow> (case (int_of_text h, int_of_text m) of (Some h, Some m) \<Rightarrow> Some (h, m) | _ \<Rightarrow> None)
      | _ \<Rightarrow> None)"

text \<open>\<open>now.replace(hour=..., minute=..., second=0)\<close>: the day stays, and the microsecond too.\<close>

definition at_hour :: "clock_time \<Rightarrow> int \<Rightarrow> int \<Rightarrow> clock_time option" where
  "at_hour now h m =
     (if 0 \<le> h \<and> h < 24 \<and> 0 \<le> m \<and> m < 60
      then Some (now\<lparr>now_micros := (h * 3600 + m * 60) * MICROS_PER_SECOND + now_micros now mod MICROS_PER_SECOND\<rparr>)
      else None)"

definition next_day :: "date \<Rightarrow> date" where
  "next_day t =
     (if dt_day t < days_in_month (dt_year t) (dt_month t) then Date (dt_year t) (dt_month t) (dt_day t + 1)
      else if dt_month t < 12 then Date (dt_year t) (dt_month t + 1) 1
      else Date (dt_year t + 1) 1 1)"

definition format_date_label :: "clock_time \<Rightarrow> date \<Rightarrow> pystr \<Rightarrow> pystr" where
  "format_date_label now today t =
     (case hour_minute t of
        None \<Rightarrow> []
      | Some (h, m) \<Rightarrow>
          (case at_hour now h m of
             None \<Rightarrow> []
           | Some match_dt \<Rightarrow>
               let match_date = now_date match_dt in
               if match_date = today then U ''Hoje''
               else if match_date = next_day today then U ''Amanh{227}''
               else zfill 2 (dt_day match_date) @ [47] @ zfill 2 (dt_month match_date)))"

definition value_error :: exn where "value_error = OtherExn (U ''ValueError'')"

definition is_within_upcoming_window :: "clock_time \<Rightarrow> pystr \<Rightarrow> int \<Rightarrow> exn + bool" where
  "is_within_upcoming_window now t window_hours =
     (if t = [] \<or> 58 \<notin> set t then Inr False
      else case hour_minute t of
             None \<Rightarrow> Inr False
           | Some (h, m) \<Rightarrow>
               (case at_hour now h m of
                  None \<Rightarrow> Inl value_error
                | Some match_dt \<Rightarrow>
                    let M = now_micros match_dt;
                        M' = (if M < now_micros now then M + MICROS_PER_DAY else M)
                    in Inr (M' - now_micros now \<le> window_hours * 3600 * MICROS_PER_SECOND)))"

subsection \<open>Rows and sections\<close>

definition format_live_row :: "live_match \<Rightarrow> pystr" where
  "format_live_row m =
     [95] @ lm_home_team m @ U ''_ '' @ score_emoji (lm_home_score m) @ U '' x '' @ score_emoji (lm_away_score m) @ U '' _'' @
     lm_away_team m @ U ''_{10}'' @ format_match_time (lm_match_time m) (lm_status m)"

definition format_upcoming_row :: "clock_time \<Rightarrow> live_match \<Rightarrow> pystr" where
  "format_upcoming_row now m =
     (let label = format_date_label now (now_date now) (lm_match_time m) in
      [95] @ lm_home_team m @ U ''_ - x - _'' @ lm_away_team m @ U ''_{10}'' @
      (if label = [] then [] else label @ [32]) @ format_match_time (lm_match_time m) (lm_status m))"

definition format_finished_row :: "live_match \<Rightarrow> pystr" where
  "format_finished_row m =
     [95] @ lm_home_team m @ U ''_ '' @ score_emoji (lm_home_score m) @ U '' x '' @ score_emoji (lm_away_score m) @ U '' _'' @
     lm_away_team m @ [95]"

definition DEFAULT_PRIORITY :: nat where "DEFAULT_PRIORITY = 99"

definition LEAGUE_PRIORITY :: "(pystr \<times> nat) list" where
  "LEAGUE_PRIORITY =
     [(U ''bra.1'', 0), (U ''bra.copa_do_brazil'', 1), (U ''conmebol.libertadores'', 1), (U ''uefa.champions'', 1), 
      (U ''eng.1'', 1), (U ''esp.1'', 1), (U ''ita.1'', 1), (U ''ger.1'', 1), (U ''fra.1'', 1), (U ''conmebol.sudamericana'', 2), 
      (U ''uefa.europa'', 2), (U ''arg.1'', 2), (U ''por.1'', 2), (U ''ned.1'', 2), (U ''usa.1'', 3), 
      (U ''mex.1'', 3), (U ''bra.2'', 5)]"

definition league_priority :: "pystr \<Rightarrow> nat" where
  "league_priority code = (case map_of LEAGUE_PRIORITY code of None \<Rightarrow> DEFAULT_PRIORITY | Some p \<Rightarrow> p)"

definition group_by_competition :: "live_match list \<Rightarrow> live_match list list" where
  "group_by_competition ms = map snd (fold (\<lambda>m. append_under (lm_competition_name m) m) ms [])"

definition group_key :: "live_match list \<Rightarrow> nat \<times> pystr" where
  "group_key g = (league_priority (lm_competition_code (hd g)), lm_competition_name (hd g))"

fun pick_groups :: "nat \<Rightarrow> live_match list \<Rightarrow> live_match list list \<Rightarrow> live_match list" where
  "pick_groups soft_cap picked [] = picked"
| "pick_groups soft_cap picked (g # gs) =
     (if soft_cap \<le> length picked then picked else pick_groups soft_cap (picked @ g) gs)"

definition apply_soft_cap :: "live_match list \<Rightarrow> nat \<Rightarrow> live_match list" where
  "apply_soft_cap ms soft_cap = pick_groups soft_cap [] (sort_key group_key (group_by_competition ms))"

definition build_section :: "pystr \<Rightarrow> live_match list \<Rightarrow> (live_match \<Rightarrow> pystr) \<Rightarrow> pystr list" where
  "build_section title ms row =
     title # concat (map (\<lambda>g. (lm_country_flag (hd g) @ U '' *'' @ lm_competition_name (hd g) @ [42]) # map row g @ [[]])
       (sort_key group_key (group_by_competition ms)))"

subsection \<open>The command placar\<close>

definition SCOREBOARD_LEAGUES :: "(pystr \<times> pystr \<times> pystr) list" where
  "SCOREBOARD_LEAGUES =
     [(U ''bra.1'', U ''Brasileir{227}o'', U ''{127463}{127479}''),
      (U ''bra.copa_do_brazil'', U ''Copa do Brasil'', U ''{127463}{127479}''),
      (U ''conmebol.libertadores'', U ''Libertadores'', U ''{127758}''),
      (U ''uefa.champions'', U ''Champions League'', U ''{127466}{127482}''),
      (U ''eng.1'', U ''Premier League'', U ''{127988}{917607}{917602}{917605}{917614}{917607}{917631}''),
      (U ''esp.1'', U ''La Liga'', U ''{127466}{127480}''),
      (U ''ita.1'', U ''Serie A'', U ''{127470}{127481}''),
      (U ''ger.1'', U ''Bundesliga'', U ''{127465}{127466}''),
      (U ''fra.1'', U ''Ligue 1'', U ''{127467}{127479}''),
      (U ''conmebol.sudamericana'', U ''Sul-Americana'', U ''{127758}''),
      (U ''uefa.europa'', U ''Europa League'', U ''{127466}{127482}''),
      (U ''arg.1'', U ''Liga Profesional'', U ''{127462}{127479}''),
      (U ''por.1'', U ''Primeira Liga'', U ''{127477}{127481}''),
      (U ''ned.1'', U ''Eredivisie'', U ''{127475}{127473}''),
      (U ''usa.1'', U ''MLS'', U ''{127482}{127480}''),
      (U ''mex.1'', U ''Liga MX'', U ''{127474}{127485}''),
      (U ''bra.2'', U ''S{233}rie B'', U ''{127463}{127479}'')]"

text \<open>
  \<open>_scoreboard_payload\<close>: the request and the body read as JSON, where \<open>None\<close> is a success without
  JSON; it is asked for twice.  The message of the error is left out.
\<close>

definition NON_JSON_ATTEMPTS :: nat where "NON_JSON_ATTEMPTS = 2"

fun scoreboard_payload :: "nat \<Rightarrow> (exn, 'w, 'j option) act \<Rightarrow> (exn, 'w, unit) act \<Rightarrow> (exn, 'w, 'j) act" where
  "scoreboard_payload 0 get pause = raise (Raised ExternalServiceError [])"
| "scoreboard_payload (Suc n) get pause =
     bindA get (\<lambda>r. case r of Some j \<Rightarrow> ret j | None \<Rightarrow> bindA pause (\<lambda>_. scoreboard_payload n get pause))"

text \<open>
  An event of the payload, with the keys the code reads.  \<open>br_hour\<close> gives the hour and minute of an
  ISO time in Brasilia, or nothing where \<open>fromisoformat\<close> raises \<open>ValueError\<close>.
\<close>

record espn_side =
  sd_home_away :: pystr
  sd_short_name :: pystr
  sd_score :: pystr

record espn_status =
  es_name :: pystr
  es_state :: pystr
  es_clock :: pystr

record espn_competition =
  ec_competitors :: "espn_side list"
  ec_status :: espn_status

record espn_event =
  ev_id :: pystr
  ev_date :: pystr
  ev_competitions :: "espn_competition list"

definition ESPN_STATES :: "(pystr \<times> match_status) list" where
  "ESPN_STATES = [(U ''pre'', NOT_STARTED), (U ''in'', LIVE), (U ''post'', FINISHED)]"

definition ESPN_POSTPONED :: pystr where "ESPN_POSTPONED = U ''STATUS_POSTPONED''"
definition ESPN_HALFTIME :: pystr where "ESPN_HALFTIME = U ''STATUS_HALFTIME''"
definition HALFTIME_LABEL :: pystr where "HALFTIME_LABEL = U ''Intervalo''"

definition key_error :: exn where "key_error = OtherExn (U ''KeyError'')"

definition event_status :: "espn_status \<Rightarrow> exn + match_status" where
  "event_status st =
     (if es_name st = ESPN_POSTPONED then Inr POSTPONED
      else case map_of ESPN_STATES (es_state st) of None \<Rightarrow> Inl key_error | Some m \<Rightarrow> Inr m)"

definition event_time :: "(pystr \<Rightarrow> pystr option) \<Rightarrow> pystr \<Rightarrow> espn_status \<Rightarrow> match_status \<Rightarrow> exn + pystr" where
  "event_time br_hour kickoff st ms =
     (if ms = FINISHED then Inr []
      else if ms \<noteq> LIVE then (case br_hour kickoff of None \<Rightarrow> Inl value_error | Some t \<Rightarrow> Inr t)
      else if es_name st = ESPN_HALFTIME then Inr HALFTIME_LABEL
      else Inr (es_clock st))"

definition event_score :: "bool \<Rightarrow> espn_side \<Rightarrow> exn + int option" where
  "event_score started side =
     (if \<not> started then Inr None
      else case int_of_text (sd_score side) of None \<Rightarrow> Inl value_error | Some n \<Rightarrow> Inr (Some n))"

definition parse_event :: "(pystr \<Rightarrow> pystr option) \<Rightarrow> pystr \<times> pystr \<times> pystr \<Rightarrow> espn_event \<Rightarrow> exn + live_match" where
  "parse_event br_hour league ev =
     (case ev_competitions ev of [] \<Rightarrow> Inl (OtherExn (U ''IndexError'')) | c # _ \<Rightarrow>
      (let sides = map_of (rev (map (\<lambda>s. (sd_home_away s, s)) (ec_competitors c))) in
       case event_status (ec_status c) of Inl e \<Rightarrow> Inl e | Inr ms \<Rightarrow>
       (case (sides (U ''home''), sides (U ''away'')) of
          (Some h, Some a) \<Rightarrow>
            (let started = (ms = LIVE \<or> ms = FINISHED) in
             case event_score started h of Inl e \<Rightarrow> Inl e | Inr hs \<Rightarrow>
             (case event_score started a of Inl e \<Rightarrow> Inl e | Inr as \<Rightarrow>
              (case event_time br_hour (ev_date ev) (ec_status c) ms of Inl e \<Rightarrow> Inl e | Inr t \<Rightarrow>
                 Inr \<lparr>lm_competition_code = fst league, lm_competition_name = fst (snd league), lm_country = [],
                      lm_country_flag = snd (snd league), lm_home_team = sd_short_name h, lm_away_team = sd_short_name a,
                      lm_home_score = hs, lm_away_score = as, lm_match_time = t, lm_status = ms, lm_match_id = ev_id ev,
                      lm_round = None, lm_source_date = []\<rparr>)))
        | _ \<Rightarrow> Inl key_error)))"

fun parse_events :: "(pystr \<Rightarrow> pystr option) \<Rightarrow> pystr \<times> pystr \<times> pystr \<Rightarrow> espn_event list \<Rightarrow> exn + live_match list" where
  "parse_events br_hour league [] = Inr []"
| "parse_events br_hour league (ev # evs) =
     (case parse_event br_hour league ev of Inl e \<Rightarrow> Inl e | Inr m \<Rightarrow> map_sum id (\<lambda>ms. m # ms) (parse_events br_hour league evs))"

text \<open>The requests: the events of a league by its slug, the pause between two requests, and the clock.\<close>

record 'w score_port =
  sc_events :: "pystr \<Rightarrow> (exn, 'w, espn_event list option) act"
  sc_pause :: "(exn, 'w, unit) act"
  sc_clock :: "(exn, 'w, clock_time) act"
  sc_br_hour :: "pystr \<Rightarrow> pystr option"

definition fetch_league_scoreboard :: "'w score_port \<Rightarrow> pystr \<times> pystr \<times> pystr \<Rightarrow> (exn, 'w, live_match list) act" where
  "fetch_league_scoreboard port league =
     bindA (scoreboard_payload NON_JSON_ATTEMPTS (sc_events port (fst league)) (sc_pause port))
       (\<lambda>evs. case parse_events (sc_br_hour port) league evs of Inl e \<Rightarrow> raise e | Inr ms \<Rightarrow> ret ms)"

text \<open>\<open>fetch_scoreboard\<close>: a league that fails, with whatever exception, is left out.\<close>

definition fetch_scoreboard :: "'w score_port \<Rightarrow> (exn, 'w, live_match list) act" where
  "fetch_scoreboard port =
     bindA (mapA (\<lambda>league. handleA (fetch_league_scoreboard port league) (\<lambda>_. ret [])) SCOREBOARD_LEAGUES) (\<lambda>batches. ret (concat batches))"

definition UPCOMING_WINDOW_HOURS :: int where "UPCOMING_WINDOW_HOURS = 6"
definition SECTION_SOFT_CAP :: nat where "SECTION_SOFT_CAP = 7"

definition resolve_flags :: "parsed_command \<Rightarrow> bool \<times> bool \<times> bool" where
  "resolve_flags p =
     (let past = U ''past'' \<in> pc_flags p; now = U ''now'' \<in> pc_flags p; nxt = U ''next'' \<in> pc_flags p in
      if \<not> past \<and> \<not> now \<and> \<not> nxt then (True, True, True) else (past, now, nxt))"

fun upcoming_matches :: "clock_time \<Rightarrow> live_match list \<Rightarrow> exn + live_match list" where
  "upcoming_matches now [] = Inr []"
| "upcoming_matches now (m # ms) =
     (if lm_status m \<noteq> NOT_STARTED then upcoming_matches now ms
      else case is_within_upcoming_window now (lm_match_time m) UPCOMING_WINDOW_HOURS of
             Inl e \<Rightarrow> Inl e
           | Inr b \<Rightarrow> map_sum id (\<lambda>ms. if b then m # ms else ms) (upcoming_matches now ms))"

definition build_sections :: "clock_time \<Rightarrow> live_match list \<Rightarrow> live_match list \<Rightarrow> live_match list \<Rightarrow> pystr list" where
  "build_sections now live soon finished =
     (if live = [] then [] else build_section (U ''{128293} *Ao Vivo*{10}'') live format_live_row) @
     (if soon = [] then [] else build_section (U ''{128197} *Pr{243}ximos Jogos*{10}'') soon (format_upcoming_row now)) @
     (if finished = [] then [] else build_section (U ''{9989} *Encerrados*{10}'') finished format_finished_row)"

definition score_reply :: "clock_time \<Rightarrow> command_data \<Rightarrow> parsed_command \<Rightarrow> live_match list \<Rightarrow> exn + bot_message list" where
  "score_reply now d parsed ms =
     (let (past, current, nxt) = resolve_flags parsed;
          live = (if current then filter (\<lambda>m. lm_status m = LIVE) ms else []);
          finished = (if past then filter (\<lambda>m. lm_status m = FINISHED) ms else [])
      in map_sum id
           (\<lambda>soon.
              let cap = (\<lambda>xs. apply_soft_cap xs SECTION_SOFT_CAP) in
              if cap live = [] \<and> cap soon = [] \<and> cap finished = []
              then [reply_text d (U ''Nenhum jogo ao vivo agora. {10024}'')]
              else [(reply_text d (join [10] (build_sections now (cap live) (cap soon) (cap finished))))
                      \<lparr>bm_quoted_message_id := cd_quoted_message_id d\<rparr>])
           (if nxt then upcoming_matches now ms else Inr []))"

text \<open>The clock is read once for the command, where the code reads it for every match.\<close>

definition score_execute :: "'w score_port \<Rightarrow> 'w exec" where
  "score_execute port = (\<lambda>d parsed.
     bindA (fetch_scoreboard port)
       (\<lambda>ms. bindA (sc_clock port) (\<lambda>now. case score_reply now d parsed ms of Inl e \<Rightarrow> raise e | Inr r \<Rightarrow> ret r)))"

subsection \<open>The command tabela\<close>

record standing_row =
  sr_rank :: int
  sr_team :: pystr
  sr_matches :: int
  sr_wins :: int
  sr_draws :: int
  sr_losses :: int
  sr_goals_for :: int
  sr_goals_against :: int
  sr_goal_diff :: int
  sr_points :: int

record zone =
  zn_name :: pystr
  zn_start :: int
  zn_end :: int
  zn_emoji :: pystr

definition LEAGUE_ZONES :: "(pystr \<times> zone list) list" where
  "LEAGUE_ZONES =
     [(U ''pl'', [\<lparr>zn_name = U ''Champions League'', zn_start = 1, zn_end = 4, zn_emoji = U ''{128994}''\<rparr>,
        \<lparr>zn_name = U ''Europa League'', zn_start = 5, zn_end = 5, zn_emoji = U ''{128993}''\<rparr>,
        \<lparr>zn_name = U ''Conference League'', zn_start = 6, zn_end = 6, zn_emoji = U ''{128992}''\<rparr>,
        \<lparr>zn_name = U ''Rebaixamento'', zn_start = 18, zn_end = 20, zn_emoji = U ''{128308}''\<rparr>]),
      (U ''la'', [\<lparr>zn_name = U ''Champions League'', zn_start = 1, zn_end = 4, zn_emoji = U ''{128994}''\<rparr>,
        \<lparr>zn_name = U ''Europa League'', zn_start = 5, zn_end = 6, zn_emoji = U ''{128993}''\<rparr>,
        \<lparr>zn_name = U ''Conference League'', zn_start = 7, zn_end = 7, zn_emoji = U ''{128992}''\<rparr>,
        \<lparr>zn_name = U ''Rebaixamento'', zn_start = 18, zn_end = 20, zn_emoji = U ''{128308}''\<rparr>]),
      (U ''bl'', [\<lparr>zn_name = U ''Champions League'', zn_start = 1, zn_end = 4, zn_emoji = U ''{128994}''\<rparr>,
        \<lparr>zn_name = U ''Europa League'', zn_start = 5, zn_end = 6, zn_emoji = U ''{128993}''\<rparr>,
        \<lparr>zn_name = U ''Conference League'', zn_start = 7, zn_end = 7, zn_emoji = U ''{128992}''\<rparr>,
        \<lparr>zn_name = U ''Rebaixamento'', zn_start = 16, zn_end = 18, zn_emoji = U ''{128308}''\<rparr>]),
      (U ''sa'', [\<lparr>zn_name = U ''Champions League'', zn_start = 1, zn_end = 4, zn_emoji = U ''{128994}''\<rparr>,
        \<lparr>zn_name = U ''Europa League'', zn_start = 5, zn_end = 6, zn_emoji = U ''{128993}''\<rparr>,
        \<lparr>zn_name = U ''Conference League'', zn_start = 7, zn_end = 7, zn_emoji = U ''{128992}''\<rparr>,
        \<lparr>zn_name = U ''Rebaixamento'', zn_start = 18, zn_end = 20, zn_emoji = U ''{128308}''\<rparr>]),
      (U ''l1'', [\<lparr>zn_name = U ''Champions League'', zn_start = 1, zn_end = 3, zn_emoji = U ''{128994}''\<rparr>,
        \<lparr>zn_name = U ''Champions League Playoff'', zn_start = 4, zn_end = 4, zn_emoji = U ''{128993}''\<rparr>,
        \<lparr>zn_name = U ''Europa League'', zn_start = 5, zn_end = 5, zn_emoji = U ''{128993}''\<rparr>,
        \<lparr>zn_name = U ''Conference League'', zn_start = 6, zn_end = 6, zn_emoji = U ''{128992}''\<rparr>,
        \<lparr>zn_name = U ''Rebaixamento'', zn_start = 15, zn_end = 18, zn_emoji = U ''{128308}''\<rparr>]),
      (U ''br'', [\<lparr>zn_name = U ''Libertadores'', zn_start = 1, zn_end = 6, zn_emoji = U ''{128994}''\<rparr>,
        \<lparr>zn_name = U ''Sul-Americana'', zn_start = 7, zn_end = 12, zn_emoji = U ''{128993}''\<rparr>,
        \<lparr>zn_name = U ''Rebaixamento'', zn_start = 17, zn_end = 20, zn_emoji = U ''{128308}''\<rparr>]),
      (U ''ar'', [\<lparr>zn_name = U ''Libertadores'', zn_start = 1, zn_end = 6, zn_emoji = U ''{128994}''\<rparr>,
        \<lparr>zn_name = U ''Sul-Americana'', zn_start = 7, zn_end = 12, zn_emoji = U ''{128993}''\<rparr>,
        \<lparr>zn_name = U ''Rebaixamento'', zn_start = 29, zn_end = 30, zn_emoji = U ''{128308}''\<rparr>]),
      (U ''uy'', [\<lparr>zn_name = U ''Libertadores'', zn_start = 1, zn_end = 4, zn_emoji = U ''{128994}''\<rparr>,
        \<lparr>zn_name = U ''Sul-Americana'', zn_start = 5, zn_end = 8, zn_emoji = U ''{128993}''\<rparr>,
        \<lparr>zn_name = U ''Rebaixamento'', zn_start = 13, zn_end = 16, zn_emoji = U ''{128308}''\<rparr>]),
      (U ''ec'', [\<lparr>zn_name = U ''Libertadores'', zn_start = 1, zn_end = 4, zn_emoji = U ''{128994}''\<rparr>,
        \<lparr>zn_name = U ''Sul-Americana'', zn_start = 5, zn_end = 8, zn_emoji = U ''{128993}''\<rparr>,
        \<lparr>zn_name = U ''Rebaixamento'', zn_start = 14, zn_end = 16, zn_emoji = U ''{128308}''\<rparr>]),
      (U ''co'', [\<lparr>zn_name = U ''Libertadores'', zn_start = 1, zn_end = 4, zn_emoji = U ''{128994}''\<rparr>,
        \<lparr>zn_name = U ''Sul-Americana'', zn_start = 5, zn_end = 8, zn_emoji = U ''{128993}''\<rparr>,
        \<lparr>zn_name = U ''Rebaixamento'', zn_start = 19, zn_end = 20, zn_emoji = U ''{128308}''\<rparr>])]"

definition MEDAL_EMOJIS :: "(int \<times> pystr) list" where
  "MEDAL_EMOJIS = [(1, U ''{129351}''), (2, U ''{129352}''), (3, U ''{129353}'')]"

definition DEFAULT_ZONE_EMOJI :: pystr where "DEFAULT_ZONE_EMOJI = U ''{9898}''"

text \<open>
  An entry of the service: the team, and the statistics with a value, by name; a later one of the same
  name wins, and a name that is missing raises \<open>KeyError\<close>.  \<open>int\<close> cuts towards zero.
\<close>

definition truncate :: "rat \<Rightarrow> int" where
  "truncate q = (if q < 0 then - \<lfloor>- q\<rfloor> else \<lfloor>q\<rfloor>)"

definition stat_of :: "(pystr \<times> rat) list \<Rightarrow> pystr \<Rightarrow> exn + int" where
  "stat_of stats name =
     (case map_of (rev stats) name of None \<Rightarrow> Inl key_error | Some q \<Rightarrow> Inr (truncate q))"

fun stats_of :: "(pystr \<times> rat) list \<Rightarrow> pystr list \<Rightarrow> exn + int list" where
  "stats_of stats [] = Inr []"
| "stats_of stats (n # ns) =
     (case stat_of stats n of Inl e \<Rightarrow> Inl e | Inr i \<Rightarrow> map_sum id (\<lambda>is. i # is) (stats_of stats ns))"

definition STAT_NAMES :: "pystr list" where
  "STAT_NAMES = [U ''rank'', U ''gamesPlayed'', U ''wins'', U ''ties'', U ''losses'', U ''pointsFor'', U ''pointsAgainst'',
     U ''pointDifferential'', U ''points'']"

definition parse_row :: "pystr \<times> (pystr \<times> rat) list \<Rightarrow> exn + standing_row" where
  "parse_row entry =
     map_sum id
       (\<lambda>is. \<lparr>sr_rank = is ! 0, sr_team = fst entry, sr_matches = is ! 1, sr_wins = is ! 2, sr_draws = is ! 3, sr_losses = is ! 4,
          sr_goals_for = is ! 5, sr_goals_against = is ! 6, sr_goal_diff = is ! 7, sr_points = is ! 8\<rparr>)
       (stats_of (snd entry) STAT_NAMES)"

fun parse_rows :: "(pystr \<times> (pystr \<times> rat) list) list \<Rightarrow> exn + standing_row list" where
  "parse_rows [] = Inr []"
| "parse_rows (entry # entries) =
     (case parse_row entry of Inl e \<Rightarrow> Inl e | Inr r \<Rightarrow> map_sum id (\<lambda>rs. r # rs) (parse_rows entries))"

definition table_key :: "standing_row \<Rightarrow> int \<times> int \<times> int" where
  "table_key r = (- sr_points r, - sr_goal_diff r, - sr_goals_for r)"

definition merge_groups :: "standing_row list \<Rightarrow> standing_row list" where
  "merge_groups rows =
     map (\<lambda>(position, r). r\<lparr>sr_rank := int position\<rparr>) (enumerate 1 (sort_key table_key rows))"

definition order_table :: "standing_row list \<Rightarrow> standing_row list" where
  "order_table rows =
     (if card (set (map sr_rank rows)) < length rows then merge_groups rows else sort_key sr_rank rows)"

text \<open>The request for a league and a stage: the groups of entries, or an exception.\<close>

type_synonym 'w standings_port =
  "league_info \<Rightarrow> nat option \<Rightarrow> (exn, 'w, (pystr \<times> (pystr \<times> rat) list) list list) act"

definition fetch_standings :: "'w standings_port \<Rightarrow> league_info \<Rightarrow> nat option \<Rightarrow> (exn, 'w, standing_row list) act" where
  "fetch_standings port league season_type =
     bindA (port league season_type)
       (\<lambda>groups. case parse_rows (concat groups) of Inl e \<Rightarrow> raise e | Inr rows \<Rightarrow> ret (order_table rows))"

definition FIRST_STAGE :: nat where "FIRST_STAGE = 1"

definition fetch_stage :: "'w standings_port \<Rightarrow> league_info \<Rightarrow> (exn, 'w, standing_row list \<times> pystr) act" where
  "fetch_stage port league =
     bindA (fetch_standings port league None)
       (\<lambda>rows. if rows \<noteq> [] then ret (rows, [])
          else bindA (fetch_standings port league (Some FIRST_STAGE)) (\<lambda>rows. ret (rows, U '' {183} 1{170} fase'')))"

definition find_zone :: "int \<Rightarrow> zone list \<Rightarrow> zone option" where
  "find_zone rank zones = find (\<lambda>z. zn_start z \<le> rank \<and> rank \<le> zn_end z) zones"

definition row_emoji :: "int \<Rightarrow> zone option \<Rightarrow> pystr" where
  "row_emoji rank zone =
     (case map_of MEDAL_EMOJIS rank of Some e \<Rightarrow> e | None \<Rightarrow> (case zone of Some z \<Rightarrow> zn_emoji z | None \<Rightarrow> DEFAULT_ZONE_EMOJI))"

definition row_lines :: "standing_row \<Rightarrow> zone option \<Rightarrow> pystr list" where
  "row_lines r zone =
     [row_emoji (sr_rank r) zone @ [32] @ show_int (sr_rank r) @ U ''. *'' @ sr_team r @ U ''* {8212} '' @ show_int (sr_points r) @ U '' pts'',
      U ''    '' @ show_int (sr_matches r) @ U ''J  '' @ show_int (sr_wins r) @ U ''V  '' @ show_int (sr_draws r) @ U ''E  '' @
      show_int (sr_losses r) @ U ''D  '' @ show_int (sr_goals_for r) @ [58] @ show_int (sr_goals_against r) @ U ''  '' @
      (if 0 < sr_goal_diff r then [43] else []) @ show_int (sr_goal_diff r)]"

fun table_lines :: "zone list \<Rightarrow> zone option \<Rightarrow> bool \<Rightarrow> standing_row list \<Rightarrow> pystr list" where
  "table_lines zones prev_zone is_first [] = []"
| "table_lines zones prev_zone is_first (r # rows) =
     (let zone = find_zone (sr_rank r) zones in
      (if zone \<noteq> prev_zone \<and> \<not> is_first
       then [case zone of Some z \<Rightarrow> U ''{10}{9472}{9472} '' @ zn_emoji z @ [32] @ zn_name z @ U '' {9472}{9472}'' | None \<Rightarrow> []]
       else []) @
      row_lines r zone @ table_lines zones zone False rows)"

definition format_table :: "standing_row list \<Rightarrow> league_info \<Rightarrow> zone list \<Rightarrow> pystr \<Rightarrow> pystr" where
  "format_table rows league zones stage =
     join [10] ((U ''{9917} *'' @ lg_name league @ U ''* '' @ lg_flag league @ stage) #
       table_lines zones (case rows of [] \<Rightarrow> None | r # _ \<Rightarrow> find_zone (sr_rank r) zones) True rows)"

definition cut_table :: "parsed_command \<Rightarrow> zone list \<Rightarrow> standing_row list \<Rightarrow> standing_row list" where
  "cut_table p zones rows =
     (if U ''g4'' \<in> pc_flags p \<and> zones \<noteq> [] then filter (\<lambda>r. sr_rank r \<le> zn_end (hd zones)) rows
      else if U ''z4'' \<in> pc_flags p \<and> zones \<noteq> [] then filter (\<lambda>r. zn_start (last zones) \<le> sr_rank r) rows
      else rows)"

definition standings_execute :: "'w standings_port \<Rightarrow> 'w exec" where
  "standings_execute port = (\<lambda>d parsed.
     let code = (case dict_get (pc_options parsed) (U ''liga'') of None \<Rightarrow> U ''br'' | Some c \<Rightarrow> c) in
     (case find (\<lambda>l. lg_code l = code) LEAGUES of
        None \<Rightarrow> raise key_error
      | Some league \<Rightarrow>
          bindA (fetch_stage port league)
            (\<lambda>(rows, stage).
               if rows = [] then ret [reply_text d (U ''Ops, n{227}o achei essa tabela agora! {9917}'')]
               else let zones = (case map_of LEAGUE_ZONES code of None \<Rightarrow> [] | Some z \<Rightarrow> z)
                    in ret [reply_text d (format_table (cut_table parsed zones rows) league zones stage)])))"

subsection \<open>Properties\<close>

text \<open>
  The label of a match is never tomorrow.  The time of a match is put on the current day, so its
  label is \<open>Hoje\<close> or nothing, whatever the time and the clock.  But the window of the next hours does
  pass midnight: at 23:00, a match at 01:00 is announced as today's.
\<close>

theorem upcoming_is_labelled_today:
  "format_date_label now (now_date now) t \<in> {[], U ''Hoje''} \<and>
   is_within_upcoming_window \<lparr>now_date = d, now_micros = 23 * 3600 * MICROS_PER_SECOND\<rparr> (U ''01:00'') 6 = Inr True \<and>
   format_date_label \<lparr>now_date = d, now_micros = 23 * 3600 * MICROS_PER_SECOND\<rparr> d (U ''01:00'') = U ''Hoje''"
proof -
  have "hour_minute (U ''01:00'') = Some (1, 0)" "U ''01:00'' \<noteq> []" "58 \<in> set (U ''01:00'')"
    by code_simp+
  then show ?thesis
    by (auto simp: format_date_label_def is_within_upcoming_window_def at_hour_def Let_def MICROS_PER_SECOND_def MICROS_PER_DAY_def
        split: option.split if_splits)
qed


text \<open>The groups are those of the names, whole, in the order of the matches.\<close>

lemma map_of_groups:
  "map_of (fold (\<lambda>m. append_under (f m) m) ms d) c =
   (case map_of d c of
      None \<Rightarrow> if filter (\<lambda>m. f m = c) ms = [] then None else Some (filter (\<lambda>m. f m = c) ms)
    | Some vs \<Rightarrow> Some (vs @ filter (\<lambda>m. f m = c) ms))"
  by (induction ms arbitrary: d) (auto simp: map_of_append_under split: option.splits)

definition name_of_group :: "live_match list \<Rightarrow> pystr" where
  "name_of_group g = lm_competition_name (hd g)"

lemma groups_whole:
  "distinct (map name_of_group (group_by_competition ms)) \<and>
   (\<forall>g \<in> set (group_by_competition ms). g = filter (\<lambda>m. lm_competition_name m = name_of_group g) ms) \<and>
   set (concat (group_by_competition ms)) = set ms"
proof -
  let ?d = "fold (\<lambda>m. append_under (lm_competition_name m) m) ms []"
  have dist: "distinct (map fst ?d)"
    by (rule fold_append_under_distinct) simp
  have entry: "filter (\<lambda>m. lm_competition_name m = c) ms \<noteq> [] \<and> g = filter (\<lambda>m. lm_competition_name m = c) ms \<and> name_of_group g = c"
    if "(c, g) \<in> set ?d" for c g
  proof -
    have "map_of ?d c = Some g" using dist that by simp
    then have g: "filter (\<lambda>m. lm_competition_name m = c) ms \<noteq> []" "g = filter (\<lambda>m. lm_competition_name m = c) ms"
      by (auto simp: map_of_groups split: if_splits)
    then have "hd g \<in> set (filter (\<lambda>m. lm_competition_name m = c) ms)" by (metis hd_in_set)
    with g show ?thesis by (simp add: name_of_group_def)
  qed
  have "map name_of_group (group_by_competition ms) = map fst ?d"
    using entry by (auto simp: group_by_competition_def)
  moreover have "g = filter (\<lambda>m. lm_competition_name m = name_of_group g) ms" if "g \<in> set (group_by_competition ms)" for g
    using entry that by (auto simp: group_by_competition_def)
  moreover have "m \<in> set (concat (group_by_competition ms))" if "m \<in> set ms" for m
  proof -
    have m: "m \<in> set (filter (\<lambda>x. lm_competition_name x = lm_competition_name m) ms)" using that by simp
    then have "map_of ?d (lm_competition_name m) = Some (filter (\<lambda>x. lm_competition_name x = lm_competition_name m) ms)"
      by (auto simp: map_of_groups filter_empty_conv)
    then have "filter (\<lambda>x. lm_competition_name x = lm_competition_name m) ms \<in> set (group_by_competition ms)"
      by (force simp: group_by_competition_def dest: map_of_SomeD)
    with m show ?thesis by (metis UnionI image_eqI set_concat)
  qed
  moreover have "set (concat (group_by_competition ms)) \<subseteq> set ms"
    using entry by (fastforce simp: group_by_competition_def)
  ultimately show ?thesis
    using dist by (metis subsetI subset_antisym)
qed

lemma pick_groups_prefix:
  "\<exists>gs rest. groups = gs @ rest \<and> pick_groups k picked groups = picked @ concat gs \<and>
     (rest = [] \<or> k \<le> length (picked @ concat gs)) \<and> (gs = [] \<or> length (picked @ concat (butlast gs)) < k)"
proof (induction k picked groups rule: pick_groups.induct)
  case (2 k picked g groups)
  show ?case
  proof (cases "k \<le> length picked")
    case True
    then show ?thesis by (intro exI [of _ "[]"] exI [of _ "g # groups"]) simp
  next
    case False
    then obtain gs rest where "groups = gs @ rest" "pick_groups k (picked @ g) groups = (picked @ g) @ concat gs"
      "rest = [] \<or> k \<le> length ((picked @ g) @ concat gs)" "gs = [] \<or> length ((picked @ g) @ concat (butlast gs)) < k"
      using "2.IH" by blast
    with False show ?thesis
      by (intro exI [of _ "g # gs"] exI [of _ rest]) auto
  qed
qed simp

lemma filter_groups:
  assumes "\<forall>g \<in> set gs. g = filter (\<lambda>m. lm_competition_name m = name_of_group g) ms" "distinct (map name_of_group gs)"
  shows "filter (\<lambda>m. lm_competition_name m = c) (concat gs) \<in> {[], filter (\<lambda>m. lm_competition_name m = c) ms}"
  using assms
proof (induction gs)
  case (Cons g gs)
  have g: "g = filter (\<lambda>m. lm_competition_name m = name_of_group g) ms" using Cons.prems(1) by simp
  show ?case
  proof (cases "name_of_group g = c")
    case True
    have "lm_competition_name m \<noteq> c" if "m \<in> set h" "h \<in> set gs" for m h
    proof -
      have "h = filter (\<lambda>m. lm_competition_name m = name_of_group h) ms" using Cons.prems(1) that(2) by simp
      then have "lm_competition_name m = name_of_group h" using that(1) by (metis (mono_tags, lifting) mem_Collect_eq set_filter)
      moreover have "name_of_group h \<noteq> c" using Cons.prems(2) True that(2) by (force simp: image_iff)
      ultimately show ?thesis by simp
    qed
    then have "filter (\<lambda>m. lm_competition_name m = c) (concat gs) = []"
      by (auto simp: filter_empty_conv)
    moreover have "filter (\<lambda>m. lm_competition_name m = c) g = g"
      by (subst g, subst (2) g) (simp add: True)
    ultimately show ?thesis using g True by simp
  next
    case False
    have "filter (\<lambda>m. lm_competition_name m = c) g = []"
      by (subst g) (use False in \<open>auto simp: filter_empty_conv\<close>)
    with Cons show ?thesis by simp
  qed
qed simp

text \<open>
  A section shows whole competitions, the most important first.  The matches of a competition
  are all shown, in their order, or none is.  What is shown is a beginning of the competitions in the
  order of priority and name; one is left out only when the cap is reached, and the last one shown
  was needed to reach it.
\<close>

theorem section_keeps_competitions_whole:
  "filter (\<lambda>m. lm_competition_name m = c) (apply_soft_cap ms cap) \<in> {[], filter (\<lambda>m. lm_competition_name m = c) ms} \<and>
   (\<exists>gs rest. sort_key group_key (group_by_competition ms) = gs @ rest \<and> apply_soft_cap ms cap = concat gs \<and>
     (rest = [] \<or> cap \<le> length (concat gs)) \<and> (gs = [] \<or> length (concat (butlast gs)) < cap))"
proof -
  let ?groups = "sort_key group_key (group_by_competition ms)"
  from pick_groups_prefix [of ?groups cap "[]"] obtain gs rest where
    gs: "?groups = gs @ rest" "apply_soft_cap ms cap = concat gs"
      "rest = [] \<or> cap \<le> length (concat gs)" "gs = [] \<or> length (concat (butlast gs)) < cap"
    unfolding apply_soft_cap_def append_Nil by blast
  have "mset (map name_of_group ?groups) = mset (map name_of_group (group_by_competition ms))"
    by simp
  then have "distinct (map name_of_group ?groups)"
    using groups_whole [of ms] mset_eq_imp_distinct_iff by blast
  then have "distinct (map name_of_group gs)" unfolding gs(1) by simp
  moreover have "set gs \<subseteq> set (group_by_competition ms)"
    using gs(1) by (metis set_append set_sort sup_ge1)
  then have "\<forall>g \<in> set gs. g = filter (\<lambda>m. lm_competition_name m = name_of_group g) ms"
    using groups_whole [of ms] by blast
  ultimately show ?thesis
    using filter_groups [of gs ms c] gs by auto
qed

text \<open>
  C30: a table ranks every team once.  Whatever ranks the service gives, with groups or not, the table
  holds the same rows, apart from their ranks, in strictly increasing rank.  Where ranks repeat,
  the ranks become 1, 2, 3 and so on by points, goal difference and goals.
\<close>

theorem table_ranks_once:
  "mset (map (\<lambda>r. r\<lparr>sr_rank := 0\<rparr>) (order_table rows)) = mset (map (\<lambda>r. r\<lparr>sr_rank := 0\<rparr>) rows) \<and>
   sorted_wrt (<) (map sr_rank (order_table rows)) \<and>
   (order_table rows = sort_key sr_rank rows \<or>
    map sr_rank (order_table rows) = map int [1..<length rows + 1] \<and> sorted (map table_key (order_table rows)))"
proof (cases "card (set (map sr_rank rows)) < length rows")
  case True
  let ?s = "sort_key table_key rows"
  have t: "order_table rows = merge_groups rows" using True by (simp add: order_table_def)
  have "map (\<lambda>r. r\<lparr>sr_rank := 0\<rparr>) (merge_groups rows) = map (\<lambda>r. r\<lparr>sr_rank := 0\<rparr>) (map snd (enumerate 1 ?s))"
    by (simp add: merge_groups_def case_prod_beta del: map_snd_enumerate)
  then have "mset (map (\<lambda>r. r\<lparr>sr_rank := 0\<rparr>) (merge_groups rows)) = mset (map (\<lambda>r. r\<lparr>sr_rank := 0\<rparr>) rows)"
    by (metis map_snd_enumerate mset_map mset_sort)
  moreover have "map sr_rank (merge_groups rows) = map int (map fst (enumerate 1 ?s))"
    by (simp add: merge_groups_def case_prod_beta del: map_fst_enumerate)
  then have r: "map sr_rank (merge_groups rows) = map int [1..<length rows + 1]" by simp
  moreover have "sorted_wrt (<) (map int [1..<length rows + 1])"
    unfolding sorted_wrt_map of_nat_less_iff using sorted_wrt_upt [of 1 "length rows + 1"] by blast
  moreover have "map table_key (merge_groups rows) = map table_key (map snd (enumerate 1 ?s))"
    by (simp add: merge_groups_def case_prod_beta table_key_def del: map_snd_enumerate)
  then have "sorted (map table_key (merge_groups rows))" by simp
  ultimately show ?thesis unfolding t by simp
next
  case False
  then have t: "order_table rows = sort_key sr_rank rows" by (simp add: order_table_def)
  have "card (set (map sr_rank rows)) = length (map sr_rank rows)"
    using False card_length [of "map sr_rank rows"] by simp
  then have "distinct (map sr_rank rows)" by (rule card_distinct)
  moreover have "mset (map sr_rank (sort_key sr_rank rows)) = mset (map sr_rank rows)" by simp
  ultimately have "distinct (map sr_rank (sort_key sr_rank rows))"
    using mset_eq_imp_distinct_iff by blast
  then have "sorted_wrt (<) (map sr_rank (sort_key sr_rank rows))"
    by (simp add: strict_sorted_iff)
  moreover have "mset (map (\<lambda>r. r\<lparr>sr_rank := 0\<rparr>) (sort_key sr_rank rows)) = mset (map (\<lambda>r. r\<lparr>sr_rank := 0\<rparr>) rows)"
    by (metis mset_map mset_sort)
  ultimately show ?thesis unfolding t by blast
qed

end
