(* ===== verification/Market.thy ===== *)
theory Market
  imports Scores Lineup
begin

text \<open>
  The market values (bot/domain/services/market_dataset.py, bot/data/market_dataset.py): the two
  tables of the weekly dump as rows, the snapshot made of them and its life of seven days, the
  formatting of euros, and the countries (bot/data/nationality_flags.py).  The rows are what
  \<open>csv.DictReader\<close> yields for the columns the code reads.
\<close>

subsection \<open>Countries\<close>

definition NATIONALITIES :: "(pystr \<times> pystr \<times> pystr) list" where
  "NATIONALITIES =
     [(U ''Afghanistan'', U ''{127462}{127467}'', U ''Afeganist{227}o''),
      (U ''Albania'', U ''{127462}{127473}'', U ''Alb{226}nia''),
      (U ''Algeria'', U ''{127465}{127487}'', U ''Arg{233}lia''),
      (U ''Andorra'', U ''{127462}{127465}'', U ''Andorra''),
      (U ''Angola'', U ''{127462}{127476}'', U ''Angola''),
      (U ''Argentina'', U ''{127462}{127479}'', U ''Argentina''),
      (U ''Armenia'', U ''{127462}{127474}'', U ''Arm{234}nia''),
      (U ''Australia'', U ''{127462}{127482}'', U ''Austr{225}lia''),
      (U ''Austria'', U ''{127462}{127481}'', U ''{193}ustria''),
      (U ''Azerbaijan'', U ''{127462}{127487}'', U ''Azerbaij{227}o''),
      (U ''Bahrain'', U ''{127463}{127469}'', U ''Bahrein''),
      (U ''Bangladesh'', U ''{127463}{127465}'', U ''Bangladesh''),
      (U ''Belarus'', U ''{127463}{127486}'', U ''Bielorr{250}ssia''),
      (U ''Belgium'', U ''{127463}{127466}'', U ''B{233}lgica''),
      (U ''Benin'', U ''{127463}{127471}'', U ''Benin''),
      (U ''Bolivia'', U ''{127463}{127476}'', U ''Bol{237}via''),
      (U ''Bosnia-Herzegovina'', U ''{127463}{127462}'', U ''B{243}snia-Herzegovina''),
      (U ''Brazil'', U ''{127463}{127479}'', U ''Brasil''),
      (U ''Bulgaria'', U ''{127463}{127468}'', U ''Bulg{225}ria''),
      (U ''Burkina Faso'', U ''{127463}{127467}'', U ''Burkina Faso''),
      (U ''Burundi'', U ''{127463}{127470}'', U ''Burundi''),
      (U ''CSSR'', U '''', U ''Tchecoslov{225}quia''),
      (U ''Cambodia'', U ''{127472}{127469}'', U ''Camboja''),
      (U ''Cameroon'', U ''{127464}{127474}'', U ''Camar{245}es''),
      (U ''Canada'', U ''{127464}{127462}'', U ''Canad{225}''),
      (U ''Cape Verde'', U ''{127464}{127483}'', U ''Cabo Verde''),
      (U ''Central African Republic'', U ''{127464}{127467}'', U ''Rep{250}blica Centro-Africana''),
      (U ''Chile'', U ''{127464}{127473}'', U ''Chile''),
      (U ''China'', U ''{127464}{127475}'', U ''China''),
      (U ''China PR'', U ''{127464}{127475}'', U ''China''),
      (U ''Chinese Taipei'', U ''{127481}{127484}'', U ''Taip{233} Chinesa''),
      (U ''Colombia'', U ''{127464}{127476}'', U ''Col{244}mbia''),
      (U ''Comoros'', U ''{127472}{127474}'', U ''Comores''),
      (U ''Congo'', U ''{127464}{127468}'', U ''Congo''),
      (U ''Congo DR'', U ''{127464}{127465}'', U ''RD Congo''),
      (U ''Costa Rica'', U ''{127464}{127479}'', U ''Costa Rica''),
      (U ''Croatia'', U ''{127469}{127479}'', U ''Cro{225}cia''),
      (U ''Cuba'', U ''{127464}{127482}'', U ''Cuba''),
      (U ''Curacao'', U ''{127464}{127484}'', U ''Cura{231}ao''),
      (U ''Cyprus'', U ''{127464}{127486}'', U ''Chipre''),
      (U ''Czech Republic'', U ''{127464}{127487}'', U ''Rep{250}blica Checa''),
      (U ''DR Congo'', U ''{127464}{127465}'', U ''RD Congo''),
      (U ''Denmark'', U ''{127465}{127472}'', U ''Dinamarca''),
      (U ''Dominican Republic'', U ''{127465}{127476}'', U ''Rep{250}blica Dominicana''),
      (U ''Ecuador'', U ''{127466}{127464}'', U ''Equador''),
      (U ''Egypt'', U ''{127466}{127468}'', U ''Egito''),
      (U ''El Salvador'', U ''{127480}{127483}'', U ''El Salvador''),
      (U ''England'', U ''{127988}{917607}{917602}{917605}{917614}{917607}{917631}'', U ''Inglaterra''),
      (U ''Equatorial Guinea'', U ''{127468}{127478}'', U ''Guin{233} Equatorial''),
      (U ''Estonia'', U ''{127466}{127466}'', U ''Est{244}nia''),
      (U ''Ethiopia'', U ''{127466}{127481}'', U ''Eti{243}pia''),
      (U ''Faroe Islands'', U ''{127467}{127476}'', U ''Ilhas Faro{233}''),
      (U ''Finland'', U ''{127467}{127470}'', U ''Finl{226}ndia''),
      (U ''France'', U ''{127467}{127479}'', U ''Fran{231}a''),
      (U ''French Guiana'', U ''{127468}{127467}'', U ''Guiana Francesa''),
      (U ''Gabon'', U ''{127468}{127462}'', U ''Gab{227}o''),
      (U ''Gambia'', U ''{127468}{127474}'', U ''G{226}mbia''),
      (U ''Georgia'', U ''{127468}{127466}'', U ''Ge{243}rgia''),
      (U ''Germany'', U ''{127465}{127466}'', U ''Alemanha''),
      (U ''Ghana'', U ''{127468}{127469}'', U ''Gana''),
      (U ''Gibraltar'', U ''{127468}{127470}'', U ''Gibraltar''),
      (U ''Greece'', U ''{127468}{127479}'', U ''Gr{233}cia''),
      (U ''Guadeloupe'', U ''{127468}{127477}'', U ''Guadalupe''),
      (U ''Guatemala'', U ''{127468}{127481}'', U ''Guatemala''),
      (U ''Guinea'', U ''{127468}{127475}'', U ''Guin{233}''),
      (U ''Guinea-Bissau'', U ''{127468}{127484}'', U ''Guin{233}-Bissau''),
      (U ''Haiti'', U ''{127469}{127481}'', U ''Haiti''),
      (U ''Honduras'', U ''{127469}{127475}'', U ''Honduras''),
      (U ''Hongkong'', U ''{127469}{127472}'', U ''Hong Kong''),
      (U ''Hungary'', U ''{127469}{127482}'', U ''Hungria''),
      (U ''Iceland'', U ''{127470}{127480}'', U ''Isl{226}ndia''),
      (U ''India'', U ''{127470}{127475}'', U ''{205}ndia''),
      (U ''Indonesia'', U ''{127470}{127465}'', U ''Indon{233}sia''),
      (U ''Iran'', U ''{127470}{127479}'', U ''Ir{227}''),
      (U ''Iraq'', U ''{127470}{127478}'', U ''Iraque''),
      (U ''Ireland'', U ''{127470}{127466}'', U ''Irlanda''),
      (U ''Israel'', U ''{127470}{127473}'', U ''Israel''),
      (U ''Italy'', U ''{127470}{127481}'', U ''It{225}lia''),
      (U ''Ivory Coast'', U ''{127464}{127470}'', U ''Costa do Marfim''),
      (U ''Jamaica'', U ''{127471}{127474}'', U ''Jamaica''),
      (U ''Japan'', U ''{127471}{127477}'', U ''Jap{227}o''),
      (U ''Jordan'', U ''{127471}{127476}'', U ''Jord{226}nia''),
      (U ''Jugoslawien (SFR)'', U '''', U ''Iugosl{225}via''),
      (U ''Kazakhstan'', U ''{127472}{127487}'', U ''Cazaquist{227}o''),
      (U ''Kenya'', U ''{127472}{127466}'', U ''Qu{234}nia''),
      (U ''Korea, South'', U ''{127472}{127479}'', U ''Coreia do Sul''),
      (U ''Kosovo'', U ''{127485}{127472}'', U ''Kosovo''),
      (U ''Kyrgyzstan'', U ''{127472}{127468}'', U ''Quirguist{227}o''),
      (U ''Laos'', U ''{127473}{127462}'', U ''Laos''),
      (U ''Latvia'', U ''{127473}{127483}'', U ''Let{244}nia''),
      (U ''Lebanon'', U ''{127473}{127463}'', U ''L{237}bano''),
      (U ''Liberia'', U ''{127473}{127479}'', U ''Lib{233}ria''),
      (U ''Libya'', U ''{127473}{127486}'', U ''L{237}bia''),
      (U ''Lithuania'', U ''{127473}{127481}'', U ''Litu{226}nia''),
      (U ''Luxembourg'', U ''{127473}{127482}'', U ''Luxemburgo''),
      (U ''Macedonia'', U ''{127474}{127472}'', U ''Maced{244}nia do Norte''),
      (U ''Madagascar'', U ''{127474}{127468}'', U ''Madagascar''),
      (U ''Malaysia'', U ''{127474}{127486}'', U ''Mal{225}sia''),
      (U ''Mali'', U ''{127474}{127473}'', U ''Mali''),
      (U ''Malta'', U ''{127474}{127481}'', U ''Malta''),
      (U ''Martinique'', U ''{127474}{127478}'', U ''Martinica''),
      (U ''Mauritania'', U ''{127474}{127479}'', U ''Maurit{226}nia''),
      (U ''Mexico'', U ''{127474}{127485}'', U ''M{233}xico''),
      (U ''Moldova'', U ''{127474}{127465}'', U ''Mold{225}via''),
      (U ''Montenegro'', U ''{127474}{127466}'', U ''Montenegro''),
      (U ''Morocco'', U ''{127474}{127462}'', U ''Marrocos''),
      (U ''Mozambique'', U ''{127474}{127487}'', U ''Mo{231}ambique''),
      (U ''Myanmar'', U ''{127474}{127474}'', U ''Mianmar''),
      (U ''Netherlands'', U ''{127475}{127473}'', U ''Holanda''),
      (U ''New Zealand'', U ''{127475}{127487}'', U ''Nova Zel{226}ndia''),
      (U ''Nicaragua'', U ''{127475}{127470}'', U ''Nicar{225}gua''),
      (U ''Niger'', U ''{127475}{127466}'', U ''N{237}ger''),
      (U ''Nigeria'', U ''{127475}{127468}'', U ''Nig{233}ria''),
      (U ''North Macedonia'', U ''{127474}{127472}'', U ''Maced{244}nia do Norte''),
      (U ''Northern Ireland'', U ''{127468}{127463}'', U ''Irlanda do Norte''),
      (U ''Norway'', U ''{127475}{127476}'', U ''Noruega''),
      (U ''Oman'', U ''{127476}{127474}'', U ''Om{227}''),
      (U ''Panama'', U ''{127477}{127462}'', U ''Panam{225}''),
      (U ''Paraguay'', U ''{127477}{127486}'', U ''Paraguai''),
      (U ''Peru'', U ''{127477}{127466}'', U ''Peru''),
      (U ''Philippines'', U ''{127477}{127469}'', U ''Filipinas''),
      (U ''Poland'', U ''{127477}{127473}'', U ''Pol{244}nia''),
      (U ''Portugal'', U ''{127477}{127481}'', U ''Portugal''),
      (U ''Puerto Rico'', U ''{127477}{127479}'', U ''Porto Rico''),
      (U ''Qatar'', U ''{127478}{127462}'', U ''Catar''),
      (U ''Republic of Ireland'', U ''{127470}{127466}'', U ''Irlanda''),
      (U ''Romania'', U ''{127479}{127476}'', U ''Rom{234}nia''),
      (U ''Russia'', U ''{127479}{127482}'', U ''R{250}ssia''),
      (U ''Rwanda'', U ''{127479}{127484}'', U ''Ruanda''),
      (U ''R{233}union'', U ''{127479}{127466}'', U ''Reuni{227}o''),
      (U ''San Marino'', U ''{127480}{127474}'', U ''San Marino''),
      (U ''Saudi Arabia'', U ''{127480}{127462}'', U ''Ar{225}bia Saudita''),
      (U ''Scotland'', U ''{127988}{917607}{917602}{917619}{917603}{917620}{917631}'', U ''Esc{243}cia''),
      (U ''Senegal'', U ''{127480}{127475}'', U ''Senegal''),
      (U ''Serbia'', U ''{127479}{127480}'', U ''S{233}rvia''),
      (U ''Serbia and Montenegro'', U '''', U ''S{233}rvia e Montenegro''),
      (U ''Sierra Leone'', U ''{127480}{127473}'', U ''Serra Leoa''),
      (U ''Singapore'', U ''{127480}{127468}'', U ''Singapura''),
      (U ''Slovakia'', U ''{127480}{127472}'', U ''Eslov{225}quia''),
      (U ''Slovenia'', U ''{127480}{127470}'', U ''Eslov{234}nia''),
      (U ''Somalia'', U ''{127480}{127476}'', U ''Som{225}lia''),
      (U ''South Africa'', U ''{127487}{127462}'', U ''{193}frica do Sul''),
      (U ''South Korea'', U ''{127472}{127479}'', U ''Coreia do Sul''),
      (U ''Spain'', U ''{127466}{127480}'', U ''Espanha''),
      (U ''Sudan'', U ''{127480}{127465}'', U ''Sud{227}o''),
      (U ''Suriname'', U ''{127480}{127479}'', U ''Suriname''),
      (U ''Sweden'', U ''{127480}{127466}'', U ''Su{233}cia''),
      (U ''Switzerland'', U ''{127464}{127469}'', U ''Su{237}{231}a''),
      (U ''Syria'', U ''{127480}{127486}'', U ''S{237}ria''),
      (U ''Tajikistan'', U ''{127481}{127471}'', U ''Tajiquist{227}o''),
      (U ''Tanzania'', U ''{127481}{127487}'', U ''Tanz{226}nia''),
      (U ''Thailand'', U ''{127481}{127469}'', U ''Tail{226}ndia''),
      (U ''The Gambia'', U ''{127468}{127474}'', U ''G{226}mbia''),
      (U ''Togo'', U ''{127481}{127468}'', U ''Togo''),
      (U ''Trinidad and Tobago'', U ''{127481}{127481}'', U ''Trinidad e Tobago''),
      (U ''Tunisia'', U ''{127481}{127475}'', U ''Tun{237}sia''),
      (U ''Turkey'', U ''{127481}{127479}'', U ''Turquia''),
      (U ''T{252}rkiye'', U ''{127481}{127479}'', U ''Turquia''),
      (U ''UdSSR'', U '''', U ''Uni{227}o Sovi{233}tica''),
      (U ''Uganda'', U ''{127482}{127468}'', U ''Uganda''),
      (U ''Ukraine'', U ''{127482}{127462}'', U ''Ucr{226}nia''),
      (U ''United Arab Emirates'', U ''{127462}{127466}'', U ''Emirados {193}rabes Unidos''),
      (U ''United Kingdom'', U ''{127468}{127463}'', U ''Reino Unido''),
      (U ''United States'', U ''{127482}{127480}'', U ''Estados Unidos''),
      (U ''Uruguay'', U ''{127482}{127486}'', U ''Uruguai''),
      (U ''Uzbekistan'', U ''{127482}{127487}'', U ''Uzbequist{227}o''),
      (U ''Venezuela'', U ''{127483}{127466}'', U ''Venezuela''),
      (U ''Vietnam'', U ''{127483}{127475}'', U ''Vietn{227}''),
      (U ''Wales'', U ''{127988}{917607}{917602}{917623}{917612}{917619}{917631}'', U ''Pa{237}s de Gales''),
      (U ''Yugoslavia (Republic)'', U '''', U ''Iugosl{225}via''),
      (U ''Zaire'', U '''', U ''Zaire''),
      (U ''Zambia'', U ''{127487}{127474}'', U ''Z{226}mbia''),
      (U ''Zimbabwe'', U ''{127487}{127484}'', U ''Zimb{225}bue''),
      (U ''Cote d{39}Ivoire'', U ''{127464}{127470}'', U ''Costa do Marfim'')]"

definition nationality_of :: "pystr \<Rightarrow> pystr \<times> pystr" where
  "nationality_of n = (case map_of NATIONALITIES n of None \<Rightarrow> ([], n) | Some entry \<Rightarrow> entry)"

definition nationality_flag :: "pystr \<Rightarrow> pystr" where
  "nationality_flag n = fst (nationality_of n)"

definition nationality_pt :: "pystr \<Rightarrow> pystr" where
  "nationality_pt n = snd (nationality_of n)"

subsection \<open>Euros\<close>

text \<open>
  A quotient is rounded to the nearest number with 53 binary digits, ties to even, as a float is, and
  printed with two decimals, ties to even again.  Values lie between one million and \<open>2 ^ 53\<close>.
\<close>

definition round_even :: "rat \<Rightarrow> int" where
  "round_even q =
     (let f = \<lfloor>q\<rfloor>; r = q - of_int f in
      if r < 1 / 2 \<or> r = 1 / 2 \<and> even f then f else f + 1)"

fun binary_digits :: "nat \<Rightarrow> nat" where
  "binary_digits n = (if n = 0 then 0 else Suc (binary_digits (n div 2)))"

declare binary_digits.simps [simp del]

definition as_float :: "rat \<Rightarrow> rat" where
  "as_float q = (let e = 53 - binary_digits (nat \<lfloor>q\<rfloor>) in of_int (round_even (q * 2 ^ e)) / 2 ^ e)"

text \<open>\<open>f'{n:,}'\<close>: groups of three digits, and \<open>f'{x:,.2f}'\<close>.\<close>

fun group_digits :: "pystr \<Rightarrow> pystr" where
  "group_digits ds =
     (if length ds \<le> 3 then ds else group_digits (take (length ds - 3) ds) @ 44 # drop (length ds - 3) ds)"

declare group_digits.simps [simp del]

definition with_commas :: "nat \<Rightarrow> pystr" where
  "with_commas n = group_digits (show_nat n)"

definition two_decimals :: "rat \<Rightarrow> pystr" where
  "two_decimals x = (let c = nat (round_even (x * 100)) in with_commas (c div 100) @ [46] @ zfill 2 (c mod 100))"

definition EUROS_PER_MILLION :: int where "EUROS_PER_MILLION = 1000000"
definition EUROS_PER_THOUSAND :: int where "EUROS_PER_THOUSAND = 1000"

definition format_euros :: "int \<Rightarrow> pystr" where
  "format_euros value =
     (if value < EUROS_PER_MILLION then U ''{8364} '' @ show_int (value div EUROS_PER_THOUSAND) @ U '' mil.''
      else let millions = two_decimals (as_float (of_int value / of_int EUROS_PER_MILLION)) in
        U ''{8364} '' @ replace_str [88] [46] (replace_str [46] [44] (replace_str [44] [88] millions)) @ U '' mi.'')"

subsection \<open>Players and clubs\<close>

record player_profile =
  pp_birth_city :: pystr
  pp_birth_country :: pystr
  pp_height_cm :: pystr
  pp_foot :: pystr

record market_player = tm_player +
  mk_age :: int
  mk_nationality :: pystr
  mk_club :: pystr
  mk_club_id :: pystr
  mk_photo_url :: pystr
  mk_badge_url :: pystr
  mk_flag :: pystr
  mk_profile :: player_profile

record squad_stats =
  sq_market_value :: pystr
  sq_size :: pystr
  sq_avg_age :: pystr
  sq_foreigners :: pystr
  sq_foreigners_pct :: pystr
  sq_club_id :: pystr
  sq_name :: pystr
  sq_badge_url :: pystr
  sq_league_id :: pystr

record player_row =
  rw_last_season :: pystr
  rw_value :: pystr
  rw_name :: pystr
  rw_position :: pystr
  rw_birth :: pystr
  rw_citizenship :: pystr
  rw_club_name :: pystr
  rw_club_id :: pystr
  rw_league :: pystr
  rw_image :: pystr
  rw_city :: pystr
  rw_country :: pystr
  rw_height :: pystr
  rw_foot :: pystr

record club_row =
  cl_last_season :: pystr
  cl_id :: pystr
  cl_name :: pystr
  cl_league :: pystr
  cl_size :: pystr
  cl_avg_age :: pystr
  cl_foreigners :: pystr
  cl_foreigners_pct :: pystr

definition PLAYER_PHOTO_PREFIX :: pystr where
  "PLAYER_PHOTO_PREFIX = U ''https://img.a.transfermarkt.technology/''"

definition photo_url :: "pystr \<Rightarrow> pystr" where
  "photo_url url = (if startswith url PLAYER_PHOTO_PREFIX then url else [])"

definition badge_url :: "pystr \<Rightarrow> pystr" where
  "badge_url club_id =
     (if str_isdigit club_id then U ''https://tmssl.akamaized.net/images/wappen/head/'' @ club_id @ U ''.png'' else [])"

text \<open>\<open>from_iso\<close> is \<open>date.fromisoformat\<close>, without a value where it raises \<open>ValueError\<close>.\<close>

definition age_of :: "(pystr \<Rightarrow> date option) \<Rightarrow> date \<Rightarrow> pystr \<Rightarrow> exn + int" where
  "age_of from_iso today birth =
     (if birth = [] then Inr 0
      else case from_iso (take 10 birth) of
             None \<Rightarrow> Inl value_error
           | Some born \<Rightarrow>
               Inr (int (dt_year today) - int (dt_year born) -
                 (if dt_month today < dt_month born \<or> dt_month today = dt_month born \<and> dt_day today < dt_day born then 1 else 0)))"

definition player_of :: "(pystr \<Rightarrow> date option) \<Rightarrow> date \<Rightarrow> int \<times> player_row \<Rightarrow> exn + market_player" where
  "player_of from_iso today vr =
     (let (value, r) = vr in
      map_sum id
        (\<lambda>age. \<lparr>tm_name = rw_name r, tm_position = rw_position r, tm_market_value = value, mk_age = age,
           mk_nationality = rw_citizenship r, mk_club = rw_club_name r, mk_club_id = rw_club_id r,
           mk_photo_url = photo_url (rw_image r), mk_badge_url = badge_url (rw_club_id r),
           mk_flag = nationality_flag (rw_citizenship r),
           mk_profile = \<lparr>pp_birth_city = strip (rw_city r), pp_birth_country = rw_country r,
             pp_height_cm = rw_height r, pp_foot = rw_foot r\<rparr>\<rparr>)
        (age_of from_iso today (rw_birth r)))"

definition club_of :: "club_row \<Rightarrow> int \<Rightarrow> squad_stats" where
  "club_of r squad_value =
     \<lparr>sq_market_value = format_euros squad_value, sq_size = cl_size r, sq_avg_age = replace_str [46] [44] (cl_avg_age r),
      sq_foreigners = cl_foreigners r, sq_foreigners_pct = replace_str [46] [44] (cl_foreigners_pct r),
      sq_club_id = cl_id r, sq_name = cl_name r, sq_badge_url = badge_url (cl_id r), sq_league_id = cl_league r\<rparr>"

subsection \<open>The snapshot\<close>

text \<open>Lists by league, with the lists of all leagues under the empty text.\<close>

record snapshot =
  sn_loaded_at :: int
  sn_season :: int
  sn_players :: "(pystr \<times> market_player list) list"
  sn_clubs :: "(pystr \<times> squad_stats list) list"

fun traverse :: "('a \<Rightarrow> exn + 'b) \<Rightarrow> 'a list \<Rightarrow> exn + 'b list" where
  "traverse f [] = Inr []"
| "traverse f (x # xs) = (case f x of Inl e \<Rightarrow> Inl e | Inr y \<Rightarrow> map_sum id (\<lambda>ys. y # ys) (traverse f xs))"

definition int_or_error :: "pystr \<Rightarrow> exn + int" where
  "int_or_error s = (case int_of_text s of None \<Rightarrow> Inl value_error | Some n \<Rightarrow> Inr n)"

definition last_season :: "club_row list \<Rightarrow> exn + pystr" where
  "last_season clubs =
     (case map cl_last_season clubs of [] \<Rightarrow> Inl value_error | s # ss \<Rightarrow> Inr (fold max ss s))"

definition current_rows :: "pystr \<Rightarrow> player_row list \<Rightarrow> exn + (int \<times> player_row) list" where
  "current_rows season rows =
     map_sum id (sort_key (\<lambda>(value, _). - value))
       (traverse (\<lambda>r. map_sum id (\<lambda>value. (value, r)) (int_or_error (rw_value r)))
         (filter (\<lambda>r. rw_last_season r = season \<and> rw_value r \<noteq> []) rows))"

definition by_league :: "(pystr \<times> 'a) list \<Rightarrow> (pystr \<times> 'a list) list" where
  "by_league entries = fold (\<lambda>(k, x). append_under k x) (concat (map (\<lambda>(l, x). [([], x), (l, x)]) entries)) []"

definition squad_value :: "(int \<times> player_row) list \<Rightarrow> pystr \<Rightarrow> int" where
  "squad_value ranking club_id = sum_list (map fst (filter (\<lambda>(_, r). rw_club_id r = club_id) ranking))"

definition market_parse ::
  "(pystr \<Rightarrow> date option) \<Rightarrow> date \<Rightarrow> int \<Rightarrow> player_row list \<Rightarrow> club_row list \<Rightarrow> exn + snapshot" where
  "market_parse from_iso today now players clubs =
     (case last_season clubs of Inl e \<Rightarrow> Inl e | Inr season \<Rightarrow>
      (case current_rows season players of Inl e \<Rightarrow> Inl e | Inr ranking \<Rightarrow>
       (case int_or_error season of Inl e \<Rightarrow> Inl e | Inr year \<Rightarrow>
        (case traverse (player_of from_iso today) ranking of Inl e \<Rightarrow> Inl e | Inr ps \<Rightarrow>
         (let ranked = sort_key (\<lambda>r. - squad_value ranking (cl_id r)) (filter (\<lambda>r. cl_last_season r = season) clubs) in
          Inr \<lparr>sn_loaded_at = now, sn_season = year,
               sn_players = by_league (zip (map (rw_league \<circ> snd) ranking) ps),
               sn_clubs = by_league (map (\<lambda>r. (cl_league r, club_of r (squad_value ranking (cl_id r)))) ranked)\<rparr>)))))"

subsection \<open>The cache\<close>

text \<open>
  The snapshot of the class is read and written; \<open>mp_now\<close> is the time in microseconds with the
  current date in Brasilia, and \<open>mp_players\<close> and \<open>mp_clubs\<close> are the downloads.
\<close>

record 'w market_port =
  mp_snapshot :: "(exn, 'w, snapshot option) act"
  mp_store :: "snapshot \<Rightarrow> (exn, 'w, unit) act"
  mp_now :: "(exn, 'w, int \<times> date) act"
  mp_players :: "(exn, 'w, player_row list) act"
  mp_clubs :: "(exn, 'w, club_row list) act"
  mp_from_iso :: "pystr \<Rightarrow> date option"

definition MARKET_DATASET_TTL :: int where "MARKET_DATASET_TTL = 7 * MICROS_PER_DAY"

definition market_load :: "'w market_port \<Rightarrow> (exn, 'w, snapshot) act" where
  "market_load port =
     bindA (mp_players port)
       (\<lambda>players. bindA (mp_clubs port)
         (\<lambda>clubs. bindA (mp_now port)
           (\<lambda>(now, today). case market_parse (mp_from_iso port) today now players clubs of Inl e \<Rightarrow> raise e | Inr s \<Rightarrow> ret s)))"

definition market_current :: "'w market_port \<Rightarrow> (exn, 'w, snapshot) act" where
  "market_current port =
     bindA (mp_snapshot port)
       (\<lambda>cached. bindA (mp_now port)
         (\<lambda>(now, _). case cached of
            Some s \<Rightarrow>
              if MARKET_DATASET_TTL \<le> now - sn_loaded_at s
              then bindA (market_load port) (\<lambda>s. bindA (mp_store port s) (\<lambda>_. ret s)) else ret s
          | None \<Rightarrow> bindA (market_load port) (\<lambda>s. bindA (mp_store port s) (\<lambda>_. ret s))))"

definition league_list :: "pystr \<Rightarrow> (pystr \<times> 'a list) list \<Rightarrow> 'a list" where
  "league_list k d = (case map_of d k of None \<Rightarrow> [] | Some xs \<Rightarrow> xs)"

definition market_players :: "'w market_port \<Rightarrow> pystr \<Rightarrow> (exn, 'w, market_player list) act" where
  "market_players port league_id = bindA (market_current port) (\<lambda>s. ret (league_list league_id (sn_players s)))"

definition market_clubs :: "'w market_port \<Rightarrow> pystr \<Rightarrow> (exn, 'w, squad_stats list) act" where
  "market_clubs port league_id = bindA (market_current port) (\<lambda>s. ret (league_list league_id (sn_clubs s)))"

definition market_season :: "'w market_port \<Rightarrow> (exn, 'w, pystr) act" where
  "market_season port =
     bindA (market_current port)
       (\<lambda>s. ret (show_int (sn_season s) @ [47] @ zfill 2 (nat ((sn_season s + 1) mod 100))))"

subsection \<open>The lists are rankings\<close>

lemma map_of_append_fold:
  "map_of (fold (\<lambda>(k, x). append_under k x) es d) c =
   (case map_of d c of
      None \<Rightarrow> if filter (\<lambda>(k, x). k = c) es = [] then None else Some (map snd (filter (\<lambda>(k, x). k = c) es))
    | Some vs \<Rightarrow> Some (vs @ map snd (filter (\<lambda>(k, x). k = c) es)))"
  by (induction es arbitrary: d) (auto simp: map_of_append_under split: option.splits)

lemma under_by_league:
  "league_list k (by_league es) = map snd (filter (\<lambda>(l, x). l = k) (concat (map (\<lambda>(l, x). [([], x), (l, x)]) es)))"
  by (simp add: league_list_def by_league_def map_of_append_fold)

lemma under_sorted:
  assumes "sorted_wrt R (map snd es)" "\<And>x. R x x"
  shows "sorted_wrt R (league_list k (by_league es))"
proof -
  have "sorted_wrt (\<lambda>a b. R (snd a) (snd b)) (concat (map (\<lambda>(l, x). [([], x), (l, x)]) es))"
    using assms(1) by (induction es) (force simp: assms(2))+
  then show ?thesis
    unfolding under_by_league sorted_wrt_map by (rule sorted_wrt_filter)
qed

lemma under_all: "set (league_list k (by_league es)) \<subseteq> set (league_list [] (by_league es))"
  by (force simp: under_by_league)

lemma map_sum_InrE:
  assumes "map_sum f g r = Inr y"
  obtains x where "r = Inr x" "y = g x"
  using assms by (cases r) auto

lemma traverse_map:
  "traverse f xs = Inr ys \<Longrightarrow> (\<And>x y. f x = Inr y \<Longrightarrow> g y = h x) \<Longrightarrow> map g ys = map h xs"
proof (induction xs arbitrary: ys)
  case (Cons x xs)
  then show ?case by (cases "traverse f xs") (auto split: sum.splits)
qed simp

text \<open>
  Every list of the market is a ranking.  Whatever the dump holds, when it is read, the players of
  a league and those of all leagues are listed from the most to the least valuable, and every player
  of a league is among those of all.
\<close>

theorem market_lists_are_rankings:
  assumes "market_parse from_iso today now players clubs = Inr s"
  shows "sorted_wrt (\<lambda>p q. tm_market_value q \<le> tm_market_value p) (league_list league (sn_players s)) \<and>
    set (league_list league (sn_players s)) \<subseteq> set (league_list [] (sn_players s)) \<and>
    set (league_list league (sn_clubs s)) \<subseteq> set (league_list [] (sn_clubs s))"
proof -
  from assms obtain season ranking ps clubs' where cur: "current_rows season players = Inr ranking"
    and ps: "traverse (player_of from_iso today) ranking = Inr ps"
    and s: "sn_players s = by_league (zip (map (rw_league \<circ> snd) ranking) ps)" "sn_clubs s = by_league clubs'"
    by (auto simp: market_parse_def Let_def split: sum.splits)
  have vals: "map tm_market_value ps = map fst ranking"
    by (rule traverse_map [OF ps]) (auto simp: player_of_def age_of_def Let_def split: sum.splits if_splits option.splits prod.splits)
  then have len: "length ps = length ranking" by (metis length_map)
  from cur obtain rows where "ranking = sort_key (\<lambda>(value, _). - value) rows"
    by (auto simp: current_rows_def split: sum.splits elim!: map_sum_InrE)
  then have "sorted (map (\<lambda>(value, _). - value) ranking)" by simp
  then have "sorted_wrt (\<lambda>x y. fst y \<le> fst x) ranking"
    by (simp add: sorted_map case_prod_beta)
  then have "sorted_wrt (\<lambda>p q. tm_market_value q \<le> tm_market_value p) ps"
    using sorted_wrt_map [of "\<lambda>x y. y \<le> x" fst ranking] sorted_wrt_map [of "\<lambda>x y. y \<le> x" tm_market_value ps] vals by simp
  then have "sorted_wrt (\<lambda>p q. tm_market_value q \<le> tm_market_value p) (league_list league (sn_players s))"
    unfolding s by (intro under_sorted) (simp_all add: len)
  then show ?thesis unfolding s by (intro conjI under_all)
qed

definition player_named :: "pystr \<Rightarrow> pystr \<Rightarrow> player_row" where
  "player_named name value =
     \<lparr>rw_last_season = U ''2025'', rw_value = value, rw_name = name, rw_position = [], rw_birth = [], rw_citizenship = [],
      rw_club_name = [], rw_club_id = [], rw_league = U ''BRA1'', rw_image = [], rw_city = [], rw_country = [], rw_height = [], rw_foot = []\<rparr>"

definition one_club :: club_row where
  "one_club = \<lparr>cl_last_season = U ''2025'', cl_id = [], cl_name = [], cl_league = U ''BRA1'', cl_size = [], cl_avg_age = [],
     cl_foreigners = [], cl_foreigners_pct = []\<rparr>"

definition two_players :: "exn + snapshot" where
  "two_players = market_parse (\<lambda>_. None) (Date 2026 1 1) 0 [player_named (U ''a'') (U ''5''), player_named (U ''b'') (U ''10'')] [one_club]"

theorem market_lists_are_rankings_witness:
  "sorted_wrt (\<lambda>p q. tm_market_value q \<le> tm_market_value p) (league_list (U ''BRA1'') (sn_players (projr two_players))) \<and>
    set (league_list (U ''BRA1'') (sn_players (projr two_players))) \<subseteq> set (league_list [] (sn_players (projr two_players))) \<and>
    set (league_list (U ''BRA1'') (sn_clubs (projr two_players))) \<subseteq> set (league_list [] (sn_clubs (projr two_players)))"
proof (rule market_lists_are_rankings)
  have "int_of_text (U ''5'') = Some 5" "int_of_text (U ''10'') = Some 10" "int_of_text (U ''2025'') = Some 2025"
    "U ''5'' \<noteq> []" "U ''10'' \<noteq> []"
    by code_simp+
  then have "\<exists>s. two_players = Inr s"
    by (simp add: two_players_def market_parse_def last_season_def one_club_def player_named_def current_rows_def int_or_error_def
        player_of_def age_of_def Let_def)
  then show "market_parse (\<lambda>_. None) (Date 2026 1 1) 0 [player_named (U ''a'') (U ''5''), player_named (U ''b'') (U ''10'')] [one_club] =
      Inr (projr two_players)"
    by (auto simp: two_players_def)
qed

end
