(* ===== verification/Team_Match.thy ===== *)
theory Team_Match
  imports Registry "HOL-Library.Product_Lexorder" "HOL-Library.List_Lexorder"
begin

text \<open>
  Club names of two sources, paired (bot/domain/services/team_name_matcher.py,
  bot/data/football_team_prefixes.py), with the similarity of texts of Python's \<open>difflib\<close>.
\<close>

subsection \<open>difflib.SequenceMatcher\<close>

text \<open>
  The longest common block of two texts: among the longest the first in the first text, and among
  those the first in the second.  The texts are shorter than the 200 characters from which on
  \<open>SequenceMatcher\<close> ignores frequent ones.
\<close>

fun common_prefix :: "pystr \<Rightarrow> pystr \<Rightarrow> nat" where
  "common_prefix (x # xs) (y # ys) = (if x = y then Suc (common_prefix xs ys) else 0)"
| "common_prefix _ _ = 0"

definition block_at :: "pystr \<Rightarrow> pystr \<Rightarrow> nat \<times> nat \<Rightarrow> nat" where
  "block_at xs ys p = common_prefix (drop (fst p) xs) (drop (snd p) ys)"

fun best_block :: "pystr \<Rightarrow> pystr \<Rightarrow> (nat \<times> nat) list \<Rightarrow> nat \<times> nat \<Rightarrow> nat \<times> nat" where
  "best_block xs ys [] best = best"
| "best_block xs ys (p # ps) best =
     best_block xs ys ps (if block_at xs ys best < block_at xs ys p then p else best)"

definition longest_match :: "pystr \<Rightarrow> pystr \<Rightarrow> nat \<times> nat \<times> nat" where
  "longest_match xs ys =
     (let p = best_block xs ys (List.product [0..<length xs] [0..<length ys]) (0, 0) in
      (fst p, snd p, block_at xs ys p))"

lemma common_prefix_le: "common_prefix xs ys \<le> length xs"
  by (induction xs ys rule: common_prefix.induct) auto

function matching_size :: "pystr \<Rightarrow> pystr \<Rightarrow> nat" where
  "matching_size xs ys =
     (let (i, j, k) = longest_match xs ys in
      if k = 0 then 0
      else k + matching_size (take i xs) (take j ys) + matching_size (drop (i + k) xs) (drop (j + k) ys))"
  by pat_completeness auto

termination
proof (relation "measure (\<lambda>(xs, ys). length xs)")
  fix xs ys :: pystr and x i y j k
  assume "x = longest_match xs ys" "(i, y) = x" "(j, k) = y" "k \<noteq> 0"
  then have k: "k = common_prefix (drop i xs) (drop j ys)" "k \<noteq> 0"
    by (auto simp: longest_match_def block_at_def Let_def)
  with common_prefix_le [of "drop i xs" "drop j ys"] have "i < length xs" by simp
  then show "((take i xs, take j ys), xs, ys) \<in> measure (\<lambda>(xs, ys). length xs)"
    "((drop (i + k) xs, drop (j + k) ys), xs, ys) \<in> measure (\<lambda>(xs, ys). length xs)"
    using k by simp_all
qed simp

declare matching_size.simps [simp del]

text \<open>\<open>ratio()\<close>: twice the matching characters over all of them, 1 for two empty texts.\<close>

definition similarity :: "pystr \<Rightarrow> pystr \<Rightarrow> rat" where
  "similarity xs ys =
     (let n = length xs + length ys in
      if n = 0 then 1 else of_nat (2 * matching_size xs ys) / of_nat n)"

subsection \<open>Scores\<close>

definition CLUB_PREFIXES :: "pystr list" where
  "CLUB_PREFIXES =
     [U ''fc'', U ''ac'', U ''ca'', U ''cd'', U ''cs'', U ''sc'', U ''se'', U ''sg'', U ''ec'', U ''cr'', U ''rb'', U ''vfb'',
      U ''afc'', U ''rcd'', U ''aj'', U ''as'', U ''ogc'', U ''ssc'', U ''us'', U ''club'', U ''clube'', U ''cf'', U ''sd'',
      U ''sv'', U ''sk'', U ''stade'', U ''hellas'', U ''sport'']"

definition MIN_SCORE :: rat where "MIN_SCORE = 1 / 4"
definition PREFIX_MIN_LEN :: nat where "PREFIX_MIN_LEN = 4"

text \<open>\<open>findall\<close> of \<open>[^\W\d_]{2,}\<close>: the runs of letters of two characters or more.\<close>

definition is_letter :: "nat \<Rightarrow> bool" where
  "is_letter c \<longleftrightarrow> is_word_cp c \<and> \<not> is_decimal c \<and> c \<noteq> 95"

fun letter_runs :: "pystr \<Rightarrow> pystr \<Rightarrow> pystr list" where
  "letter_runs acc [] = [acc]"
| "letter_runs acc (c # cs) = (if is_letter c then letter_runs (acc @ [c]) cs else acc # letter_runs [] cs)"

definition name_words :: "pystr \<Rightarrow> pystr set" where
  "name_words name = set (filter (\<lambda>w. 2 \<le> length w) (letter_runs [] (lower name)))"

definition tokens :: "pystr \<Rightarrow> pystr set" where
  "tokens name =
     (let ws = name_words name; rest = ws - set CLUB_PREFIXES in if rest \<noteq> {} then rest else ws)"

definition related :: "pystr set \<Rightarrow> pystr set \<Rightarrow> bool" where
  "related left right \<longleftrightarrow>
     left \<noteq> {} \<and> right \<noteq> {} \<and> (left \<subseteq> right \<or> right \<subseteq> left) \<or>
     (\<exists>a \<in> left. \<exists>b \<in> right. PREFIX_MIN_LEN \<le> length a \<and> PREFIX_MIN_LEN \<le> length b \<and> (startswith a b \<or> startswith b a))"

definition team_score :: "pystr \<Rightarrow> pystr \<Rightarrow> rat \<times> rat" where
  "team_score name candidate =
     (let left = tokens name; right = tokens candidate;
          overlap = (if left \<noteq> {} \<and> right \<noteq> {}
                     then of_nat (card (left \<inter> right)) / of_nat (card (left \<union> right)) else 0);
          overlap = (if overlap < MIN_SCORE \<and> related left right then MIN_SCORE else overlap)
      in (overlap, similarity (lower name) (lower candidate)))"

subsection \<open>Pairs\<close>

type_synonym scored = "(rat \<times> rat) \<times> pystr \<times> pystr"

text \<open>\<open>sorted(..., reverse=True)\<close>; the candidates taken are the values of the pairs.\<close>

definition scored_pairs :: "pystr list \<Rightarrow> pystr list \<Rightarrow> scored list" where
  "scored_pairs names candidates =
     rev (sort (map (\<lambda>(name, candidate). (team_score name candidate, name, candidate)) (List.product names candidates)))"

definition take_pair :: "scored \<Rightarrow> (pystr \<times> pystr) list \<Rightarrow> (pystr \<times> pystr) list" where
  "take_pair s pairs =
     (case s of (score, name, candidate) \<Rightarrow>
        if fst score < MIN_SCORE \<or> name \<in> fst ` set pairs \<or> candidate \<in> snd ` set pairs then pairs
        else pairs @ [(name, candidate)])"

definition pair :: "pystr list \<Rightarrow> pystr list \<Rightarrow> (pystr \<times> pystr) list" where
  "pair names candidates = fold take_pair (scored_pairs names candidates) []"

definition best_match :: "pystr \<Rightarrow> pystr list \<Rightarrow> pystr option" where
  "best_match name candidates = map_of (pair [name] candidates) name"

subsection \<open>The pairing is a stable matching\<close>

text \<open>The scores with their names, as the loop orders them; the later of equal scores by name comes first.\<close>

definition entry :: "pystr \<times> pystr \<Rightarrow> scored" where
  "entry p = (team_score (fst p) (snd p), p)"

text \<open>
  What holds after the entries \<open>done\<close>: the pairs are one to one, each good enough and an entry
  seen; an entry seen that is good enough is a pair, or its name or its candidate was paired
  with an entry at least as high.
\<close>

definition paired_up_to :: "scored list \<Rightarrow> (pystr \<times> pystr) list \<Rightarrow> bool" where
  "paired_up_to seen pairs \<longleftrightarrow>
     distinct (map fst pairs) \<and> distinct (map snd pairs) \<and>
     (\<forall>p \<in> set pairs. entry p \<in> set seen \<and> MIN_SCORE \<le> fst (team_score (fst p) (snd p))) \<and>
     (\<forall>s \<in> set seen. MIN_SCORE \<le> fst (fst s) \<longrightarrow>
        (\<exists>p \<in> set pairs. (fst p = fst (snd s) \<or> snd p = snd (snd s)) \<and> s \<le> entry p))"

lemma take_pair_step:
  assumes "paired_up_to seen pairs" "s = entry p" "\<forall>t \<in> set seen. s \<le> t"
  shows "paired_up_to (seen @ [s]) (take_pair s pairs)"
proof -
  have below: "s \<le> entry q" if "q \<in> set pairs" for q
    using assms(1,3) that by (auto simp: paired_up_to_def)
  show ?thesis
  proof (cases "fst (fst s) < MIN_SCORE \<or> fst p \<in> fst ` set pairs \<or> snd p \<in> snd ` set pairs")
    case True
    then have t: "take_pair s pairs = pairs" by (simp add: take_pair_def assms(2) entry_def case_prod_beta)
    have "\<exists>q \<in> set pairs. (fst q = fst p \<or> snd q = snd p) \<and> s \<le> entry q" if "MIN_SCORE \<le> fst (fst s)"
    proof -
      from True that obtain q where "q \<in> set pairs" "fst q = fst p \<or> snd q = snd p"
        by (metis image_iff not_le)
      with below show ?thesis by blast
    qed
    then show ?thesis using assms(1) unfolding t by (auto simp: paired_up_to_def assms(2) entry_def)
  next
    case False
    then have "take_pair s pairs = pairs @ [p]"
      by (simp add: take_pair_def assms(2) entry_def case_prod_beta)
    moreover have "fst (fst s) = fst (team_score (fst p) (snd p))" by (simp add: assms(2) entry_def)
    moreover have "fst p \<notin> set (map fst pairs)" "snd p \<notin> set (map snd pairs)" using False by auto
    ultimately show ?thesis using assms(1) False
      by (auto simp: paired_up_to_def assms(2) entry_def simp del: set_map)
  qed
qed

lemma fold_take_pair:
  assumes "paired_up_to seen pairs" "sorted_wrt (\<ge>) (seen @ ss)" "\<forall>s \<in> set ss. \<exists>p. s = entry p"
  shows "paired_up_to (seen @ ss) (fold take_pair ss pairs)"
  using assms
proof (induction ss arbitrary: seen pairs)
  case (Cons s ss)
  then obtain p where "s = entry p" by auto
  moreover have "\<forall>t \<in> set seen. s \<le> t" using Cons.prems(2) by (auto simp: sorted_wrt_append)
  ultimately have "paired_up_to (seen @ [s]) (take_pair s pairs)"
    using Cons.prems(1) by (rule take_pair_step [rotated])
  then show ?case using Cons.IH [of "seen @ [s]" "take_pair s pairs"] Cons.prems by simp
qed simp

lemma scored_pairs_entries: "set (scored_pairs names candidates) = entry ` (set names \<times> set candidates)"
  by (force simp: scored_pairs_def entry_def)

text \<open>
  C31: the pairing is a stable matching.  No name and no candidate is paired twice, a pair is made of
  a given name and a given candidate and scores a quarter at least; and whenever a name and a
  candidate that score a quarter are not paired with each other, one of them is paired with
  somebody that scores as high or higher, so no two would both do better together.
\<close>

theorem pairing_is_stable:
  "distinct (map fst (pair names candidates)) \<and> distinct (map snd (pair names candidates)) \<and>
   set (pair names candidates) \<subseteq> {(n, c). n \<in> set names \<and> c \<in> set candidates \<and> MIN_SCORE \<le> fst (team_score n c)} \<and>
   {(n, c). n \<in> set names \<and> c \<in> set candidates \<and> MIN_SCORE \<le> fst (team_score n c)} \<subseteq>
   {(n, c). \<exists>p \<in> set (pair names candidates). (fst p = n \<or> snd p = c) \<and> (team_score n c, n, c) \<le> (team_score (fst p) (snd p), p)}"
proof -
  let ?ss = "scored_pairs names candidates"
  have "sorted_wrt (\<ge>) ?ss"
    by (simp add: scored_pairs_def sorted_wrt_rev)
  moreover have "\<forall>s \<in> set ?ss. \<exists>p. s = entry p" unfolding scored_pairs_entries by auto
  moreover have "paired_up_to [] []" by (simp add: paired_up_to_def)
  ultimately have "paired_up_to ?ss (pair names candidates)"
    unfolding pair_def using fold_take_pair [of "[]" "[]" ?ss] by simp
  then show ?thesis
    unfolding paired_up_to_def scored_pairs_entries by (fastforce simp: entry_def)
qed

end
