(* ===== verification/Football.thy ===== *)
theory Football
  imports Market Team_Match Content_Filter
begin

text \<open>
  The football commands: \<open>time\<close> (bot/domain/commands/football_team.py) with its caption
  (bot/domain/services/team_caption_builder.py), the clubs of TheSportsDB (thesportsdb.py), the line-up
  with its images (full_lineup_builder.py, player_assets.py), the ratings of EA (fifa_ratings.py,
  bot/data/fifa_ratings.py), and \<open>jogador\<close> (bot/domain/commands/football_player.py).  The drawing of
  the field and the requests are actions.
\<close>

subsection \<open>The caption of a club\<close>

record sports_team =
  sb_name :: pystr
  sb_country :: pystr
  sb_founded :: pystr
  sb_badge_url :: pystr
  sb_team_id :: pystr
  sb_stadium :: pystr
  sb_capacity :: pystr

text \<open>\<open>f'{int(raw):,}'.replace(',', '.')\<close>, or the text itself when it is no number.\<close>

definition int_with_commas :: "int \<Rightarrow> pystr" where
  "int_with_commas n = (if n < 0 then 45 # with_commas (nat (- n)) else with_commas (nat n))"

definition format_capacity :: "pystr \<Rightarrow> pystr" where
  "format_capacity raw =
     (case int_of_text raw of None \<Rightarrow> raw | Some n \<Rightarrow> replace_str [44] [46] (int_with_commas n))"

definition head_line :: "pystr \<Rightarrow> pystr \<Rightarrow> pystr \<Rightarrow> pystr" where
  "head_line flag country founded =
     (if country \<noteq> [] then [10] @ flag @ [32] @ country else [10] @ flag) @
     (if founded \<noteq> [] then U ''   {128197} '' @ founded else [])"

definition stadium_lines :: "sports_team option \<Rightarrow> pystr list" where
  "stadium_lines team =
     (case team of
        None \<Rightarrow> []
      | Some t \<Rightarrow>
          if sb_stadium t = [] then []
          else (U ''{127967}{65039} '' @ sb_stadium t) #
            (if sb_capacity t = [] then [] else [U ''{128186} '' @ format_capacity (sb_capacity t) @ U '' lugares'']))"

definition squad_lines :: "squad_stats \<Rightarrow> pystr list" where
  "squad_lines c =
     (if sq_size c = [] then []
      else [U ''{128101} '' @ sq_size c @ U '' jogadores'' @ (if sq_avg_age c = [] then [] else U ''   {8960} '' @ sq_avg_age c @ U '' anos'')]) @
     (if sq_foreigners c = [] then []
      else [U ''{127757} '' @ sq_foreigners c @ U '' estrangeiros'' @
            (if sq_foreigners_pct c = [] then [] else U '' ('' @ sq_foreigners_pct c @ U ''%)'')]) @
     (if sq_market_value c = [] then [] else [U ''{128176} '' @ sq_market_value c])"

definition team_caption :: "squad_stats \<Rightarrow> sports_team option \<Rightarrow> league_info option \<Rightarrow> int option \<Rightarrow> nat option \<Rightarrow> pystr" where
  "team_caption club team league rank global_rank =
     (let name = (case team of Some t \<Rightarrow> sb_name t | None \<Rightarrow> sq_name club);
          league_country = (case league of Some l \<Rightarrow> lg_country l | None \<Rightarrow> []);
          country = (case team of Some t \<Rightarrow> nationality_pt (sb_country t) | None \<Rightarrow> league_country);
          founded = (case team of Some t \<Rightarrow> sb_founded t | None \<Rightarrow> [])
      in join [10]
        ([[42] @ name @ [42] @ (case league of Some l \<Rightarrow> U '' {8212} '' @ lg_name l | None \<Rightarrow> []),
          head_line (case league of Some l \<Rightarrow> lg_flag l | None \<Rightarrow> U ''{127757}'') country founded] @
         stadium_lines team @
         (case rank of Some r \<Rightarrow> if r \<noteq> 0 then [U ''{128202} '' @ show_int r @ U ''{186} na tabela''] else [] | None \<Rightarrow> []) @
         (case global_rank of
            Some g \<Rightarrow> if g \<noteq> 0 then [U ''{127942} #'' @ show_nat g @ U ''{186} mais valioso do mundo''] else []
          | None \<Rightarrow> []) @
         squad_lines club))"

subsection \<open>The requests\<close>

text \<open>
  \<open>fb_search\<close> is the answer of TheSportsDB: a status, and the clubs found, none where the body is no
  JSON.  \<open>fb_ratings\<close> asks EA for a position, \<open>fb_cached\<close> and \<open>fb_cache\<close> are the cache of the class
  by position with the time of an entry.  \<open>fb_field\<close> and \<open>fb_cards\<close> draw a field.
\<close>

record fifa_player =
  fi_name :: pystr
  fi_overall :: int
  fi_card_url :: pystr

record fifa_item =
  it_common_name :: pystr
  it_first_name :: pystr
  it_last_name :: pystr
  it_overall :: int
  it_shield_url :: pystr

record 'w football_port =
  fb_market :: "'w market_port"
  fb_standings :: "'w standings_port"
  fb_search :: "pystr \<Rightarrow> (exn, 'w, nat \<times> sports_team list) act"
  fb_get :: "pystr \<Rightarrow> (exn, 'w, bytes) act"
  fb_draw :: "(exn, 'w, nat) act"
  fb_shuffle :: "pystr \<Rightarrow> market_player list \<Rightarrow> market_player list"
  fb_sample :: "fifa_player list \<Rightarrow> fifa_player list"
  fb_now :: "(exn, 'w, int) act"
  fb_cached :: "pystr option \<Rightarrow> (exn, 'w, (int \<times> fifa_player list) option) act"
  fb_cache :: "pystr option \<Rightarrow> int \<times> fifa_player list \<Rightarrow> (exn, 'w, unit) act"
  fb_ratings :: "int option \<Rightarrow> (exn, 'w, nat \<times> fifa_item list) act"
  fb_field :: "bytes option list \<Rightarrow> pystr list \<Rightarrow> formation \<Rightarrow> (pystr option \<times> bytes option) list \<Rightarrow> pystr option \<Rightarrow> (exn, 'w, bytes) act"
  fb_cards :: "bytes option list \<Rightarrow> formation \<Rightarrow> pystr \<Rightarrow> (exn, 'w, bytes) act"

text \<open>\<open>random.choice\<close>, which raises on an empty list.\<close>

definition choice :: "'w football_port \<Rightarrow> 'a list \<Rightarrow> (exn, 'w, 'a) act" where
  "choice port xs = (if xs = [] then raise (OtherExn (U ''IndexError'')) else draw_from (fb_draw port) xs)"

definition search_team :: "'w football_port \<Rightarrow> pystr \<Rightarrow> (exn, 'w, sports_team option) act" where
  "search_team port name =
     bindA (fb_search port name)
       (\<lambda>(status, teams). bindA (raise_for_status status)
         (\<lambda>_. ret (case teams of [] \<Rightarrow> None | t # _ \<Rightarrow> Some t)))"

subsection \<open>The command time\<close>

type_synonym table = "(pystr \<times> int \<times> pystr) list"

text \<open>The rank of a club and its name in the table; the later of two rows of a team counts.\<close>

definition team_table :: "squad_stats list \<Rightarrow> standing_row list \<Rightarrow> table" where
  "team_table clubs standings =
     (let rank_by_team = fold (\<lambda>r d. AList.update (sr_team r) (sr_rank r) d) standings [];
          pairs = pair (map sq_name clubs) (map fst rank_by_team)
      in rev (concat (map (\<lambda>club. case map_of pairs (sq_name club) of
            None \<Rightarrow> []
          | Some team \<Rightarrow> (case map_of rank_by_team team of None \<Rightarrow> [] | Some rank \<Rightarrow> [(sq_club_id club, rank, team)])) clubs)))"

definition league_data :: "'w football_port \<Rightarrow> league_info \<Rightarrow> (exn, 'w, squad_stats list \<times> table) act" where
  "league_data port league =
     bindA (market_clubs (fb_market port) (lg_tm_id league))
       (\<lambda>clubs. bindA (fetch_standings (fb_standings port) league None) (\<lambda>standings. ret (clubs, team_table clubs standings)))"

definition sports_team_of :: "'w football_port \<Rightarrow> pystr \<Rightarrow> (exn, 'w, sports_team option) act" where
  "sports_team_of port name = handleA (search_team port name) (\<lambda>e. if is_http_error e then ret None else raise e)"

definition SEASON_FOOTER :: "pystr \<Rightarrow> pystr" where
  "SEASON_FOOTER season = U ''{128197} Valores da temporada '' @ season"

definition club_caption ::
  "'w football_port \<Rightarrow> squad_stats \<Rightarrow> league_info option \<Rightarrow> (int \<times> pystr) option \<Rightarrow> nat option \<Rightarrow> (exn, 'w, pystr) act" where
  "club_caption port club league row global_rank =
     bindA (sports_team_of port (case row of None \<Rightarrow> sq_name club | Some (_, short) \<Rightarrow> short))
       (\<lambda>team. bindA (market_season (fb_market port))
         (\<lambda>season. ret (team_caption club team league (map_option fst row) global_rank @ [10] @ SEASON_FOOTER season)))"

definition club_reply :: "'w football_port \<Rightarrow> command_data \<Rightarrow> squad_stats \<Rightarrow> pystr \<Rightarrow> (exn, 'w, bot_message list) act" where
  "club_reply port d club caption = bindA (fb_get port (sq_badge_url club)) (\<lambda>b. ret [reply_image_buffer d b (Some caption)])"

definition LEAGUES_BY_TM_ID :: "pystr \<Rightarrow> league_info option" where
  "LEAGUES_BY_TM_ID i = find (\<lambda>l. lg_tm_id l = i) (rev LEAGUES)"

fun index_of :: "'a \<Rightarrow> 'a list \<Rightarrow> nat" where
  "index_of x [] = 0"
| "index_of x (y # ys) = (if x = y then 0 else Suc (index_of x ys))"

definition global_top_team :: "'w football_port \<Rightarrow> command_data \<Rightarrow> nat \<Rightarrow> (exn, 'w, bot_message list) act" where
  "global_top_team port d top_n =
     bindA (market_clubs (fb_market port) [])
       (\<lambda>clubs. bindA (choice port (take top_n clubs))
         (\<lambda>club. let league = LEAGUES_BY_TM_ID (sq_league_id club) in
            bindA (case league of Some l \<Rightarrow> bindA (league_data port l) (\<lambda>(_, t). ret t) | None \<Rightarrow> ret [])
              (\<lambda>t. bindA (club_caption port club league (map_of t (sq_club_id club)) (Some (index_of club clubs + 1)))
                (\<lambda>caption. club_reply port d club caption))))"

text \<open>The clubs among the first of the table; a club that is not in the table has rank 0.\<close>

definition ranked_clubs :: "table \<Rightarrow> nat \<Rightarrow> squad_stats list \<Rightarrow> squad_stats list" where
  "ranked_clubs t top_n clubs =
     filter (\<lambda>c. let rank = (case map_of t (sq_club_id c) of None \<Rightarrow> 0 | Some (r, _) \<Rightarrow> r) in 0 < rank \<and> rank \<le> int top_n) clubs"

definition random_team :: "'w football_port \<Rightarrow> command_data \<Rightarrow> parsed_command \<Rightarrow> (exn, 'w, bot_message list) act" where
  "random_team port d parsed =
     (let liga = (case dict_get (pc_options parsed) (U ''liga'') of None \<Rightarrow> [] | Some l \<Rightarrow> l) in
      case parsed_number parsed (U ''top'') of
        Inl e \<Rightarrow> raise e
      | Inr top_n \<Rightarrow>
          if 0 < top_n \<and> liga = [] then global_top_team port d top_n
          else bindA (if liga \<noteq> [] then ret liga else choice port MARKET_LEAGUE_CODES)
            (\<lambda>code. case find (\<lambda>l. lg_code l = code) LEAGUES of
               None \<Rightarrow> raise key_error
             | Some league \<Rightarrow>
                 bindA (league_data port league)
                   (\<lambda>(clubs, t).
                      if clubs = [] then ret [reply_text d (U ''N{227}o achei esse time. Tenta de novo! {9917}'')]
                      else let ranked = ranked_clubs t top_n clubs in
                        bindA (choice port (if ranked \<noteq> [] then ranked else clubs))
                          (\<lambda>club. bindA (club_caption port club (Some league) (map_of t (sq_club_id club)) None)
                            (\<lambda>caption. club_reply port d club caption)))))"

subsection \<open>Line-ups with images\<close>

definition GLOBAL_ROLE_POOL :: nat where "GLOBAL_ROLE_POOL = 100"

text \<open>An image that cannot be downloaded is none; the downloads run in the order of the list.\<close>

definition download_images :: "'w football_port \<Rightarrow> pystr list \<Rightarrow> (exn, 'w, bytes option list) act" where
  "download_images port =
     mapA (\<lambda>url. if url = [] then ret None
        else handleA (bindA (fb_get port url) (\<lambda>b. ret (Some b))) (\<lambda>e. if is_exception e then ret None else raise e))"

definition line_up :: "'w football_port \<Rightarrow> pystr option \<Rightarrow> formation \<Rightarrow> nat \<Rightarrow> (exn, 'w, market_player option list) act" where
  "line_up port league_code f top_n =
     (let league = (case league_code of None \<Rightarrow> None | Some c \<Rightarrow> if c = [] then None else find (\<lambda>l. lg_code l = c) LEAGUES) in
      bindA (market_players (fb_market port) (case league of Some l \<Rightarrow> lg_tm_id l | None \<Rightarrow> []))
        (\<lambda>players. ret (from_players (fb_shuffle port) players f
           (case league of Some _ \<Rightarrow> None | None \<Rightarrow> Some (if 0 < top_n then top_n else GLOBAL_ROLE_POOL)))))"

definition render_line_up ::
  "'w football_port \<Rightarrow> market_player option list \<Rightarrow> formation \<Rightarrow> pystr option \<Rightarrow> (exn, 'w, bytes) act" where
  "render_line_up port ordered f label =
     bindA (download_images port (map (\<lambda>p. case p of Some p \<Rightarrow> mk_photo_url p | None \<Rightarrow> []) ordered))
       (\<lambda>photos. bindA (download_images port (map (\<lambda>p. case p of Some p \<Rightarrow> mk_badge_url p | None \<Rightarrow> []) ordered))
         (\<lambda>badges.
            let names = map (\<lambda>p. case p of Some p \<Rightarrow> tm_name p | None \<Rightarrow> []) ordered;
                flags = map (\<lambda>p. case p of Some p \<Rightarrow> if mk_flag p = [] then None else Some (mk_flag p) | None \<Rightarrow> None) ordered
            in fb_field port photos names f (zip flags badges) label))"

definition full_line_up :: "'w football_port \<Rightarrow> pystr option \<Rightarrow> formation \<Rightarrow> nat \<Rightarrow> (exn, 'w, bytes \<times> pystr) act" where
  "full_line_up port league_code f top_n =
     bindA (line_up port league_code f top_n)
       (\<lambda>ordered.
          let total = sum_list (map tm_market_value (somes ordered));
              total_value = (if total = 0 then None else Some (format_euros total))
          in bindA (render_line_up port ordered f total_value)
               (\<lambda>img. bindA (market_season (fb_market port))
                 (\<lambda>season. ret (img,
                    U ''{9917} *Escala{231}{227}o Aleat{243}ria* {8212} '' @ fm_name f @
                    (case total_value of None \<Rightarrow> [] | Some v \<Rightarrow> U ''{10}{128176} '' @ v) @ [10] @ SEASON_FOOTER season))))"

subsection \<open>The ratings of EA\<close>

definition FIFA_CARD_PREFIX :: pystr where "FIFA_CARD_PREFIX = U ''https://ratings-images-prod.pulse.ea.com/''"
definition FIFA_RATINGS_TTL :: int where "FIFA_RATINGS_TTL = 7 * MICROS_PER_DAY"

definition FIFA_POSITION_IDS :: "(pystr \<times> int) list" where
  "FIFA_POSITION_IDS =
     [(U ''GK'', 0), (U ''RB'', 3), (U ''CB'', 5), (U ''LB'', 7), (U ''DM'', 10), (U ''CM'', 14), (U ''AM'', 18),
      (U ''RW'', 23), (U ''ST'', 25), (U ''LW'', 27)]"

definition trusted :: "pystr \<Rightarrow> pystr" where
  "trusted url = (if startswith url FIFA_CARD_PREFIX then url else [])"

definition fifa_player_of :: "fifa_item \<Rightarrow> fifa_player" where
  "fifa_player_of i =
     \<lparr>fi_name = (if it_common_name i \<noteq> [] then it_common_name i else it_first_name i @ [32] @ it_last_name i),
      fi_overall = it_overall i, fi_card_url = trusted (it_shield_url i)\<rparr>"

definition fetch_ratings :: "'w football_port \<Rightarrow> pystr option \<Rightarrow> (exn, 'w, fifa_player list) act" where
  "fetch_ratings port role =
     bindA (case role of
              None \<Rightarrow> ret None
            | Some r \<Rightarrow> if r = [] then ret None
                else (case map_of FIFA_POSITION_IDS r of None \<Rightarrow> raise key_error | Some i \<Rightarrow> ret (Some i)))
       (\<lambda>position. bindA (fb_ratings port position)
         (\<lambda>(status, items). bindA (raise_for_status status)
           (\<lambda>_. let players = map fifa_player_of items in
              if players = [] then raise (Raised ExternalServiceError (U ''Os ratings do EA FC n{227}o responderam agora. Tenta mais tarde! {9917}''))
              else bindA (fb_now port) (\<lambda>now. bindA (fb_cache port role (now, players)) (\<lambda>_. ret players)))))"

definition fifa_players :: "'w football_port \<Rightarrow> pystr option \<Rightarrow> (exn, 'w, fifa_player list) act" where
  "fifa_players port role =
     bindA (fb_cached port role)
       (\<lambda>cached. case cached of
          None \<Rightarrow> fetch_ratings port role
        | Some (since, players) \<Rightarrow>
            bindA (fb_now port) (\<lambda>now. if now - since < FIFA_RATINGS_TTL then ret players else fetch_ratings port role))"

definition fifa_role_pools :: "'w football_port \<Rightarrow> pystr list \<Rightarrow> (exn, 'w, fifa_player pools) act" where
  "fifa_role_pools port roles =
     (let ordered = sort (remdups roles) in
      bindA (mapA (\<lambda>r. fifa_players port (Some r)) ordered) (\<lambda>pools. ret (zip ordered pools)))"

definition fifa_line_up :: "'w football_port \<Rightarrow> formation \<Rightarrow> nat \<Rightarrow> (exn, 'w, bytes \<times> pystr) act" where
  "fifa_line_up port f top_n =
     bindA (fifa_role_pools port (specific_roles f))
       (\<lambda>pools.
          let per_role = (if 0 < top_n then top_n else GLOBAL_ROLE_POOL);
              ordered = assign_slots fi_name (map (\<lambda>(role, pool). (role, fb_sample port (take per_role pool))) pools) f;
              ratings = map fi_overall (somes ordered)
          in if ratings = [] then raise (OtherExn (U ''StatisticsError''))
             else let average = show_int (round_even (of_int (sum_list ratings) / of_nat (length ratings))) in
               bindA (download_images port (map (\<lambda>p. case p of Some p \<Rightarrow> fi_card_url p | None \<Rightarrow> []) ordered))
                 (\<lambda>cards. bindA (fb_cards port cards f (U ''OVR m{233}dio '' @ average))
                   (\<lambda>img. ret (img,
                      U ''{9917} *Escala{231}{227}o FIFA* {8212} '' @ fm_name f @ U ''{10}{11088} Overall m{233}dio: '' @ average))))"

definition full_team :: "'w football_port \<Rightarrow> command_data \<Rightarrow> parsed_command \<Rightarrow> (exn, 'w, bot_message list) act" where
  "full_team port d parsed =
     bindA (choice port FORMATIONS)
       (\<lambda>f. case parsed_number parsed (U ''top'') of
          Inl e \<Rightarrow> raise e
        | Inr top_n \<Rightarrow>
            bindA (full_line_up port (dict_get (pc_options parsed) (U ''liga'')) f top_n)
              (\<lambda>(img, caption). ret [reply_image_buffer d img (Some caption)]))"

definition fifa_team :: "'w football_port \<Rightarrow> command_data \<Rightarrow> parsed_command \<Rightarrow> (exn, 'w, bot_message list) act" where
  "fifa_team port d parsed =
     (if dict_get (pc_options parsed) (U ''liga'') \<notin> {None, Some []}
      then ret [reply_text d (U ''O time FIFA ainda n{227}o filtra por liga. Usa *,time fifa*! {9917}'')]
      else case parsed_number parsed (U ''top'') of
             Inl e \<Rightarrow> raise e
           | Inr top_n \<Rightarrow>
               bindA (choice port FORMATIONS)
                 (\<lambda>f. bindA (fifa_line_up port f top_n) (\<lambda>(img, caption). ret [reply_image_buffer d img (Some caption)])))"

definition team_execute :: "'w football_port \<Rightarrow> 'w exec" where
  "team_execute port = (\<lambda>d parsed.
     if U ''fifa'' \<in> pc_flags parsed then fifa_team port d parsed
     else if U ''full'' \<in> pc_flags parsed then full_team port d parsed
     else random_team port d parsed)"

subsection \<open>The command jogador\<close>

definition GLOBAL_POOL :: nat where "GLOBAL_POOL = 1000"
definition LEAGUE_POOL :: nat where "LEAGUE_POOL = 100"

definition POSITION_LABELS :: "(pystr \<times> pystr) list" where
  "POSITION_LABELS =
     [(U ''Goalkeeper'', U ''Goleiro''), (U ''Centre-Back'', U ''Zagueiro''), (U ''Left-Back'', U ''Lateral-Esquerdo''),
      (U ''Right-Back'', U ''Lateral-Direito''), (U ''Defensive Midfield'', U ''Volante''), (U ''Central Midfield'', U ''Meia Central''),
      (U ''Left Midfield'', U ''Meia-Esquerda''), (U ''Right Midfield'', U ''Meia-Direita''), (U ''Attacking Midfield'', U ''Meia Ofensivo''),
      (U ''Left Winger'', U ''Ponta Esquerda''), (U ''Right Winger'', U ''Ponta Direita''), (U ''Second Striker'', U ''Segundo Atacante''),
      (U ''Centre-Forward'', U ''Centroavante'')]"

definition FOOT_LABELS :: "(pystr \<times> pystr) list" where
  "FOOT_LABELS = [(U ''left'', U ''Esquerdo''), (U ''right'', U ''Direito''), (U ''both'', U ''Ambidestro'')]"

definition pool_size :: "nat \<Rightarrow> league_info option \<Rightarrow> nat" where
  "pool_size top_n league = (if 0 < top_n then top_n else case league of Some _ \<Rightarrow> LEAGUE_POOL | None \<Rightarrow> GLOBAL_POOL)"

definition birth_line :: "player_profile \<Rightarrow> pystr list" where
  "birth_line p =
     (let city = pp_birth_city p; country = pp_birth_country p in
      if city = [] \<and> country = [] then []
      else let name = nationality_pt country;
               parts = (if city = country then [name] else [city, name]);
               shown = join (U '', '') (filter (\<lambda>x. x \<noteq> []) parts);
               prefix = (if nationality_flag country \<noteq> [] then nationality_flag country else U ''{128205}'')
           in [prefix @ [32] @ shown])"

text \<open>
  \<open>centimeters\<close> is \<open>int(float(text))\<close>; a number of centimetres over 100 has two decimals, so its
  formatting is exact.
\<close>

definition height_of :: "(pystr \<Rightarrow> exn + nat) \<Rightarrow> pystr \<Rightarrow> exn + pystr" where
  "height_of centimeters text =
     (if text = [] then Inr []
      else map_sum id (\<lambda>n. show_nat (n div 100) @ [44] @ zfill 2 (n mod 100) @ U '' m'') (centimeters text))"

definition physical_line :: "(pystr \<Rightarrow> exn + nat) \<Rightarrow> player_profile \<Rightarrow> exn + pystr list" where
  "physical_line centimeters p =
     map_sum id
       (\<lambda>height.
          let foot = (case map_of FOOT_LABELS (pp_foot p) of None \<Rightarrow> [] | Some f \<Rightarrow> f) in
          if height \<noteq> [] \<and> foot \<noteq> [] then [U ''{128207} '' @ height @ U ''   {128095} '' @ foot]
          else if height \<noteq> [] then [U ''{128207} '' @ height]
          else if foot \<noteq> [] then [U ''{128095} '' @ foot] else [])
       (height_of centimeters (pp_height_cm p))"

definition player_caption :: "(pystr \<Rightarrow> exn + nat) \<Rightarrow> market_player \<Rightarrow> league_info option \<Rightarrow> pystr \<Rightarrow> exn + pystr" where
  "player_caption centimeters p league season =
     map_sum id
       (\<lambda>physical. join [10]
          ([[42] @ tm_name p @ U ''* {8212} '' @
              (case map_of POSITION_LABELS (tm_position p) of None \<Rightarrow> tm_position p | Some l \<Rightarrow> l), [],
            U ''{127874} '' @ show_int (mk_age p) @ U '' anos   '' @ mk_flag p @ [32] @ nationality_pt (mk_nationality p)] @
           birth_line (mk_profile p) @
           [U ''{127967}{65039} '' @ mk_club p @ [32] @ (case league of Some l \<Rightarrow> lg_flag l | None \<Rightarrow> [])] @
           physical @ [[], U ''{128176} '' @ format_euros (tm_market_value p), SEASON_FOOTER season]))
       (physical_line centimeters (mk_profile p))"

definition fifa_card :: "'w football_port \<Rightarrow> command_data \<Rightarrow> parsed_command \<Rightarrow> (exn, 'w, bot_message list) act" where
  "fifa_card port d parsed =
     (if dict_get (pc_options parsed) (U ''liga'') \<notin> {None, Some []}
      then ret [reply_text d (U ''A carta FIFA ainda n{227}o filtra por liga. Usa *,jogador fifa*! {9917}'')]
      else bindA (fifa_players port None)
        (\<lambda>all. let players = filter (\<lambda>p. fi_card_url p \<noteq> []) all in
           case parsed_number parsed (U ''top'') of
             Inl e \<Rightarrow> raise e
           | Inr top_n \<Rightarrow>
               bindA (choice port (if top_n \<noteq> 0 then take top_n players else players))
                 (\<lambda>p. bindA (fb_get port (fi_card_url p))
                   (\<lambda>card. ret [reply_image_buffer d card
                      (Some ([42] @ fi_name p @ U ''* {8212} {11088} '' @ show_int (fi_overall p)))]))))"

definition player_execute :: "'w football_port \<Rightarrow> (pystr \<Rightarrow> exn + nat) \<Rightarrow> 'w exec" where
  "player_execute port centimeters = (\<lambda>d parsed.
     if U ''fifa'' \<in> pc_flags parsed then fifa_card port d parsed
     else let liga = (case dict_get (pc_options parsed) (U ''liga'') of None \<Rightarrow> [] | Some l \<Rightarrow> l) in
       bindA (if liga = [] then ret None
              else case find (\<lambda>l. lg_code l = liga) LEAGUES of None \<Rightarrow> raise key_error | Some l \<Rightarrow> ret (Some l))
         (\<lambda>league. bindA (market_players (fb_market port) (case league of Some l \<Rightarrow> lg_tm_id l | None \<Rightarrow> []))
           (\<lambda>players. case parsed_number parsed (U ''top'') of
              Inl e \<Rightarrow> raise e
            | Inr top_n \<Rightarrow>
                let pool = take (pool_size top_n league) players in
                if pool = [] then ret [reply_text d (U ''N{227}o achei esse jogador. Tenta de novo! {9917}'')]
                else bindA (choice port pool)
                  (\<lambda>p. bindA (market_season (fb_market port))
                    (\<lambda>season. case player_caption centimeters p league season of
                       Inl e \<Rightarrow> raise e
                     | Inr caption \<Rightarrow>
                         bindA (fb_get port (mk_photo_url p)) (\<lambda>b. ret [reply_image_buffer d b (Some caption)]))))))"

end
