(* ===== verification/Web.thy ===== *)
theory Web
  imports Scores Content_Filter Catalogue
begin

text \<open>
  What the commands over a web service share: requests that answer with JSON, the reading of JSON as
  Python reads its dicts and lists, and the translator (bot/domain/services/translator.py).
\<close>

subsection \<open>JSON as Python reads it\<close>

definition index_error :: exn where "index_error = OtherExn (U ''IndexError'')"
definition json_decode_error :: exn where "json_decode_error = OtherExn (U ''JSONDecodeError'')"

text \<open>\<open>v.get(k, other)\<close>, \<open>v[k]\<close> and \<open>v[i]\<close>; a text is indexed by its characters.\<close>

definition json_get :: "json \<Rightarrow> pystr \<Rightarrow> json \<Rightarrow> (exn, 'w, json) act" where
  "json_get v k other =
     (case v of JObj d \<Rightarrow> ret (case dict_get d k of None \<Rightarrow> other | Some x \<Rightarrow> x) | _ \<Rightarrow> raise attribute_error)"

definition json_key :: "json \<Rightarrow> pystr \<Rightarrow> (exn, 'w, json) act" where
  "json_key v k =
     (case v of JObj d \<Rightarrow> (case dict_get d k of None \<Rightarrow> raise key_error | Some x \<Rightarrow> ret x) | _ \<Rightarrow> raise type_error)"

definition json_at :: "json \<Rightarrow> nat \<Rightarrow> (exn, 'w, json) act" where
  "json_at v i =
     (case v of
        JArr xs \<Rightarrow> if i < length xs then ret (xs ! i) else raise index_error
      | JStr s \<Rightarrow> if i < length s then ret (JStr [s ! i]) else raise index_error
      | JObj _ \<Rightarrow> raise key_error
      | _ \<Rightarrow> raise type_error)"

definition json_items :: "json \<Rightarrow> (exn, 'w, json list) act" where
  "json_items v =
     (case v of
        JArr xs \<Rightarrow> ret xs
      | JStr s \<Rightarrow> ret (map (\<lambda>c. JStr [c]) s)
      | JObj d \<Rightarrow> ret (map (JStr \<circ> fst) d)
      | _ \<Rightarrow> raise type_error)"

text \<open>A text where a method of \<open>str\<close> or \<open>str.join\<close> needs one.\<close>

definition text_of :: "exn \<Rightarrow> json \<Rightarrow> (exn, 'w, pystr) act" where
  "text_of e v = (case v of JStr s \<Rightarrow> ret s | _ \<Rightarrow> raise e)"

text \<open>\<open>split\<close> on a character the text does not hold before it.\<close>

lemma split_on_free: "d \<notin> set s \<Longrightarrow> split_on d s = [s]"
  by (induction s) auto

lemma split_on_append: "d \<notin> set s \<Longrightarrow> split_on d (s @ d # r) = s # split_on d r"
  by (induction s) auto

subsection \<open>Requests\<close>

text \<open>
  \<open>wb_get\<close> is \<open>HttpClient.get\<close>: the status and the body as JSON, none where it is no JSON.  \<open>wb_str\<close>
  is \<open>str\<close> of a value that is no text.
\<close>

record 'w web =
  wb_get :: "pystr \<Rightarrow> (pystr \<times> json) list \<Rightarrow> (exn, 'w, nat \<times> json option) act"
  wb_buffer :: "pystr \<Rightarrow> (exn, 'w, bytes) act"
  wb_draw :: "(exn, 'w, nat) act"
  wb_str :: "json \<Rightarrow> pystr"

definition json_of :: "json option \<Rightarrow> (exn, 'w, json) act" where
  "json_of body = (case body of None \<Rightarrow> raise json_decode_error | Some v \<Rightarrow> ret v)"

text \<open>A request whose status is checked and whose JSON is read.\<close>

definition fetch_json :: "'w web \<Rightarrow> pystr \<Rightarrow> (pystr \<times> json) list \<Rightarrow> (exn, 'w, json) act" where
  "fetch_json web url params =
     bindA (wb_get web url params) (\<lambda>(status, body). bindA (raise_for_status status) (\<lambda>_. json_of body))"

definition fmt :: "'w web \<Rightarrow> json \<Rightarrow> pystr" where
  "fmt web v = (case v of JStr s \<Rightarrow> s | _ \<Rightarrow> wb_str web v)"

definition or_text :: "'w web \<Rightarrow> json \<Rightarrow> pystr \<Rightarrow> pystr" where
  "or_text web v other = (if truthy v then fmt web v else other)"

text \<open>\<open>except Exception\<close>: a reply of the command instead of the error.\<close>

definition or_reply :: "(exn, 'w, 'a) act \<Rightarrow> 'a \<Rightarrow> (exn, 'w, 'a) act" where
  "or_reply m reply = handleA m (\<lambda>e. if is_exception e then ret reply else raise e)"

subsection \<open>The translator\<close>

definition DICTIONARY_URL :: pystr where "DICTIONARY_URL = U ''https://translate.googleapis.com/translate_a/t''"
definition TRANSLATE_URL :: pystr where "TRANSLATE_URL = U ''https://translate.googleapis.com/translate_a/single''"

definition translate_web :: "'w web \<Rightarrow> (pystr \<times> json) list \<Rightarrow> (exn, 'w, json) act" where
  "translate_web web params =
     bindA (fetch_json web TRANSLATE_URL ([(U ''client'', JStr (U ''gtx'')), (U ''dt'', JStr (U ''t''))] @ params))
       (\<lambda>body. bindA (json_at body 0)
         (\<lambda>segments. bindA (json_items segments)
           (\<lambda>segs. bindA (mapA (\<lambda>seg. json_at seg 0) segs)
             (\<lambda>heads. bindA (mapA (text_of type_error) (filter truthy heads)) (\<lambda>texts. ret (JStr (concat texts)))))))"

definition translate_dictionary :: "'w web \<Rightarrow> (pystr \<times> json) list \<Rightarrow> (exn, 'w, json) act" where
  "translate_dictionary web params =
     bindA (fetch_json web DICTIONARY_URL ((U ''client'', JStr (U ''dict-chrome-ex'')) # params)) (\<lambda>body. json_at body 0)"

definition translation_error :: "exn \<Rightarrow> bool" where
  "translation_error e \<longleftrightarrow> is_http_error e \<or> e \<in> {key_error, index_error, type_error}"

definition translate_text :: "'w web \<Rightarrow> json \<Rightarrow> pystr \<Rightarrow> pystr \<Rightarrow> (exn, 'w, json) act" where
  "translate_text web txt source target =
     (let params = [(U ''sl'', JStr source), (U ''tl'', JStr target), (U ''q'', txt)];
          guarded = (\<lambda>m f. handleA m (\<lambda>e. if translation_error e then f else raise e))
      in guarded (translate_dictionary web params) (guarded (translate_web web params) (ret txt)))"

definition to_pt :: "'w web \<Rightarrow> json \<Rightarrow> (exn, 'w, json) act" where
  "to_pt web txt = translate_text web txt (U ''en'') (U ''pt'')"

text \<open>
  An answer that is no JSON, such as the page on unusual traffic with status 200, is a
  \<open>JSONDecodeError\<close>, which is not among the errors of the translator: the text is then not sent as
  it is, and the other service is not asked.
\<close>

definition page_web :: "unit web" where
  "page_web = \<lparr>wb_get = (\<lambda>_ _. ret (200, None)), wb_buffer = (\<lambda>_. ret []), wb_draw = ret 0, wb_str = (\<lambda>_. [])\<rparr>"

lemma page_answer_escapes: "to_pt page_web txt () = (Inl json_decode_error, ())"
proof -
  have "\<not> translation_error json_decode_error" by code_simp
  then show ?thesis
    by (simp add: to_pt_def translate_text_def Let_def translate_dictionary_def fetch_json_def page_web_def
      raise_for_status_def json_of_def handleA_def bindA_def raise_def ret_def)
qed

end
