(* ===== verification/Opgg.thy ===== *)
theory Opgg
  imports Web
begin

text \<open>
  The builds of OP.GG (bot/infrastructure/opgg_client.py) and the command \<open>lol\<close>
  (bot/domain/commands/league_of_legends.py, bot/data/league_of_legends.py).  OP.GG answers with a
  text of its own: the fields of some classes, one class in a line, and then one object, written as
  nested constructor calls.
\<close>

subsection \<open>The format of OP.GG\<close>

text \<open>
  The values of Python the parser returns; \<open>'f\<close> is the type of the floats.  \<open>ol_json\<close> is
  \<open>json.loads\<close>, none for a \<open>JSONDecodeError\<close>; \<open>ol_literal\<close> is \<open>ast.literal_eval\<close>, none for any
  exception; \<open>ol_float\<close> is \<open>float\<close>, none for a \<open>ValueError\<close>; \<open>ol_whole\<close> is the integer a float is
  equal to, and \<open>ol_str\<close> is \<open>str\<close>.  \<open>OOther\<close> is a value of another type, by its text.
\<close>

datatype 'f og_value =
    OInt int
  | OFloat 'f
  | OStr pystr
  | OBool bool
  | OOther pystr
  | OList "'f og_value list"
  | ODict "(pystr \<times> 'f og_value) list"

record 'f og_lib =
  ol_json :: "pystr \<Rightarrow> 'f og_value option"
  ol_literal :: "pystr \<Rightarrow> 'f og_value option"
  ol_float :: "pystr \<Rightarrow> 'f option"
  ol_whole :: "'f \<Rightarrow> int option"
  ol_str :: "'f og_value \<Rightarrow> pystr"

text \<open>
  \<open>_split_args\<close>: a comma separates when no parenthesis is open and the text is in no list.  The
  arguments are the depth of the parentheses, \<open>in_list\<close>, the depth of the brackets, and the
  argument read so far, backwards.
\<close>

fun split_args_go :: "int \<Rightarrow> bool \<Rightarrow> int \<Rightarrow> pystr \<Rightarrow> pystr \<Rightarrow> pystr list" where
  "split_args_go depth in_list ld acc [] = [strip (rev acc)]"
| "split_args_go depth in_list ld acc (c # cs) =
     (if c = 91 then split_args_go depth True (ld + 1) (c # acc) cs
      else if c = 93 then split_args_go depth (if ld - 1 = 0 then False else in_list) (ld - 1) (c # acc) cs
      else if c = 40 then split_args_go (depth + 1) in_list ld (c # acc) cs
      else if c = 41 then split_args_go (depth - 1) in_list ld (c # acc) cs
      else if c = 44 \<and> depth = 0 \<and> \<not> in_list then strip (rev acc) # split_args_go depth in_list ld [] cs
      else split_args_go depth in_list ld (c # acc) cs)"

definition split_args :: "pystr \<Rightarrow> pystr list" where
  "split_args data = split_args_go 0 False 0 [] data"

text \<open>
  \<open>re.fullmatch(r'(\w+)\((.*)\)')\<close> with its groups: a word holds no parenthesis, so the first group
  ends at the first one, and the dot takes everything but a line feed.
\<close>

definition call_parts :: "pystr \<Rightarrow> (pystr \<times> pystr) option" where
  "call_parts arg =
     (let name = takeWhile is_word_cp arg in
      case dropWhile is_word_cp arg of
        [] \<Rightarrow> None
      | c # r \<Rightarrow>
          if c = 40 \<and> name \<noteq> [] \<and> r \<noteq> [] \<and> last r = 41 \<and> 10 \<notin> set (butlast r) then Some (name, butlast r) else None)"

type_synonym og_fields = "(pystr \<times> pystr list) list"

definition og_endswith :: "pystr \<Rightarrow> nat \<Rightarrow> bool" where
  "og_endswith s c \<longleftrightarrow> s \<noteq> [] \<and> last s = c"

definition parse_list :: "'f og_lib \<Rightarrow> pystr \<Rightarrow> 'f og_value" where
  "parse_list lib text = (case ol_literal lib text of Some v \<Rightarrow> v | None \<Rightarrow> OList [OStr text])"

definition is_quoted :: "pystr \<Rightarrow> bool" where
  "is_quoted t \<longleftrightarrow> startswith t [34] \<and> og_endswith t 34 \<or> startswith t [39] \<and> og_endswith t 39"

definition parse_value :: "'f og_lib \<Rightarrow> pystr \<Rightarrow> 'f og_value" where
  "parse_value lib text0 =
     (let text = strip text0 in
      case int_of_text text of
        Some i \<Rightarrow> OInt i
      | None \<Rightarrow>
          (case ol_float lib text of
             Some f \<Rightarrow> OFloat f
           | None \<Rightarrow> if is_quoted text then OStr (butlast (tl text)) else OStr text))"

text \<open>The field of an argument: the declared name, or \<open>field_i\<close>; a dict keeps the later of two.\<close>

definition field_name :: "pystr list \<Rightarrow> nat \<Rightarrow> pystr" where
  "field_name names i = (if i < length names then names ! i else U ''field_'' @ show_nat i)"

definition name_args :: "pystr list \<Rightarrow> 'f og_value list \<Rightarrow> (pystr \<times> 'f og_value) list" where
  "name_args names vs =
     fold (\<lambda>(i, v) d. AList.update (field_name names i) v d) (zip [0..<length vs] vs) []"

definition fields_of :: "og_fields \<Rightarrow> pystr \<Rightarrow> pystr list" where
  "fields_of fm context = (case map_of fm context of None \<Rightarrow> [] | Some fs \<Rightarrow> fs)"

lemma split_args_go_length: "x \<in> set (split_args_go d b l acc cs) \<Longrightarrow> length x \<le> length acc + length cs"
proof (induction d b l acc cs rule: split_args_go.induct)
  case (1 d b l acc)
  then show ?case using length_strip_by [of _ "rev acc"] by simp
next
  case (2 d b l acc c cs)
  have "length (strip (rev acc)) \<le> length acc" using length_strip_by [of _ "rev acc"] by simp
  with 2 show ?case by (auto split: if_splits)
qed

lemma split_args_length: "x \<in> set (split_args s) \<Longrightarrow> length x \<le> length s"
  unfolding split_args_def using split_args_go_length [of x 0 False 0 "[]" s] by simp

lemma call_parts_length: "call_parts s = Some (c, body) \<Longrightarrow> length body < length s"
proof -
  assume "call_parts s = Some (c, body)"
  then obtain r where r: "dropWhile is_word_cp s = 40 # r" "body = butlast r"
    by (auto simp: call_parts_def Let_def split: list.splits if_splits)
  have "length (dropWhile is_word_cp s) \<le> length s" by (rule length_dropWhile_le)
  with r show ?thesis by simp
qed

function parse_arg :: "'f og_lib \<Rightarrow> og_fields \<Rightarrow> pystr \<Rightarrow> 'f og_value" where
  "parse_arg lib fm arg0 =
     (let arg = strip arg0 in
      if startswith arg [91] \<and> og_endswith arg 93 then parse_list lib arg
      else case (if 40 \<in> set arg \<and> og_endswith arg 41 then call_parts arg else None) of
             Some (cls, body) \<Rightarrow>
               ODict (name_args (fields_of fm (lower cls)) (map (parse_arg lib fm) (split_args body)))
           | None \<Rightarrow> parse_value lib arg)"
  by pat_completeness auto
termination
proof (relation "measure (\<lambda>(_, _, arg). length arg)", goal_cases)
  case 1
  then show ?case by simp
next
  case (2 lib fm arg0 arg p cls body x)
  then have "call_parts (strip arg0) = Some (cls, body)" by (auto split: if_splits)
  with call_parts_length have "length body < length (strip arg0)" by blast
  moreover have "length x \<le> length body" using 2 by (intro split_args_length) simp
  moreover have "length (strip arg0) \<le> length arg0" by (rule length_strip_by)
  ultimately show ?case by simp
qed

declare parse_arg.simps [simp del]

definition parse_nested :: "'f og_lib \<Rightarrow> og_fields \<Rightarrow> pystr \<Rightarrow> pystr \<Rightarrow> (pystr \<times> 'f og_value) list" where
  "parse_nested lib fm context data =
     name_args (fields_of fm context) (map (parse_arg lib fm) (split_args data))"


subsection \<open>A whole answer\<close>

text \<open>\<open>re.prefixmatch(r'class (\w+): (.+)', line)\<close> on a line, which holds no line feed.\<close>

definition class_line :: "pystr \<Rightarrow> (pystr \<times> pystr list) option" where
  "class_line line =
     (let r = removeprefix (U ''class '') line;
          name = takeWhile is_word_cp r;
          rest = dropWhile is_word_cp r
      in if startswith line (U ''class '') \<and> name \<noteq> [] \<and> startswith rest (U '': '') \<and> drop 2 rest \<noteq> []
         then Some (lower name, map strip (split_on 44 (drop 2 rest))) else None)"

definition class_fields :: "pystr list \<Rightarrow> og_fields" where
  "class_fields lines =
     fold (\<lambda>l fm. case class_line l of None \<Rightarrow> fm | Some (c, fs) \<Rightarrow> AList.update c fs fm) lines []"

text \<open>
  \<open>re.search(r'(\w+)\(([\s\S]*)\)$', text)\<close>: the leftmost word that a parenthesis follows, and what
  stands between that parenthesis and the last character of the text, which has to close it.
\<close>

fun root_call :: "pystr \<Rightarrow> pystr \<Rightarrow> (pystr \<times> pystr) option" where
  "root_call word [] = None"
| "root_call word (c # cs) =
     (if c = 40 \<and> word \<noteq> [] then (if cs \<noteq> [] \<and> last cs = 41 then Some (rev word, butlast cs) else None)
      else root_call (if is_word_cp c then c # word else []) cs)"

definition parse_custom_format :: "'f og_lib \<Rightarrow> pystr \<Rightarrow> 'f og_value" where
  "parse_custom_format lib text0 =
     (let text = strip text0; fm = class_fields (split_on 10 text) in
      case root_call [] text of
        None \<Rightarrow> ODict []
      | Some (cls, data) \<Rightarrow> ODict [(lower cls, ODict (parse_nested lib fm (lower cls) data))])"

subsection \<open>The client\<close>

text \<open>
  \<open>op_session\<close> and \<open>op_set_session\<close> are the session of the client, \<open>op_post\<close> posts a request and
  returns the status and the JSON of the answer.  What is no \<open>OpggMcpError\<close> becomes one in
  \<open>get_champion_analysis\<close>, so the other exceptions are not told apart.
\<close>

record ('w, 'f) opgg_port =
  op_session :: "(exn, 'w, json) act"
  op_set_session :: "json \<Rightarrow> (exn, 'w, unit) act"
  op_post :: "json \<Rightarrow> (exn, 'w, nat \<times> json) act"
  op_lib :: "'f og_lib"

definition mcp_error :: exn where "mcp_error = OtherExn (U ''OpggMcpError'')"

definition mcp_request :: "pystr \<Rightarrow> json \<Rightarrow> int \<Rightarrow> json" where
  "mcp_request rpc_method params i =
     JObj [(U ''jsonrpc'', JStr (U ''2.0'')), (U ''method'', JStr rpc_method), (U ''params'', params), (U ''id'', JNum (of_int i))]"

definition post_mcp :: "('w, 'f) opgg_port \<Rightarrow> json \<Rightarrow> (exn, 'w, json) act" where
  "post_mcp port req =
     bindA (op_post port req)
       (\<lambda>(status, data). bindA (raise_for_status status)
         (\<lambda>_. case data of
            JObj d \<Rightarrow> if dict_get d (U ''error'') \<noteq> None then raise mcp_error
                      else ret (case dict_get d (U ''result'') of None \<Rightarrow> JObj [] | Some r \<Rightarrow> r)
          | _ \<Rightarrow> raise type_error))"

definition initialize_mcp :: "('w, 'f) opgg_port \<Rightarrow> (exn, 'w, unit) act" where
  "initialize_mcp port =
     bindA (post_mcp port (mcp_request (U ''initialize'')
       (JObj [(U ''protocolVersion'', JStr (U ''2024-11-05'')), (U ''capabilities'', JObj []),
              (U ''clientInfo'', JObj [(U ''name'', JStr (U ''resenhazord2'')), (U ''version'', JStr (U ''1.0.0''))])]) 1))
       (\<lambda>result. bindA (json_get result (U ''protocolVersion'') (JStr (U ''1.0.0''))) (op_set_session port))"

definition call_tool :: "('w, 'f) opgg_port \<Rightarrow> pystr \<Rightarrow> json \<Rightarrow> (exn, 'w, json) act" where
  "call_tool port tool args =
     post_mcp port (mcp_request (U ''tools/call'') (JObj [(U ''name'', JStr tool), (U ''arguments'', args)]) 2)"

fun first_text :: "'f og_lib \<Rightarrow> json list \<Rightarrow> (exn, 'w, 'f og_value) act" where
  "first_text lib [] = raise mcp_error"
| "first_text lib (item # items) =
     bindA (json_get item (U ''type'') JNull)
       (\<lambda>t. if t = JStr (U ''text'')
            then (case item of
                    JObj d \<Rightarrow>
                      (case dict_get d (U ''text'') of
                         Some (JStr text) \<Rightarrow> ret (case ol_json lib text of Some v \<Rightarrow> v | None \<Rightarrow> parse_custom_format lib text)
                       | _ \<Rightarrow> raise type_error)
                  | _ \<Rightarrow> raise type_error)
            else first_text lib items)"

definition parse_result :: "'f og_lib \<Rightarrow> json \<Rightarrow> (exn, 'w, 'f og_value) act" where
  "parse_result lib result =
     (if \<not> truthy result then raise mcp_error
      else bindA (json_get result (U ''content'') (JArr []))
        (\<lambda>content. if \<not> truthy content then raise mcp_error
           else case content of JArr items \<Rightarrow> first_text lib items | _ \<Rightarrow> raise type_error))"

definition champion_upper :: "pystr \<Rightarrow> pystr" where
  "champion_upper name = replace_str [39] [] (replace_str [32] [95] (upper name))"

definition DESIRED_FIELDS :: "pystr list" where
  "DESIRED_FIELDS =
     [U ''data.summary.{123}id,is_rip,is_rotation,roles{125}'',
      U ''data.core_items.{123}ids,ids_names,pick_rate,play,win{125}'',
      U ''data.starter_items.{123}ids,ids_names,pick_rate,play,win{125}'',
      U ''data.runes.{123}id,pick_rate,play,primary_page_name,primary_rune_names,secondary_page_name,secondary_rune_names,stat_mod_ids,stat_mod_names,win{125}'',
      U ''data.summoner_spells.{123}ids,ids_names,pick_rate,play,win{125}'',
      U ''data.boots.{123}ids,ids_names,pick_rate,play,win{125}'']"

definition get_champion_analysis :: "('w, 'f) opgg_port \<Rightarrow> pystr \<Rightarrow> (exn, 'w, 'f og_value) act" where
  "get_champion_analysis port champion =
     handleA
       (bindA (op_session port)
         (\<lambda>session. bindA (if truthy session then ret () else initialize_mcp port)
           (\<lambda>_. bindA (call_tool port (U ''lol_get_champion_analysis'')
               (JObj [(U ''champion'', JStr (champion_upper champion)), (U ''game_mode'', JStr (U ''ranked'')),
                      (U ''position'', JStr (U ''mid'')), (U ''lang'', JStr (U ''pt_BR'')),
                      (U ''desired_output_fields'', JArr (map JStr DESIRED_FIELDS))]))
             (parse_result (op_lib port)))))
       (\<lambda>e. if is_exception e then raise mcp_error else raise e)"

subsection \<open>The command lol\<close>

definition LOL_ROLE_EMOJIS :: "(pystr \<times> pystr) list" where
  "LOL_ROLE_EMOJIS =
     [(U ''Fighter'', U ''{9876}{65039}''), (U ''Tank'', U ''{128737}{65039}''), (U ''Mage'', U ''{128302}''),
      (U ''Assassin'', U ''{128481}{65039}''), (U ''Marksman'', U ''{127993}''), (U ''Support'', U ''{128154}'')]"

definition LOL_SPELL_BY_ID :: "(int \<times> pystr) list" where
  "LOL_SPELL_BY_ID =
     [(4, U ''Flash''), (1, U ''Cleanse''), (3, U ''Exhaust''), (6, U ''Ghost''), (7, U ''Heal''), (11, U ''Smite''),
      (12, U ''Ignite''), (13, U ''Teleport''), (14, U ''Mark''), (21, U ''Barrier''), (32, U ''Snowball''),
      (33, U ''Poro''), (34, U ''Tooth'')]"

definition LOL_SPELL_EMOJIS :: "(pystr \<times> pystr) list" where
  "LOL_SPELL_EMOJIS =
     [(U ''Flash'', U ''{10024}''), (U ''Ignite'', U ''{128293}''), (U ''Teleport'', U ''{127744}''),
      (U ''Smite'', U ''{9889}''), (U ''Heal'', U ''{128154}''), (U ''Exhaust'', U ''{127786}{65039}''),
      (U ''Ghost'', U ''{128123}''), (U ''Cleanse'', U ''{128167}''), (U ''Barrier'', U ''{128737}{65039}''),
      (U ''Mark'', U ''{127919}''), (U ''Dash'', U ''{127939}'')]"

definition LOL_VALID_SPELLS :: "pystr list" where
  "LOL_VALID_SPELLS =
     [U ''Flash'', U ''Ignite'', U ''Teleport'', U ''Smite'', U ''Heal'', U ''Exhaust'', U ''Ghost'', U ''Cleanse'',
      U ''Barrier'']"

definition LOL_ITEM_EMOJIS :: "(pystr \<times> pystr) list" where
  "LOL_ITEM_EMOJIS =
     [(U ''Malevol{234}ncia'', U ''{128995}''), (U ''Chama Sombria'', U ''{128156}''),
      (U ''Ampulheta de Zhonya'', U ''{128737}{65039}''), (U ''Sapatos do Feiticeiro'', U ''{128095}''),
      (U ''Doran{39}s Ring'', U ''{128141}''), (U ''Health Potion'', U ''{10084}{65039}''),
      (U ''Infinity Edge'', U ''{128299}''), (U ''Runaans Hurricane'', U ''{9876}{65039}''),
      (U ''Rapid Firecannon'', U ''{128168}''), (U ''Stormrazor'', U ''{127785}{65039}''),
      (U ''Phantom Dancer'', U ''{128123}''), (U ''Lord Dominik{39}s Regards'', U ''{128128}''),
      (U ''Mortal Reminder'', U ''{128148}''), (U ''The Collector'', U ''{127919}''),
      (U ''Galeforce'', U ''{127786}{65039}''), (U ''Kraken Slayer'', U ''{9889}''),
      (U ''Immortal Shieldbow'', U ''{128737}{65039}''), (U ''Blade of the Ruined King'', U ''{128481}{65039}''),
      (U ''Wit{39}s End'', U ''{129504}''), (U ''Terminus'', U ''{10036}{65039}''),
      (U ''Mercurial Scimitar'', U ''{9876}{65039}''), (U ''Bloodthirster'', U ''{129656}''),
      (U ''Death{39}s Dance'', U ''{128128}''), (U ''Chempunk Chainsword'', U ''{9939}{65039}''),
      (U ''Guardian Angel'', U ''{128124}''), (U ''Muramana'', U ''{128167}''), (U ''Manamune'', U ''{128220}''),
      (U ''Serylda{39}s Grudge'', U ''{10052}{65039}''), (U ''Black Cleaver'', U ''{129683}''),
      (U ''Youmuu{39}s Ghostblade'', U ''{127761}''), (U ''Duskblade of Draktharr'', U ''{129410}''),
      (U ''Eclipse'', U ''{127768}''), (U ''Prowler{39}s Claw'', U ''{128062}''), (U ''Axiom Arc'', U ''{128208}''),
      (U ''Anathema{39}s Chains'', U ''{9939}{65039}''), (U ''Randuin{39}s Omen'', U ''{128737}{65039}''),
      (U ''Frozen Heart'', U ''{128142}''), (U ''Sunfire Aegis'', U ''{128293}''), (U ''Thornmail'', U ''{127797}''),
      (U ''Abyssal Mask'', U ''{127917}''), (U ''Kaenic Rookern'', U ''{129704}''),
      (U ''Unending Despair'', U ''{128128}''), (U ''Force of Nature'', U ''{127788}{65039}''),
      (U ''Spirit Visage'', U ''{128122}''), (U ''Chemtech Putrifier'', U ''{129514}''),
      (U ''Mikael{39}s Blessing'', U ''{10024}''), (U ''Ardent Censer'', U ''{128255}''),
      (U ''Redemption'', U ''{128150}''), (U ''Imperial Mandate'', U ''{128081}''),
      (U ''Harmonic Echo'', U ''{127925}''), (U ''Dream Maker'', U ''{128171}''), (U ''Bloodsong'', U ''{127926}''),
      (U ''Voltaic Cyclosword'', U ''{9889}'')]"

text \<open>
  \<open>get\<close>, a slice and an index on a value: what is no dict, list or text raises.  The keys of a dict
  of integers are equal to whole floats and to booleans.
\<close>

definition og_get :: "'f og_value \<Rightarrow> pystr \<Rightarrow> 'f og_value \<Rightarrow> (exn, 'w, 'f og_value) act" where
  "og_get v k other =
     (case v of ODict d \<Rightarrow> ret (case map_of d k of None \<Rightarrow> other | Some x \<Rightarrow> x) | _ \<Rightarrow> raise attribute_error)"

definition og_truthy :: "'f og_lib \<Rightarrow> 'f og_value \<Rightarrow> bool" where
  "og_truthy lib v =
     (case v of OInt i \<Rightarrow> i \<noteq> 0 | OFloat f \<Rightarrow> ol_whole lib f \<noteq> Some 0 | OStr s \<Rightarrow> s \<noteq> [] | OBool b \<Rightarrow> b
      | OOther t \<Rightarrow> t \<noteq> U ''None'' | OList xs \<Rightarrow> xs \<noteq> [] | ODict d \<Rightarrow> d \<noteq> [])"

definition og_take :: "nat \<Rightarrow> 'f og_value \<Rightarrow> (exn, 'w, 'f og_value list) act" where
  "og_take n v =
     (case v of OList xs \<Rightarrow> ret (take n xs) | OStr s \<Rightarrow> ret (map (\<lambda>c. OStr [c]) (take n s)) | _ \<Rightarrow> raise type_error)"

definition hashable :: "'f og_value \<Rightarrow> bool" where
  "hashable v = (case v of OList _ \<Rightarrow> False | ODict _ \<Rightarrow> False | _ \<Rightarrow> True)"

definition item_icon :: "'f og_lib \<Rightarrow> 'f og_value \<Rightarrow> (exn, 'w, pystr) act" where
  "item_icon lib v =
     (if \<not> hashable v then raise type_error
      else ret ((case v of OStr s \<Rightarrow> (case map_of LOL_ITEM_EMOJIS s of None \<Rightarrow> U ''{128230}'' | Some e \<Rightarrow> e) | _ \<Rightarrow> U ''{128230}'') @
        [32] @ ol_str lib v))"

definition item_lines :: "'f og_lib \<Rightarrow> 'f og_value \<Rightarrow> (exn, 'w, pystr list) act" where
  "item_lines lib data =
     bindA (og_get data (U ''core_items'') (ODict []))
       (\<lambda>core. bindA (og_get core (U ''ids_names'') (OList []))
         (\<lambda>names. if \<not> og_truthy lib names then ret []
            else bindA (og_get core (U ''win'') (OInt 0))
              (\<lambda>win. bindA (og_take 4 names)
                (\<lambda>four. bindA (mapA (item_icon lib) four)
                  (\<lambda>icons. ret [U ''{128737}{65039} Build ('' @ ol_str lib win @ U '' jogos):'', join (U ''  '') icons])))))"

definition boot_lines :: "'f og_lib \<Rightarrow> 'f og_value \<Rightarrow> (exn, 'w, pystr list) act" where
  "boot_lines lib data =
     bindA (og_get data (U ''boots'') (ODict []))
       (\<lambda>boots. bindA (og_get boots (U ''ids_names'') (OList []))
         (\<lambda>names. if \<not> og_truthy lib names then ret []
            else bindA (og_take 1 names)
              (\<lambda>first. case first of [] \<Rightarrow> raise type_error | b # _ \<Rightarrow> ret [U ''{128095} '' @ ol_str lib b])))"

definition og_text :: "'f og_value \<Rightarrow> (exn, 'w, pystr) act" where
  "og_text v = (case v of OStr s \<Rightarrow> ret s | _ \<Rightarrow> raise type_error)"

definition rune_part :: "'f og_lib \<Rightarrow> 'f og_value \<Rightarrow> 'f og_value \<Rightarrow> (exn, 'w, pystr) act" where
  "rune_part lib page runes =
     bindA (og_take 2 runes) (\<lambda>two. bindA (mapA og_text two) (\<lambda>texts. ret (ol_str lib page @ U '': '' @ join (U '', '') texts)))"

definition rune_lines :: "'f og_lib \<Rightarrow> 'f og_value \<Rightarrow> (exn, 'w, pystr list) act" where
  "rune_lines lib data =
     bindA (og_get data (U ''runes'') (ODict []))
       (\<lambda>runes. bindA (og_get runes (U ''primary_page_name'') (OStr []))
         (\<lambda>primary. bindA (og_get runes (U ''primary_rune_names'') (OList []))
           (\<lambda>primary_runes. bindA (og_get runes (U ''secondary_page_name'') (OStr []))
             (\<lambda>secondary. bindA (og_get runes (U ''secondary_rune_names'') (OList []))
               (\<lambda>secondary_runes.
                  if \<not> og_truthy lib primary \<or> \<not> og_truthy lib primary_runes then ret []
                  else bindA (rune_part lib primary primary_runes)
                    (\<lambda>line. bindA (if og_truthy lib secondary \<and> og_truthy lib secondary_runes
                        then bindA (rune_part lib secondary secondary_runes) (\<lambda>l. ret (U ''  {8226}  '' @ l)) else ret [])
                      (\<lambda>more. ret [U ''{127942} Runes: '' @ line @ more])))))))"

definition spell_name :: "'f og_lib \<Rightarrow> 'f og_value \<Rightarrow> (exn, 'w, pystr) act" where
  "spell_name lib v =
     (if \<not> hashable v then raise type_error
      else let key = (case v of OInt i \<Rightarrow> Some i | OFloat f \<Rightarrow> ol_whole lib f | OBool b \<Rightarrow> Some (of_bool b) | _ \<Rightarrow> None) in
        ret (case (case key of None \<Rightarrow> None | Some i \<Rightarrow> map_of LOL_SPELL_BY_ID i) of
               None \<Rightarrow> U ''Spell '' @ ol_str lib v | Some n \<Rightarrow> n))"

definition spell_emoji :: "pystr \<Rightarrow> pystr" where
  "spell_emoji name = (case map_of LOL_SPELL_EMOJIS name of None \<Rightarrow> U ''{10067}'' | Some e \<Rightarrow> e)"

definition spell_line :: "pystr list \<Rightarrow> pystr" where
  "spell_line names = U ''{129497}{8205}{9794}{65039} '' @ join (U ''  '') (map (\<lambda>s. spell_emoji s @ [32] @ s) names)"

definition spell_lines :: "'f og_lib \<Rightarrow> 'f og_value \<Rightarrow> (exn, 'w, pystr list) act" where
  "spell_lines lib data =
     bindA (og_get data (U ''summoner_spells'') (ODict []))
       (\<lambda>spells. bindA (og_get spells (U ''ids'') (OList []))
         (\<lambda>ids. if \<not> og_truthy lib ids then ret []
            else bindA (og_take 2 ids)
              (\<lambda>two. bindA (mapA (spell_name lib) two)
                (\<lambda>names. let valid = filter (\<lambda>s. s \<in> set LOL_VALID_SPELLS) names in
                   ret (if valid = [] then [] else [spell_line valid])))))"

text \<open>
  \<open>_fetch_opgg_build\<close>: the handlers cover the request and the two \<open>get\<close>s; the lines are made in the
  \<open>else\<close> of the \<open>try\<close>, outside of them.
\<close>

definition fetch_opgg_build :: "('w, 'f) opgg_port \<Rightarrow> pystr \<Rightarrow> (exn, 'w, pystr list option) act" where
  "fetch_opgg_build port champion =
     bindA
       (handleA
         (bindA (get_champion_analysis port champion)
           (\<lambda>analysis. bindA (og_get analysis (U ''lolgetchampionanalysis'') (ODict []))
             (\<lambda>root. bindA (og_get root (U ''data'') (ODict [])) (\<lambda>data. ret (Some data)))))
         (\<lambda>e. if is_exception e then ret None else raise e))
       (\<lambda>found. case found of
          None \<Rightarrow> ret None
        | Some data \<Rightarrow>
            if \<not> og_truthy (op_lib port) data then ret None
            else bindA (item_lines (op_lib port) data)
              (\<lambda>items. bindA (boot_lines (op_lib port) data)
                (\<lambda>boots. bindA (rune_lines (op_lib port) data)
                  (\<lambda>runes. bindA (spell_lines (op_lib port) data)
                    (\<lambda>spells. let lines = items @ boots @ runes @ spells in
                       ret (if lines = [] then None else Some lines))))))"

record lol_champion =
  lc_id :: pystr
  lc_name :: pystr
  lc_title :: pystr
  lc_tags :: "pystr list"
  lc_attack :: int
  lc_defense :: int
  lc_magic :: int
  lc_difficulty :: int
  lc_blurb :: pystr

text \<open>
  Data Dragon: the versions, the champions and the spells of a version, each with the status of its
  answer; a spell has its key and its name.  \<open>ll_sample\<close> is \<open>random.sample(names, 2)\<close> on two or more.
\<close>

record ('w, 'f) lol_port =
  ll_opgg :: "('w, 'f) opgg_port"
  ll_versions :: "(exn, 'w, nat \<times> pystr list) act"
  ll_champions :: "pystr \<Rightarrow> (exn, 'w, nat \<times> lol_champion list) act"
  ll_spells :: "pystr \<Rightarrow> (exn, 'w, nat \<times> (pystr \<times> pystr) list) act"
  ll_draw :: "(exn, 'w, nat) act"
  ll_sample :: "(pystr \<times> pystr) list \<Rightarrow> (exn, 'w, (pystr \<times> pystr) list) act"

definition champion_lines :: "lol_champion \<Rightarrow> pystr list" where
  "champion_lines c =
     [[42] @ lc_name c @ [42], [95] @ lc_title c @ [95], [],
      join (U ''  '') (map (\<lambda>tag. (case map_of LOL_ROLE_EMOJIS tag of None \<Rightarrow> U ''{10067}'' | Some e \<Rightarrow> e) @ [32] @ tag) (lc_tags c)), [],
      U ''{9876}{65039} '' @ show_int (lc_attack c) @ U ''/10   {128737}{65039} '' @ show_int (lc_defense c) @ U ''/10'',
      U ''{128302} '' @ show_int (lc_magic c) @ U ''/10   {127919} '' @ show_int (lc_difficulty c) @ U ''/10'', []]"

definition random_spells :: "('w, 'f) lol_port \<Rightarrow> pystr \<Rightarrow> (exn, 'w, pystr list) act" where
  "random_spells port version =
     bindA (ll_spells port version)
       (\<lambda>(status, spells). bindA (raise_for_status status)
         (\<lambda>_. let valid = filter (\<lambda>(_, name). name \<in> set LOL_VALID_SPELLS) spells in
            if length valid < 2 then raise (OtherExn (U ''ValueError''))
            else bindA (ll_sample port valid) (\<lambda>chosen. ret [spell_line (map snd chosen), []])))"

definition splash_url :: "pystr \<Rightarrow> pystr" where
  "splash_url i = U ''https://ddragon.leagueoflegends.com/cdn/img/champion/splash/'' @ i @ U ''_0.jpg''"

definition lol_execute :: "('w, 'f) lol_port \<Rightarrow> 'w exec" where
  "lol_execute port = (\<lambda>d parsed.
     handleA
       (bindA (ll_versions port)
         (\<lambda>(s1, versions). bindA (raise_for_status s1)
           (\<lambda>_. case versions of
              [] \<Rightarrow> raise index_error
            | version # _ \<Rightarrow>
                bindA (ll_champions port version)
                  (\<lambda>(s2, champions). bindA (raise_for_status s2)
                    (\<lambda>_. if champions = [] then raise index_error
                       else bindA (draw_from (ll_draw port) champions)
                         (\<lambda>c. bindA
                            (if U ''build'' \<in> pc_flags parsed
                             then bindA (fetch_opgg_build (ll_opgg port) (lc_name c))
                               (\<lambda>build. case build of Some ls \<Rightarrow> ret (ls @ [[]]) | None \<Rightarrow> random_spells port version)
                             else ret [])
                            (\<lambda>more. ret [reply_image d (splash_url (lc_id c))
                               (Some (join [10] (champion_lines c @ more @ [U ''> '' @ lc_blurb c])))])))))))
       (\<lambda>e. if is_exception e then ret [reply_text d (U ''Ops, n{227}o achei esse campe{227}o agora! {127918}'')] else raise e))"

end
