(* ===== verification/Opgg_Facts.thy ===== *)
theory Opgg_Facts
  imports Opgg Mention_Command
begin

text \<open>
  The parser of OP.GG reads back what is written in its format: a text made of the fields of some
  classes and of one object.  What is written and what it means are defined here without the parser:
  numbers, quoted texts, bare texts, lists and calls of constructors, whose arguments take the
  names that the last declaration of their class gives, and \<open>field_i\<close> beyond them.
\<close>

subsection \<open>Writing the format\<close>













subsection \<open>Names of arguments\<close>






subsection \<open>Leaves\<close>










subsection \<open>Words and edges\<close>


lemma special_not_word [simp]:
  "\<not> is_word_cp 10" "\<not> is_word_cp 32" "\<not> is_word_cp 40" "\<not> is_word_cp 41" "\<not> is_word_cp 44" "\<not> is_word_cp 58"
  "\<not> is_word_cp 91" "\<not> is_word_cp 93"
  by (simp_all add: is_word_cp_def is_decimal_def decimal_value_def nd_zeros_def)






subsection \<open>Splitting\<close>











subsection \<open>Reading an object\<close>








subsection \<open>Reading the classes\<close>
















text \<open>Quotes are not read: a comma in a quoted text separates two arguments.\<close>

lemma quoted_comma_separates:
  "split_args (U ''{34}Ahri, a Raposa{34}, 1'') = [U ''{34}Ahri'', U ''a Raposa{34}'', U ''1'']"
  by code_simp

end
