(* ===== verification/Web_Commands.thy ===== *)
theory Web_Commands
  imports Web
begin

text \<open>
  Commands whose answer is that of a web service: \<open>tora\<close> (torah.py, bot/data/torah_books.py),
  \<open>biblia\<close> (bible.py), \<open>alcorao\<close> (quran.py), \<open>fato\<close> (fact.py), \<open>comida\<close> (meal_recipes.py),
  \<open>horoscopo\<close> (horoscope.py, bot/data/horoscope.py), \<open>animal\<close> (animal.py, bot/data/animal.py),
  \<open>carta\<close> (playing_card.py) and \<open>puppy\<close> (puppy.py), all in bot/domain/commands.  Their JSON is read key
  by key, so that a missing key is the error it is in the code.
\<close>

subsection \<open>Scriptures\<close>

definition TORAH_BOOKS :: "(pystr \<times> nat list) list" where
  "TORAH_BOOKS =
     [(U ''Genesis'', [31, 25, 24, 26, 32, 22, 24, 22, 29, 32, 32, 20, 18, 24, 21, 16, 27, 33, 38, 18, 34, 24, 20, 67, 34, 35, 46, 22, 35, 43, 55, 32, 20, 31, 29, 43, 36, 30, 23, 23, 57, 38, 34, 34, 28, 34, 31, 22, 33, 26]),
      (U ''Exodus'', [22, 25, 22, 31, 23, 30, 25, 32, 35, 29, 10, 51, 22, 31, 27, 36, 16, 27, 25, 26, 36, 31, 33, 18, 40, 37, 21, 43, 46, 38, 18, 35, 23, 35, 35, 38, 29, 31, 43, 38]),
      (U ''Leviticus'', [17, 16, 17, 35, 19, 30, 38, 36, 24, 20, 47, 8, 59, 57, 33, 34, 16, 30, 24, 33, 3, 17, 27, 22, 25, 38, 20]),
      (U ''Numbers'', [54, 34, 51, 49, 31, 27, 89, 26, 23, 36, 35, 16, 33, 45, 41, 50, 13, 32, 22, 29, 35, 41, 30, 25, 18, 65, 23, 31, 40, 16, 54, 42, 56, 29, 34, 13]),
      (U ''Deuteronomy'', [46, 37, 29, 49, 33, 25, 26, 20, 29, 22, 32, 32, 18, 29, 23, 22, 20, 22, 21, 20, 23, 30, 25, 22, 19, 19, 26, 68, 29, 20, 30, 52, 29, 12])]"

definition NOT_FOUND_MESSAGE :: pystr where
  "NOT_FOUND_MESSAGE = U ''Vers{237}culo n{227}o encontrado. {128532}{10}{10}{128218} *Livros da Tor{225}* {128218}{10}- Genesis ({1489}{1512}{1488}{1513}{1497}{1514}) {8212} 50 cap{237}tulos{10}- Exodus ({1513}{1502}{1493}{1514}) {8212} 40 cap{237}tulos{10}- Leviticus ({1493}{1497}{1511}{1512}{1488}) {8212} 27 cap{237}tulos{10}- Numbers ({1489}{1502}{1491}{1489}{1512}) {8212} 36 cap{237}tulos{10}- Deuteronomy ({1491}{1489}{1512}{1497}{1501}) {8212} 34 cap{237}tulos''"

text \<open>\<open>re.sub(r'<[^>]*>', '', s).strip()\<close>.\<close>

definition HTML_TAG :: rx where
  "HTML_TAG = rseq [Chr 60, Star True (Cls (CNeg (CRange 62 62))), Chr 62]"

definition no_tags :: "pystr \<Rightarrow> pystr" where
  "no_tags s = strip (rx_sub False HTML_TAG (\<lambda>_. []) s)"

text \<open>
  \<open>re.fullmatch(r'(.+?)\s+(\d+):(\d+)', rest)\<close>: the first group is the shortest text without a line
  feed that the rest of the pattern follows.
\<close>

definition VERSE_TAIL :: rx where
  "VERSE_TAIL = rseq [Plus (Cls CSpace), Plus (Cls CDigit), Chr 58, Plus (Cls CDigit)]"

definition reference_parts :: "pystr \<Rightarrow> (pystr \<times> pystr \<times> pystr) option" where
  "reference_parts rest =
     (case find (\<lambda>i. fullmatch False VERSE_TAIL (drop i rest) \<and> 10 \<notin> set (take i rest)) [1..<length rest] of
        None \<Rightarrow> None
      | Some i \<Rightarrow> let t = lstrip_by is_space (drop i rest) in Some (take i rest, before 58 t, after 58 t))"

definition verse_ref :: "pystr \<Rightarrow> pystr \<Rightarrow> pystr \<Rightarrow> pystr" where
  "verse_ref book chapter verse = book @ [46] @ chapter @ [46] @ verse"

definition random_ref :: "'w web \<Rightarrow> (exn, 'w, pystr) act" where
  "random_ref web =
     bindA (draw_from (wb_draw web) TORAH_BOOKS)
       (\<lambda>(book, chapters). bindA (wb_draw web)
         (\<lambda>i. let chapter = i mod length chapters in
            bindA (wb_draw web)
              (\<lambda>v. ret (verse_ref book (show_nat (chapter + 1)) (show_nat (v mod (chapters ! chapter) + 1))))))"

definition torah_parse_ref :: "'w web \<Rightarrow> pystr \<Rightarrow> (exn, 'w, pystr option) act" where
  "torah_parse_ref web rest =
     (if rest = [] then bindA (random_ref web) (\<lambda>r. ret (Some r))
      else ret (map_option (\<lambda>(book, chapter, verse). verse_ref book chapter verse) (reference_parts rest)))"

text \<open>A text that may come as a list of verses.\<close>

definition joined_verses :: "json \<Rightarrow> (exn, 'w, json) act" where
  "joined_verses v =
     (case v of JArr xs \<Rightarrow> bindA (mapA (text_of type_error) xs) (\<lambda>ts. ret (JStr (join [32] ts))) | _ \<Rightarrow> ret v)"

definition torah_reply :: "'w web \<Rightarrow> command_data \<Rightarrow> json \<Rightarrow> pystr option \<Rightarrow> json \<Rightarrow> json \<Rightarrow> (exn, 'w, bot_message) act" where
  "torah_reply web d payload lang he_raw en_raw =
     bindA (json_key payload (U ''ref''))
       (\<lambda>reference. bindA (json_key payload (U ''heTitle''))
         (\<lambda>title. bindA (text_of type_error he_raw)
           (\<lambda>he. bindA (text_of type_error en_raw)
             (\<lambda>en. bindA
                (if lang = Some (U ''he'') then ret (U ''> '' @ no_tags he)
                 else if lang = Some (U ''en'') then ret (U ''> '' @ no_tags en)
                 else bindA (to_pt web (JStr (no_tags en)))
                   (\<lambda>pt. ret (if lang = Some (U ''pt'') then U ''> '' @ fmt web pt
                              else U ''> '' @ no_tags he @ U ''{10}{10}> '' @ fmt web pt)))
                (\<lambda>body. ret (reply_text d
                   ([42] @ fmt web reference @ U '' {8212} '' @ fmt web title @ [42] @ [10, 10] @ body)))))))"

definition torah_execute :: "'w web \<Rightarrow> 'w exec" where
  "torah_execute web = (\<lambda>d parsed.
     bindA (torah_parse_ref web (strip (pc_rest parsed)))
       (\<lambda>found. case found of
          None \<Rightarrow> ret [reply_text d NOT_FOUND_MESSAGE]
        | Some reference \<Rightarrow>
            bindA (fetch_json web (U ''https://www.sefaria.org/api/texts/'' @ reference @ U ''?context=0'') [])
              (\<lambda>payload. bindA (json_get payload (U ''error'') JNull)
                (\<lambda>failed. if truthy failed then ret [reply_text d NOT_FOUND_MESSAGE]
                   else bindA (json_get payload (U ''he'') (JStr []))
                     (\<lambda>he0. bindA (json_get payload (U ''text'') (JStr []))
                       (\<lambda>en0. bindA (joined_verses he0)
                         (\<lambda>he. bindA (joined_verses en0)
                           (\<lambda>en. if \<not> truthy he \<and> \<not> truthy en then ret [reply_text d NOT_FOUND_MESSAGE]
                              else bindA (torah_reply web d payload (dict_get (pc_options parsed) (U ''lang'')) he en)
                                (\<lambda>m. ret [m])))))))))"

definition VERSE_PATTERN :: rx where
  "VERSE_PATTERN =
     (let digits = rseq [Cls CDigit, Opt (Cls CDigit), Opt (Cls CDigit)] in
      rseq [digits, Spaces, Chr 58, Spaces, digits, Spaces, Opt (rseq [Chr 45, Spaces, digits])])"

definition BIBLE_URL :: pystr where "BIBLE_URL = U ''https://bible-api.com''"

definition stripped_text :: "json \<Rightarrow> (exn, 'w, pystr) act" where
  "stripped_text verse = bindA (json_key verse (U ''text'')) (\<lambda>t. bindA (text_of attribute_error t) (\<lambda>s. ret (strip s)))"

definition bible_random :: "'w web \<Rightarrow> command_data \<Rightarrow> (exn, 'w, bot_message) act" where
  "bible_random web d =
     bindA (fetch_json web (BIBLE_URL @ U ''/data/almeida/random'') [])
       (\<lambda>body. bindA (json_key body (U ''random_verse''))
         (\<lambda>verse. bindA (json_key verse (U ''book''))
           (\<lambda>book. bindA (json_key verse (U ''chapter''))
             (\<lambda>chapter. bindA (json_key verse (U ''verse''))
               (\<lambda>number. bindA (stripped_text verse)
                 (\<lambda>t. ret (reply_text d ([42] @ fmt web book @ [32] @ fmt web chapter @ [58] @ fmt web number @ [42] @ U ''{10}{10}> '' @ t))))))))"

definition bible_passage :: "'w web \<Rightarrow> command_data \<Rightarrow> pystr \<Rightarrow> (exn, 'w, bot_message) act" where
  "bible_passage web d reference =
     (if search False VERSE_PATTERN reference = None
      then ret (reply_text d (U ''Me manda no formato *livro cap{237}tulo:vers{237}culo*, tipo _Jo{227}o 3:16-18_ {128578}''))
      else bindA (wb_get web (BIBLE_URL @ [47] @ reference) [(U ''translation'', JStr (U ''almeida''))])
        (\<lambda>(status, body).
           if status = 404
           then ret (reply_text d (U ''N{227}o consegui encontrar essa passagem... {128532} Confere o livro e os vers{237}culos {128591}''))
           else bindA (raise_for_status status)
             (\<lambda>_. bindA (json_of body)
               (\<lambda>passage. bindA (json_key passage (U ''verses''))
                 (\<lambda>verses. bindA (json_items verses)
                   (\<lambda>vs. bindA (mapA stripped_text vs)
                     (\<lambda>ts. bindA (json_key passage (U ''reference''))
                       (\<lambda>title. ret (reply_text d
                          ([42] @ fmt web title @ [42] @ [10, 10] @ join [10] (map (\<lambda>t. U ''> '' @ t) ts)))))))))))"

definition bible_execute :: "'w web \<Rightarrow> 'w exec" where
  "bible_execute web = (\<lambda>d parsed.
     let reference = strip (pc_rest parsed) in
     handleA
       (bindA (if reference = [] then bible_random web d else bible_passage web d reference) (\<lambda>m. ret [m]))
       (\<lambda>e. if is_http_error e
            then ret [reply_text d (U ''A API da b{237}blia est{225} fora do ar agora... {128532} Tenta de novo daqui a pouco {128591}'')]
            else raise e))"

definition TOTAL_AYAHS :: nat where "TOTAL_AYAHS = 6236"

definition quran_format :: "pystr \<Rightarrow> pystr option \<Rightarrow> pystr \<Rightarrow> pystr \<Rightarrow> pystr" where
  "quran_format header lang ar pt =
     header @ [10, 10] @
     (if lang = Some (U ''ar'') then U ''> '' @ ar
      else if lang = Some (U ''pt'') then U ''> '' @ pt
      else U ''> '' @ ar @ U ''{10}{10}> '' @ pt)"

definition quran_execute :: "'w web \<Rightarrow> 'w exec" where
  "quran_execute web = (\<lambda>d parsed.
     bindA (wb_draw web)
       (\<lambda>n. bindA (fetch_json web
            (U ''https://api.alquran.cloud/v1/ayah/'' @ show_nat (n mod TOTAL_AYAHS + 1) @ U ''/editions/ar.alafasy,pt.elhayek'') [])
         (\<lambda>body. bindA (json_key body (U ''data''))
           (\<lambda>editions. bindA (json_at editions 0)
             (\<lambda>ar. bindA (json_at editions 1)
               (\<lambda>pt. bindA (json_key ar (U ''surah''))
                 (\<lambda>surah. bindA (json_key surah (U ''englishName''))
                   (\<lambda>name. bindA (json_key surah (U ''number''))
                     (\<lambda>number. bindA (json_key ar (U ''numberInSurah''))
                       (\<lambda>verse. bindA (json_key ar (U ''text''))
                         (\<lambda>ar_text. bindA (json_key pt (U ''text''))
                           (\<lambda>pt_text. ret [reply_text d
                              (quran_format ([42] @ fmt web name @ [32] @ fmt web number @ [58] @ fmt web verse @ [42])
                                (dict_get (pc_options parsed) (U ''lang'')) (fmt web ar_text) (fmt web pt_text))]))))))))))))"

subsection \<open>Facts, meals and signs\<close>

definition fact_execute :: "'w web \<Rightarrow> 'w exec" where
  "fact_execute web = (\<lambda>d parsed.
     bindA (fetch_json web (U ''https://uselessfacts.jsph.pl/api/v2/facts/'' @
         (if U ''hoje'' \<in> pc_flags parsed then U ''today'' else U ''random'')) [])
       (\<lambda>fact. bindA (json_key fact (U ''text''))
         (\<lambda>t. bindA (to_pt web t)
           (\<lambda>pt. ret [reply_text d (U ''FATO {129299}{9757}{65039}{10}'' @ fmt web pt)]))))"

definition MAX_INGREDIENTS :: nat where "MAX_INGREDIENTS = 20"

text \<open>The numbered ingredients until the first that is missing or empty.\<close>

fun ingredient_lines :: "'w web \<Rightarrow> json \<Rightarrow> nat list \<Rightarrow> (exn, 'w, pystr list) act" where
  "ingredient_lines web meal [] = ret []"
| "ingredient_lines web meal (i # is) =
     bindA (json_get meal (U ''strIngredient'' @ show_nat i) JNull)
       (\<lambda>ingredient. if \<not> truthy ingredient then ret []
          else bindA (json_get meal (U ''strMeasure'' @ show_nat i) JNull)
            (\<lambda>measure. bindA (ingredient_lines web meal is)
              (\<lambda>lines. ret ((U ''- '' @ fmt web ingredient @ U '' | '' @ or_text web measure []) # lines))))"

definition link_lines :: "'w web \<Rightarrow> json \<Rightarrow> (exn, 'w, pystr list) act" where
  "link_lines web meal =
     bindA (json_get meal (U ''strYoutube'') JNull)
       (\<lambda>youtube. bindA (json_get meal (U ''strSource'') JNull)
         (\<lambda>source. ret ((if truthy youtube then [U ''{127909} '' @ fmt web youtube] else []) @
                        (if truthy source then [U ''{128279} '' @ fmt web source] else []))))"

definition meal_caption :: "'w web \<Rightarrow> json \<Rightarrow> (exn, 'w, pystr) act" where
  "meal_caption web meal =
     bindA (json_get meal (U ''strMeal'') JNull)
       (\<lambda>title. bindA (json_get meal (U ''strArea'') JNull)
         (\<lambda>area. bindA (json_get meal (U ''strCategory'') JNull)
           (\<lambda>category. bindA (json_get meal (U ''strTags'') JNull)
             (\<lambda>tags. bindA (json_get meal (U ''strInstructions'') JNull)
               (\<lambda>instructions. bindA (ingredient_lines web meal [1..<MAX_INGREDIENTS + 1])
                 (\<lambda>ingredients. bindA (link_lines web meal)
                   (\<lambda>links. bindA (if truthy instructions then text_of type_error instructions else ret [])
                     (\<lambda>steps.
                        let meta = U ''{128506}{65039} '' @ or_text web area (U ''Unknown'') @ U ''   {127869}{65039} '' @ or_text web category [] @
                              (if truthy tags then U ''   {127991}{65039} '' @ fmt web tags else [])
                        in ret (join [10]
                             ([[42] @ or_text web title [] @ [42], [], meta, [], U ''{127858} Ingredients:'', join [10] ingredients, [],
                               U ''{128221} Step by step:'', steps] @ (if links = [] then [] else [join [10] links])))))))))))"

definition meal_execute :: "'w web \<Rightarrow> 'w exec" where
  "meal_execute web = (\<lambda>d parsed.
     or_reply
       (bindA (fetch_json web (U ''https://www.themealdb.com/api/json/v1/1/random.php'') [])
         (\<lambda>body. bindA (json_key body (U ''meals''))
           (\<lambda>meals. bindA (json_at meals 0)
             (\<lambda>meal. bindA (meal_caption web meal)
               (\<lambda>caption. bindA (to_pt web (JStr caption))
                 (\<lambda>pt. bindA (json_key meal (U ''strMealThumb''))
                   (\<lambda>thumb. ret [reply_image d (fmt web thumb) (Some (fmt web pt))])))))))
       [reply_text d (U ''Ops, n{227}o achei essa receita agora! {127869}{65039}'')])"

definition SIGNS :: "(pystr \<times> pystr \<times> pystr \<times> pystr) list" where
  "SIGNS =
     [(U ''aries'', (U ''{193}ries'', U ''{9800}'', U ''21/03 - 19/04'')),
      (U ''taurus'', (U ''Touro'', U ''{9801}'', U ''20/04 - 20/05'')),
      (U ''gemini'', (U ''G{234}meos'', U ''{9802}'', U ''21/05 - 20/06'')),
      (U ''cancer'', (U ''C{226}ncer'', U ''{9803}'', U ''21/06 - 22/07'')),
      (U ''leo'', (U ''Le{227}o'', U ''{9804}'', U ''23/07 - 22/08'')),
      (U ''virgo'', (U ''Virgem'', U ''{9805}'', U ''23/08 - 22/09'')),
      (U ''libra'', (U ''Libra'', U ''{9806}'', U ''23/09 - 22/10'')),
      (U ''scorpio'', (U ''Escorpi{227}o'', U ''{9807}'', U ''23/10 - 21/11'')),
      (U ''sagittarius'', (U ''Sagit{225}rio'', U ''{9808}'', U ''22/11 - 21/12'')),
      (U ''capricorn'', (U ''Capric{243}rnio'', U ''{9809}'', U ''22/12 - 19/01'')),
      (U ''aquarius'', (U ''Aqu{225}rio'', U ''{9810}'', U ''20/01 - 18/02'')),
      (U ''pisces'', (U ''Peixes'', U ''{9811}'', U ''19/02 - 20/03''))]"

definition SIGN_LOOKUP :: "(pystr \<times> pystr) list" where
  "SIGN_LOOKUP =
     [(U ''{225}ries'', U ''aries''), (U ''touro'', U ''taurus''), (U ''g{234}meos'', U ''gemini''),
      (U ''c{226}ncer'', U ''cancer''), (U ''le{227}o'', U ''leo''), (U ''virgem'', U ''virgo''),
      (U ''libra'', U ''libra''), (U ''escorpi{227}o'', U ''scorpio''), (U ''sagit{225}rio'', U ''sagittarius''),
      (U ''capric{243}rnio'', U ''capricorn''), (U ''aqu{225}rio'', U ''aquarius''), (U ''peixes'', U ''pisces''),
      (U ''aries'', U ''aries''), (U ''taurus'', U ''taurus''), (U ''gemini'', U ''gemini''),
      (U ''cancer'', U ''cancer''), (U ''leo'', U ''leo''), (U ''virgo'', U ''virgo''),
      (U ''scorpio'', U ''scorpio''), (U ''sagittarius'', U ''sagittarius''), (U ''capricorn'', U ''capricorn''),
      (U ''aquarius'', U ''aquarius''), (U ''pisces'', U ''pisces'')]"

definition SIGN_LIST_TEXT :: pystr where
  "SIGN_LIST_TEXT = join (U ''  '') (map (\<lambda>(_, name, emoji, _). emoji @ [32] @ name) SIGNS)"

text \<open>The accents are stripped with the canonical decomposition, as for the names of the tools.\<close>

definition strip_accents :: "pystr \<Rightarrow> pystr" where
  "strip_accents s = concat (map strip_marks_cp s)"

definition sign_of :: "pystr \<Rightarrow> pystr option" where
  "sign_of given =
     (case map_of SIGN_LOOKUP given of Some s \<Rightarrow> Some s | None \<Rightarrow> map_of SIGN_LOOKUP (strip_accents given))"

definition horoscope_execute :: "'w web \<Rightarrow> 'w exec" where
  "horoscope_execute web = (\<lambda>d parsed.
     let given = lower (strip (pc_rest parsed)) in
     if given = [] then ret [reply_text d (U ''Uso: ,hor{243}scopo <signo>{10}{10}'' @ SIGN_LIST_TEXT)]
     else case sign_of given of
       None \<Rightarrow> ret [reply_text d (U ''Signo inv{225}lido! {128578}{10}{10}'' @ SIGN_LIST_TEXT)]
     | Some api_name \<Rightarrow>
         (case map_of SIGNS api_name of
            None \<Rightarrow> raise key_error
          | Some (name, emoji, dates) \<Rightarrow>
              bindA (fetch_json web (U ''https://freehoroscopeapi.com/api/v1/get-horoscope/daily'') [(U ''sign'', JStr api_name)])
                (\<lambda>body. bindA (json_key body (U ''data''))
                  (\<lambda>found. bindA (json_key found (U ''horoscope''))
                    (\<lambda>t. bindA (to_pt web t)
                      (\<lambda>pt. ret [reply_text d (emoji @ U '' *'' @ name @ U ''* ('' @ dates @ U ''){10}{10}'' @ fmt web pt)]))))))"

subsection \<open>Pictures\<close>

definition playing_card_execute :: "'w web \<Rightarrow> 'w exec" where
  "playing_card_execute web = (\<lambda>d parsed.
     bindA (fetch_json web (U ''https://deckofcardsapi.com/api/deck/new/draw/?count=1'') [])
       (\<lambda>body. bindA (json_key body (U ''cards''))
         (\<lambda>cards. bindA (json_at cards 0)
           (\<lambda>card. bindA (json_key card (U ''image''))
             (\<lambda>url. ret [reply_image d (fmt web url) (Some (U ''Era essa sua carta? {128527}''))])))))"

text \<open>\<open>str.capitalize\<close> on words of letters whose upper case is their title case.\<close>

definition capitalize :: "pystr \<Rightarrow> pystr" where
  "capitalize w = (case w of [] \<Rightarrow> [] | c # cs \<Rightarrow> upper [c] @ lower cs)"

text \<open>The group of \<open>re.search(r'breeds/([^/]+)/', url)\<close>.\<close>

fun breed_in :: "pystr \<Rightarrow> pystr option" where
  "breed_in [] = None"
| "breed_in (c # cs) =
     (let r = drop 7 (c # cs); name = takeWhile (\<lambda>x. x \<noteq> 47) r in
      if startswith (c # cs) (U ''breeds/'') \<and> name \<noteq> [] \<and> length name < length r then Some name else breed_in cs)"

definition extract_breed :: "pystr \<Rightarrow> pystr" where
  "extract_breed url =
     (case breed_in url of None \<Rightarrow> U ''Dog'' | Some name \<Rightarrow> join [32] (map capitalize (split_on 45 name)))"

definition fetch_dog :: "'w web \<Rightarrow> command_data \<Rightarrow> (exn, 'w, bot_message list) act" where
  "fetch_dog web d =
     bindA (fetch_json web (U ''https://dog.ceo/api/breeds/image/random'') [])
       (\<lambda>body. bindA (json_key body (U ''message''))
         (\<lambda>v. bindA (text_of type_error v)
           (\<lambda>url. bindA (wb_buffer web url)
             (\<lambda>b. ret [reply_image_buffer d b (Some (U ''{128054} '' @ extract_breed url))]))))"

definition fetch_cat :: "'w web \<Rightarrow> command_data \<Rightarrow> (exn, 'w, bot_message list) act" where
  "fetch_cat web d =
     bindA (fetch_json web (U ''https://cataas.com/cat?json=true'') [])
       (\<lambda>body. bindA (json_key body (U ''url''))
         (\<lambda>v. bindA (text_of type_error v)
           (\<lambda>url. bindA (wb_buffer web url) (\<lambda>b. ret [reply_image_buffer d b (Some (U ''{128049} Cat''))]))))"

definition puppy_execute :: "'w web \<Rightarrow> 'w exec" where
  "puppy_execute web = (\<lambda>d parsed.
     or_reply
       (bindA (case dict_get (pc_options parsed) (U ''tipo'') of
                 None \<Rightarrow> draw_from (wb_draw web) [U ''dog'', U ''cat'']
               | Some t \<Rightarrow> if t = [] then draw_from (wb_draw web) [U ''dog'', U ''cat''] else ret t)
         (\<lambda>tipo. if tipo = U ''dog'' then fetch_dog web d else fetch_cat web d))
       [reply_text d (U ''Ops, n{227}o consegui pegar a imagem agora! {128062}'')])"

definition ANIMAL_EMOJIS_OF :: "(pystr \<times> pystr) list" where
  "ANIMAL_EMOJIS_OF =
     [(U ''dog'', U ''{128054}''), (U ''cat'', U ''{128049}''), (U ''bird'', U ''{128038}''),
      (U ''fox'', U ''{129418}''), (U ''kangaroo'', U ''{129432}''), (U ''koala'', U ''{128040}''),
      (U ''panda'', U ''{128060}''), (U ''raccoon'', U ''{129437}''), (U ''red_panda'', U ''{129418}''),
      (U ''dolphin'', U ''{128044}''), (U ''elephant'', U ''{128024}''), (U ''tiger'', U ''{128047}''),
      (U ''penguin'', U ''{128039}''), (U ''owl'', U ''{129417}''), (U ''octopus'', U ''{128025}''),
      (U ''seahorse'', U ''{127754}''), (U ''chameleon'', U ''{129422}''), (U ''sloth'', U ''{129445}''),
      (U ''otter'', U ''{129446}''), (U ''hedgehog'', U ''{129428}'')]"

definition ANIMAL_WIKIPEDIA_TITLES :: "(pystr \<times> pystr) list" where
  "ANIMAL_WIKIPEDIA_TITLES =
     [(U ''dog'', U ''Dog''), (U ''cat'', U ''Cat''), (U ''bird'', U ''Bird''), (U ''fox'', U ''Fox''),
      (U ''kangaroo'', U ''Kangaroo''), (U ''koala'', U ''Koala''), (U ''panda'', U ''Giant_panda''),
      (U ''raccoon'', U ''Raccoon''), (U ''red_panda'', U ''Red_panda''), (U ''dolphin'', U ''Dolphin''),
      (U ''elephant'', U ''Elephant''), (U ''tiger'', U ''Tiger''), (U ''penguin'', U ''Penguin''),
      (U ''owl'', U ''Owl''), (U ''octopus'', U ''Octopus''), (U ''seahorse'', U ''Seahorse''),
      (U ''chameleon'', U ''Chameleon''), (U ''sloth'', U ''Sloth''), (U ''otter'', U ''Otter''),
      (U ''hedgehog'', U ''Hedgehog'')]"

definition MAX_RETRIES :: nat where "MAX_RETRIES = 3"
definition MAX_FACT_LENGTH :: nat where "MAX_FACT_LENGTH = 300"
definition RATE_LIMIT_DEFAULT_WAIT :: int where "RATE_LIMIT_DEFAULT_WAIT = 60"

text \<open>The summary of Wikipedia: the status, the header \<open>retry-after\<close> and the body; and a pause.\<close>

record 'w wiki =
  wk_summary :: "pystr \<Rightarrow> (exn, 'w, nat \<times> pystr option \<times> json option) act"
  wk_sleep :: "int \<Rightarrow> (exn, 'w, unit) act"

text \<open>\<open>for _ in range(MAX_RETRIES + 1)\<close>: too many requests are awaited, another status is raised.\<close>

fun fetch_rate_limited :: "'w wiki \<Rightarrow> nat \<Rightarrow> pystr \<Rightarrow> (exn, 'w, json option) act" where
  "fetch_rate_limited wiki 0 title = ret None"
| "fetch_rate_limited wiki (Suc n) title =
     bindA (wk_summary wiki title)
       (\<lambda>(status, retry_after, body).
          if status = 429
          then bindA (case retry_after of
                 None \<Rightarrow> ret RATE_LIMIT_DEFAULT_WAIT
               | Some t \<Rightarrow> if t = [] then ret RATE_LIMIT_DEFAULT_WAIT
                   else (case int_of_text t of None \<Rightarrow> raise value_error | Some i \<Rightarrow> ret i))
                 (\<lambda>seconds. bindA (wk_sleep wiki seconds) (\<lambda>_. fetch_rate_limited wiki n title))
          else bindA (raise_for_status status) (\<lambda>_. bindA (json_of body) (\<lambda>v. ret (Some v))))"

text \<open>\<open>re.findall(r'[^.!?]*[.!?]+', extract)\<close>: a run of other characters and the marks after it.\<close>

definition is_mark :: "nat \<Rightarrow> bool" where "is_mark c \<longleftrightarrow> c \<in> {33, 46, 63}"

function sentences_of :: "pystr \<Rightarrow> pystr list" where
  "sentences_of s =
     (let body = takeWhile (\<lambda>c. \<not> is_mark c) s;
          r = dropWhile (\<lambda>c. \<not> is_mark c) s;
          marks = takeWhile is_mark r
      in if r = [] then [] else (body @ marks) # sentences_of (dropWhile is_mark r))"
  by pat_completeness auto
termination
proof (relation "measure length", goal_cases)
  case (2 s body r marks)
  then obtain c cs where r: "dropWhile (\<lambda>c. \<not> is_mark c) s = c # cs"
    by (cases "dropWhile (\<lambda>c. \<not> is_mark c) s") auto
  then have "is_mark c" by (metis hd_dropWhile list.distinct(1) list.sel(1))
  then have "length (dropWhile is_mark (c # cs)) \<le> length cs" by (simp add: length_dropWhile_le)
  moreover have "length (c # cs) \<le> length s" using length_dropWhile_le [of "\<lambda>c. \<not> is_mark c" s] r by simp
  ultimately show ?case using 2 r by simp
qed simp

declare sentences_of.simps [simp del]

definition extract_fact :: "pystr \<Rightarrow> pystr" where
  "extract_fact extract =
     (case sentences_of extract of
        [] \<Rightarrow> strip extract
      | s # ss \<Rightarrow>
          let fact = strip (concat (take 2 (s # ss))) in
          if length fact > MAX_FACT_LENGTH then strip s else fact)"

definition format_animal_name :: "pystr \<Rightarrow> pystr" where
  "format_animal_name animal = join [32] (map capitalize (split_on 95 animal))"

definition animal_execute :: "'w web \<Rightarrow> 'w wiki \<Rightarrow> 'w exec" where
  "animal_execute web wiki = (\<lambda>d parsed.
     bindA (draw_from (wb_draw web) ANIMAL_WIKIPEDIA_TITLES)
       (\<lambda>(animal, title).
          or_reply
            (bindA (fetch_rate_limited wiki (MAX_RETRIES + 1) title)
              (\<lambda>found. if found = None \<or> \<not> truthy (the found) then ret []
                 else let page = the found in
                   bindA (json_key page (U ''extract''))
                     (\<lambda>v. bindA (text_of type_error v)
                       (\<lambda>extract. bindA (to_pt web (JStr (extract_fact extract)))
                         (\<lambda>fact. case map_of ANIMAL_EMOJIS_OF animal of
                            None \<Rightarrow> raise key_error
                          | Some emoji \<Rightarrow>
                              let caption = [42] @ emoji @ [32] @ format_animal_name animal @ U ''*{10}{10}> '' @ fmt web fact in
                              bindA (json_get page (U ''thumbnail'') JNull)
                                (\<lambda>thumbnail. if \<not> truthy thumbnail then ret [reply_text d caption]
                                   else bindA (json_key thumbnail (U ''source''))
                                     (\<lambda>url. bindA (wb_buffer web (fmt web url))
                                       (\<lambda>b. ret [reply_image_buffer d b (Some caption)]))))))))
            [reply_text d (U ''Ops, n{227}o achei nenhum bichinho agora! {128062}'')]))"


subsection \<open>Facts\<close>

text \<open>A random verse is one of the table, and a reference a user could write.\<close>

lemma random_ref_in_table:
  assumes "random_ref web w = (Inr r, w')"
  shows "\<exists>book chapters i v. (book, chapters) \<in> set TORAH_BOOKS \<and> i < length chapters \<and> 1 \<le> v \<and> v \<le> chapters ! i \<and>
     r = verse_ref book (show_nat (i + 1)) (show_nat v)"
proof -
  from assms obtain book chapters w1 i v where d: "draw_from (wb_draw web) TORAH_BOOKS w = (Inr (book, chapters), w1)"
    and r: "r = verse_ref book (show_nat (i mod length chapters + 1)) (show_nat (v mod (chapters ! (i mod length chapters)) + 1))"
    unfolding random_ref_def by (auto elim!: bindA_InrE simp: Let_def ret_def split: prod.splits)
  have mem: "(book, chapters) \<in> set TORAH_BOOKS" using draw_from_mem [OF d] by (simp add: TORAH_BOOKS_def)
  moreover have "list_all (\<lambda>(_, chapters). chapters \<noteq> [] \<and> list_all (\<lambda>n. 0 < n) chapters) TORAH_BOOKS" by code_simp
  ultimately have "chapters \<noteq> []" "list_all (\<lambda>n. 0 < n) chapters" by (auto simp: list_all_iff)
  then have i: "i mod length chapters < length chapters" and "0 < chapters ! (i mod length chapters)"
    by (simp_all add: list_all_length)
  then have "v mod (chapters ! (i mod length chapters)) + 1 \<le> chapters ! (i mod length chapters)"
    by (simp add: Suc_leI)
  with i mem r show ?thesis by (metis le_add2)
qed

text \<open>The message on the books states the number of their chapters.\<close>

lemma books_have_stated_chapters: "map (length \<circ> snd) TORAH_BOOKS = [50, 40, 27, 36, 34]"
  by code_simp

text \<open>The Wikipedia is asked four times at most, however often it answers that it is asked too much.\<close>

lemma animal_requests_bounded:
  assumes "\<And>t. adds runs 1 (wk_summary wiki t)" "\<And>n. adds runs 0 (wk_sleep wiki n)"
  shows "adds runs n (fetch_rate_limited wiki n title)"
proof (induction n)
  case (Suc n)
  have again: "adds runs n (bindA (wk_sleep wiki seconds) (\<lambda>_. fetch_rate_limited wiki n title))" for seconds
    using adds_bindA0 [OF assms(2) Suc.IH] .
  have "adds runs (1 + n) (fetch_rate_limited wiki (Suc n) title)"
    unfolding fetch_rate_limited.simps
    by (rule adds_bindA [OF assms(1)])
      (auto intro!: adds_bindA0 again simp: raise_for_status_def json_of_def split: option.split)
  then show ?case by simp
qed simp

text \<open>
  \<open>_strip_accents\<close> is meant to accept a sign written without accents, but the table has the
  Portuguese names with them only: a name is refused without its accents unless its English name
  happens to be the same.
\<close>

lemma unaccented_signs_refused:
  "list_all (\<lambda>s. sign_of s = None)
     [U ''gemeos'', U ''leao'', U ''escorpiao'', U ''sagitario'', U ''capricornio'', U ''aquario'']"
  by code_simp

end
