(* ===== verification/Countries.thy ===== *)
theory Countries
  imports Web Football
begin

text \<open>
  The flags of countries: the catalogue with its pages and its cache
  (bot/infrastructure/restcountries_client.py), the tables of bot/data/country_flag.py and the command
  \<open>bandeira\<close> (bot/domain/commands/country_flag.py).  A country is the JSON of the service.
\<close>

subsection \<open>The catalogue\<close>

text \<open>
  \<open>rc_page\<close> asks for a page by its limit and its offset; \<open>rc_now\<close> is the monotonic clock; \<open>rc_cache\<close> and
  \<open>rc_set_cache\<close> are the countries of the class and the time they expire.
\<close>

record 'w rest_port =
  rc_page :: "nat \<Rightarrow> nat \<Rightarrow> (exn, 'w, nat \<times> json option) act"
  rc_now :: "(exn, 'w, rat) act"
  rc_cache :: "(exn, 'w, (json list \<times> rat) option) act"
  rc_set_cache :: "json list \<Rightarrow> rat \<Rightarrow> (exn, 'w, unit) act"

definition PAGE_SIZE :: nat where "PAGE_SIZE = 100"
definition CACHE_TTL_SECONDS :: rat where "CACHE_TTL_SECONDS = 86400"

definition fetch_page :: "'w rest_port \<Rightarrow> nat \<Rightarrow> (exn, 'w, json list) act" where
  "fetch_page port offset =
     bindA (rc_page port PAGE_SIZE offset)
       (\<lambda>(status, body). bindA (raise_for_status status)
         (\<lambda>_. bindA (json_of body)
           (\<lambda>v. bindA (json_key v (U ''data''))
             (\<lambda>found. bindA (json_key found (U ''objects'')) json_items))))"

text \<open>The loop \<open>while True\<close>: it ends with the first page that is not full, or with an error.\<close>

partial_function (option) fetch_pages :: "'w rest_port \<Rightarrow> nat \<Rightarrow> json list \<Rightarrow> 'w \<Rightarrow> ((exn + json list) \<times> 'w) option" where
  "fetch_pages port offset countries w =
     (case fetch_page port offset w of
        (Inl e, w') \<Rightarrow> Some (Inl e, w')
      | (Inr page, w') \<Rightarrow>
          if length page < PAGE_SIZE then Some (Inr (countries @ page), w')
          else fetch_pages port (offset + PAGE_SIZE) (countries @ page) w')"

definition fetch_all :: "'w rest_port \<Rightarrow> 'w \<Rightarrow> ((exn + json list) \<times> 'w) option" where
  "fetch_all port = fetch_pages port 0 []"

definition fetch_countries :: "'w rest_port \<Rightarrow> 'w \<Rightarrow> ((exn + json list) \<times> 'w) option" where
  "fetch_countries port w =
     (case bindA (rc_now port) (\<lambda>now. bindA (rc_cache port) (\<lambda>cache. ret (now, cache))) w of
        (Inl e, w1) \<Rightarrow> Some (Inl e, w1)
      | (Inr (now, cache), w1) \<Rightarrow>
          (case (case cache of Some (countries, expiry) \<Rightarrow> if now < expiry then Some countries else None | None \<Rightarrow> None) of
             Some countries \<Rightarrow> Some (Inr countries, w1)
           | None \<Rightarrow>
               map_option
                 (\<lambda>(r, w2). case r of
                    Inl e \<Rightarrow> (Inl e, w2)
                  | Inr countries \<Rightarrow> bindA (rc_set_cache port countries (now + CACHE_TTL_SECONDS)) (\<lambda>_. ret countries) w2)
                 (fetch_all port w1)))"

subsection \<open>The tables\<close>

definition DRIVING_SIDE_PT :: "(pystr \<times> pystr) list" where
  "DRIVING_SIDE_PT =
     [(U ''right'', U ''Direita''), (U ''left'', U ''Esquerda'')]"

definition REGION_MAP :: "(pystr \<times> pystr \<times> pystr) list" where
  "REGION_MAP =
     [(U ''Africa'', (U ''{127757}'', U ''{193}frica'')), (U ''Americas'', (U ''{127758}'', U ''Am{233}ricas'')),
      (U ''Antarctic'', (U ''{127760}'', U ''Ant{225}rtida'')), (U ''Asia'', (U ''{127759}'', U ''{193}sia'')),
      (U ''Europe'', (U ''{127757}'', U ''Europa'')), (U ''Oceania'', (U ''{127759}'', U ''Oceania''))]"

definition SUBREGION_PT :: "(pystr \<times> pystr) list" where
  "SUBREGION_PT =
     [(U ''South America'', U ''Am{233}rica do Sul''), (U ''North America'', U ''Am{233}rica do Norte''),
      (U ''Central America'', U ''Am{233}rica Central''), (U ''Caribbean'', U ''Caribe''),
      (U ''Northern Africa'', U ''{193}frica do Norte''), (U ''Western Africa'', U ''{193}frica Ocidental''),
      (U ''Eastern Africa'', U ''{193}frica Oriental''), (U ''Middle Africa'', U ''{193}frica Central''),
      (U ''Southern Africa'', U ''{193}frica Austral''), (U ''Western Europe'', U ''Europa Ocidental''),
      (U ''Northern Europe'', U ''Europa do Norte''), (U ''Eastern Europe'', U ''Europa do Leste''),
      (U ''Southern Europe'', U ''Europa do Sul''), (U ''Southeast Europe'', U ''Europa do Sudeste''),
      (U ''Central Asia'', U ''{193}sia Central''), (U ''Western Asia'', U ''{193}sia Ocidental''),
      (U ''Eastern Asia'', U ''{193}sia Oriental''), (U ''South Asia'', U ''Sul da {193}sia''),
      (U ''Southeast Asia'', U ''Sudeste Asi{225}tico''), (U ''Melanesia'', U ''Melan{233}sia''),
      (U ''Micronesia'', U ''Micron{233}sia''), (U ''Polynesia'', U ''Polin{233}sia''),
      (U ''Australia and New Zealand'', U ''Austr{225}lia e Nova Zel{226}ndia'')]"

definition LANGUAGE_PT :: "(pystr \<times> pystr) list" where
  "LANGUAGE_PT =
     [(U ''abk'', U ''Abec{225}sio''), (U ''afr'', U ''Afric{226}ner''), (U ''amh'', U ''Am{225}rico''),
      (U ''ara'', U ''{193}rabe''), (U ''arc'', U ''Aramaico''), (U ''aym'', U ''Aimar{225}''),
      (U ''aze'', U ''Azerbaijano''), (U ''bel'', U ''Bielorrusso''), (U ''ben'', U ''Bengali''),
      (U ''bis'', U ''Bislam{225}''), (U ''bjz'', U ''Crioulo belizenho''), (U ''bos'', U ''B{243}snio''),
      (U ''bul'', U ''B{250}lgaro''), (U ''bwg'', U ''Baru{233}''), (U ''cal'', U ''Carol{237}neo''),
      (U ''cat'', U ''Catal{227}o''), (U ''ces'', U ''Tcheco''), (U ''cha'', U ''Chamorro''),
      (U ''ckb'', U ''Curdo central''), (U ''cnr'', U ''Montenegrino''), (U ''crs'', U ''Crioulo seichelense''),
      (U ''dan'', U ''Dinamarqu{234}s''), (U ''deu'', U ''Alem{227}o''), (U ''div'', U ''Divehi''),
      (U ''dzo'', U ''Dzongkha''), (U ''ell'', U ''Grego''), (U ''eng'', U ''Ingl{234}s''),
      (U ''est'', U ''Estoniano''), (U ''eus'', U ''Basco''), (U ''fao'', U ''Fero{234}s''), (U ''fas'', U ''Persa''),
      (U ''fij'', U ''Fijiano''), (U ''fil'', U ''Filipino''), (U ''fin'', U ''Finland{234}s''),
      (U ''fra'', U ''Franc{234}s''), (U ''gil'', U ''Gilbert{234}s''), (U ''gle'', U ''Irland{234}s''),
      (U ''glg'', U ''Galego''), (U ''glv'', U ''Man{234}s''), (U ''grn'', U ''Guarani''),
      (U ''gsw'', U ''Alem{227}o su{237}{231}o''), (U ''hat'', U ''Crioulo haitiano''), (U ''heb'', U ''Hebraico''),
      (U ''her'', U ''Herero''), (U ''hgm'', U ''Hai{8214}om''), (U ''hif'', U ''Hindi fijiano''),
      (U ''hin'', U ''Hindi''), (U ''hmo'', U ''Hiri motu''), (U ''hrv'', U ''Croata''),
      (U ''hun'', U ''H{250}ngaro''), (U ''hye'', U ''Arm{234}nio''), (U ''ind'', U ''Indon{233}sio''),
      (U ''isl'', U ''Island{234}s''), (U ''ita'', U ''Italiano''), (U ''jam'', U ''Pato{225} jamaicano''),
      (U ''jpn'', U ''Japon{234}s''), (U ''kal'', U ''Groenland{234}s''), (U ''kat'', U ''Georgiano''),
      (U ''kaz'', U ''Cazaque''), (U ''kck'', U ''Kalanga''), (U ''khm'', U ''Khmer''),
      (U ''kin'', U ''Quiniaruanda''), (U ''kir'', U ''Quirguiz''), (U ''kon'', U ''Quicongo''),
      (U ''kor'', U ''Coreano''), (U ''kwn'', U ''Kwangali''), (U ''lao'', U ''Laosiano''), (U ''lat'', U ''Latim''),
      (U ''lav'', U ''Let{227}o''), (U ''lin'', U ''Lingala''), (U ''lit'', U ''Lituano''), (U ''loz'', U ''Lozi''),
      (U ''ltz'', U ''Luxemburgu{234}s''), (U ''lua'', U ''Luba-lulua''), (U ''mah'', U ''Marshal{234}s''),
      (U ''mey'', U ''{193}rabe hassania''), (U ''mfe'', U ''Crioulo mauriciano''), (U ''mkd'', U ''Maced{244}nio''),
      (U ''mlg'', U ''Malgaxe''), (U ''mlt'', U ''Malt{234}s''), (U ''mon'', U ''Mongol''), (U ''mri'', U ''Maori''),
      (U ''msa'', U ''Malaio''), (U ''mya'', U ''Birman{234}s''), (U ''nau'', U ''Nauruano''),
      (U ''nbl'', U ''Ndebele do sul''), (U ''ndc'', U ''Ndau''), (U ''nde'', U ''Ndebele do norte''),
      (U ''ndo'', U ''Ndonga''), (U ''nep'', U ''Nepal{234}s''), (U ''niu'', U ''Niueano''),
      (U ''nld'', U ''Holand{234}s''), (U ''nno'', U ''Noruegu{234}s nynorsk''),
      (U ''nob'', U ''Noruegu{234}s bokm{229}l''), (U ''nor'', U ''Noruegu{234}s''), (U ''nrf'', U ''Normando''),
      (U ''nso'', U ''Soto do norte''), (U ''nya'', U ''Chicheua''),
      (U ''nzs'', U ''L{237}ngua de sinais neozelandesa''), (U ''oci'', U ''Aran{234}s''), (U ''oss'', U ''Osseto''),
      (U ''pap'', U ''Papiamento''), (U ''pau'', U ''Palauano''), (U ''pih'', U ''Norfuk''),
      (U ''pol'', U ''Polon{234}s''), (U ''por'', U ''Portugu{234}s''), (U ''pov'', U ''Crioulo da Guin{233}''),
      (U ''prs'', U ''Dari''), (U ''pus'', U ''Pashto''), (U ''que'', U ''Qu{237}chua''),
      (U ''rar'', U ''Maori das Ilhas Cook''), (U ''roh'', U ''Romanche''), (U ''ron'', U ''Romeno''),
      (U ''run'', U ''Kirundi''), (U ''rus'', U ''Russo''), (U ''sag'', U ''Sango''), (U ''sin'', U ''Cingal{234}s''),
      (U ''slk'', U ''Eslovaco''), (U ''slv'', U ''Esloveno''), (U ''sma'', U ''Sami do sul''),
      (U ''sme'', U ''Sami do norte''), (U ''smj'', U ''Sami de Lule''), (U ''smo'', U ''Samoano''),
      (U ''sna'', U ''Xona''), (U ''som'', U ''Somali''), (U ''sot'', U ''Soto''), (U ''spa'', U ''Espanhol''),
      (U ''sqi'', U ''Alban{234}s''), (U ''srp'', U ''S{233}rvio''), (U ''ssw'', U ''Su{225}zi''),
      (U ''swa'', U ''Sua{237}li''), (U ''swe'', U ''Sueco''), (U ''tam'', U ''T{226}mil''),
      (U ''tet'', U ''T{233}tum''), (U ''tgk'', U ''Tadjique''), (U ''tha'', U ''Tailand{234}s''),
      (U ''tir'', U ''Tigr{237}nia''), (U ''tkl'', U ''Toquelauano''), (U ''toi'', U ''Tonga (Z{226}mbia)''),
      (U ''ton'', U ''Tongan{234}s''), (U ''tpi'', U ''Tok pisin''), (U ''tsn'', U ''Tswana''),
      (U ''tso'', U ''Tsonga''), (U ''tuk'', U ''Turcomeno''), (U ''tur'', U ''Turco''), (U ''tvl'', U ''Tuvaluano''),
      (U ''ukr'', U ''Ucraniano''), (U ''urd'', U ''Urdu''), (U ''uzb'', U ''Uzbeque''), (U ''ven'', U ''Venda''),
      (U ''vie'', U ''Vietnamita''), (U ''xho'', U ''Xhosa''), (U ''zdj'', U ''Comoriano ngazidja''),
      (U ''zgh'', U ''Tamazight marroquino''), (U ''zho'', U ''Chin{234}s''),
      (U ''zib'', U ''L{237}ngua de sinais zimbabuana''), (U ''zul'', U ''Zulu'')]"

subsection \<open>The caption\<close>

text \<open>\<open>table.get(v, other)\<close> for a value of JSON as the key, and \<open>v[:n]\<close>.\<close>

definition json_lookup :: "(pystr \<times> 'a) list \<Rightarrow> json \<Rightarrow> (exn, 'w, 'a option) act" where
  "json_lookup table v =
     (case v of JStr s \<Rightarrow> ret (map_of table s) | JArr _ \<Rightarrow> raise type_error | JObj _ \<Rightarrow> raise type_error | _ \<Rightarrow> ret None)"

definition json_take :: "nat \<Rightarrow> json \<Rightarrow> (exn, 'w, json list) act" where
  "json_take n v =
     (case v of JArr xs \<Rightarrow> ret (take n xs) | JStr s \<Rightarrow> ret (map (\<lambda>c. JStr [c]) (take n s)) | _ \<Rightarrow> raise type_error)"

text \<open>
  \<open>f'{n:,}'.replace(',', '.')\<close> for the integers of the service, and \<open>f'{x:.2f}'\<close> for its
  coordinates, which have fewer than four digits before the point.
\<close>

definition dotted_number :: "json \<Rightarrow> (exn, 'w, pystr) act" where
  "dotted_number v = (case v of JNum n \<Rightarrow> ret (replace_str [44] [46] (int_with_commas \<lfloor>n\<rfloor>)) | _ \<Rightarrow> raise type_error)"

definition rounded_number :: "json \<Rightarrow> (exn, 'w, json) act" where
  "rounded_number v = (case v of JNum n \<Rightarrow> ret (JNum (of_int (round_even n))) | _ \<Rightarrow> raise type_error)"

definition fixed_2 :: "json \<Rightarrow> (exn, 'w, pystr) act" where
  "fixed_2 v =
     (case v of JNum n \<Rightarrow> ret (if n < 0 then 45 # two_decimals (- n) else two_decimals n) | _ \<Rightarrow> raise type_error)"

definition get_path :: "json \<Rightarrow> pystr \<Rightarrow> pystr \<Rightarrow> json \<Rightarrow> (exn, 'w, json) act" where
  "get_path v k1 k2 other = bindA (json_get v k1 (JObj [])) (\<lambda>x. json_get x k2 other)"

definition has_flag :: "json \<Rightarrow> (exn, 'w, bool) act" where
  "has_flag country = bindA (get_path country (U ''flag'') (U ''url_png'') JNull) (\<lambda>u. ret (truthy u))"

definition location_line :: "'w web \<Rightarrow> json \<Rightarrow> (exn, 'w, pystr) act" where
  "location_line web country =
     bindA (json_get country (U ''region'') (JStr []))
       (\<lambda>region. bindA (json_lookup REGION_MAP region)
         (\<lambda>info. let place = (case info of Some (emoji, label) \<Rightarrow> emoji @ [32] @ label | None \<Rightarrow> U ''{127760} '' @ fmt web region) in
            bindA (json_get country (U ''subregion'') JNull)
              (\<lambda>subregion. if \<not> truthy subregion then ret place
                 else bindA (json_lookup SUBREGION_PT subregion)
                   (\<lambda>pt. ret (place @ U '' {183} '' @ (case pt of Some t \<Rightarrow> t | None \<Rightarrow> fmt web subregion))))))"

definition language_name :: "json \<Rightarrow> (exn, 'w, pystr) act" where
  "language_name language =
     bindA (json_key language (U ''iso639_3''))
       (\<lambda>code. bindA (json_key language (U ''name''))
         (\<lambda>name. bindA (json_lookup LANGUAGE_PT code)
           (\<lambda>pt. case pt of Some t \<Rightarrow> ret t | None \<Rightarrow> text_of type_error name)))"

definition currency_name :: "'w web \<Rightarrow> json \<Rightarrow> (exn, 'w, pystr) act" where
  "currency_name web currency =
     bindA (json_key currency (U ''name''))
       (\<lambda>name. bindA (json_key currency (U ''code''))
         (\<lambda>code. ret (fmt web name @ U '' ('' @ fmt web code @ U '')'')))"

definition or_na :: "pystr \<Rightarrow> pystr" where
  "or_na s = (if s = [] then U ''N/A'' else s)"

definition listed :: "json \<Rightarrow> pystr \<Rightarrow> (json \<Rightarrow> (exn, 'w, pystr) act) \<Rightarrow> pystr \<Rightarrow> (exn, 'w, pystr) act" where
  "listed country k show_item sep =
     bindA (json_get country k (JArr []))
       (\<lambda>v. bindA (json_items v) (\<lambda>xs. bindA (mapA show_item xs) (\<lambda>ts. ret (or_na (join sep ts)))))"

definition MAX_CALLING_CODES :: nat where "MAX_CALLING_CODES = 3"

definition joined_line :: "json \<Rightarrow> pystr \<Rightarrow> pystr \<Rightarrow> (exn, 'w, pystr list) act" where
  "joined_line country k icon =
     bindA (json_get country k (JArr []))
       (\<lambda>v. if \<not> truthy v then ret []
          else bindA (json_items v) (\<lambda>xs. bindA (mapA (text_of type_error) xs) (\<lambda>ts. ret [icon @ join (U '', '') ts])))"

definition detail_lines :: "'w web \<Rightarrow> json \<Rightarrow> (exn, 'w, pystr list) act" where
  "detail_lines web country =
     bindA (joined_line country (U ''timezones'') (U ''{128336} ''))
       (\<lambda>zones. bindA (get_path country (U ''coordinates'') (U ''lat'') JNull)
         (\<lambda>lat. bindA (get_path country (U ''coordinates'') (U ''lng'') JNull)
           (\<lambda>lng. bindA
              (if lat = JNull \<or> lng = JNull then ret []
               else bindA (fixed_2 lat) (\<lambda>a. bindA (fixed_2 lng) (\<lambda>b. ret [U ''{128205} '' @ a @ U '', '' @ b])))
              (\<lambda>point. bindA (json_get country (U ''calling_codes'') (JArr []))
                (\<lambda>codes. bindA
                   (if \<not> truthy codes then ret []
                    else bindA (json_take MAX_CALLING_CODES codes)
                      (\<lambda>cs. ret [U ''{128222} '' @ join (U '', '') (map (\<lambda>c. 43 # fmt web c) cs)]))
                   (\<lambda>calls. bindA (joined_line country (U ''borders'') (U ''{128506}{65039} ''))
                     (\<lambda>borders. bindA (get_path country (U ''cars'') (U ''driving_side'') (JStr []))
                       (\<lambda>side. bindA
                          (if \<not> truthy side then ret []
                           else bindA (json_lookup DRIVING_SIDE_PT side)
                             (\<lambda>pt. ret [U ''{128663} '' @ (case pt of Some t \<Rightarrow> t | None \<Rightarrow> fmt web side)]))
                          (\<lambda>driving. ret ([] # zones @ point @ calls @ borders @ driving))))))))))"

definition flag_caption :: "'w web \<Rightarrow> json \<Rightarrow> bool \<Rightarrow> (exn, 'w, pystr) act" where
  "flag_caption web country detail =
     bindA (location_line web country)
       (\<lambda>location. bindA (json_get country (U ''capitals'') (JArr []))
         (\<lambda>capitals. bindA
            (if truthy capitals then bindA (json_at capitals 0) (\<lambda>c. bindA (json_key c (U ''name'')) (\<lambda>n. ret (fmt web n)))
             else ret (U ''N/A''))
            (\<lambda>capital. bindA (json_get country (U ''population'') (JNum 0))
              (\<lambda>people. bindA (dotted_number people)
                (\<lambda>population. bindA (get_path country (U ''area'') (U ''kilometers'') (JNum 0))
                  (\<lambda>km. bindA (bindA (rounded_number km) dotted_number)
                    (\<lambda>area. bindA (listed country (U ''languages'') language_name (U '', ''))
                      (\<lambda>languages. bindA (listed country (U ''currencies'') (currency_name web) (U '' / ''))
                        (\<lambda>currencies. bindA (json_get country (U ''names'') (JObj []))
                          (\<lambda>names. bindA (get_path country (U ''flag'') (U ''emoji'') (JStr []))
                            (\<lambda>emoji. bindA (json_get names (U ''common'') JNull)
                              (\<lambda>common. bindA (json_get names (U ''official'') JNull)
                                (\<lambda>official. bindA (json_get names (U ''common'') (JStr []))
                                  (\<lambda>shown. bindA (json_get names (U ''official'') (JStr []))
                                    (\<lambda>shown_official. bindA (if detail then detail_lines web country else ret [])
                                      (\<lambda>details. ret (join [10]
                                         ([[42] @ fmt web shown @ U ''* '' @ fmt web emoji] @
                                          (if official \<noteq> common then [[95] @ fmt web shown_official @ [95]] else []) @
                                          [[], location, U ''{127961}{65039} '' @ capital, U ''{128101} '' @ population @ U '' habitantes'',
                                           U ''{128208} '' @ area @ U '' km{178}'', U ''{128483}{65039} '' @ languages,
                                           U ''{128176} '' @ currencies] @ details))))))))))))))))))"

definition with_names :: "json \<Rightarrow> json \<Rightarrow> (exn, 'w, json) act" where
  "with_names country names =
     (case country of JObj d \<Rightarrow> ret (JObj (AList.update (U ''names'') names d)) | _ \<Rightarrow> raise type_error)"

definition filterA :: "('a \<Rightarrow> (exn, 'w, bool) act) \<Rightarrow> 'a list \<Rightarrow> (exn, 'w, 'a list) act" where
  "filterA p xs = bindA (mapA p xs) (\<lambda>bs. ret (map fst (filter snd (zip xs bs))))"

text \<open>\<open>catalog\<close> is \<open>RestCountriesClient.fetch\<close>, which returns as the theorem below shows.\<close>

definition flag_execute :: "'w web \<Rightarrow> (exn, 'w, json list) act \<Rightarrow> 'w exec" where
  "flag_execute web catalog = (\<lambda>d parsed.
     or_reply
       (bindA catalog
         (\<lambda>countries. bindA (filterA has_flag countries)
           (\<lambda>renderable. if renderable = [] then raise index_error
              else bindA (draw_from (wb_draw web) renderable)
                (\<lambda>drawn. bindA (json_get drawn (U ''names'') (JObj []))
                  (\<lambda>names. bindA (get_path names (U ''translations'') (U ''por'') names)
                    (\<lambda>pt. bindA (with_names drawn pt)
                      (\<lambda>country. bindA (flag_caption web country (U ''detail'' \<in> pc_flags parsed))
                        (\<lambda>caption. bindA (get_path country (U ''flag'') (U ''url_png'') (JStr []))
                          (\<lambda>png. ret [reply_image d (fmt web png) (Some caption)])))))))))
       [reply_text d (U ''Ops, n{227}o achei essa bandeira agora! {127757}'')])"

subsection \<open>Every country is fetched\<close>

definition page_body :: "json list \<Rightarrow> json" where
  "page_body page = JObj [(U ''data'', JObj [(U ''objects'', JArr page)])]"

lemma fetch_page_body:
  assumes "rc_page port PAGE_SIZE offset w = (Inr (200, Some (page_body page)), w')"
  shows "fetch_page port offset w = (Inr page, w')"
proof -
  have "U ''data'' \<noteq> U ''objects''" by code_simp
  with assms show ?thesis
    by (simp add: fetch_page_def bindA_def raise_for_status_def json_of_def json_key_def page_body_def dict_get_def json_items_def ret_def)
qed

text \<open>
  C38: the catalogue is fetched whole.  When the service hands out a list of countries in the slices
  it is asked for, by limit and offset, the loop ends and returns exactly that list, whatever its length, also a multiple of a
  hundred, after one request for every full page and one more.
\<close>

theorem catalogue_is_whole:
  assumes "\<And>limit offset w. rc_page port limit offset w = (Inr (200, Some (page_body (take limit (drop offset objects)))), Suc w)"
  shows "fetch_all port w = Some (Inr objects, w + length objects div 100 + 1)"
proof -
  have "fetch_pages port offset acc w = Some (Inr (acc @ drop offset objects), w + length (drop offset objects) div 100 + 1)" for offset acc w
  proof (induction "length (drop offset objects)" arbitrary: offset acc w rule: less_induct)
    case less
    let ?page = "take 100 (drop offset objects)"
    have page: "fetch_page port offset w = (Inr ?page, Suc w)" by (rule fetch_page_body) (simp add: assms PAGE_SIZE_def)
    show ?case
    proof (cases "length (drop offset objects) < 100")
      case True
      then show ?thesis by (subst fetch_pages.simps) (simp add: page PAGE_SIZE_def)
    next
      case False
      then have rest: "length (drop (offset + 100) objects) < length (drop offset objects)"
        and split: "drop offset objects = ?page @ drop (offset + 100) objects" and div: "length (drop offset objects) div 100 = Suc (length (drop (offset + 100) objects) div 100)"
        by (auto simp: add.commute[of offset] simp flip: drop_drop intro!: append_take_drop_id [symmetric])
      have "fetch_pages port offset acc w = fetch_pages port (offset + 100) (acc @ ?page) (Suc w)"
        using False by (subst fetch_pages.simps) (simp add: page PAGE_SIZE_def)
      also have "\<dots> = Some (Inr ((acc @ ?page) @ drop (offset + 100) objects), Suc w + length (drop (offset + 100) objects) div 100 + 1)"
        by (rule less) (rule rest)
      finally show ?thesis using div by (simp flip: split)
    qed
  qed
  from this [of 0 "[]" w] show ?thesis by (simp add: fetch_all_def)
qed

definition sliced_port :: "json list \<Rightarrow> nat rest_port" where
  "sliced_port objects = \<lparr>rc_page = (\<lambda>limit offset w. (Inr (200, Some (page_body (take limit (drop offset objects)))), Suc w)),
     rc_now = ret 0, rc_cache = ret None, rc_set_cache = (\<lambda>_ _. ret ())\<rparr>"

theorem catalogue_is_whole_witness:
  "fetch_all (sliced_port (replicate 250 JNull)) 0 = Some (Inr (replicate 250 JNull), 3)"
  using catalogue_is_whole [of "sliced_port (replicate 250 JNull)" "replicate 250 JNull" 0]
  by (simp add: sliced_port_def)

end
