(* ===== verification/Archive.thy ===== *)
theory Archive
  imports Web
begin

text \<open>
  The archive of media on Discord: the command \<open>drive\<close> (bot/domain/commands/drive.py, bot/data/drive.py)
  and its service (bot/domain/services/discord.py).  The REST API is a record of actions; a store of
  channels says what the API does with them.
\<close>

subsection \<open>Names of channels\<close>

text \<open>\<open>re.sub(r'\s+', '-', s)\<close>: one dash for every run of white space.\<close>

fun dashes :: "bool \<Rightarrow> pystr \<Rightarrow> pystr" where
  "dashes in_run [] = []"
| "dashes in_run (c # cs) =
     (if is_space c then (if in_run then dashes True cs else 45 # dashes True cs) else c # dashes False cs)"

text \<open>The decomposition without its combining marks, as for the names of the tools.\<close>

definition normalize_name :: "pystr \<Rightarrow> pystr" where
  "normalize_name name = dashes False (concat (map strip_marks_cp (lower name)))"

definition name_matches :: "pystr \<Rightarrow> pystr \<Rightarrow> bool" where
  "name_matches channel_name search_name \<longleftrightarrow>
     (let a = lower channel_name; b = lower search_name in a = b \<or> normalize_name a = normalize_name b)"

subsection \<open>The service\<close>

record dc_channel =
  dc_id :: pystr
  dc_name :: pystr
  dc_type :: nat
  dc_parent :: "pystr option"

record 'w discord_rest =
  dr_channels :: "(exn, 'w, dc_channel list) act"
  dr_create :: "pystr \<Rightarrow> nat \<Rightarrow> pystr option \<Rightarrow> (exn, 'w, dc_channel) act"
  dr_upload :: "pystr \<Rightarrow> pystr \<Rightarrow> bytes \<Rightarrow> (exn, 'w, unit) act"
  dr_now :: "(exn, 'w, int) act"

definition CATEGORY_TYPE :: nat where "CATEGORY_TYPE = 4"
definition TEXT_CHANNEL_TYPE :: nat where "TEXT_CHANNEL_TYPE = 0"

definition find_category :: "dc_channel list \<Rightarrow> pystr \<Rightarrow> dc_channel option" where
  "find_category channels name = find (\<lambda>c. dc_type c = CATEGORY_TYPE \<and> name_matches (dc_name c) name) channels"

definition find_channel :: "dc_channel list \<Rightarrow> pystr \<Rightarrow> pystr \<Rightarrow> dc_channel option" where
  "find_channel channels name parent_id =
     find (\<lambda>c. dc_type c = TEXT_CHANNEL_TYPE \<and> name_matches (dc_name c) name \<and> dc_parent c = Some parent_id) channels"

definition create_category :: "'w discord_rest \<Rightarrow> pystr \<Rightarrow> (exn, 'w, dc_channel) act" where
  "create_category rest name = dr_create rest (normalize_name name) CATEGORY_TYPE None"

definition create_channel :: "'w discord_rest \<Rightarrow> pystr \<Rightarrow> pystr \<Rightarrow> (exn, 'w, dc_channel) act" where
  "create_channel rest name parent_id = dr_create rest (normalize_name name) TEXT_CHANNEL_TYPE (Some parent_id)"

subsection \<open>The command drive\<close>

definition EXTENSIONS :: "(pystr \<times> pystr) list" where
  "EXTENSIONS = [(U ''image'', U ''jpg''), (U ''video'', U ''mp4''), (U ''audio'', U ''ogg'')]"

definition SUPPORTED_MEDIA :: "pystr list" where "SUPPORTED_MEDIA = [U ''image'', U ''video'', U ''audio'']"

definition MIN_PARTS :: nat where "MIN_PARTS = 2"

type_synonym 'w media_port = "(pystr \<Rightarrow> pystr \<Rightarrow> (exn, 'w, bytes) act) option"

text \<open>The place of the upload, or the reply that it is missing; \<open>new\<close> creates what is missing.\<close>

definition upload_category ::
  "'w discord_rest \<Rightarrow> command_data \<Rightarrow> dc_channel list \<Rightarrow> pystr \<Rightarrow> bool \<Rightarrow> (exn, 'w, bot_message + dc_channel) act" where
  "upload_category rest d channels category is_new =
     (case find_category channels category of
        Some c \<Rightarrow> ret (Inr c)
      | None \<Rightarrow>
          if \<not> is_new
          then ret (Inl (reply_text d (U ''Categoria *'' @ category @ U ''* n{227}o encontrada. Use a flag {96}new{96} para criar.'')))
          else bindA (create_category rest category) (\<lambda>c. ret (Inr c)))"

definition upload_channel ::
  "'w discord_rest \<Rightarrow> command_data \<Rightarrow> dc_channel list \<Rightarrow> pystr \<Rightarrow> pystr \<Rightarrow> dc_channel \<Rightarrow> bool \<Rightarrow> (exn, 'w, bot_message + dc_channel) act" where
  "upload_channel rest d channels category channel parent is_new =
     (case find_channel channels channel (dc_id parent) of
        Some c \<Rightarrow> ret (Inr c)
      | None \<Rightarrow>
          if \<not> is_new
          then ret (Inl (reply_text d (U ''Canal *'' @ channel @ U ''* n{227}o encontrado em *'' @ category @
                 U ''*. Use a flag {96}new{96} para criar.'')))
          else bindA (create_channel rest channel (dc_id parent)) (\<lambda>c. ret (Inr c)))"

definition upload_to ::
  "'w discord_rest \<Rightarrow> 'w media_port \<Rightarrow> command_data \<Rightarrow> pystr \<Rightarrow> pystr \<Rightarrow> dc_channel \<Rightarrow> (exn, 'w, bot_message list) act" where
  "upload_to rest whatsapp d category channel target =
     bindA (get_media whatsapp d)
       (\<lambda>buf. case cd_media_type d of
          None \<Rightarrow> ret [reply_text d (U ''Tipo de m{237}dia n{227}o identificado.'')]
        | Some ty \<Rightarrow>
            if ty = [] then ret [reply_text d (U ''Tipo de m{237}dia n{227}o identificado.'')]
            else (case map_of EXTENSIONS ty of
               None \<Rightarrow> raise key_error
             | Some ext \<Rightarrow>
                 bindA (dr_now rest)
                   (\<lambda>now. bindA (dr_upload rest (dc_id target) (ty @ [95] @ show_int now @ [46] @ ext) buf)
                     (\<lambda>_. ret [reply_text d (U ''{9989} M{237}dia salva em *'' @ category @ U ''* > *#'' @ channel @ [42])]))))"

definition execute_upload ::
  "'w discord_rest \<Rightarrow> 'w media_port \<Rightarrow> command_data \<Rightarrow> pystr \<Rightarrow> pystr \<Rightarrow> bool \<Rightarrow> (exn, 'w, bot_message list) act" where
  "execute_upload rest whatsapp d category channel is_new =
     bindA (dr_channels rest)
       (\<lambda>channels. bindA (upload_category rest d channels category is_new)
         (\<lambda>found. case found of
            Inl m \<Rightarrow> ret [m]
          | Inr parent \<Rightarrow>
              bindA (upload_channel rest d channels category channel parent is_new)
                (\<lambda>found. case found of
                   Inl m \<Rightarrow> ret [m]
                 | Inr target \<Rightarrow> upload_to rest whatsapp d category channel target)))"

definition drive_execute :: "'w discord_rest option \<Rightarrow> 'w media_port \<Rightarrow> 'w exec" where
  "drive_execute discord whatsapp = (\<lambda>d parsed.
     let parts = split_ws (strip (pc_rest parsed)) in
     if length parts < MIN_PARTS then ret [reply_text d (U ''Uso: ,drive <categoria> <canal>'')]
     else if \<not> has_media d \<or> cd_media_type d \<notin> Some ` set SUPPORTED_MEDIA
     then ret [reply_text d (U ''Nenhuma m{237}dia encontrada. Envie ou marque uma imagem, v{237}deo ou {225}udio.'')]
     else case discord of
       None \<Rightarrow> ret [reply_text d (U ''Discord n{227}o configurado.'')]
     | Some rest \<Rightarrow>
         or_reply (execute_upload rest whatsapp d (hd parts) (join [32] (tl parts)) (U ''new'' \<in> pc_flags parsed))
           [reply_text d (U ''Erro ao salvar no Drive {128193}'')])"

subsection \<open>Names match what they were made from\<close>

lemma dashes_no_space: "list_all (\<lambda>c. \<not> is_space c) (dashes b s)"
proof (induction s arbitrary: b)
  case (Cons c s)
  have "\<not> is_space 45" by (simp add: is_space_def space_cps_def)
  with Cons show ?case by simp
qed simp

lemma dashes_id: "list_all (\<lambda>c. \<not> is_space c) s \<Longrightarrow> dashes b s = s"
  by (induction s arbitrary: b) simp_all

text \<open>A character that normalisation leaves as it is.\<close>

definition stable_cp :: "nat \<Rightarrow> bool" where
  "stable_cp c \<longleftrightarrow> lower_cp c = c \<and> strip_marks_cp c = [c]"

lemma strip_marks_cases: "strip_marks_cp c = [c] \<or> strip_marks_cp c \<in> {[], [97], [99], [101], [105], [110], [111], [117], [121]}"
  unfolding strip_marks_cp_def unaccent_cp_def by (simp split: if_split)

lemma plain_letters:
  "list_all stable_cp [97, 99, 101, 105, 110, 111, 117, 121]"
  by (simp add: stable_cp_def lower_cp_def strip_marks_cp_def unaccent_cp_def)

lemma strip_lower_stable: "list_all stable_cp (strip_marks_cp (lower_cp c))"
  using strip_marks_cases [of "lower_cp c"] plain_letters by (auto simp: stable_cp_def)

lemma dashes_stable:
  "list_all stable_cp s \<Longrightarrow>
   list_all stable_cp (dashes b s)"
proof (induction s arbitrary: b)
  case (Cons c s)
  have "stable_cp 45" by (simp add: stable_cp_def lower_cp_def strip_marks_cp_def unaccent_cp_def)
  with Cons show ?case by simp
qed simp

lemma normalize_stable: "list_all stable_cp (normalize_name name)"
proof -
  have "list_all stable_cp (concat (map strip_marks_cp (lower name)))"
    using strip_lower_stable by (auto simp: lower_def list_all_iff)
  then show ?thesis unfolding normalize_name_def by (rule dashes_stable)
qed

lemma stable_normalized:
  assumes "list_all stable_cp s" "list_all (\<lambda>c. \<not> is_space c) s"
  shows "lower s = s \<and> normalize_name s = s"
proof -
  have low: "lower s = s" using assms(1) by (induction s) (simp_all add: stable_cp_def)
  moreover have "concat (map strip_marks_cp s) = s" using assms(1) by (induction s) (simp_all add: stable_cp_def)
  ultimately show ?thesis using dashes_id [OF assms(2)] by (simp add: normalize_name_def)
qed

lemma created_name_matches: "name_matches (normalize_name name) name"
proof -
  have "list_all (\<lambda>c. \<not> is_space c) (normalize_name name)" unfolding normalize_name_def by (rule dashes_no_space)
  then have "lower (normalize_name name) = normalize_name name" "normalize_name (normalize_name name) = normalize_name name"
    using stable_normalized normalize_stable by blast+
  moreover have "normalize_name (lower name) = normalize_name name" by (simp add: normalize_name_def)
  ultimately show ?thesis by (simp add: name_matches_def Let_def)
qed


subsection \<open>What was archived is found again\<close>

text \<open>
  A server that keeps the channels it is told to create, after those it has, and the uploads.
  \<open>fresh\<close> chooses the identifier of a new channel.
\<close>

type_synonym archive = "dc_channel list \<times> (pystr \<times> pystr \<times> bytes) list"

definition store_rest :: "(dc_channel list \<Rightarrow> pystr) \<Rightarrow> int \<Rightarrow> archive discord_rest" where
  "store_rest fresh now =
     \<lparr>dr_channels = (\<lambda>(cs, ups). (Inr cs, (cs, ups))),
      dr_create = (\<lambda>name ty parent (cs, ups).
        let c = \<lparr>dc_id = fresh cs, dc_name = name, dc_type = ty, dc_parent = parent\<rparr> in (Inr c, (cs @ [c], ups))),
      dr_upload = (\<lambda>i file b (cs, ups). (Inr (), (cs, ups @ [(i, file, b)]))),
      dr_now = ret now\<rparr>"

lemma found_created:
  "find_category (cs @ cs') name = (case find_category cs name of Some x \<Rightarrow> Some x | None \<Rightarrow> find_category cs' name)"
  "find_channel (cs @ cs') name i = (case find_channel cs name i of Some x \<Rightarrow> Some x | None \<Rightarrow> find_channel cs' name i)"
  "find_category (c # cs) name =
     (if dc_type c = CATEGORY_TYPE \<and> name_matches (dc_name c) name then Some c else find_category cs name)"
  "find_channel (c # cs) name i =
     (if dc_type c = TEXT_CHANNEL_TYPE \<and> name_matches (dc_name c) name \<and> dc_parent c = Some i then Some c else find_channel cs name i)"
  by (simp_all add: find_category_def find_channel_def find_append split: option.split)

text \<open>
  C39: what was archived is found again.  After an upload with \<open>new\<close>, whatever it had to create, the
  same words with or without \<open>new\<close> upload to the same channel and create nothing: capitals,
  accents and spaces in the words make no second category or channel.
\<close>

theorem archive_found_again:
  assumes "cd_media_buffer d = Some b" "cd_media_type d = Some ty" "map_of EXTENSIONS ty = Some ext"
  shows "\<exists>reply cs' target file.
    execute_upload (store_rest fresh now) whatsapp d category channel True (cs, ups) =
      (Inr [reply], (cs', ups @ [(target, file, b)])) \<and>
    execute_upload (store_rest fresh now) whatsapp d category channel is_new (cs', ups2) =
      (Inr [reply], (cs', ups2 @ [(target, file, b)]))"
proof -
  have ty: "ty \<noteq> []" using assms(3) by (auto simp: EXTENSIONS_def str_simps)
  have to: "upload_to (store_rest fresh now) whatsapp d category channel target (cs, ups) =
      (Inr [reply_text d (U ''{9989} M{237}dia salva em *'' @ category @ U ''* > *#'' @ channel @ [42])],
       (cs, ups @ [(dc_id target, ty @ [95] @ show_int now @ [46] @ ext, b)]))" for target cs ups
    using assms ty by (simp add: upload_to_def get_media_def store_rest_def bindA_def ret_def)
  note defs = execute_upload_def upload_category_def upload_channel_def create_category_def create_channel_def
  show ?thesis
    using to
    by (cases "find_category cs category"; cases "find_channel cs channel (dc_id (the (find_category cs category)))";
        cases "find_channel cs channel (fresh cs)")
      (simp_all add: defs store_rest_def bindA_def ret_def Let_def found_created created_name_matches CATEGORY_TYPE_def TEXT_CHANNEL_TYPE_def)
qed

definition archived_image :: command_data where
  "archived_image = (CommandData [] [] [])\<lparr>cd_media_buffer := Some [1], cd_media_type := Some (U ''image'')\<rparr>"

theorem archive_found_again_witness:
  "\<exists>reply cs' target file.
    execute_upload (store_rest (\<lambda>_. [49]) 0) None archived_image (U ''Fotos'') (U ''Ch{225} da tarde'') True ([], []) =
      (Inr [reply], (cs', [] @ [(target, file, [1])])) \<and>
    execute_upload (store_rest (\<lambda>_. [49]) 0) None archived_image (U ''Fotos'') (U ''Ch{225} da tarde'') False (cs', []) =
      (Inr [reply], (cs', [] @ [(target, file, [1])]))"
  by (rule archive_found_again [of _ _ "U ''image''" "U ''jpg''"]) (simp_all add: archived_image_def EXTENSIONS_def)

end
