(* ===== verification/Hitomi.thy ===== *)
theory Hitomi
  imports Web Mention_Command
begin

text \<open>
  The gallery source Hitomi (bot/domain/services/hentai/hitomi_scraper.py): a random page of an index
  of big-endian integers is asked for by its range of bytes, one of its identifiers is drawn, and the
  gallery is read from a script.
\<close>

subsection \<open>The index\<close>

definition HITOMI_PAGE_SIZE :: nat where "HITOMI_PAGE_SIZE = 25"
definition INT_SIZE :: nat where "INT_SIZE = 4"
definition GALLERY_JS_PREFIX_LEN :: nat where "GALLERY_JS_PREFIX_LEN = 18"

text \<open>\<open>struct.unpack('>i', b)\<close> on four bytes.\<close>

definition unpack_int :: "bytes \<Rightarrow> int" where
  "unpack_int b =
     (let n = foldl (\<lambda>a x. a * 256 + x) 0 b in if n < 2 ^ 31 then int n else int n - 2 ^ 32)"

fun index_ids :: "nat \<Rightarrow> bytes \<Rightarrow> int list" where
  "index_ids 0 data = []"
| "index_ids (Suc n) data = unpack_int (take 4 data) # index_ids n (drop 4 data)"

text \<open>
  \<open>hi_index\<close> answers with a range of bytes: the header \<open>content-range\<close> and the body; \<open>hi_script\<close> is
  the text of the script of a gallery, \<open>hi_loads\<close> is \<open>json.loads\<close>, and \<open>hi_str\<close> is \<open>str\<close>.
\<close>

record 'w hitomi_port =
  hi_index :: "nat \<times> nat \<Rightarrow> (exn, 'w, pystr \<times> bytes) act"
  hi_draw :: "(exn, 'w, nat) act"
  hi_script :: "int \<Rightarrow> (exn, 'w, pystr) act"
  hi_loads :: "pystr \<Rightarrow> json option"
  hi_str :: "json \<Rightarrow> pystr"

definition parse_total_ids :: "pystr \<Rightarrow> exn + nat" where
  "parse_total_ids content_range =
     (let total_str = last (split_on 47 content_range) in
      if 47 \<in> set content_range \<and> str_isdigit total_str
      then (case py_int total_str of None \<Rightarrow> Inl value_error | Some n \<Rightarrow> Inr (n div INT_SIZE))
      else Inr HITOMI_PAGE_SIZE)"

definition page_range :: "nat \<Rightarrow> nat \<times> nat" where
  "page_range start = (start * INT_SIZE, start * INT_SIZE + (HITOMI_PAGE_SIZE * INT_SIZE - 1))"

definition draw_gallery_id :: "'w hitomi_port \<Rightarrow> (exn, 'w, int) act" where
  "draw_gallery_id port =
     bindA (hi_index port (page_range 0))
       (\<lambda>(content_range, first). case parse_total_ids content_range of
          Inl e \<Rightarrow> raise e
        | Inr total_ids \<Rightarrow>
            bindA
              (if total_ids > HITOMI_PAGE_SIZE
               then bindA (hi_draw port)
                 (\<lambda>i. bindA (hi_index port (page_range (i mod (total_ids - HITOMI_PAGE_SIZE + 1)))) (\<lambda>(_, data). ret data))
               else ret first)
              (\<lambda>data. let ids = index_ids (length data div INT_SIZE) data in
                 if ids = [] then raise (Raised ExternalServiceError (U ''Hitomi returned empty gallery index''))
                 else draw_from (hi_draw port) ids))"

subsection \<open>The gallery\<close>

definition thumbnail_url :: "pystr \<Rightarrow> exn + pystr" where
  "thumbnail_url file_hash =
     (if file_hash = [] then Inl index_error
      else Inr (U ''https://tn.gold-usergeneratedcontent.net/webpsmalltn/'' @ [last file_hash] @ [47] @
        drop (length file_hash - 3) (butlast file_hash) @ [47] @ file_hash @ U ''.webp''))"

text \<open>\<open>[a[k] for a in raw.get(field) or []]\<close>.\<close>

definition field_list :: "json \<Rightarrow> pystr \<Rightarrow> pystr \<Rightarrow> (exn, 'w, json list) act" where
  "field_list raw field k =
     bindA (json_get raw field JNull)
       (\<lambda>v. if \<not> truthy v then ret [] else bindA (json_items v) (mapA (\<lambda>a. json_key a k)))"

definition hi_fmt :: "'w hitomi_port \<Rightarrow> json \<Rightarrow> pystr" where
  "hi_fmt port v = (case v of JStr s \<Rightarrow> s | _ \<Rightarrow> hi_str port v)"

definition hi_or :: "'w hitomi_port \<Rightarrow> json \<Rightarrow> pystr \<Rightarrow> pystr" where
  "hi_or port v other = (if truthy v then hi_fmt port v else other)"

definition retrieve_gallery :: "'w hitomi_port \<Rightarrow> int \<Rightarrow> (exn, 'w, hentai_gallery) act" where
  "retrieve_gallery port gallery_id =
     bindA (hi_script port gallery_id)
       (\<lambda>script. bindA (json_of (hi_loads port (drop GALLERY_JS_PREFIX_LEN script)))
         (\<lambda>raw. bindA (field_list raw (U ''artists'') (U ''artist''))
           (\<lambda>artists. bindA (field_list raw (U ''groups'') (U ''group''))
             (\<lambda>groups. bindA (field_list raw (U ''tags'') (U ''tag''))
               (\<lambda>tags. bindA (json_get raw (U ''language'') JNull)
                 (\<lambda>language. bindA (json_get raw (U ''type'') JNull)
                   (\<lambda>ty. bindA (json_get raw (U ''date'') (JStr []))
                     (\<lambda>date. bindA (text_of type_error date)
                       (\<lambda>date. bindA (json_key raw (U ''files''))
                         (\<lambda>files. bindA (json_at files 0)
                           (\<lambda>file. bindA (json_key file (U ''hash''))
                             (\<lambda>hash. bindA (text_of type_error hash)
                               (\<lambda>hash. bindA (case thumbnail_url hash of Inl e \<Rightarrow> raise e | Inr u \<Rightarrow> ret u)
                                 (\<lambda>cover. bindA (json_items files)
                                   (\<lambda>pages. bindA (json_get raw (U ''title'') (JStr []))
                                     (\<lambda>title. bindA (json_get raw (U ''japanese_title'') JNull)
                                       (\<lambda>japanese. ret
                                          \<lparr>hg_title = hi_fmt port title,
                                           hg_japanese_title = (if japanese = JNull then None else Some (hi_fmt port japanese)),
                                           hg_artists = map (hi_fmt port) artists, hg_groups = map (hi_fmt port) groups,
                                           hg_tags = map (hi_fmt port) tags, hg_type = hi_or port ty (U ''manga''),
                                           hg_language = hi_or port language (U ''unknown''), hg_pages = int (length pages),
                                           hg_date = take 7 date, hg_cover_url = cover,
                                           hg_cover_headers = [(U ''Referer'', U ''https://hitomi.la/'')],
                                           hg_url = U ''https://hitomi.la/galleries/'' @ show_int gallery_id @ U ''.html'',
                                           hg_hidden_tags = []\<rparr>)))))))))))))))))"

definition hitomi_fetch :: "'w hitomi_port \<Rightarrow> (exn, 'w, hentai_gallery) act" where
  "hitomi_fetch port = bindA (draw_gallery_id port) (retrieve_gallery port)"

subsection \<open>Only galleries of the index are drawn\<close>

definition pack_int :: "int \<Rightarrow> bytes" where
  "pack_int i = (let n = nat (i mod 2 ^ 32) in [n div 2 ^ 24, n div 2 ^ 16 mod 256, n div 2 ^ 8 mod 256, n mod 256])"

lemma length_pack_int [simp]: "length (pack_int i) = 4"
  by (simp add: pack_int_def Let_def)

lemma unpack_pack_int:
  assumes "- (2 ^ 31) \<le> i" "i < 2 ^ 31"
  shows "unpack_int (pack_int i) = i"
proof -
  define n where "n = nat (i mod 2 ^ 32)"
  have "n div 2 ^ 24 = n div 65536 div 256" "n div 65536 = n div 256 div 256"
    by (simp_all add: div_mult2_eq [symmetric])
  then have "((n div 2 ^ 24 * 256 + n div 2 ^ 16 mod 256) * 256 + n div 2 ^ 8 mod 256) * 256 + n mod 256 = n"
    using div_mult_mod_eq [of "n div 65536" 256] div_mult_mod_eq [of "n div 256" 256] div_mult_mod_eq [of n 256] by simp
  moreover have p: "pack_int i = [n div 2 ^ 24, n div 2 ^ 16 mod 256, n div 2 ^ 8 mod 256, n mod 256]"
    by (simp only: pack_int_def n_def Let_def)
  ultimately have "foldl (\<lambda>a x. a * 256 + x) 0 (pack_int i) = n" by simp
  then have "unpack_int (pack_int i) = (if n < 2 ^ 31 then int n else int n - 2 ^ 32)"
    by (simp only: unpack_int_def Let_def)
  moreover have "int n = (if i < 0 then i + 2 ^ 32 else i)"
    using assms mod_add_self2 [of i "2 ^ 32"] mod_pos_pos_trivial [of "i + 2 ^ 32" "2 ^ 32"] mod_pos_pos_trivial [of i "2 ^ 32"]
    unfolding n_def by auto
  ultimately show ?thesis using assms by auto
qed


definition index_bytes :: "int list \<Rightarrow> bytes" where
  "index_bytes ids = concat (map pack_int ids)"

lemma length_index_bytes: "length (index_bytes ids) = 4 * length ids"
  by (induction ids) (simp_all add: index_bytes_def)

lemma index_bytes_part: "take (4 * m) (drop (4 * p) (index_bytes ids)) = index_bytes (take m (drop p ids))"
proof -
  have drop: "drop (4 * p) (index_bytes ids) = index_bytes (drop p ids)" for p ids
    by (induction ids arbitrary: p) (auto simp: index_bytes_def drop_Cons split: nat.split)
  have "take (4 * m) (index_bytes ids) = index_bytes (take m ids)" for m ids
    by (induction ids arbitrary: m) (auto simp: index_bytes_def take_Cons split: nat.split)
  with drop show ?thesis by simp
qed

lemma index_ids_bytes:
  "list_all (\<lambda>i. - (2 ^ 31) \<le> i \<and> i < 2 ^ 31) ids \<Longrightarrow> index_ids (length ids) (index_bytes ids) = ids"
  by (induction ids) (simp_all add: index_bytes_def unpack_pack_int)

text \<open>The answer to a range of bytes: what there is of it, and the size of the whole.\<close>

definition serve_range :: "bytes \<Rightarrow> nat \<times> nat \<Rightarrow> (exn, 'w, pystr \<times> bytes) act" where
  "serve_range content = (\<lambda>(a, b). ret
     (U ''bytes '' @ show_nat a @ [45] @ show_nat b @ [47] @ show_nat (length content), take (b + 1 - a) (drop a content)))"

lemma page_served:
  "serve_range (index_bytes ids) (page_range p) w =
     (Inr (U ''bytes '' @ show_nat (4 * p) @ [45] @ show_nat (4 * p + 99) @ [47] @ show_nat (4 * length ids),
           index_bytes (take 25 (drop p ids))), w)"
  using index_bytes_part [of 25 p ids]
  by (simp add: serve_range_def page_range_def INT_SIZE_def HITOMI_PAGE_SIZE_def length_index_bytes ret_def mult.commute)


lemma show_nat_length: "n < 10 ^ k \<Longrightarrow> 0 < k \<Longrightarrow> length (show_nat n) \<le> k"
proof (induction n arbitrary: k rule: show_nat.induct)
  case (1 n)
  show ?case
  proof (cases "n < 10")
    case True
    with 1 show ?thesis by (subst show_nat.simps) simp
  next
    case False
    then obtain j where k: "k = Suc j" "0 < j" using 1 by (cases k; cases "k - 1") auto
    with 1 have "n div 10 < 10 ^ j" by (simp add: less_mult_imp_div_less mult.commute)
    with 1 False k show ?thesis by (subst show_nat.simps) simp
  qed
qed

lemma served_total:
  assumes "4 * length ids < 10 ^ 100"
  shows "parse_total_ids (U ''bytes '' @ show_nat a @ [45] @ show_nat b @ [47] @ show_nat (4 * length ids)) = Inr (length ids)"
proof -
  let ?pre = "U ''bytes '' @ show_nat a @ [45] @ show_nat b" and ?n = "show_nat (4 * length ids)"
  have digits: "47 \<notin> set (show_nat m)" for m using show_nat_digits [of m] by (auto simp: list_all_iff)
  then have "47 \<notin> set ?pre" by (simp add: str_simps)
  then have "last (split_on 47 (?pre @ 47 # ?n)) = ?n"
    using digits [of "4 * length ids"] by (simp add: split_on_append split_on_free del: append_assoc)
  moreover have "str_isdigit ?n" using show_nat_digits [of "4 * length ids"] by (auto simp: str_isdigit_def list_all_iff ascii_digit)
  moreover have "length ?n \<le> max_str_digits"
    using show_nat_length [OF assms] by (simp add: max_str_digits_def)
  ultimately show ?thesis by (simp add: parse_total_ids_def py_int_show INT_SIZE_def Let_def)
qed

text \<open>
  C40: only galleries of the index are drawn.  When the index of identifiers, written as four bytes
  each, is served by ranges, the identifier that is drawn is one of them, whatever page and entry the
  random numbers choose, for an index shorter than a page as well.
\<close>

theorem hitomi_draws_from_index:
  assumes "list_all (\<lambda>i. - (2 ^ 31) \<le> i \<and> i < 2 ^ 31) ids" "ids \<noteq> []" "4 * length ids < 10 ^ 100"
    and "hi_index port = serve_range (index_bytes ids)" and "\<And>w. \<exists>n w'. hi_draw port w = (Inr n, w')"
  shows "\<exists>i w'. draw_gallery_id port w = (Inr i, w') \<and> i \<in> set ids"
proof -
  have drawn: "\<exists>i w'. (let found = index_ids (length (index_bytes part) div INT_SIZE) (index_bytes part) in
      if found = [] then raise (Raised ExternalServiceError e) else draw_from (hi_draw port) found) w = (Inr i, w') \<and> i \<in> set ids"
    if "part \<noteq> []" "set part \<subseteq> set ids" for part e w
  proof -
    have "index_ids (length part) (index_bytes part) = part"
      using assms(1) that(2) by (intro index_ids_bytes) (auto simp: list_all_iff)
    moreover obtain n w' where "hi_draw port w = (Inr n, w')" using assms(5) by blast
    ultimately show ?thesis
      using that by (auto simp: length_index_bytes INT_SIZE_def draw_from_def bindA_def ret_def Let_def)
  qed
  define header where "header p = U ''bytes '' @ show_nat (4 * p) @ [45] @ show_nat (4 * p + 99) @ [47] @ show_nat (4 * length ids)" for p
  have page: "hi_index port (page_range p) v = (Inr (header p, index_bytes (take 25 (drop p ids))), v)" for p v
    unfolding assms(4) header_def by (rule page_served)
  have total: "parse_total_ids (header p) = Inr (length ids)" for p
    unfolding header_def by (rule served_total [OF assms(3)])
  show ?thesis
  proof (cases "HITOMI_PAGE_SIZE < length ids")
    case True
    obtain n w1 where n: "hi_draw port w = (Inr n, w1)" using assms(5) by blast
    let ?p = "n mod (length ids - HITOMI_PAGE_SIZE + 1)"
    have "?p < length ids - HITOMI_PAGE_SIZE + 1" by simp
    also have "\<dots> \<le> length ids" using True by (simp add: HITOMI_PAGE_SIZE_def)
    finally have "take 25 (drop ?p ids) \<noteq> []" by simp
    moreover have "set (take 25 (drop ?p ids)) \<subseteq> set ids" by (meson order_trans set_drop_subset set_take_subset)
    ultimately show ?thesis
      using drawn [of "take 25 (drop ?p ids)" "U ''Hitomi returned empty gallery index''" w1] True
      unfolding draw_gallery_id_def by (simp add: bindA_def [of "hi_index port _"] bindA_def [of "hi_draw port"] bindA_def page total n ret_def Let_def)
  next
    case False
    then have "take 25 ids = ids" by (simp add: HITOMI_PAGE_SIZE_def)
    with False show ?thesis
      using drawn [of ids "U ''Hitomi returned empty gallery index''" w] assms(2) page [of 0]
      by (simp add: draw_gallery_id_def bindA_def total ret_def Let_def)
  qed
qed


definition two_galleries :: "unit hitomi_port" where
  "two_galleries = \<lparr>hi_index = serve_range (index_bytes [5, - 1]), hi_draw = ret 1, hi_script = (\<lambda>_. ret []),
     hi_loads = (\<lambda>_. None), hi_str = (\<lambda>_. [])\<rparr>"

theorem hitomi_draws_from_index_witness:
  "\<exists>i w'. draw_gallery_id two_galleries () = (Inr i, w') \<and> i \<in> set [5, - 1]"
  by (rule hitomi_draws_from_index) (simp_all add: two_galleries_def ret_def)

end
