(* ===== verification/Lottery.thy ===== *)
theory Lottery
  imports Web
begin

text \<open>
  The command \<open>bicho\<close> (bot/domain/commands/lottery.py, bot/data/bicho.py).  The page is read by an HTML
  library: the model starts at the rows of the table of a draw.
\<close>

subsection \<open>The draws\<close>

definition DRAWS :: "(pystr \<times> pystr) list" where
  "DRAWS =
     [(U ''PPT'', U ''PPT 9h''), (U ''PTM'', U ''PTM 11h''), (U ''PT'', U ''PT 14h''), (U ''PTV'', U ''PTV 16h''),
      (U ''PTN'', U ''PTN 18h''), (U ''COR'', U ''Coruja 21h'')]"

definition ARG_TO_DRAW_ID :: "(pystr \<times> pystr) list" where
  "ARG_TO_DRAW_ID =
     [(U ''ppt'', U ''PPT''), (U ''ptm'', U ''PTM''), (U ''pt'', U ''PT''), (U ''ptv'', U ''PTV''),
      (U ''ptn'', U ''PTN''), (U ''cor'', U ''COR'')]"

definition BICHO_EMOJIS :: "(pystr \<times> pystr) list" where
  "BICHO_EMOJIS =
     [(U ''Avestruz'', U ''{129436}''), (U ''{193}guia'', U ''{129413}''), (U ''Burro'', U ''{128052}''),
      (U ''Borboleta'', U ''{129419}''), (U ''Cachorro'', U ''{128054}''), (U ''Cabra'', U ''{128016}''),
      (U ''Carneiro'', U ''{128017}''), (U ''Camelo'', U ''{128042}''), (U ''Cobra'', U ''{128013}''),
      (U ''Coelho'', U ''{128007}''), (U ''Cavalo'', U ''{128014}''), (U ''Elefante'', U ''{128024}''),
      (U ''Galo'', U ''{128019}''), (U ''Gato'', U ''{128049}''), (U ''Jacar{233}'', U ''{128010}''),
      (U ''Le{227}o'', U ''{129409}''), (U ''Macaco'', U ''{128018}''), (U ''Porco'', U ''{128055}''),
      (U ''Pav{227}o'', U ''{129434}''), (U ''Peru'', U ''{129411}''), (U ''Touro'', U ''{128002}''),
      (U ''Tigre'', U ''{128047}''), (U ''Urso'', U ''{128059}''), (U ''Veado'', U ''{129420}''),
      (U ''Vaca'', U ''{128004}'')]"

definition PRIZE_EMOJIS :: "pystr list" where
  "PRIZE_EMOJIS =
     [U ''1{65039}{8419}'', U ''2{65039}{8419}'', U ''3{65039}{8419}'', U ''4{65039}{8419}'', U ''5{65039}{8419}'']"

text \<open>
  A row: the number of its cells, the text of the cell of class \<open>dnp-milhar\<close>, and those of the links
  in the third and in the last cell.  A block: whether it is marked as published, and its table, with
  the rows of the body.
\<close>

record bicho_row =
  br_cells :: nat
  br_milhar :: "pystr option"
  br_third :: "pystr option"
  br_last :: "pystr option"

record bicho_block =
  bb_published :: bool
  bb_table :: "bicho_row list option option"

record prize =
  pz_milhar :: pystr
  pz_animal :: pystr
  pz_group :: nat
  pz_emoji :: pystr

record bicho_draw =
  bd_id :: pystr
  bd_label :: pystr
  bd_published :: bool
  bd_prizes :: "prize list"

text \<open>
  \<open>lt_page\<close> gets a page: its status and its blocks by identifier.  \<open>lt_date\<close> is the date in UTC of so
  many days ago.
\<close>

record 'w lottery_port =
  lt_page :: "pystr \<Rightarrow> (exn, 'w, nat \<times> (pystr \<Rightarrow> bicho_block option)) act"
  lt_date :: "nat \<Rightarrow> (exn, 'w, date) act"

definition BICHO_URL :: pystr where "BICHO_URL = U ''https://www.eojogodobicho.com/deu-no-poste.html''"
definition DEFAULT_REGION :: pystr where "DEFAULT_REGION = U ''rio''"
definition MIN_COLUMNS :: nat where "MIN_COLUMNS = 3"

definition or_nothing :: "pystr option \<Rightarrow> pystr" where
  "or_nothing t = (case t of None \<Rightarrow> [] | Some s \<Rightarrow> s)"

definition parse_prize_row :: "bicho_row \<Rightarrow> exn + prize option" where
  "parse_prize_row row =
     (let milhar = or_nothing (br_milhar row);
          group_text = (if MIN_COLUMNS \<le> br_cells row then or_nothing (br_third row) else []);
          animal = (if 0 < br_cells row then or_nothing (br_last row) else [])
      in if milhar = [] \<or> animal = [] \<or> \<not> str_isdigit group_text then Inr None
         else (case py_int group_text of
                 None \<Rightarrow> Inl value_error
               | Some n \<Rightarrow> Inr (Some \<lparr>pz_milhar = milhar, pz_animal = animal, pz_group = n,
                   pz_emoji = (case map_of BICHO_EMOJIS animal of None \<Rightarrow> U ''{128062}'' | Some e \<Rightarrow> e)\<rparr>)))"

fun prize_rows :: "bicho_row list \<Rightarrow> exn + prize list" where
  "prize_rows [] = Inr []"
| "prize_rows (row # rows) =
     (case parse_prize_row row of
        Inl e \<Rightarrow> Inl e
      | Inr found \<Rightarrow> map_sum id (\<lambda>ps. (case found of None \<Rightarrow> ps | Some p \<Rightarrow> p # ps)) (prize_rows rows))"

definition parse_prizes :: "bicho_block \<Rightarrow> exn + prize list" where
  "parse_prizes block =
     (case bb_table block of
        None \<Rightarrow> Inr []
      | Some None \<Rightarrow> Inl attribute_error
      | Some (Some rows) \<Rightarrow> prize_rows rows)"

definition draw_of :: "(pystr \<Rightarrow> bicho_block option) \<Rightarrow> pystr \<times> pystr \<Rightarrow> exn + bicho_draw" where
  "draw_of blocks = (\<lambda>(i, label).
     let block = blocks (U ''bloco-'' @ i);
         published = (case block of None \<Rightarrow> False | Some b \<Rightarrow> bb_published b)
     in map_sum id (\<lambda>ps. \<lparr>bd_id = i, bd_label = label, bd_published = published, bd_prizes = ps\<rparr>)
          (case block of None \<Rightarrow> Inr [] | Some b \<Rightarrow> if published then parse_prizes b else Inr []))"

definition fetch_draws :: "'w lottery_port \<Rightarrow> pystr \<Rightarrow> (exn, 'w, bicho_draw list) act" where
  "fetch_draws port url =
     bindA (lt_page port url)
       (\<lambda>(status, blocks). bindA (raise_for_status status)
         (\<lambda>_. mapA (\<lambda>info. case draw_of blocks info of Inl e \<Rightarrow> raise e | Inr draw \<Rightarrow> ret draw) DRAWS))"

subsection \<open>The replies\<close>

definition date_with :: "pystr \<Rightarrow> date \<Rightarrow> pystr" where
  "date_with sep t = zfill 2 (dt_day t) @ sep @ zfill 2 (dt_month t) @ sep @ zfill 4 (dt_year t)"

definition prize_line :: "nat \<Rightarrow> prize \<Rightarrow> pystr" where
  "prize_line i p =
     (if i < length PRIZE_EMOJIS then PRIZE_EMOJIS ! i else show_nat (i + 1) @ [58]) @ U ''  '' @ pz_milhar p @ U '' {183} '' @
     pz_emoji p @ U '' *'' @ pz_animal p @ U ''* (grupo '' @ show_nat (pz_group p) @ [41]"

definition format_draw :: "'w lottery_port \<Rightarrow> command_data \<Rightarrow> bicho_draw \<Rightarrow> bool \<Rightarrow> (exn, 'w, bot_message) act" where
  "format_draw port d draw yesterday =
     bindA (lt_date port (if yesterday then 1 else 0))
       (\<lambda>t. ret (reply_text d (join [10]
          ([U ''{127922} *Jogo do Bicho {8212} '' @ bd_label draw @ [42] @ (if yesterday then U '' (ontem)'' else []),
            U ''{128197} '' @ date_with [47] t, []] @
           map (\<lambda>(i, p). prize_line i p) (zip [0..<length (bd_prizes draw)] (bd_prizes draw))))))"

definition NOTHING_PUBLISHED :: pystr where
  "NOTHING_PUBLISHED = U ''Nenhum sorteio publicado ainda hoje. {127922}''"

definition fallback_yesterday :: "'w lottery_port \<Rightarrow> command_data \<Rightarrow> pystr \<Rightarrow> (exn, 'w, bot_message list) act" where
  "fallback_yesterday port d region =
     bindA (lt_date port 1)
       (\<lambda>t. let url = U ''https://www.eojogodobicho.com/resultados/'' @ region @ U ''/resultados-do-bicho-'' @ date_with [45] t @ U ''.html'' in
          bindA
            (handleA
              (bindA (fetch_draws port url)
                (\<lambda>draws. let published = filter bd_published draws in
                   if published = [] then ret None else bindA (format_draw port d (last published) True) (\<lambda>m. ret (Some m))))
              (\<lambda>e. if is_http_error e \<or> is_value_error e \<or> e = key_error then ret None else raise e))
            (\<lambda>found. ret [case found of Some m \<Rightarrow> m | None \<Rightarrow> reply_text d NOTHING_PUBLISHED]))"

definition lottery_execute :: "'w lottery_port \<Rightarrow> 'w exec" where
  "lottery_execute port = (\<lambda>d parsed.
     or_reply
       (let region = (case dict_get (pc_options parsed) (U ''regiao'') of None \<Rightarrow> DEFAULT_REGION | Some r \<Rightarrow> r) in
        bindA (fetch_draws port BICHO_URL)
          (\<lambda>draws. let arg = strip (lower (pc_rest parsed)) in
             if arg \<noteq> []
             then (case find (\<lambda>x. Some (bd_id x) = map_of ARG_TO_DRAW_ID arg) draws of
                     None \<Rightarrow> ret [reply_text d NOTHING_PUBLISHED]
                   | Some draw \<Rightarrow>
                       if \<not> bd_published draw
                       then ret [reply_text d (U ''Sorteio '' @ bd_label draw @ U '' ainda n{227}o foi publicado. {9203}'')]
                       else bindA (format_draw port d draw False) (\<lambda>m. ret [m]))
             else let published = filter bd_published draws in
               if published \<noteq> [] then bindA (format_draw port d (last published) False) (\<lambda>m. ret [m])
               else fallback_yesterday port d region))
       [reply_text d (U ''Erro ao buscar resultados do Jogo do Bicho. Tente novamente! {127922}'')])"

text \<open>
  The region is looked at in the fallback only: while a draw of the day is published, the answer is
  the same for every region.
\<close>

lemma region_ignored_today:
  assumes "fetch_draws port BICHO_URL = ret draws" "filter bd_published draws \<noteq> []" "pc_rest p = pc_rest q"
  shows "lottery_execute port d p = lottery_execute port d q"
  using assms unfolding lottery_execute_def or_reply_def by (simp add: fun_eq_iff Let_def handleA_def bindA_def ret_def)

end
