(* ===== verification/Games.thy ===== *)
theory Games
  imports Market Content_Filter Colony
begin

text \<open>
  The commands that need no service, or only one call: \<open>d20\<close>, \<open>jackpot\<close>, \<open>mateus\<close>, \<open>oi\<close>, \<open>adm\<close>,
  \<open>fuck\<close> and \<open>extrair\<close>, all in bot/domain/commands, with their tables in bot/data.
\<close>

subsection \<open>Tables\<close>

definition SLOT_SYMBOLS :: "pystr list" where
  "SLOT_SYMBOLS =
     [U ''{127826}'', U ''{127819}'', U ''{127818}'', U ''{127815}'', U ''{128276}'', U ''{128142}'',
      U ''7{65039}{8419}'', U ''{127808}'']"

definition JACKPOT_MESSAGE :: pystr where "JACKPOT_MESSAGE = U ''JACKPOT! {127881}{127881}{127881}''"

definition PARTIAL_WIN_MESSAGE :: pystr where "PARTIAL_WIN_MESSAGE = U ''Quase l{225}! Duas iguais! {128527}''"

definition LOSS_MESSAGE :: pystr where "LOSS_MESSAGE = U ''Tente novamente! {128546}''"

definition PROBABILITY_TIERS :: "(rat \<times> pystr) list" where
  "PROBABILITY_TIERS =
     [(100, U ''A probabilidade de Mateus nascer agora {233} de {123}prob{125} % {9760}{65039}{10}MATEUS J{193} EST{193} AQUI!!! {128680}{128680}{128680}''),
      (95, U ''A probabilidade de Mateus nascer agora {233} de {123}prob{125} % {128128}{10}Bem-vindo de volta Mateus!!! {129325}''),
      (90, U ''A probabilidade de Mateus nascer agora {233} de {123}prob{125} % {129397}{10}{201} melhor levar o capacete! {129686}''),
      (80, U ''A probabilidade de Mateus nascer agora {233} de {123}prob{125} % {128548}{10}Alerta! Fechem as janelas! {128274}''),
      (75, U ''A probabilidade de Mateus nascer agora {233} de {123}prob{125} % {128560}{10}T{225} ficando perigoso... {128680}''),
      (65, U ''A probabilidade de Mateus nascer agora {233} de {123}prob{125} % {128556}{10}Sentiu aquele cheiro? {128067}''),
      (50, U ''A probabilidade de Mateus nascer agora {233} de {123}prob{125} % {128563}{10}Cara ou coroa! {129689}''),
      (40, U ''A probabilidade de Mateus nascer agora {233} de {123}prob{125} % {128528}{10}Avistamentos suspeitos... {128373}{65039}''),
      (25, U ''A probabilidade de Mateus nascer agora {233} de {123}prob{125} % {128524}{10}T{225} tranquilo por enquanto... {127811}''),
      (15, U ''A probabilidade de Mateus nascer agora {233} de {123}prob{125} % {128566}{10}N{227}o h{225} sinais de vida. {128225}''),
      (10, U ''A probabilidade de Mateus nascer agora {233} de {123}prob{125} % {128564}{10}Mateus t{225} de f{233}rias! {127958}{65039}''),
      (5, U ''A probabilidade de Mateus nascer agora {233} de {123}prob{125} % {129765}{10}Mateus? Quem? {129335}''),
      (0, U ''A probabilidade de Mateus nascer agora {233} de {123}prob{125} % {129398}{10}Mateus entrou em hiberna{231}{227}o! {129482}'')]"

definition SWEARINGS :: "pystr list" where
  "SWEARINGS =
     [U ''arrombado'', U ''antisemita'', U ''baba-ovo'', U ''babaca'', U ''baitola'', U ''besta'', U ''bluepill'',
      U ''bicha'', U ''buceta'', U ''boco'', U ''boiola'', U ''boqueteiro'', U ''cuz{227}o'', U ''bosta'',
      U ''bost{227}o'', U ''punheteiro'', U ''maluco'', U ''broxa'', U ''burro'', U ''uma cadela'', U ''cag{227}o'',
      U ''canalha'', U ''uma xereca'', U ''chifrudo'', U ''coc{244}'', U ''corno manso'', U ''corno'', U ''cornudo'',
      U ''corrupto'', U ''cretino'', U ''cringe'', U ''um cu'', U ''cuzao'', U ''debiloide'', U ''demonio'',
      U ''doido'', U ''mongol'', U ''escroto'', U ''um resto de aborto'', U ''adotado'', U ''a vergonha da familia'',
      U ''estupido'', U ''fedido'', U ''lixo'', U ''feio'', U ''feioso'', U ''fudido'', U ''furada'', U ''gay'',
      U ''gosmento'', U ''homossexual'', U ''idiota'', U ''imbecil'', U ''ladrao'', U ''leproso'', U ''monkey flip'',
      U ''macaco'', U ''animal'', U ''anta'', U ''merda'', U ''merdinha'', U ''merdona'', U ''mijo'', U ''moleque'',
      U ''nojento'', U ''otario'', U ''paspalhao'', U ''paspalho'', U ''pentelho'', U ''cancer'', U ''um saco'',
      U ''pilantra'', U ''piranha'', U ''um porra'', U ''uma prostituta'', U ''puxa-saco'', U ''filha da puta'',
      U ''crackudo'', U ''integrante do stoneland'', U ''biscate'', U ''puxasaco'', U ''lambe saco'', U ''retardado'',
      U ''rid{237}culo'', U ''torador de jumenta'', U ''trouxa'', U ''petista'', U ''comunista'', U ''nazista'',
      U ''liberal'', U ''neoliberal'', U ''bolsonarista'', U ''vagabundo'', U ''peida xerequinha'',
      U ''energ{250}meno'', U ''igual seu pai de calcinha'', U ''viado'', U ''viadao'', U ''shitpost'',
      U ''baixista'', U ''tchola'', U ''feio igual um satan{225}s'', U ''falso'', U ''maconheiro'',
      U ''sapo feio da besta fera'', U ''drogado'', U ''usu{225}rio de crack'', U ''ningu{233}m'',
      U ''oferenda pra iemanj{225}'', U ''bob{227}o'', U ''youtuber'', U ''tiktoker'', U ''estrume'',
      U ''escondido no arm{225}rio'', U ''horr{237}vel'', U ''mamador do governo'', U ''pau mandado'']"

subsection \<open>Dice and reels\<close>

text \<open>
  \<open>random\<close>: \<open>gm_draw\<close> is an integer, taken modulo the number of outcomes, and \<open>gm_uniform\<close> is
  \<open>random.uniform(0, 101)\<close>.
\<close>

record 'w dice_port =
  gm_draw :: "(exn, 'w, nat) act"
  gm_uniform :: "(exn, 'w, rat) act"

definition DICE_SIDES :: nat where "DICE_SIDES = 20"

definition d20_execute :: "'w dice_port \<Rightarrow> 'w exec" where
  "d20_execute port = (\<lambda>d parsed.
     bindA (gm_draw port)
       (\<lambda>n. ret [reply_text d (U ''Aqui est{225} sua rolada: '' @ show_nat (n mod DICE_SIDES + 1) @ U '' {127922}'')]))"

definition REEL_COUNT :: nat where "REEL_COUNT = 3"

text \<open>\<open>Counter(reels).most_common(1)[0][1]\<close>: how often the most frequent symbol occurs.\<close>

definition most_common :: "pystr list \<Rightarrow> nat" where
  "most_common reels = fold max (map (count_list reels) reels) 0"

definition evaluate_reels :: "pystr list \<Rightarrow> pystr" where
  "evaluate_reels reels =
     (if most_common reels = 3 then JACKPOT_MESSAGE
      else if most_common reels = 2 then PARTIAL_WIN_MESSAGE else LOSS_MESSAGE)"

definition jackpot_execute :: "'w dice_port \<Rightarrow> 'w exec" where
  "jackpot_execute port = (\<lambda>d parsed.
     bindA (mapA (\<lambda>_. draw_from (gm_draw port) SLOT_SYMBOLS) [0..<REEL_COUNT])
       (\<lambda>reels. ret [reply_text d
          (U ''{127920} *JACKPOT* {127920}{10}{9556}'' @ replicate 10 9552 @ U ''{9559}{10}    '' @
           reels ! 0 @ U '' {9474} '' @ reels ! 1 @ U '' {9474} '' @ reels ! 2 @
           U ''{10}{9562}'' @ replicate 10 9552 @ U ''{9565}{10}'' @ evaluate_reels reels)]))"

text \<open>The first tier whose threshold is reached; the number has two decimals and a comma.\<close>

definition mateus_execute :: "'w dice_port \<Rightarrow> 'w exec" where
  "mateus_execute port = (\<lambda>d parsed.
     bindA (gm_uniform port)
       (\<lambda>raw. let probability = replace_str [46] [44] (two_decimals raw) in
          case find (\<lambda>(threshold, _). threshold \<le> raw) PROBABILITY_TIERS of
            None \<Rightarrow> raise (OtherExn (U ''RuntimeError''))
          | Some (_, template) \<Rightarrow> ret [reply_text d (replace_str (U ''{123}prob{125}'') probability template)]))"

subsection \<open>Greetings and mentions\<close>

definition greeting :: "pystr \<Rightarrow> pystr" where
  "greeting mention =
     U ''Oi '' @ mention @ U ''! {128075} Que bom te ver! Manda ,menu que eu te mostro tudo que sei fazer {128516}''"

definition or_name :: "pystr option \<Rightarrow> pystr \<Rightarrow> pystr" where
  "or_name name other = (case name of None \<Rightarrow> other | Some n \<Rightarrow> if n = [] then other else n)"

definition format_mention :: "command_data \<Rightarrow> pystr" where
  "format_mention d =
     (if cd_platform d = Some DISCORD then U ''<@'' @ cd_sender_jid d @ U ''>'' else or_name (cd_push_name d) (U ''amigo''))"

definition sender_of :: "command_data \<Rightarrow> pystr" where
  "sender_of d = or_name (cd_participant d) (cd_sender_jid d)"

definition oi_execute :: "'w exec" where
  "oi_execute = (\<lambda>d parsed.
     if cd_platform d \<in> {Some DISCORD, Some TELEGRAM} then ret [reply_text d (greeting (format_mention d))]
     else if \<not> cd_is_group d then ret [reply_text d (greeting (or_name (cd_push_name d) (U ''voc{234}'')))]
     else ret [reply_text_with d (greeting (64 # strip_jid (sender_of d))) [sender_of d]])"

definition adm_execute :: "(pystr \<Rightarrow> (exn, 'w, event_member list) act) \<Rightarrow> (exn, 'w, nat) act \<Rightarrow> 'w exec" where
  "adm_execute participants draw = (\<lambda>d parsed.
     bindA (participants (cd_jid d))
       (\<lambda>ps. let admins = map em_id (filter truthy_admin ps) in
          bindA (draw_from draw SWEARINGS)
            (\<lambda>swearing. ret [reply_text_with d
               (U ''Fala, administra{231}{227}o! {128527}{10}Voc{234} {233} '' @ swearing @ [10] @
                concat (map (\<lambda>i. 64 # strip_jid i @ [32]) admins)) admins])))"

definition fuck_execute :: "'w gif_port \<Rightarrow> 'w exec" where
  "fuck_execute port = (\<lambda>d parsed.
     let sender = sender_of d;
         mentioned = (case cd_mentioned_jids d of [] \<Rightarrow> [] | j # _ \<Rightarrow> j)
     in bindA (random_media port (U ''Sex'') True)
          (\<lambda>media. ret [reply_raw d
             [(U ''viewOnce'', JBool True), (U ''video'', JObj [(U ''url'', JStr (rm_url media))]),
              (U ''mentions'', JArr [JStr sender, JStr mentioned]),
              (U ''caption'', JStr (64 # strip_jid sender @ U '' est{225} fudendo @'' @ strip_jid mentioned @ U '' {128553}''))]]))"

subsection \<open>Stickers back to images\<close>

definition extract_execute ::
  "(pystr \<Rightarrow> pystr \<Rightarrow> (exn, 'w, bytes) act) option \<Rightarrow> (bytes \<Rightarrow> (exn, 'w, bytes) act) \<Rightarrow> (bytes \<Rightarrow> (exn, 'w, bytes) act) \<Rightarrow> 'w exec" where
  "extract_execute whatsapp convert_to_gif convert_to_png = (\<lambda>d parsed.
     if cd_media_type d \<noteq> Some (U ''sticker'') \<or> cd_media_source d \<noteq> Some (U ''quoted'')
     then ret [reply_text d (U ''Responda a um sticker pra eu extrair a imagem! {128522}'')]
     else handleA
       (bindA (get_media whatsapp d)
         (\<lambda>buf. if cd_media_is_animated d
            then bindA (convert_to_gif buf) (\<lambda>gif. ret [reply_video_buffer d gif None True])
            else bindA (convert_to_png buf) (\<lambda>png. ret [reply_image_buffer d png None])))
       (\<lambda>e. if is_exception e then ret [reply_text d (U ''N{227}o consegui extrair a imagem do sticker {128517}'')] else raise e))"

text \<open>Every draw of \<open>random.uniform(0, 101)\<close> falls into a tier.\<close>

lemma mateus_has_tier:
  assumes "0 \<le> raw"
  shows "find (\<lambda>(threshold, _). threshold \<le> raw) PROBABILITY_TIERS \<noteq> None"
  using assms by (auto simp: PROBABILITY_TIERS_def find_None_iff)

end
