(* ===== verification/Spec2Isabelle.thy ===== *)
theory Spec2Isabelle
  imports Parser_Props Delivery Guards Mention_Race Mention_Command Group_Admin Ranking Audio Lineup Birthdays Telegram Discord
    Content_Filter Download Broker Football Opgg_Facts Web_Commands Countries Archive Hitomi Lottery Games
begin

text \<open>
  Resenhazord 2: a chat bot for WhatsApp, Telegram and Discord, written in Python under src/bot.

  The program.  A message reaches the bot from one of three platforms.  The WhatsApp gateway puts
  it on a queue, from which bot/adapters/broker takes it, answers it once and routes failures along
  a ladder of retries; Telegram and Discord call an adapter of their own (bot/adapters/telegram,
  bot/adapters/discord).  The handler (bot/application/command_handler.py) asks the language model
  when the bot was mentioned, finds the command in the registry (command_registry.py), asks the
  gate whether the sender may run it here (command_gate.py, with the configuration of the chat,
  config_service.py), and runs it (\<open>Command.run\<close> in bot/domain/commands/base.py) once or a few
  times.  A command reads its text with the parser (bot/domain/parsers) and returns messages, which
  each platform renders.  The agent (bot/infrastructure/llm, bot/application) keeps a conversation
  per chat, chooses examples, calls the model and turns its tool call into the text of a command.

  How it is modelled.  A Python string is a list of code points (Prelude), a regular expression a
  value of a backtracking matcher (Regex).  A coroutine is an action: a function from the world
  to a result or exception and the new world, \<open>(exn, 'w, 'a) act\<close> (Prelude), composed by \<open>bindA\<close>,
  \<open>handleA\<close> and \<open>mapA\<close>.  A service that a component calls (MongoDB, Redis, the Bot API, HTTP,
  the model) is a field of a record of actions, so that every theorem holds for whatever it does;
  where the code relies on what it does, the documents are modelled (mention lists, birthdays,
  developers, the SQL tables of the configuration, the Lua script of the budget) and an
  interpretation of a locale says that they keep the contract.  Components that interleave are
  step functions on an explicit state (Delivery, Config_Cache, Mention_Race), or coroutines that an
  event loop resumes at their awaits (Broker).

  The theories, with the code they model:

    \<^item> Prelude, Regex: strings, case, digits, white space, actions, \<open>re\<close>.
    \<^item> Messages: exceptions.py, jid.py, models/command_data.py, models/contents, models/message.py,
      builders/reply.py.
    \<^item> Parser, Parser_Facts, Parser_Props: parsers/command_parser.py, command_parser_regex.py and the
      configuration of a command.  No word of a text is lost or invented; a plain text is read back.
    \<^item> Registry, Selection: command_registry.py.  What \<open>get_strategy\<close> returns; the index agrees with
      the scan; the selection decided from the names of the commands.
    \<^item> Chat_Config, Config_Cache, Config_Editor: config_service.py, config_store.py, config_tables.py,
      cached_config_store.py, config_editor.py, commands/config.py, group_admin.py.  The locale
      \<open>config_store\<close> is interpreted by the SQL store and by the cache; the editor refines a map of
      policies and overrides; a stale entry lives no longer than its time to live.
    \<^item> Command_Run, Handler: base.py, command_text.py, command_gate.py, agent_routing.py,
      command_handler.py.  What a run reports, the batch, who is refused and why; \<open>adds\<close> counts the
      commands an action can run.
    \<^item> Delivery, Guards: adapters/broker, scripts/replay_dlq.py; token_budget.py,
      agent_rate_limiter.py, throttled_agent.py, command_inbox.py, platform_supervisor.py.  Over all interleavings, one exclusive
      command at a time, and one reply per message, plus one for every mishap (a crash, a mark lost, a
      check that Redis does not answer, a publish that fails although the broker took it); the consumer
      and its retries answer every message when the publishes arrive; what was debited before a call
      that the budget admits is bounded by the elapsed time; an outage of Redis lets messages through.
    \<^item> Conversation, Agent, Agent_Turn: models/conversation.py, confirmation_reply.py,
      agent_response.py, example_selector.py, llm_command_mapper.py, agent_graph_nodes.py,
      graph_orchestrator.py.  A turn always ends with an answer; a yes runs exactly what was shown.
    \<^item> Commands, Catalogue: the 53 commands of register_commands.py with their configurations;
      commands/menu.py, llm/tools.py, example_bank.py.  Every name reaches its command.
    \<^item> Mentions, Mention_Race, Mention_Command: domain/services/mentions, commands/group_mentions.py.
      The locale of the collection is interpreted by the documents; creates at the same time.
    \<^item> Group_Admin, Ranking, Audio, Developers: commands ban, add, anime, filme, audio, dev.
    \<^item> Birthdays: birthday_book.py, birthday_calendar.py, commands/birthday.py,
      birthday_scheduler.py.  The book refines a map; who is greeted, on which day, and when not;
      a chat is greeted once a day, plus once for every turn in which Redis does not keep its claim.
    \<^item> Lineup: football_formations.py, lineup_assigner.py, lineup_builder.py.  The greedy assignment.
    \<^item> Preprocess, Adapters, Telegram_Render, Telegram, Discord: message_preprocess.py and the two
      adapters.  Names and signatures, the gate before every command; the HTML of the replies of
      commands has only the tags of the formatter, while the agent path passes neither formatter nor gate.
    \<^item> Colony: idempotent_counter.py, borges.py, roman_numerals.py, steal_group.py, group_welcome.py,
      group_event_consumer.py.  A redelivery is counted once; the bot never demotes a group's owner.
    \<^item> Content_Filter: minors_filter.py, redgifs.py, rule34_images.py, hentai.py.  What is sent passed
      the denylist.
    \<^item> Scores: espn.py, score_formatter.py, score.py, football_standings.py.  Sections keep whole
      competitions; a table ranks every team once.
    \<^item> Sticker: sticker/media_format.py, sticker_creator.py, the two encoders of sticker, commands/sticker.py.
      The durations of a container are read back; a sticker fits and keeps the time of its animation.
    \<^item> Download: ytdlp.py, x_photos.py, mp4.py, commands/download.py, the GET of http_client.py.  Every failure
      has the answer of its row in the table; only vetted hosts, and what they redirect to, are asked.
    \<^item> Broker: infrastructure/broker.py, the start of the consumers, whatsapp/broker_client.py.  The
      event for which the drain waits is set exactly when no callback is in progress, whatever is thrown
      into the callbacks; the actions of a takeover are queued in order.
    \<^item> Team_Match, Market, Football: team_name_matcher.py, market_dataset.py, team_caption_builder.py,
      full_lineup_builder.py, fifa_ratings.py, thesportsdb.py, commands time and jogador.  The names of
      clubs are paired stably; the lists of the market are rankings.
    \<^item> Web, Web_Commands: reading JSON as Python does; translator.py, and the commands torah, biblia, alcorao,
      fatos, comida, horoscopo, carta, puppy and bicho with their captions and fallbacks.
    \<^item> Opgg, Opgg_Facts: opgg_client.py, commands/league_of_legends.py.  The format of the service is
      read back.
    \<^item> Countries: restcountries_client.py, commands/country_flag.py.  The catalogue is fetched whole.
    \<^item> Archive: domain/services/discord.py, commands/drive.py.  What was archived is found again.
    \<^item> Hitomi, Lottery, Games: hitomi_scraper.py; lottery.py; d20.py, jackpot.py, mateus.py, oi.py, adm.py,
      fuck.py, extract.py.

  Bounds and fuel.  \<open>run_graph\<close> stops after the 25 nodes the graph library allows; \<open>turn_completes\<close>
  shows that a turn needs fewer.  A batch runs at most 5 times, a message has at most 3 attempts.
  \<open>findall\<close> and the substitutions of Regex run on the length of the text, which each match shortens.
  \<open>add_random_phone\<close> and \<open>stay_connected\<close> loop without bound in the code and run on fuel here: the
  result \<open>None\<close> is an exhausted fuel.  \<open>fetch_pages\<close> is a partial function, whose \<open>None\<close> is a loop
  that never ends; \<open>catalogue_is_whole\<close> shows that it ends.  The other loops are structural recursions or have a measure.
  Times, balances and rates are exact rationals or integers.

  Not modelled.  The connections themselves (aio-pika, MongoDB, Redis, SQL, HTTP, python-telegram-bot,
  discord.py, LangGraph) and the wiring of the application (adapters/http, settings, migrations);
  traces, metrics and logs, on which no reply depends; the commands over the remaining web services
  (music, beer, cars and their prices, currencies, the moon, games, porno and the collectible cards), beyond
  their configuration, because what they do is the format of that service or floating point;
  drawing, and what Pillow, ffmpeg and yt-dlp do with their arguments; the loop that repeats the typing signal of
  Telegram; the cancellation of tasks when a platform stops; the WhatsApp gateway, which is TypeScript.
  Concurrent awaits inside one component (\<open>gather\<close>, task groups) run in the order of their list where
  each writes a place of its own.
\<close>

end
